(* ===== verification/Prelude.thy ===== *)
theory Prelude
  imports Main
begin

text \<open>
  Shared vocabulary of the development: the names of the model's basic types, the errors the
  services raise, the outcome of reading a field of an untrusted JSON object, and the lemma
  collections the component theories extend.

  A Python \<open>str\<close> is represented by the list of its UTF-8 bytes (type \<open>string\<close>), so that
  \<open>length s\<close> is \<open>len(s.encode())\<close>; where the code counts code points the model uses
  \<open>char_count\<close>. A UUID is its 128-bit value, a time is a number of microseconds since the epoch.
\<close>

section \<open>Basic types\<close>

type_synonym uuid = nat
type_synonym instant = int
type_synonym pystr = string

text \<open>The exceptions that carry an HTTP status and a stable code (the classes
  \<open>CheckpointProblem\<close>, \<open>ConversationProblem\<close>, \<open>DelegationProblem\<close>, \<open>ConfigurationProblem\<close>
  of the services) are \<open>Problem status code\<close>; the detail text, a constant fixed by the code, is
  left out. \<open>Coded\<close> is an exception class of the program that carries a code only. The others are
  exceptions of Python and of the database driver that leave the service as internal errors.\<close>

datatype exc =
    Problem nat pystr
  | Coded pystr pystr
  | Unique_violation
  | Check_violation
  | Value_error
  | Key_error
  | Type_error
  | Attribute_error
  | Runtime_error
  | Recursion_error
  | Backend_failure
  | Timeout_failure

text \<open>Reading a field of a JSON object and converting it: the field is missing or falsy, the
  conversion raises, or it yields a value.\<close>

datatype 'a fld = Missing | Malformed | Good 'a

fun fld_value :: "'a fld \<Rightarrow> 'a option" where
  "fld_value (Good a) = Some a"
| "fld_value Missing = None"
| "fld_value Malformed = None"

section \<open>Strings\<close>

text \<open>The number of code points of a string given by its UTF-8 bytes: the bytes that are not
  continuation bytes.\<close>

definition continuation_byte :: "char \<Rightarrow> bool" where
  "continuation_byte c \<longleftrightarrow> 128 \<le> (of_char c :: nat) \<and> (of_char c :: nat) < 192"

definition char_count :: "pystr \<Rightarrow> nat" where
  "char_count s = length (filter (\<lambda>c. \<not> continuation_byte c) s)"

lemma char_count_le_length: "char_count s \<le> length s"
  by (simp add: char_count_def)

section \<open>Outcomes\<close>

text \<open>A database transaction either commits with a value and the new state, or raises and is
  rolled back, so that a failing transaction has no state of its own.\<close>

type_synonym ('a, 's) tx = "exc + ('a \<times> 's)"

named_theorems frame_simps \<open>which tables and columns an operation leaves alone\<close>
named_theorems inv_intros \<open>preservation of the components' invariants\<close>

lemma sum_case_Inr_iff [simp]:
  "(case x of Inl e \<Rightarrow> Inl e | Inr a \<Rightarrow> f a) = Inr b \<longleftrightarrow> (\<exists>a. x = Inr a \<and> f a = Inr b)"
  by (cases x) auto

lemma if_Inl_eq_Inr_iff [simp]:
  "(if c then Inl e else y) = Inr b \<longleftrightarrow> \<not> c \<and> y = Inr b"
  by auto

lemma committed_obtains:
  assumes "\<not> isl r"
  obtains a s where "r = Inr (a, s)"
  using assms by (cases r) auto

end
