(* ===== verification/Tables.thy ===== *)
theory Tables
  imports Prelude
begin

text \<open>
  Database tables as lists of rows in insertion order. A \<open>SELECT ... WHERE key = $1\<close> over a
  primary key is \<open>row_by\<close>, an \<open>UPDATE ... WHERE\<close> is \<open>update_where\<close>, an \<open>INSERT\<close> appends a row
  (its unique constraints are checked by the operation that inserts) and a \<open>DELETE ... WHERE\<close>
  is \<open>delete_where\<close>. All of them compute.
\<close>

section \<open>Operations\<close>

definition row_by :: "('r \<Rightarrow> 'k) \<Rightarrow> 'k \<Rightarrow> 'r list \<Rightarrow> 'r option" where
  "row_by key k t = find (\<lambda>r. key r = k) t"

definition has_row :: "('r \<Rightarrow> 'k) \<Rightarrow> 'k \<Rightarrow> 'r list \<Rightarrow> bool" where
  "has_row key k t \<longleftrightarrow> row_by key k t \<noteq> None"

definition update_where :: "('r \<Rightarrow> bool) \<Rightarrow> ('r \<Rightarrow> 'r) \<Rightarrow> 'r list \<Rightarrow> 'r list" where
  "update_where P f t = map (\<lambda>r. if P r then f r else r) t"

definition delete_where :: "('r \<Rightarrow> bool) \<Rightarrow> 'r list \<Rightarrow> 'r list" where
  "delete_where P t = filter (\<lambda>r. \<not> P r) t"

definition count_where :: "('r \<Rightarrow> bool) \<Rightarrow> 'r list \<Rightarrow> nat" where
  "count_where P t = length (filter P t)"

text \<open>\<open>SELECT max(f)\<close> with \<open>coalesce(..., 0)\<close>.\<close>

definition max_of :: "('r \<Rightarrow> nat) \<Rightarrow> 'r list \<Rightarrow> nat" where
  "max_of f t = fold (\<lambda>r m. max (f r) m) t 0"

section \<open>Lookup\<close>

lemma find_SomeD: "find P t = Some r \<Longrightarrow> r \<in> set t \<and> P r"
  by (induction t) (auto split: if_splits)

lemma find_NoneD: "find P t = None \<Longrightarrow> r \<in> set t \<Longrightarrow> \<not> P r"
  by (induction t) (auto split: if_splits)

lemma row_by_Nil [simp]: "row_by key k [] = None"
  by (simp add: row_by_def)

lemma row_by_Cons [simp]:
  "row_by key k (r # t) = (if key r = k then Some r else row_by key k t)"
  by (simp add: row_by_def)

lemma row_by_append:
  "row_by key k (t @ u) = (case row_by key k t of None \<Rightarrow> row_by key k u | Some r \<Rightarrow> Some r)"
  by (induction t) auto

lemma row_by_snoc:
  "row_by key k (t @ [r]) =
     (case row_by key k t of None \<Rightarrow> (if key r = k then Some r else None) | Some x \<Rightarrow> Some x)"
  by (simp add: row_by_append split: option.split)

lemma row_by_SomeD: "row_by key k t = Some r \<Longrightarrow> r \<in> set t \<and> key r = k"
  by (induction t) (auto split: if_splits)

lemma row_by_None_iff: "row_by key k t = None \<longleftrightarrow> k \<notin> key ` set t"
  by (induction t) auto

lemma has_row_iff: "has_row key k t \<longleftrightarrow> k \<in> key ` set t"
  using row_by_None_iff [of key k t] by (auto simp: has_row_def)

lemma has_row_Cons [simp]: "has_row key k (r # t) \<longleftrightarrow> key r = k \<or> has_row key k t"
  by (simp add: has_row_def)

lemma has_row_Nil [simp]: "\<not> has_row key k []"
  by (simp add: has_row_def)

lemma has_row_append [simp]: "has_row key k (t @ u) \<longleftrightarrow> has_row key k t \<or> has_row key k u"
  by (auto simp: has_row_iff)

lemma row_by_unique:
  assumes "distinct (map key t)" and "r \<in> set t"
  shows "row_by key (key r) t = Some r"
  using assms by (induction t) (auto simp: image_iff)

section \<open>Updates\<close>

lemma update_where_Nil [simp]: "update_where P f [] = []"
  by (simp add: update_where_def)

lemma update_where_Cons [simp]:
  "update_where P f (r # t) = (if P r then f r else r) # update_where P f t"
  by (simp add: update_where_def)

lemma update_where_append [simp]:
  "update_where P f (t @ u) = update_where P f t @ update_where P f u"
  by (simp add: update_where_def)

lemma length_update_where [simp]: "length (update_where P f t) = length t"
  by (simp add: update_where_def)

lemma update_where_never [simp]: "update_where (\<lambda>_. False) f t = t"
  by (simp add: update_where_def)

lemma in_update_where:
  "r \<in> set (update_where P f t) \<longleftrightarrow> (\<exists>q \<in> set t. r = (if P q then f q else q))"
  by (auto simp: update_where_def)

lemma map_key_update_where:
  assumes "\<And>r. P r \<Longrightarrow> key (f r) = key r"
  shows "map key (update_where P f t) = map key t"
  using assms by (induction t) auto

lemma keys_update_where:
  assumes "\<And>r. P r \<Longrightarrow> key (f r) = key r"
  shows "key ` set (update_where P f t) = key ` set t"
  using arg_cong [OF map_key_update_where [of P key f t, OF assms], of set] by simp

lemma has_row_update_where:
  assumes "\<And>r. P r \<Longrightarrow> key (f r) = key r"
  shows "has_row key k (update_where P f t) \<longleftrightarrow> has_row key k t"
  using assms by (induction t) auto

text \<open>An update that keeps the key column acts row by row on lookups.\<close>

lemma row_by_update_where:
  assumes "\<And>r. P r \<Longrightarrow> key (f r) = key r"
  shows "row_by key k (update_where P f t) =
    map_option (\<lambda>r. if P r then f r else r) (row_by key k t)"
  using assms by (induction t) auto

lemma row_by_update_other:
  assumes "\<And>r. key (f r) = key r" and "\<And>r. P r \<Longrightarrow> key r \<noteq> k"
  shows "row_by key k (update_where P f t) = row_by key k t"
  using assms by (induction t) auto

section \<open>Deletion and counting\<close>

lemma in_delete_where [simp]: "r \<in> set (delete_where P t) \<longleftrightarrow> r \<in> set t \<and> \<not> P r"
  by (auto simp: delete_where_def)

lemma count_where_Nil [simp]: "count_where P [] = 0"
  by (simp add: count_where_def)

lemma count_where_Cons [simp]:
  "count_where P (r # t) = (if P r then Suc (count_where P t) else count_where P t)"
  by (simp add: count_where_def)

lemma count_where_append [simp]:
  "count_where P (t @ u) = count_where P t + count_where P u"
  by (simp add: count_where_def)

lemma count_where_0_iff: "count_where P t = 0 \<longleftrightarrow> (\<forall>r \<in> set t. \<not> P r)"
  by (auto simp: count_where_def filter_empty_conv)

lemma count_where_mono:
  "(\<And>r. r \<in> set t \<Longrightarrow> P r \<Longrightarrow> Q r) \<Longrightarrow> count_where P t \<le> count_where Q t"
  by (induction t) auto

section \<open>Maxima\<close>

lemma max_of_fold: "fold (\<lambda>r m. max (f r) m) t (m::nat) = max (max_of f t) m"
proof (induction t arbitrary: m)
  case Nil
  then show ?case by (simp add: max_of_def)
next
  case (Cons r t)
  show ?case using Cons [of "max (f r) m"] Cons [of "max (f r) 0"]
    by (simp add: max_of_def)
qed

lemma max_of_Nil [simp]: "max_of f [] = 0"
  by (simp add: max_of_def)

lemma max_of_Cons [simp]: "max_of f (r # t) = max (f r) (max_of f t)"
  using max_of_fold [of f t "f r"] by (simp add: max_of_def max.commute)

lemma max_of_append [simp]: "max_of f (t @ u) = max (max_of f t) (max_of f u)"
  by (induction t) auto

lemma max_of_ge: "r \<in> set t \<Longrightarrow> f r \<le> max_of f t"
  by (induction t) auto

section \<open>Gap-free numbering\<close>

definition gap_free :: "nat list \<Rightarrow> bool" where
  "gap_free xs \<longleftrightarrow> xs = [1..<Suc (length xs)]"

lemma gap_free_Nil [simp]: "gap_free []"
  by (simp add: gap_free_def)

lemma gap_free_snoc: "gap_free xs \<Longrightarrow> gap_free (xs @ [Suc (length xs)])"
  unfolding gap_free_def by (metis One_nat_def append_Cons append_Nil2 le_add1 length_append_singleton
      plus_1_eq_Suc upt_Suc_append)

lemma max_of_gap_free: "gap_free (map f xs) \<Longrightarrow> max_of f xs = length xs"
proof -
  have "map f xs = [1..<Suc n] \<Longrightarrow> max_of f xs = n" for n
  proof (induction n arbitrary: xs)
    case (Suc n)
    then obtain ys y where "xs = ys @ [y]" "map f ys = [1..<Suc n]" "f y = Suc n"
      by (auto simp: map_eq_append_conv)
    then show ?case using Suc.IH [of ys] by simp
  qed simp
  then show "gap_free (map f xs) \<Longrightarrow> max_of f xs = length xs"
    by (simp add: gap_free_def)
qed

lemma gap_free_distinct: "gap_free xs \<Longrightarrow> distinct xs"
  unfolding gap_free_def by (metis distinct_upt)

lemma gap_free_sorted: "gap_free xs \<Longrightarrow> sorted xs"
  unfolding gap_free_def by (metis sorted_upt)

lemma gap_free_set: "gap_free xs \<Longrightarrow> set xs = {1..length xs}"
  unfolding gap_free_def by (metis atLeastLessThanSuc_atLeastAtMost set_upt)

end
