(* ===== verification/Contracts.thy ===== *)
theory Contracts
  imports Tables
begin

text \<open>
  The interfaces the services rely on, stated once: a command keyed by an idempotency key
  (\<open>idempotent_op\<close>, and \<open>idempotent_service\<close> when other operations run between a command and
  its retry) and a consumer of at-least-once event deliveries (\<open>event_inbox\<close>). Each component
  interprets the locale on its own definitions.
\<close>

section \<open>Commands with an idempotency key\<close>

text \<open>\<open>run k q x s\<close> executes the request \<open>q\<close> under key \<open>k\<close> with the environment values
  \<open>x\<close> (fresh identifiers, the clock). \<open>stored s k\<close> is the record kept for the key: the digest of
  the request and the identity of what it produced. \<open>admits\<close> collects the guards the code
  evaluates before it looks the key up.\<close>

locale idempotent_op =
  fixes run :: "'k \<Rightarrow> 'q \<Rightarrow> 'x \<Rightarrow> 's \<Rightarrow> 'e + ('r \<times> 's)"
    and stored :: "'s \<Rightarrow> 'k \<Rightarrow> ('d \<times> 'i) option"
    and digest :: "'q \<Rightarrow> 'd"
    and ident :: "'r \<Rightarrow> 'i"
    and admits :: "'s \<Rightarrow> 'k \<Rightarrow> 'q \<Rightarrow> bool"
    and conflict :: "'e"
    and inv :: "'s \<Rightarrow> bool"
  assumes replay: "inv s \<Longrightarrow> admits s k q \<Longrightarrow> stored s k = Some (digest q, i) \<Longrightarrow>
      \<exists>r. run k q x s = Inr (r, s) \<and> ident r = i"
    and clash: "inv s \<Longrightarrow> admits s k q \<Longrightarrow> stored s k = Some (d, i) \<Longrightarrow> d \<noteq> digest q \<Longrightarrow>
      run k q x s = Inl conflict"
    and commits: "inv s \<Longrightarrow> run k q x s = Inr (r, s') \<Longrightarrow> stored s' k = Some (digest q, ident r)"
    and keeps: "inv s \<Longrightarrow> run k q x s = Inr (r, s') \<Longrightarrow> stored s k0 = Some v \<Longrightarrow>
      stored s' k0 = Some v"
    and inv_run: "inv s \<Longrightarrow> run k q x s = Inr (r, s') \<Longrightarrow> inv s'"
begin

lemma retry_now:
  assumes "inv s" and "run k q x s = Inr (r, s')" and "admits s' k q"
  shows "\<exists>r'. run k q y s' = Inr (r', s') \<and> ident r' = ident r"
  using assms commits inv_run replay by blast

lemma reuse_now:
  assumes "inv s" and "run k q x s = Inr (r, s')" and "admits s' k q'" and "digest q' \<noteq> digest q"
  shows "run k q' y s' = Inl conflict"
  using assms commits inv_run clash by metis

end

text \<open>The same command when the service executes other operations in between.\<close>

locale idempotent_service = idempotent_op run stored digest ident admits conflict inv
  for run :: "'k \<Rightarrow> 'q \<Rightarrow> 'x \<Rightarrow> 's \<Rightarrow> 'e + ('r \<times> 's)"
    and stored :: "'s \<Rightarrow> 'k \<Rightarrow> ('d \<times> 'i) option"
    and digest ident admits conflict inv +
  fixes other :: "'s \<Rightarrow> 's \<Rightarrow> bool"
  assumes other_keeps: "inv s \<Longrightarrow> other s s' \<Longrightarrow> stored s k0 = Some v \<Longrightarrow> stored s' k0 = Some v"
    and inv_other: "inv s \<Longrightarrow> other s s' \<Longrightarrow> inv s'"
begin

lemma others_keep:
  assumes "other\<^sup>*\<^sup>* s t" and "inv s" and "stored s k = Some v"
  shows "inv t \<and> stored t k = Some v"
  using assms by (induction rule: rtranclp_induct) (auto intro: inv_other other_keeps)

lemma retry_later:
  assumes "inv s" and "run k q x s = Inr (r, s')" and "other\<^sup>*\<^sup>* s' t" and "admits t k q"
  shows "\<exists>r'. run k q y t = Inr (r', t) \<and> ident r' = ident r"
  using assms others_keep [of s' t k "(digest q, ident r)"] commits inv_run replay by blast

lemma reuse_later:
  assumes "inv s" and "run k q x s = Inr (r, s')" and "other\<^sup>*\<^sup>* s' t" and "admits t k q'"
    and "digest q' \<noteq> digest q"
  shows "run k q' y t = Inl conflict"
  using assms others_keep [of s' t k "(digest q, ident r)"] commits inv_run clash by metis

end

section \<open>Consumers of at-least-once deliveries\<close>

text \<open>The consumer loop: a delivery that raises is rolled back and negatively acknowledged, so it
  leaves the state as it was.\<close>

fun deliver :: "('ev \<Rightarrow> 'x \<Rightarrow> 's \<Rightarrow> 'e + ('r \<times> 's)) \<Rightarrow> ('ev \<times> 'x) list \<Rightarrow> 's \<Rightarrow> 's" where
  "deliver consume [] s = s"
| "deliver consume ((ev, x) # evs) s =
     (case consume ev x s of Inl e \<Rightarrow> deliver consume evs s
      | Inr (r, s') \<Rightarrow> deliver consume evs s')"

lemma deliver_append: "deliver consume (xs @ ys) s = deliver consume ys (deliver consume xs s)"
  by (induction consume xs s rule: deliver.induct) (auto split: sum.splits)

locale event_inbox =
  fixes consume :: "'ev \<Rightarrow> 'x \<Rightarrow> 's \<Rightarrow> 'e + ('r \<times> 's)"
    and eid :: "'ev \<Rightarrow> 'i"
    and seen :: "'s \<Rightarrow> 'i \<Rightarrow> bool"
    and valid :: "'ev \<Rightarrow> bool"
    and dup :: "'r"
  assumes duplicate: "valid ev \<Longrightarrow> seen s (eid ev) \<Longrightarrow> consume ev x s = Inr (dup, s)"
    and invalid: "\<not> valid ev \<Longrightarrow> \<exists>e. consume ev x s = Inl e"
    and marks: "consume ev x s = Inr (r, s') \<Longrightarrow> seen s' (eid ev)"
    and seen_mono: "consume ev x s = Inr (r, s') \<Longrightarrow> seen s i \<Longrightarrow> seen s' i"
begin

lemma seen_deliver: "seen s i \<Longrightarrow> seen (deliver consume evs s) i"
proof (induction evs arbitrary: s)
  case (Cons p evs)
  obtain ev x where p: "p = (ev, x)" by (cases p)
  show ?case
  proof (cases "consume ev x s")
    case (Inr b)
    then have "seen (snd b) i" using seen_mono [of ev x s "fst b" "snd b" i] Cons.prems by simp
    then show ?thesis using Cons.IH Inr p by (cases b) simp
  qed (use Cons p in simp)
qed simp

lemma consume_seen:
  assumes "seen s (eid ev)"
  shows "deliver consume [(ev, x)] s = s"
  using assms duplicate [of ev s x] invalid [of ev x s] by (cases "valid ev") auto

text \<open>A redelivery of an event that was applied earlier changes nothing, wherever it arrives.\<close>

lemma redelivery:
  assumes "consume ev x s = Inr (r, s')"
  shows "deliver consume (xs @ (ev, y) # ys) s' = deliver consume (xs @ ys) s'"
proof -
  have "seen (deliver consume xs s') (eid ev)"
    using marks [OF assms] by (rule seen_deliver)
  then have "deliver consume [(ev, y)] (deliver consume xs s') = deliver consume xs s'"
    by (rule consume_seen)
  then show ?thesis
    using deliver_append [of consume "xs @ [(ev, y)]" ys s'] by (simp add: deliver_append)
qed

end

end
