(* ===== verification/Text.thy ===== *)
theory Text
  imports Prelude
begin

text \<open>
  The textual formats the services check: lower-case hexadecimal, the hexadecimal form of a UUID
  (\<open>UUID.hex\<close>), the W3C \<open>traceparent\<close> pattern, digest-pinned image references and Kubernetes
  style memory quantities. Patterns are executable predicates over characters.
\<close>

section \<open>Hexadecimal\<close>

definition hex_digits :: pystr where
  "hex_digits = ''0123456789abcdef''"

definition is_hex :: "char \<Rightarrow> bool" where
  "is_hex c \<longleftrightarrow> c \<in> set hex_digits"

definition hex_digit :: "nat \<Rightarrow> char" where
  "hex_digit n = hex_digits ! (n mod 16)"

fun hex_index :: "char \<Rightarrow> pystr \<Rightarrow> nat" where
  "hex_index c [] = 0"
| "hex_index c (d # ds) = (if c = d then 0 else Suc (hex_index c ds))"

definition hex_digit_value :: "char \<Rightarrow> nat" where
  "hex_digit_value c = hex_index c hex_digits"

text \<open>\<open>UUID(hex=s)\<close> reads the digits from the left; \<open>UUID.hex\<close> writes 32 of them.\<close>

definition hex_value :: "pystr \<Rightarrow> nat" where
  "hex_value s = foldl (\<lambda>n c. 16 * n + hex_digit_value c) 0 s"

fun hex_of :: "nat \<Rightarrow> nat \<Rightarrow> pystr" where
  "hex_of 0 n = []"
| "hex_of (Suc w) n = hex_of w (n div 16) @ [hex_digit n]"

definition uuid_hex :: "uuid \<Rightarrow> pystr" where
  "uuid_hex u = hex_of 32 u"

text \<open>\<open>str(UUID)\<close>: the digits in groups of 8, 4, 4, 4 and 12.\<close>

definition uuid_str :: "uuid \<Rightarrow> pystr" where
  "uuid_str u =
     (let h = uuid_hex u in
      take 8 h @ ''-'' @ take 4 (drop 8 h) @ ''-'' @ take 4 (drop 12 h) @ ''-''
        @ take 4 (drop 16 h) @ ''-'' @ drop 20 h)"

definition is_uuid :: "uuid \<Rightarrow> bool" where
  "is_uuid u \<longleftrightarrow> u < 16 ^ 32"

lemma length_hex_of [simp]: "length (hex_of w n) = w"
  by (induction w arbitrary: n) auto

lemma hex_digits_distinct: "distinct hex_digits" "length hex_digits = 16"
  by (simp_all add: hex_digits_def)

lemma hex_index_nth: "distinct ds \<Longrightarrow> i < length ds \<Longrightarrow> hex_index (ds ! i) ds = i"
proof (induction ds arbitrary: i)
  case (Cons d ds)
  then show ?case by (cases i) auto
qed simp

lemma nth_hex_index: "c \<in> set ds \<Longrightarrow> hex_index c ds < length ds \<and> ds ! hex_index c ds = c"
  by (induction ds) auto

lemma is_hex_hex_digit [simp]: "is_hex (hex_digit n)"
proof -
  have "n mod 16 < length hex_digits" by (simp add: hex_digits_distinct)
  then show ?thesis by (simp add: is_hex_def hex_digit_def)
qed

lemma hex_digit_value_hex_digit [simp]: "hex_digit_value (hex_digit n) = n mod 16"
  using hex_index_nth [OF hex_digits_distinct(1), of "n mod 16"]
  by (simp add: hex_digit_value_def hex_digit_def hex_digits_distinct)

lemma hex_digit_hex_digit_value:
  assumes "is_hex c"
  shows "hex_digit (hex_digit_value c) = c" and "hex_digit_value c < 16"
  using nth_hex_index [of c hex_digits] assms
  by (simp_all add: is_hex_def hex_digit_def hex_digit_value_def hex_digits_distinct)

lemma hex_of_is_hex: "c \<in> set (hex_of w n) \<Longrightarrow> is_hex c"
  by (induction w arbitrary: n) auto

lemma hex_value_snoc [simp]: "hex_value (s @ [c]) = 16 * hex_value s + hex_digit_value c"
  by (simp add: hex_value_def)

lemma hex_value_Nil [simp]: "hex_value [] = 0"
  by (simp add: hex_value_def)

lemma hex_value_hex_of: "hex_value (hex_of w n) = n mod 16 ^ w"
proof (induction w arbitrary: n)
  case (Suc w)
  have "16 * (n div 16 mod 16 ^ w) + n mod 16 = n mod (16 * 16 ^ w)"
    by (simp add: mod_mult2_eq)
  then show ?case by (simp add: Suc)
qed simp

lemma hex_of_hex_value:
  assumes "\<forall>c \<in> set s. is_hex c"
  shows "hex_of (length s) (hex_value s) = s"
  using assms
proof (induction s rule: rev_induct)
  case (snoc c s)
  have c: "hex_digit (hex_digit_value c) = c" "hex_digit_value c < 16"
    using snoc.prems by (auto intro: hex_digit_hex_digit_value)
  have "hex_digit (16 * hex_value s + hex_digit_value c) = hex_digit (hex_digit_value c)"
    by (simp add: hex_digit_def)
  then show ?case using snoc c by simp
qed simp

lemma hex_value_less: "\<forall>c \<in> set s. is_hex c \<Longrightarrow> hex_value s < 16 ^ length s"
proof (induction s rule: rev_induct)
  case (snoc c s)
  have "hex_digit_value c < 16" using snoc.prems by (auto intro: hex_digit_hex_digit_value)
  then show ?case using snoc by simp
qed simp

text \<open>The hexadecimal form of a UUID determines it.\<close>

lemma hex_value_uuid_hex: "is_uuid u \<Longrightarrow> hex_value (uuid_hex u) = u"
  by (simp add: uuid_hex_def is_uuid_def hex_value_hex_of)

lemma uuid_hex_inject: "is_uuid u \<Longrightarrow> is_uuid v \<Longrightarrow> uuid_hex u = uuid_hex v \<longleftrightarrow> u = v"
  by (metis hex_value_uuid_hex)

lemma length_uuid_hex [simp]: "length (uuid_hex u) = 32"
  by (simp add: uuid_hex_def)

lemma hex_of_hd: "hex_of (Suc w) n = hex_digit (n div 16 ^ w) # hex_of w n"
proof (induction w arbitrary: n)
  case (Suc w)
  have "hex_of (Suc (Suc w)) n = hex_of (Suc w) (n div 16) @ [hex_digit n]" by simp
  also have "\<dots> = hex_digit (n div 16 div 16 ^ w) # hex_of w (n div 16) @ [hex_digit n]"
    using Suc by simp
  also have "n div 16 div 16 ^ w = n div 16 ^ Suc w" by (simp add: div_mult2_eq)
  finally show ?case by simp
qed simp

lemma uuid_hex_hd: "uuid_hex u = hex_digit (u div 16 ^ 31) # hex_of 31 u"
proof -
  have e: "(32::nat) = Suc 31" by simp
  show ?thesis unfolding uuid_hex_def e by (rule hex_of_hd)
qed

section \<open>Trace identifiers\<close>

text \<open>The pattern \<open>(?!0{32}$)[0-9a-f]{32}\<close>.\<close>

definition trace_id_ok :: "pystr \<Rightarrow> bool" where
  "trace_id_ok s \<longleftrightarrow> length s = 32 \<and> list_all is_hex s \<and> s \<noteq> replicate 32 (CHR ''0'')"

text \<open>The pattern \<open>00-(trace)-(span)-flags\<close>; the result is the pair of captured groups.\<close>

definition match_traceparent :: "pystr \<Rightarrow> (pystr \<times> pystr) option" where
  "match_traceparent s =
     (let trace = take 32 (drop 3 s); span = take 16 (drop 36 s) in
      if length s = 55 \<and> take 3 s = ''00-'' \<and> s ! 35 = CHR ''-'' \<and> s ! 52 = CHR ''-''
         \<and> list_all is_hex trace \<and> trace \<noteq> replicate 32 (CHR ''0'')
         \<and> list_all is_hex span \<and> span \<noteq> replicate 16 (CHR ''0'')
         \<and> list_all is_hex (drop 53 s)
      then Some (trace, span) else None)"

text \<open>\<open>f"00-{trace_id}-{event_id.hex[:16]}-01"\<close>.\<close>

definition make_traceparent :: "pystr \<Rightarrow> uuid \<Rightarrow> pystr" where
  "make_traceparent trace_id event_id =
     ''00-'' @ trace_id @ ''-'' @ take 16 (uuid_hex event_id) @ ''-01''"

lemma trace_id_ok_uuid_hex:
  assumes "trace_id_ok s"
  shows "uuid_hex (hex_value s) = s"
  using assms hex_of_hex_value [of s] by (simp add: trace_id_ok_def uuid_hex_def list_all_iff)

lemma match_make_traceparent:
  assumes "trace_id_ok t" and "take 16 (uuid_hex e) \<noteq> replicate 16 (CHR ''0'')"
  shows "match_traceparent (make_traceparent t e) = Some (t, take 16 (uuid_hex e))"
proof -
  have t: "length t = 32" "list_all is_hex t" "t \<noteq> replicate 32 (CHR ''0'')"
    using assms(1) by (auto simp: trace_id_ok_def)
  have h: "list_all is_hex (take 16 (uuid_hex e))" "length (take 16 (uuid_hex e)) = 16"
    by (auto simp: list_all_iff uuid_hex_def dest: in_set_takeD hex_of_is_hex)
  show ?thesis using t h assms(2)
    by (simp add: match_traceparent_def make_traceparent_def Let_def nth_append is_hex_def hex_digits_def)
qed

section \<open>Image references and quantities\<close>

text \<open>\<open>re.search(r"@sha256:[0-9a-f]{64}$", image)\<close>: the text ends with a digest; as in Python,
  a final newline may follow.\<close>

definition strip_newline :: "pystr \<Rightarrow> pystr" where
  "strip_newline s = (if s \<noteq> [] \<and> last s = CHR 0x0A then butlast s else s)"

definition digest_suffix :: "pystr \<Rightarrow> bool" where
  "digest_suffix s \<longleftrightarrow> 72 \<le> length s \<and> take 8 (drop (length s - 72) s) = ''@sha256:''
     \<and> list_all is_hex (drop (length s - 64) s)"

definition image_pinned :: "pystr \<Rightarrow> bool" where
  "image_pinned s \<longleftrightarrow> digest_suffix s \<or> digest_suffix (strip_newline s)"

definition dec_digit :: "char \<Rightarrow> bool" where
  "dec_digit c \<longleftrightarrow> c \<in> set ''0123456789''"

definition dec_value :: "pystr \<Rightarrow> nat" where
  "dec_value s = foldl (\<lambda>n c. 10 * n + (of_char c - 48)) 0 s"

text \<open>\<open>[1-9][0-9]*\<close>.\<close>

definition positive_decimal :: "pystr \<Rightarrow> bool" where
  "positive_decimal s \<longleftrightarrow> s \<noteq> [] \<and> hd s \<noteq> CHR ''0'' \<and> list_all dec_digit s"

lemma foldl_dec_ge: "m \<le> foldl (\<lambda>n c. 10 * n + (of_char c - 48)) (m::nat) s"
proof (induction s arbitrary: m)
  case (Cons c s)
  have "m \<le> 10 * m + (of_char c - 48)" by simp
  also have "\<dots> \<le> foldl (\<lambda>n c. 10 * n + (of_char c - 48)) (10 * m + (of_char c - 48)) s"
    by (rule Cons)
  finally show ?case by simp
qed simp

lemma positive_decimal_pos: "positive_decimal s \<Longrightarrow> 0 < dec_value s"
proof -
  assume a: "positive_decimal s"
  then obtain c s' where s: "s = c # s'" by (cases s) (auto simp: positive_decimal_def)
  have "c \<in> set ''123456789''"
    using a s by (auto simp: positive_decimal_def dec_digit_def)
  then have "0 < (of_char c - 48 :: nat)" by auto
  moreover have "of_char c - 48 \<le> dec_value s"
    using foldl_dec_ge [of "of_char c - 48" s'] s by (simp add: dec_value_def)
  ultimately show ?thesis by simp
qed

section \<open>The order of texts\<close>

text \<open>\<open>sorted\<close> compares code points; the order of the UTF-8 bytes is the same.\<close>

fun text_le :: "pystr \<Rightarrow> pystr \<Rightarrow> bool" where
  "text_le [] t = True"
| "text_le (c # s) [] = False"
| "text_le (c # s) (d # t) =
     ((of_char c :: nat) < of_char d \<or> c = d \<and> text_le s t)"

fun insert_text :: "pystr \<Rightarrow> pystr list \<Rightarrow> pystr list" where
  "insert_text s [] = [s]"
| "insert_text s (t # ts) = (if text_le s t then s # t # ts else t # insert_text s ts)"

definition sorted_texts :: "pystr list \<Rightarrow> pystr list" where
  "sorted_texts ts = foldr insert_text ts []"

text \<open>\<open>sorted(set(ts))\<close>.\<close>

definition sorted_set :: "pystr list \<Rightarrow> pystr list" where
  "sorted_set ts = sorted_texts (remdups ts)"

lemma set_insert_text [simp]: "set (insert_text s ts) = insert s (set ts)"
  by (induction ts) auto

lemma set_sorted_texts [simp]: "set (sorted_texts ts) = set ts"
  unfolding sorted_texts_def by (induction ts) auto

lemma set_sorted_set [simp]: "set (sorted_set ts) = set ts"
  by (simp add: sorted_set_def)

end
