(* ===== verification/Events.thy ===== *)
theory Events
  imports Text
begin

text \<open>
  The event envelope of the platform and its validation by the two consumers: the Runner
  (\<open>agent_runner/event_validation.py\<close>) and the Conversation Service
  (\<open>validate_event_envelope\<close> of \<open>conversation_service/domain.py\<close>).

  An incoming envelope is an untrusted JSON object. The record holds, for each field the code
  reads, the outcome of reading and converting it: \<open>UUID(str(...))\<close> and \<open>int(...)\<close> are fields of
  type \<open>uuid fld\<close> and \<open>int fld\<close>; a text field is an option, None when the key is missing (the
  payload's texts are read by \<open>str(...)\<close>, so that they hold the converted value). \<open>ev_encoded_bytes\<close> is the length of the JSON encoding the validators
  compute, None when encoding raises.
\<close>

section \<open>Event payloads and envelopes\<close>

record event_data =
  d_message_id :: "uuid fld"
  d_chunk_sequence :: "int fld"
  d_content :: "pystr option"
  d_content_bytes :: "int fld"
  d_chunk_count :: "int fld"
  d_content_sha256 :: "pystr option"
  d_finish_reason :: "pystr option"
  d_usage :: pystr
  d_suspension_id :: "uuid fld"
  d_checkpoint_id :: "uuid fld"
  d_input_request_id :: "uuid fld"
  d_prompt :: "pystr option"
  d_schema :: pystr
  d_attempt_id :: "uuid fld"
  d_lease_epoch :: "int fld"
  d_final_message_ids :: "uuid fld list"
  d_final_checkpoint_id :: "uuid fld"
  d_required_confirmations :: "pystr list"
  d_message_ids :: "uuid fld list"
  d_run_id :: "uuid fld"
  d_state :: "pystr option"
  d_code :: "pystr option"
  d_conversation_sequence :: "int fld"

definition empty_data :: event_data where
  "empty_data = \<lparr>d_message_id = Missing, d_chunk_sequence = Missing, d_content = None,
     d_content_bytes = Missing, d_chunk_count = Missing, d_content_sha256 = None,
     d_finish_reason = None, d_usage = ''{}'', d_suspension_id = Missing,
     d_checkpoint_id = Missing, d_input_request_id = Missing, d_prompt = None, d_schema = ''{}'',
     d_attempt_id = Missing, d_lease_epoch = Missing, d_final_message_ids = [],
     d_final_checkpoint_id = Missing, d_required_confirmations = [], d_message_ids = [],
     d_run_id = Missing, d_state = None, d_code = None,
     d_conversation_sequence = Missing\<rparr>"

record envelope =
  ev_encoded_bytes :: "nat option"
  ev_specversion :: "pystr option"
  ev_type :: "pystr option"
  ev_id :: "uuid fld"
  ev_source :: "pystr option"
  ev_subject :: "pystr option"
  ev_time :: "(instant \<times> bool) fld"
  ev_user_id :: "uuid fld"
  ev_conversation_id :: "uuid fld"
  ev_thread_id :: "uuid fld"
  ev_run_id :: "uuid fld"
  ev_attempt_id :: "uuid fld"
  ev_lease_epoch :: "int fld"
  ev_correlation_id :: "uuid fld"
  ev_causation_id :: "uuid fld"
  ev_traceparent :: "pystr option"
  ev_schema_version :: "int option"
  ev_data :: "event_data option"

definition max_event_bytes :: nat where
  "max_event_bytes = 1024 * 1024"

text \<open>\<open>ev_time\<close> is the parsed timestamp with a flag for the presence of a UTC offset.\<close>

definition good :: "'a fld \<Rightarrow> bool" where
  "good f \<longleftrightarrow> fld_value f \<noteq> None"

lemma good_iff: "good f \<longleftrightarrow> (\<exists>a. f = Good a)"
  by (cases f) (auto simp: good_def)

lemma good_simps [simp]: "good (Good a)" "\<not> good Missing" "\<not> good Malformed"
  by (simp_all add: good_def)

definition required_present :: "envelope \<Rightarrow> bool" where
  "required_present e \<longleftrightarrow> ev_specversion e \<noteq> None \<and> ev_type e \<noteq> None \<and> ev_id e \<noteq> Missing
     \<and> ev_source e \<noteq> None \<and> ev_subject e \<noteq> None \<and> ev_time e \<noteq> Missing
     \<and> ev_user_id e \<noteq> Missing \<and> ev_conversation_id e \<noteq> Missing \<and> ev_thread_id e \<noteq> Missing
     \<and> ev_run_id e \<noteq> Missing \<and> ev_correlation_id e \<noteq> Missing \<and> ev_causation_id e \<noteq> Missing
     \<and> ev_traceparent e \<noteq> None \<and> ev_schema_version e \<noteq> None \<and> ev_data e \<noteq> None"

text \<open>The final check both validators share: versions, the trace group of \<open>traceparent\<close> is
  the correlation identity, the timestamp carries an offset.\<close>

definition contract_ok :: "envelope \<Rightarrow> bool" where
  "contract_ok e \<longleftrightarrow> required_present e \<and> ev_specversion e = Some ''1.0''
     \<and> ev_schema_version e = Some 1 \<and> ev_data e \<noteq> None
     \<and> (case (ev_traceparent e, ev_correlation_id e) of
          (Some t, Good c) \<Rightarrow>
            (case match_traceparent t of None \<Rightarrow> False | Some (g, _) \<Rightarrow> uuid_hex c = g)
        | _ \<Rightarrow> False)
     \<and> (case ev_time e of Good (_, aware) \<Rightarrow> aware | _ \<Rightarrow> False)"

definition size_ok :: "envelope \<Rightarrow> bool" where
  "size_ok e \<longleftrightarrow> (case ev_encoded_bytes e of None \<Rightarrow> False | Some n \<Rightarrow> n \<le> max_event_bytes)"

section \<open>The Runner's validation\<close>

text \<open>\<open>validate_envelope\<close>: every failure raises \<open>EventValidationError\<close>, whose code is
  \<open>event_invalid\<close>, so the model returns whether the envelope is accepted.\<close>

definition validate_envelope :: "envelope \<Rightarrow> bool" where
  "validate_envelope e \<longleftrightarrow> size_ok e
     \<and> ev_traceparent e \<noteq> None \<and> good (ev_correlation_id e)
     \<and> good (ev_id e) \<and> good (ev_user_id e) \<and> good (ev_conversation_id e)
     \<and> good (ev_thread_id e) \<and> good (ev_run_id e) \<and> good (ev_causation_id e)
     \<and> good (ev_time e) \<and> contract_ok e"

text \<open>\<open>validate_run_binding\<close>: the identities and the trace of an accepted envelope are the
  run's. The columns of the run are passed one by one.\<close>

definition validate_run_binding ::
  "envelope \<Rightarrow> uuid \<Rightarrow> uuid \<Rightarrow> uuid \<Rightarrow> uuid \<Rightarrow> pystr \<Rightarrow> bool" where
  "validate_run_binding e user conversation thread run trace \<longleftrightarrow>
     (case ev_correlation_id e of Good c \<Rightarrow> uuid_hex c = trace | _ \<Rightarrow> False)
     \<and> ev_user_id e = Good user \<and> ev_conversation_id e = Good conversation
     \<and> ev_thread_id e = Good thread \<and> ev_run_id e = Good run"

definition event_validation_error :: exc where
  "event_validation_error = Coded ''EventValidationError'' ''event_invalid''"

section \<open>The Conversation Service's validation\<close>

text \<open>\<open>validate_event_envelope\<close> parses fewer identities; the identities it leaves out are parsed
  by \<open>project\<close> with the same error.\<close>

definition validate_event_envelope :: "envelope \<Rightarrow> bool" where
  "validate_event_envelope e \<longleftrightarrow> size_ok e
     \<and> ev_traceparent e \<noteq> None \<and> good (ev_correlation_id e) \<and> good (ev_causation_id e)
     \<and> good (ev_thread_id e) \<and> good (ev_time e) \<and> contract_ok e"

definition conversation_event_invalid :: exc where
  "conversation_event_invalid = Problem 422 ''event_invalid''"

text \<open>What the Runner accepts the Conversation Service accepts too.\<close>

lemma validate_envelope_stronger: "validate_envelope e \<Longrightarrow> validate_event_envelope e"
  by (simp add: validate_envelope_def validate_event_envelope_def)

text \<open>In an accepted envelope the correlation identity and the trace identifier are the same.\<close>

lemma contract_ok_trace:
  assumes "contract_ok e"
  obtains t c g sp where "ev_traceparent e = Some t" "ev_correlation_id e = Good c"
    "match_traceparent t = Some (g, sp)" "uuid_hex c = g"
  using assms by (auto simp: contract_ok_def split: option.splits fld.splits)

section \<open>Envelopes the services build\<close>

text \<open>The metadata every producer writes: correlation from the trace identifier, a
  \<open>traceparent\<close> from the trace and the event identity.\<close>

definition make_envelope ::
  "nat \<Rightarrow> pystr \<Rightarrow> pystr \<Rightarrow> uuid \<Rightarrow> instant \<Rightarrow> uuid \<Rightarrow> uuid \<Rightarrow> uuid \<Rightarrow> uuid \<Rightarrow> pystr \<Rightarrow> uuid
     \<Rightarrow> event_data \<Rightarrow> envelope" where
  "make_envelope bytes source kind event_id now user conversation thread run trace_id cause data =
     \<lparr>ev_encoded_bytes = Some bytes, ev_specversion = Some ''1.0'', ev_type = Some kind,
      ev_id = Good event_id, ev_source = Some source, ev_subject = Some (''run/'' @ uuid_str run),
      ev_time = Good (now, True), ev_user_id = Good user, ev_conversation_id = Good conversation,
      ev_thread_id = Good thread, ev_run_id = Good run, ev_attempt_id = Missing,
      ev_lease_epoch = Missing, ev_correlation_id = Good (hex_value trace_id),
      ev_causation_id = Good cause,
      ev_traceparent = Some (make_traceparent trace_id event_id), ev_schema_version = Some 1,
      ev_data = Some data\<rparr>"

text \<open>A UUID of version 4 never has sixteen leading zeros: its thirteenth digit is the version.\<close>

definition span_nonzero :: "uuid \<Rightarrow> bool" where
  "span_nonzero e \<longleftrightarrow> take 16 (uuid_hex e) \<noteq> replicate 16 (CHR ''0'')"

lemma span_of_leading:
  assumes "hex_digit (u div 16 ^ 31) \<noteq> CHR ''0''"
  shows "span_nonzero u"
  unfolding span_nonzero_def
proof
  assume "take 16 (uuid_hex u) = replicate 16 (CHR ''0'')"
  then have "hd (take 16 (uuid_hex u)) = hd (replicate 16 (CHR ''0''))" by (simp only:)
  also have "hd (take 16 (uuid_hex u)) = hex_digit (u div 16 ^ 31)"
    unfolding uuid_hex_hd take_Cons' by (simp only: list.sel split: if_splits) simp
  finally show False using assms by simp
qed

text \<open>What a service publishes about a run is bound to that run.\<close>

lemma make_envelope_bound:
  "trace_id_ok t \<Longrightarrow>
   validate_run_binding (make_envelope b src k e now u c th r t cause d) u c th r t"
  by (simp add: validate_run_binding_def make_envelope_def trace_id_ok_uuid_hex)

lemma make_envelope_valid:
  assumes "trace_id_ok t" and "span_nonzero e" and "b \<le> max_event_bytes"
  shows "validate_envelope (make_envelope b src k e now u c th r t cause d)"
  using match_make_traceparent [OF assms(1), of e] trace_id_ok_uuid_hex [OF assms(1)] assms
  by (simp add: validate_envelope_def make_envelope_def size_ok_def contract_ok_def
      required_present_def span_nonzero_def)

section \<open>Sample identities\<close>

text \<open>For the concrete instances of the theorems.\<close>

definition sample_trace :: pystr where
  "sample_trace = replicate 31 (CHR ''0'') @ ''a''"

lemma sample_trace_ok: "trace_id_ok sample_trace"
  by (simp add: trace_id_ok_def sample_trace_def is_hex_def hex_digits_def list_all_iff
      numeral_eq_Suc)

text \<open>Identities whose first sixteen digits are not all zero.\<close>

definition sample_id :: "nat \<Rightarrow> uuid" where
  "sample_id n = 16 ^ 31 + n"

lemma span_nonzero_sample: "n < 16 \<Longrightarrow> span_nonzero (sample_id n)"
proof -
  assume "n < 16"
  then have "n < 16 ^ 31" by simp
  then have "(16 ^ 31 + n) div 16 ^ 31 = (1::nat)" by (simp only: div_add_self1) simp
  then show ?thesis
    by (intro span_of_leading) (simp add: sample_id_def hex_digit_def hex_digits_def)
qed

end
