(* ===== verification/Outbox.thy ===== *)
theory Outbox
  imports Tables "HOL-Library.Product_Lexorder" "HOL-Library.Multiset"
begin

text \<open>
  The transactional outbox of the services: \<open>enqueue\<close> of \<open>agent_runner/outbox.py\<close>, the publishing
  loops \<open>publish_pending\<close> of the Runner, the Runtime API, the Conversation Service and the
  Checkpoint API, and the deletion of published rows by the retention jobs. The broker is outside
  the program: for each event it acknowledges, refuses, or acknowledges just before the publisher
  dies (\<open>publish_outcome\<close>). The messages it has accepted are kept in a log.
\<close>

section \<open>State and operations\<close>

record 'p outbox_row =
  o_event_id :: uuid
  o_subject :: pystr
  o_payload :: 'p
  o_available :: instant
  o_created :: instant
  o_published :: "instant option"
  o_attempts :: nat

definition outbox_entry :: "uuid \<Rightarrow> pystr \<Rightarrow> 'p \<Rightarrow> instant \<Rightarrow> 'p outbox_row" where
  "outbox_entry event_id subject payload now =
     \<lparr>o_event_id = event_id, o_subject = subject, o_payload = payload, o_available = now,
      o_created = now, o_published = None, o_attempts = 0\<rparr>"

text \<open>\<open>INSERT ... ON CONFLICT (event_id) DO NOTHING\<close>.\<close>

definition enqueue ::
  "uuid \<Rightarrow> pystr \<Rightarrow> 'p \<Rightarrow> instant \<Rightarrow> 'p outbox_row list \<Rightarrow> 'p outbox_row list" where
  "enqueue event_id subject payload now t =
     (if has_row o_event_id event_id t then t
      else t @ [outbox_entry event_id subject payload now])"

definition due :: "instant \<Rightarrow> 'p outbox_row list \<Rightarrow> 'p outbox_row list" where
  "due now t = filter (\<lambda>r. o_published r = None \<and> o_available r \<le> now) t"

text \<open>The rows a round publishes: the Runner takes all of them in the order of creation time and
  identity, the other services the first hundred by creation time (rows with the same time in
  insertion order).\<close>

definition runner_batch :: "instant \<Rightarrow> 'p outbox_row list \<Rightarrow> 'p outbox_row list" where
  "runner_batch now t = sort_key (\<lambda>r. (o_created r, o_event_id r)) (due now t)"

definition limited_batch :: "instant \<Rightarrow> 'p outbox_row list \<Rightarrow> 'p outbox_row list" where
  "limited_batch now t = take 100 (sort_key o_created (due now t))"

definition mark_published ::
  "instant \<Rightarrow> uuid \<Rightarrow> 'p outbox_row list \<Rightarrow> 'p outbox_row list" where
  "mark_published now event_id t =
     update_where (\<lambda>r. o_event_id r = event_id \<and> o_published r = None)
       (\<lambda>r. r\<lparr>o_published := Some now, o_attempts := o_attempts r + 1\<rparr>) t"

datatype publish_outcome = Ack | Ack_then_crash | Refused

text \<open>A message of the broker's log: the identity sent as \<open>Nats-Msg-Id\<close>, subject and payload.\<close>

type_synonym 'p message = "uuid \<times> pystr \<times> 'p"

definition message_of :: "'p outbox_row \<Rightarrow> 'p message" where
  "message_of r = (o_event_id r, o_subject r, o_payload r)"

text \<open>The loop over the fetched rows. The result is the table, the log and the number of rows
  marked, None when the loop was left by an exception.\<close>

fun publish_rows ::
  "(uuid \<Rightarrow> publish_outcome) \<Rightarrow> instant \<Rightarrow> 'p outbox_row list
     \<Rightarrow> 'p outbox_row list \<times> 'p message list \<times> nat
     \<Rightarrow> 'p outbox_row list \<times> 'p message list \<times> nat option" where
  "publish_rows broker now [] (t, log, n) = (t, log, Some n)"
| "publish_rows broker now (r # rs) (t, log, n) =
     (case broker (o_event_id r) of
        Refused \<Rightarrow> (t, log, None)
      | Ack_then_crash \<Rightarrow> (t, log @ [message_of r], None)
      | Ack \<Rightarrow> publish_rows broker now rs
          (mark_published now (o_event_id r) t, log @ [message_of r],
           if \<exists>q \<in> set t. o_event_id q = o_event_id r \<and> o_published q = None then n + 1 else n))"

definition publish_pending_runner ::
  "(uuid \<Rightarrow> publish_outcome) \<Rightarrow> instant \<Rightarrow> 'p outbox_row list \<times> 'p message list
     \<Rightarrow> 'p outbox_row list \<times> 'p message list \<times> nat option" where
  "publish_pending_runner broker now s =
     publish_rows broker now (runner_batch now (fst s)) (fst s, snd s, 0)"

definition publish_pending ::
  "(uuid \<Rightarrow> publish_outcome) \<Rightarrow> instant \<Rightarrow> 'p outbox_row list \<times> 'p message list
     \<Rightarrow> 'p outbox_row list \<times> 'p message list \<times> nat option" where
  "publish_pending broker now s =
     publish_rows broker now (limited_batch now (fst s)) (fst s, snd s, 0)"

text \<open>\<open>DELETE FROM outbox_events WHERE published_at IS NOT NULL AND published_at < cutoff\<close>.\<close>

definition prune_outbox :: "instant \<Rightarrow> 'p outbox_row list \<Rightarrow> 'p outbox_row list" where
  "prune_outbox cutoff t =
     delete_where (\<lambda>r. case o_published r of None \<Rightarrow> False | Some p \<Rightarrow> p < cutoff) t"

section \<open>Lemmas\<close>

lemma outbox_entry_simps [simp]:
  "o_event_id (outbox_entry i s p n) = i" "o_subject (outbox_entry i s p n) = s"
  "o_payload (outbox_entry i s p n) = p" "o_published (outbox_entry i s p n) = None"
  "o_created (outbox_entry i s p n) = n" "o_available (outbox_entry i s p n) = n"
  by (simp_all add: outbox_entry_def)

lemma message_of_entry [simp]: "message_of (outbox_entry i s p n) = (i, s, p)"
  by (simp add: message_of_def)

lemma ids_mark_published [simp]:
  "map o_event_id (mark_published now i t) = map o_event_id t"
  by (simp add: mark_published_def map_key_update_where)

lemma messages_mark_published [simp]:
  "map message_of (mark_published now i t) = map message_of t"
  by (induction t) (auto simp: mark_published_def message_of_def)

lemma in_mark_published:
  "r \<in> set (mark_published now i t) \<Longrightarrow> o_published r = None \<Longrightarrow> r \<in> set t \<and> o_event_id r \<noteq> i"
proof -
  assume "r \<in> set (mark_published now i t)" and n: "o_published r = None"
  then obtain q where "q \<in> set t"
    "r = (if o_event_id q = i \<and> o_published q = None
          then q\<lparr>o_published := Some now, o_attempts := o_attempts q + 1\<rparr> else q)"
    by (auto simp: mark_published_def in_update_where)
  then show ?thesis using n by (cases "o_event_id q = i \<and> o_published q = None") auto
qed

lemma ids_enqueue:
  "distinct (map o_event_id t) \<Longrightarrow> distinct (map o_event_id (enqueue i s p now t))"
  by (auto simp: enqueue_def has_row_iff)

lemma due_subset: "set (due now t) \<subseteq> set t"
  by (auto simp: due_def)

lemma batch_members:
  "set (runner_batch now t) = set (due now t)" "set (limited_batch now t) \<subseteq> set (due now t)"
  by (auto simp: runner_batch_def limited_batch_def dest: in_set_takeD)

text \<open>An event is safe when it still waits in the table or the broker has it.\<close>

definition safe_event ::
  "'p outbox_row list \<times> 'p message list \<Rightarrow> 'p message \<Rightarrow> bool" where
  "safe_event s m \<longleftrightarrow> m \<in> set (snd s)
     \<or> (\<exists>r \<in> set (fst s). message_of r = m \<and> o_published r = None)"

text \<open>Every published row's message has reached the broker.\<close>

definition outbox_inv :: "'p outbox_row list \<times> 'p message list \<Rightarrow> bool" where
  "outbox_inv s \<longleftrightarrow> distinct (map o_event_id (fst s))
     \<and> (\<forall>r \<in> set (fst s). o_published r \<noteq> None \<longrightarrow> message_of r \<in> set (snd s))"

lemma same_id_same_row:
  "distinct (map key t) \<Longrightarrow> r \<in> set t \<Longrightarrow> q \<in> set t \<Longrightarrow> key r = key q \<Longrightarrow> r = q"
  by (metis option.inject row_by_unique)

lemma mark_published_inv:
  assumes "outbox_inv (t, log)" and "message_of r \<in> set log'" and "set log \<subseteq> set log'"
    and "\<exists>q \<in> set t. message_of q = message_of r"
  shows "outbox_inv (mark_published now (o_event_id r) t, log')"
proof -
  obtain q where q: "q \<in> set t" "message_of q = message_of r" using assms(4) by blast
  have "message_of p \<in> set log'" if p: "p \<in> set t" "o_event_id p = o_event_id r" for p
  proof -
    have "o_event_id q = o_event_id r" using q(2) by (simp add: message_of_def)
    then have "p = q" using p q(1) assms(1)
      by (intro same_id_same_row [of o_event_id t]) (auto simp: outbox_inv_def)
    then show ?thesis using q(2) assms(2) by simp
  qed
  note mine = this
  have "message_of p \<in> set log'"
    if "p \<in> set (mark_published now (o_event_id r) t)" "o_published p \<noteq> None" for p
  proof -
    obtain q where "q \<in> set t" and p: "p = (if o_event_id q = o_event_id r \<and> o_published q = None
        then q\<lparr>o_published := Some now, o_attempts := o_attempts q + 1\<rparr> else q)"
      using \<open>p \<in> _\<close> by (auto simp: mark_published_def in_update_where)
    moreover have "message_of p = message_of q" unfolding p by (simp add: message_of_def)
    moreover have "message_of q \<in> set log" if "o_published q \<noteq> None"
      using that assms(1) \<open>q \<in> set t\<close> by (simp add: outbox_inv_def)
    ultimately show ?thesis using mine [of q] assms(3) that(2)
      by (cases "o_event_id q = o_event_id r \<and> o_published q = None") auto
  qed
  then show ?thesis using assms(1) by (simp add: outbox_inv_def)
qed

lemma publish_rows_keeps:
  assumes "publish_rows broker now rs (t, log, n) = (t', log', n')"
    and "outbox_inv (t, log)" and "message_of ` set rs \<subseteq> message_of ` set t"
  shows "outbox_inv (t', log') \<and> set log \<subseteq> set log' \<and> map message_of t' = map message_of t
    \<and> (\<forall>r \<in> set t'. o_published r = None \<longrightarrow> r \<in> set t)"
  using assms
proof (induction broker now rs "(t, log, n)" arbitrary: t log n rule: publish_rows.induct)
  case (2 broker now r rs t log n)
  have "\<exists>q \<in> set t. message_of q = message_of r" using "2.prems"(3) by auto
  then have inv: "outbox_inv (mark_published now (o_event_id r) t, log @ [message_of r])"
    using "2.prems"(2) by (intro mark_published_inv [of t log r]) auto
  have *: "message_of ` set (mark_published now i t) = message_of ` set t" for i
    by (metis image_set messages_mark_published)
  show ?case
  proof (cases "broker (o_event_id r)")
    case Ack
    have "outbox_inv (t', log') \<and> set (log @ [message_of r]) \<subseteq> set log'
      \<and> map message_of t' = map message_of (mark_published now (o_event_id r) t)
      \<and> (\<forall>q \<in> set t'. o_published q = None \<longrightarrow> q \<in> set (mark_published now (o_event_id r) t))"
      using "2.prems" Ack inv * by (intro "2.hyps"[OF Ack]) auto
    then show ?thesis by (auto dest: in_mark_published)
  next
    case Ack_then_crash
    then show ?thesis using "2.prems" by (auto simp: outbox_inv_def)
  next
    case Refused
    then show ?thesis using "2.prems" by auto
  qed
qed auto

lemma publish_rows_safe:
  assumes "publish_rows broker now rs (t, log, n) = (t', log', n')"
    and "outbox_inv (t, log)" and "message_of ` set rs \<subseteq> message_of ` set t"
    and "safe_event (t, log) m"
  shows "safe_event (t', log') m"
proof -
  note k = publish_rows_keeps [OF assms(1-3)]
  show ?thesis
  proof (cases "m \<in> set log'")
    case False
    then obtain r where r: "r \<in> set t" "message_of r = m"
      using assms(4) k by (auto simp: safe_event_def)
    then have "m \<in> message_of ` set t'" using k by (metis image_eqI image_set)
    then obtain q where "q \<in> set t'" "message_of q = m" by auto
    moreover have "o_published q = None"
    proof (rule ccontr)
      assume "o_published q \<noteq> None"
      then have "message_of q \<in> set log'" using k \<open>q \<in> set t'\<close> by (simp add: outbox_inv_def)
      then show False using False \<open>message_of q = m\<close> by simp
    qed
    ultimately show ?thesis by (auto simp: safe_event_def)
  qed (simp add: safe_event_def)
qed

lemma prune_outbox_safe:
  assumes "outbox_inv (t, log)"
  shows "outbox_inv (prune_outbox c t, log)"
    and "safe_event (t, log) m \<Longrightarrow> safe_event (prune_outbox c t, log) m"
  using assms
  by (auto simp: outbox_inv_def prune_outbox_def safe_event_def delete_where_def
      intro: distinct_map_filter split: option.splits)

text \<open>A round delivers an initial part of its batch, in order.\<close>

lemma publish_rows_prefix:
  "publish_rows broker now rs (t, log, n) = (t', log', n')
   \<Longrightarrow> \<exists>k. log' = log @ map message_of (take k rs)"
proof (induction broker now rs "(t, log, n)" arbitrary: t log n rule: publish_rows.induct)
  case (2 broker now r rs t log n)
  show ?case
  proof (cases "broker (o_event_id r)")
    case Ack
    then obtain k where "log' = (log @ [message_of r]) @ map message_of (take k rs)"
      using "2.hyps"[OF Ack] "2.prems" by fastforce
    then show ?thesis by (intro exI [of _ "Suc k"]) simp
  next
    case Ack_then_crash
    then show ?thesis using "2.prems" by (intro exI [of _ "Suc 0"]) simp
  next
    case Refused
    then show ?thesis using "2.prems" by (intro exI [of _ 0]) simp
  qed
qed simp

lemma due_mark_published:
  "due now (mark_published x i t) = filter (\<lambda>r. o_event_id r \<noteq> i) (due now t)"
  by (induction t) (auto simp: due_def mark_published_def)

text \<open>When the broker acknowledges everything, the whole batch is delivered and marked.\<close>

lemma publish_rows_all:
  assumes "publish_rows (\<lambda>_. Ack) now rs (t, log, n) = (t', log', n')"
  shows "log' = log @ map message_of rs
    \<and> due now t' = filter (\<lambda>r. o_event_id r \<notin> o_event_id ` set rs) (due now t)"
  using assms
proof (induction rs arbitrary: t log n)
  case (Cons r rs)
  then obtain m where
    "publish_rows (\<lambda>_. Ack) now rs (mark_published now (o_event_id r) t, log @ [message_of r], m)
      = (t', log', n')"
    by simp
  from Cons.IH [OF this] show ?case by (auto simp: due_mark_published intro!: filter_cong)
qed simp

lemma publish_rows_marks:
  assumes "publish_rows (\<lambda>_. Ack) now rs (t, log, n) = (t', log', n')"
    and "distinct (map o_event_id rs)"
    and "\<forall>r \<in> set rs. \<exists>q \<in> set t. o_event_id q = o_event_id r \<and> o_published q = None"
  shows "n' = Some (n + length rs)"
  using assms
proof (induction rs arbitrary: t log n)
  case (Cons r rs)
  have "\<exists>q \<in> set (mark_published now (o_event_id r) t). o_event_id q = o_event_id s
      \<and> o_published q = None" if s: "s \<in> set rs" for s
  proof -
    obtain q where "q \<in> set t" "o_event_id q = o_event_id s" "o_published q = None"
      using Cons.prems(3) s by auto
    moreover have "o_event_id s \<noteq> o_event_id r" using Cons.prems(2) s by (force simp: image_iff)
    ultimately show ?thesis by (intro bexI [of _ q]) (auto simp: mark_published_def in_update_where intro!: bexI [of _ q])
  qed
  then show ?case
    using Cons.IH [of "mark_published now (o_event_id r) t" "log @ [message_of r]" "n + 1"] Cons.prems
    by auto
qed simp

lemma distinct_map_same_mset:
  assumes "distinct (map f xs)" and "mset ys = mset xs"
  shows "distinct (map f ys)"
proof -
  have "mset (map f ys) = mset (map f xs)" using assms(2) by simp
  then show ?thesis using assms(1) mset_eq_imp_distinct_iff by blast
qed

lemma length_filter_notin_take:
  assumes "distinct (map f xs)" and "mset ys = mset xs"
  shows "length (filter (\<lambda>x. f x \<notin> f ` set (take k ys)) xs) = length xs - k"
proof -
  have "distinct (map f ys)" using assms by (rule distinct_map_same_mset)
  then have d: "distinct (map f (take k ys) @ map f (drop k ys))"
    by (metis append_take_drop_id map_append)
  have "filter (\<lambda>x. f x \<notin> f ` set (take k ys)) (take k ys) = []"
    by (simp add: filter_empty_conv)
  moreover have "filter (\<lambda>x. f x \<notin> f ` set (take k ys)) (drop k ys) = drop k ys"
    using d by (auto simp: filter_id_conv)
  ultimately have "filter (\<lambda>x. f x \<notin> f ` set (take k ys)) (take k ys @ drop k ys) = drop k ys"
    by (simp only: filter_append append_Nil)
  then have "size (mset (filter (\<lambda>x. f x \<notin> f ` set (take k ys)) ys)) = length (drop k ys)"
    by (simp only: append_take_drop_id size_mset)
  then show ?thesis using assms(2) by (metis length_drop mset_filter size_mset)
qed

section \<open>The outbox over time\<close>

text \<open>Committed events, publishing rounds of either kind and retention, in any order. The list
  collects the messages committed so far. A commit uses a fresh event identity.\<close>

inductive outbox_reach ::
  "'p outbox_row list \<times> 'p message list \<Rightarrow> 'p message list \<Rightarrow> bool" where
  outbox_start: "outbox_reach ([], []) []"
| outbox_commit: "outbox_reach (t, log) es \<Longrightarrow> \<not> has_row o_event_id i t \<Longrightarrow>
    outbox_reach (enqueue i subject p now t, log) (es @ [(i, subject, p)])"
| outbox_round_runner: "outbox_reach s es \<Longrightarrow>
    publish_pending_runner broker now s = (t', log', n) \<Longrightarrow> outbox_reach (t', log') es"
| outbox_round: "outbox_reach s es \<Longrightarrow>
    publish_pending broker now s = (t', log', n) \<Longrightarrow> outbox_reach (t', log') es"
| outbox_prune: "outbox_reach (t, log) es \<Longrightarrow> outbox_reach (prune_outbox cutoff t, log) es"

lemma round_keeps:
  assumes "publish_rows broker now rs (fst s, snd s, 0) = (t', log', n)" and "outbox_inv s"
    and "set rs \<subseteq> set (fst s)" and "\<forall>m \<in> set es. safe_event s m"
    and "message_of ` set (fst s) \<subseteq> set es" and "set (snd s) \<subseteq> set es"
  shows "outbox_inv (t', log') \<and> (\<forall>m \<in> set es. safe_event (t', log') m)
    \<and> message_of ` set t' \<subseteq> set es \<and> set log' \<subseteq> set es"
proof -
  have rs: "message_of ` set rs \<subseteq> message_of ` set (fst s)" using assms(3) by auto
  have k: "outbox_inv (t', log') \<and> map message_of t' = map message_of (fst s)"
    using publish_rows_keeps [OF assms(1)] assms(2) rs by simp
  have t: "message_of ` set t' \<subseteq> set es" using k assms(5) by (metis image_set)
  obtain j where "log' = snd s @ map message_of (take j rs)"
    using publish_rows_prefix [OF assms(1)] by blast
  then have "set log' \<subseteq> set (snd s) \<union> message_of ` set rs" by (auto dest: in_set_takeD)
  also have "\<dots> \<subseteq> set es" using rs assms(5,6) by (meson Un_least order_trans)
  finally have l: "set log' \<subseteq> set es" .
  have "safe_event (t', log') m" if "m \<in> set es" for m
    using publish_rows_safe [OF assms(1), unfolded prod.collapse, OF assms(2) rs] that assms(4)
    by simp
  then show ?thesis using k t l by simp
qed

lemma outbox_reach_inv:
  "outbox_reach s es \<Longrightarrow> outbox_inv s \<and> (\<forall>m \<in> set es. safe_event s m)
     \<and> message_of ` set (fst s) \<subseteq> set es \<and> set (snd s) \<subseteq> set es"
proof (induction rule: outbox_reach.induct)
  case outbox_start
  then show ?case by (simp add: outbox_inv_def)
next
  case (outbox_commit t log es i subject p now)
  then show ?case
    by (auto simp: outbox_inv_def enqueue_def has_row_iff safe_event_def)
next
  case (outbox_round_runner s es broker now t' log' n)
  then show ?case
    using round_keeps [of broker now "runner_batch now (fst s)" s t' log' n es]
      due_subset [of now "fst s"] by (simp add: publish_pending_runner_def batch_members)
next
  case (outbox_round s es broker now t' log' n)
  moreover have "set (limited_batch now (fst s)) \<subseteq> set (fst s)"
    using due_subset [of now "fst s"] batch_members(2) [of now "fst s"] by blast
  ultimately show ?case
    using round_keeps [of broker now "limited_batch now (fst s)" s t' log' n es]
    by (simp add: publish_pending_def)
next
  case (outbox_prune t log es cutoff)
  then show ?case using prune_outbox_safe [of t log] by (auto simp: prune_outbox_def)
qed

section \<open>Properties\<close>

text \<open>C3. At-least-once delivery: whatever the order of commits, publishing rounds (complete, cut
  short by a refusal or by a crash between the broker's acknowledgement and the update) and
  retention runs, every committed event either has been accepted by the broker or still waits
  unpublished in the table, and the broker has only received committed events.\<close>

theorem outbox_at_least_once:
  assumes "outbox_reach s es" and "m \<in> set es"
  shows "(m \<in> set (snd s) \<or> (\<exists>r \<in> set (fst s). message_of r = m \<and> o_published r = None))
    \<and> set (snd s) \<subseteq> set es"
  using outbox_reach_inv [OF assms(1)] assms(2) by (auto simp: safe_event_def)

definition sample_broker :: "uuid \<Rightarrow> publish_outcome" where
  "sample_broker i = (if i = 1 then Ack else Ack_then_crash)"

lemma outbox_at_least_once_witness:
  "\<exists>s. outbox_reach s [(1, ''a'', True), (2, ''b'', False)]
     \<and> s = ([(outbox_entry 1 ''a'' True 0)\<lparr>o_published := Some 5, o_attempts := 1\<rparr>,
             outbox_entry 2 ''b'' False 0],
            [(1, ''a'', True), (2, ''b'', False)])
     \<and> set (snd s) \<subseteq> {(1, ''a'', True), (2, ''b'', False)}"
proof -
  have 1: "outbox_reach (enqueue 1 ''a'' True 0 [], []) [(1, ''a'', True)]"
    using outbox_commit [OF outbox_start, of 1 "''a''" True 0] by simp
  have 2: "outbox_reach (enqueue 2 ''b'' False 0 (enqueue 1 ''a'' True 0 []), [])
      [(1, ''a'', True), (2, ''b'', False)]"
    using outbox_commit [OF 1, of 2 "''b''" False 0] by (simp add: enqueue_def outbox_entry_def)
  let ?s = "([(outbox_entry 1 ''a'' True 0)\<lparr>o_published := Some 5, o_attempts := 1\<rparr>,
             outbox_entry 2 ''b'' False 0], [(1, ''a'', True), (2, ''b'', False)])"
  have "publish_pending_runner sample_broker 5
      (enqueue 2 ''b'' False 0 (enqueue 1 ''a'' True 0 []), []) = (fst ?s, snd ?s, None)"
    by (simp add: publish_pending_runner_def runner_batch_def due_def enqueue_def
        outbox_entry_def sample_broker_def mark_published_def message_of_def)
  then have r: "outbox_reach ?s [(1, ''a'', True), (2, ''b'', False)]"
    using outbox_round_runner [OF 2] by simp
  show ?thesis
    using r outbox_at_least_once [OF r, of "(1, ''a'', True)"] by auto
qed

text \<open>A publishing round of the Runner delivers an initial part of the due events in the order of
  creation time and identity; if the broker acknowledges everything it delivers and marks all of
  them and none stays due. A round of the other services does the same for the first hundred.\<close>

theorem publish_round:
  assumes "outbox_reach (t, log) es"
  shows "(\<exists>k. fst (snd (publish_pending_runner broker now (t, log)))
        = log @ map message_of (take k (sort_key (\<lambda>r. (o_created r, o_event_id r)) (due now t))))
    \<and> (case publish_pending_runner (\<lambda>_. Ack) now (t, log) of (t', log', n) \<Rightarrow>
        due now t' = [] \<and> n = Some (length (due now t)))
    \<and> (case publish_pending (\<lambda>_. Ack) now (t, log) of (t', log', n) \<Rightarrow>
        length (due now t') = length (due now t) - 100)"
proof (intro conjI)
  have d: "distinct (map o_event_id (due now t))"
    using outbox_reach_inv [OF assms] by (simp add: outbox_inv_def due_def distinct_map_filter)
  show "\<exists>k. fst (snd (publish_pending_runner broker now (t, log)))
      = log @ map message_of (take k (sort_key (\<lambda>r. (o_created r, o_event_id r)) (due now t)))"
  proof -
    obtain t' log' n where r: "publish_rows broker now (runner_batch now t) (t, log, 0)
        = (t', log', n)" by (metis surj_pair)
    show ?thesis using publish_rows_prefix [OF r] r
      by (simp add: publish_pending_runner_def runner_batch_def)
  qed
  show "case publish_pending_runner (\<lambda>_. Ack) now (t, log) of (t', log', n) \<Rightarrow>
        due now t' = [] \<and> n = Some (length (due now t))"
  proof -
    obtain t' log' n where r: "publish_rows (\<lambda>_. Ack) now (runner_batch now t) (t, log, 0)
        = (t', log', n)" by (metis surj_pair)
    have "distinct (map o_event_id (runner_batch now t))"
      by (rule distinct_map_same_mset [OF d]) (simp add: runner_batch_def)
    then have "n = Some (length (due now t))"
      using publish_rows_marks [OF r] by (auto simp: runner_batch_def due_def)
    moreover have "due now t' = []"
      using publish_rows_all [OF r] by (simp add: runner_batch_def filter_empty_conv)
    ultimately show ?thesis using r by (simp add: publish_pending_runner_def)
  qed
  show "case publish_pending (\<lambda>_. Ack) now (t, log) of (t', log', n) \<Rightarrow>
        length (due now t') = length (due now t) - 100"
  proof -
    obtain t' log' n where r: "publish_rows (\<lambda>_. Ack) now (limited_batch now t) (t, log, 0)
        = (t', log', n)" by (metis surj_pair)
    then have "length (due now t') = length (due now t) - 100"
      using publish_rows_all [OF r] length_filter_notin_take [OF d, of "sort_key o_created (due now t)" 100]
      by (simp add: limited_batch_def)
    then show ?thesis using r by (simp add: publish_pending_def)
  qed
qed

lemma publish_round_witness:
  "publish_pending_runner (\<lambda>_. Ack) 5 (enqueue 1 ''a'' True 0 [], [])
     = ([(outbox_entry 1 ''a'' True 0)\<lparr>o_published := Some 5, o_attempts := 1\<rparr>],
        [(1, ''a'', True)], Some 1)
   \<and> due 5 (fst (publish_pending_runner (\<lambda>_. Ack) 5 (enqueue 1 ''a'' True 0 [], []))) = []"
proof -
  have 1: "outbox_reach (enqueue 1 ''a'' True 0 [], []) [(1, ''a'', True)]"
    using outbox_commit [OF outbox_start, of 1 "''a''" True 0] by simp
  show ?thesis
    using publish_round [OF 1, of "\<lambda>_. Ack" 5]
    by (simp add: publish_pending_runner_def runner_batch_def due_def enqueue_def
        outbox_entry_def mark_published_def message_of_def)
qed

end
