(* ===== verification/Checkpoint.thy ===== *)
theory Checkpoint
  imports Contracts Events Outbox
begin

text \<open>
  The Checkpoint API: \<open>checkpoint_api/store.py\<close> (lease fencing, idempotent compare-and-swap
  writes of versioned checkpoints, the transactional outbox) and the request handlers of
  \<open>checkpoint_api/main.py\<close>. A transaction that raises is rolled back. The tables are those of
  \<open>migrations/\<close>; the constraints of the schema that an insert can violate are checked where
  the insert happens.
\<close>

section \<open>State\<close>

record run_capability =
  cap_thread_id :: uuid
  cap_run_id :: uuid
  cap_attempt_id :: uuid
  cap_lease_epoch :: int
  cap_operations :: "pystr list"
  cap_user_id :: "uuid option"
  cap_conversation_id :: "uuid option"
  cap_trace_id :: pystr

record lease_row =
  l_run_id :: uuid
  l_attempt_id :: uuid
  l_lease_epoch :: int

record checkpoint_row =
  k_checkpoint_id :: uuid
  k_thread_id :: uuid
  k_run_id :: uuid
  k_attempt_id :: uuid
  k_lease_epoch :: int
  k_version :: nat
  k_serialization_version :: pystr
  k_payload :: pystr
  k_payload_sha256 :: pystr
  k_created_at :: instant

text \<open>The request hash is the text \<open>checkpoint:version:serialization:sha256\<close>; the model keeps
  the four parts.\<close>

type_synonym request_hash = "uuid \<times> nat \<times> pystr \<times> pystr"

record checkpoint_idem_row =
  ki_run_id :: uuid
  ki_key :: pystr
  ki_request_hash :: request_hash
  ki_checkpoint_id :: uuid

text \<open>The payload of a \<open>porfirium.run.checkpoint_committed.v1\<close> event: the envelope and the
  data it carries.\<close>

record committed_event =
  ce_event_id :: uuid
  ce_user_id :: uuid
  ce_conversation_id :: uuid
  ce_thread_id :: uuid
  ce_run_id :: uuid
  ce_attempt_id :: uuid
  ce_lease_epoch :: int
  ce_correlation_id :: uuid
  ce_traceparent :: pystr
  ce_cause_key :: pystr
  ce_checkpoint_id :: uuid
  ce_checkpoint_version :: nat
  ce_payload_sha256 :: pystr

record checkpoint_db =
  leases :: "lease_row list"
  checkpoints :: "checkpoint_row list"
  checkpoint_idempotency :: "checkpoint_idem_row list"
  checkpoint_outbox :: "committed_event outbox_row list"

definition empty_checkpoint_db :: checkpoint_db where
  "empty_checkpoint_db =
     \<lparr>leases = [], checkpoints = [], checkpoint_idempotency = [], checkpoint_outbox = []\<rparr>"

definition max_payload_bytes :: nat where
  "max_payload_bytes = 1024 * 1024"

section \<open>\<open>put_checkpoint\<close>\<close>

text \<open>The lease decision: the first writer of a run takes the lease, a higher epoch takes it
  over, everything else but the holder itself is stale.\<close>

definition take_lease :: "run_capability \<Rightarrow> lease_row list \<Rightarrow> exc + lease_row list" where
  "take_lease cap t =
     (case row_by l_run_id (cap_run_id cap) t of
        None \<Rightarrow>
          if cap_lease_epoch cap \<le> 0 then Inl Check_violation
          else Inr (t @ [\<lparr>l_run_id = cap_run_id cap, l_attempt_id = cap_attempt_id cap,
                          l_lease_epoch = cap_lease_epoch cap\<rparr>])
      | Some lease \<Rightarrow>
          if cap_lease_epoch cap > l_lease_epoch lease then
            Inr (update_where (\<lambda>r. l_run_id r = cap_run_id cap)
                  (\<lambda>r. r\<lparr>l_attempt_id := cap_attempt_id cap,
                         l_lease_epoch := cap_lease_epoch cap\<rparr>) t)
          else if l_attempt_id lease \<noteq> cap_attempt_id cap
                \<or> l_lease_epoch lease \<noteq> cap_lease_epoch cap
          then Inl (Problem 409 ''lease_stale'')
          else Inr t)"

definition current_version :: "uuid \<Rightarrow> checkpoint_row list \<Rightarrow> nat" where
  "current_version thread t = max_of k_version (filter (\<lambda>r. k_thread_id r = thread) t)"

definition find_replay ::
  "uuid \<Rightarrow> pystr \<Rightarrow> checkpoint_idem_row list \<Rightarrow> checkpoint_idem_row option" where
  "find_replay run key t = row_by (\<lambda>r. (ki_run_id r, ki_key r)) (run, key) t"

text \<open>\<open>capability.trace_id or capability.run_id.hex\<close> and the like: an empty text or an absent
  value is replaced.\<close>

definition committed_envelope ::
  "run_capability \<Rightarrow> uuid \<Rightarrow> uuid \<Rightarrow> nat \<Rightarrow> pystr \<Rightarrow> pystr \<Rightarrow> committed_event" where
  "committed_envelope cap event_id checkpoint_id version sha key =
     (let trace = (if cap_trace_id cap = [] then uuid_hex (cap_run_id cap) else cap_trace_id cap) in
      \<lparr>ce_event_id = event_id,
       ce_user_id = (case cap_user_id cap of Some u \<Rightarrow> u | None \<Rightarrow> cap_run_id cap),
       ce_conversation_id =
         (case cap_conversation_id cap of Some c \<Rightarrow> c | None \<Rightarrow> cap_thread_id cap),
       ce_thread_id = cap_thread_id cap, ce_run_id = cap_run_id cap,
       ce_attempt_id = cap_attempt_id cap, ce_lease_epoch = cap_lease_epoch cap,
       ce_correlation_id = hex_value trace, ce_traceparent = make_traceparent trace event_id,
       ce_cause_key = key, ce_checkpoint_id = checkpoint_id, ce_checkpoint_version = version,
       ce_payload_sha256 = sha\<rparr>)"

record put_request =
  p_checkpoint_id :: uuid
  p_expected_version :: nat
  p_serialization_version :: pystr
  p_payload :: pystr
  p_payload_sha256 :: pystr

definition hash_of :: "put_request \<Rightarrow> request_hash" where
  "hash_of q = (p_checkpoint_id q, p_expected_version q, p_serialization_version q,
     p_payload_sha256 q)"

text \<open>The two inserts of a fresh write, with the constraints of the schema: the identities are
  primary keys, \<open>serialization_version\<close> is a \<open>varchar(32)\<close> and the payload is bounded.\<close>

definition insert_checkpoint ::
  "run_capability \<Rightarrow> put_request \<Rightarrow> nat \<Rightarrow> instant \<Rightarrow> checkpoint_row list
     \<Rightarrow> exc + (checkpoint_row \<times> checkpoint_row list)" where
  "insert_checkpoint cap q version now t =
     (let row = \<lparr>k_checkpoint_id = p_checkpoint_id q, k_thread_id = cap_thread_id cap,
                 k_run_id = cap_run_id cap, k_attempt_id = cap_attempt_id cap,
                 k_lease_epoch = cap_lease_epoch cap, k_version = version,
                 k_serialization_version = p_serialization_version q,
                 k_payload = p_payload q, k_payload_sha256 = p_payload_sha256 q,
                 k_created_at = now\<rparr> in
      if has_row k_checkpoint_id (p_checkpoint_id q) t then Inl Unique_violation
      else if cap_lease_epoch cap \<le> 0 \<or> max_payload_bytes < length (p_payload q)
              \<or> 32 < char_count (p_serialization_version q) then Inl Check_violation
      else Inr (row, t @ [row]))"

definition put_checkpoint ::
  "run_capability \<Rightarrow> put_request \<Rightarrow> pystr \<Rightarrow> uuid \<times> instant \<Rightarrow> checkpoint_db
     \<Rightarrow> (checkpoint_row, checkpoint_db) tx" where
  "put_checkpoint cap q key x db =
     (case take_lease cap (leases db) of
        Inl e \<Rightarrow> Inl e
      | Inr leases' \<Rightarrow>
          (let db1 = db\<lparr>leases := leases'\<rparr> in
           case find_replay (cap_run_id cap) key (checkpoint_idempotency db1) of
             Some replay \<Rightarrow>
               if ki_request_hash replay \<noteq> hash_of q
               then Inl (Problem 409 ''idempotency_conflict'')
               else (case row_by k_checkpoint_id (ki_checkpoint_id replay) (checkpoints db1) of
                       None \<Rightarrow> Inl Value_error
                     | Some row \<Rightarrow> Inr (row, db1))
           | None \<Rightarrow>
               (let current = current_version (cap_thread_id cap) (checkpoints db1) in
                if current \<noteq> p_expected_version q
                then Inl (Problem 409 ''checkpoint_version_conflict'')
                else
                  (case insert_checkpoint cap q (current + 1) (snd x) (checkpoints db1) of
                     Inl e \<Rightarrow> Inl e
                   | Inr (row, checkpoints') \<Rightarrow>
                       if has_row o_event_id (fst x) (checkpoint_outbox db1)
                       then Inl Unique_violation
                       else
                         Inr (row, db1\<lparr>checkpoints := checkpoints',
                           checkpoint_idempotency := checkpoint_idempotency db1 @
                             [\<lparr>ki_run_id = cap_run_id cap, ki_key = key,
                               ki_request_hash = hash_of q,
                               ki_checkpoint_id = p_checkpoint_id q\<rparr>],
                           checkpoint_outbox := checkpoint_outbox db1 @
                             [outbox_entry (fst x) ''porfirium.run.event.checkpoint_committed''
                               (committed_envelope cap (fst x) (p_checkpoint_id q) (current + 1)
                                 (p_payload_sha256 q) key) (snd x)]\<rparr>)))))"

section \<open>Reads\<close>

definition get_checkpoint :: "uuid \<Rightarrow> uuid \<Rightarrow> checkpoint_db \<Rightarrow> exc + checkpoint_row" where
  "get_checkpoint thread checkpoint_id db =
     (case find (\<lambda>r. k_thread_id r = thread \<and> k_checkpoint_id r = checkpoint_id) (checkpoints db) of
        None \<Rightarrow> Inl (Problem 404 ''checkpoint_not_found'')
      | Some row \<Rightarrow> Inr row)"

text \<open>\<open>ORDER BY version DESC\<close>.\<close>

definition list_checkpoints :: "uuid \<Rightarrow> checkpoint_db \<Rightarrow> checkpoint_row list" where
  "list_checkpoints thread db =
     rev (sort_key k_version (filter (\<lambda>r. k_thread_id r = thread) (checkpoints db)))"

section \<open>Request handlers\<close>

definition authorize :: "run_capability \<Rightarrow> uuid \<Rightarrow> pystr \<Rightarrow> exc + unit" where
  "authorize cap thread operation =
     (if cap_thread_id cap \<noteq> thread \<or> operation \<notin> set (cap_operations cap)
      then Inl (Problem 403 ''checkpoint_forbidden'') else Inr ())"

text \<open>The body of a write. \<open>b_payload\<close> is the outcome of decoding the base64 text.\<close>

record put_body =
  b_run_id :: uuid
  b_attempt_id :: uuid
  b_lease_epoch :: int
  b_expected_version :: nat
  b_serialization_version :: pystr
  b_payload :: "pystr fld"
  b_payload_sha256 :: pystr

definition body_request :: "uuid \<Rightarrow> put_body \<Rightarrow> pystr \<Rightarrow> put_request" where
  "body_request checkpoint_id body payload =
     \<lparr>p_checkpoint_id = checkpoint_id, p_expected_version = b_expected_version body,
      p_serialization_version = b_serialization_version body, p_payload = payload,
      p_payload_sha256 = b_payload_sha256 body\<rparr>"

text \<open>\<open>sha\<close> is the hexadecimal SHA-256 of the payload.\<close>

definition checkpoint_put ::
  "(pystr \<Rightarrow> pystr) \<Rightarrow> uuid \<Rightarrow> uuid \<Rightarrow> put_body \<Rightarrow> run_capability \<Rightarrow> pystr \<Rightarrow> uuid \<times> instant
     \<Rightarrow> checkpoint_db \<Rightarrow> (checkpoint_row, checkpoint_db) tx" where
  "checkpoint_put sha thread checkpoint_id body cap key x db =
     (case authorize cap thread ''checkpoint:write'' of
        Inl e \<Rightarrow> Inl e
      | Inr _ \<Rightarrow>
          if (b_run_id body, b_attempt_id body, b_lease_epoch body)
             \<noteq> (cap_run_id cap, cap_attempt_id cap, cap_lease_epoch cap)
          then Inl (Problem 403 ''capability_claim_mismatch'')
          else (case b_payload body of
                  Good payload \<Rightarrow>
                    if max_payload_bytes < length payload
                    then Inl (Problem 413 ''payload_too_large'')
                    else if sha payload \<noteq> b_payload_sha256 body
                    then Inl (Problem 422 ''payload_hash_mismatch'')
                    else put_checkpoint cap (body_request checkpoint_id body payload) key x db
                | _ \<Rightarrow> Inl (Problem 422 ''payload_invalid'')))"

definition checkpoint_get ::
  "uuid \<Rightarrow> uuid \<Rightarrow> run_capability \<Rightarrow> checkpoint_db \<Rightarrow> exc + checkpoint_row" where
  "checkpoint_get thread checkpoint_id cap db =
     (case authorize cap thread ''checkpoint:read'' of
        Inl e \<Rightarrow> Inl e
      | Inr _ \<Rightarrow> get_checkpoint thread checkpoint_id db)"

definition checkpoint_list ::
  "uuid \<Rightarrow> run_capability \<Rightarrow> checkpoint_db \<Rightarrow> exc + checkpoint_row list" where
  "checkpoint_list thread cap db =
     (case authorize cap thread ''checkpoint:read'' of
        Inl e \<Rightarrow> Inl e
      | Inr _ \<Rightarrow> Inr (list_checkpoints thread db))"

section \<open>Outcomes of a write\<close>

definition holds_lease :: "run_capability \<Rightarrow> checkpoint_db \<Rightarrow> bool" where
  "holds_lease cap db \<longleftrightarrow>
     (case row_by l_run_id (cap_run_id cap) (leases db) of
        None \<Rightarrow> False
      | Some l \<Rightarrow> l_attempt_id l = cap_attempt_id cap \<and> l_lease_epoch l = cap_lease_epoch cap)"

text \<open>The epoch of a run's lease, 0 before the first write.\<close>

definition lease_epoch_of :: "uuid \<Rightarrow> lease_row list \<Rightarrow> int" where
  "lease_epoch_of run t =
     (case row_by l_run_id run t of None \<Rightarrow> 0 | Some l \<Rightarrow> l_lease_epoch l)"

lemma take_lease_holder:
  "holds_lease cap db \<Longrightarrow> take_lease cap (leases db) = Inr (leases db)"
  by (auto simp: holds_lease_def take_lease_def split: option.splits)

lemma take_lease_stale:
  assumes "has_row l_run_id (cap_run_id cap) t"
    and "cap_lease_epoch cap < lease_epoch_of (cap_run_id cap) t"
  shows "take_lease cap t = Inl (Problem 409 ''lease_stale'')"
  using assms by (auto simp: take_lease_def lease_epoch_of_def has_row_def split: option.splits)

lemma take_lease_has_row:
  assumes "take_lease cap t = Inr t'" and "has_row l_run_id run t"
  shows "has_row l_run_id run t'"
  using assms by (auto simp: take_lease_def has_row_update_where split: option.splits if_splits)

lemma take_lease_gives:
  assumes "take_lease cap t = Inr t'"
  shows "\<exists>l. row_by l_run_id (cap_run_id cap) t' = Some l
    \<and> l_attempt_id l = cap_attempt_id cap \<and> l_lease_epoch l = cap_lease_epoch cap"
  using assms
  by (auto simp: take_lease_def row_by_snoc row_by_update_where split: option.splits if_splits
      dest: row_by_SomeD)

lemma take_lease_epoch:
  assumes "take_lease cap t = Inr t'" and "\<forall>l \<in> set t. 0 < l_lease_epoch l"
  shows "lease_epoch_of run t \<le> lease_epoch_of run t'"
proof (cases "run = cap_run_id cap")
  case True
  then show ?thesis using assms
    by (auto simp: take_lease_def lease_epoch_of_def row_by_snoc row_by_update_where
        split: option.splits if_splits)
next
  case False
  then have "row_by l_run_id run t' = row_by l_run_id run t"
    using assms(1)
    by (auto simp: take_lease_def row_by_snoc split: option.splits if_splits
        intro!: row_by_update_other)
  then show ?thesis by (simp add: lease_epoch_of_def)
qed

lemma take_lease_positive:
  assumes "take_lease cap t = Inr t'" and "\<forall>l \<in> set t. 0 < l_lease_epoch l"
  shows "\<forall>l \<in> set t'. 0 < l_lease_epoch l"
proof (cases "row_by l_run_id (cap_run_id cap) t")
  case None
  then show ?thesis using assms by (auto simp: take_lease_def)
next
  case (Some l)
  then have "0 < l_lease_epoch l" using assms(2) by (auto dest: row_by_SomeD)
  then show ?thesis using assms Some
    by (auto simp: take_lease_def in_update_where split: if_splits)
qed

lemma take_lease_run_ids:
  assumes "take_lease cap t = Inr t'" and "distinct (map l_run_id t)"
  shows "distinct (map l_run_id t')"
  using assms
  by (auto simp: take_lease_def row_by_None_iff map_key_update_where split: option.splits if_splits)

text \<open>A successful write either found its idempotency key or inserted one checkpoint, one
  idempotency row and one event.\<close>

lemma put_checkpoint_cases:
  assumes "put_checkpoint cap q key x db = Inr (row, db')"
  obtains (Replay) ls rp where
    "take_lease cap (leases db) = Inr ls"
    "find_replay (cap_run_id cap) key (checkpoint_idempotency db) = Some rp"
    "ki_request_hash rp = hash_of q"
    "row_by k_checkpoint_id (ki_checkpoint_id rp) (checkpoints db) = Some row"
    "db' = db\<lparr>leases := ls\<rparr>"
  | (Fresh) ls where
    "take_lease cap (leases db) = Inr ls"
    "find_replay (cap_run_id cap) key (checkpoint_idempotency db) = None"
    "current_version (cap_thread_id cap) (checkpoints db) = p_expected_version q"
    "insert_checkpoint cap q (p_expected_version q + 1) (snd x) (checkpoints db)
       = Inr (row, checkpoints db @ [row])"
    "\<not> has_row o_event_id (fst x) (checkpoint_outbox db)"
    "db' = db\<lparr>leases := ls, checkpoints := checkpoints db @ [row],
       checkpoint_idempotency := checkpoint_idempotency db @
         [\<lparr>ki_run_id = cap_run_id cap, ki_key = key, ki_request_hash = hash_of q,
           ki_checkpoint_id = p_checkpoint_id q\<rparr>],
       checkpoint_outbox := checkpoint_outbox db @
         [outbox_entry (fst x) ''porfirium.run.event.checkpoint_committed''
           (committed_envelope cap (fst x) (p_checkpoint_id q) (p_expected_version q + 1)
             (p_payload_sha256 q) key) (snd x)]\<rparr>"
proof -
  from assms obtain ls where ls: "take_lease cap (leases db) = Inr ls"
    by (cases "take_lease cap (leases db)") (auto simp: put_checkpoint_def)
  show thesis
  proof (cases "find_replay (cap_run_id cap) key (checkpoint_idempotency db)")
    case (Some rp)
    with assms ls show thesis
      by (intro Replay [of ls rp]) (auto simp: put_checkpoint_def Let_def split: if_splits option.splits)
  next
    case None
    have v: "current_version (cap_thread_id cap) (checkpoints db) = p_expected_version q"
      using assms ls None by (auto simp: put_checkpoint_def Let_def split: if_splits)
    obtain cs where i: "insert_checkpoint cap q (p_expected_version q + 1) (snd x) (checkpoints db)
        = Inr (row, cs)"
      using assms ls None v by (auto simp: put_checkpoint_def Let_def split: if_splits)
    then have "cs = checkpoints db @ [row]"
      by (auto simp: insert_checkpoint_def Let_def split: if_splits)
    with assms ls None v i show thesis
      by (intro Fresh [of ls]) (auto simp: put_checkpoint_def Let_def split: if_splits)
  qed
qed

lemma insert_checkpoint_row:
  assumes "insert_checkpoint cap q v now t = Inr (row, t')"
  shows "row = \<lparr>k_checkpoint_id = p_checkpoint_id q, k_thread_id = cap_thread_id cap,
      k_run_id = cap_run_id cap, k_attempt_id = cap_attempt_id cap,
      k_lease_epoch = cap_lease_epoch cap, k_version = v,
      k_serialization_version = p_serialization_version q, k_payload = p_payload q,
      k_payload_sha256 = p_payload_sha256 q, k_created_at = now\<rparr>"
    and "\<not> has_row k_checkpoint_id (p_checkpoint_id q) t"
    and "length (p_payload q) \<le> max_payload_bytes"
  using assms by (auto simp: insert_checkpoint_def Let_def split: if_splits)

section \<open>Invariant\<close>

definition versions_of :: "uuid \<Rightarrow> checkpoint_row list \<Rightarrow> nat list" where
  "versions_of thread t = map k_version (filter (\<lambda>r. k_thread_id r = thread) t)"

definition row_mark :: "checkpoint_row \<Rightarrow> uuid \<times> uuid \<times> uuid \<times> uuid \<times> int \<times> nat \<times> pystr" where
  "row_mark r = (k_checkpoint_id r, k_thread_id r, k_run_id r, k_attempt_id r, k_lease_epoch r,
     k_version r, k_payload_sha256 r)"

definition event_mark :: "committed_event \<Rightarrow> uuid \<times> uuid \<times> uuid \<times> uuid \<times> int \<times> nat \<times> pystr" where
  "event_mark e = (ce_checkpoint_id e, ce_thread_id e, ce_run_id e, ce_attempt_id e,
     ce_lease_epoch e, ce_checkpoint_version e, ce_payload_sha256 e)"

text \<open>An idempotency row describes the request that wrote its checkpoint.\<close>

definition idem_matches :: "checkpoint_idem_row \<Rightarrow> checkpoint_row \<Rightarrow> bool" where
  "idem_matches i r \<longleftrightarrow> ki_checkpoint_id i = k_checkpoint_id r \<and> 0 < k_version r
     \<and> ki_request_hash i = (k_checkpoint_id r, k_version r - 1, k_serialization_version r,
         k_payload_sha256 r)"

definition checkpoint_inv :: "checkpoint_db \<Rightarrow> bool" where
  "checkpoint_inv db \<longleftrightarrow>
     distinct (map l_run_id (leases db)) \<and> (\<forall>l \<in> set (leases db). 0 < l_lease_epoch l)
   \<and> distinct (map k_checkpoint_id (checkpoints db))
   \<and> (\<forall>thread. gap_free (versions_of thread (checkpoints db)))
   \<and> (\<forall>r \<in> set (checkpoints db).
        0 < k_lease_epoch r \<and> k_lease_epoch r \<le> lease_epoch_of (k_run_id r) (leases db)
        \<and> length (k_payload r) \<le> max_payload_bytes)
   \<and> (\<forall>i \<in> set (checkpoint_idempotency db). \<exists>r \<in> set (checkpoints db). idem_matches i r)
   \<and> map (event_mark \<circ> o_payload) (checkpoint_outbox db) = map row_mark (checkpoints db)"

lemma current_version_length:
  assumes "checkpoint_inv db"
  shows "current_version thread (checkpoints db) = length (versions_of thread (checkpoints db))"
  using assms by (simp add: checkpoint_inv_def current_version_def versions_of_def max_of_gap_free)

lemma checkpoint_inv_empty [simp]: "checkpoint_inv empty_checkpoint_db"
  by (simp add: checkpoint_inv_def empty_checkpoint_db_def versions_of_def)

lemma checkpoint_inv_put:
  assumes inv: "checkpoint_inv db" and put: "put_checkpoint cap q key x db = Inr (row, db')"
  shows "checkpoint_inv db'"
  using put
proof (cases rule: put_checkpoint_cases)
  case (Replay ls rp)
  have "lease_epoch_of run (leases db) \<le> lease_epoch_of run ls" for run
    using Replay(1) inv take_lease_epoch by (auto simp: checkpoint_inv_def)
  then have "\<forall>r \<in> set (checkpoints db). 0 < k_lease_epoch r
      \<and> k_lease_epoch r \<le> lease_epoch_of (k_run_id r) ls
      \<and> length (k_payload r) \<le> max_payload_bytes"
    using inv by (meson checkpoint_inv_def order_trans)
  then show ?thesis
    using inv Replay(5) take_lease_positive [OF Replay(1)] take_lease_run_ids [OF Replay(1)]
    by (simp add: checkpoint_inv_def)
next
  case (Fresh ls)
  note ins = insert_checkpoint_row [OF Fresh(4)]
  have mono: "lease_epoch_of run (leases db) \<le> lease_epoch_of run ls" for run
    using Fresh(1) inv take_lease_epoch by (auto simp: checkpoint_inv_def)
  have mine: "lease_epoch_of (cap_run_id cap) ls = cap_lease_epoch cap"
    using take_lease_gives [OF Fresh(1)] by (auto simp: lease_epoch_of_def)
  have pos: "\<forall>l \<in> set ls. 0 < l_lease_epoch l"
    using take_lease_positive [OF Fresh(1)] inv by (simp add: checkpoint_inv_def)
  have ver: "gap_free (versions_of thread (checkpoints db'))" for thread
  proof (cases "thread = cap_thread_id cap")
    case True
    have "p_expected_version q = length (versions_of thread (checkpoints db))"
      using current_version_length [OF inv, of thread] Fresh(3) True by simp
    then have "versions_of thread (checkpoints db') = versions_of thread (checkpoints db)
        @ [Suc (length (versions_of thread (checkpoints db)))]"
      using Fresh(6) ins(1) True by (simp add: versions_of_def)
    moreover have "gap_free (versions_of thread (checkpoints db))"
      using inv by (simp add: checkpoint_inv_def)
    ultimately show ?thesis by (simp add: gap_free_snoc)
  next
    case False
    then show ?thesis using inv Fresh(6) ins(1) by (simp add: checkpoint_inv_def versions_of_def)
  qed
  have "0 < cap_lease_epoch cap"
    using take_lease_gives [OF Fresh(1)] pos by (metis row_by_SomeD)
  moreover have "\<forall>r \<in> set (checkpoints db). 0 < k_lease_epoch r
      \<and> k_lease_epoch r \<le> lease_epoch_of (k_run_id r) ls
      \<and> length (k_payload r) \<le> max_payload_bytes"
    using inv mono by (meson checkpoint_inv_def order_trans)
  ultimately have rows: "\<forall>r \<in> set (checkpoints db'). 0 < k_lease_epoch r
      \<and> k_lease_epoch r \<le> lease_epoch_of (k_run_id r) (leases db')
      \<and> length (k_payload r) \<le> max_payload_bytes"
    using Fresh(6) ins mine by simp
  have marks: "map (event_mark \<circ> o_payload) (checkpoint_outbox db') = map row_mark (checkpoints db')"
    using inv Fresh(6) ins(1)
    by (simp add: checkpoint_inv_def event_mark_def row_mark_def committed_envelope_def Let_def)
  have "\<forall>i \<in> set (checkpoint_idempotency db'). \<exists>r \<in> set (checkpoints db'). idem_matches i r"
    using inv Fresh(6) ins(1) by (auto simp: checkpoint_inv_def idem_matches_def hash_of_def)
  then show ?thesis
    using inv Fresh(6) ins take_lease_run_ids [OF Fresh(1)] pos ver rows marks
    by (auto simp: checkpoint_inv_def has_row_iff)
qed

section \<open>Retries\<close>

text \<open>The lookups of the idempotency contract: a capability and a key address the row of the
  capability's run.\<close>

definition stored_put ::
  "checkpoint_db \<Rightarrow> run_capability \<times> pystr \<Rightarrow> (request_hash \<times> uuid) option" where
  "stored_put db k =
     map_option (\<lambda>i. (ki_request_hash i, ki_checkpoint_id i))
       (find_replay (cap_run_id (fst k)) (snd k) (checkpoint_idempotency db))"

definition put_step :: "checkpoint_db \<Rightarrow> checkpoint_db \<Rightarrow> bool" where
  "put_step db db' \<longleftrightarrow> (\<exists>cap q key x row. put_checkpoint cap q key x db = Inr (row, db'))"

lemma find_replay_snoc:
  "find_replay run key (t @ [i]) =
     (case find_replay run key t of
        None \<Rightarrow> if (ki_run_id i, ki_key i) = (run, key) then Some i else None
      | Some j \<Rightarrow> Some j)"
  by (simp add: find_replay_def row_by_snoc)

lemma put_keeps_stored:
  assumes "put_checkpoint cap q key x db = Inr (row, db')" and "stored_put db k0 = Some v"
  shows "stored_put db' k0 = Some v"
  using assms
  by (cases rule: put_checkpoint_cases)
    (auto simp: stored_put_def find_replay_snoc split: option.splits)

lemma put_commits:
  assumes "put_checkpoint cap q key x db = Inr (row, db')"
  shows "stored_put db' (cap, key) = Some (hash_of q, k_checkpoint_id row)"
  using assms
proof (cases rule: put_checkpoint_cases)
  case (Replay ls rp)
  then show ?thesis by (auto simp: stored_put_def dest: row_by_SomeD)
next
  case (Fresh ls)
  then show ?thesis using insert_checkpoint_row [OF Fresh(4)]
    by (simp add: stored_put_def find_replay_snoc)
qed

lemma put_replay:
  assumes "checkpoint_inv db" and "holds_lease cap db"
    and "stored_put db (cap, key) = Some (hash_of q, i)"
  shows "\<exists>r. put_checkpoint cap q key x db = Inr (r, db) \<and> k_checkpoint_id r = i"
proof -
  obtain rp where rp: "find_replay (cap_run_id cap) key (checkpoint_idempotency db) = Some rp"
      "ki_request_hash rp = hash_of q" "ki_checkpoint_id rp = i"
    using assms(3) by (auto simp: stored_put_def)
  then have "rp \<in> set (checkpoint_idempotency db)"
    by (auto simp: find_replay_def dest: row_by_SomeD)
  then have "has_row k_checkpoint_id i (checkpoints db)"
    using assms(1) rp(3) by (auto simp: checkpoint_inv_def idem_matches_def has_row_iff)
  then obtain r where r: "row_by k_checkpoint_id i (checkpoints db) = Some r"
    by (auto simp: has_row_def)
  then have "k_checkpoint_id r = i" by (auto dest: row_by_SomeD)
  then show ?thesis using rp r take_lease_holder [OF assms(2)]
    by (simp add: put_checkpoint_def)
qed

lemma put_clash:
  assumes "holds_lease cap db" and "stored_put db (cap, key) = Some (d, i)" and "d \<noteq> hash_of q"
  shows "put_checkpoint cap q key x db = Inl (Problem 409 ''idempotency_conflict'')"
  using assms take_lease_holder [OF assms(1)] by (auto simp: put_checkpoint_def stored_put_def)

interpretation put_service: idempotent_service
  "\<lambda>(cap, key) q x db. put_checkpoint cap q key x db" stored_put hash_of k_checkpoint_id
  "\<lambda>db (cap, key) q. holds_lease cap db" "Problem 409 ''idempotency_conflict''" checkpoint_inv
  put_step
proof unfold_locales
  fix s s' :: checkpoint_db and v and k0 :: "run_capability \<times> pystr"
  assume "put_step s s'" and "stored_put s k0 = Some v"
  then show "stored_put s' k0 = Some v" by (auto simp: put_step_def intro: put_keeps_stored)
qed (auto simp: put_step_def intro: put_replay put_clash put_commits put_keeps_stored
    checkpoint_inv_put)

section \<open>Histories of the service\<close>

text \<open>A call of the write handler, and the database after a history of calls, each with its
  event identity and clock reading. A call that fails leaves the database alone.\<close>

type_synonym put_call = "uuid \<times> uuid \<times> put_body \<times> run_capability \<times> pystr"

definition serve_put ::
  "(pystr \<Rightarrow> pystr) \<Rightarrow> put_call \<Rightarrow> uuid \<times> instant \<Rightarrow> checkpoint_db
     \<Rightarrow> (checkpoint_row, checkpoint_db) tx" where
  "serve_put sha call x db =
     (case call of (thread, checkpoint_id, body, cap, key) \<Rightarrow>
        checkpoint_put sha thread checkpoint_id body cap key x db)"

definition serve_puts ::
  "(pystr \<Rightarrow> pystr) \<Rightarrow> (put_call \<times> (uuid \<times> instant)) list \<Rightarrow> checkpoint_db \<Rightarrow> checkpoint_db" where
  "serve_puts sha calls db = deliver (serve_put sha) calls db"

lemma checkpoint_put_cases:
  assumes "checkpoint_put sha thread cid body cap key x db = Inr (row, db')"
  obtains payload where "cap_thread_id cap = thread" "b_payload body = Good payload"
    "length payload \<le> max_payload_bytes" "b_payload_sha256 body = sha payload"
    "(b_run_id body, b_attempt_id body, b_lease_epoch body)
       = (cap_run_id cap, cap_attempt_id cap, cap_lease_epoch cap)"
    "put_checkpoint cap (body_request cid body payload) key x db = Inr (row, db')"
  using assms
  by (auto simp: checkpoint_put_def authorize_def split: if_splits fld.splits)

definition hashes_ok :: "(pystr \<Rightarrow> pystr) \<Rightarrow> checkpoint_db \<Rightarrow> bool" where
  "hashes_ok sha db \<longleftrightarrow> list_all (\<lambda>r. k_payload_sha256 r = sha (k_payload r)) (checkpoints db)"

lemma serve_put_keeps:
  assumes "serve_put sha call x db = Inr (row, db')" and "checkpoint_inv db"
  shows "checkpoint_inv db'" and "hashes_ok sha db \<Longrightarrow> hashes_ok sha db'" and "put_step db db'"
    and "\<exists>new. checkpoints db' = checkpoints db @ new"
    and "has_row l_run_id run (leases db) \<Longrightarrow> has_row l_run_id run (leases db')"
    and "lease_epoch_of run (leases db) \<le> lease_epoch_of run (leases db')"
proof -
  obtain thread cid body cap key where
    "checkpoint_put sha thread cid body cap key x db = Inr (row, db')"
    using assms(1) by (cases call) (auto simp: serve_put_def)
  then obtain payload where sha: "b_payload_sha256 body = sha payload"
    and put: "put_checkpoint cap (body_request cid body payload) key x db = Inr (row, db')"
    by (rule checkpoint_put_cases)
  show "checkpoint_inv db'" using assms(2) put by (rule checkpoint_inv_put)
  show "put_step db db'" unfolding put_step_def using put by blast
  show "\<exists>new. checkpoints db' = checkpoints db @ new"
    using put by (cases rule: put_checkpoint_cases) auto
  show "has_row l_run_id run (leases db')" if "has_row l_run_id run (leases db)"
    using put that by (cases rule: put_checkpoint_cases) (auto intro: take_lease_has_row)
  show "lease_epoch_of run (leases db) \<le> lease_epoch_of run (leases db')"
    using put assms(2) by (cases rule: put_checkpoint_cases)
      (auto simp: checkpoint_inv_def intro: take_lease_epoch)
  show "hashes_ok sha db'" if "hashes_ok sha db"
    using put
  proof (cases rule: put_checkpoint_cases)
    case (Fresh ls)
    then show ?thesis using that insert_checkpoint_row(1) [OF Fresh(4)] sha
      by (simp add: hashes_ok_def body_request_def)
  qed (use that in \<open>simp add: hashes_ok_def\<close>)
qed

lemma serve_puts_keep:
  assumes "checkpoint_inv db"
  shows "checkpoint_inv (serve_puts sha calls db)"
    and "hashes_ok sha db \<Longrightarrow> hashes_ok sha (serve_puts sha calls db)"
    and "put_step\<^sup>*\<^sup>* db (serve_puts sha calls db)"
    and "\<exists>new. checkpoints (serve_puts sha calls db) = checkpoints db @ new"
    and "has_row l_run_id run (leases db)
      \<Longrightarrow> has_row l_run_id run (leases (serve_puts sha calls db))"
    and "lease_epoch_of run (leases db) \<le> lease_epoch_of run (leases (serve_puts sha calls db))"
proof -
  have "checkpoint_inv (deliver (serve_put sha) calls db)
    \<and> (hashes_ok sha db \<longrightarrow> hashes_ok sha (deliver (serve_put sha) calls db))
    \<and> put_step\<^sup>*\<^sup>* db (deliver (serve_put sha) calls db)
    \<and> (\<exists>new. checkpoints (deliver (serve_put sha) calls db) = checkpoints db @ new)
    \<and> (has_row l_run_id run (leases db)
        \<longrightarrow> has_row l_run_id run (leases (deliver (serve_put sha) calls db)))
    \<and> lease_epoch_of run (leases db)
        \<le> lease_epoch_of run (leases (deliver (serve_put sha) calls db))"
    using assms
  proof (induction calls arbitrary: db)
    case (Cons c calls)
    obtain call x where c: "c = (call, x)" by (cases c)
    show ?case
    proof (cases "serve_put sha call x db")
      case (Inl e)
      then show ?thesis using Cons c by simp
    next
      case (Inr rs)
      then obtain row db' where s: "serve_put sha call x db = Inr (row, db')" by (cases rs) auto
      note keeps = serve_put_keeps [OF s Cons.prems]
      note rest = Cons.IH [OF keeps(1)]
      have "\<exists>new. checkpoints (deliver (serve_put sha) calls db') = checkpoints db @ new"
        using keeps(4) rest by (metis append.assoc)
      then show ?thesis using s c rest keeps
        by (auto intro: converse_rtranclp_into_rtranclp order_trans)
    qed
  qed simp
  then show "checkpoint_inv (serve_puts sha calls db)"
    and "hashes_ok sha db \<Longrightarrow> hashes_ok sha (serve_puts sha calls db)"
    and "put_step\<^sup>*\<^sup>* db (serve_puts sha calls db)"
    and "\<exists>new. checkpoints (serve_puts sha calls db) = checkpoints db @ new"
    and "has_row l_run_id run (leases db)
      \<Longrightarrow> has_row l_run_id run (leases (serve_puts sha calls db))"
    and "lease_epoch_of run (leases db) \<le> lease_epoch_of run (leases (serve_puts sha calls db))"
    by (simp_all add: serve_puts_def)
qed

section \<open>Properties\<close>

abbreviation reached :: "(pystr \<Rightarrow> pystr) \<Rightarrow> (put_call \<times> (uuid \<times> instant)) list \<Rightarrow> checkpoint_db" where
  "reached sha calls \<equiv> serve_puts sha calls empty_checkpoint_db"

lemma reached_inv: "checkpoint_inv (reached sha calls)"
  by (simp add: serve_puts_keep)

lemma get_checkpoint_found:
  assumes "checkpoint_inv db" and "row \<in> set (checkpoints db)"
  shows "get_checkpoint (k_thread_id row) (k_checkpoint_id row) db = Inr row"
proof -
  have "find (\<lambda>r. k_thread_id r = k_thread_id row \<and> k_checkpoint_id r = k_checkpoint_id row) t
      = Some row" if "distinct (map k_checkpoint_id t)" "row \<in> set t" for t
    using that by (induction t) (auto simp: image_iff)
  then show ?thesis using assms by (simp add: get_checkpoint_def checkpoint_inv_def)
qed

lemma put_returns_member:
  assumes "put_checkpoint cap q key x db = Inr (row, db')"
  shows "row \<in> set (checkpoints db')"
  using assms by (cases rule: put_checkpoint_cases) (auto dest: row_by_SomeD)

lemma put_returns_request:
  assumes "checkpoint_inv db" and put: "put_checkpoint cap q key x db = Inr (row, db')"
  shows "k_checkpoint_id row = p_checkpoint_id q \<and> k_version row = p_expected_version q + 1
    \<and> k_serialization_version row = p_serialization_version q
    \<and> k_payload_sha256 row = p_payload_sha256 q"
  using put
proof (cases rule: put_checkpoint_cases)
  case (Replay ls rp)
  have "rp \<in> set (checkpoint_idempotency db)"
    using Replay(2) by (auto simp: find_replay_def dest: row_by_SomeD)
  then obtain r where r: "r \<in> set (checkpoints db)" "idem_matches rp r"
    using assms(1) by (auto simp: checkpoint_inv_def)
  then have "row_by k_checkpoint_id (k_checkpoint_id r) (checkpoints db) = Some r"
    using assms(1) by (auto simp: checkpoint_inv_def intro: row_by_unique)
  then have "r = row" using r Replay(4) by (simp add: idem_matches_def)
  then show ?thesis using r Replay(3) by (auto simp: idem_matches_def hash_of_def)
next
  case (Fresh ls)
  then show ?thesis using insert_checkpoint_row(1) [OF Fresh(4)] by simp
qed

text \<open>Concrete requests for the instances below: a run of thread 3 whose first attempt writes
  under epoch 1 and whose second attempt writes under epoch 2.\<close>

definition sample_cap :: "int \<Rightarrow> run_capability" where
  "sample_cap epoch = \<lparr>cap_thread_id = 3, cap_run_id = 4, cap_attempt_id = 5 + nat epoch,
     cap_lease_epoch = epoch, cap_operations = [''checkpoint:read'', ''checkpoint:write''],
     cap_user_id = Some 1, cap_conversation_id = Some 2,
     cap_trace_id = replicate 31 (CHR ''0'') @ ''a''\<rparr>"

definition sample_body :: "int \<Rightarrow> nat \<Rightarrow> put_body" where
  "sample_body epoch version = \<lparr>b_run_id = 4, b_attempt_id = 5 + nat epoch,
     b_lease_epoch = epoch, b_expected_version = version, b_serialization_version = ''1'',
     b_payload = Good ''state'', b_payload_sha256 = ''5f''\<rparr>"

definition sample_put :: "int \<Rightarrow> nat \<Rightarrow> uuid \<Rightarrow> put_request" where
  "sample_put epoch version cid = body_request cid (sample_body epoch version) ''state''"

lemmas put_eval = put_checkpoint_def take_lease_def find_replay_def current_version_def
  insert_checkpoint_def committed_envelope_def hash_of_def Let_def max_payload_bytes_def
  sample_cap_def sample_body_def sample_put_def body_request_def empty_checkpoint_db_def
  holds_lease_def serve_puts_def serve_put_def checkpoint_put_def authorize_def
  char_count_def continuation_byte_def

lemma serve_puts_Nil [simp]: "serve_puts sha [] db = db"
  by (simp add: serve_puts_def)

text \<open>C1. Whatever write requests the Checkpoint API has served, in any order and with any failures
  between them: the versions of each thread are 1, 2, ..., n without a gap, checkpoint identities
  are unique, every stored payload has the stored SHA-256, and the outbox holds exactly one
  \<open>checkpoint_committed\<close> event per checkpoint, in commit order and with its identities, version
  and hash.\<close>

theorem checkpoint_history:
  "gap_free (versions_of thread (checkpoints (serve_puts sha calls empty_checkpoint_db)))
   \<and> distinct (map k_checkpoint_id (checkpoints (serve_puts sha calls empty_checkpoint_db)))
   \<and> list_all (\<lambda>r. k_payload_sha256 r = sha (k_payload r)
        \<and> length (k_payload r) \<le> max_payload_bytes)
      (checkpoints (serve_puts sha calls empty_checkpoint_db))
   \<and> map (event_mark \<circ> o_payload) (checkpoint_outbox (serve_puts sha calls empty_checkpoint_db))
      = map row_mark (checkpoints (serve_puts sha calls empty_checkpoint_db))"
proof -
  have "hashes_ok sha (reached sha calls)"
    using serve_puts_keep(2) [OF checkpoint_inv_empty]
    by (simp add: hashes_ok_def empty_checkpoint_db_def)
  then show ?thesis using reached_inv [of sha calls]
    by (simp add: checkpoint_inv_def hashes_ok_def list_all_iff)
qed

text \<open>C2. Lease fencing: once a write of a run has been accepted under some lease epoch, every
  later write of that run under a lower epoch is refused as \<open>lease_stale\<close>, whatever was served
  before and in between.\<close>

theorem stale_writer_fenced:
  assumes "put_checkpoint cap q key x (serve_puts sha calls empty_checkpoint_db) = Inr (row, db)"
    and "cap_run_id old = cap_run_id cap" and "cap_lease_epoch old < cap_lease_epoch cap"
  shows "put_checkpoint old q' key' x' (serve_puts sha calls' db)
    = Inl (Problem 409 ''lease_stale'')"
proof -
  have inv: "checkpoint_inv db" using reached_inv assms(1) by (rule checkpoint_inv_put)
  obtain ls where "take_lease cap (leases (reached sha calls)) = Inr ls" "leases db = ls"
    using assms(1) by (cases rule: put_checkpoint_cases) auto
  then have "has_row l_run_id (cap_run_id cap) (leases db)"
    and "lease_epoch_of (cap_run_id cap) (leases db) = cap_lease_epoch cap"
    using take_lease_gives [of cap "leases (reached sha calls)"]
    by (auto simp: has_row_def lease_epoch_of_def)
  then have "has_row l_run_id (cap_run_id cap) (leases (serve_puts sha calls' db))"
    and "cap_lease_epoch cap \<le> lease_epoch_of (cap_run_id cap) (leases (serve_puts sha calls' db))"
    using serve_puts_keep(5) [OF inv] serve_puts_keep(6) [OF inv] by metis+
  then have "take_lease old (leases (serve_puts sha calls' db)) = Inl (Problem 409 ''lease_stale'')"
    using assms(2,3) by (intro take_lease_stale) auto
  then show ?thesis by (simp add: put_checkpoint_def)
qed

lemma stale_writer_fenced_witness:
  "\<exists>row db. put_checkpoint (sample_cap 2) (sample_put 2 0 9) ''k'' (11, 0) empty_checkpoint_db
      = Inr (row, db)
    \<and> put_checkpoint (sample_cap 1) (sample_put 1 1 10) ''j'' (12, 0) db
      = Inl (Problem 409 ''lease_stale'')"
proof -
  have "\<not> isl (put_checkpoint (sample_cap 2) (sample_put 2 0 9) ''k'' (11, 0) empty_checkpoint_db)"
    by (simp add: put_eval)
  then obtain row db where "put_checkpoint (sample_cap 2) (sample_put 2 0 9) ''k'' (11, 0)
      empty_checkpoint_db = Inr (row, db)"
    by (rule committed_obtains)
  then show ?thesis
    using stale_writer_fenced [of "sample_cap 2" "sample_put 2 0 9" "''k''" "(11, 0)"
        "\<lambda>_. ''5f''" "[]" row db "sample_cap 1" "sample_put 1 1 10" "''j''" "(12, 0)" "[]"]
    by (auto simp: sample_cap_def)
qed

text \<open>Retries: a write that succeeded is answered with the checkpoint it created, and changes
  nothing, when its key is sent again with the same request after any other requests, as long as
  the writer still holds the lease; the same key with another request is refused.\<close>

theorem put_retry:
  assumes "put_checkpoint cap q key x (serve_puts sha calls empty_checkpoint_db) = Inr (row, db)"
    and "holds_lease cap (serve_puts sha calls' db)"
  shows "(\<exists>row'. put_checkpoint cap q key x' (serve_puts sha calls' db)
        = Inr (row', serve_puts sha calls' db) \<and> k_checkpoint_id row' = k_checkpoint_id row)
    \<and> (hash_of q' \<noteq> hash_of q \<longrightarrow> put_checkpoint cap q' key x' (serve_puts sha calls' db)
        = Inl (Problem 409 ''idempotency_conflict''))"
proof -
  have inv: "checkpoint_inv db" using reached_inv assms(1) by (rule checkpoint_inv_put)
  show ?thesis
    using put_service.retry_later [of "reached sha calls" "(cap, key)" q x row db]
      put_service.reuse_later [of "reached sha calls" "(cap, key)" q x row db]
      reached_inv assms serve_puts_keep(3) [OF inv] by auto
qed

lemma put_retry_witness:
  "\<exists>row db. put_checkpoint (sample_cap 1) (sample_put 1 0 9) ''k'' (11, 0) empty_checkpoint_db
      = Inr (row, db)
    \<and> (\<exists>row'. put_checkpoint (sample_cap 1) (sample_put 1 0 9) ''k'' (12, 5) db = Inr (row', db))
    \<and> put_checkpoint (sample_cap 1) (sample_put 1 1 10) ''k'' (12, 5) db
      = Inl (Problem 409 ''idempotency_conflict'')"
proof -
  let ?r = "put_checkpoint (sample_cap 1) (sample_put 1 0 9) ''k'' (11, 0) empty_checkpoint_db"
  have "\<not> isl ?r \<and> holds_lease (sample_cap 1) (snd (projr ?r))"
    by (simp add: put_eval)
  then obtain row db where "?r = Inr (row, db)" "holds_lease (sample_cap 1) db"
    by (auto elim: committed_obtains)
  moreover have d: "hash_of (sample_put 1 1 10) \<noteq> hash_of (sample_put 1 0 9)"
    by (simp add: put_eval)
  ultimately show ?thesis
    using put_retry [of "sample_cap 1" "sample_put 1 0 9" "''k''" "(11, 0)"
        "\<lambda>_. ''5f''" "[]" row db "[]" "(12, 5)" "sample_put 1 1 10"] d
    unfolding serve_puts_Nil by blast
qed

text \<open>Compare and swap: a lease holder's write under an unused key, with unused identities and
  within the size limits, succeeds exactly when its expected version is the thread's current
  version, and then moves it up by one; otherwise it is a version conflict.\<close>

theorem put_compare_and_swap:
  assumes "db = serve_puts sha calls empty_checkpoint_db" and "holds_lease cap db"
    and "find_replay (cap_run_id cap) key (checkpoint_idempotency db) = None"
    and "\<not> has_row k_checkpoint_id (p_checkpoint_id q) (checkpoints db)"
    and "\<not> has_row o_event_id (fst x) (checkpoint_outbox db)"
    and "length (p_payload q) \<le> max_payload_bytes"
    and "char_count (p_serialization_version q) \<le> 32"
  shows "if p_expected_version q = current_version (cap_thread_id cap) (checkpoints db)
    then \<exists>row db'. put_checkpoint cap q key x db = Inr (row, db')
      \<and> k_version row = p_expected_version q + 1
      \<and> current_version (cap_thread_id cap) (checkpoints db') = p_expected_version q + 1
    else put_checkpoint cap q key x db = Inl (Problem 409 ''checkpoint_version_conflict'')"
proof -
  have ls: "take_lease cap (leases db) = Inr (leases db)" using assms(2) by (rule take_lease_holder)
  obtain l where "row_by l_run_id (cap_run_id cap) (leases db) = Some l"
      "l_lease_epoch l = cap_lease_epoch cap"
    using assms(2) by (auto simp: holds_lease_def split: option.splits)
  moreover have "\<forall>l \<in> set (leases db). 0 < l_lease_epoch l"
    using reached_inv [of sha calls] assms(1) by (simp add: checkpoint_inv_def)
  ultimately have "0 < cap_lease_epoch cap" by (metis row_by_SomeD)
  then show ?thesis using ls assms(3-7)
    by (auto simp: put_checkpoint_def insert_checkpoint_def Let_def current_version_def)
qed

lemma put_compare_and_swap_witness:
  "put_checkpoint (sample_cap 1) (sample_put 1 0 10) ''j'' (12, 0)
     (serve_puts (\<lambda>_. ''5f'') [((3, 9, sample_body 1 0, sample_cap 1, ''k''), (11, 0))]
       empty_checkpoint_db) = Inl (Problem 409 ''checkpoint_version_conflict'')"
proof -
  let ?db = "serve_puts (\<lambda>_. ''5f'') [((3, 9, sample_body 1 0, sample_cap 1, ''k''), (11, 0))]
    empty_checkpoint_db"
  have "holds_lease (sample_cap 1) ?db" by (simp add: put_eval)
  moreover have "find_replay (cap_run_id (sample_cap 1)) ''j'' (checkpoint_idempotency ?db) = None"
    by (simp add: put_eval)
  moreover have "\<not> has_row k_checkpoint_id (p_checkpoint_id (sample_put 1 0 10)) (checkpoints ?db)
    \<and> \<not> has_row o_event_id 12 (checkpoint_outbox ?db)" by (simp add: put_eval)
  moreover have "length (p_payload (sample_put 1 0 10)) \<le> max_payload_bytes
    \<and> char_count (p_serialization_version (sample_put 1 0 10)) \<le> 32" by (simp add: put_eval)
  moreover have "p_expected_version (sample_put 1 0 10)
    \<noteq> current_version (cap_thread_id (sample_cap 1)) (checkpoints ?db)" by (simp add: put_eval)
  ultimately show ?thesis
    using put_compare_and_swap [OF refl, of "sample_cap 1" "\<lambda>_. ''5f''"
        "[((3, 9, sample_body 1 0, sample_cap 1, ''k''), (11, 0))]" "''j''" "sample_put 1 0 10"
        "(12, 0)"] by simp
qed

text \<open>What a write acknowledged can be read back: after any further requests, a reader of the
  thread gets the acknowledged row unchanged; its identity, version and hash are the ones of the
  request.\<close>

theorem put_then_get:
  assumes "checkpoint_put sha thread cid body cap key x (serve_puts sha calls empty_checkpoint_db)
      = Inr (row, db)"
    and "cap_thread_id reader = k_thread_id row"
    and "''checkpoint:read'' \<in> set (cap_operations reader)"
  shows "checkpoint_get (k_thread_id row) cid reader (serve_puts sha calls' db) = Inr row
    \<and> k_checkpoint_id row = cid \<and> k_version row = b_expected_version body + 1
    \<and> k_payload_sha256 row = b_payload_sha256 body"
proof -
  obtain payload where
    put: "put_checkpoint cap (body_request cid body payload) key x (reached sha calls)
      = Inr (row, db)"
    using assms(1) by (rule checkpoint_put_cases)
  have inv: "checkpoint_inv db" using reached_inv put by (rule checkpoint_inv_put)
  have "row \<in> set (checkpoints (serve_puts sha calls' db))"
    using put_returns_member [OF put] serve_puts_keep(4) [OF inv, of sha calls'] by auto
  moreover have "k_checkpoint_id row = cid" and "k_version row = b_expected_version body + 1"
    and "k_payload_sha256 row = b_payload_sha256 body"
    using put_returns_request [OF reached_inv put] by (simp_all add: body_request_def)
  ultimately show ?thesis
    using get_checkpoint_found [OF serve_puts_keep(1) [OF inv], of row] assms(2,3)
    by (simp add: checkpoint_get_def authorize_def)
qed

lemma put_then_get_witness:
  "\<exists>row db. checkpoint_put (\<lambda>_. ''5f'') 3 9 (sample_body 1 0) (sample_cap 1) ''k'' (11, 0)
      empty_checkpoint_db = Inr (row, db)
    \<and> checkpoint_get 3 9 (sample_cap 1) db = Inr row \<and> k_version row = 1"
proof -
  let ?r = "checkpoint_put (\<lambda>_. ''5f'') 3 9 (sample_body 1 0) (sample_cap 1) ''k'' (11, 0)
    empty_checkpoint_db"
  have "\<not> isl ?r \<and> k_thread_id (fst (projr ?r)) = 3" by (simp add: put_eval)
  then obtain row db where "?r = Inr (row, db)" "k_thread_id row = 3"
    by (auto elim: committed_obtains)
  then show ?thesis
    using put_then_get [of "\<lambda>_. ''5f''" 3 9 "sample_body 1 0" "sample_cap 1" "''k''" "(11, 0)"
        "[]" row db "sample_cap 1" "[]"]
    by (auto simp: sample_cap_def sample_body_def)
qed

text \<open>The list of a thread's checkpoints is complete and ordered: its versions are n, ..., 2, 1
  and it holds the rows of the thread, each once.\<close>

theorem list_newest_first:
  "map k_version (list_checkpoints thread (serve_puts sha calls empty_checkpoint_db))
     = rev [1..<Suc (length (list_checkpoints thread (serve_puts sha calls empty_checkpoint_db)))]
   \<and> mset (list_checkpoints thread (serve_puts sha calls empty_checkpoint_db))
     = filter_mset (\<lambda>r. k_thread_id r = thread)
         (mset (checkpoints (serve_puts sha calls empty_checkpoint_db)))"
proof -
  let ?t = "filter (\<lambda>r. k_thread_id r = thread) (checkpoints (reached sha calls))"
  have g: "gap_free (map k_version ?t)"
    using reached_inv [of sha calls] by (simp add: checkpoint_inv_def versions_of_def)
  then have "sort_key k_version ?t = ?t"
    by (simp add: gap_free_sorted sort_key_id_if_sorted)
  then show ?thesis using g
    by (simp add: list_checkpoints_def gap_free_def rev_map [symmetric])
qed

end
