(* ===== verification/RunnerState.thy ===== *)
theory RunnerState
  imports Complex_Main Contracts Events Outbox
begin

text \<open>
  The state of the Agent Runner (the tables of \<open>agent-runner/migrations/\<close>), the admission of a run
  (\<open>RunnerService.admit\<close>), the capacity decision (\<open>capacity.py\<close>), the limits on the resources a
  specification asks for and the container it describes (\<open>_start_attempt\<close> up to the first backend
  call, \<open>issue_run_capability\<close>).
\<close>

section \<open>Tables\<close>

datatype run_state =
    Requested | Accepted | Scheduled | Starting | Running | Suspending | Waiting_for_input
  | Completion_reconciling | Cancelling | Completed | Failed | Cancelled

datatype attempt_state = A_starting | A_running | A_stopping | A_exited | A_failed

text \<open>Python floats, as far as \<open>float\<close>, division by 1000, comparison and \<open>min\<close> need them.\<close>

datatype pyfloat = Nan | Pos_inf | Neg_inf | Finite rat

text \<open>A \<open>cpu\<close> value of a specification: its text ends with m or not, and \<open>float\<close> was applied to
  what is before the m or to the value.\<close>

datatype cpu_value = Milli "pyfloat fld" | Cores "pyfloat fld"

record run_resources =
  res_memory :: "pystr option"
  res_cpu :: "cpu_value option"
  res_pids :: "int fld"

text \<open>The payload of a signed specification, as far as the Runner reads it. \<open>sp_expires_at\<close> is
  Missing when the value is no text and Malformed when parsing or comparing it raises.\<close>

record spec_payload =
  sp_expires_at :: "instant fld"
  sp_release_image :: "pystr fld fld"
  sp_resources :: "run_resources fld"
  sp_requested_models :: "pystr list"
  sp_requested_tools :: "pystr list"

record signed_specification =
  ss_specification_id :: uuid
  ss_run_id :: uuid
  ss_payload :: spec_payload
  ss_payload_sha256 :: pystr
  ss_signature :: pystr
  ss_key_id :: pystr

datatype trigger_type = User_message | User_response | Resume

record run_trigger =
  tr_type :: trigger_type
  tr_id :: uuid

text \<open>\<open>ri_octets\<close> is the length of the stored JSON text, \<open>octet_length(run_input::text)\<close>, in which
  characters beyond ASCII take their UTF-8 bytes; \<open>ri_dumped_octets\<close> is the length of \<open>json.dumps\<close> of
  the stored value, which escapes them.\<close>

record run_input =
  ri_trigger_type :: trigger_type
  ri_trigger_id :: uuid
  ri_value :: pystr
  ri_octets :: nat
  ri_dumped_octets :: nat

record run_admission =
  ad_run_id :: uuid
  ad_user_id :: uuid
  ad_conversation_id :: uuid
  ad_thread_id :: uuid
  ad_release_id :: uuid
  ad_delegation_grant_id :: uuid
  ad_configuration_revision_id :: "uuid option"
  ad_starting_checkpoint_id :: "uuid option"
  ad_trigger :: run_trigger
  ad_run_input :: "run_input option"
  ad_trace_id :: pystr

record run_row =
  r_run_id :: uuid
  r_user_id :: uuid
  r_conversation_id :: uuid
  r_thread_id :: uuid
  r_admission :: run_admission
  r_trace_id :: pystr
  r_specification :: signed_specification
  r_state :: run_state
  r_active :: "uuid option"
  r_epoch :: nat
  r_terminal_code :: "pystr option"
  r_cancel_requested :: "instant option"
  r_deadline :: instant
  r_created :: instant
  r_updated :: instant

record attempt_row =
  a_id :: uuid
  a_run :: uuid
  a_number :: nat
  a_epoch :: nat
  a_state :: attempt_state
  a_container :: "pystr option"
  a_deadline :: instant
  a_started :: "instant option"
  a_ended :: "instant option"
  a_visible_output :: bool
  a_active_message :: "uuid option"

record run_idem_row =
  ru_key :: pystr
  ru_sha256 :: pystr
  ru_run_id :: uuid

record completion_row =
  c_run :: uuid
  c_event :: uuid
  c_attempt :: uuid
  c_epoch :: nat
  c_messages :: "uuid list"
  c_checkpoint :: "uuid option"
  c_required :: "pystr list"
  c_messages_confirmed :: bool
  c_checkpoint_confirmed :: bool
  c_reconciled :: "instant option"

record confirmation_row =
  n_run :: uuid
  n_kind :: pystr
  n_payload :: event_data

datatype runner_payload = Schedule_command uuid | Run_event envelope

record runner_db =
  runs :: "run_row list"
  attempts :: "attempt_row list"
  run_idempotency :: "run_idem_row list"
  completions :: "completion_row list"
  confirmations :: "confirmation_row list"
  run_inbox :: "(uuid \<times> pystr) list"
  runner_outbox :: "runner_payload outbox_row list"

definition empty_runner_db :: runner_db where
  "empty_runner_db = \<lparr>runs = [], attempts = [], run_idempotency = [], completions = [],
     confirmations = [], run_inbox = [], runner_outbox = []\<rparr>"

text \<open>\<open>RunnerError(code)\<close>.\<close>

definition runner_error :: "pystr \<Rightarrow> exc" where
  "runner_error code = Coded ''RunnerError'' code"

definition get_run :: "runner_db \<Rightarrow> uuid \<Rightarrow> exc + run_row" where
  "get_run db run =
     (case row_by r_run_id run (runs db) of
        None \<Rightarrow> Inl (runner_error ''run_not_found'') | Some r \<Rightarrow> Inr r)"

section \<open>Admission\<close>

text \<open>\<open>_parse_time\<close>, on the decoded value.\<close>

definition parse_time :: "instant fld \<Rightarrow> instant \<Rightarrow> exc + instant" where
  "parse_time value now =
     (case value of
        Missing \<Rightarrow> Inl (runner_error ''specification_invalid'')
      | Malformed \<Rightarrow> Inl Value_error
      | Good parsed \<Rightarrow>
          if parsed \<le> now then Inl (runner_error ''specification_expired'') else Inr parsed)"

definition max_run_input_octets :: nat where
  "max_run_input_octets = 24576"

text \<open>The row inserted for an admission, with the constraints of the table.\<close>

definition admitted_row ::
  "run_admission \<Rightarrow> signed_specification \<Rightarrow> instant \<Rightarrow> instant \<Rightarrow> run_row" where
  "admitted_row ad spec deadline now =
     \<lparr>r_run_id = ad_run_id ad, r_user_id = ad_user_id ad,
      r_conversation_id = ad_conversation_id ad, r_thread_id = ad_thread_id ad,
      r_admission = ad, r_trace_id = ad_trace_id ad, r_specification = spec, r_state = Accepted,
      r_active = None, r_epoch = 0, r_terminal_code = None, r_cancel_requested = None,
      r_deadline = deadline, r_created = now, r_updated = now\<rparr>"

definition admitted_row_ok :: "run_admission \<Rightarrow> signed_specification \<Rightarrow> bool" where
  "admitted_row_ok ad spec \<longleftrightarrow> length (ad_trace_id ad) = 32 \<and> list_all is_hex (ad_trace_id ad)
     \<and> length (ss_payload_sha256 spec) = 64 \<and> list_all is_hex (ss_payload_sha256 spec)
     \<and> (case ad_run_input ad of None \<Rightarrow> True | Some i \<Rightarrow> ri_octets i \<le> max_run_input_octets)"

text \<open>\<open>digest\<close> and \<open>spec_digest\<close> are the canonical SHA-256 of the admission and of the payload;
  \<open>timeout\<close> is \<open>attempt_timeout_seconds\<close> in microseconds. The environment gives the event identity
  and the clock.\<close>

definition admit ::
  "(run_admission \<Rightarrow> pystr) \<Rightarrow> (spec_payload \<Rightarrow> pystr) \<Rightarrow> instant \<Rightarrow> pystr
     \<Rightarrow> run_admission \<times> signed_specification \<Rightarrow> uuid \<times> instant \<Rightarrow> runner_db
     \<Rightarrow> (run_row, runner_db) tx" where
  "admit digest spec_digest timeout key q x db =
     (let ad = fst q; spec = snd q; now = snd x; request_digest = digest ad in
      case row_by ru_key key (run_idempotency db) of
        Some replay \<Rightarrow>
          if ru_sha256 replay \<noteq> request_digest then Inl (runner_error ''idempotency_conflict'')
          else (case get_run db (ru_run_id replay) of Inl e \<Rightarrow> Inl e | Inr r \<Rightarrow> Inr (r, db))
      | None \<Rightarrow>
          if has_row r_run_id (ad_run_id ad) (runs db) then Inl (runner_error ''run_conflict'')
          else if spec_digest (ss_payload spec) \<noteq> ss_payload_sha256 spec
                  \<or> ss_run_id spec \<noteq> ad_run_id ad
          then Inl (runner_error ''specification_invalid'')
          else
            (case parse_time (sp_expires_at (ss_payload spec)) now of
               Inl e \<Rightarrow> Inl e
             | Inr expires_at \<Rightarrow>
                 if \<not> admitted_row_ok ad spec then Inl Check_violation
                 else
                   (let row = admitted_row ad spec (min expires_at (now + timeout)) now in
                    Inr (row, db\<lparr>runs := runs db @ [row],
                      run_idempotency := run_idempotency db @
                        [\<lparr>ru_key = key, ru_sha256 = request_digest, ru_run_id = ad_run_id ad\<rparr>],
                      runner_outbox := enqueue (fst x) ''porfirium.run.command.schedule''
                        (Schedule_command (ad_run_id ad)) now (runner_outbox db)\<rparr>))))"

section \<open>Capacity\<close>

record capacity_limits =
  global_runs :: nat
  per_user_runs :: nat

definition capacity_limits_ok :: "capacity_limits \<Rightarrow> bool" where
  "capacity_limits_ok l \<longleftrightarrow> \<not> (global_runs l < 1 \<or> per_user_runs l < 1)
     \<and> \<not> per_user_runs l > global_runs l"

definition counts_as_active :: "run_row \<Rightarrow> bool" where
  "counts_as_active r \<longleftrightarrow> r_state r \<in> {Starting, Running, Suspending, Cancelling}"

definition global_active :: "run_row list \<Rightarrow> nat" where
  "global_active t = count_where counts_as_active t"

definition user_active :: "uuid \<Rightarrow> run_row list \<Rightarrow> nat" where
  "user_active user t = count_where (\<lambda>r. r_user_id r = user \<and> counts_as_active r) t"

definition has_capacity :: "run_row list \<Rightarrow> uuid \<Rightarrow> capacity_limits \<Rightarrow> bool" where
  "has_capacity t user limits \<longleftrightarrow> global_active t < global_runs limits
     \<and> user_active user t < per_user_runs limits"

section \<open>Resources and the container of an attempt\<close>

text \<open>\<open>int\<close> refuses texts of more than 4300 digits.\<close>

definition memory_bytes :: "pystr \<Rightarrow> exc + nat" where
  "memory_bytes value =
     (let digits = take (length value - 2) value; unit = drop (length value - 2) value in
      if 2 < length value \<and> unit \<in> {''Mi'', ''Gi''} \<and> positive_decimal digits then
        (if 4300 < length digits then Inl Value_error
         else Inr (dec_value digits * (if unit = ''Mi'' then 1024 ^ 2 else 1024 ^ 3)))
      else Inl (runner_error ''specification_invalid''))"

fun thousandth :: "pyfloat \<Rightarrow> pyfloat" where
  "thousandth (Finite q) = Finite (q / 1000)"
| "thousandth x = x"

fun float_le_0 :: "pyfloat \<Rightarrow> bool" where
  "float_le_0 Nan = False"
| "float_le_0 Pos_inf = False"
| "float_le_0 Neg_inf = True"
| "float_le_0 (Finite q) = (q \<le> 0)"

text \<open>Python's \<open>min(x, 1.0)\<close> returns x unless \<open>1.0 < x\<close>.\<close>

fun min_one :: "pyfloat \<Rightarrow> pyfloat" where
  "min_one Nan = Nan"
| "min_one Pos_inf = Finite 1"
| "min_one Neg_inf = Neg_inf"
| "min_one (Finite q) = (if 1 < q then Finite 1 else Finite q)"

definition cpu_float :: "cpu_value \<Rightarrow> exc + pyfloat" where
  "cpu_float value =
     (let result = (case value of
          Milli (Good x) \<Rightarrow> Some (thousandth x) | Cores (Good x) \<Rightarrow> Some x | _ \<Rightarrow> None) in
      case result of
        None \<Rightarrow> Inl (runner_error ''specification_invalid'')
      | Some x \<Rightarrow>
          if float_le_0 x then Inl (runner_error ''specification_invalid'') else Inr x)"

definition pids_number :: "int fld \<Rightarrow> exc + int" where
  "pids_number value =
     (case value of Missing \<Rightarrow> Inr 64 | Malformed \<Rightarrow> Inl Value_error | Good n \<Rightarrow> Inr n)"

text \<open>The claims of a run capability (\<open>issue_run_capability\<close> adds audience, operations and the
  times); the signed token is left to the theory of tokens.\<close>

record run_claims =
  rc_user_id :: uuid
  rc_conversation_id :: uuid
  rc_thread_id :: uuid
  rc_run_id :: uuid
  rc_attempt_id :: uuid
  rc_lease_epoch :: nat
  rc_trace_id :: pystr
  rc_release_id :: uuid
  rc_delegation_grant_id :: uuid
  rc_run_input :: "run_input option"
  rc_models :: "pystr list"
  rc_tools :: "pystr list"
  rc_starting_checkpoint_id :: "uuid option"
  rc_audience :: pystr
  rc_operations :: "pystr list"
  rc_deadline :: int
  rc_exp :: int

definition issue_claims :: "run_row \<Rightarrow> uuid \<Rightarrow> run_claims" where
  "issue_claims r attempt =
     (let ad = r_admission r; payload = ss_payload (r_specification r) in
      \<lparr>rc_user_id = r_user_id r, rc_conversation_id = r_conversation_id r,
       rc_thread_id = r_thread_id r, rc_run_id = r_run_id r, rc_attempt_id = attempt,
       rc_lease_epoch = r_epoch r, rc_trace_id = r_trace_id r, rc_release_id = ad_release_id ad,
       rc_delegation_grant_id = ad_delegation_grant_id ad, rc_run_input = ad_run_input ad,
       rc_models = sp_requested_models payload, rc_tools = sp_requested_tools payload,
       rc_starting_checkpoint_id = ad_starting_checkpoint_id ad,
       rc_audience = ''agent-runtime-api'', rc_operations = [''runtime:connect''],
       rc_deadline = r_deadline r div 1000000, rc_exp = r_deadline r div 1000000\<rparr>)"

record attempt_container =
  ac_name :: "uuid \<times> nat"
  ac_image :: pystr
  ac_claims :: run_claims
  ac_memory_bytes :: nat
  ac_cpu :: pyfloat
  ac_pids :: int
  ac_network :: uuid

text \<open>The reading of the specification up to the first call of the backend. Names and networks are
  functions of the run, the attempt number and the attempt; the model keeps those.\<close>

definition joined :: "runner_db \<Rightarrow> uuid \<Rightarrow> uuid \<Rightarrow> (run_row \<times> attempt_row) option" where
  "joined db run attempt =
     (case (row_by r_run_id run (runs db), row_by a_id attempt (attempts db)) of
        (Some r, Some a) \<Rightarrow> if r_active r = Some attempt then Some (r, a) else None
      | _ \<Rightarrow> None)"

definition container_of :: "run_row \<Rightarrow> attempt_row \<Rightarrow> exc + attempt_container" where
  "container_of r a =
     (let payload = ss_payload (r_specification r) in
      case sp_release_image payload of
        Missing \<Rightarrow> Inl Key_error
      | Malformed \<Rightarrow> Inl (runner_error ''specification_invalid'')
      | Good image_field \<Rightarrow>
          (case sp_resources payload of
             Missing \<Rightarrow> Inl Key_error
           | Malformed \<Rightarrow> Inl (runner_error ''specification_invalid'')
           | Good resources \<Rightarrow>
               (case image_field of
                  Missing \<Rightarrow> Inl Key_error
                | Malformed \<Rightarrow> Inl (runner_error ''specification_invalid'')
                | Good img \<Rightarrow>
                    if \<not> image_pinned img then Inl (runner_error ''specification_invalid'')
                    else
                      (case memory_bytes (case res_memory resources of
                              None \<Rightarrow> ''256Mi'' | Some m \<Rightarrow> m) of
                         Inl e \<Rightarrow> Inl e
                       | Inr memory \<Rightarrow>
                           (case cpu_float (case res_cpu resources of
                                   None \<Rightarrow> Cores (Good (Finite 1)) | Some c \<Rightarrow> c) of
                              Inl e \<Rightarrow> Inl e
                            | Inr cpu \<Rightarrow>
                                (case pids_number (res_pids resources) of
                                   Inl e \<Rightarrow> Inl e
                                 | Inr pids \<Rightarrow>
                                     Inr \<lparr>ac_name = (r_run_id r, a_number a), ac_image = img,
                                       ac_claims = issue_claims r (a_id a),
                                       ac_memory_bytes = min memory 268435456,
                                       ac_cpu = min_one cpu, ac_pids = min pids 64,
                                       ac_network = a_id a\<rparr>))))))"

definition start_prepare :: "runner_db \<Rightarrow> uuid \<Rightarrow> uuid \<Rightarrow> exc + attempt_container" where
  "start_prepare db run attempt =
     (case joined db run attempt of
        None \<Rightarrow> Inl Type_error
      | Some (r, a) \<Rightarrow> container_of r a)"

section \<open>Lemmas\<close>

lemma get_run_Inr_iff: "get_run db run = Inr r \<longleftrightarrow> row_by r_run_id run (runs db) = Some r"
  by (auto simp: get_run_def split: option.splits)

text \<open>A successful admission found its key or inserted one run.\<close>

lemma admit_cases:
  assumes "admit digest spec_digest timeout key q x db = Inr (r, db')"
  obtains (Replay) rp where "row_by ru_key key (run_idempotency db) = Some rp"
    "ru_sha256 rp = digest (fst q)" "get_run db (ru_run_id rp) = Inr r" "db' = db"
  | (Fresh) expires_at where "row_by ru_key key (run_idempotency db) = None"
    "\<not> has_row r_run_id (ad_run_id (fst q)) (runs db)"
    "spec_digest (ss_payload (snd q)) = ss_payload_sha256 (snd q)"
    "ss_run_id (snd q) = ad_run_id (fst q)"
    "parse_time (sp_expires_at (ss_payload (snd q))) (snd x) = Inr expires_at"
    "admitted_row_ok (fst q) (snd q)"
    "r = admitted_row (fst q) (snd q) (min expires_at (snd x + timeout)) (snd x)"
    "db' = db\<lparr>runs := runs db @ [r],
       run_idempotency := run_idempotency db @
         [\<lparr>ru_key = key, ru_sha256 = digest (fst q), ru_run_id = ad_run_id (fst q)\<rparr>],
       runner_outbox := enqueue (fst x) ''porfirium.run.command.schedule''
         (Schedule_command (ad_run_id (fst q))) (snd x) (runner_outbox db)\<rparr>"
proof (cases "row_by ru_key key (run_idempotency db)")
  case (Some rp)
  then show thesis using assms
    by (intro Replay [of rp]) (auto simp: admit_def Let_def split: if_splits)
next
  case None
  then show thesis using assms
    by (auto simp: admit_def Let_def split: if_splits intro!: Fresh)
qed

definition idem_run_inv :: "runner_db \<Rightarrow> bool" where
  "idem_run_inv db \<longleftrightarrow>
     list_all (\<lambda>i. has_row r_run_id (ru_run_id i) (runs db)) (run_idempotency db)"

definition stored_admission :: "runner_db \<Rightarrow> pystr \<Rightarrow> (pystr \<times> uuid) option" where
  "stored_admission db key =
     map_option (\<lambda>i. (ru_sha256 i, ru_run_id i)) (row_by ru_key key (run_idempotency db))"

interpretation admit_op: idempotent_op
  "admit digest spec_digest timeout" stored_admission "digest \<circ> fst" r_run_id
  "\<lambda>db key q. True" "runner_error ''idempotency_conflict''" idem_run_inv
  for digest spec_digest timeout
proof
  fix s k i x and q :: "run_admission \<times> signed_specification"
  assume "idem_run_inv s" and st: "stored_admission s k = Some ((digest \<circ> fst) q, i)"
  then obtain rp where rp: "row_by ru_key k (run_idempotency s) = Some rp"
    "ru_sha256 rp = digest (fst q)" "ru_run_id rp = i"
    by (auto simp: stored_admission_def)
  then have "has_row r_run_id i (runs s)"
    using \<open>idem_run_inv s\<close> by (auto simp: idem_run_inv_def list_all_iff dest: row_by_SomeD)
  then obtain r where "row_by r_run_id i (runs s) = Some r" by (auto simp: has_row_def)
  then show "\<exists>r. admit digest spec_digest timeout k q x s = Inr (r, s) \<and> r_run_id r = i"
    using rp by (auto simp: admit_def get_run_def dest: row_by_SomeD)
next
  fix s k d i x and q :: "run_admission \<times> signed_specification"
  assume "stored_admission s k = Some (d, i)" and "d \<noteq> (digest \<circ> fst) q"
  then show "admit digest spec_digest timeout k q x s = Inl (runner_error ''idempotency_conflict'')"
    by (auto simp: stored_admission_def admit_def)
next
  fix s k q x r s'
  assume "admit digest spec_digest timeout k q x s = Inr (r, s')"
  then show "stored_admission s' k = Some ((digest \<circ> fst) q, r_run_id r)"
    by (cases rule: admit_cases)
      (auto simp: stored_admission_def row_by_snoc admitted_row_def get_run_Inr_iff
        dest: row_by_SomeD)
next
  fix s k q x r s' k0 v
  assume "admit digest spec_digest timeout k q x s = Inr (r, s')"
    and "stored_admission s k0 = Some v"
  then show "stored_admission s' k0 = Some v"
    by (cases rule: admit_cases) (auto simp: stored_admission_def row_by_snoc)
next
  fix s k q x r s'
  assume i: "idem_run_inv s" and "admit digest spec_digest timeout k q x s = Inr (r, s')"
  from this(2) i show "idem_run_inv s'"
    by (cases rule: admit_cases) (auto simp: idem_run_inv_def list_all_iff admitted_row_def)
qed

lemma float_le_0_thousandth: "float_le_0 (thousandth x) = float_le_0 x"
  by (cases x) (auto simp: divide_le_0_iff)

lemma min_one_bounds:
  "\<not> float_le_0 x \<Longrightarrow> min_one x = Nan \<or> (\<exists>q. min_one x = Finite q \<and> 0 < q \<and> q \<le> 1)"
  by (cases x) auto

lemma memory_bytes_pos: "memory_bytes v = Inr n \<Longrightarrow> 0 < n"
  by (auto simp: memory_bytes_def Let_def positive_decimal_pos split: if_splits)

lemma cpu_float_positive: "cpu_float v = Inr x \<Longrightarrow> \<not> float_le_0 x"
  by (auto simp: cpu_float_def Let_def split: option.splits if_splits)

lemma container_of_cases:
  assumes "container_of r a = Inr c"
  obtains img res memory cpu pids where
    "sp_release_image (ss_payload (r_specification r)) = Good (Good img)" "image_pinned img"
    "sp_resources (ss_payload (r_specification r)) = Good res"
    "memory_bytes (case res_memory res of None \<Rightarrow> ''256Mi'' | Some m \<Rightarrow> m) = Inr memory"
    "cpu_float (case res_cpu res of None \<Rightarrow> Cores (Good (Finite 1)) | Some u \<Rightarrow> u) = Inr cpu"
    "pids_number (res_pids res) = Inr pids"
    "c = \<lparr>ac_name = (r_run_id r, a_number a), ac_image = img, ac_claims = issue_claims r (a_id a),
       ac_memory_bytes = min memory 268435456, ac_cpu = min_one cpu, ac_pids = min pids 64,
       ac_network = a_id a\<rparr>"
proof -
  obtain f where f: "sp_release_image (ss_payload (r_specification r)) = Good f"
    using assms by (cases "sp_release_image (ss_payload (r_specification r))")
      (auto simp: container_of_def Let_def)
  obtain res where res: "sp_resources (ss_payload (r_specification r)) = Good res"
    using assms f by (cases "sp_resources (ss_payload (r_specification r))")
      (auto simp: container_of_def Let_def)
  obtain img where img: "f = Good img"
    using assms f res by (cases f) (auto simp: container_of_def Let_def)
  show thesis
    using assms that [OF f [unfolded img] _ res] unfolding container_of_def Let_def f res img
    by (auto split: if_splits)
qed

end
