(* ===== verification/Tokens.thy ===== *)
theory Tokens
  imports Text
begin

text \<open>
  Signed capability tokens: a JSON text in unpadded URL-safe base64, a dot, and the base64 of its
  HMAC. \<open>issue_run_capability\<close> of \<open>agent_runner/capability.py\<close> and \<open>encode_capability\<close> of
  \<open>checkpoint_api/auth.py\<close> write them, \<open>_decode\<close> and \<open>decode_capability\<close> of the services read them.
  Base64 is modelled with its lenient decoder; the HMAC is a parameter \<open>mac secret text\<close>.
\<close>

section \<open>URL-safe base64\<close>

definition b64_alphabet :: pystr where
  "b64_alphabet = ''ABCDEFGHIJKLMNOPQRSTUVWXYZabcdefghijklmnopqrstuvwxyz0123456789-_''"

definition b64_digit :: "nat \<Rightarrow> char" where
  "b64_digit n = b64_alphabet ! n"

text \<open>\<open>base64.urlsafe_b64encode\<close>.\<close>

fun b64_encode :: "pystr \<Rightarrow> pystr" where
  "b64_encode [] = []"
| "b64_encode [a] =
     [b64_digit (of_char a div 4), b64_digit (of_char a mod 4 * 16), CHR ''='', CHR ''='']"
| "b64_encode [a, b] =
     [b64_digit (of_char a div 4), b64_digit (of_char a mod 4 * 16 + of_char b div 16),
      b64_digit (of_char b mod 16 * 4), CHR ''='']"
| "b64_encode (a # b # c # rest) =
     b64_digit (of_char a div 4) # b64_digit (of_char a mod 4 * 16 + of_char b div 16)
     # b64_digit (of_char b mod 16 * 4 + of_char c div 64) # b64_digit (of_char c mod 64)
     # b64_encode rest"

text \<open>The decoder accepts both alphabets: the translation of \<open>-_\<close> to \<open>+/\<close> comes first. Other
  characters are skipped.\<close>

definition b64_value :: "char \<Rightarrow> nat option" where
  "b64_value c =
     (let d = (if c = CHR ''+'' then CHR ''-'' else if c = CHR ''/'' then CHR ''_'' else c) in
      if d \<in> set b64_alphabet then Some (hex_index d b64_alphabet) else None)"

text \<open>The loop of \<open>binascii.a2b_base64\<close> in its lenient mode: position in the group of four, the
  bits left over, the padding characters seen. An incomplete group is an error; enough padding
  ends the text.\<close>

fun a2b_base64 :: "nat \<Rightarrow> nat \<Rightarrow> nat \<Rightarrow> pystr \<Rightarrow> pystr option" where
  "a2b_base64 quad left pads [] = (if quad = 0 then Some [] else None)"
| "a2b_base64 quad left pads (c # cs) =
     (if c = CHR ''='' then
        (if 2 \<le> quad then
           (if 4 \<le> quad + (pads + 1) then Some [] else a2b_base64 quad left (pads + 1) cs)
         else a2b_base64 quad left pads cs)
      else
        (case b64_value c of
           None \<Rightarrow> a2b_base64 quad left pads cs
         | Some v \<Rightarrow>
             (if quad = 0 then a2b_base64 1 v 0 cs
              else if quad = 1 then
                map_option (Cons (char_of (left * 4 + v div 16))) (a2b_base64 2 (v mod 16) 0 cs)
              else if quad = 2 then
                map_option (Cons (char_of (left * 16 + v div 4))) (a2b_base64 3 (v mod 4) 0 cs)
              else map_option (Cons (char_of (left * 64 + v))) (a2b_base64 0 0 0 cs))))"

definition ascii :: "pystr \<Rightarrow> bool" where
  "ascii s \<longleftrightarrow> list_all (\<lambda>c. (of_char c :: nat) < 128) s"

lemma ascii_char_count: "ascii s \<Longrightarrow> char_count s = length s"
  by (induction s) (auto simp: ascii_def char_count_def continuation_byte_def)

text \<open>\<open>_decode\<close>: padding to a multiple of four and decoding; None is the exception.\<close>

definition token_decode :: "pystr \<Rightarrow> pystr option" where
  "token_decode s =
     (if ascii s then a2b_base64 0 0 0 (s @ replicate ((4 - char_count s mod 4) mod 4) (CHR ''=''))
      else None)"

text \<open>\<open>.rstrip("=")\<close>.\<close>

definition rstrip_pad :: "pystr \<Rightarrow> pystr" where
  "rstrip_pad s = rev (dropWhile (\<lambda>c. c = CHR ''='') (rev s))"

definition token_encode :: "pystr \<Rightarrow> pystr" where
  "token_encode s = rstrip_pad (b64_encode s)"

lemma b64_alphabet_facts:
  "distinct b64_alphabet" "length b64_alphabet = 64" "CHR ''='' \<notin> set b64_alphabet"
  "CHR ''+'' \<notin> set b64_alphabet" "CHR ''/'' \<notin> set b64_alphabet" "CHR ''.'' \<notin> set b64_alphabet"
  "ascii b64_alphabet"
  by (simp_all add: b64_alphabet_def ascii_def)

lemma b64_digit_in: "n < 64 \<Longrightarrow> b64_digit n \<in> set b64_alphabet"
  by (simp add: b64_digit_def b64_alphabet_facts)

lemma b64_digit_not_pad [simp]: "n < 64 \<Longrightarrow> b64_digit n \<noteq> CHR ''=''"
  using b64_digit_in [of n] b64_alphabet_facts by metis

lemma b64_value_digit [simp]: "n < 64 \<Longrightarrow> b64_value (b64_digit n) = Some n"
proof -
  assume n: "n < 64"
  have i: "hex_index (b64_digit n) b64_alphabet = n"
    unfolding b64_digit_def by (rule hex_index_nth) (use n b64_alphabet_facts in auto)
  have m: "b64_digit n \<in> set b64_alphabet" by (rule b64_digit_in [OF n])
  then have "b64_digit n \<noteq> CHR ''+''" "b64_digit n \<noteq> CHR ''/''"
    using b64_alphabet_facts by metis+
  then show ?thesis using i m by (simp add: b64_value_def)
qed

lemma of_char_bounds [simp]:
  "(of_char c :: nat) < 256" "(of_char c :: nat) div 4 < 64" "(of_char c :: nat) div 16 < 16"
  "(of_char c :: nat) div 64 < 4"
proof -
  show b: "(of_char c :: nat) < 256" using nat_of_char_less_256 [of c] by simp
  show "(of_char c :: nat) div 4 < 64" "(of_char c :: nat) div 16 < 16"
    "(of_char c :: nat) div 64 < 4"
    using b by (simp_all add: less_mult_imp_div_less)
qed

lemma byte_bounds:
  fixes a b c :: char
  shows "(of_char a :: nat) mod 4 * 16 + of_char b div 16 < 64"
    and "(of_char b :: nat) mod 16 * 4 + of_char c div 64 < 64"
    and "(of_char a :: nat) mod 4 * 16 < 64" and "(of_char b :: nat) mod 16 * 4 < 64"
proof -
  have "(of_char a :: nat) mod 4 < 4" "(of_char b :: nat) mod 16 < 16" by simp_all
  moreover have "(of_char b :: nat) div 16 < 16" "(of_char c :: nat) div 64 < 4" by simp_all
  ultimately show "(of_char a :: nat) mod 4 * 16 + of_char b div 16 < 64"
    "(of_char b :: nat) mod 16 * 4 + of_char c div 64 < 64"
    "(of_char a :: nat) mod 4 * 16 < 64" "(of_char b :: nat) mod 16 * 4 < 64"
    by linarith+
qed

text \<open>The bits of a byte split over two digits come together again.\<close>

lemma group_div_mod:
  fixes x y m :: nat
  assumes "x < m"
  shows "(y * m + x) div m = y" and "(y * m + x) mod m = x"
  using assms by simp_all

lemma first_byte: "(a::nat) div 4 * 4 + (a mod 4 * 16 + b) div 16 = a" if "b < 16"
  using group_div_mod(1) [OF that, of "a mod 4"] by simp

lemma second_byte: "((a::nat) * 16 + b div 16) mod 16 * 16 + (b mod 16 * 4 + c) div 4 = b"
  if "b < 256" "c < 4"
proof -
  have "b div 16 < 16" using that by (simp add: less_mult_imp_div_less)
  then show ?thesis
    using group_div_mod(2) [of "b div 16" 16 a] group_div_mod(1) [OF that(2), of "b mod 16"] by simp
qed

lemma third_byte: "((b::nat) * 4 + c div 64) mod 4 * 64 + c mod 64 = c" if "c < 256"
proof -
  have "c div 64 < 4" using that by (simp add: less_mult_imp_div_less)
  then show ?thesis using group_div_mod(2) [of "c div 64" 4 b] by simp
qed

lemma a2b_encode:
  "a2b_base64 0 left pads (b64_encode s) = Some s"
proof (induction s arbitrary: left pads rule: b64_encode.induct)
  case (2 a)
  then show ?case using first_byte [of 0 "of_char a"] by (simp add: byte_bounds)
next
  case (3 a b)
  show ?case
    using first_byte [of "of_char b div 16" "of_char a"]
      second_byte [of "of_char b" 0 "of_char a mod 4"]
    by (simp add: byte_bounds)
next
  case (4 a b c rest)
  show ?case
    using 4 first_byte [of "of_char b div 16" "of_char a"]
      second_byte [of "of_char b" "of_char c div 64" "of_char a mod 4"]
      third_byte [of "of_char c" "of_char b mod 16"]
    by (simp add: byte_bounds)
qed simp

text \<open>Digits, then padding; stripping the padding leaves the digits.\<close>

lemma encode_split:
  "\<exists>d k. b64_encode s = d @ replicate k (CHR ''='') \<and> k < 4 \<and> set d \<subseteq> set b64_alphabet"
proof (induction s rule: b64_encode.induct)
  case (2 a)
  show ?case
    by (rule exI [of _ "take 2 (b64_encode [a])"], rule exI [of _ 2])
      (simp add: byte_bounds b64_digit_in numeral_2_eq_2)
next
  case (3 a b)
  show ?case
    by (rule exI [of _ "take 3 (b64_encode [a, b])"], rule exI [of _ 1])
      (simp add: byte_bounds b64_digit_in)
next
  case (4 a b c rest)
  then obtain d k where d: "b64_encode rest = d @ replicate k (CHR ''='')" "k < 4"
    "set d \<subseteq> set b64_alphabet" by blast
  show ?case
    by (rule exI [of _ "take 4 (b64_encode (a # b # c # rest)) @ d"], rule exI [of _ k])
      (simp add: byte_bounds b64_digit_in d)
qed simp

lemma rstrip_pad_digits:
  assumes "CHR ''='' \<notin> set d"
  shows "rstrip_pad (d @ replicate k (CHR ''='')) = d"
proof -
  have "dropWhile (\<lambda>c. c = CHR ''='') (rev d) = rev d"
    using assms by (cases "rev d") (auto simp: rev_eq_Cons_iff)
  then show ?thesis by (simp add: rstrip_pad_def dropWhile_append)
qed

lemma encode_restored:
  obtains k where "b64_encode s = token_encode s @ replicate k (CHR ''='')" and "k < 4"
    and "set (token_encode s) \<subseteq> set b64_alphabet"
proof -
  obtain d k where d: "b64_encode s = d @ replicate k (CHR ''='')" "k < 4"
    "set d \<subseteq> set b64_alphabet" using encode_split by blast
  moreover have "CHR ''='' \<notin> set d" using d(3) b64_alphabet_facts(3) by blast
  ultimately show ?thesis using that by (simp add: token_encode_def rstrip_pad_digits)
qed

lemma length_b64_encode: "length (b64_encode s) mod 4 = 0"
  by (induction s rule: b64_encode.induct) auto

lemma padding_length:
  assumes "(n + k) mod 4 = (0::nat)" and "k < 4"
  shows "(4 - n mod 4) mod 4 = k"
proof -
  have "(n mod 4 + k) mod 4 = 0" using assms(1) by (simp add: mod_add_left_eq)
  moreover have "n mod 4 \<in> {0, 1, 2, 3}" "k \<in> {0, 1, 2, 3}" using assms(2) by auto
  ultimately show ?thesis by (elim insertE emptyE) simp_all
qed

lemma token_encode_ascii: "ascii (token_encode s)"
proof -
  have "set (token_encode s) \<subseteq> set b64_alphabet" using encode_restored [of s] by blast
  then show ?thesis using b64_alphabet_facts(7) by (auto simp: ascii_def list_all_iff)
qed

lemma token_encode_no_dot: "CHR ''.'' \<notin> set (token_encode s)"
  using encode_restored [of s] b64_alphabet_facts(6) by blast

lemma token_decode_encode: "token_decode (token_encode s) = Some s"
proof -
  obtain k where k: "b64_encode s = token_encode s @ replicate k (CHR ''='')" "k < 4"
    using encode_restored [of s] by blast
  have "length (token_encode s) + k = length (b64_encode s)" by (simp add: k(1))
  then have "(length (token_encode s) + k) mod 4 = 0" using length_b64_encode [of s] by simp
  then have "(4 - char_count (token_encode s) mod 4) mod 4 = k"
    using padding_length k(2) ascii_char_count [OF token_encode_ascii] by simp
  then show ?thesis using token_encode_ascii a2b_encode [of 0 0 s] k(1) by (simp add: token_decode_def)
qed

section \<open>Signed tokens\<close>

text \<open>\<open>token.split(".", 1)\<close>: None when there is no dot.\<close>

fun split_dot :: "pystr \<Rightarrow> (pystr \<times> pystr) option" where
  "split_dot [] = None"
| "split_dot (c # cs) =
     (if c = CHR ''.'' then Some ([], cs)
      else map_option (\<lambda>(a, b). (c # a, b)) (split_dot cs))"

lemma split_dot_append: "CHR ''.'' \<notin> set a \<Longrightarrow> split_dot (a @ CHR ''.'' # b) = Some (a, b)"
  by (induction a) auto

text \<open>\<open>mac\<close> maps the secret and the text to the bytes of the HMAC-SHA256.\<close>

definition sign_token :: "(pystr \<Rightarrow> pystr \<Rightarrow> pystr) \<Rightarrow> pystr \<Rightarrow> pystr \<Rightarrow> pystr" where
  "sign_token mac secret text =
     (let payload = token_encode text in payload @ ''.'' @ token_encode (mac secret payload))"

text \<open>The signature is checked before the payload is decoded; None is the exception.\<close>

definition open_token :: "(pystr \<Rightarrow> pystr \<Rightarrow> pystr) \<Rightarrow> pystr \<Rightarrow> pystr \<Rightarrow> pystr option" where
  "open_token mac secret token =
     (case split_dot token of
        None \<Rightarrow> None
      | Some (payload, signature) \<Rightarrow>
          if token_decode signature = Some (mac secret payload) then token_decode payload
          else None)"

lemma open_sign_token: "open_token mac secret (sign_token mac secret text) = Some text"
  using split_dot_append [OF token_encode_no_dot]
  by (simp add: open_token_def sign_token_def Let_def token_decode_encode)

text \<open>What opens was signed with the secret: the payload part carries the right HMAC.\<close>

lemma open_token_signed:
  assumes "open_token mac secret token = Some text"
  obtains payload signature where "split_dot token = Some (payload, signature)"
    "token_decode signature = Some (mac secret payload)" "token_decode payload = Some text"
  using assms by (auto simp: open_token_def split: option.splits if_splits prod.splits)

end
