(* ===== verification/RuntimeCapability.thy ===== *)
theory RuntimeCapability
  imports RunnerState Tokens
begin

text \<open>
  Run capabilities: what the Agent Runner signs (\<open>issue_run_capability\<close>) and how the Agent Runtime
  API (\<open>agent_runtime_api/auth.py\<close>) and the Checkpoint API (\<open>checkpoint_api/auth.py\<close>) read it.
  The JSON text of the claims is written by a parameter \<open>dumps\<close> and read by a parameter \<open>loads\<close>,
  which yields the fields the code reads, each with the outcome of its conversion.
\<close>

section \<open>Claims\<close>

text \<open>\<open>tc_run_input\<close> and \<open>tc_starting_checkpoint_id\<close>: Missing when null or absent. A list claim is
  Malformed when it is no list (or cannot be made a set), its elements when they are no texts. An identity is Malformed when it
  is a text that is no UUID; identities of another JSON type are not considered.\<close>

record token_claims =
  tc_user_id :: "uuid fld"
  tc_conversation_id :: "uuid fld"
  tc_thread_id :: "uuid fld"
  tc_run_id :: "uuid fld"
  tc_attempt_id :: "uuid fld"
  tc_lease_epoch :: "int fld"
  tc_exp :: "int fld"
  tc_deadline :: "int fld"
  tc_audience :: "pystr fld"
  tc_operations :: "pystr list fld"
  tc_run_input :: "run_input fld"
  tc_starting_checkpoint_id :: "uuid fld"
  tc_models :: "pystr fld list fld"
  tc_tools :: "pystr fld list fld"
  tc_release_id :: "uuid fld"
  tc_delegation_grant_id :: "uuid fld"
  tc_trace_id :: "pystr fld"

text \<open>The claims of the Runner as a reader sees them. Every identity is written as a text that
  parses back; \<open>None\<close> is written as null.\<close>

definition opt_fld :: "'a option \<Rightarrow> 'a fld" where
  "opt_fld x = (case x of None \<Rightarrow> Missing | Some a \<Rightarrow> Good a)"

definition claims_read :: "run_claims \<Rightarrow> token_claims" where
  "claims_read c =
     \<lparr>tc_user_id = Good (rc_user_id c), tc_conversation_id = Good (rc_conversation_id c),
      tc_thread_id = Good (rc_thread_id c), tc_run_id = Good (rc_run_id c),
      tc_attempt_id = Good (rc_attempt_id c), tc_lease_epoch = Good (int (rc_lease_epoch c)),
      tc_exp = Good (rc_exp c), tc_deadline = Good (rc_deadline c),
      tc_audience = Good (rc_audience c), tc_operations = Good (rc_operations c),
      tc_run_input = opt_fld (rc_run_input c),
      tc_starting_checkpoint_id = opt_fld (rc_starting_checkpoint_id c),
      tc_models = Good (map Good (rc_models c)), tc_tools = Good (map Good (rc_tools c)),
      tc_release_id = Good (rc_release_id c),
      tc_delegation_grant_id = Good (rc_delegation_grant_id c),
      tc_trace_id = Good (rc_trace_id c)\<rparr>"

text \<open>\<open>issue_run_capability\<close>.\<close>

definition issue_run_capability ::
  "(run_claims \<Rightarrow> pystr) \<Rightarrow> (pystr \<Rightarrow> pystr \<Rightarrow> pystr) \<Rightarrow> pystr \<Rightarrow> run_claims \<Rightarrow> pystr" where
  "issue_run_capability dumps mac secret claims = sign_token mac secret (dumps claims)"

section \<open>The Runtime API's capability\<close>

record runtime_capability =
  rk_user_id :: uuid
  rk_conversation_id :: uuid
  rk_thread_id :: uuid
  rk_run_id :: uuid
  rk_attempt_id :: uuid
  rk_lease_epoch :: int
  rk_deadline :: int
  rk_run_input :: "run_input option"
  rk_starting_checkpoint_id :: "uuid option"
  rk_models :: "pystr list"
  rk_trace_id :: pystr
  rk_tools :: "pystr list"
  rk_release_id :: "uuid option"
  rk_delegation_grant_id :: "uuid option"
  rk_raw_token :: pystr

definition capability_error :: exc where
  "capability_error = Coded ''CapabilityError'' ''run capability is invalid''"

definition max_claim_input_octets :: nat where
  "max_claim_input_octets = 24576"

text \<open>A field with a default, a field that must convert, and one that may be null. Every failure
  raises the same exception, so None stands for it.\<close>

fun default_fld :: "'a \<Rightarrow> 'a fld \<Rightarrow> 'a option" where
  "default_fld d Missing = Some d"
| "default_fld d Malformed = None"
| "default_fld d (Good a) = Some a"

fun nullable_fld :: "'a fld \<Rightarrow> 'a option option" where
  "nullable_fld Missing = Some None"
| "nullable_fld Malformed = None"
| "nullable_fld (Good a) = Some (Some a)"

definition audience_ok :: "pystr fld \<Rightarrow> bool" where
  "audience_ok a \<longleftrightarrow> a = Missing \<or> a = Good ''agent-runtime-api''"

definition operations_ok :: "pystr list fld \<Rightarrow> bool" where
  "operations_ok os \<longleftrightarrow>
     (case default_fld [] os of None \<Rightarrow> False | Some l \<Rightarrow> l = [] \<or> ''runtime:connect'' \<in> set l)"

definition run_input_ok :: "run_input fld \<Rightarrow> bool" where
  "run_input_ok i \<longleftrightarrow>
     (case nullable_fld i of
        None \<Rightarrow> False
      | Some None \<Rightarrow> True
      | Some (Some v) \<Rightarrow> ri_dumped_octets v \<le> max_claim_input_octets)"

text \<open>The elements of a list of non-empty texts.\<close>

definition texts_of :: "pystr fld list \<Rightarrow> pystr list option" where
  "texts_of l = (if list_all (\<lambda>t. good t \<and> t \<noteq> Good []) l
                 then Some (map (\<lambda>t. case t of Good s \<Rightarrow> s | _ \<Rightarrow> []) l) else None)"

definition models_claim :: "pystr fld list fld \<Rightarrow> pystr list option" where
  "models_claim f =
     (case default_fld [] f of
        None \<Rightarrow> None
      | Some l \<Rightarrow> if 16 < length l then None else texts_of l)"

definition tools_claim :: "pystr fld list fld \<Rightarrow> pystr list option" where
  "tools_claim f =
     (case default_fld [] f of
        None \<Rightarrow> None
      | Some l \<Rightarrow>
          if 64 < length l then None
          else (case texts_of l of
                  None \<Rightarrow> None
                | Some ts \<Rightarrow> if list_all (\<lambda>t. char_count t \<le> 128) ts then Some ts else None))"

text \<open>The construction of the capability from checked claims.\<close>

definition build_capability ::
  "token_claims \<Rightarrow> pystr list \<Rightarrow> pystr list \<Rightarrow> pystr \<Rightarrow> int \<Rightarrow> pystr \<Rightarrow> runtime_capability option"
  where
  "build_capability c models tools trace expiry token =
     (case (tc_user_id c, tc_conversation_id c, tc_thread_id c, tc_run_id c, tc_attempt_id c,
            tc_lease_epoch c, default_fld expiry (tc_deadline c)) of
        (Good user, Good conversation, Good thread, Good run, Good attempt, Good epoch,
         Some deadline) \<Rightarrow>
          (case (nullable_fld (tc_run_input c), nullable_fld (tc_starting_checkpoint_id c),
                 nullable_fld (tc_release_id c), nullable_fld (tc_delegation_grant_id c)) of
             (Some input, Some checkpoint, Some release, Some grant) \<Rightarrow>
               Some \<lparr>rk_user_id = user, rk_conversation_id = conversation, rk_thread_id = thread,
                     rk_run_id = run, rk_attempt_id = attempt, rk_lease_epoch = epoch,
                     rk_deadline = deadline, rk_run_input = input,
                     rk_starting_checkpoint_id = checkpoint, rk_models = models,
                     rk_trace_id = trace, rk_tools = tools, rk_release_id = release,
                     rk_delegation_grant_id = grant, rk_raw_token = token\<rparr>
           | _ \<Rightarrow> None)
      | _ \<Rightarrow> None)"

text \<open>The checks on the claims, in the order of the code. \<open>now\<close> is the clock in whole seconds.\<close>

definition read_capability :: "int \<Rightarrow> pystr \<Rightarrow> token_claims \<Rightarrow> runtime_capability option" where
  "read_capability now token c =
     (case (tc_exp c, tc_trace_id c, models_claim (tc_models c), tools_claim (tc_tools c)) of
        (Good expiry, Good trace, Some models, Some tools) \<Rightarrow>
          if now < expiry \<and> audience_ok (tc_audience c) \<and> operations_ok (tc_operations c)
             \<and> run_input_ok (tc_run_input c) \<and> trace_id_ok trace
          then build_capability c models tools trace expiry token else None
      | _ \<Rightarrow> None)"

definition decode_capability ::
  "(pystr \<Rightarrow> token_claims option) \<Rightarrow> (pystr \<Rightarrow> pystr \<Rightarrow> pystr) \<Rightarrow> int \<Rightarrow> pystr \<Rightarrow> pystr
     \<Rightarrow> exc + runtime_capability" where
  "decode_capability loads mac now token secret =
     (case open_token mac secret token of
        None \<Rightarrow> Inl capability_error
      | Some claims_text \<Rightarrow>
          (case loads claims_text of
             None \<Rightarrow> Inl capability_error
           | Some c \<Rightarrow>
               (case read_capability now token c of
                  None \<Rightarrow> Inl capability_error
                | Some cap \<Rightarrow> Inr cap)))"

text \<open>What a decoded capability guarantees.\<close>

lemma decode_capability_ok:
  assumes "decode_capability loads mac now token secret = Inr cap"
  shows "trace_id_ok (rk_trace_id cap)" and "length (rk_models cap) \<le> 16"
    and "length (rk_tools cap) \<le> 64" and "rk_raw_token cap = token"
  using assms
  by (auto simp: decode_capability_def read_capability_def build_capability_def models_claim_def
      tools_claim_def texts_of_def
      split: option.splits if_splits fld.splits prod.splits)

section \<open>The Runner's capability, read by the Runtime API\<close>

text \<open>The fields the Runner wrote, as the Runtime API holds them.\<close>

definition capability_of_claims :: "run_claims \<Rightarrow> pystr \<Rightarrow> runtime_capability" where
  "capability_of_claims c token =
     \<lparr>rk_user_id = rc_user_id c, rk_conversation_id = rc_conversation_id c,
      rk_thread_id = rc_thread_id c, rk_run_id = rc_run_id c, rk_attempt_id = rc_attempt_id c,
      rk_lease_epoch = int (rc_lease_epoch c), rk_deadline = rc_deadline c,
      rk_run_input = rc_run_input c,
      rk_starting_checkpoint_id = rc_starting_checkpoint_id c, rk_models = rc_models c,
      rk_trace_id = rc_trace_id c, rk_tools = rc_tools c,
      rk_release_id = Some (rc_release_id c),
      rk_delegation_grant_id = Some (rc_delegation_grant_id c), rk_raw_token = token\<rparr>"

text \<open>The limits the Runtime API puts on what a specification requests.\<close>

definition claims_within_limits :: "run_claims \<Rightarrow> bool" where
  "claims_within_limits c \<longleftrightarrow> length (rc_models c) \<le> 16 \<and> [] \<notin> set (rc_models c)
     \<and> length (rc_tools c) \<le> 64 \<and> (\<forall>t \<in> set (rc_tools c). t \<noteq> [] \<and> char_count t \<le> 128)
     \<and> trace_id_ok (rc_trace_id c)
     \<and> (case rc_run_input c of None \<Rightarrow> True | Some i \<Rightarrow> ri_dumped_octets i \<le> max_claim_input_octets)"

lemma nullable_opt_fld [simp]: "nullable_fld (opt_fld x) = Some x"
  by (cases x) (simp_all add: opt_fld_def)

lemma texts_of_map_Good: "[] \<notin> set l \<Longrightarrow> texts_of (map Good l) = Some l"
  by (auto simp: texts_of_def list_all_iff comp_def)

lemma texts_of_Nil_in: "[] \<in> set l \<Longrightarrow> texts_of (map Good l) = None"
  by (auto simp: texts_of_def list_all_iff)

text \<open>Claims beyond the limits are refused.\<close>

lemma read_beyond_limits:
  assumes "\<not> claims_within_limits c"
  shows "read_capability now token (claims_read c) = None"
proof -
  have m: "models_claim (Good (map Good (rc_models c))) =
      (if 16 < length (rc_models c) \<or> [] \<in> set (rc_models c) then None else Some (rc_models c))"
    by (simp add: models_claim_def texts_of_map_Good texts_of_Nil_in)
  have t: "tools_claim (Good (map Good (rc_tools c))) =
      (if 64 < length (rc_tools c) \<or> [] \<in> set (rc_tools c) \<or> (\<exists>t \<in> set (rc_tools c). 128 < char_count t)
       then None else Some (rc_tools c))"
    by (cases "[] \<in> set (rc_tools c)")
      (auto simp: tools_claim_def texts_of_map_Good texts_of_Nil_in list_all_iff not_le)
  have i: "run_input_ok (opt_fld (rc_run_input c)) \<longleftrightarrow>
      (case rc_run_input c of None \<Rightarrow> True | Some i \<Rightarrow> ri_dumped_octets i \<le> max_claim_input_octets)"
    by (simp add: run_input_ok_def split: option.split)
  show ?thesis
    using assms i m t
    by (auto simp: read_capability_def claims_read_def claims_within_limits_def not_le split: if_splits)
qed

lemma read_issued:
  assumes "claims_within_limits c" and "now < rc_exp c"
    and "rc_audience c = ''agent-runtime-api''" and "rc_operations c = [''runtime:connect'']"
  shows "read_capability now token (claims_read c) = Some (capability_of_claims c token)"
proof -
  have m: "models_claim (Good (map Good (rc_models c))) = Some (rc_models c)"
    using assms(1) by (simp add: models_claim_def claims_within_limits_def texts_of_map_Good)
  have "[] \<notin> set (rc_tools c)" using assms(1) by (auto simp: claims_within_limits_def)
  then have t: "tools_claim (Good (map Good (rc_tools c))) = Some (rc_tools c)"
    using assms(1)
    by (simp add: tools_claim_def claims_within_limits_def texts_of_map_Good list_all_iff)
  have i: "run_input_ok (opt_fld (rc_run_input c))"
    using assms(1) by (auto simp: run_input_ok_def claims_within_limits_def split: option.splits)
  show ?thesis
    using assms m t i
    by (simp add: read_capability_def claims_read_def build_capability_def capability_of_claims_def
        audience_ok_def operations_ok_def claims_within_limits_def)
qed

end
