(* ===== verification/CheckpointAccess.thy ===== *)
theory CheckpointAccess
  imports Checkpoint RuntimeCapability
begin

text \<open>
  How the Checkpoint API authenticates a caller: \<open>authenticated_capability\<close> and
  \<open>decode_capability\<close> of \<open>checkpoint_api/auth.py\<close>, on the same tokens as the Runtime API.
\<close>

definition capability_invalid :: exc where
  "capability_invalid = Problem 401 ''capability_invalid''"

text \<open>The claims \<open>operations\<close>, \<open>trace_id\<close>, the identities and \<open>lease_epoch\<close> are required.\<close>

definition read_checkpoint_capability ::
  "int \<Rightarrow> token_claims \<Rightarrow> Checkpoint.run_capability option" where
  "read_checkpoint_capability now c =
     (case (tc_exp c, tc_trace_id c, tc_operations c, tc_lease_epoch c) of
        (Good expiry, Good trace, Good operations, Good epoch) \<Rightarrow>
          if expiry \<le> now \<or> \<not> trace_id_ok trace then None
          else
            (case (tc_thread_id c, tc_run_id c, tc_attempt_id c, tc_user_id c, tc_conversation_id c) of
               (Good thread, Good run, Good attempt, Good user, Good conversation) \<Rightarrow>
                 Some \<lparr>cap_thread_id = thread, cap_run_id = run, cap_attempt_id = attempt,
                       cap_lease_epoch = epoch, cap_operations = operations,
                       cap_user_id = Some user, cap_conversation_id = Some conversation,
                       cap_trace_id = trace\<rparr>
             | _ \<Rightarrow> None)
      | _ \<Rightarrow> None)"

definition decode_checkpoint_capability ::
  "(pystr \<Rightarrow> token_claims option) \<Rightarrow> (pystr \<Rightarrow> pystr \<Rightarrow> pystr) \<Rightarrow> int \<Rightarrow> pystr \<Rightarrow> pystr
     \<Rightarrow> exc + Checkpoint.run_capability" where
  "decode_checkpoint_capability loads mac now token secret =
     (case open_token mac secret token of
        None \<Rightarrow> Inl capability_invalid
      | Some claims_text \<Rightarrow>
          (case loads claims_text of
             None \<Rightarrow> Inl capability_invalid
           | Some c \<Rightarrow>
               (case read_checkpoint_capability now c of
                  None \<Rightarrow> Inl capability_invalid
                | Some cap \<Rightarrow> Inr cap)))"

text \<open>The header is absent or a text; an unset secret is None or empty.\<close>

definition authenticated_capability ::
  "(pystr \<Rightarrow> token_claims option) \<Rightarrow> (pystr \<Rightarrow> pystr \<Rightarrow> pystr) \<Rightarrow> int \<Rightarrow> pystr option
     \<Rightarrow> pystr option \<Rightarrow> exc + Checkpoint.run_capability" where
  "authenticated_capability loads mac now header secret =
     (case header of
        None \<Rightarrow> Inl (Problem 401 ''authentication_required'')
      | Some h \<Rightarrow>
          if take 7 h \<noteq> ''Bearer '' then Inl (Problem 401 ''authentication_required'')
          else
            (case secret of
               None \<Rightarrow> Inl (Problem 503 ''capability_verifier_unavailable'')
             | Some k \<Rightarrow>
                 if k = [] then Inl (Problem 503 ''capability_verifier_unavailable'')
                 else decode_checkpoint_capability loads mac now (drop 7 h) k))"

text \<open>The capability that the Agent Runner issues authenticates its attempt here, but carries no
  checkpoint operation: every request of the attempt is forbidden.\<close>

lemma runner_capability_authenticates:
  assumes "trace_id_ok (rc_trace_id c)" and "now < rc_exp c"
    and "loads (dumps c) = Some (claims_read c)" and "secret \<noteq> []"
  shows "authenticated_capability loads mac now
      (Some (''Bearer '' @ issue_run_capability dumps mac secret c)) (Some secret) =
    Inr \<lparr>cap_thread_id = rc_thread_id c, cap_run_id = rc_run_id c, cap_attempt_id = rc_attempt_id c,
         cap_lease_epoch = int (rc_lease_epoch c), cap_operations = rc_operations c,
         cap_user_id = Some (rc_user_id c), cap_conversation_id = Some (rc_conversation_id c),
         cap_trace_id = rc_trace_id c\<rparr>"
  using assms
  by (simp add: authenticated_capability_def decode_checkpoint_capability_def
      issue_run_capability_def open_sign_token read_checkpoint_capability_def claims_read_def)

lemma runner_capability_forbidden:
  assumes "authenticated_capability loads mac now
      (Some (''Bearer '' @ issue_run_capability dumps mac secret (issue_claims r attempt))) (Some secret)
      = Inr cap"
    and "loads (dumps (issue_claims r attempt)) = Some (claims_read (issue_claims r attempt))"
    and "operation \<in> {''checkpoint:read'', ''checkpoint:write''}"
  shows "authorize cap thread operation = Inl (Problem 403 ''checkpoint_forbidden'')"
proof -
  have "cap_operations cap = [''runtime:connect'']"
    using assms(1,2)
    by (auto simp: authenticated_capability_def decode_checkpoint_capability_def
        issue_run_capability_def open_sign_token read_checkpoint_capability_def claims_read_def
        issue_claims_def Let_def split: if_splits)
  then show ?thesis using assms(3) by (auto simp: authorize_def)
qed

end
