(* ===== verification/RunnerLifecycle.thy ===== *)
theory RunnerLifecycle
  imports RunnerState
begin

text \<open>
  The life of a run in the Runner (\<open>agent_runner/service.py\<close>): scheduling, the start of an attempt,
  cancellation, suspension and reconciliation. A handler is a sequence of transactions with calls
  of the container backend between them; each transaction is a function on the tables, and the
  handlers compose them with the outcome of every backend call as an argument and the list of the
  calls made as a result.
\<close>

section \<open>Updates of attempts and runs\<close>

text \<open>The partial unique index \<open>attempts_one_active_per_run_idx\<close>.\<close>

definition live :: "attempt_row \<Rightarrow> bool" where
  "live a \<longleftrightarrow> a_state a \<in> {A_starting, A_running, A_stopping}"

definition one_live_per_run :: "attempt_row list \<Rightarrow> bool" where
  "one_live_per_run t \<longleftrightarrow> distinct (map a_run (filter live t))"

definition checked_attempts :: "attempt_row list \<Rightarrow> exc + attempt_row list" where
  "checked_attempts t = (if one_live_per_run t then Inr t else Inl Unique_violation)"

definition end_attempt :: "uuid \<Rightarrow> attempt_state \<Rightarrow> instant \<Rightarrow> attempt_row list \<Rightarrow> attempt_row list" where
  "end_attempt attempt st now t =
     update_where (\<lambda>a. a_id a = attempt) (\<lambda>a. a\<lparr>a_state := st, a_ended := Some now\<rparr>) t"

text \<open>\<open>UPDATE runs ... WHERE run_id=$1 AND active_attempt_id=$2\<close>.\<close>

definition release_run ::
  "uuid \<Rightarrow> uuid \<Rightarrow> run_state \<Rightarrow> pystr option \<Rightarrow> instant \<Rightarrow> run_row list \<Rightarrow> run_row list" where
  "release_run run attempt st code now t =
     update_where (\<lambda>r. r_run_id r = run \<and> r_active r = Some attempt)
       (\<lambda>r. r\<lparr>r_state := st, r_terminal_code := (if code = None then r_terminal_code r else code),
             r_active := None, r_updated := now\<rparr>) t"

section \<open>Scheduling\<close>

definition attempts_of :: "uuid \<Rightarrow> attempt_row list \<Rightarrow> attempt_row list" where
  "attempts_of run t = filter (\<lambda>a. a_run a = run) t"

text \<open>The transaction of \<open>schedule\<close>; the result is None when there is nothing to start.\<close>

definition schedule_tx ::
  "capacity_limits \<Rightarrow> uuid \<Rightarrow> uuid \<Rightarrow> instant \<Rightarrow> runner_db \<Rightarrow> (uuid option, runner_db) tx" where
  "schedule_tx limits run attempt now db =
     (case row_by r_run_id run (runs db) of
        None \<Rightarrow> Inl (runner_error ''run_not_found'')
      | Some row \<Rightarrow>
          if r_state row \<notin> {Accepted, Scheduled} \<or> r_active row \<noteq> None then Inr (None, db)
          else if \<not> has_capacity (runs db) (r_user_id row) limits then Inr (None, db)
          else
            (let epoch = r_epoch row + 1;
                 number = max_of a_number (attempts_of run (attempts db)) + 1;
                 a = \<lparr>a_id = attempt, a_run = run, a_number = number, a_epoch = epoch,
                      a_state = A_starting, a_container = None, a_deadline = r_deadline row,
                      a_started = None, a_ended = None, a_visible_output = False,
                      a_active_message = None\<rparr> in
             if has_row a_id attempt (attempts db)
                \<or> has_row (\<lambda>a. (a_run a, a_epoch a)) (run, epoch) (attempts db)
             then Inl Unique_violation
             else
               (case checked_attempts (attempts db @ [a]) of
                  Inl e \<Rightarrow> Inl e
                | Inr attempts' \<Rightarrow>
                    Inr (Some attempt, db\<lparr>attempts := attempts',
                      runs := update_where (\<lambda>r. r_run_id r = run)
                        (\<lambda>r. r\<lparr>r_state := Starting, r_active := Some attempt, r_epoch := epoch,
                               r_updated := now\<rparr>) (runs db)\<rparr>))))"

section \<open>Starting an attempt\<close>

datatype backend_call =
    Create attempt_container
  | Start pystr
  | Remove "pystr option" uuid

definition record_container ::
  "uuid \<Rightarrow> pystr \<Rightarrow> runner_db \<Rightarrow> exc + runner_db" where
  "record_container attempt cid db =
     (if \<exists>a \<in> set (attempts db). a_id a \<noteq> attempt \<and> a_container a = Some cid
      then Inl Unique_violation
      else Inr (db\<lparr>attempts := update_where (\<lambda>a. a_id a = attempt)
             (\<lambda>a. a\<lparr>a_container := Some cid\<rparr>) (attempts db)\<rparr>))"

definition start_finish :: "uuid \<Rightarrow> uuid \<Rightarrow> instant \<Rightarrow> runner_db \<Rightarrow> exc + runner_db" where
  "start_finish run attempt now db =
     (case checked_attempts (update_where (\<lambda>a. a_id a = attempt)
             (\<lambda>a. a\<lparr>a_state := A_running, a_started := Some now\<rparr>) (attempts db)) of
        Inl e \<Rightarrow> Inl e
      | Inr attempts' \<Rightarrow>
          Inr (db\<lparr>attempts := attempts',
            runs := update_where (\<lambda>r. r_run_id r = run \<and> r_active r = Some attempt)
              (\<lambda>r. r\<lparr>r_state := Running, r_updated := now\<rparr>) (runs db)\<rparr>))"

definition fail_start :: "uuid \<Rightarrow> uuid \<Rightarrow> instant \<Rightarrow> runner_db \<Rightarrow> runner_db" where
  "fail_start run attempt now db =
     db\<lparr>attempts := end_attempt attempt A_failed now (attempts db),
        runs := release_run run attempt Failed (Some ''attempt_start_failed'') now (runs db)\<rparr>"

text \<open>What the backend does with the container: creation fails, the start fails, or it runs.\<close>

datatype start_outcome = Create_fails | Start_fails pystr | Starts pystr

text \<open>The result of a handler: an error or a value, the calls made and the tables. The tables of
  a failing handler are those its committed transactions left.\<close>

type_synonym 'a handled = "(exc + 'a) \<times> backend_call list \<times> runner_db"

definition start_attempt ::
  "start_outcome \<Rightarrow> uuid \<Rightarrow> uuid \<Rightarrow> instant \<Rightarrow> runner_db \<Rightarrow> unit handled" where
  "start_attempt outcome run attempt now db =
     (case start_prepare db run attempt of
        Inl e \<Rightarrow> (Inl e, [], db)
      | Inr c \<Rightarrow>
          (case outcome of
             Create_fails \<Rightarrow>
               (Inl Backend_failure, [Create c, Remove None (ac_network c)],
                fail_start run attempt now db)
           | Start_fails cid \<Rightarrow>
               (case record_container attempt cid db of
                  Inl e \<Rightarrow> (Inl e, [Create c, Remove (Some cid) (ac_network c)],
                            fail_start run attempt now db)
                | Inr db1 \<Rightarrow>
                    (Inl Backend_failure,
                     [Create c, Start cid, Remove (Some cid) (ac_network c)],
                     fail_start run attempt now db1))
           | Starts cid \<Rightarrow>
               (case record_container attempt cid db of
                  Inl e \<Rightarrow> (Inl e, [Create c, Remove (Some cid) (ac_network c)],
                            fail_start run attempt now db)
                | Inr db1 \<Rightarrow>
                    (case start_finish run attempt now db1 of
                       Inl e \<Rightarrow> (Inl e, [Create c, Start cid, Remove (Some cid) (ac_network c)],
                                 fail_start run attempt now db1)
                     | Inr db2 \<Rightarrow> (Inr (), [Create c, Start cid], db2)))))"

definition schedule ::
  "capacity_limits \<Rightarrow> start_outcome \<Rightarrow> uuid \<Rightarrow> uuid \<Rightarrow> instant \<Rightarrow> runner_db
     \<Rightarrow> uuid option handled" where
  "schedule limits outcome run attempt now db =
     (case schedule_tx limits run attempt now db of
        Inl e \<Rightarrow> (Inl e, [], db)
      | Inr (None, db1) \<Rightarrow> (Inr None, [], db1)
      | Inr (Some _, db1) \<Rightarrow>
          (case start_attempt outcome run attempt now db1 of
             (Inl e, calls, db2) \<Rightarrow> (Inl e, calls, db2)
           | (Inr _, calls, db2) \<Rightarrow> (Inr (Some attempt), calls, db2)))"

section \<open>Cancellation\<close>

definition terminal :: "run_state \<Rightarrow> bool" where
  "terminal s \<longleftrightarrow> s \<in> {Completed, Failed, Cancelled}"

text \<open>The first transaction returns the run as it was read and its active attempt, None when the
  run is already in a terminal state.\<close>

definition cancel_begin ::
  "uuid \<Rightarrow> instant \<Rightarrow> runner_db \<Rightarrow> (run_row \<times> attempt_row option option, runner_db) tx" where
  "cancel_begin run now db =
     (case row_by r_run_id run (runs db) of
        None \<Rightarrow> Inl (runner_error ''run_not_found'')
      | Some row \<Rightarrow>
          if terminal (r_state row) then Inr ((row, None), db)
          else
            (case (case r_active row of
                     None \<Rightarrow> Inr (attempts db)
                   | Some attempt \<Rightarrow> checked_attempts (update_where (\<lambda>a. a_id a = attempt)
                       (\<lambda>a. a\<lparr>a_state := A_stopping\<rparr>) (attempts db))) of
               Inl e \<Rightarrow> Inl e
             | Inr attempts' \<Rightarrow>
                 Inr ((row, Some (case r_active row of
                          None \<Rightarrow> None | Some attempt \<Rightarrow> row_by a_id attempt (attempts db))),
                   db\<lparr>attempts := attempts',
                     runs := update_where (\<lambda>r. r_run_id r = run)
                       (\<lambda>r. r\<lparr>r_state := Cancelling,
                              r_cancel_requested := (case r_cancel_requested r of
                                 None \<Rightarrow> Some now | Some t \<Rightarrow> Some t),
                              r_updated := now\<rparr>) (runs db)\<rparr>)))"

text \<open>The identities and the clock an operation draws, the encoded size of the events it writes.\<close>

record runner_env =
  re_now :: instant
  re_first_event :: uuid
  re_second_event :: uuid
  re_bytes :: nat

definition run_event ::
  "runner_env \<Rightarrow> pystr \<Rightarrow> uuid \<Rightarrow> run_row \<Rightarrow> uuid \<Rightarrow> event_data \<Rightarrow> envelope" where
  "run_event x kind event_id row cause data =
     make_envelope (re_bytes x) ''agent-runner'' kind event_id (re_now x) (r_user_id row)
       (r_conversation_id row) (r_thread_id row) (r_run_id row) (r_trace_id row) cause data"

definition interrupted_event ::
  "runner_env \<Rightarrow> run_row \<Rightarrow> attempt_row \<Rightarrow> uuid \<Rightarrow> pystr \<Rightarrow> uuid \<Rightarrow> envelope" where
  "interrupted_event x row a message code cause =
     (run_event x ''porfirium.message.interrupted.v1'' (re_first_event x) row cause
        (empty_data\<lparr>d_message_id := Good message, d_code := Some code\<rparr>))
     \<lparr>ev_attempt_id := Good (a_id a), ev_lease_epoch := Good (int (r_epoch row))\<rparr>"

definition cancelled_event ::
  "runner_env \<Rightarrow> run_row \<Rightarrow> attempt_row option \<Rightarrow> uuid \<Rightarrow> envelope" where
  "cancelled_event x row a cause =
     run_event x ''porfirium.run.cancelled.v1'' (re_second_event x) row cause
       (empty_data\<lparr>d_run_id := Good (r_run_id row), d_state := Some ''cancelled'',
          d_attempt_id := (case a of None \<Rightarrow> Missing | Some b \<Rightarrow> Good (a_id b)),
          d_lease_epoch := (if r_epoch row = 0 then Missing else Good (int (r_epoch row))),
          d_code := Some ''cancelled''\<rparr>)"

text \<open>\<open>cause_of\<close> is the causation identity of an idempotency key: the key itself when it is a
  UUID, a name-based UUID otherwise.\<close>

definition cancel_finish ::
  "(pystr \<Rightarrow> uuid) \<Rightarrow> run_row \<Rightarrow> attempt_row option \<Rightarrow> pystr \<Rightarrow> runner_env \<Rightarrow> runner_db
     \<Rightarrow> (run_row, runner_db) tx" where
  "cancel_finish cause_of row attempt key x db =
     (let run = r_run_id row; now = re_now x;
          attempts' = (case attempt of None \<Rightarrow> attempts db
                       | Some a \<Rightarrow> end_attempt (a_id a) A_exited now (attempts db));
          runs' = update_where (\<lambda>r. r_run_id r = run \<and> r_state r = Cancelling)
                    (\<lambda>r. r\<lparr>r_state := Cancelled, r_terminal_code := Some ''cancelled'',
                           r_active := None, r_updated := now\<rparr>) (runs db);
          out1 = (case attempt of
                    None \<Rightarrow> runner_outbox db
                  | Some a \<Rightarrow>
                      (case a_active_message a of
                         None \<Rightarrow> runner_outbox db
                       | Some message \<Rightarrow>
                           enqueue (re_first_event x)
                             ''porfirium.conversation.event.message_interrupted''
                             (Run_event (interrupted_event x row a message ''cancelled''
                                (cause_of key))) now (runner_outbox db)));
          out2 = enqueue (re_second_event x) ''porfirium.run.event.cancelled''
                   (Run_event (cancelled_event x row attempt (cause_of key))) now out1;
          db' = db\<lparr>attempts := attempts', runs := runs', runner_outbox := out2\<rparr> in
      case get_run db' run of Inl e \<Rightarrow> Inl e | Inr r \<Rightarrow> Inr (r, db'))"

text \<open>The handler; \<open>removed\<close> tells whether the removal of the container succeeds.\<close>

definition cancel ::
  "(pystr \<Rightarrow> uuid) \<Rightarrow> bool \<Rightarrow> uuid \<Rightarrow> pystr \<Rightarrow> runner_env \<Rightarrow> runner_db \<Rightarrow> run_row handled" where
  "cancel cause_of removed run key x db =
     (case cancel_begin run (re_now x) db of
        Inl e \<Rightarrow> (Inl e, [], db)
      | Inr ((row, None), db1) \<Rightarrow> (Inr row, [], db1)
      | Inr ((row, Some attempt), db1) \<Rightarrow>
          (let calls = (case attempt of None \<Rightarrow> [] | Some a \<Rightarrow> [Remove (a_container a) (a_id a)]) in
           if attempt \<noteq> None \<and> \<not> removed then (Inl Backend_failure, calls, db1)
           else (case cancel_finish cause_of row attempt key x db1 of
                   Inl e \<Rightarrow> (Inl e, calls, db1)
                 | Inr (r, db2) \<Rightarrow> (Inr r, calls, db2))))"

section \<open>Suspension\<close>

definition good_uuid :: "uuid fld \<Rightarrow> bool" where
  "good_uuid f \<longleftrightarrow> fld_value f \<noteq> None"

text \<open>The parsed identities of a suspension event: event, run, attempt and epoch.\<close>

definition parse_suspension :: "envelope \<Rightarrow> (uuid \<times> uuid \<times> uuid \<times> int) option" where
  "parse_suspension e =
     (case (ev_id e, ev_run_id e, ev_attempt_id e, ev_lease_epoch e, ev_data e) of
        (Good event_id, Good run, Good attempt, Good epoch, Some d) \<Rightarrow>
          if good_uuid (d_suspension_id d) \<and> good_uuid (d_checkpoint_id d)
             \<and> good_uuid (d_input_request_id d)
          then Some (event_id, run, attempt, epoch) else None
      | _ \<Rightarrow> None)"

definition suspension_type :: pystr where
  "suspension_type = ''porfirium.run.suspension_committed.v1''"

text \<open>The first transaction; the result is None when the event was applied before.\<close>

definition suspend_begin ::
  "uuid \<Rightarrow> uuid \<Rightarrow> uuid \<Rightarrow> int \<Rightarrow> instant \<Rightarrow> runner_db \<Rightarrow> (attempt_row option, runner_db) tx" where
  "suspend_begin event_id run attempt epoch now db =
     (let inserted = event_id \<notin> fst ` set (run_inbox db);
          inbox' = (if inserted then run_inbox db @ [(event_id, suspension_type)]
                    else run_inbox db) in
      case row_by r_run_id run (runs db) of
        None \<Rightarrow> Inl (runner_error ''suspension_stale'')
      | Some r \<Rightarrow>
          if \<not> inserted \<and> r_state r = Waiting_for_input then Inr (None, db)
          else if r_active r \<noteq> Some attempt \<or> int (r_epoch r) \<noteq> epoch
                  \<or> r_state r \<notin> {Running, Suspending}
          then Inl (runner_error ''suspension_stale'')
          else
            (case row_by a_id attempt (attempts db) of
               None \<Rightarrow> Inl Type_error
             | Some a \<Rightarrow>
                 (case checked_attempts (update_where (\<lambda>b. a_id b = attempt)
                          (\<lambda>b. b\<lparr>a_state := A_stopping\<rparr>) (attempts db)) of
                    Inl e \<Rightarrow> Inl e
                  | Inr attempts' \<Rightarrow>
                      Inr (Some a, db\<lparr>run_inbox := inbox', attempts := attempts',
                        runs := (if r_state r = Running
                          then update_where (\<lambda>q. r_run_id q = run)
                            (\<lambda>q. q\<lparr>r_state := Suspending, r_updated := now\<rparr>) (runs db)
                          else runs db)\<rparr>))))"

definition suspend_finish :: "uuid \<Rightarrow> uuid \<Rightarrow> instant \<Rightarrow> runner_db \<Rightarrow> runner_db" where
  "suspend_finish run attempt now db =
     db\<lparr>attempts := end_attempt attempt A_exited now (attempts db),
        runs := update_where (\<lambda>r. r_run_id r = run \<and> r_state r = Suspending)
          (\<lambda>r. r\<lparr>r_state := Waiting_for_input, r_active := None, r_updated := now\<rparr>) (runs db)\<rparr>"

text \<open>What the backend answers while the container is removed: it no longer exists, the removal
  succeeds, fails, or takes longer than five seconds.\<close>

datatype removal = Gone | Removed | Removal_fails | Removal_times_out

definition suspend ::
  "removal \<Rightarrow> envelope \<Rightarrow> instant \<Rightarrow> runner_db \<Rightarrow> bool handled" where
  "suspend backend e now db =
     (case parse_suspension e of
        None \<Rightarrow> (Inl (runner_error ''suspension_invalid''), [], db)
      | Some (event_id, run, attempt, epoch) \<Rightarrow>
          (case suspend_begin event_id run attempt epoch now db of
             Inl err \<Rightarrow> (Inl err, [], db)
           | Inr (None, db1) \<Rightarrow> (Inr False, [], db1)
           | Inr (Some a, db1) \<Rightarrow>
               if a_container a \<notin> {None, Some []} \<and> backend = Gone
               then (Inr True, [], suspend_finish run attempt now db1)
               else
                 (case backend of
                    Removal_fails \<Rightarrow> (Inl Backend_failure, [Remove (a_container a) (a_id a)], db1)
                  | Removal_times_out \<Rightarrow>
                      (Inl Timeout_failure, [Remove (a_container a) (a_id a)], db1)
                  | _ \<Rightarrow> (Inr True, [Remove (a_container a) (a_id a)],
                          suspend_finish run attempt now db1))))"

section \<open>Reconciliation\<close>

text \<open>The join of the runs that should have a container with their active attempts.\<close>

definition reconcile_rows :: "runner_db \<Rightarrow> (run_row \<times> attempt_row) list" where
  "reconcile_rows db =
     concat (map (\<lambda>r. if r_state r \<in> {Starting, Running, Cancelling} then
         (case r_active r of
            None \<Rightarrow> []
          | Some attempt \<Rightarrow>
              (case row_by a_id attempt (attempts db) of None \<Rightarrow> [] | Some a \<Rightarrow> [(r, a)]))
       else []) (runs db))"

definition retry_allowed :: "nat \<Rightarrow> instant \<Rightarrow> nat \<Rightarrow> instant \<Rightarrow> bool" where
  "retry_allowed attempt_number deadline max_attempts now \<longleftrightarrow>
     attempt_number < max_attempts \<and> deadline > now"

text \<open>\<open>_handle_attempt_loss\<close> on a fetched row.\<close>

definition attempt_loss ::
  "nat \<Rightarrow> (pystr \<Rightarrow> uuid) \<Rightarrow> run_row \<times> attempt_row \<Rightarrow> runner_env \<Rightarrow> runner_db \<Rightarrow> runner_db" where
  "attempt_loss max_attempts cause_of row x db =
     (let r = fst row; a = snd row; now = re_now x;
          db1 = db\<lparr>attempts := end_attempt (a_id a) A_failed now (attempts db)\<rparr> in
      if \<not> a_visible_output a \<and> retry_allowed (a_number a) (r_deadline r) max_attempts now then
        db1\<lparr>runs := release_run (r_run_id r) (a_id a) Scheduled None now (runs db1)\<rparr>
      else
        (let code = (if a_visible_output a then ''attempt_lost_after_output''
                     else ''attempt_retry_exhausted'');
             db2 = db1\<lparr>runs := release_run (r_run_id r) (a_id a) Failed (Some code) now
                         (runs db1)\<rparr> in
         case a_active_message a of
           None \<Rightarrow> db2
         | Some message \<Rightarrow>
             db2\<lparr>runner_outbox := enqueue (re_first_event x)
               ''porfirium.conversation.event.message_interrupted''
               (Run_event (interrupted_event x r a message ''attempt_lost''
                 (cause_of (uuid_str (a_id a))))) now (runner_outbox db2)\<rparr>))"

text \<open>The loop over the fetched rows: \<open>running\<close> answers for a container, \<open>env\<close> gives the fresh
  values used for an attempt. A backend call that raises leaves the loop; the handler below takes
  the rows before it.\<close>

fun reconcile_loop ::
  "nat \<Rightarrow> (pystr \<Rightarrow> uuid) \<Rightarrow> (pystr \<Rightarrow> bool) \<Rightarrow> (uuid \<Rightarrow> runner_env) \<Rightarrow>
     (run_row \<times> attempt_row) list \<Rightarrow> runner_db \<Rightarrow> nat \<times> backend_call list \<times> runner_db" where
  "reconcile_loop max_attempts cause_of running env [] db = (0, [], db)"
| "reconcile_loop max_attempts cause_of running env ((r, a) # rows) db =
     (if (case a_container a of None \<Rightarrow> False | Some cid \<Rightarrow> cid \<noteq> [] \<and> running cid)
      then reconcile_loop max_attempts cause_of running env rows db
      else
        (case reconcile_loop max_attempts cause_of running env rows
                (attempt_loss max_attempts cause_of (r, a) (env (a_id a)) db) of
           (n, calls, db') \<Rightarrow> (n + 1, Remove (a_container a) (a_id a) # calls, db')))"

text \<open>The containers the backend manages that no attempt records are removed.\<close>

definition unrecorded :: "(pystr \<times> uuid) list \<Rightarrow> runner_db \<Rightarrow> (pystr \<times> uuid) list" where
  "unrecorded managed db =
     filter (\<lambda>m. m \<notin> (\<lambda>a. (the (a_container a), a_id a)) `
                      set (filter (\<lambda>a. a_container a \<noteq> None) (attempts db))) managed"

definition reconcile ::
  "nat \<Rightarrow> (pystr \<Rightarrow> uuid) \<Rightarrow> (pystr \<Rightarrow> bool) \<Rightarrow> (uuid \<Rightarrow> runner_env) \<Rightarrow> (pystr \<times> uuid) list
     \<Rightarrow> runner_db \<Rightarrow> nat \<times> backend_call list \<times> runner_db" where
  "reconcile max_attempts cause_of running env managed db =
     (case reconcile_loop max_attempts cause_of running env (reconcile_rows db) db of
        (n, calls, db') \<Rightarrow>
          (let orphans = unrecorded managed db' in
           (n + length orphans, calls @ map (\<lambda>(cid, net). Remove (Some cid) net) orphans, db')))"

text \<open>The runs one pass of \<open>_scheduler\<close> tries to start.\<close>

definition scheduler_pick :: "runner_db \<Rightarrow> uuid list" where
  "scheduler_pick db = map r_run_id (take 10 (sort_key r_created
     (filter (\<lambda>r. r_state r \<in> {Accepted, Scheduled} \<and> r_active r = None) (runs db))))"

fun schedule_all ::
  "capacity_limits \<Rightarrow> (uuid \<Rightarrow> start_outcome) \<Rightarrow> (uuid \<Rightarrow> uuid) \<Rightarrow> instant \<Rightarrow> uuid list
     \<Rightarrow> runner_db \<Rightarrow> runner_db" where
  "schedule_all limits outcome fresh now [] db = db"
| "schedule_all limits outcome fresh now (run # rest) db =
     schedule_all limits outcome fresh now rest
       (snd (snd (schedule limits (outcome run) run (fresh run) now db)))"

text \<open>One pass of the scheduler: errors of single runs are suppressed.\<close>

definition scheduler_pass ::
  "capacity_limits \<Rightarrow> nat \<Rightarrow> (pystr \<Rightarrow> uuid) \<Rightarrow> (uuid \<Rightarrow> start_outcome) \<Rightarrow> (uuid \<Rightarrow> uuid)
     \<Rightarrow> (pystr \<Rightarrow> bool) \<Rightarrow> (uuid \<Rightarrow> runner_env) \<Rightarrow> (pystr \<times> uuid) list \<Rightarrow> instant \<Rightarrow> runner_db
     \<Rightarrow> runner_db" where
  "scheduler_pass limits max_attempts cause_of outcome fresh running env managed now db =
     snd (snd (reconcile max_attempts cause_of running env managed
       (schedule_all limits outcome fresh now (scheduler_pick db) db)))"

end
