(* ===== verification/RunnerCompletion.thy ===== *)
theory RunnerCompletion
  imports RunnerLifecycle
begin

text \<open>
  The completion protocol of the Runner (\<open>agent_runner/completion.py\<close>): the result proposal, the
  confirmations of messages and checkpoint that arrive in any order, and the convergence of the
  run; the event consumer of \<open>agent_runner/messaging.py\<close> and the schedule inbox of \<open>inbox.py\<close>.
\<close>

section \<open>Definitions\<close>

definition completion_error :: "pystr \<Rightarrow> exc" where
  "completion_error code = Coded ''CompletionError'' code"

text \<open>\<open>UUID(str(data["key"]))\<close> and \<open>int(data["key"])\<close>.\<close>

definition need :: "'a fld \<Rightarrow> exc + 'a" where
  "need f = (case f of Missing \<Rightarrow> Inl Key_error | Malformed \<Rightarrow> Inl Value_error | Good v \<Rightarrow> Inr v)"

text \<open>\<open>UUID(str(data.get("key")))\<close>: an absent value is no UUID.\<close>

definition need_value :: "'a fld \<Rightarrow> exc + 'a" where
  "need_value f = (case f of Good v \<Rightarrow> Inr v | _ \<Rightarrow> Inl Value_error)"

text \<open>\<open>list(dict.fromkeys(xs))\<close> keeps first occurrences.\<close>

fun dedup :: "'a list \<Rightarrow> 'a list" where
  "dedup [] = []"
| "dedup (x # xs) = x # filter (\<lambda>y. y \<noteq> x) (dedup xs)"

fun all_values :: "uuid fld list \<Rightarrow> exc + uuid list" where
  "all_values [] = Inr []"
| "all_values (f # fs) =
     (case need_value f of
        Inl e \<Rightarrow> Inl e
      | Inr v \<Rightarrow> (case all_values fs of Inl e \<Rightarrow> Inl e | Inr vs \<Rightarrow> Inr (v # vs)))"

definition completion_of :: "uuid \<Rightarrow> runner_db \<Rightarrow> completion_row option" where
  "completion_of run db = row_by c_run run (completions db)"

definition update_completion ::
  "uuid \<Rightarrow> (completion_row \<Rightarrow> completion_row) \<Rightarrow> runner_db \<Rightarrow> runner_db" where
  "update_completion run f db =
     db\<lparr>completions := update_where (\<lambda>c. c_run c = run) f (completions db)\<rparr>"

text \<open>\<open>_proposal\<close>.\<close>

definition proposal ::
  "run_row \<Rightarrow> uuid \<Rightarrow> event_data \<Rightarrow> instant \<Rightarrow> runner_db \<Rightarrow> exc + runner_db" where
  "proposal run event_id data now db =
     (case need (d_attempt_id data) of
        Inl e \<Rightarrow> Inl e
      | Inr attempt \<Rightarrow>
     (case need (d_lease_epoch data) of
        Inl e \<Rightarrow> Inl e
      | Inr epoch \<Rightarrow>
          if r_active run \<noteq> Some attempt \<or> epoch \<noteq> int (r_epoch run)
          then Inl (completion_error ''stale_epoch'')
          else
            (let required = dedup (d_required_confirmations data) in
             if \<not> set required \<subseteq> {''messages'', ''checkpoint''}
             then Inl (completion_error ''confirmation_invalid'')
             else
               (case all_values (d_final_message_ids data) of
                  Inl e \<Rightarrow> Inl e
                | Inr message_ids \<Rightarrow>
                    if (''messages'' \<in> set required) \<noteq> (message_ids \<noteq> [])
                       \<or> (''checkpoint'' \<in> set required) \<noteq> (d_final_checkpoint_id data \<noteq> Missing)
                    then Inl (completion_error ''confirmation_invalid'')
                    else
                      (let checkpoint = fld_value (d_final_checkpoint_id data) in
                       case completion_of (r_run_id run) db of
                         Some c \<Rightarrow>
                           if \<not> (c_attempt c = attempt \<and> int (c_epoch c) = epoch
                                 \<and> c_messages c = message_ids)
                           then Inl (completion_error ''proposal_conflict'')
                           else if d_final_checkpoint_id data = Malformed then Inl Value_error
                           else if c_checkpoint c = checkpoint \<and> c_required c = required
                           then Inr db else Inl (completion_error ''proposal_conflict'')
                       | None \<Rightarrow>
                           if d_final_checkpoint_id data = Malformed then Inl Value_error
                           else if has_row c_event event_id (completions db) then Inl Unique_violation
                           else if epoch \<le> 0 then Inl Check_violation
                           else
                             Inr (db\<lparr>completions := completions db @
                               [\<lparr>c_run = r_run_id run, c_event = event_id, c_attempt = attempt,
                                 c_epoch = r_epoch run, c_messages = message_ids,
                                 c_checkpoint = checkpoint, c_required = required,
                                 c_messages_confirmed = False, c_checkpoint_confirmed = False,
                                 c_reconciled = None\<rparr>],
                               runs := (if terminal (r_state run) then runs db
                                 else update_where (\<lambda>r. r_run_id r = r_run_id run)
                                   (\<lambda>r. r\<lparr>r_state := Completion_reconciling, r_updated := now\<rparr>)
                                   (runs db))\<rparr>))))))"

text \<open>\<open>INSERT ... ON CONFLICT(run_id, confirmation) DO UPDATE SET payload\<close>.\<close>

definition upsert_confirmation ::
  "uuid \<Rightarrow> pystr \<Rightarrow> event_data \<Rightarrow> confirmation_row list \<Rightarrow> confirmation_row list" where
  "upsert_confirmation run kind data t =
     (if has_row (\<lambda>n. (n_run n, n_kind n)) (run, kind) t
      then update_where (\<lambda>n. n_run n = run \<and> n_kind n = kind) (\<lambda>n. n\<lparr>n_payload := data\<rparr>) t
      else t @ [\<lparr>n_run = run, n_kind = kind, n_payload = data\<rparr>])"

text \<open>\<open>_confirmation\<close>; the kind is messages or checkpoint.\<close>

definition confirmation ::
  "uuid \<Rightarrow> pystr \<Rightarrow> event_data \<Rightarrow> runner_db \<Rightarrow> exc + runner_db" where
  "confirmation run kind data db =
     (let db1 = db\<lparr>confirmations := upsert_confirmation run kind data (confirmations db)\<rparr> in
      case completion_of run db1 of
        None \<Rightarrow> Inr db1
      | Some c \<Rightarrow>
          if kind = ''messages'' then
            (case all_values (d_message_ids data) of
               Inl e \<Rightarrow> Inl e
             | Inr actual \<Rightarrow>
                 if set actual \<noteq> set (c_messages c)
                 then Inl (completion_error ''confirmation_mismatch'')
                 else Inr (update_completion run (\<lambda>c. c\<lparr>c_messages_confirmed := True\<rparr>) db1))
          else
            (case need_value (d_checkpoint_id data) of
               Inl e \<Rightarrow> Inl e
             | Inr k \<Rightarrow>
                 if c_checkpoint c \<noteq> Some k
                 then Inl (completion_error ''confirmation_mismatch'')
                 else Inr (update_completion run (\<lambda>c. c\<lparr>c_checkpoint_confirmed := True\<rparr>) db1)))"

text \<open>The first half of \<open>_converge\<close>: the stored confirmations of the run are applied to its
  proposal.\<close>

fun apply_confirmations ::
  "confirmation_row list \<Rightarrow> completion_row \<Rightarrow> exc + completion_row" where
  "apply_confirmations [] c = Inr c"
| "apply_confirmations (n # ns) c =
     (if n_kind n = ''messages'' then
        (case all_values (d_message_ids (n_payload n)) of
           Inl e \<Rightarrow> Inl e
         | Inr actual \<Rightarrow> apply_confirmations ns
             (if set actual = set (c_messages c) then c\<lparr>c_messages_confirmed := True\<rparr> else c))
      else
        (case need_value (d_checkpoint_id (n_payload n)) of
           Inl e \<Rightarrow> Inl e
         | Inr k \<Rightarrow> apply_confirmations ns
             (if c_checkpoint c = Some k then c\<lparr>c_checkpoint_confirmed := True\<rparr> else c)))"

definition completion_ready :: "completion_row \<Rightarrow> bool" where
  "completion_ready c \<longleftrightarrow> (''messages'' \<in> set (c_required c) \<longrightarrow> c_messages_confirmed c)
     \<and> (''checkpoint'' \<in> set (c_required c) \<longrightarrow> c_checkpoint_confirmed c)"

definition completed_event :: "runner_env \<Rightarrow> run_row \<Rightarrow> completion_row \<Rightarrow> envelope" where
  "completed_event x r c =
     run_event x ''porfirium.run.completed.v1'' (re_first_event x) r (c_event c)
       (empty_data\<lparr>d_run_id := Good (r_run_id r), d_state := Some ''completed'',
          d_attempt_id := Good (c_attempt c), d_lease_epoch := Good (int (c_epoch c))\<rparr>)"

definition confirmations_of :: "uuid \<Rightarrow> confirmation_row list \<Rightarrow> confirmation_row list" where
  "confirmations_of run t = filter (\<lambda>n. n_run n = run) t"

text \<open>The second half: a run whose required confirmations are all there is completed.\<close>

definition complete_run ::
  "uuid \<Rightarrow> completion_row \<Rightarrow> runner_env \<Rightarrow> runner_db \<Rightarrow> runner_db" where
  "complete_run run c x db =
     (let db2 = db\<lparr>attempts := update_where (\<lambda>a. a_id a = c_attempt c)
            (\<lambda>a. a\<lparr>a_state := A_exited,
                   a_ended := (case a_ended a of None \<Rightarrow> Some (re_now x) | Some t \<Rightarrow> Some t)\<rparr>)
            (attempts db)\<rparr> in
      case row_by r_run_id run (runs db) of
        None \<Rightarrow> db2
      | Some r \<Rightarrow>
          if r_state r \<noteq> Completion_reconciling then db2
          else
            update_completion run (\<lambda>c. c\<lparr>c_reconciled := Some (re_now x)\<rparr>)
              (db2\<lparr>runs := update_where
                    (\<lambda>r. r_run_id r = run \<and> r_state r = Completion_reconciling)
                    (\<lambda>r. r\<lparr>r_state := Completed, r_terminal_code := None, r_active := None,
                           r_updated := re_now x\<rparr>) (runs db2),
                runner_outbox := enqueue (re_first_event x) ''porfirium.run.event.completed''
                  (Run_event (completed_event x r c)) (re_now x) (runner_outbox db2)\<rparr>))"

definition converge :: "uuid \<Rightarrow> runner_env \<Rightarrow> runner_db \<Rightarrow> exc + runner_db" where
  "converge run x db =
     (case completion_of run db of
        None \<Rightarrow> Inr db
      | Some c0 \<Rightarrow>
          (case apply_confirmations (confirmations_of run (confirmations db)) c0 of
             Inl e \<Rightarrow> Inl e
           | Inr c \<Rightarrow>
               (let db1 = update_completion run (\<lambda>_. c) db in
                case row_by r_run_id run (runs db1) of
                  None \<Rightarrow> Inr db1
                | Some r \<Rightarrow>
                    if terminal (r_state r) \<or> \<not> completion_ready c then Inr db1
                    else Inr (complete_run run c x db1))))"

definition starts_with :: "pystr \<Rightarrow> pystr \<Rightarrow> bool" where
  "starts_with p s \<longleftrightarrow> take (length p) s = p"

text \<open>The effect of one event, before the convergence.\<close>

definition run_event_effect ::
  "pystr \<Rightarrow> run_row \<Rightarrow> uuid \<Rightarrow> envelope \<Rightarrow> event_data \<Rightarrow> instant \<Rightarrow> runner_db
     \<Rightarrow> exc + runner_db" where
  "run_event_effect kind run event_id e data now db =
     (if kind = ''porfirium.run.result_proposed.v1'' then proposal run event_id data now db
      else if kind = ''porfirium.run.messages_committed.v1''
      then confirmation (r_run_id run) ''messages'' data db
      else if kind = ''porfirium.run.checkpoint_committed.v1''
      then confirmation (r_run_id run) ''checkpoint'' data db
      else if kind = ''porfirium.message.started.v1'' then
        (case need (ev_attempt_id e) of
           Inl err \<Rightarrow> Inl err
         | Inr attempt \<Rightarrow>
             if r_active run \<noteq> Some attempt then Inl (completion_error ''stale_epoch'')
             else
               (case need (ev_lease_epoch e) of
                  Inl err \<Rightarrow> Inl err
                | Inr epoch \<Rightarrow>
                    if epoch \<noteq> int (r_epoch run) then Inl (completion_error ''stale_epoch'')
                    else
                      (case need (d_message_id data) of
                         Inl err \<Rightarrow> Inl err
                       | Inr message \<Rightarrow>
                           Inr (db\<lparr>attempts := update_where (\<lambda>a. a_id a = attempt)
                             (\<lambda>a. a\<lparr>a_visible_output := True, a_active_message := Some message\<rparr>)
                             (attempts db)\<rparr>))))
      else Inl (completion_error ''event_unsupported''))"

definition consume_run_event ::
  "envelope \<Rightarrow> runner_env \<Rightarrow> runner_db \<Rightarrow> (bool, runner_db) tx" where
  "consume_run_event e x db =
     (if \<not> validate_envelope e then Inl event_validation_error
      else
        (case (ev_id e, ev_type e, ev_run_id e, ev_data e) of
           (Good event_id, Some kind, Good run_id, Some data) \<Rightarrow>
             if event_id \<in> fst ` set (run_inbox db) then Inr (False, db)
             else
               (let db1 = db\<lparr>run_inbox := run_inbox db @ [(event_id, kind)]\<rparr> in
                case row_by r_run_id run_id (runs db1) of
                  None \<Rightarrow> Inl (completion_error ''run_not_found'')
                | Some run \<Rightarrow>
                    if \<not> validate_run_binding e (r_user_id run) (r_conversation_id run)
                          (r_thread_id run) (r_run_id run) (r_trace_id run)
                    then Inl event_validation_error
                    else
                      (case run_event_effect kind run event_id e data (re_now x) db1 of
                         Inl err \<Rightarrow> Inl err
                       | Inr db2 \<Rightarrow>
                           if starts_with ''porfirium.run.'' kind then
                             (case converge run_id x db2 of
                                Inl err \<Rightarrow> Inl err
                              | Inr db3 \<Rightarrow> Inr (True, db3))
                           else Inr (True, db2)))
         | _ \<Rightarrow> Inl (completion_error ''event_invalid'')))"

text \<open>\<open>apply_schedule_once\<close> of \<open>inbox.py\<close>: its own inbox and effects; \<open>run_id\<close> is unique among the
  effects.\<close>

definition apply_schedule_once ::
  "uuid \<Rightarrow> uuid \<Rightarrow> (uuid list \<times> (uuid \<times> uuid) list) \<Rightarrow>
     (bool, uuid list \<times> (uuid \<times> uuid) list) tx" where
  "apply_schedule_once event_id run s =
     (case s of (inbox, effects) \<Rightarrow>
        if event_id \<in> set inbox then Inr (False, s)
        else if event_id \<in> fst ` set effects \<or> run \<in> snd ` set effects then Inl Unique_violation
        else Inr (True, (inbox @ [event_id], effects @ [(event_id, run)])))"

text \<open>The message loop of \<open>consume_completion_events\<close>: what becomes of one delivery. Events of
  other types are acknowledged; an error is retried, and after the last delivery the message goes
  to the dead letters.\<close>

datatype delivery = Acked | Retried | Dead_lettered

definition completion_supported :: "pystr \<Rightarrow> bool" where
  "completion_supported kind \<longleftrightarrow> kind \<in> {''porfirium.run.result_proposed.v1'',
     ''porfirium.run.messages_committed.v1'', ''porfirium.run.checkpoint_committed.v1'',
     ''porfirium.message.started.v1'', ''porfirium.run.suspension_committed.v1''}"

text \<open>What processing one decoded message does: the error it ends with, if any, the calls of the backend
  and the tables.\<close>

definition completion_effect ::
  "removal \<Rightarrow> envelope \<Rightarrow> runner_env \<Rightarrow> runner_db \<Rightarrow> exc option \<times> backend_call list \<times> runner_db" where
  "completion_effect backend e x db =
     (if \<not> validate_envelope e then (Some event_validation_error, [], db)
      else if \<not> (case ev_type e of None \<Rightarrow> False | Some k \<Rightarrow> completion_supported k)
      then (None, [], db)
      else if ev_type e = Some suspension_type then
        (case suspend backend e (re_now x) db of
           (Inl err, calls, db') \<Rightarrow> (Some err, calls, db')
         | (Inr _, calls, db') \<Rightarrow> (None, calls, db'))
      else
        (case consume_run_event e x db of
           Inl err \<Rightarrow> (Some err, [], db) | Inr (_, db') \<Rightarrow> (None, [], db')))"

definition consume_completion_event ::
  "nat \<Rightarrow> nat \<Rightarrow> removal \<Rightarrow> envelope \<Rightarrow> runner_env \<Rightarrow> runner_db
     \<Rightarrow> delivery \<times> backend_call list \<times> runner_db" where
  "consume_completion_event max_deliveries delivered backend e x db =
     (case completion_effect backend e x db of
        (None, calls, db') \<Rightarrow> (Acked, calls, db')
      | (Some _, calls, db') \<Rightarrow>
          (if delivered \<ge> max_deliveries then Dead_lettered else Retried, calls, db'))"

end
