(* ===== verification/RunnerSafety.thy ===== *)
theory RunnerSafety
  imports RunnerCompletion
begin

text \<open>
  What holds of the Runner's tables whatever transactions run and in whatever order: every
  transaction of every handler is one step, with arbitrary values for what the handler captured
  before it (so that crashes, retries, several replicas and overlapping handlers are all included).
\<close>

section \<open>Transactions as steps\<close>

definition attempt_key :: "attempt_row \<Rightarrow> uuid \<times> uuid \<times> nat \<times> nat" where
  "attempt_key a = (a_id a, a_run a, a_number a, a_epoch a)"

text \<open>A row the reconciliation fetched describes an attempt of the table by its immutable columns;
  everything else in it may be out of date.\<close>

definition captured :: "run_row \<times> attempt_row \<Rightarrow> runner_db \<Rightarrow> bool" where
  "captured row db \<longleftrightarrow> attempt_key (snd row) \<in> attempt_key ` set (attempts db)"

text \<open>Identities drawn by \<open>uuid4\<close> are new.\<close>

definition fresh_env :: "runner_env \<Rightarrow> runner_db \<Rightarrow> bool" where
  "fresh_env x db \<longleftrightarrow> \<not> has_row o_event_id (re_first_event x) (runner_outbox db)
     \<and> \<not> has_row o_event_id (re_second_event x) (runner_outbox db)
     \<and> re_first_event x \<noteq> re_second_event x"

inductive runner_step :: "nat \<Rightarrow> runner_db \<Rightarrow> runner_db \<Rightarrow> bool" for max_attempts where
  step_admit: "admit digest spec_digest timeout key q x db = Inr (r, db') \<Longrightarrow>
    runner_step max_attempts db db'"
| step_schedule: "schedule_tx limits run attempt now db = Inr (res, db') \<Longrightarrow>
    runner_step max_attempts db db'"
| step_record: "record_container attempt cid db = Inr db' \<Longrightarrow> runner_step max_attempts db db'"
| step_start_finish: "start_finish run attempt now db = Inr db' \<Longrightarrow>
    runner_step max_attempts db db'"
| step_fail_start: "db' = fail_start run attempt now db \<Longrightarrow> runner_step max_attempts db db'"
| step_cancel_begin: "cancel_begin run now db = Inr (res, db') \<Longrightarrow>
    runner_step max_attempts db db'"
| step_cancel_finish: "fresh_env x db \<Longrightarrow> cancel_finish cause_of row attempt_opt key x db = Inr (r, db')
    \<Longrightarrow> runner_step max_attempts db db'"
| step_suspend_begin: "suspend_begin event_id run attempt epoch now db = Inr (res, db') \<Longrightarrow>
    runner_step max_attempts db db'"
| step_suspend_finish: "db' = suspend_finish run attempt now db \<Longrightarrow>
    runner_step max_attempts db db'"
| step_loss: "fresh_env x db \<Longrightarrow> captured row db \<Longrightarrow>
    db' = attempt_loss max_attempts cause_of row x db \<Longrightarrow> runner_step max_attempts db db'"
| step_event: "fresh_env x db \<Longrightarrow> consume_run_event e x db = Inr (res, db') \<Longrightarrow>
    runner_step max_attempts db db'"

definition runner_reachable :: "nat \<Rightarrow> runner_db \<Rightarrow> bool" where
  "runner_reachable max_attempts db \<longleftrightarrow> (runner_step max_attempts)\<^sup>*\<^sup>* empty_runner_db db"

section \<open>The invariant\<close>

definition idle_state :: "run_state \<Rightarrow> bool" where
  "idle_state s \<longleftrightarrow> s \<in> {Accepted, Scheduled, Waiting_for_input, Completed, Failed, Cancelled}"

text \<open>What the state of a run says about its active attempt and its number of attempts.\<close>

definition run_ok :: "nat \<Rightarrow> run_row \<Rightarrow> bool" where
  "run_ok max_attempts r \<longleftrightarrow> r_state r \<noteq> Requested
     \<and> (idle_state (r_state r) \<longrightarrow> r_active r = None)
     \<and> (r_state r \<in> {Starting, Running, Suspending, Completion_reconciling} \<longrightarrow> r_active r \<noteq> None)
     \<and> r_epoch r \<le> max_attempts
     \<and> (r_state r = Accepted \<longrightarrow> r_epoch r = 0)
     \<and> (r_state r = Scheduled \<longrightarrow> r_epoch r < max_attempts)"

definition active_ok :: "attempt_row list \<Rightarrow> run_row \<Rightarrow> bool" where
  "active_ok t r \<longleftrightarrow> r_active r = None
     \<or> (the (r_active r), r_run_id r, r_epoch r, r_epoch r) \<in> attempt_key ` set t"

definition numbered :: "attempt_row list \<Rightarrow> run_row \<Rightarrow> bool" where
  "numbered t r \<longleftrightarrow>
     map (\<lambda>a. (a_number a, a_epoch a)) (attempts_of (r_run_id r) t)
       = map (\<lambda>n. (n, n)) [1..<Suc (r_epoch r)]"

definition core_inv :: "nat \<Rightarrow> runner_db \<Rightarrow> bool" where
  "core_inv max_attempts db \<longleftrightarrow>
     distinct (map r_run_id (runs db)) \<and> distinct (map a_id (attempts db))
   \<and> one_live_per_run (attempts db)
   \<and> a_run ` set (attempts db) \<subseteq> r_run_id ` set (runs db)
   \<and> list_all (\<lambda>r. run_ok max_attempts r \<and> active_ok (attempts db) r \<and> numbered (attempts db) r)
       (runs db)"

text \<open>A run that is being completed or has completed has a proposal of its last attempt; a completed
  run has all the confirmations the proposal requires.\<close>

definition completion_ok :: "completion_row list \<Rightarrow> run_row \<Rightarrow> bool" where
  "completion_ok t r \<longleftrightarrow>
     (r_state r \<in> {Completion_reconciling, Completed} \<longrightarrow>
       (case row_by c_run (r_run_id r) t of
          None \<Rightarrow> False
        | Some c \<Rightarrow> c_epoch c = r_epoch r \<and> (r_state r = Completed \<longrightarrow> completion_ready c)))"

definition is_completed_event :: "uuid \<Rightarrow> runner_payload \<Rightarrow> bool" where
  "is_completed_event run p \<longleftrightarrow>
     (case p of
        Run_event e \<Rightarrow> ev_type e = Some ''porfirium.run.completed.v1'' \<and> ev_run_id e = Good run
      | _ \<Rightarrow> False)"

definition completed_events :: "uuid \<Rightarrow> runner_payload outbox_row list \<Rightarrow> nat" where
  "completed_events run t = count_where (\<lambda>q. is_completed_event run (o_payload q)) t"

definition events_ok :: "runner_db \<Rightarrow> bool" where
  "events_ok db \<longleftrightarrow> (\<forall>run. completed_events run (runner_outbox db)
     = (case row_by r_run_id run (runs db) of
          None \<Rightarrow> 0 | Some r \<Rightarrow> if r_state r = Completed then 1 else 0))"

definition runner_inv :: "nat \<Rightarrow> runner_db \<Rightarrow> bool" where
  "runner_inv max_attempts db \<longleftrightarrow> core_inv max_attempts db
     \<and> list_all (completion_ok (completions db)) (runs db) \<and> events_ok db
     \<and> distinct (map c_run (completions db))"

section \<open>Updates that keep the invariant\<close>

lemma attempts_of_key:
  "map (\<lambda>a. (a_number a, a_epoch a)) (attempts_of run t)
     = map (\<lambda>(i, r, n, e). (n, e)) (filter (\<lambda>(i, r, n, e). r = run) (map attempt_key t))"
  by (induction t) (auto simp: attempts_of_def attempt_key_def)

text \<open>What depends on the immutable columns of the attempts only.\<close>

lemma same_keys:
  assumes "map attempt_key t' = map attempt_key t"
  shows "map a_id t' = map a_id t" and "a_run ` set t' = a_run ` set t"
    and "active_ok t' r = active_ok t r" and "numbered t' r = numbered t r"
proof -
  have "map (fst \<circ> attempt_key) t' = map (fst \<circ> attempt_key) t"
    using assms by (metis map_map)
  then show "map a_id t' = map a_id t" by (simp add: attempt_key_def comp_def)
  have "map ((\<lambda>(i, r, n, e). r) \<circ> attempt_key) t' = map ((\<lambda>(i, r, n, e). r) \<circ> attempt_key) t"
    using assms by (metis map_map)
  then have "map a_run t' = map a_run t" by (simp add: attempt_key_def comp_def)
  then have "set (map a_run t') = set (map a_run t)" by (simp only:)
  then show "a_run ` set t' = a_run ` set t" by simp
  show "active_ok t' r = active_ok t r"
  proof -
    have "set (map attempt_key t') = set (map attempt_key t)" by (simp only: assms)
    then show ?thesis by (simp add: active_ok_def)
  qed
  show "numbered t' r = numbered t r"
    by (simp add: numbered_def attempts_of_key assms)
qed

lemma key_update_where:
  "(\<And>a. attempt_key (f a) = attempt_key a) \<Longrightarrow>
   map attempt_key (update_where P f t) = map attempt_key t"
  by (rule map_key_update_where)

lemma one_live_end:
  assumes "one_live_per_run t" and "\<And>a. a_run (f a) = a_run a" and "\<And>a. live (f a) \<Longrightarrow> live a"
  shows "one_live_per_run (update_where P f t)"
proof -
  have "set (map a_run (filter live (update_where P f t))) \<subseteq> set (map a_run (filter live t))" for t
    using assms(2,3) by (fastforce simp: in_update_where split: if_splits)
  then have "distinct (map a_run (filter live t)) \<Longrightarrow>
      distinct (map a_run (filter live (update_where P f t)))" for t
  proof (induction t)
    case (Cons a t)
    have "distinct (map a_run (filter live t))" using Cons.prems by (auto split: if_splits)
    then show ?case using Cons assms(2,3)
      by (fastforce simp: in_update_where split: if_splits)
  qed simp
  then show ?thesis using assms(1) by (simp add: one_live_per_run_def)
qed

text \<open>An update of the runs that keeps their identity and epoch and is harmless for each row.\<close>

lemma core_update:
  assumes inv: "core_inv m db" and k: "map attempt_key (attempts db') = map attempt_key (attempts db)"
    and l: "one_live_per_run (attempts db')" and r: "runs db' = update_where P f (runs db)"
    and f: "\<And>r. r_run_id (f r) = r_run_id r" "\<And>r. r_epoch (f r) = r_epoch r"
    and ok: "\<And>r. r \<in> set (runs db) \<Longrightarrow> P r \<Longrightarrow> run_ok m r \<Longrightarrow>
      run_ok m (f r) \<and> (r_active (f r) = None \<or> r_active (f r) = r_active r)"
  shows "core_inv m db'"
proof -
  note s = same_keys [OF k]
  have "r_run_id ` set (runs db') = r_run_id ` set (runs db)"
    unfolding r by (rule keys_update_where) (rule f(1))
  moreover have "run_ok m q \<and> active_ok (attempts db) q \<and> numbered (attempts db) q"
    if "q \<in> set (runs db')" for q
  proof -
    have "q \<in> set (update_where P f (runs db))" using that r by simp
    then obtain p where p: "p \<in> set (runs db)" "q = (if P p then f p else p)"
      unfolding in_update_where by blast
    then have "run_ok m p" "active_ok (attempts db) p" "numbered (attempts db) p"
      using inv by (auto simp: core_inv_def list_all_iff)
    then show ?thesis using p ok [of p] f by (auto simp: active_ok_def numbered_def)
  qed
  ultimately show ?thesis
    using inv l r f(1) s by (auto simp: core_inv_def list_all_iff map_key_update_where)
qed

text \<open>The transactions one by one.\<close>

lemma core_admit:
  assumes inv: "core_inv m db" and a: "admit digest spec_digest timeout key q x db = Inr (r, db')"
  shows "core_inv m db'"
  using a
proof (cases rule: admit_cases)
  case Replay
  then show ?thesis using inv by simp
next
  case (Fresh expires_at)
  have "ad_run_id (fst q) \<notin> a_run ` set (attempts db)"
    using Fresh(2) inv by (auto simp: core_inv_def has_row_iff)
  then have "attempts_of (ad_run_id (fst q)) (attempts db) = []"
    by (auto simp: attempts_of_def filter_empty_conv image_iff)
  then show ?thesis using inv Fresh(2,7,8)
    by (auto simp: core_inv_def has_row_iff admitted_row_def run_ok_def idle_state_def active_ok_def
        numbered_def)
qed

lemma numbered_max:
  assumes "numbered t r"
  shows "max_of a_number (attempts_of (r_run_id r) t) = r_epoch r"
proof -
  let ?l = "attempts_of (r_run_id r) t"
  have "map fst (map (\<lambda>a. (a_number a, a_epoch a)) ?l) = map fst (map (\<lambda>n. (n, n)) [1..<Suc (r_epoch r)])"
    using assms by (simp only: numbered_def)
  then have e: "map a_number ?l = [1..<Suc (r_epoch r)]"
    unfolding map_map by (simp only: comp_def fst_conv map_ident)
  then have "length ?l = r_epoch r" by (metis diff_Suc_1 length_map length_upt)
  then show ?thesis using e by (metis gap_free_def length_map max_of_gap_free)
qed

lemma schedule_tx_cases:
  assumes "schedule_tx limits run attempt now db = Inr (res, db')"
  obtains (Nothing) "res = None" "db' = db"
  | (Started) row a where "row_by r_run_id run (runs db) = Some row"
    "r_state row \<in> {Accepted, Scheduled}" "r_active row = None"
    "has_capacity (runs db) (r_user_id row) limits" "res = Some attempt"
    "a = \<lparr>a_id = attempt, a_run = run,
       a_number = max_of a_number (attempts_of run (attempts db)) + 1, a_epoch = r_epoch row + 1,
       a_state = A_starting, a_container = None, a_deadline = r_deadline row, a_started = None,
       a_ended = None, a_visible_output = False, a_active_message = None\<rparr>"
    "\<not> has_row a_id attempt (attempts db)" "one_live_per_run (attempts db @ [a])"
    "db' = db\<lparr>attempts := attempts db @ [a],
       runs := update_where (\<lambda>r. r_run_id r = run)
         (\<lambda>r. r\<lparr>r_state := Starting, r_active := Some attempt, r_epoch := r_epoch row + 1,
                r_updated := now\<rparr>) (runs db)\<rparr>"
proof -
  obtain row where row: "row_by r_run_id run (runs db) = Some row"
    using assms by (cases "row_by r_run_id run (runs db)") (auto simp: schedule_tx_def)
  show thesis
  proof (cases "r_state row \<in> {Accepted, Scheduled} \<and> r_active row = None
      \<and> has_capacity (runs db) (r_user_id row) limits")
    case False
    then have "res = None" "db' = db"
      using assms row by (auto simp: schedule_tx_def split: if_splits)
    then show thesis by (rule Nothing)
  next
    case True
    show thesis
      by (rule Started [OF row _ _ _ _ refl])
        (use assms row True in \<open>auto simp: schedule_tx_def checked_attempts_def Let_def
          split: if_splits\<close>)
  qed
qed

lemma core_schedule:
  assumes inv: "core_inv m db" and m: "0 < m"
    and s: "schedule_tx limits run attempt now db = Inr (res, db')"
  shows "core_inv m db'"
  using s
proof (cases rule: schedule_tx_cases)
  case Nothing
  then show ?thesis using inv by simp
next
  case (Started row a)
  let ?f = "\<lambda>r. r\<lparr>r_state := Starting, r_active := Some attempt, r_epoch := r_epoch row + 1,
      r_updated := now\<rparr>"
  have runs': "runs db' = update_where (\<lambda>r. r_run_id r = run) ?f (runs db)"
    and att': "attempts db' = attempts db @ [a]"
    using Started(9) by simp_all
  have row: "row \<in> set (runs db)" "r_run_id row = run"
    using Started(1) by (auto dest: row_by_SomeD)
  then have ok: "run_ok m row" "numbered (attempts db) row"
    using inv by (auto simp: core_inv_def list_all_iff)
  have ids: "distinct (map r_run_id (runs db'))" "distinct (map a_id (attempts db'))"
    using inv Started(6,7) by (auto simp: core_inv_def runs' att' map_key_update_where has_row_iff)
  have "r_run_id ` set (runs db') = r_run_id ` set (runs db)"
    unfolding runs' by (rule keys_update_where) simp
  then have fk: "a_run ` set (attempts db') \<subseteq> r_run_id ` set (runs db')"
    using inv row Started(6) by (auto simp: core_inv_def att')
  have "run_ok m q \<and> active_ok (attempts db') q \<and> numbered (attempts db') q"
    if q: "q \<in> set (runs db')" for q
  proof (cases "r_run_id q = run")
    case True
    obtain p where p: "p \<in> set (runs db)" "q = (if r_run_id p = run then ?f p else p)"
      using q unfolding runs' in_update_where by blast
    then have "r_run_id p = run" using True by (auto split: if_splits)
    then have "p = row" using p(1) row inv
      by (intro same_id_same_row [of r_run_id "runs db"]) (auto simp: core_inv_def)
    then have q': "q = ?f row" using p(2) row by simp
    have "r_epoch row + 1 \<le> m" using ok(1) Started(2) m by (auto simp: run_ok_def)
    moreover have "a_number a = r_epoch row + 1"
      using numbered_max [OF ok(2)] row Started(6) by simp
    ultimately show ?thesis using q' ok(2) row Started(6)
      by (auto simp: run_ok_def idle_state_def active_ok_def numbered_def att' attempts_of_def
          attempt_key_def)
  next
    case False
    then have "q \<in> set (runs db)" using q unfolding runs' in_update_where by auto
    then show ?thesis using inv False Started(6)
      by (auto simp: core_inv_def list_all_iff active_ok_def numbered_def att' attempts_of_def)
  qed
  then show ?thesis using ids fk Started(8) by (simp add: core_inv_def list_all_iff att')
qed

text \<open>The same for the whole invariant, for updates that neither complete a run nor start its
  completion.\<close>

lemma row_state_update:
  assumes "\<And>r. r_run_id (f r) = r_run_id r"
    and "\<And>r. r \<in> set t \<Longrightarrow> P r \<Longrightarrow> r_state r \<noteq> Completed \<and> r_state (f r) \<noteq> Completed"
  shows "(case row_by r_run_id run (update_where P f t) of
      None \<Rightarrow> 0 | Some r \<Rightarrow> if r_state r = Completed then 1 else 0)
    = (case row_by r_run_id run t of
      None \<Rightarrow> 0 | Some r \<Rightarrow> if r_state r = Completed then 1 else (0::nat))"
  using assms by (auto simp: row_by_update_where split: option.split dest: row_by_SomeD)

lemma inv_update:
  assumes inv: "runner_inv m db" and k: "map attempt_key (attempts db') = map attempt_key (attempts db)"
    and l: "one_live_per_run (attempts db')" and r: "runs db' = update_where P f (runs db)"
    and f: "\<And>r. r_run_id (f r) = r_run_id r" "\<And>r. r_epoch (f r) = r_epoch r"
    and ok: "\<And>r. r \<in> set (runs db) \<Longrightarrow> P r \<Longrightarrow> run_ok m r \<Longrightarrow>
      run_ok m (f r) \<and> (r_active (f r) = None \<or> r_active (f r) = r_active r)
      \<and> r_state r \<noteq> Completed \<and> r_state (f r) \<notin> {Completion_reconciling, Completed}"
    and c: "completions db' = completions db"
    and e: "\<And>run. completed_events run (runner_outbox db') = completed_events run (runner_outbox db)"
  shows "runner_inv m db'"
proof -
  have run_ok: "run_ok m r" if "r \<in> set (runs db)" for r
    using inv that by (auto simp: runner_inv_def core_inv_def list_all_iff)
  have "core_inv m db'"
    using inv k l r f ok by (intro core_update [of m db db' P f]) (auto simp: runner_inv_def)
  moreover have "list_all (completion_ok (completions db')) (runs db')"
    using inv ok run_ok unfolding r c
    by (fastforce simp: runner_inv_def list_all_iff completion_ok_def in_update_where split: if_splits)
  moreover have "events_ok db'"
    using inv row_state_update [of f "runs db" P, OF f(1)] ok run_ok
    by (simp add: runner_inv_def events_ok_def e r)
  ultimately show ?thesis using inv c by (simp add: runner_inv_def)
qed

lemma attempts_unchanged:
  assumes "runner_inv m db"
  shows "one_live_per_run (attempts db)"
  using assms by (simp add: runner_inv_def core_inv_def)

lemma checked_attempts_Inr [simp]:
  "checked_attempts t = Inr t' \<longleftrightarrow> one_live_per_run t \<and> t' = t"
  by (auto simp: checked_attempts_def)

lemma key_end_attempt [simp]:
  "map attempt_key (end_attempt attempt st now t) = map attempt_key t"
  by (simp add: end_attempt_def key_update_where attempt_key_def)

lemma live_end_attempt:
  assumes "one_live_per_run t" and "st \<in> {A_exited, A_failed}"
  shows "one_live_per_run (end_attempt attempt st now t)"
  using assms by (auto simp: end_attempt_def live_def intro!: one_live_end)

lemma completed_events_enqueue:
  "\<not> is_completed_event run p \<Longrightarrow>
   completed_events run (enqueue i s p now t) = completed_events run t"
  by (simp add: completed_events_def enqueue_def)

lemma not_completed_events [simp]:
  "\<not> is_completed_event run (Run_event (interrupted_event x r a msg code cause))"
  "\<not> is_completed_event run (Run_event (cancelled_event x r b cause))"
  "\<not> is_completed_event run (Schedule_command run')"
  by (simp_all add: is_completed_event_def interrupted_event_def cancelled_event_def run_event_def
      make_envelope_def)

lemma inv_record_container:
  assumes "runner_inv m db" and "record_container attempt cid db = Inr db'"
  shows "runner_inv m db'"
  by (rule inv_update [OF assms(1), of _ "\<lambda>_. False" id])
    (use assms attempts_unchanged [OF assms(1)] in \<open>auto simp: record_container_def
      key_update_where attempt_key_def live_def intro!: one_live_end split: if_splits\<close>)

lemma inv_start_finish:
  assumes "runner_inv m db" and "start_finish run attempt now db = Inr db'"
  shows "runner_inv m db'"
  by (rule inv_update [OF assms(1), of _ "\<lambda>r. r_run_id r = run \<and> r_active r = Some attempt"
        "\<lambda>r. r\<lparr>r_state := Running, r_updated := now\<rparr>"])
    (use assms in \<open>auto simp: start_finish_def key_update_where attempt_key_def run_ok_def
      idle_state_def\<close>)

lemma inv_release:
  assumes inv: "runner_inv m db" and k: "map attempt_key (attempts db') = map attempt_key (attempts db)"
    and l: "one_live_per_run (attempts db')"
    and r: "runs db' = release_run run attempt st code now (runs db)"
    and st: "st = Failed \<or> (st = Scheduled
      \<and> (\<forall>r \<in> set (runs db). r_run_id r = run \<longrightarrow> r_active r = Some attempt \<longrightarrow> r_epoch r < m))"
    and c: "completions db' = completions db"
    and e: "\<And>run. completed_events run (runner_outbox db') = completed_events run (runner_outbox db)"
  shows "runner_inv m db'"
  by (rule inv_update [OF inv k l r [unfolded release_run_def] _ _ _ c e])
    (use st in \<open>auto simp: run_ok_def idle_state_def\<close>)

lemma inv_fail_start:
  assumes "runner_inv m db"
  shows "runner_inv m (fail_start run attempt now db)"
  by (rule inv_release [OF assms, of _ run attempt Failed "Some ''attempt_start_failed''" now])
    (use attempts_unchanged [OF assms] in \<open>auto simp: fail_start_def intro: live_end_attempt\<close>)

lemma cancel_begin_cases:
  assumes "cancel_begin run now db = Inr (res, db')"
  obtains (Terminal) row where "row_by r_run_id run (runs db) = Some row" "terminal (r_state row)"
    "res = (row, None)" "db' = db"
  | (Cancelling) row attempts' where "row_by r_run_id run (runs db) = Some row"
    "\<not> terminal (r_state row)"
    "map attempt_key attempts' = map attempt_key (attempts db)"
    "one_live_per_run (attempts db) \<Longrightarrow> one_live_per_run attempts'"
    "res = (row, Some (case r_active row of
        None \<Rightarrow> None | Some attempt \<Rightarrow> row_by a_id attempt (attempts db)))"
    "db' = db\<lparr>attempts := attempts', runs := update_where (\<lambda>r. r_run_id r = run)
        (\<lambda>r. r\<lparr>r_state := Cancelling, r_cancel_requested := (case r_cancel_requested r of
           None \<Rightarrow> Some now | Some t \<Rightarrow> Some t), r_updated := now\<rparr>) (runs db)\<rparr>"
proof -
  obtain row where row: "row_by r_run_id run (runs db) = Some row"
    using assms by (cases "row_by r_run_id run (runs db)") (auto simp: cancel_begin_def)
  show thesis
  proof (cases "terminal (r_state row)")
    case True
    then show thesis using assms row by (intro Terminal [OF row]) (auto simp: cancel_begin_def)
  next
    case False
    show thesis
    proof (cases "r_active row")
      case None
      then show thesis using assms row False
        by (intro Cancelling [OF row False, of "attempts db"]) (auto simp: cancel_begin_def)
    next
      case (Some attempt)
      let ?t = "update_where (\<lambda>a. a_id a = attempt) (\<lambda>a. a\<lparr>a_state := A_stopping\<rparr>) (attempts db)"
      have "one_live_per_run ?t"
        using assms row False Some by (auto simp: cancel_begin_def)
      moreover have "map attempt_key ?t = map attempt_key (attempts db)"
        by (simp add: key_update_where attempt_key_def)
      ultimately show thesis using assms row False Some
        by (intro Cancelling [OF row False, of ?t]) (auto simp: cancel_begin_def)
    qed
  qed
qed

lemma row_unique:
  assumes "runner_inv m db" and "row_by r_run_id run (runs db) = Some row"
    and "r \<in> set (runs db)" and "r_run_id r = run"
  shows "r = row"
  using assms by (intro same_id_same_row [of r_run_id "runs db"])
    (auto simp: runner_inv_def core_inv_def dest: row_by_SomeD)

lemma inv_cancel_begin:
  assumes inv: "runner_inv m db" and c: "cancel_begin run now db = Inr (res, db')"
  shows "runner_inv m db'"
  using c
proof (cases rule: cancel_begin_cases)
  case Terminal
  then show ?thesis using inv by simp
next
  case (Cancelling row attempts')
  have "r_state r \<noteq> Completed" if "r \<in> set (runs db)" "r_run_id r = run" for r
    using row_unique [OF inv Cancelling(1) that] Cancelling(2) by (auto simp: terminal_def)
  then show ?thesis
    using Cancelling(3,4) attempts_unchanged [OF inv]
    by (intro inv_update [OF inv, of db' "\<lambda>r. r_run_id r = run"
          "\<lambda>r. r\<lparr>r_state := Cancelling, r_cancel_requested := (case r_cancel_requested r of
             None \<Rightarrow> Some now | Some t \<Rightarrow> Some t), r_updated := now\<rparr>"])
      (simp_all add: run_ok_def idle_state_def Cancelling(6))
qed

lemma inv_cancel_finish:
  assumes inv: "runner_inv m db"
    and c: "cancel_finish cause_of row attempt key x db = Inr (r, db')"
  shows "runner_inv m db'"
proof -
  have db': "runs db' = update_where (\<lambda>q. r_run_id q = r_run_id row \<and> r_state q = Cancelling)
      (\<lambda>q. q\<lparr>r_state := Cancelled, r_terminal_code := Some ''cancelled'', r_active := None,
             r_updated := re_now x\<rparr>) (runs db)"
    and att: "attempts db' = (case attempt of None \<Rightarrow> attempts db
      | Some a \<Rightarrow> end_attempt (a_id a) A_exited (re_now x) (attempts db))"
    and compl: "completions db' = completions db"
    and ev: "completed_events run (runner_outbox db') = completed_events run (runner_outbox db)" for run
    using c by (auto simp: cancel_finish_def Let_def completed_events_enqueue
        split: sum.splits option.splits)
  show ?thesis
    by (rule inv_update [OF inv _ _ db' _ _ _ compl ev])
      (use att attempts_unchanged [OF inv] in \<open>auto simp: run_ok_def idle_state_def
        intro: live_end_attempt split: option.splits\<close>)
qed

lemma suspend_begin_cases:
  assumes "suspend_begin event_id run attempt epoch now db = Inr (res, db')"
  obtains (Done) "res = None" "db' = db"
  | (Stopping) row a where "row_by r_run_id run (runs db) = Some row" "r_active row = Some attempt"
    "int (r_epoch row) = epoch" "r_state row \<in> {Running, Suspending}"
    "row_by a_id attempt (attempts db) = Some a" "res = Some a"
    "one_live_per_run (attempts db')"
    "attempts db' = update_where (\<lambda>b. a_id b = attempt) (\<lambda>b. b\<lparr>a_state := A_stopping\<rparr>)
       (attempts db)"
    "runs db' = update_where (\<lambda>q. r_run_id q = run \<and> r_state row = Running)
       (\<lambda>q. q\<lparr>r_state := Suspending, r_updated := now\<rparr>) (runs db)"
    "completions db' = completions db" "runner_outbox db' = runner_outbox db"
    "event_id \<in> fst ` set (run_inbox db')"
proof -
  obtain row where row: "row_by r_run_id run (runs db) = Some row"
    using assms by (cases "row_by r_run_id run (runs db)") (auto simp: suspend_begin_def Let_def)
  show thesis
  proof (cases "event_id \<in> fst ` set (run_inbox db) \<and> r_state row = Waiting_for_input")
    case True
    then show thesis using assms row Done by (auto simp: suspend_begin_def Let_def)
  next
    case False
    then have g: "r_active row = Some attempt" "int (r_epoch row) = epoch"
      "r_state row \<in> {Running, Suspending}"
      using assms row by (auto simp: suspend_begin_def Let_def split: if_splits)
    obtain a where a: "row_by a_id attempt (attempts db) = Some a"
      using assms row False g
      by (cases "row_by a_id attempt (attempts db)") (auto simp: suspend_begin_def Let_def)
    show thesis
      by (rule Stopping [OF row g a])
        (use assms row False g a in \<open>auto simp: suspend_begin_def Let_def split: if_splits\<close>)
  qed
qed

lemma inv_suspend_begin:
  assumes inv: "runner_inv m db" and c: "suspend_begin event_id run attempt epoch now db = Inr (res, db')"
  shows "runner_inv m db'"
  using c
proof (cases rule: suspend_begin_cases)
  case Done
  then show ?thesis using inv by simp
next
  case (Stopping row a)
  have "r = row" if "r \<in> set (runs db)" "r_run_id r = run" for r
    using row_unique [OF inv Stopping(1) that] .
  then show ?thesis
    by (intro inv_update [OF inv _ Stopping(7,9) _ _ _ Stopping(10)])
      (use Stopping(2,8,11) in \<open>auto simp: key_update_where attempt_key_def run_ok_def
        idle_state_def\<close>)
qed

lemma inv_suspend_finish:
  assumes inv: "runner_inv m db"
  shows "runner_inv m (suspend_finish run attempt now db)"
  by (rule inv_update [OF inv, of _ "\<lambda>r. r_run_id r = run \<and> r_state r = Suspending"
        "\<lambda>r. r\<lparr>r_state := Waiting_for_input, r_active := None, r_updated := now\<rparr>"])
    (use attempts_unchanged [OF inv] in \<open>auto simp: suspend_finish_def run_ok_def idle_state_def
      intro: live_end_attempt\<close>)

text \<open>Only an attempt with its number below the limit is retried.\<close>

lemma inv_attempt_loss:
  assumes inv: "runner_inv m db" and cap: "captured row db"
  shows "runner_inv m (attempt_loss m cause_of row x db)"
proof -
  obtain r a where row: "row = (r, a)" by (cases row)
  have epoch: "r_epoch q = a_number a"
    if q: "q \<in> set (runs db)" "r_active q = Some (a_id a)" for q
  proof -
    have "active_ok (attempts db) q" using inv q by (auto simp: runner_inv_def core_inv_def list_all_iff)
    then obtain b where b: "b \<in> set (attempts db)" "attempt_key b = (a_id a, r_run_id q, r_epoch q, r_epoch q)"
      using q(2) by (auto simp: active_ok_def image_iff)
    obtain b' where b': "b' \<in> set (attempts db)" "attempt_key b' = attempt_key a"
      using cap row by (auto simp: captured_def image_iff)
    have "b = b'" using b b' inv
      by (intro same_id_same_row [of a_id "attempts db"])
        (auto simp: attempt_key_def runner_inv_def core_inv_def)
    then show ?thesis using b b' by (simp add: attempt_key_def)
  qed
  show ?thesis
  proof (cases "\<not> a_visible_output a \<and> retry_allowed (a_number a) (r_deadline r) m (re_now x)")
    case True
    then show ?thesis
      by (intro inv_release [OF inv, of _ "r_run_id r" "a_id a" Scheduled None "re_now x"])
        (use epoch row attempts_unchanged [OF inv] in \<open>auto simp: attempt_loss_def Let_def
          retry_allowed_def intro: live_end_attempt\<close>)
  next
    case False
    then show ?thesis
      by (intro inv_release [OF inv, of _ "r_run_id r" "a_id a" Failed
            "Some (if a_visible_output a then ''attempt_lost_after_output''
                   else ''attempt_retry_exhausted'')" "re_now x"])
        (use row attempts_unchanged [OF inv] in \<open>auto simp: attempt_loss_def Let_def
          completed_events_enqueue intro: live_end_attempt split: option.split\<close>)
  qed
qed

lemma inv_admit:
  assumes inv: "runner_inv m db" and a: "admit digest spec_digest timeout key q x db = Inr (r, db')"
  shows "runner_inv m db'"
proof -
  have core: "core_inv m db'" using inv core_admit [OF _ a] by (simp add: runner_inv_def)
  show ?thesis
    using a
  proof (cases rule: admit_cases)
    case Replay
    then show ?thesis using inv by simp
  next
    case (Fresh expires_at)
    have none: "row_by r_run_id (ad_run_id (fst q)) (runs db) = None"
      using Fresh(2) by (simp add: has_row_def)
    have "list_all (completion_ok (completions db')) (runs db')"
      using inv Fresh(7,8) by (simp add: runner_inv_def completion_ok_def admitted_row_def)
    moreover have "events_ok db'"
      using inv Fresh(7,8) none
      by (auto simp: runner_inv_def events_ok_def completed_events_enqueue row_by_snoc
          admitted_row_def split: option.split)
    ultimately show ?thesis using core inv Fresh(8) by (simp add: runner_inv_def)
  qed
qed

lemma inv_schedule:
  assumes inv: "runner_inv m db" and m: "0 < m"
    and s: "schedule_tx limits run attempt now db = Inr (res, db')"
  shows "runner_inv m db'"
proof -
  have core: "core_inv m db'" using inv core_schedule [OF _ m s] by (simp add: runner_inv_def)
  show ?thesis
    using s
  proof (cases rule: schedule_tx_cases)
    case Nothing
    then show ?thesis using inv by simp
  next
    case (Started row a)
    let ?f = "\<lambda>r. r\<lparr>r_state := Starting, r_active := Some attempt, r_epoch := r_epoch row + 1,
        r_updated := now\<rparr>"
    have r: "runs db' = update_where (\<lambda>r. r_run_id r = run) ?f (runs db)"
      using Started(9) by simp
    have "r_state q \<noteq> Completed" if "q \<in> set (runs db)" "r_run_id q = run" for q
      using row_unique [OF inv Started(1) that] Started(2) by auto
    then have "events_ok db'"
      using inv row_state_update [of ?f "runs db" "\<lambda>r. r_run_id r = run"] Started(9)
      by (simp add: runner_inv_def events_ok_def r)
    moreover have "list_all (completion_ok (completions db')) (runs db')"
      using inv Started(9)
      by (auto simp: runner_inv_def list_all_iff completion_ok_def in_update_where)
    ultimately show ?thesis using core inv Started(9) by (simp add: runner_inv_def)
  qed
qed

section \<open>The completion protocol keeps the invariant\<close>

text \<open>What the updates of a proposal row keep.\<close>

definition grows :: "completion_row \<Rightarrow> completion_row \<Rightarrow> bool" where
  "grows c c' \<longleftrightarrow> c_run c' = c_run c \<and> c_event c' = c_event c \<and> c_attempt c' = c_attempt c
     \<and> c_epoch c' = c_epoch c
     \<and> c_messages c' = c_messages c \<and> c_checkpoint c' = c_checkpoint c
     \<and> c_required c' = c_required c
     \<and> (c_messages_confirmed c \<longrightarrow> c_messages_confirmed c')
     \<and> (c_checkpoint_confirmed c \<longrightarrow> c_checkpoint_confirmed c')"

lemma grows_ready: "grows c c' \<Longrightarrow> completion_ready c \<Longrightarrow> completion_ready c'"
  by (auto simp: grows_def completion_ready_def)

lemma grows_refl [simp]: "grows c c"
  by (simp add: grows_def)

lemma grows_trans: "grows a b \<Longrightarrow> grows b c \<Longrightarrow> grows a c"
  by (auto simp: grows_def)

lemma apply_confirmations_grows: "apply_confirmations ns c = Inr c' \<Longrightarrow> grows c c'"
proof (induction ns c rule: apply_confirmations.induct)
  case (2 n ns c)
  show ?case
  proof (cases "n_kind n = ''messages''")
    case True
    then obtain actual where a: "all_values (d_message_ids (n_payload n)) = Inr actual"
      using "2.prems" by (cases "all_values (d_message_ids (n_payload n))") auto
    have "grows (if set actual = set (c_messages c) then c\<lparr>c_messages_confirmed := True\<rparr> else c) c'"
      using "2.IH"(1) [OF True a] "2.prems" True a by simp
    then show ?thesis by (auto simp: grows_def split: if_splits)
  next
    case False
    then obtain k where a: "need_value (d_checkpoint_id (n_payload n)) = Inr k"
      using "2.prems" by (cases "need_value (d_checkpoint_id (n_payload n))") auto
    have "grows (if c_checkpoint c = Some k then c\<lparr>c_checkpoint_confirmed := True\<rparr> else c) c'"
      using "2.IH"(2) [OF False a] "2.prems" False a by simp
    then show ?thesis by (auto simp: grows_def split: if_splits)
  qed
qed simp

lemma update_completion_frame [simp, frame_simps]:
  "runs (update_completion run f db) = runs db"
  "attempts (update_completion run f db) = attempts db"
  "runner_outbox (update_completion run f db) = runner_outbox db"
  "confirmations (update_completion run f db) = confirmations db"
  "run_inbox (update_completion run f db) = run_inbox db"
  by (simp_all add: update_completion_def)

lemma completion_of_update:
  assumes "\<And>c. completion_of run db = Some c \<Longrightarrow> c_run (f c) = run"
    and "distinct (map c_run (completions db))"
  shows "row_by c_run run' (completions (update_completion run f db))
    = map_option (\<lambda>c. if run' = run then f c else c) (row_by c_run run' (completions db))"
proof -
  have "row_by c_run run' (update_where (\<lambda>c. c_run c = run) f t)
      = map_option (\<lambda>c. if run' = run then f c else c) (row_by c_run run' t)"
    if "distinct (map c_run t)" "\<And>c. c \<in> set t \<Longrightarrow> c_run c = run \<Longrightarrow> c_run (f c) = run" for t
    using that by (induction t) auto
  moreover have "c_run (f c) = run" if "c \<in> set (completions db)" "c_run c = run" for c
    using assms that row_by_unique [of c_run "completions db" c] by (simp add: completion_of_def)
  ultimately show ?thesis using assms(2) by (simp add: update_completion_def)
qed

lemma update_completion_keys:
  assumes "\<And>c. completion_of run db = Some c \<Longrightarrow> c_run (f c) = run"
    and "distinct (map c_run (completions db))"
  shows "map c_run (completions (update_completion run f db)) = map c_run (completions db)"
proof -
  have "map c_run (update_where (\<lambda>c. c_run c = run) f t) = map c_run t"
    if "\<And>c. c \<in> set t \<Longrightarrow> c_run c = run \<Longrightarrow> c_run (f c) = run" for t
    using that by (induction t) auto
  moreover have "c_run (f c) = run" if "c \<in> set (completions db)" "c_run c = run" for c
    using assms that row_by_unique [of c_run "completions db" c] by (simp add: completion_of_def)
  ultimately show ?thesis by (simp add: update_completion_def)
qed

lemma proposal_cases:
  assumes "proposal run event_id data now db = Inr db'"
  obtains (Same) attempt where "r_active run = Some attempt" "db' = db"
  | (New) attempt c where "r_active run = Some attempt"
    "completion_of (r_run_id run) db = None"
    "c_run c = r_run_id run" "c_event c = event_id" "c_attempt c = attempt" "c_epoch c = r_epoch run"
    "all_values (d_final_message_ids data) = Inr (c_messages c)"
    "c_checkpoint c = fld_value (d_final_checkpoint_id data)"
    "c_required c = dedup (d_required_confirmations data)"
    "db' = db\<lparr>completions := completions db @ [c],
       runs := (if terminal (r_state run) then runs db
         else update_where (\<lambda>r. r_run_id r = r_run_id run)
           (\<lambda>r. r\<lparr>r_state := Completion_reconciling, r_updated := now\<rparr>) (runs db))\<rparr>"
proof -
  obtain attempt where a: "need (d_attempt_id data) = Inr attempt"
    using assms by (cases "need (d_attempt_id data)") (auto simp: proposal_def)
  obtain epoch where e: "need (d_lease_epoch data) = Inr epoch"
    using assms a by (cases "need (d_lease_epoch data)") (auto simp: proposal_def)
  have g: "r_active run = Some attempt" "epoch = int (r_epoch run)"
    using assms a e by (auto simp: proposal_def split: if_splits)
  obtain ids where i: "all_values (d_final_message_ids data) = Inr ids"
    using assms a e g
    by (cases "all_values (d_final_message_ids data)") (auto simp: proposal_def Let_def split: if_splits)
  show thesis
  proof (cases "completion_of (r_run_id run) db")
    case (Some c)
    then have "db' = db"
      using assms a e g i by (auto simp: proposal_def Let_def split: if_splits)
    then show thesis using g by (intro Same)
  next
    case None
    show thesis
      by (rule New [OF g(1) None, of "\<lparr>c_run = r_run_id run, c_event = event_id,
            c_attempt = attempt, c_epoch = r_epoch run, c_messages = ids,
            c_checkpoint = fld_value (d_final_checkpoint_id data),
            c_required = dedup (d_required_confirmations data),
            c_messages_confirmed = False, c_checkpoint_confirmed = False,
            c_reconciled = None\<rparr>"])
        (use assms a e g i None in \<open>auto simp: proposal_def Let_def split: if_splits\<close>)
  qed
qed

lemma inv_proposal:
  assumes inv: "runner_inv m db" and run: "row_by r_run_id rid (runs db) = Some run"
    and p: "proposal run event_id data now db = Inr db'"
  shows "runner_inv m db'"
  using p
proof (cases rule: proposal_cases)
  case Same
  then show ?thesis using inv by simp
next
  case (New attempt c)
  have mem: "run \<in> set (runs db)" and ok: "run_ok m run"
    using run inv by (auto simp: runner_inv_def core_inv_def list_all_iff dest: row_by_SomeD)
  have nt: "\<not> terminal (r_state run)"
    using ok New(1) by (auto simp: run_ok_def idle_state_def terminal_def)
  let ?f = "\<lambda>r. r\<lparr>r_state := Completion_reconciling, r_updated := now\<rparr>"
  have r: "runs db' = update_where (\<lambda>r. r_run_id r = r_run_id run) ?f (runs db)"
    and c: "completions db' = completions db @ [c]"
    and att: "attempts db' = attempts db" and out: "runner_outbox db' = runner_outbox db"
    using New nt by simp_all
  have eq: "q = run" if "q \<in> set (runs db)" "r_run_id q = r_run_id run" for q
    using row_unique [OF inv _ that] run by (auto dest: row_by_SomeD)
  have core: "core_inv m db'"
    using inv r att New(1) eq
    by (intro core_update [of m db db' "\<lambda>r. r_run_id r = r_run_id run" ?f])
      (auto simp: runner_inv_def core_inv_def run_ok_def idle_state_def)
  have "completion_ok (completions db') q" if q: "q \<in> set (runs db')" for q
  proof -
    obtain p where p: "p \<in> set (runs db)" "q = (if r_run_id p = r_run_id run then ?f p else p)"
      using q unfolding r in_update_where by blast
    have old: "completion_ok (completions db) p"
      using inv p by (auto simp: runner_inv_def list_all_iff)
    show ?thesis
    proof (cases "r_run_id p = r_run_id run")
      case True
      then have "p = run" using p eq by simp
      then show ?thesis using p New(2-6)
        by (simp add: completion_ok_def c row_by_append completion_of_def)
    next
      case False
      then show ?thesis using old p
        by (auto simp: completion_ok_def c row_by_append split: option.splits)
    qed
  qed
  moreover have "r_state q \<noteq> Completed" if "q \<in> set (runs db)" "r_run_id q = r_run_id run" for q
    using eq [OF that] nt by (auto simp: terminal_def)
  then have "events_ok db'"
    using inv row_state_update [of ?f "runs db" "\<lambda>r. r_run_id r = r_run_id run"]
    by (simp add: runner_inv_def events_ok_def r out)
  moreover have "distinct (map c_run (completions db'))"
    using inv New(2,3) by (simp add: runner_inv_def c completion_of_def row_by_None_iff)
  ultimately show ?thesis using core by (simp add: runner_inv_def list_all_iff)
qed

text \<open>Changing the proposal of a run by an update under which it grows.\<close>

lemma inv_update_completion:
  assumes inv: "runner_inv m db"
    and g: "\<And>c. completion_of run db = Some c \<Longrightarrow> grows c (f c)"
  shows "runner_inv m (update_completion run f db)"
proof -
  have d: "distinct (map c_run (completions db))" using inv by (simp add: runner_inv_def)
  have keep: "c_run (f c) = run" if "completion_of run db = Some c" for c
  proof -
    have "c_run c = run" using that by (auto simp: completion_of_def dest: row_by_SomeD)
    then show ?thesis using g [OF that] by (simp add: grows_def)
  qed
  note look = completion_of_update [OF keep d]
  have ok: "completion_ok (completions (update_completion run f db)) r"
    if r: "completion_ok (completions db) r" for r
  proof (cases "row_by c_run (r_run_id r) (completions db)")
    case None
    then show ?thesis using r by (simp add: completion_ok_def look)
  next
    case (Some c)
    show ?thesis
    proof (cases "r_run_id r = run")
      case True
      then have "grows c (f c)" using Some g by (simp add: completion_of_def)
      then have "c_epoch (f c) = c_epoch c" "completion_ready c \<Longrightarrow> completion_ready (f c)"
        by (auto intro: grows_ready simp: grows_def)
      then show ?thesis using r Some True by (simp add: completion_ok_def look)
    next
      case False
      then show ?thesis using r Some by (simp add: completion_ok_def look)
    qed
  qed
  have "distinct (map c_run (completions (update_completion run f db)))"
    using update_completion_keys [OF keep d] d by simp
  then show ?thesis using inv ok
    by (simp add: runner_inv_def core_inv_def events_ok_def list_all_iff)
qed

lemma inv_same_tables:
  assumes "runner_inv m db" and "runs db' = runs db" and "attempts db' = attempts db"
    and "completions db' = completions db" and "runner_outbox db' = runner_outbox db"
  shows "runner_inv m db'"
  using assms by (simp add: runner_inv_def core_inv_def events_ok_def)

lemma confirmation_cases:
  assumes "confirmation run kind data db = Inr db'"
  obtains (Early) "completion_of run db = None"
    "db' = db\<lparr>confirmations := upsert_confirmation run kind data (confirmations db)\<rparr>"
  | (Messages) c where "completion_of run db = Some c" "kind = ''messages''"
    "db' = update_completion run (\<lambda>c. c\<lparr>c_messages_confirmed := True\<rparr>)
      (db\<lparr>confirmations := upsert_confirmation run kind data (confirmations db)\<rparr>)"
  | (Checkpoint) c where "completion_of run db = Some c" "kind \<noteq> ''messages''"
    "db' = update_completion run (\<lambda>c. c\<lparr>c_checkpoint_confirmed := True\<rparr>)
      (db\<lparr>confirmations := upsert_confirmation run kind data (confirmations db)\<rparr>)"
proof (cases "completion_of run db")
  case None
  then show thesis using assms Early
    by (simp add: confirmation_def completion_of_def Let_def)
next
  case (Some c)
  then have c: "row_by c_run run (completions db) = Some c" by (simp add: completion_of_def)
  show thesis
  proof (cases "kind = ''messages''")
    case True
    then show thesis using assms c Messages [OF Some True]
      by (cases "all_values (d_message_ids data)")
        (auto simp: confirmation_def completion_of_def Let_def split: if_splits)
  next
    case False
    then show thesis using assms c Checkpoint [OF Some False]
      by (cases "need_value (d_checkpoint_id data)")
        (auto simp: confirmation_def completion_of_def Let_def split: if_splits)
  qed
qed

lemma inv_confirmation:
  assumes inv: "runner_inv m db" and c: "confirmation run kind data db = Inr db'"
  shows "runner_inv m db'"
proof -
  have 1: "runner_inv m (db\<lparr>confirmations := t\<rparr>)" for t
    by (rule inv_same_tables [OF inv]) simp_all
  from c show ?thesis
    by (cases rule: confirmation_cases) (auto intro!: inv_update_completion 1 simp: grows_def)
qed

lemma completed_event_count:
  "is_completed_event run' (Run_event (completed_event x r c)) \<longleftrightarrow> run' = r_run_id r"
  by (auto simp: is_completed_event_def completed_event_def run_event_def make_envelope_def)

lemma inv_complete_run:
  assumes inv: "runner_inv m db" and c: "completion_of run db = Some c" and ready: "completion_ready c"
    and fresh: "\<not> has_row o_event_id (re_first_event x) (runner_outbox db)"
  shows "runner_inv m (complete_run run c x db)"
proof -
  let ?g = "\<lambda>a. a\<lparr>a_state := A_exited,
      a_ended := (case a_ended a of None \<Rightarrow> Some (re_now x) | Some t \<Rightarrow> Some t)\<rparr>"
  let ?att = "update_where (\<lambda>a. a_id a = c_attempt c) ?g (attempts db)"
  have k: "map attempt_key ?att = map attempt_key (attempts db)"
    by (simp add: key_update_where attempt_key_def)
  have l: "one_live_per_run ?att"
    using attempts_unchanged [OF inv] by (auto simp: live_def intro!: one_live_end)
  have inv2: "runner_inv m (db\<lparr>attempts := ?att\<rparr>)"
    by (rule inv_update [OF inv, of _ "\<lambda>_. False" id]) (use k l in auto)
  then have core2: "core_inv m (db\<lparr>attempts := ?att\<rparr>)" by (simp add: runner_inv_def)
  show ?thesis
  proof (cases "row_by r_run_id run (runs db)")
    case None
    then show ?thesis using inv2 by (simp add: complete_run_def Let_def)
  next
    case (Some r)
    show ?thesis
    proof (cases "r_state r = Completion_reconciling")
      case False
      then show ?thesis using inv2 Some by (simp add: complete_run_def Let_def)
    next
      case True
      let ?P = "\<lambda>q. r_run_id q = run \<and> r_state q = Completion_reconciling"
      let ?f = "\<lambda>q. q\<lparr>r_state := Completed, r_terminal_code := None, r_active := None,
          r_updated := re_now x\<rparr>"
      let ?db3 = "db\<lparr>attempts := ?att, runs := update_where ?P ?f (runs db),
          runner_outbox := enqueue (re_first_event x) ''porfirium.run.event.completed''
            (Run_event (completed_event x r c)) (re_now x) (runner_outbox db)\<rparr>"
      have rid: "r_run_id r = run" using Some by (auto dest: row_by_SomeD)
      have "core_inv m ?db3"
        by (rule core_update [OF core2, of _ ?P ?f])
          (use l in \<open>simp_all add: run_ok_def idle_state_def\<close>)
      moreover have "completion_ok (completions db) q" if q: "q \<in> set (update_where ?P ?f (runs db))" for q
      proof -
        obtain p where p: "p \<in> set (runs db)" "q = (if ?P p then ?f p else p)"
          using q unfolding in_update_where by blast
        have "completion_ok (completions db) p" using inv p by (auto simp: runner_inv_def list_all_iff)
        then show ?thesis using p c ready
          by (auto simp: completion_ok_def completion_of_def split: option.splits)
      qed
      moreover have "events_ok ?db3"
        using inv Some True fresh rid
        by (auto simp: runner_inv_def events_ok_def completed_events_def enqueue_def
            completed_event_count row_by_update_where split: option.split dest: row_by_SomeD)
      ultimately have "runner_inv m ?db3" using inv by (simp add: runner_inv_def list_all_iff)
      then have "runner_inv m (update_completion run (\<lambda>c. c\<lparr>c_reconciled := Some (re_now x)\<rparr>) ?db3)"
        by (rule inv_update_completion) (simp add: grows_def)
      then show ?thesis using Some True by (simp add: complete_run_def Let_def)
    qed
  qed
qed

lemma converge_cases:
  assumes "converge run x db = Inr db'"
  obtains (No_proposal) "completion_of run db = None" "db' = db"
  | (Waiting) c0 c where "completion_of run db = Some c0"
    "apply_confirmations (confirmations_of run (confirmations db)) c0 = Inr c"
    "\<And>r. row_by r_run_id run (runs db) = Some r \<Longrightarrow>
       terminal (r_state r) \<or> \<not> completion_ready c"
    "db' = update_completion run (\<lambda>_. c) db"
  | (Ready) c0 c r where "completion_of run db = Some c0"
    "apply_confirmations (confirmations_of run (confirmations db)) c0 = Inr c"
    "row_by r_run_id run (runs db) = Some r" "\<not> terminal (r_state r)" "completion_ready c"
    "db' = complete_run run c x (update_completion run (\<lambda>_. c) db)"
proof (cases "completion_of run db")
  case None
  then show thesis by (rule No_proposal) (use assms None in \<open>simp add: converge_def\<close>)
next
  case (Some c0)
  obtain c where c: "apply_confirmations (confirmations_of run (confirmations db)) c0 = Inr c"
    using assms Some
    by (cases "apply_confirmations (confirmations_of run (confirmations db)) c0")
      (auto simp: converge_def)
  let ?db1 = "update_completion run (\<lambda>_. c) db"
  have e: "(case row_by r_run_id run (runs db) of None \<Rightarrow> Inr ?db1
      | Some r \<Rightarrow> if terminal (r_state r) \<or> \<not> completion_ready c then Inr ?db1
          else Inr (complete_run run c x ?db1)) = (Inr db' :: exc + runner_db)"
    using assms by (simp add: converge_def Let_def Some c)
  show thesis
  proof (cases "\<exists>r. row_by r_run_id run (runs db) = Some r \<and> \<not> terminal (r_state r)
      \<and> completion_ready c")
    case True
    then obtain r where r: "row_by r_run_id run (runs db) = Some r" "\<not> terminal (r_state r)"
      "completion_ready c" by blast
    then show thesis using e by (intro Ready [OF Some c r]) simp
  next
    case False
    then have "db' = ?db1" using e by (auto split: option.splits if_splits)
    then show thesis using False by (intro Waiting [OF Some c]) auto
  qed
qed

lemma completion_of_run: "completion_of run db = Some c \<Longrightarrow> c_run c = run"
  by (auto simp: completion_of_def dest: row_by_SomeD)

lemma completion_after_update:
  assumes "runner_inv m db" and "completion_of run db = Some c0" and "c_run c = run"
  shows "completion_of run (update_completion run (\<lambda>_. c) db) = Some c"
  using completion_of_update [of run db "\<lambda>_. c" run] assms
  by (simp add: completion_of_def runner_inv_def)

lemma inv_converge:
  assumes inv: "runner_inv m db" and c: "converge run x db = Inr db'"
    and fresh: "\<not> has_row o_event_id (re_first_event x) (runner_outbox db)"
  shows "runner_inv m db'"
proof -
  have upd: "runner_inv m (update_completion run (\<lambda>_. c) db)"
    and look: "completion_of run (update_completion run (\<lambda>_. c) db) = Some c"
    if c0: "completion_of run db = Some c0"
      and a: "apply_confirmations (confirmations_of run (confirmations db)) c0 = Inr c" for c0 c
  proof -
    have g: "grows c0 c" using a by (rule apply_confirmations_grows)
    then show "runner_inv m (update_completion run (\<lambda>_. c) db)"
      using c0 by (intro inv_update_completion [OF inv]) simp
    have "c_run c = run" using g completion_of_run [OF c0] by (simp add: grows_def)
    then show "completion_of run (update_completion run (\<lambda>_. c) db) = Some c"
      using completion_after_update [OF inv c0] by simp
  qed
  show ?thesis
    using c
  proof (cases rule: converge_cases)
    case No_proposal
    then show ?thesis using inv by simp
  next
    case (Waiting c0 c)
    then show ?thesis using upd by simp
  next
    case (Ready c0 c r)
    then show ?thesis using upd look fresh by (simp add: inv_complete_run)
  qed
qed

text \<open>The effect of one event keeps the outbox.\<close>

lemma effect_cases:
  assumes "run_event_effect kind run event_id e data now db = Inr db'"
  obtains (Proposal) "kind = ''porfirium.run.result_proposed.v1''"
    "proposal run event_id data now db = Inr db'"
  | (Messages) "kind = ''porfirium.run.messages_committed.v1''"
    "confirmation (r_run_id run) ''messages'' data db = Inr db'"
  | (Checkpoint) "kind = ''porfirium.run.checkpoint_committed.v1''"
    "confirmation (r_run_id run) ''checkpoint'' data db = Inr db'"
  | (Visible) attempt message where "kind = ''porfirium.message.started.v1''"
    "r_active run = Some attempt" "ev_attempt_id e = Good attempt"
    "ev_lease_epoch e = Good (int (r_epoch run))"
    "db' = db\<lparr>attempts := update_where (\<lambda>a. a_id a = attempt)
       (\<lambda>a. a\<lparr>a_visible_output := True, a_active_message := Some message\<rparr>) (attempts db)\<rparr>"
proof -
  let ?p = "''porfirium.run.result_proposed.v1''"
  let ?m = "''porfirium.run.messages_committed.v1''"
  let ?c = "''porfirium.run.checkpoint_committed.v1''"
  let ?s = "''porfirium.message.started.v1''"
  have "kind = ?p \<or> kind = ?m \<or> kind = ?c \<or> kind = ?s"
  proof (rule ccontr)
    assume "\<not> (kind = ?p \<or> kind = ?m \<or> kind = ?c \<or> kind = ?s)"
    then have "kind \<noteq> ?p" "kind \<noteq> ?m" "kind \<noteq> ?c" "kind \<noteq> ?s" by (simp_all only: de_Morgan_disj not_False_eq_True)
    then show False using assms by (simp only: run_event_effect_def if_False) simp
  qed
  then show thesis
  proof (elim disjE)
    assume "kind = ?p"
    then show thesis by (rule Proposal) (use assms \<open>kind = ?p\<close> in \<open>simp add: run_event_effect_def\<close>)
  next
    assume "kind = ?m"
    then show thesis by (rule Messages) (use assms \<open>kind = ?m\<close> in \<open>simp add: run_event_effect_def\<close>)
  next
    assume "kind = ?c"
    then show thesis by (rule Checkpoint) (use assms \<open>kind = ?c\<close> in \<open>simp add: run_event_effect_def\<close>)
  next
    assume 4: "kind = ?s"
    then have e: "(case need (ev_attempt_id e) of Inl err \<Rightarrow> Inl err
        | Inr attempt \<Rightarrow> if r_active run \<noteq> Some attempt then Inl (completion_error ''stale_epoch'')
          else (case need (ev_lease_epoch e) of Inl err \<Rightarrow> Inl err
            | Inr epoch \<Rightarrow> if epoch \<noteq> int (r_epoch run)
                then Inl (completion_error ''stale_epoch'')
                else (case need (d_message_id data) of Inl err \<Rightarrow> Inl err
                  | Inr message \<Rightarrow> Inr (db\<lparr>attempts := update_where (\<lambda>a. a_id a = attempt)
                       (\<lambda>a. a\<lparr>a_visible_output := True, a_active_message := Some message\<rparr>)
                       (attempts db)\<rparr>)))) = Inr db'"
      using assms by (simp add: run_event_effect_def)
    obtain attempt where a: "ev_attempt_id e = Good attempt" "r_active run = Some attempt"
      using e by (cases "ev_attempt_id e") (auto simp: need_def split: if_splits)
    have l: "ev_lease_epoch e = Good (int (r_epoch run))"
      using e a by (cases "ev_lease_epoch e") (auto simp: need_def split: if_splits)
    obtain message where "d_message_id data = Good message"
      using e a l by (cases "d_message_id data") (auto simp: need_def)
    then show thesis using e a l by (intro Visible [OF 4]) (auto simp: need_def)
  qed
qed

lemma effect_outbox:
  assumes "run_event_effect kind run event_id e data now db = Inr db'"
  shows "runner_outbox db' = runner_outbox db"
  using assms
  by (cases rule: effect_cases) (auto elim!: proposal_cases confirmation_cases)

lemma inv_effect:
  assumes inv: "runner_inv m db" and run: "row_by r_run_id rid (runs db) = Some run"
    and e: "run_event_effect kind run event_id e data now db = Inr db'"
  shows "runner_inv m db'"
  using e
proof (cases rule: effect_cases)
  case Proposal
  show ?thesis by (rule inv_proposal [OF inv run Proposal(2)])
next
  case Messages
  show ?thesis by (rule inv_confirmation [OF inv Messages(2)])
next
  case Checkpoint
  show ?thesis by (rule inv_confirmation [OF inv Checkpoint(2)])
next
  case (Visible attempt message)
  let ?t = "update_where (\<lambda>a. a_id a = attempt)
    (\<lambda>a. a\<lparr>a_visible_output := True, a_active_message := Some message\<rparr>) (attempts db)"
  have "map attempt_key ?t = map attempt_key (attempts db)"
    by (simp add: key_update_where attempt_key_def)
  moreover have "one_live_per_run ?t"
    using attempts_unchanged [OF inv] by (auto simp: live_def intro!: one_live_end)
  ultimately show ?thesis
    by (intro inv_update [OF inv, of _ "\<lambda>_. False" id]) (auto simp: Visible(5))
qed

lemma consume_run_event_cases:
  assumes "consume_run_event e x db = Inr (res, db')"
  obtains (Seen) event_id where "ev_id e = Good event_id" "event_id \<in> fst ` set (run_inbox db)"
    "res = False" "db' = db"
  | (Applied) event_id kind run_id data run db2 where
    "validate_envelope e" "ev_id e = Good event_id" "ev_type e = Some kind"
    "ev_run_id e = Good run_id" "ev_data e = Some data"
    "event_id \<notin> fst ` set (run_inbox db)"
    "row_by r_run_id run_id (runs db) = Some run"
    "run_event_effect kind run event_id e data (re_now x)
       (db\<lparr>run_inbox := run_inbox db @ [(event_id, kind)]\<rparr>) = Inr db2"
    "if starts_with ''porfirium.run.'' kind then converge run_id x db2 = Inr db' else db' = db2"
    "res = True"
proof -
  have v: "validate_envelope e" using assms by (auto simp: consume_run_event_def split: if_splits)
  then obtain event_id kind run_id data where
    f: "ev_id e = Good event_id" "ev_type e = Some kind" "ev_run_id e = Good run_id"
      "ev_data e = Some data"
    by (auto simp: validate_envelope_def contract_ok_def required_present_def good_iff)
  show thesis
  proof (cases "event_id \<in> fst ` set (run_inbox db)")
    case True
    then show thesis using assms v f by (intro Seen [OF f(1)]) (auto simp: consume_run_event_def)
  next
    case False
    let ?db1 = "db\<lparr>run_inbox := run_inbox db @ [(event_id, kind)]\<rparr>"
    obtain run where run: "row_by r_run_id run_id (runs db) = Some run"
      using assms v f False
      by (cases "row_by r_run_id run_id (runs db)") (auto simp: consume_run_event_def Let_def)
    obtain db2 where e: "run_event_effect kind run event_id e data (re_now x) ?db1 = Inr db2"
    proof (cases "run_event_effect kind run event_id e data (re_now x) ?db1")
      case (Inl err)
      then show ?thesis using assms
        by (simp add: consume_run_event_def Let_def v f False run split: if_splits)
    qed
    have b: "validate_run_binding e (r_user_id run) (r_conversation_id run) (r_thread_id run)
        (r_run_id run) (r_trace_id run)"
      using assms v f False run by (simp add: consume_run_event_def Let_def split: if_splits)
    have r: "(if starts_with ''porfirium.run.'' kind then
          (case converge run_id x db2 of Inl err \<Rightarrow> Inl err | Inr db3 \<Rightarrow> Inr (True, db3))
        else Inr (True, db2)) = Inr (res, db')"
      using assms by (simp add: consume_run_event_def Let_def v f False run b e)
    show thesis
      by (rule Applied [OF v f False run e]) (use r in \<open>auto split: if_splits\<close>)
  qed
qed

lemma inv_consume:
  assumes inv: "runner_inv m db" and c: "consume_run_event e x db = Inr (res, db')"
    and fresh: "\<not> has_row o_event_id (re_first_event x) (runner_outbox db)"
  shows "runner_inv m db'"
  using c
proof (cases rule: consume_run_event_cases)
  case Seen
  then show ?thesis using inv by simp
next
  case (Applied event_id kind run_id data run db2)
  let ?db1 = "db\<lparr>run_inbox := run_inbox db @ [(event_id, kind)]\<rparr>"
  have 1: "runner_inv m ?db1" by (rule inv_same_tables [OF inv]) simp_all
  have "row_by r_run_id run_id (runs ?db1) = Some run" using Applied(7) by simp
  then have 2: "runner_inv m db2" by (rule inv_effect [OF 1 _ Applied(8)])
  have f: "\<not> has_row o_event_id (re_first_event x) (runner_outbox db2)"
    using effect_outbox [OF Applied(8)] fresh by simp
  show ?thesis
  proof (cases "starts_with ''porfirium.run.'' kind")
    case True
    then have "converge run_id x db2 = Inr db'" using Applied(9) by (simp only: if_True)
    then show ?thesis using f by (rule inv_converge [OF 2])
  next
    case False
    then have "db' = db2" using Applied(9) by (simp only: if_False)
    then show ?thesis using 2 by simp
  qed
qed

theorem inv_step:
  assumes "runner_step m db db'" and "runner_inv m db" and "0 < m"
  shows "runner_inv m db'"
  using assms
  by (cases rule: runner_step.cases)
    (auto simp: fresh_env_def intro: inv_admit inv_schedule inv_record_container inv_start_finish
      inv_fail_start inv_cancel_begin inv_cancel_finish inv_suspend_begin inv_suspend_finish
      inv_attempt_loss inv_consume)

lemma inv_steps:
  assumes "(runner_step m)\<^sup>*\<^sup>* db db'" and "runner_inv m db" and "0 < m"
  shows "runner_inv m db'"
  using assms by (induction rule: rtranclp_induct) (auto intro: inv_step)

lemma inv_empty: "runner_inv m empty_runner_db"
  by (simp add: runner_inv_def core_inv_def empty_runner_db_def one_live_per_run_def events_ok_def
      completed_events_def)

lemma inv_reachable: "runner_reachable m db \<Longrightarrow> 0 < m \<Longrightarrow> runner_inv m db"
  unfolding runner_reachable_def by (rule inv_steps) (auto intro: inv_empty)

end
