(* ===== verification/RunnerProperties.thy ===== *)
theory RunnerProperties
  imports RunnerSafety
begin

text \<open>
  The properties of the Runner: terminal states are final, attempts are numbered and fenced, the
  completion protocol converges in any order and publishes one event, capacity, resource limits,
  retries, idempotent admission and suspension.
\<close>

section \<open>How a run evolves\<close>

definition evolves :: "run_row \<Rightarrow> run_row \<Rightarrow> bool" where
  "evolves r r' \<longleftrightarrow> r_run_id r' = r_run_id r \<and> r_user_id r' = r_user_id r
     \<and> r_conversation_id r' = r_conversation_id r \<and> r_thread_id r' = r_thread_id r
     \<and> r_trace_id r' = r_trace_id r \<and> r_specification r' = r_specification r
     \<and> r_deadline r' = r_deadline r \<and> r_epoch r \<le> r_epoch r'
     \<and> (terminal (r_state r) \<longrightarrow> r' = r)"

lemma evolves_refl [simp]: "evolves r r"
  by (simp add: evolves_def)

lemma evolves_trans: "evolves a b \<Longrightarrow> evolves b c \<Longrightarrow> evolves a c"
  by (auto simp: evolves_def)

definition runs_evolve :: "run_row list \<Rightarrow> run_row list \<Rightarrow> bool" where
  "runs_evolve t t' \<longleftrightarrow> (\<forall>run r. row_by r_run_id run t = Some r \<longrightarrow>
     (\<exists>r'. row_by r_run_id run t' = Some r' \<and> evolves r r'))"

lemma runs_evolve_refl [simp]: "runs_evolve t t"
  by (simp add: runs_evolve_def)

lemma runs_evolve_trans: "runs_evolve a b \<Longrightarrow> runs_evolve b c \<Longrightarrow> runs_evolve a c"
  unfolding runs_evolve_def by (metis evolves_trans)

lemma evolve_update:
  assumes "\<And>r. r \<in> set t \<Longrightarrow> P r \<Longrightarrow> evolves r (f r)"
    and "\<And>r. r_run_id (f r) = r_run_id r"
  shows "runs_evolve t (update_where P f t)"
  using assms by (auto simp: runs_evolve_def row_by_update_where dest: row_by_SomeD)

lemma evolve_append: "runs_evolve t (t @ u)"
  by (auto simp: runs_evolve_def row_by_append)

lemma inv_run_ok: "runner_inv m db \<Longrightarrow> r \<in> set (runs db) \<Longrightarrow> run_ok m r"
  by (simp add: runner_inv_def core_inv_def list_all_iff)

lemma active_not_terminal:
  assumes "runner_inv m db" and "r \<in> set (runs db)" and "r_active r = Some a"
  shows "\<not> terminal (r_state r)"
  using inv_run_ok [OF assms(1,2)] assms(3) by (auto simp: run_ok_def idle_state_def terminal_def)

lemma evolve_release:
  assumes "runner_inv m db"
  shows "runs_evolve (runs db) (release_run run attempt st code now (runs db))"
  unfolding release_run_def
  by (rule evolve_update) (use active_not_terminal [OF assms] in \<open>auto simp: evolves_def\<close>)

lemma evolve_schedule:
  assumes inv: "runner_inv m db" and s: "schedule_tx limits run attempt now db = Inr (res, db')"
  shows "runs_evolve (runs db) (runs db')"
  using s
proof (cases rule: schedule_tx_cases)
  case (Started row a)
  have "evolves r (r\<lparr>r_state := Starting, r_active := Some attempt, r_epoch := r_epoch row + 1,
      r_updated := now\<rparr>)" if "r \<in> set (runs db)" "r_run_id r = run" for r
    using row_unique [OF inv Started(1) that] Started(2) by (auto simp: evolves_def terminal_def)
  then show ?thesis unfolding Started(9) by (auto intro!: evolve_update)
qed simp

lemma evolve_cancel_begin:
  assumes inv: "runner_inv m db" and c: "cancel_begin run now db = Inr (res, db')"
  shows "runs_evolve (runs db) (runs db')"
  using c
proof (cases rule: cancel_begin_cases)
  case (Cancelling row attempts')
  have "\<not> terminal (r_state r)" if "r \<in> set (runs db)" "r_run_id r = run" for r
    using row_unique [OF inv Cancelling(1) that] Cancelling(2) by simp
  then show ?thesis unfolding Cancelling(6)
    by (auto intro!: evolve_update simp: evolves_def)
qed simp

lemma evolve_suspend_begin:
  assumes inv: "runner_inv m db"
    and c: "suspend_begin event_id run attempt epoch now db = Inr (res, db')"
  shows "runs_evolve (runs db) (runs db')"
  using c
proof (cases rule: suspend_begin_cases)
  case (Stopping row a)
  have "evolves r (r\<lparr>r_state := Suspending, r_updated := now\<rparr>)"
    if "r \<in> set (runs db)" "r_run_id r = run \<and> r_state row = Running" for r
  proof -
    have "r = row" using row_unique [OF inv Stopping(1)] that by simp
    then show ?thesis using that(2) by (simp add: evolves_def terminal_def)
  qed
  then show ?thesis unfolding Stopping(9) by (intro evolve_update) simp_all
qed simp

lemma evolve_proposal:
  assumes inv: "runner_inv m db" and run: "row_by r_run_id rid (runs db) = Some run"
    and p: "proposal run event_id data now db = Inr db'"
  shows "runs_evolve (runs db) (runs db')"
  using p
proof (cases rule: proposal_cases)
  case (New attempt c)
  have "\<not> terminal (r_state r)"
    if "r \<in> set (runs db)" "r_run_id r = r_run_id run" "\<not> terminal (r_state run)" for r
    using row_unique [OF inv _ that(1,2)] run that(3) by (auto dest: row_by_SomeD)
  then show ?thesis unfolding New(10) by (auto intro!: evolve_update simp: evolves_def)
qed simp

lemma evolve_effect:
  assumes inv: "runner_inv m db" and run: "row_by r_run_id rid (runs db) = Some run"
    and e: "run_event_effect kind run event_id e data now db = Inr db'"
  shows "runs_evolve (runs db) (runs db')"
  using e
proof (cases rule: effect_cases)
  case Proposal
  show ?thesis by (rule evolve_proposal [OF inv run Proposal(2)])
next
  case Messages
  from Messages(2) show ?thesis by (cases rule: confirmation_cases) auto
next
  case Checkpoint
  from Checkpoint(2) show ?thesis by (cases rule: confirmation_cases) auto
qed auto

lemma evolve_complete: "runs_evolve (runs db) (runs (complete_run run c x db))"
  by (auto simp: complete_run_def Let_def evolves_def terminal_def intro!: evolve_update
      split: option.splits)

lemma evolve_converge:
  assumes "converge run x db = Inr db'"
  shows "runs_evolve (runs db) (runs db')"
  using assms
proof (cases rule: converge_cases)
  case (Ready c0 c r)
  then show ?thesis using evolve_complete [of "update_completion run (\<lambda>_. c) db"] by simp
qed simp_all

lemma evolve_consume:
  assumes inv: "runner_inv m db" and c: "consume_run_event e x db = Inr (res, db')"
  shows "runs_evolve (runs db) (runs db')"
  using c
proof (cases rule: consume_run_event_cases)
  case (Applied event_id kind run_id data run db2)
  let ?db1 = "db\<lparr>run_inbox := run_inbox db @ [(event_id, kind)]\<rparr>"
  have 1: "runner_inv m ?db1" by (rule inv_same_tables [OF inv]) simp_all
  have "row_by r_run_id run_id (runs ?db1) = Some run" using Applied(7) by simp
  then have e2: "runs_evolve (runs db) (runs db2)"
    using evolve_effect [OF 1 _ Applied(8)] by simp
  show ?thesis
  proof (cases "starts_with ''porfirium.run.'' kind")
    case True
    then have "converge run_id x db2 = Inr db'" using Applied(9) by (simp only: if_True)
    then show ?thesis using e2 evolve_converge runs_evolve_trans by blast
  next
    case False
    then have "db' = db2" using Applied(9) by (simp only: if_False)
    then show ?thesis using e2 by simp
  qed
qed simp

lemma evolve_admit:
  assumes "admit digest spec_digest timeout key q x db = Inr (r, db')"
  shows "runs_evolve (runs db) (runs db')"
  using assms by (cases rule: admit_cases) (auto intro: evolve_append)

lemma evolve_cancel_finish:
  assumes "cancel_finish cause_of row attempt key x db = Inr (r, db')"
  shows "runs_evolve (runs db) (runs db')"
proof -
  have "runs db' = update_where (\<lambda>q. r_run_id q = r_run_id row \<and> r_state q = Cancelling)
      (\<lambda>q. q\<lparr>r_state := Cancelled, r_terminal_code := Some ''cancelled'', r_active := None,
             r_updated := re_now x\<rparr>) (runs db)"
    using assms by (auto simp: cancel_finish_def Let_def split: sum.splits)
  then show ?thesis by (auto intro!: evolve_update simp: evolves_def terminal_def)
qed

lemma evolve_step:
  assumes s: "runner_step m db db'" and inv: "runner_inv m db"
  shows "runs_evolve (runs db) (runs db')"
  using s
proof (cases rule: runner_step.cases)
  case (step_admit digest spec_digest timeout key q x r)
  then show ?thesis by (rule evolve_admit)
next
  case (step_schedule limits run attempt now res)
  then show ?thesis by (rule evolve_schedule [OF inv])
next
  case (step_start_finish run attempt now)
  have "\<not> terminal (r_state r)" if "r \<in> set (runs db)" "r_active r = Some attempt" for r
    using active_not_terminal [OF inv that] .
  moreover have "runs db' = update_where (\<lambda>r. r_run_id r = run \<and> r_active r = Some attempt)
      (\<lambda>r. r\<lparr>r_state := Running, r_updated := now\<rparr>) (runs db)"
    using step_start_finish by (auto simp: start_finish_def checked_attempts_def split: if_splits)
  ultimately show ?thesis by (auto intro!: evolve_update simp: evolves_def)
next
  case (step_cancel_begin run now res)
  then show ?thesis by (rule evolve_cancel_begin [OF inv])
next
  case (step_cancel_finish x cause_of row attempt_opt key r)
  from step_cancel_finish(2) show ?thesis by (rule evolve_cancel_finish)
next
  case (step_suspend_begin event_id run attempt epoch now res)
  then show ?thesis by (rule evolve_suspend_begin [OF inv])
next
  case (step_suspend_finish run attempt now)
  then show ?thesis by (auto simp: suspend_finish_def evolves_def terminal_def intro!: evolve_update)
next
  case (step_event x e res)
  from step_event(2) show ?thesis by (rule evolve_consume [OF inv])
qed (use evolve_release [OF inv] in \<open>auto simp: record_container_def fail_start_def
    attempt_loss_def Let_def split: if_splits option.split\<close>)

lemma evolve_steps:
  assumes "(runner_step m)\<^sup>*\<^sup>* db db'" and "runner_inv m db" and "0 < m"
  shows "runs_evolve (runs db) (runs db')"
  using assms
proof (induction rule: rtranclp_induct)
  case (step y z)
  then show ?case using runs_evolve_trans evolve_step inv_steps by metis
qed simp

section \<open>Properties of all interleavings\<close>

lemma reachable_steps:
  "runner_reachable m db \<Longrightarrow> (runner_step m)\<^sup>*\<^sup>* db db' \<Longrightarrow> runner_reachable m db'"
  by (simp add: runner_reachable_def)

lemma later_row:
  assumes "runner_reachable m db" and "0 < m" and "(runner_step m)\<^sup>*\<^sup>* db db'"
    and "row_by r_run_id run (runs db) = Some r"
  obtains r' where "row_by r_run_id run (runs db') = Some r'" "evolves r r'"
  using evolve_steps [OF assms(3) inv_reachable [OF assms(1,2)] assms(2)] assms(4)
  by (auto simp: runs_evolve_def)

lemma events_of_run:
  assumes "runner_inv m db" and "row_by r_run_id run (runs db) = Some r"
  shows "completed_events run (runner_outbox db) = (if r_state r = Completed then 1 else 0)"
  using assms by (simp add: runner_inv_def events_ok_def)

text \<open>A concrete admission and the first steps of a run, used by the instances below.\<close>

definition sample_admission :: run_admission where
  "sample_admission = \<lparr>ad_run_id = 1, ad_user_id = 2, ad_conversation_id = 3, ad_thread_id = 4,
     ad_release_id = 5, ad_delegation_grant_id = 6, ad_configuration_revision_id = None,
     ad_starting_checkpoint_id = None, ad_trigger = \<lparr>tr_type = User_message, tr_id = 7\<rparr>,
     ad_run_input = None, ad_trace_id = sample_trace\<rparr>"

definition sample_image :: pystr where
  "sample_image = ''agent@sha256:'' @ replicate 64 (CHR ''a'')"

definition sample_spec :: signed_specification where
  "sample_spec = \<lparr>ss_specification_id = 8, ss_run_id = 1,
     ss_payload = \<lparr>sp_expires_at = Good 1000, sp_release_image = Good (Good sample_image),
       sp_resources = Good \<lparr>res_memory = Some ''1Gi'', res_cpu = Some (Milli (Good (Finite 500))),
         res_pids = Missing\<rparr>, sp_requested_models = [], sp_requested_tools = []\<rparr>,
     ss_payload_sha256 = replicate 64 (CHR ''b''), ss_signature = ''s'', ss_key_id = ''k''\<rparr>"

definition sample_limits :: capacity_limits where
  "sample_limits = \<lparr>global_runs = 32, per_user_runs = 4\<rparr>"

definition sample_row :: "run_state \<Rightarrow> uuid option \<Rightarrow> nat \<Rightarrow> instant \<Rightarrow> run_row" where
  "sample_row st active epoch updated = (admitted_row sample_admission sample_spec 300 0)
     \<lparr>r_state := st, r_active := active, r_epoch := epoch, r_updated := updated\<rparr>"

definition sample_attempt :: attempt_row where
  "sample_attempt = \<lparr>a_id = 20, a_run = 1, a_number = 1, a_epoch = 1, a_state = A_starting,
     a_container = None, a_deadline = 300, a_started = None, a_ended = None,
     a_visible_output = False, a_active_message = None\<rparr>"

definition sample_admitted :: runner_db where
  "sample_admitted = empty_runner_db
     \<lparr>runs := [sample_row Accepted None 0 0],
      run_idempotency := [\<lparr>ru_key = ''key'', ru_sha256 = ''d'', ru_run_id = 1\<rparr>],
      runner_outbox := [outbox_entry 30 ''porfirium.run.command.schedule'' (Schedule_command 1) 0]\<rparr>"

definition sample_starting :: runner_db where
  "sample_starting = sample_admitted
     \<lparr>runs := [sample_row Starting (Some 20) 1 5], attempts := [sample_attempt]\<rparr>"

definition sample_failed :: runner_db where
  "sample_failed = sample_starting
     \<lparr>runs := [(sample_row Failed None 1 6)\<lparr>r_terminal_code := Some ''attempt_start_failed''\<rparr>],
      attempts := [sample_attempt\<lparr>a_state := A_failed, a_ended := Some 6\<rparr>]\<rparr>"

lemma sample_admit:
  "admit (\<lambda>_. ''d'') (\<lambda>_. replicate 64 (CHR ''b'')) 300 ''key'' (sample_admission, sample_spec)
     (30, 0) empty_runner_db = Inr (sample_row Accepted None 0 0, sample_admitted)"
  by (simp add: admit_def empty_runner_db_def parse_time_def sample_admission_def sample_spec_def
      admitted_row_ok_def sample_trace_def is_hex_def hex_digits_def sample_admitted_def
      sample_row_def admitted_row_def enqueue_def Let_def list_all_iff)

lemma sample_schedule:
  "schedule_tx sample_limits 1 20 5 sample_admitted = Inr (Some 20, sample_starting)"
  by (simp add: schedule_tx_def sample_admitted_def sample_starting_def sample_row_def
      empty_runner_db_def admitted_row_def sample_admission_def has_capacity_def global_active_def
      user_active_def counts_as_active_def sample_limits_def attempts_of_def checked_attempts_def
      one_live_per_run_def live_def sample_attempt_def)

lemma sample_fail: "fail_start 1 20 6 sample_starting = sample_failed"
  by (simp add: fail_start_def sample_starting_def sample_failed_def sample_admitted_def
      empty_runner_db_def end_attempt_def release_run_def sample_row_def admitted_row_def
      sample_admission_def sample_attempt_def)

lemma sample_reachable:
  "runner_reachable 3 sample_admitted" "runner_reachable 3 sample_starting"
  "runner_reachable 3 sample_failed" "(runner_step 3)\<^sup>*\<^sup>* sample_starting sample_failed"
proof -
  have 1: "runner_step 3 empty_runner_db sample_admitted"
    using sample_admit by (rule step_admit)
  have 2: "runner_step 3 sample_admitted sample_starting"
    using sample_schedule by (rule step_schedule)
  have 3: "runner_step 3 sample_starting sample_failed"
    using sample_fail [symmetric] by (rule step_fail_start)
  show "runner_reachable 3 sample_admitted" "runner_reachable 3 sample_starting"
    "runner_reachable 3 sample_failed" "(runner_step 3)\<^sup>*\<^sup>* sample_starting sample_failed"
    using 1 2 3 unfolding runner_reachable_def by (auto intro: rtranclp.rtrancl_into_rtrancl)
qed

lemma sample_row_by:
  "row_by r_run_id 1 (runs sample_starting) = Some (sample_row Starting (Some 20) 1 5)"
  "row_by r_run_id 1 (runs sample_failed)
     = Some ((sample_row Failed None 1 6)\<lparr>r_terminal_code := Some ''attempt_start_failed''\<rparr>)"
  by (simp_all add: sample_starting_def sample_failed_def sample_row_def admitted_row_def
      sample_admission_def)

text \<open>C4. Terminal states are final: once a run is completed, failed or cancelled, no transaction of
  any handler, in any interleaving and after any crashes, changes its row again or publishes a
  completion for it.\<close>

theorem terminal_is_final:
  assumes "runner_reachable m db" and "0 < m" and "row_by r_run_id run (runs db) = Some r"
    and "terminal (r_state r)" and "(runner_step m)\<^sup>*\<^sup>* db db'"
  shows "row_by r_run_id run (runs db') = Some r
    \<and> completed_events run (runner_outbox db') = completed_events run (runner_outbox db)"
proof -
  obtain r' where r': "row_by r_run_id run (runs db') = Some r'" "evolves r r'"
    by (rule later_row [OF assms(1,2,5,3)])
  then have "r' = r" using assms(4) by (simp add: evolves_def)
  then show ?thesis
    using r' events_of_run [OF inv_reachable [OF assms(1,2)] assms(3)]
      events_of_run [OF inv_reachable [OF reachable_steps [OF assms(1,5)] assms(2)], of run r]
    by simp
qed

lemma terminal_is_final_witness:
  "row_by r_run_id 1 (runs (fail_start 1 20 9 sample_failed))
     = Some ((sample_row Failed None 1 6)\<lparr>r_terminal_code := Some ''attempt_start_failed''\<rparr>)"
proof -
  have "(runner_step 3)\<^sup>*\<^sup>* sample_failed (fail_start 1 20 9 sample_failed)"
    by (rule r_into_rtranclp) (rule step_fail_start [OF refl])
  moreover have "terminal (r_state ((sample_row Failed None 1 6)
      \<lparr>r_terminal_code := Some ''attempt_start_failed''\<rparr>))"
    by (simp add: sample_row_def terminal_def)
  ultimately show ?thesis
    using terminal_is_final [OF sample_reachable(3) _ sample_row_by(2)] by simp
qed

text \<open>C5. Attempts are numbered and exclusive: in every reachable state the attempts of a run have
  the numbers and lease epochs 1, 2, ..., n with n the run's epoch, never more than
  \<open>max_attempts\<close>; at most one of them is live; and the active attempt, if there is one, is the last
  one.\<close>

theorem attempts_of_run:
  assumes "runner_reachable m db" and "0 < m" and "row_by r_run_id run (runs db) = Some r"
  shows "map (\<lambda>a. (a_number a, a_epoch a)) (attempts_of run (attempts db))
      = map (\<lambda>n. (n, n)) [1..<Suc (r_epoch r)]
    \<and> r_epoch r \<le> m
    \<and> count_where (\<lambda>a. a_run a = run \<and> live a) (attempts db) \<le> 1
    \<and> (r_active r = None
       \<or> (the (r_active r), run, r_epoch r, r_epoch r) \<in> attempt_key ` set (attempts db))"
proof -
  have inv: "core_inv m db" using inv_reachable [OF assms(1,2)] by (simp add: runner_inv_def)
  have r: "r \<in> set (runs db)" "r_run_id r = run" using assms(3) by (auto dest: row_by_SomeD)
  have "count_where (\<lambda>a. a_run a = run \<and> live a) t \<le> 1" if "one_live_per_run t" for t
  proof -
    have "distinct (map a_run (filter live t)) \<Longrightarrow> length (filter (\<lambda>a. a_run a = run) (filter live t)) \<le> 1"
      by (induction t) (auto simp: filter_empty_conv image_iff split: if_splits)
    then show ?thesis using that by (simp add: one_live_per_run_def count_where_def conj_commute)
  qed
  then show ?thesis using inv r
    by (auto simp: core_inv_def list_all_iff numbered_def run_ok_def active_ok_def)
qed

lemma attempts_of_run_witness:
  "map (\<lambda>a. (a_number a, a_epoch a)) (attempts_of 1 (attempts sample_starting)) = [(1, 1)]"
  using attempts_of_run [OF sample_reachable(2) _ sample_row_by(1)]
  by (simp add: sample_row_def admitted_row_def)



text \<open>An event that speaks for an attempt: a proposal names the epoch in its data, visible output
  in its envelope.\<close>

definition speaks_for_epoch :: "envelope \<Rightarrow> int \<Rightarrow> bool" where
  "speaks_for_epoch e epoch \<longleftrightarrow>
     (ev_type e = Some ''porfirium.run.result_proposed.v1''
        \<and> map_option d_lease_epoch (ev_data e) = Some (Good epoch))
   \<or> (ev_type e = Some ''porfirium.message.started.v1'' \<and> ev_lease_epoch e = Good epoch)"

lemma proposal_epoch:
  assumes "proposal run event_id data now db = Inr db'"
  shows "d_lease_epoch data = Good (int (r_epoch run))"
  using assms
  by (cases "d_attempt_id data"; cases "d_lease_epoch data")
    (auto simp: proposal_def need_def split: if_splits)

lemma effect_epoch:
  assumes "run_event_effect kind run event_id e data now db = Inr db'"
    and "speaks_for_epoch e epoch" and "ev_type e = Some kind" and "ev_data e = Some data"
  shows "epoch = int (r_epoch run)"
  using assms(1)
proof (cases rule: effect_cases)
  case Proposal
  then show ?thesis using assms(2-4) proposal_epoch [OF Proposal(2)]
    by (auto simp: speaks_for_epoch_def)
qed (use assms(2-4) in \<open>auto simp: speaks_for_epoch_def\<close>)

text \<open>Superseded attempts are fenced: once a run has reached lease epoch n, no later proposal,
  visible output or suspension that names a lower epoch is applied.\<close>

theorem superseded_attempt_fenced:
  assumes "runner_reachable m db" and "0 < m" and "row_by r_run_id run (runs db) = Some r"
    and "(runner_step m)\<^sup>*\<^sup>* db db'" and "epoch < int (r_epoch r)"
  shows "(ev_run_id e = Good run \<and> speaks_for_epoch e epoch
      \<longrightarrow> consume_run_event e x db' \<noteq> Inr (True, db''))
    \<and> suspend_begin event_id run attempt epoch now db' \<noteq> Inr (Some a, db'')"
proof -
  obtain r' where r': "row_by r_run_id run (runs db') = Some r'" and "evolves r r'"
    by (rule later_row [OF assms(1,2,4,3)])
  then have lt: "epoch < int (r_epoch r')" using assms(5) by (simp add: evolves_def)
  show ?thesis
  proof (intro conjI impI notI)
    assume e: "ev_run_id e = Good run \<and> speaks_for_epoch e epoch"
      and c: "consume_run_event e x db' = Inr (True, db'')"
    from c show False
    proof (cases rule: consume_run_event_cases)
      case (Applied eid kind run_id data run0 db2)
      have "epoch = int (r_epoch run0)"
        using e by (intro effect_epoch [OF Applied(8) _ Applied(3,5)]) simp
      moreover have "run0 = r'" using Applied(4,7) e r' by simp
      ultimately show False using lt by simp
    qed simp
  next
    assume "suspend_begin event_id run attempt epoch now db' = Inr (Some a, db'')"
    then show False using r' lt by (cases rule: suspend_begin_cases) auto
  qed
qed

lemma superseded_attempt_fenced_witness:
  "suspend_begin 99 1 20 0 7 sample_failed \<noteq> Inr (Some sample_attempt, sample_failed)"
  using superseded_attempt_fenced [OF sample_reachable(2) _ sample_row_by(1) sample_reachable(4), of 0]
  by (simp add: sample_row_def)

text \<open>C7. Capacity: when a scheduling transaction starts an attempt, the runs then counted as active
  stay within the global limit and within the limit of their user.\<close>

theorem capacity_respected:
  assumes "runner_reachable m db" and "0 < m" and "row_by r_run_id run (runs db) = Some r"
    and "schedule_tx limits run attempt now db = Inr (Some a, db')"
  shows "global_active (runs db') \<le> global_runs limits
    \<and> user_active (r_user_id r) (runs db') \<le> per_user_runs limits"
proof -
  have inv: "runner_inv m db" using assms(1,2) by (rule inv_reachable)
  from assms(4) show ?thesis
  proof (cases rule: schedule_tx_cases)
    case (Started row b)
    let ?f = "\<lambda>r. r\<lparr>r_state := Starting, r_active := Some attempt, r_epoch := r_epoch row + 1,
        r_updated := now\<rparr>"
    have "count_where Q (update_where (\<lambda>r. r_run_id r = run) ?f t) \<le> count_where Q t + 1"
      if "distinct (map r_run_id t)" for Q and t :: "run_row list"
      using that
    proof (induction t)
      case (Cons q t)
      have "update_where (\<lambda>r. r_run_id r = run) ?f t = t" if "r_run_id q = run"
        using Cons.prems that by (induction t) auto
      then show ?case using Cons by auto
    qed simp
    moreover have "distinct (map r_run_id (runs db))"
      using inv by (simp add: runner_inv_def core_inv_def)
    moreover have "row = r" using Started(1) assms(3) by simp
    ultimately show ?thesis
      using Started(4,9) unfolding has_capacity_def global_active_def user_active_def
      by (metis (no_types, lifting) Suc_eq_plus1 less_Suc_eq_le linorder_not_le order.strict_trans1
          order_le_less_trans runner_db.select_convs(1) runner_db.surjective
          runner_db.update_convs(1))
  qed simp
qed

lemma capacity_respected_witness: "global_active (runs sample_starting) \<le> 32"
  using capacity_respected [OF sample_reachable(1) _ _ sample_schedule,
      of "sample_row Accepted None 0 0"]
  by (simp add: sample_limits_def sample_admitted_def sample_row_def admitted_row_def
      sample_admission_def)

text \<open>Containers are confined: whatever resources a specification asks for, the container of an
  attempt runs a digest-pinned image with a positive amount of memory of at most 256 MiB, at most 64
  processes and a CPU share in (0, 1] (or the float not-a-number, which the code lets through), and
  its capability names exactly the run, attempt and lease epoch.\<close>

theorem container_confined:
  assumes "start_prepare db run attempt = Inr c"
  shows "image_pinned (ac_image c) \<and> 0 < ac_memory_bytes c \<and> ac_memory_bytes c \<le> 268435456
    \<and> ac_pids c \<le> 64
    \<and> (ac_cpu c = Nan \<or> (\<exists>q. ac_cpu c = Finite q \<and> 0 < q \<and> q \<le> 1))
    \<and> ac_network c = attempt \<and> rc_attempt_id (ac_claims c) = attempt
    \<and> rc_operations (ac_claims c) = [''runtime:connect'']
    \<and> (\<exists>r. row_by r_run_id run (runs db) = Some r \<and> r_active r = Some attempt
        \<and> rc_run_id (ac_claims c) = r_run_id r \<and> rc_lease_epoch (ac_claims c) = r_epoch r
        \<and> rc_exp (ac_claims c) = r_deadline r div 1000000)"
proof -
  obtain r a where j: "row_by r_run_id run (runs db) = Some r" "row_by a_id attempt (attempts db) = Some a"
      "r_active r = Some attempt"
    and c: "container_of r a = Inr c"
    using assms by (auto simp: start_prepare_def joined_def split: option.splits if_splits)
  have a: "a_id a = attempt" using j(2) by (auto dest: row_by_SomeD)
  from c show ?thesis
  proof (cases rule: container_of_cases)
    case (1 img res memory cpu pids)
    have "0 < memory" using 1(4) by (rule memory_bytes_pos)
    moreover have "min_one cpu = Nan \<or> (\<exists>q. min_one cpu = Finite q \<and> 0 < q \<and> q \<le> 1)"
      using 1(5) by (intro min_one_bounds cpu_float_positive)
    ultimately show ?thesis using 1(2,7) j a by (simp add: issue_claims_def Let_def)
  qed
qed

lemma container_confined_witness:
  "\<exists>c. start_prepare sample_starting 1 20 = Inr c \<and> ac_memory_bytes c \<le> 268435456
     \<and> ac_pids c \<le> 64"
proof -
  have "image_pinned sample_image"
    by (simp add: image_pinned_def digest_suffix_def sample_image_def list_all_iff is_hex_def
        hex_digits_def strip_newline_def)
  moreover have "memory_bytes ''1Gi'' = Inr 1073741824"
    by (simp add: memory_bytes_def positive_decimal_def dec_digit_def dec_value_def)
  ultimately have "\<not> isl (start_prepare sample_starting 1 20)"
    by (simp add: start_prepare_def joined_def sample_row_by sample_starting_def sample_attempt_def
        container_of_def sample_row_def admitted_row_def sample_admission_def sample_spec_def
        cpu_float_def pids_number_def Let_def)
  then obtain c where c: "start_prepare sample_starting 1 20 = Inr c"
    by (cases "start_prepare sample_starting 1 20") auto
  then show ?thesis using container_confined [OF c] by auto
qed

section \<open>Lost attempts, retries and suspension\<close>

lemma reconcile_rows_member:
  assumes "(r, a) \<in> set (reconcile_rows db)"
  shows "r \<in> set (runs db) \<and> (\<exists>i. r_active r = Some i \<and> row_by a_id i (attempts db) = Some a)"
proof -
  obtain q where q: "q \<in> set (runs db)" and m: "(r, a) \<in> set (case r_active q of None \<Rightarrow> []
      | Some i \<Rightarrow> (case row_by a_id i (attempts db) of None \<Rightarrow> [] | Some a \<Rightarrow> [(q, a)]))"
    using assms by (auto simp: reconcile_rows_def split: if_splits)
  obtain i where i: "r_active q = Some i" using m by (cases "r_active q") auto
  obtain b where "row_by a_id i (attempts db) = Some b"
    using m i by (cases "row_by a_id i (attempts db)") auto
  then show ?thesis using q m i by simp
qed

text \<open>A lost attempt is retried only when none of its output was visible, its number is below
  the limit and the deadline has not passed; otherwise the run fails with a code that tells which,
  and a message it left open is reported as interrupted.\<close>

theorem lost_attempt:
  assumes "runner_reachable m db" and "0 < m" and "(r, a) \<in> set (reconcile_rows db)"
    and "db' = attempt_loss m cause_of (r, a) x db"
    and "\<not> has_row o_event_id (re_first_event x) (runner_outbox db)"
  shows "if \<not> a_visible_output a \<and> a_number a < m \<and> r_deadline r > re_now x
    then row_by r_run_id (r_run_id r) (runs db')
        = Some (r\<lparr>r_state := Scheduled, r_active := None, r_updated := re_now x\<rparr>)
      \<and> runner_outbox db' = runner_outbox db
    else row_by r_run_id (r_run_id r) (runs db')
        = Some (r\<lparr>r_state := Failed, r_terminal_code := Some (if a_visible_output a
            then ''attempt_lost_after_output'' else ''attempt_retry_exhausted''),
            r_active := None, r_updated := re_now x\<rparr>)
      \<and> map o_payload (runner_outbox db') = map o_payload (runner_outbox db) @
          (case a_active_message a of None \<Rightarrow> []
           | Some message \<Rightarrow> [Run_event (interrupted_event x r a message ''attempt_lost''
               (cause_of (uuid_str (a_id a))))])"
proof -
  have inv: "runner_inv m db" using assms(1,2) by (rule inv_reachable)
  have r: "r \<in> set (runs db)" "r_active r = Some (a_id a)"
    using reconcile_rows_member [OF assms(3)] by (auto dest: row_by_SomeD)
  then have row: "row_by r_run_id (r_run_id r) (runs db) = Some r"
    using inv by (auto simp: runner_inv_def core_inv_def intro: row_by_unique)
  have rel: "row_by r_run_id (r_run_id r) (release_run (r_run_id r) (a_id a) st code now (runs db))
    = Some (r\<lparr>r_state := st, r_terminal_code := (if code = None then r_terminal_code r else code),
        r_active := None, r_updated := now\<rparr>)" for st code now
    by (simp add: release_run_def row_by_update_where row r)
  show ?thesis
    unfolding assms(4) using assms(5)
    by (simp add: attempt_loss_def Let_def retry_allowed_def rel enqueue_def split: option.split)
qed

definition sample_env :: "nat \<Rightarrow> runner_env" where
  "sample_env n = \<lparr>re_now = int n, re_first_event = 100 + 2 * n, re_second_event = 101 + 2 * n,
     re_bytes = 500\<rparr>"

lemma sample_reconcile_rows:
  "reconcile_rows sample_starting = [(sample_row Starting (Some 20) 1 5, sample_attempt)]"
  by (simp add: reconcile_rows_def sample_starting_def sample_row_def admitted_row_def
      sample_attempt_def)

lemma lost_attempt_witness:
  "row_by r_run_id 1 (runs (attempt_loss 3 (\<lambda>_. 0)
      (sample_row Starting (Some 20) 1 5, sample_attempt) (sample_env 7) sample_starting))
    = Some ((sample_row Starting (Some 20) 1 5)\<lparr>r_state := Scheduled, r_active := None,
        r_updated := 7\<rparr>)"
proof -
  have m: "(sample_row Starting (Some 20) 1 5, sample_attempt)
      \<in> set (reconcile_rows sample_starting)"
    by (simp add: sample_reconcile_rows)
  have f: "\<not> has_row o_event_id (re_first_event (sample_env 7)) (runner_outbox sample_starting)"
    by (simp add: sample_env_def sample_starting_def sample_admitted_def)
  show ?thesis
    using lost_attempt [OF sample_reachable(2) _ m refl f, of "\<lambda>_. 0"]
    by (simp add: sample_attempt_def sample_row_def admitted_row_def sample_env_def
        sample_admission_def)
qed

text \<open>Admission is idempotent: an admission that succeeded is answered with the same run, and
  changes nothing, when it is repeated under its key; the key with a different admission is
  refused.\<close>

theorem admission_retry:
  assumes "idem_run_inv db" and "admit digest spec_digest timeout key q x db = Inr (r, db')"
  shows "(\<exists>r'. admit digest spec_digest timeout key q y db' = Inr (r', db')
        \<and> r_run_id r' = r_run_id r)
    \<and> (digest (fst q') \<noteq> digest (fst q) \<longrightarrow> admit digest spec_digest timeout key q' y db'
        = Inl (runner_error ''idempotency_conflict''))"
  using admit_op.retry_now [OF assms] admit_op.reuse_now [OF assms] by simp

lemma admission_retry_witness:
  "\<exists>r'. admit (\<lambda>_. ''d'') (\<lambda>_. replicate 64 (CHR ''b'')) 300 ''key'' (sample_admission, sample_spec)
     (31, 50) sample_admitted = Inr (r', sample_admitted)"
  using admission_retry [OF _ sample_admit, of "(31, 50)"]
  by (auto simp: idem_run_inv_def empty_runner_db_def)

lemma update_where_twice:
  assumes "\<And>r. P r \<Longrightarrow> P (f r) \<and> f (f r) = f r"
  shows "update_where P f (update_where P f t) = update_where P f t"
  using assms by (induction t) auto

lemma suspend_failed_cases:
  assumes "suspend backend e now db = (Inl err, calls, db1)" and "calls \<noteq> []"
  obtains event_id run attempt epoch a where
    "parse_suspension e = Some (event_id, run, attempt, epoch)"
    "suspend_begin event_id run attempt epoch now db = Inr (Some a, db1)"
proof -
  obtain event_id run attempt epoch where
    p: "parse_suspension e = Some (event_id, run, attempt, epoch)"
    using assms by (cases "parse_suspension e") (auto simp: suspend_def)
  obtain o1 d1 where b: "suspend_begin event_id run attempt epoch now db = Inr (o1, d1)"
    using assms p by (cases "suspend_begin event_id run attempt epoch now db")
      (auto simp: suspend_def)
  obtain a where "o1 = Some a"
    using assms p b by (cases o1) (auto simp: suspend_def)
  then show thesis using assms p b
    by (intro that [OF p, of a]) (auto simp: suspend_def split: if_splits removal.splits)
qed

text \<open>Suspension survives a failed removal: when the removal of the container fails or times out,
  the redelivered event finishes the suspension, so that the run waits for input without an active
  attempt; any further delivery changes nothing.\<close>

theorem suspension_resumes:
  assumes "suspend backend e now db = (Inl err, calls, db1)" and "calls \<noteq> []"
  shows "\<exists>calls2 db2 run r. suspend Removed e now2 db1 = (Inr True, calls2, db2)
    \<and> ev_run_id e = Good run \<and> row_by r_run_id run (runs db2) = Some r
    \<and> r_state r = Waiting_for_input \<and> r_active r = None
    \<and> suspend backend3 e now3 db2 = (Inr False, [], db2)"
proof -
  obtain event_id run attempt epoch a where
    p: "parse_suspension e = Some (event_id, run, attempt, epoch)"
    and b: "suspend_begin event_id run attempt epoch now db = Inr (Some a, db1)"
    using assms by (rule suspend_failed_cases)
  have run: "ev_run_id e = Good run"
    using p by (auto simp: parse_suspension_def split: fld.splits option.splits if_splits)
  from b show ?thesis
  proof (cases rule: suspend_begin_cases)
    case (Stopping row b)
    let ?stop = "update_where (\<lambda>b. a_id b = attempt) (\<lambda>b. b\<lparr>a_state := A_stopping\<rparr>)"
    have seen: "event_id \<in> fst ` set (run_inbox db1)" using Stopping(12) .
    have row1: "row_by r_run_id run (runs db1) = Some (if r_state row = Running
        then row\<lparr>r_state := Suspending, r_updated := now\<rparr> else row)"
      unfolding Stopping(9) using Stopping(1)
      by (auto simp: row_by_update_where dest: row_by_SomeD)
    let ?row1 = "if r_state row = Running then row\<lparr>r_state := Suspending, r_updated := now\<rparr>
      else row"
    have s1: "r_state ?row1 = Suspending" "r_active ?row1 = Some attempt"
      "int (r_epoch ?row1) = epoch" "r_run_id ?row1 = run"
      using Stopping(1-4) by (auto dest: row_by_SomeD)
    have twice: "?stop (attempts db1) = attempts db1"
      unfolding Stopping(8) by (rule update_where_twice) simp
    obtain a1 where a1: "row_by a_id attempt (attempts db1) = Some a1"
      unfolding Stopping(8) using Stopping(5) by (auto simp: row_by_update_where)
    have b2: "suspend_begin event_id run attempt epoch now2 db1 = Inr (Some a1, db1)"
      using seen row1 s1 a1 twice Stopping(7) by (simp add: suspend_begin_def Let_def)
    let ?db2 = "suspend_finish run attempt now2 db1"
    have fin: "suspend Removed e now2 db1 = (Inr True, [Remove (a_container a1) (a_id a1)], ?db2)"
      using p b2 by (simp add: suspend_def)
    have row2: "row_by r_run_id run (runs ?db2)
        = Some (?row1\<lparr>r_state := Waiting_for_input, r_active := None, r_updated := now2\<rparr>)"
      using row1 s1 by (simp add: suspend_finish_def row_by_update_where)
    have seen2: "event_id \<in> fst ` set (run_inbox ?db2)" using seen by (simp add: suspend_finish_def)
    have "suspend_begin event_id run attempt epoch now3 ?db2 = Inr (None, ?db2)"
      using seen2 row2 by (simp add: suspend_begin_def Let_def)
    then have "suspend backend3 e now3 ?db2 = (Inr False, [], ?db2)"
      using p by (simp add: suspend_def)
    then show ?thesis using fin run row2 by fastforce
  qed simp
qed

definition sample_running :: runner_db where
  "sample_running = sample_starting
     \<lparr>runs := [sample_row Running (Some 20) 1 6],
      attempts := [sample_attempt\<lparr>a_state := A_running, a_container := Some ''c'',
        a_started := Some 6\<rparr>]\<rparr>"

definition sample_event :: "uuid \<Rightarrow> pystr \<Rightarrow> event_data \<Rightarrow> envelope" where
  "sample_event i kind data = (make_envelope 300 ''runtime'' kind i 0 2 3 4 1 sample_trace 9 data)
     \<lparr>ev_attempt_id := Good 20, ev_lease_epoch := Good 1\<rparr>"

lemma suspension_resumes_witness:
  "\<exists>calls2 db2. suspend Removed (sample_event 50 suspension_type (empty_data
       \<lparr>d_suspension_id := Good 51, d_checkpoint_id := Good 52, d_input_request_id := Good 53\<rparr>)) 8
     (snd (snd (suspend Removal_times_out (sample_event 50 suspension_type (empty_data
       \<lparr>d_suspension_id := Good 51, d_checkpoint_id := Good 52, d_input_request_id := Good 53\<rparr>)) 7
       sample_running))) = (Inr True, calls2, db2)"
proof -
  let ?e = "sample_event 50 suspension_type (empty_data\<lparr>d_suspension_id := Good 51,
    d_checkpoint_id := Good 52, d_input_request_id := Good 53\<rparr>)"
  have "\<exists>err calls db1. suspend Removal_times_out ?e 7 sample_running = (Inl err, calls, db1)
      \<and> calls \<noteq> []"
    by (simp add: suspend_def parse_suspension_def sample_event_def make_envelope_def good_uuid_def
        suspend_begin_def sample_running_def sample_starting_def sample_admitted_def
        empty_runner_db_def sample_row_def admitted_row_def sample_admission_def sample_attempt_def
        checked_attempts_def one_live_per_run_def live_def Let_def)
  then obtain err calls db1 where
    s: "suspend Removal_times_out ?e 7 sample_running = (Inl err, calls, db1)" "calls \<noteq> []"
    by blast
  from suspension_resumes [OF s, of 8 Removed 9]
  obtain calls2 db2 where "suspend Removed ?e 8 db1 = (Inr True, calls2, db2)" by blast
  then show ?thesis using s(1) by simp
qed

end
