(* ===== verification/RunnerHandshake.thy ===== *)
theory RunnerHandshake
  imports RunnerProperties
begin

text \<open>
  The completion handshake: the proposal, the commit of the messages and the commit of the checkpoint
  reach the Runner in any order and any number of times. The abstract state of the handshake is the
  set of events seen; \<open>handshake_state\<close> relates it to the tables, every delivery is shown to
  simulate it, and the run is completed exactly when everything required has been seen.
\<close>

section \<open>Redelivery\<close>

definition event_identity :: "envelope \<Rightarrow> uuid" where
  "event_identity e = (case fld_value (ev_id e) of Some i \<Rightarrow> i | None \<Rightarrow> 0)"

definition event_seen :: "runner_db \<Rightarrow> uuid \<Rightarrow> bool" where
  "event_seen db i \<longleftrightarrow> i \<in> fst ` set (run_inbox db)"

lemma inbox_effect:
  assumes "run_event_effect kind run event_id e data now db = Inr db'"
  shows "run_inbox db' = run_inbox db"
  using assms by (cases rule: effect_cases) (auto elim!: proposal_cases confirmation_cases)

lemma inbox_complete_run: "run_inbox (complete_run run c x db) = run_inbox db"
  by (simp add: complete_run_def Let_def split: option.split)

lemma inbox_converge:
  assumes "converge run x db = Inr db'"
  shows "run_inbox db' = run_inbox db"
  using assms by (cases rule: converge_cases) (simp_all add: inbox_complete_run)

lemma inbox_consume:
  assumes "consume_run_event e x db = Inr (res, db')"
  shows "event_seen db' (event_identity e)" and "event_seen db i \<Longrightarrow> event_seen db' i"
proof -
  have "event_seen db' (event_identity e) \<and> (event_seen db i \<longrightarrow> event_seen db' i)"
    using assms
  proof (cases rule: consume_run_event_cases)
    case (Seen event_id)
    then show ?thesis by (auto simp: event_seen_def event_identity_def)
  next
    case (Applied event_id kind run_id data run db2)
    have "run_inbox db2 = run_inbox db @ [(event_id, kind)]"
      using inbox_effect [OF Applied(8)] by simp
    moreover have "run_inbox db' = run_inbox db2"
    proof (cases "starts_with ''porfirium.run.'' kind")
      case True
      then have "converge run_id x db2 = Inr db'" using Applied(9) by (simp only: if_True)
      then show ?thesis by (rule inbox_converge)
    next
      case False
      then show ?thesis using Applied(9) by (simp only: if_False)
    qed
    ultimately show ?thesis using Applied(2) by (auto simp: event_seen_def event_identity_def)
  qed
  then show "event_seen db' (event_identity e)" and "event_seen db i \<Longrightarrow> event_seen db' i" by auto
qed

lemma consume_seen_event:
  assumes "validate_envelope e" and "event_seen db (event_identity e)"
  shows "consume_run_event e x db = Inr (False, db)"
proof -
  obtain event_id kind run_id data where
    f: "ev_id e = Good event_id" "ev_type e = Some kind" "ev_run_id e = Good run_id"
      "ev_data e = Some data"
    using assms(1) by (auto simp: validate_envelope_def contract_ok_def required_present_def good_iff)
  then have "event_id \<in> fst ` set (run_inbox db)"
    using assms(2) by (simp add: event_seen_def event_identity_def)
  then show ?thesis using assms(1) f by (simp add: consume_run_event_def)
qed

interpretation run_inbox: event_inbox consume_run_event event_identity event_seen validate_envelope
  False
proof
  fix ev :: envelope and s x
  assume "validate_envelope ev" "event_seen s (event_identity ev)"
  then show "consume_run_event ev x s = Inr (False, s)" by (rule consume_seen_event)
next
  fix ev :: envelope and x s
  assume "\<not> validate_envelope ev"
  then show "\<exists>e. consume_run_event ev x s = Inl e" by (simp add: consume_run_event_def)
qed (auto dest: inbox_consume)

section \<open>The events of a handshake\<close>

definition bound_event :: "run_row \<Rightarrow> pystr \<Rightarrow> envelope \<Rightarrow> uuid \<Rightarrow> event_data \<Rightarrow> bool" where
  "bound_event r kind e i d \<longleftrightarrow> validate_envelope e
     \<and> validate_run_binding e (r_user_id r) (r_conversation_id r) (r_thread_id r) (r_run_id r)
         (r_trace_id r)
     \<and> ev_type e = Some kind \<and> ev_id e = Good i \<and> ev_data e = Some d"

record handshake =
  hs_proposal :: "envelope \<times> uuid \<times> event_data"
  hs_messages :: "envelope \<times> uuid \<times> event_data"
  hs_checkpoint :: "envelope \<times> uuid \<times> event_data"

definition required_of :: "handshake \<Rightarrow> pystr set" where
  "required_of h = set (d_required_confirmations (snd (snd (hs_proposal h))))"

text \<open>The proposal names the active attempt and is consistent; the two commits confirm what it
  names.\<close>

definition handshake_ok :: "run_row \<Rightarrow> handshake \<Rightarrow> bool" where
  "handshake_ok r h \<longleftrightarrow>
     (case (hs_proposal h, hs_messages h, hs_checkpoint h) of
        ((eP, iP, dP), (eM, iM, dM), (eC, iC, dC)) \<Rightarrow>
          bound_event r ''porfirium.run.result_proposed.v1'' eP iP dP
        \<and> bound_event r ''porfirium.run.messages_committed.v1'' eM iM dM
        \<and> bound_event r ''porfirium.run.checkpoint_committed.v1'' eC iC dC
        \<and> iP \<noteq> iM \<and> iP \<noteq> iC \<and> iM \<noteq> iC
        \<and> (\<exists>attempt. r_active r = Some attempt \<and> d_attempt_id dP = Good attempt)
        \<and> d_lease_epoch dP = Good (int (r_epoch r)) \<and> 0 < r_epoch r
        \<and> required_of h \<subseteq> {''messages'', ''checkpoint''}
        \<and> (\<exists>ids mids. all_values (d_final_message_ids dP) = Inr ids
             \<and> (''messages'' \<in> required_of h \<longleftrightarrow> ids \<noteq> [])
             \<and> all_values (d_message_ids dM) = Inr mids \<and> set mids = set ids)
        \<and> (''checkpoint'' \<in> required_of h \<longleftrightarrow> d_final_checkpoint_id dP \<noteq> Missing)
        \<and> d_final_checkpoint_id dP \<noteq> Malformed
        \<and> d_checkpoint_id dC = d_final_checkpoint_id dP)"

definition complete_set :: "handshake \<Rightarrow> bool \<Rightarrow> bool \<Rightarrow> bool \<Rightarrow> bool" where
  "complete_set h p m c \<longleftrightarrow> p \<and> (''messages'' \<in> required_of h \<longrightarrow> m)
     \<and> (''checkpoint'' \<in> required_of h \<longrightarrow> c)"

definition same_run :: "run_row \<Rightarrow> run_row \<Rightarrow> bool" where
  "same_run r r' \<longleftrightarrow> r_run_id r' = r_run_id r \<and> r_user_id r' = r_user_id r
     \<and> r_conversation_id r' = r_conversation_id r \<and> r_thread_id r' = r_thread_id r
     \<and> r_trace_id r' = r_trace_id r \<and> r_epoch r' = r_epoch r"

definition open_row :: "run_row \<Rightarrow> bool \<Rightarrow> run_row \<Rightarrow> bool" where
  "open_row r p r' \<longleftrightarrow> same_run r r' \<and> r_active r' = r_active r \<and> \<not> terminal (r_state r')
     \<and> (p \<longrightarrow> r_state r' = Completion_reconciling)"

definition stored_confirmations ::
  "handshake \<Rightarrow> bool \<Rightarrow> bool \<Rightarrow> confirmation_row list \<Rightarrow> bool" where
  "stored_confirmations h m c ns \<longleftrightarrow>
     (\<forall>n \<in> set ns. (n_kind n = ''messages'' \<and> m \<and> n_payload n = snd (snd (hs_messages h)))
        \<or> (n_kind n = ''checkpoint'' \<and> c \<and> n_payload n = snd (snd (hs_checkpoint h))))
   \<and> (m \<longrightarrow> (\<exists>n \<in> set ns. n_kind n = ''messages''))
   \<and> (c \<longrightarrow> (\<exists>n \<in> set ns. n_kind n = ''checkpoint''))"

definition proposal_row :: "run_row \<Rightarrow> handshake \<Rightarrow> completion_row \<Rightarrow> bool" where
  "proposal_row r h k \<longleftrightarrow> c_run k = r_run_id r
     \<and> all_values (d_final_message_ids (snd (snd (hs_proposal h)))) = Inr (c_messages k)
     \<and> c_checkpoint k = fld_value (d_final_checkpoint_id (snd (snd (hs_proposal h))))
     \<and> set (c_required k) = required_of h"

text \<open>The state with the given events seen; before the convergence the confirmation flags may lag.\<close>

definition handshake_state ::
  "bool \<Rightarrow> run_row \<Rightarrow> handshake \<Rightarrow> bool \<Rightarrow> bool \<Rightarrow> bool \<Rightarrow> runner_db \<Rightarrow> bool" where
  "handshake_state converged r h p m c s \<longleftrightarrow>
     (m \<longrightarrow> ''messages'' \<in> required_of h) \<and> (c \<longrightarrow> ''checkpoint'' \<in> required_of h)
   \<and> (\<exists>r'. row_by r_run_id (r_run_id r) (runs s) = Some r'
        \<and> (if converged \<and> complete_set h p m c then same_run r r' \<and> r_state r' = Completed
           else open_row r p r'))
   \<and> (fst (snd (hs_proposal h)) \<in> fst ` set (run_inbox s) \<longleftrightarrow> p)
   \<and> (fst (snd (hs_messages h)) \<in> fst ` set (run_inbox s) \<longleftrightarrow> m)
   \<and> (fst (snd (hs_checkpoint h)) \<in> fst ` set (run_inbox s) \<longleftrightarrow> c)
   \<and> stored_confirmations h m c (confirmations_of (r_run_id r) (confirmations s))
   \<and> distinct (map c_run (completions s))
   \<and> (if p then \<exists>k. completion_of (r_run_id r) s = Some k \<and> proposal_row r h k
          \<and> (c_messages_confirmed k \<longrightarrow> m) \<and> (c_checkpoint_confirmed k \<longrightarrow> c)
          \<and> (converged \<longrightarrow> (m \<longrightarrow> c_messages_confirmed k) \<and> (c \<longrightarrow> c_checkpoint_confirmed k))
      else completion_of (r_run_id r) s = None
        \<and> \<not> has_row c_event (fst (snd (hs_proposal h))) (completions s))"

section \<open>Convergence\<close>

lemma apply_matching:
  assumes "\<forall>n \<in> set ns.
      (n_kind n = ''messages'' \<and> all_values (d_message_ids (n_payload n)) = Inr mids)
    \<or> (n_kind n = ''checkpoint'' \<and> d_checkpoint_id (n_payload n) = ck \<and> ck \<noteq> Missing \<and> ck \<noteq> Malformed)"
    and "set mids = set (c_messages k)" and "c_checkpoint k = fld_value ck"
  shows "apply_confirmations ns k = Inr (k
    \<lparr>c_messages_confirmed := c_messages_confirmed k \<or> (\<exists>n \<in> set ns. n_kind n = ''messages''),
     c_checkpoint_confirmed := c_checkpoint_confirmed k \<or> (\<exists>n \<in> set ns. n_kind n = ''checkpoint'')\<rparr>)"
  using assms
proof (induction ns arbitrary: k)
  case (Cons n ns)
  show ?case
  proof (cases "n_kind n = ''messages''")
    case True
    then have "all_values (d_message_ids (n_payload n)) = Inr mids" using Cons.prems(1) by auto
    then show ?thesis using Cons.IH [of "k\<lparr>c_messages_confirmed := True\<rparr>"] Cons.prems True by simp
  next
    case False
    then obtain v where "d_checkpoint_id (n_payload n) = Good v" "ck = Good v" "n_kind n = ''checkpoint''"
      using Cons.prems(1) by (cases ck) auto
    then show ?thesis using Cons.IH [of "k\<lparr>c_checkpoint_confirmed := True\<rparr>"] Cons.prems False
      by (simp add: need_value_def)
  qed
qed simp

text \<open>After an event has been recorded, the convergence brings the flags and the run up to date.\<close>

lemma handshake_converge:
  assumes ok: "handshake_ok r h" and st: "handshake_state False r h p m c s"
  shows "\<exists>s'. converge (r_run_id r) x s = Inr s' \<and> handshake_state True r h p m c s'"
proof -
  let ?run = "r_run_id r"
  obtain r' where row: "row_by r_run_id ?run (runs s) = Some r'" "open_row r p r'"
    using st by (auto simp: handshake_state_def)
  show ?thesis
  proof (cases p)
    case False
    then have "converge ?run x s = Inr s" using st by (simp add: converge_def handshake_state_def)
    then show ?thesis using st False by (simp add: handshake_state_def complete_set_def)
  next
    case True
    obtain k where k: "completion_of ?run s = Some k" "proposal_row r h k"
      "c_messages_confirmed k \<longrightarrow> m" "c_checkpoint_confirmed k \<longrightarrow> c"
      using st True by (auto simp: handshake_state_def)
    let ?ns = "confirmations_of ?run (confirmations s)"
    have ns: "stored_confirmations h m c ?ns" using st by (simp add: handshake_state_def)
    obtain mids ids where mids: "all_values (d_message_ids (snd (snd (hs_messages h)))) = Inr mids"
      "all_values (d_final_message_ids (snd (snd (hs_proposal h)))) = Inr ids" "set mids = set ids"
      using ok by (auto simp: handshake_ok_def split: prod.splits)
    let ?ck = "d_final_checkpoint_id (snd (snd (hs_proposal h)))"
    have ck: "d_checkpoint_id (snd (snd (hs_checkpoint h))) = ?ck" "?ck \<noteq> Malformed"
      "''checkpoint'' \<in> required_of h \<longleftrightarrow> ?ck \<noteq> Missing"
      using ok by (auto simp: handshake_ok_def split: prod.splits)
    let ?k' = "k\<lparr>c_messages_confirmed := m, c_checkpoint_confirmed := c\<rparr>"
    have "apply_confirmations ?ns k = Inr (k
      \<lparr>c_messages_confirmed := c_messages_confirmed k \<or> (\<exists>n \<in> set ?ns. n_kind n = ''messages''),
       c_checkpoint_confirmed := c_checkpoint_confirmed k \<or> (\<exists>n \<in> set ?ns. n_kind n = ''checkpoint'')\<rparr>)"
    proof (rule apply_matching [where mids = mids and ck = ?ck])
      show "\<forall>n \<in> set ?ns. (n_kind n = ''messages'' \<and> all_values (d_message_ids (n_payload n)) = Inr mids)
        \<or> (n_kind n = ''checkpoint'' \<and> d_checkpoint_id (n_payload n) = ?ck \<and> ?ck \<noteq> Missing
           \<and> ?ck \<noteq> Malformed)"
        using ns mids ck st by (auto simp: stored_confirmations_def handshake_state_def)
      show "set mids = set (c_messages k)" "c_checkpoint k = fld_value ?ck"
        using k(2) mids by (auto simp: proposal_row_def)
    qed
    moreover have "(\<exists>n \<in> set ?ns. n_kind n = ''messages'') = m"
      "(\<exists>n \<in> set ?ns. n_kind n = ''checkpoint'') = c"
      using ns by (auto simp: stored_confirmations_def)
    ultimately have app: "apply_confirmations ?ns k = Inr ?k'"
      using k(3,4) by (cases m; cases c) auto
    let ?s1 = "update_completion ?run (\<lambda>_. ?k') s"
    have d: "distinct (map c_run (completions s))" using st by (simp add: handshake_state_def)
    have kr: "c_run k = ?run" using k(1) by (rule completion_of_run)
    have q: "c_run ?k' = ?run" using kr by simp
    have look: "completion_of ?run (update_completion ?run f t)
        = map_option f (completion_of ?run t)"
      if "distinct (map c_run (completions t))" "\<And>c. completion_of ?run t = Some c \<Longrightarrow> c_run (f c) = ?run"
      for f t
      using completion_of_update [OF that(2,1), where run' = ?run] by (simp add: completion_of_def)
    have s1: "completion_of ?run ?s1 = Some ?k'" "distinct (map c_run (completions ?s1))"
      using look [OF d] update_completion_keys [of ?run s "\<lambda>_. ?k'"] d k(1) q by simp_all
    have prow: "proposal_row r h ?k'" using k(2) by (simp add: proposal_row_def)
    have ready: "completion_ready ?k' \<longleftrightarrow> complete_set h p m c"
      using k(2) True by (simp add: completion_ready_def complete_set_def proposal_row_def)
    show ?thesis
    proof (cases "complete_set h p m c")
      case False
      have "converge ?run x s = Inr ?s1"
        using k(1) app row ready False by (simp add: converge_def Let_def)
      moreover have "handshake_state True r h p m c ?s1"
        using st row s1 prow True False by (auto simp: handshake_state_def)
      ultimately show ?thesis by blast
    next
      case complete: True
      have cr: "r_state r' = Completion_reconciling" "same_run r r'" "\<not> terminal (r_state r')"
        using row(2) True by (auto simp: open_row_def)
      let ?s2 = "complete_run ?run ?k' x ?s1"
      have "converge ?run x s = Inr ?s2"
        using k(1) app row ready complete cr by (simp add: converge_def Let_def)
      moreover have "handshake_state True r h p m c ?s2"
      proof -
        let ?g = "\<lambda>c. c\<lparr>c_reconciled := Some (re_now x)\<rparr>"
        obtain s3 where s3: "?s2 = update_completion ?run ?g s3" "completions s3 = completions ?s1"
          "runs s3 = update_where (\<lambda>q. r_run_id q = ?run \<and> r_state q = Completion_reconciling)
            (\<lambda>q. q\<lparr>r_state := Completed, r_terminal_code := None, r_active := None,
                   r_updated := re_now x\<rparr>) (runs s)"
          "run_inbox s3 = run_inbox s" "confirmations s3 = confirmations s"
          using row(1) cr(1) by (simp add: complete_run_def Let_def)
        have "completion_of ?run ?s2 = Some (?g ?k')"
          using s3(1,2) s1 look [of s3 ?g] by (auto simp: completion_of_def dest: row_by_SomeD)
        moreover have "distinct (map c_run (completions ?s2))"
        proof -
          have g: "c_run (?g q) = ?run" if "completion_of ?run s3 = Some q" for q
            using completion_of_run [OF that] by simp
          have "distinct (map c_run (completions s3))" using s3(2) s1(2) by simp
          then show ?thesis using update_completion_keys [of ?run s3 ?g, OF g] s3(1) by simp
        qed
        moreover have "row_by r_run_id ?run (runs ?s2) = Some (r'\<lparr>r_state := Completed,
            r_terminal_code := None, r_active := None, r_updated := re_now x\<rparr>)"
          using row(1) cr(1) s3(1,3) by (auto simp: row_by_update_where dest: row_by_SomeD)
        moreover have "run_inbox ?s2 = run_inbox s" "confirmations ?s2 = confirmations s"
          using s3 by simp_all
        moreover have "proposal_row r h (?g ?k')" using prow by (simp add: proposal_row_def)
        ultimately show ?thesis using st True complete cr(2)
          by (simp add: handshake_state_def same_run_def)
      qed
      ultimately show ?thesis by blast
    qed
  qed
qed

section \<open>The three events\<close>

lemma consume_bound:
  assumes "bound_event r kind e i d" and "row_by r_run_id (r_run_id r) (runs s) = Some r'"
    and "same_run r r'" and "i \<notin> fst ` set (run_inbox s)"
    and "run_event_effect kind r' i e d (re_now x) (s\<lparr>run_inbox := run_inbox s @ [(i, kind)]\<rparr>) = Inr s2"
    and "starts_with ''porfirium.run.'' kind" and "converge (r_run_id r) x s2 = Inr s3"
  shows "consume_run_event e x s = Inr (True, s3)"
proof -
  have "ev_run_id e = Good (r_run_id r)"
    using assms(1) by (simp add: bound_event_def validate_run_binding_def)
  then show ?thesis
    using assms by (simp add: consume_run_event_def bound_event_def same_run_def Let_def)
qed

lemma handshake_open:
  assumes "handshake_state True r h p m c s" and "\<not> complete_set h p m c"
  obtains r' where "row_by r_run_id (r_run_id r) (runs s) = Some r'" "open_row r p r'"
  using assms by (auto simp: handshake_state_def)

lemma handshake_proposal_step:
  assumes ok: "handshake_ok r h" and st: "handshake_state True r h False m c s"
  shows "\<exists>s'. consume_run_event (fst (hs_proposal h)) x s = Inr (True, s')
    \<and> handshake_state True r h True m c s'"
proof -
  obtain eP iP dP where P: "hs_proposal h = (eP, iP, dP)" by (cases "hs_proposal h")
  obtain r' where row: "row_by r_run_id (r_run_id r) (runs s) = Some r'" "open_row r False r'"
    using st by (rule handshake_open) (simp add: complete_set_def)
  obtain attempt ids where a: "r_active r = Some attempt" "d_attempt_id dP = Good attempt"
    "d_lease_epoch dP = Good (int (r_epoch r))" "0 < r_epoch r"
    "required_of h \<subseteq> {''messages'', ''checkpoint''}"
    "all_values (d_final_message_ids dP) = Inr ids" "''messages'' \<in> required_of h \<longleftrightarrow> ids \<noteq> []"
    "''checkpoint'' \<in> required_of h \<longleftrightarrow> d_final_checkpoint_id dP \<noteq> Missing"
    "d_final_checkpoint_id dP \<noteq> Malformed"
    using ok P by (auto simp: handshake_ok_def split: prod.splits)
  have be: "bound_event r ''porfirium.run.result_proposed.v1'' eP iP dP"
    using ok P by (auto simp: handshake_ok_def split: prod.splits)
  have dd: "set (dedup xs) = set xs" for xs :: "pystr list" by (induction xs) auto
  then have req: "set (dedup (d_required_confirmations dP)) = required_of h"
    by (simp add: required_of_def P)
  have none: "completion_of (r_run_id r) s = None" "\<not> has_row c_event iP (completions s)"
    and inbox: "iP \<notin> fst ` set (run_inbox s)"
    using st P by (simp_all add: handshake_state_def)
  have r': "r_run_id r' = r_run_id r" "r_active r' = Some attempt" "r_epoch r' = r_epoch r"
    "\<not> terminal (r_state r')" "same_run r r'"
    using row(2) a(1) by (simp_all add: open_row_def same_run_def)
  let ?kind = "''porfirium.run.result_proposed.v1''"
  let ?s1 = "s\<lparr>run_inbox := run_inbox s @ [(iP, ?kind)]\<rparr>"
  let ?k = "\<lparr>c_run = r_run_id r, c_event = iP, c_attempt = attempt, c_epoch = r_epoch r,
    c_messages = ids, c_checkpoint = fld_value (d_final_checkpoint_id dP),
    c_required = dedup (d_required_confirmations dP), c_messages_confirmed = False,
    c_checkpoint_confirmed = False, c_reconciled = None\<rparr>"
  let ?f = "\<lambda>q. q\<lparr>r_state := Completion_reconciling, r_updated := re_now x\<rparr>"
  let ?s2 = "?s1\<lparr>completions := completions s @ [?k],
    runs := update_where (\<lambda>q. r_run_id q = r_run_id r) ?f (runs s)\<rparr>"
  have "proposal r' iP dP (re_now x) ?s1 = Inr ?s2"
    using a none r' req by (simp add: proposal_def need_def Let_def completion_of_def)
  then have eff: "run_event_effect ?kind r' iP eP dP (re_now x) ?s1 = Inr ?s2"
    by (simp add: run_event_effect_def)
  have row2: "row_by r_run_id (r_run_id r) (runs ?s2) = Some (?f r')"
    using row(1) r'(1) by (simp add: row_by_update_where)
  have "open_row r True (?f r')"
    using r' a(1) by (simp add: open_row_def same_run_def terminal_def)
  moreover have "completion_of (r_run_id r) ?s2 = Some ?k"
    using none(1) by (simp add: completion_of_def row_by_snoc)
  moreover have "proposal_row r h ?k" using a P req by (simp add: proposal_row_def)
  moreover have "distinct (map c_run (completions ?s2))"
    using st none(1) by (simp add: handshake_state_def completion_of_def row_by_None_iff)
  moreover have "iP \<noteq> fst (snd (hs_messages h))" "iP \<noteq> fst (snd (hs_checkpoint h))"
    using ok P by (auto simp: handshake_ok_def split: prod.splits)
  ultimately have "handshake_state False r h True m c ?s2"
    using st row2 P by (simp add: handshake_state_def)
  from handshake_converge [OF ok this]
  obtain s3 where s3: "converge (r_run_id r) x ?s2 = Inr s3" "handshake_state True r h True m c s3"
    by blast
  have "consume_run_event eP x s = Inr (True, s3)"
    by (rule consume_bound [OF be row(1) r'(5) inbox eff _ s3(1)]) (simp add: starts_with_def)
  then show ?thesis using s3(2) P by auto
qed

lemma upsert_new:
  assumes "\<forall>n \<in> set (confirmations_of run t). n_kind n \<noteq> kind"
  shows "upsert_confirmation run kind d t = t @ [\<lparr>n_run = run, n_kind = kind, n_payload = d\<rparr>]"
  using assms by (auto simp: upsert_confirmation_def has_row_iff confirmations_of_def)

lemma handshake_messages_step:
  assumes ok: "handshake_ok r h" and need: "''messages'' \<in> required_of h"
    and st: "handshake_state True r h p False c s"
  shows "\<exists>s'. consume_run_event (fst (hs_messages h)) x s = Inr (True, s')
    \<and> handshake_state True r h p True c s'"
proof -
  let ?run = "r_run_id r"
  let ?kind = "''porfirium.run.messages_committed.v1''"
  obtain eM iM dM where M: "hs_messages h = (eM, iM, dM)" by (cases "hs_messages h")
  obtain r' where row: "row_by r_run_id ?run (runs s) = Some r'" "open_row r p r'"
    using st by (rule handshake_open) (simp add: complete_set_def need)
  then have r': "r_run_id r' = ?run" "same_run r r'" by (simp_all add: open_row_def same_run_def)
  have be: "bound_event r ?kind eM iM dM" and ne: "iM \<noteq> fst (snd (hs_proposal h))"
    "iM \<noteq> fst (snd (hs_checkpoint h))"
    using ok M by (auto simp: handshake_ok_def split: prod.splits)
  obtain ids mids where ids: "all_values (d_message_ids dM) = Inr mids" "set mids = set ids"
    "all_values (d_final_message_ids (snd (snd (hs_proposal h)))) = Inr ids"
    using ok M by (auto simp: handshake_ok_def split: prod.splits)
  have inbox: "iM \<notin> fst ` set (run_inbox s)" using st M by (simp add: handshake_state_def)
  let ?s1 = "s\<lparr>run_inbox := run_inbox s @ [(iM, ?kind)]\<rparr>"
  let ?s2 = "?s1\<lparr>confirmations := confirmations s @
    [\<lparr>n_run = ?run, n_kind = ''messages'', n_payload = dM\<rparr>]\<rparr>"
  have ns: "stored_confirmations h False c (confirmations_of ?run (confirmations s))"
    using st by (simp add: handshake_state_def)
  then have up: "upsert_confirmation ?run ''messages'' dM (confirmations s) = confirmations ?s2"
    by (subst upsert_new) (auto simp: stored_confirmations_def)
  have ns2: "stored_confirmations h True c (confirmations_of ?run (confirmations ?s2))"
    using ns M by (auto simp: stored_confirmations_def confirmations_of_def)
  have "\<exists>s3. run_event_effect ?kind r' iM eM dM (re_now x) ?s1 = Inr s3
      \<and> handshake_state False r h p True c s3"
  proof (cases p)
    case False
    then have "confirmation ?run ''messages'' dM ?s1 = Inr ?s2"
      using st up by (simp add: confirmation_def completion_of_def handshake_state_def Let_def)
    moreover have "handshake_state False r h p True c ?s2"
      using st False row ns2 M ne need
      by (auto simp: handshake_state_def completion_of_def complete_set_def)
    ultimately show ?thesis using r' by (auto simp: run_event_effect_def)
  next
    case True
    obtain k where k: "completion_of ?run s = Some k" "proposal_row r h k"
      "\<not> c_messages_confirmed k" "c_checkpoint_confirmed k \<longrightarrow> c"
      using st True by (auto simp: handshake_state_def)
    let ?f = "\<lambda>k. k\<lparr>c_messages_confirmed := True\<rparr>"
    have "c_messages k = ids" using k(2) ids(3) by (simp add: proposal_row_def)
    then have "confirmation ?run ''messages'' dM ?s1 = Inr (update_completion ?run ?f ?s2)"
      using k(1) up ids by (simp add: confirmation_def completion_of_def Let_def)
    moreover have "handshake_state False r h p True c (update_completion ?run ?f ?s2)"
    proof -
      have d: "distinct (map c_run (completions ?s2))" using st by (simp add: handshake_state_def)
      have g: "c_run (?f q) = ?run" if "completion_of ?run ?s2 = Some q" for q
        using completion_of_run [OF that] by simp
      have "completion_of ?run (update_completion ?run ?f ?s2) = Some (?f k)"
        using completion_of_update [OF g d, where run' = ?run] k(1) by (simp add: completion_of_def)
      moreover have "distinct (map c_run (completions (update_completion ?run ?f ?s2)))"
        using update_completion_keys [OF g d] d by simp
      moreover have "proposal_row r h (?f k)" using k(2) by (simp add: proposal_row_def)
      ultimately show ?thesis
        using st True row ns2 M ne need k(4) by (auto simp: handshake_state_def complete_set_def)
    qed
    ultimately show ?thesis using r' by (auto simp: run_event_effect_def)
  qed
  then obtain s3 where s3: "run_event_effect ?kind r' iM eM dM (re_now x) ?s1 = Inr s3"
    "handshake_state False r h p True c s3" by blast
  from handshake_converge [OF ok s3(2)]
  obtain s4 where s4: "converge ?run x s3 = Inr s4" "handshake_state True r h p True c s4" by blast
  have "consume_run_event eM x s = Inr (True, s4)"
    by (rule consume_bound [OF be row(1) r'(2) inbox s3(1) _ s4(1)]) (simp add: starts_with_def)
  then show ?thesis using s4(2) M by auto
qed

lemma handshake_checkpoint_step:
  assumes ok: "handshake_ok r h" and need: "''checkpoint'' \<in> required_of h"
    and st: "handshake_state True r h p m False s"
  shows "\<exists>s'. consume_run_event (fst (hs_checkpoint h)) x s = Inr (True, s')
    \<and> handshake_state True r h p m True s'"
proof -
  let ?run = "r_run_id r"
  let ?kind = "''porfirium.run.checkpoint_committed.v1''"
  obtain eC iC dC where C: "hs_checkpoint h = (eC, iC, dC)" by (cases "hs_checkpoint h")
  obtain r' where row: "row_by r_run_id ?run (runs s) = Some r'" "open_row r p r'"
    using st by (rule handshake_open) (simp add: complete_set_def need)
  then have r': "r_run_id r' = ?run" "same_run r r'" by (simp_all add: open_row_def same_run_def)
  have be: "bound_event r ?kind eC iC dC" and ne: "iC \<noteq> fst (snd (hs_proposal h))"
    "iC \<noteq> fst (snd (hs_messages h))"
    using ok C by (auto simp: handshake_ok_def split: prod.splits)
  let ?final = "d_final_checkpoint_id (snd (snd (hs_proposal h)))"
  have "d_checkpoint_id dC = ?final" "?final \<noteq> Missing" "?final \<noteq> Malformed"
    using ok C need by (auto simp: handshake_ok_def split: prod.splits)
  then obtain v where v: "d_checkpoint_id dC = Good v" "?final = Good v" by (cases ?final) auto
  have inbox: "iC \<notin> fst ` set (run_inbox s)" using st C by (simp add: handshake_state_def)
  let ?s1 = "s\<lparr>run_inbox := run_inbox s @ [(iC, ?kind)]\<rparr>"
  let ?s2 = "?s1\<lparr>confirmations := confirmations s @
    [\<lparr>n_run = ?run, n_kind = ''checkpoint'', n_payload = dC\<rparr>]\<rparr>"
  have ns: "stored_confirmations h m False (confirmations_of ?run (confirmations s))"
    using st by (simp add: handshake_state_def)
  then have up: "upsert_confirmation ?run ''checkpoint'' dC (confirmations s) = confirmations ?s2"
    by (subst upsert_new) (auto simp: stored_confirmations_def)
  have ns2: "stored_confirmations h m True (confirmations_of ?run (confirmations ?s2))"
    using ns C by (auto simp: stored_confirmations_def confirmations_of_def)
  have "\<exists>s3. run_event_effect ?kind r' iC eC dC (re_now x) ?s1 = Inr s3
      \<and> handshake_state False r h p m True s3"
  proof (cases p)
    case False
    then have "confirmation ?run ''checkpoint'' dC ?s1 = Inr ?s2"
      using st up by (simp add: confirmation_def completion_of_def handshake_state_def Let_def)
    moreover have "handshake_state False r h p m True ?s2"
      using st False row ns2 C ne need
      by (auto simp: handshake_state_def completion_of_def complete_set_def)
    ultimately show ?thesis using r' by (auto simp: run_event_effect_def)
  next
    case True
    obtain k where k: "completion_of ?run s = Some k" "proposal_row r h k"
      "c_messages_confirmed k \<longrightarrow> m" "\<not> c_checkpoint_confirmed k"
      using st True by (auto simp: handshake_state_def)
    let ?f = "\<lambda>k. k\<lparr>c_checkpoint_confirmed := True\<rparr>"
    have "c_checkpoint k = Some v" using k(2) v by (simp add: proposal_row_def)
    then have "confirmation ?run ''checkpoint'' dC ?s1 = Inr (update_completion ?run ?f ?s2)"
      using k(1) up v by (simp add: confirmation_def completion_of_def need_value_def Let_def)
    moreover have "handshake_state False r h p m True (update_completion ?run ?f ?s2)"
    proof -
      have d: "distinct (map c_run (completions ?s2))" using st by (simp add: handshake_state_def)
      have g: "c_run (?f q) = ?run" if "completion_of ?run ?s2 = Some q" for q
        using completion_of_run [OF that] by simp
      have "completion_of ?run (update_completion ?run ?f ?s2) = Some (?f k)"
        using completion_of_update [OF g d, where run' = ?run] k(1) by (simp add: completion_of_def)
      moreover have "distinct (map c_run (completions (update_completion ?run ?f ?s2)))"
        using update_completion_keys [OF g d] d by simp
      moreover have "proposal_row r h (?f k)" using k(2) by (simp add: proposal_row_def)
      ultimately show ?thesis
        using st True row ns2 C ne need k(3) by (auto simp: handshake_state_def complete_set_def)
    qed
    ultimately show ?thesis using r' by (auto simp: run_event_effect_def)
  qed
  then obtain s3 where s3: "run_event_effect ?kind r' iC eC dC (re_now x) ?s1 = Inr s3"
    "handshake_state False r h p m True s3" by blast
  from handshake_converge [OF ok s3(2)]
  obtain s4 where s4: "converge ?run x s3 = Inr s4" "handshake_state True r h p m True s4" by blast
  have "consume_run_event eC x s = Inr (True, s4)"
    by (rule consume_bound [OF be row(1) r'(2) inbox s3(1) _ s4(1)]) (simp add: starts_with_def)
  then show ?thesis using s4(2) C by auto
qed

section \<open>Any order, any number of times\<close>

definition handshake_member :: "handshake \<Rightarrow> envelope \<Rightarrow> bool" where
  "handshake_member h e \<longleftrightarrow> e = fst (hs_proposal h)
     \<or> (''messages'' \<in> required_of h \<and> e = fst (hs_messages h))
     \<or> (''checkpoint'' \<in> required_of h \<and> e = fst (hs_checkpoint h))"

text \<open>Nothing of the handshake has arrived: the run is open, has no proposal and no confirmations.\<close>

definition handshake_start :: "run_row \<Rightarrow> handshake \<Rightarrow> runner_db \<Rightarrow> bool" where
  "handshake_start r h db \<longleftrightarrow> handshake_ok r h
     \<and> row_by r_run_id (r_run_id r) (runs db) = Some r \<and> \<not> terminal (r_state r)
     \<and> confirmations_of (r_run_id r) (confirmations db) = []
     \<and> distinct (map c_run (completions db)) \<and> completion_of (r_run_id r) db = None
     \<and> \<not> has_row c_event (fst (snd (hs_proposal h))) (completions db)
     \<and> \<not> event_seen db (fst (snd (hs_proposal h)))
     \<and> \<not> event_seen db (fst (snd (hs_messages h)))
     \<and> \<not> event_seen db (fst (snd (hs_checkpoint h)))"

lemma handshake_start_state:
  "handshake_start r h db \<Longrightarrow> handshake_state True r h False False False db"
  by (simp add: handshake_start_def handshake_state_def open_row_def same_run_def
      stored_confirmations_def event_seen_def complete_set_def)

lemma handshake_identity:
  assumes "handshake_ok r h"
  shows "event_identity (fst (hs_proposal h)) = fst (snd (hs_proposal h))"
    "event_identity (fst (hs_messages h)) = fst (snd (hs_messages h))"
    "event_identity (fst (hs_checkpoint h)) = fst (snd (hs_checkpoint h))"
    "validate_envelope (fst (hs_proposal h))" "validate_envelope (fst (hs_messages h))"
    "validate_envelope (fst (hs_checkpoint h))"
    "fst (hs_proposal h) \<noteq> fst (hs_messages h)" "fst (hs_proposal h) \<noteq> fst (hs_checkpoint h)"
    "fst (hs_messages h) \<noteq> fst (hs_checkpoint h)"
  using assms
  by (auto simp: handshake_ok_def bound_event_def event_identity_def split: prod.splits)

lemma handshake_deliver:
  assumes ok: "handshake_ok r h"
  shows "list_all (\<lambda>(e, x). handshake_member h e) evs \<Longrightarrow> handshake_state True r h p m c s \<Longrightarrow>
    handshake_state True r h (p \<or> fst (hs_proposal h) \<in> fst ` set evs)
      (m \<or> fst (hs_messages h) \<in> fst ` set evs) (c \<or> fst (hs_checkpoint h) \<in> fst ` set evs)
      (deliver consume_run_event evs s)"
proof (induction evs arbitrary: p m c s)
  case (Cons ev evs)
  note hid = handshake_identity [OF ok]
  obtain e x where ev: "ev = (e, x)" by (cases ev)
  have mem: "handshake_member h e" "list_all (\<lambda>(e, x). handshake_member h e) evs"
    using Cons.prems(1) ev by auto
  have st: "handshake_state True r h p m c s" by (rule Cons.prems(2))
  have seen: "fst (snd (hs_proposal h)) \<in> fst ` set (run_inbox s) \<longleftrightarrow> p"
    "fst (snd (hs_messages h)) \<in> fst ` set (run_inbox s) \<longleftrightarrow> m"
    "fst (snd (hs_checkpoint h)) \<in> fst ` set (run_inbox s) \<longleftrightarrow> c"
    using st by (simp_all add: handshake_state_def)
  have "\<exists>res s'. consume_run_event e x s = Inr (res, s')
    \<and> handshake_state True r h (p \<or> e = fst (hs_proposal h)) (m \<or> e = fst (hs_messages h))
        (c \<or> e = fst (hs_checkpoint h)) s'"
  proof -
    consider (P) "e = fst (hs_proposal h)"
      | (M) "e = fst (hs_messages h)" "''messages'' \<in> required_of h"
      | (C) "e = fst (hs_checkpoint h)" "''checkpoint'' \<in> required_of h"
      using mem(1) unfolding handshake_member_def by blast
    then show ?thesis
    proof cases
      case P
      show ?thesis
      proof (cases p)
        case True
        then have "consume_run_event e x s = Inr (False, s)"
          using seen hid P by (intro consume_seen_event) (auto simp: event_seen_def)
        then show ?thesis using st True P hid by auto
      next
        case False
        then show ?thesis using handshake_proposal_step [OF ok, of m c s x] st P hid by auto
      qed
    next
      case M
      show ?thesis
      proof (cases m)
        case True
        then have "consume_run_event e x s = Inr (False, s)"
          using seen hid M by (intro consume_seen_event) (auto simp: event_seen_def)
        then show ?thesis using st True M hid by auto
      next
        case False
        then show ?thesis using handshake_messages_step [OF ok M(2), of p c s x] st M hid by auto
      qed
    next
      case C
      show ?thesis
      proof (cases c)
        case True
        then have "consume_run_event e x s = Inr (False, s)"
          using seen hid C by (intro consume_seen_event) (auto simp: event_seen_def)
        then show ?thesis using st True C hid by auto
      next
        case False
        then show ?thesis using handshake_checkpoint_step [OF ok C(2), of p m s x] st C hid by auto
      qed
    qed
  qed
  then obtain res s' where s': "consume_run_event e x s = Inr (res, s')"
    "handshake_state True r h (p \<or> e = fst (hs_proposal h)) (m \<or> e = fst (hs_messages h))
        (c \<or> e = fst (hs_checkpoint h)) s'" by blast
  have "(p \<or> e = fst (hs_proposal h)) \<or> fst (hs_proposal h) \<in> fst ` set evs
      \<longleftrightarrow> p \<or> fst (hs_proposal h) \<in> fst ` set (ev # evs)"
    "(m \<or> e = fst (hs_messages h)) \<or> fst (hs_messages h) \<in> fst ` set evs
      \<longleftrightarrow> m \<or> fst (hs_messages h) \<in> fst ` set (ev # evs)"
    "(c \<or> e = fst (hs_checkpoint h)) \<or> fst (hs_checkpoint h) \<in> fst ` set evs
      \<longleftrightarrow> c \<or> fst (hs_checkpoint h) \<in> fst ` set (ev # evs)"
    using ev by auto
  then show ?case using Cons.IH [OF mem(2) s'(2)] s'(1) ev by simp
qed simp

text \<open>C8. The completion handshake: however the proposal and the commits it requires are ordered and
  however often each is delivered, every delivery is accepted, and the run is completed if and only
  if the proposal and all the required commits are among the deliveries.\<close>

theorem handshake_any_order:
  assumes "handshake_start r h db" and "list_all (\<lambda>(e, x). handshake_member h e) evs"
  shows "\<exists>r'. row_by r_run_id (r_run_id r) (runs (deliver consume_run_event evs db)) = Some r'
    \<and> (r_state r' = Completed \<longleftrightarrow> fst (hs_proposal h) \<in> fst ` set evs
        \<and> (''messages'' \<in> required_of h \<longrightarrow> fst (hs_messages h) \<in> fst ` set evs)
        \<and> (''checkpoint'' \<in> required_of h \<longrightarrow> fst (hs_checkpoint h) \<in> fst ` set evs))"
proof -
  have ok: "handshake_ok r h" using assms(1) by (simp add: handshake_start_def)
  have "handshake_state True r h (fst (hs_proposal h) \<in> fst ` set evs)
      (fst (hs_messages h) \<in> fst ` set evs) (fst (hs_checkpoint h) \<in> fst ` set evs)
      (deliver consume_run_event evs db)"
    using handshake_deliver [OF ok assms(2) handshake_start_state [OF assms(1)]] by simp
  then show ?thesis
    by (auto simp: handshake_state_def complete_set_def open_row_def terminal_def split: if_splits)
qed

lemma sample_event_valid:
  assumes "span_nonzero i"
  shows "bound_event (sample_row st active epoch u) kind (sample_event i kind d) i d"
proof -
  note t = sample_trace_ok
  have "validate_envelope (make_envelope 300 ''runtime'' kind i 0 2 3 4 1 sample_trace 9 d)"
    using t assms by (intro make_envelope_valid) (simp_all add: max_event_bytes_def)
  moreover have "validate_envelope (sample_event i kind d)
      = validate_envelope (make_envelope 300 ''runtime'' kind i 0 2 3 4 1 sample_trace 9 d)"
    by (simp add: sample_event_def validate_envelope_def size_ok_def contract_ok_def
        required_present_def)
  ultimately show ?thesis
    using trace_id_ok_uuid_hex [OF t]
    by (simp add: bound_event_def validate_run_binding_def sample_event_def make_envelope_def
        sample_row_def admitted_row_def sample_admission_def)
qed

definition sample_proposal_data :: event_data where
  "sample_proposal_data = empty_data\<lparr>d_attempt_id := Good 20, d_lease_epoch := Good 1,
     d_required_confirmations := [''messages'', ''checkpoint''], d_final_message_ids := [Good 70],
     d_final_checkpoint_id := Good 71\<rparr>"

definition sample_part :: "nat \<Rightarrow> pystr \<Rightarrow> event_data \<Rightarrow> envelope \<times> uuid \<times> event_data" where
  "sample_part n kind d = (sample_event (sample_id n) kind d, sample_id n, d)"

definition sample_handshake :: handshake where
  "sample_handshake = \<lparr>
     hs_proposal = sample_part 1 ''porfirium.run.result_proposed.v1'' sample_proposal_data,
     hs_messages = sample_part 2 ''porfirium.run.messages_committed.v1''
       (empty_data\<lparr>d_message_ids := [Good 70]\<rparr>),
     hs_checkpoint = sample_part 3 ''porfirium.run.checkpoint_committed.v1''
       (empty_data\<lparr>d_checkpoint_id := Good 71\<rparr>)\<rparr>"

lemma sample_handshake_parts:
  "hs_proposal sample_handshake = (sample_event (sample_id 1) ''porfirium.run.result_proposed.v1''
     sample_proposal_data, sample_id 1, sample_proposal_data)"
  "hs_messages sample_handshake = (sample_event (sample_id 2) ''porfirium.run.messages_committed.v1''
     (empty_data\<lparr>d_message_ids := [Good 70]\<rparr>), sample_id 2,
     empty_data\<lparr>d_message_ids := [Good 70]\<rparr>)"
  "hs_checkpoint sample_handshake = (sample_event (sample_id 3)
     ''porfirium.run.checkpoint_committed.v1'' (empty_data\<lparr>d_checkpoint_id := Good 71\<rparr>),
     sample_id 3, empty_data\<lparr>d_checkpoint_id := Good 71\<rparr>)"
  "required_of sample_handshake = {''messages'', ''checkpoint''}"
  by (simp_all add: sample_handshake_def sample_part_def required_of_def sample_proposal_data_def)

lemma sample_proposal_fields:
  "d_attempt_id sample_proposal_data = Good 20" "d_lease_epoch sample_proposal_data = Good 1"
  "d_final_message_ids sample_proposal_data = [Good 70]"
  "d_final_checkpoint_id sample_proposal_data = Good 71"
  by (simp_all add: sample_proposal_data_def)

lemma sample_row_fields:
  "r_active (sample_row st active epoch u) = active" "r_epoch (sample_row st active epoch u) = epoch"
  "r_state (sample_row st active epoch u) = st" "r_run_id (sample_row st active epoch u) = 1"
  by (simp_all add: sample_row_def admitted_row_def sample_admission_def)

lemma sample_handshake_ok: "handshake_ok (sample_row Running (Some 20) 1 6) sample_handshake"
proof -
  have "bound_event (sample_row Running (Some 20) 1 6) kind
      (sample_event (sample_id n) kind d) (sample_id n) d" if "n < 16" for n kind d
    using that by (intro sample_event_valid span_nonzero_sample)
  moreover have "sample_id 1 \<noteq> sample_id 2" "sample_id 1 \<noteq> sample_id 3" "sample_id 2 \<noteq> sample_id 3"
    by (simp_all add: sample_id_def)
  ultimately show ?thesis
    by (simp add: handshake_ok_def sample_handshake_parts sample_proposal_fields sample_row_fields
        need_value_def)
qed

lemma sample_handshake_start:
  "handshake_start (sample_row Running (Some 20) 1 6) sample_handshake sample_running"
  using sample_handshake_ok
  by (simp add: handshake_start_def sample_row_fields sample_running_def sample_starting_def
      sample_admitted_def empty_runner_db_def confirmations_of_def completion_of_def event_seen_def
      terminal_def)

lemma handshake_any_order_witness:
  "\<exists>r'. row_by r_run_id 1 (runs (deliver consume_run_event
      [(fst (hs_checkpoint sample_handshake), sample_env 8), (fst (hs_proposal sample_handshake), sample_env 9),
       (fst (hs_checkpoint sample_handshake), sample_env 10), (fst (hs_messages sample_handshake), sample_env 11)]
      sample_running)) = Some r' \<and> r_state r' = Completed"
proof -
  show ?thesis
    using handshake_any_order [OF sample_handshake_start, of
      "[(fst (hs_checkpoint sample_handshake), sample_env 8), (fst (hs_proposal sample_handshake), sample_env 9),
        (fst (hs_checkpoint sample_handshake), sample_env 10), (fst (hs_messages sample_handshake), sample_env 11)]"]
    by (simp add: handshake_member_def sample_handshake_parts(4) sample_row_fields)
qed

text \<open>Deliveries are at least once: an event that was applied changes nothing when it is delivered
  again, wherever the duplicate arrives among later events.\<close>

theorem redelivery_harmless:
  assumes "consume_run_event e x db = Inr (res, db')"
  shows "deliver consume_run_event (xs @ (e, y) # ys) db' = deliver consume_run_event (xs @ ys) db'"
  using assms by (rule run_inbox.redelivery)

lemma redelivery_harmless_witness:
  "\<exists>db'. deliver consume_run_event [(fst (hs_proposal sample_handshake), sample_env 9)] db' = db'
    \<and> db' \<noteq> sample_running"
proof -
  obtain db' where d: "consume_run_event (fst (hs_proposal sample_handshake)) (sample_env 8)
      sample_running = Inr (True, db')"
    and st: "handshake_state True (sample_row Running (Some 20) 1 6) sample_handshake True False
      False db'"
    using handshake_proposal_step [OF sample_handshake_ok handshake_start_state [OF sample_handshake_start]] by blast
  have "db' \<noteq> sample_running"
    using st by (auto simp: handshake_state_def sample_running_def sample_starting_def
        sample_admitted_def empty_runner_db_def)
  then show ?thesis using redelivery_harmless [OF d, of "[]" _ "[]"] by auto
qed

end
