(* ===== verification/Json.thy ===== *)
theory Json
  imports Text
begin

text \<open>
  JSON values, the canonical text \<open>canonical_json\<close> of \<open>agent_registry/domain.py\<close>
  (\<open>json.dumps\<close> with sorted keys, compact separators and \<open>ensure_ascii=False\<close>) and the regular
  expressions of the Agent Registry as executable predicates.
\<close>

section \<open>Values\<close>

text \<open>An object is the list of its members, without repeated keys (\<open>well_formed\<close>). A float carries
  the text Python prints for it.\<close>

datatype json =
    J_null
  | J_bool bool
  | J_int int
  | J_float pystr
  | J_str pystr
  | J_arr "json list"
  | J_obj "(pystr \<times> json) list"

fun member :: "pystr \<Rightarrow> (pystr \<times> json) list \<Rightarrow> json option" where
  "member k [] = None"
| "member k ((l, v) # ms) = (if l = k then Some v else member k ms)"

lemma member_map_of: "member k ms = map_of ms k"
  by (induction ms) auto

definition member_keys :: "(pystr \<times> json) list \<Rightarrow> pystr list" where
  "member_keys ms = map fst ms"

fun well_formed :: "json \<Rightarrow> bool" where
  "well_formed (J_arr vs) \<longleftrightarrow> (\<forall>v \<in> set vs. well_formed v)"
| "well_formed (J_obj ms) \<longleftrightarrow> distinct (map fst ms) \<and> (\<forall>m \<in> set ms. well_formed (snd m))"
| "well_formed _ \<longleftrightarrow> True"

section \<open>The canonical text\<close>

fun digits_of :: "nat \<Rightarrow> pystr" where
  "digits_of n = (if n < 10 then [char_of (48 + n)] else digits_of (n div 10) @ [char_of (48 + n mod 10)])"

declare digits_of.simps [simp del]

definition int_text :: "int \<Rightarrow> pystr" where
  "int_text i = (if i < 0 then ''-'' @ digits_of (nat (- i)) else digits_of (nat i))"

text \<open>The escapes of \<open>json.dumps\<close> for one character.\<close>

definition escape_char :: "char \<Rightarrow> pystr" where
  "escape_char c =
     (let n = (of_char c :: nat) in
      if n = 34 then [char_of (92::nat), c]
      else if n = 92 then [c, c]
      else if n = 10 then [char_of (92::nat), CHR ''n'']
      else if n = 13 then [char_of (92::nat), CHR ''r'']
      else if n = 9 then [char_of (92::nat), CHR ''t'']
      else if n = 8 then [char_of (92::nat), CHR ''b'']
      else if n = 12 then [char_of (92::nat), CHR ''f'']
      else if n < 32 then [char_of (92::nat), CHR ''u'', CHR ''0'', CHR ''0''] @ hex_of 2 n
      else [c])"

definition quote_text :: "pystr \<Rightarrow> pystr" where
  "quote_text s = [char_of (34::nat)] @ concat (map escape_char s) @ [char_of (34::nat)]"

fun join_texts :: "pystr \<Rightarrow> pystr list \<Rightarrow> pystr" where
  "join_texts sep [] = []"
| "join_texts sep [t] = t"
| "join_texts sep (t # ts) = t @ sep @ join_texts sep ts"

text \<open>Members in the order of their keys.\<close>

fun insert_member :: "pystr \<times> 'a \<Rightarrow> (pystr \<times> 'a) list \<Rightarrow> (pystr \<times> 'a) list" where
  "insert_member m [] = [m]"
| "insert_member m (n # ns) =
     (if text_le (fst m) (fst n) then m # n # ns else n # insert_member m ns)"

definition sort_members :: "(pystr \<times> 'a) list \<Rightarrow> (pystr \<times> 'a) list" where
  "sort_members ms = foldr insert_member ms []"

fun canonical_json :: "json \<Rightarrow> pystr" where
  "canonical_json J_null = ''null''"
| "canonical_json (J_bool b) = (if b then ''true'' else ''false'')"
| "canonical_json (J_int i) = int_text i"
| "canonical_json (J_float t) = t"
| "canonical_json (J_str s) = quote_text s"
| "canonical_json (J_arr vs) = ''['' @ join_texts '','' (map canonical_json vs) @ '']''"
| "canonical_json (J_obj ms) =
     ''{'' @ join_texts '',''
       (map (\<lambda>(k, t). quote_text k @ '':'' @ t)
         (sort_members (map (\<lambda>(k, v). (k, canonical_json v)) ms))) @ ''}''"

subsection \<open>Independence of the order of members\<close>

lemma text_le_refl [simp]: "text_le s s"
  by (induction s) auto

lemma text_le_total: "text_le s t \<or> text_le t s"
proof (induction s t rule: text_le.induct)
  case (3 c s d t)
  have "(of_char c :: nat) < of_char d \<or> (of_char d :: nat) < of_char c \<or> c = d"
    using of_char_eq_iff [of c d, where ?'a = nat] by linarith
  then show ?case using 3 by auto
qed auto

lemma text_le_antisym: "text_le s t \<Longrightarrow> text_le t s \<Longrightarrow> s = t"
proof (induction s t rule: text_le.induct)
  case (1 t)
  then show ?case by (cases t) auto
qed auto

lemma text_le_trans: "text_le s t \<Longrightarrow> text_le t u \<Longrightarrow> text_le s u"
proof (induction s u arbitrary: t rule: text_le.induct)
  case (2 c s)
  then show ?case by (cases t) auto
next
  case (3 c s d u)
  then show ?case by (cases t) auto
qed simp

lemma insert_member_commute:
  assumes "fst m \<noteq> fst n"
  shows "insert_member m (insert_member n ns) = insert_member n (insert_member m ns)"
proof -
  have a: "text_le (fst m) (fst n) \<longleftrightarrow> \<not> text_le (fst n) (fst m)"
    using assms text_le_total text_le_antisym by blast
  show ?thesis
    using a by (induction ns) (auto dest: text_le_trans)
qed

lemma set_insert_member [simp]: "set (insert_member m ns) = insert m (set ns)"
  by (induction ns) auto

lemma set_sort_members [simp]: "set (sort_members ms) = set ms"
  unfolding sort_members_def by (induction ms) auto

text \<open>The sorted members depend only on which members there are.\<close>

lemma sort_members_Cons: "sort_members (m # ms) = insert_member m (sort_members ms)"
  by (simp add: sort_members_def)

lemma sort_members_split:
  assumes "distinct (map fst (ms @ m # ns))"
  shows "sort_members (ms @ m # ns) = insert_member m (sort_members (ms @ ns))"
  using assms by (induction ms) (auto simp: sort_members_Cons insert_member_commute)

lemma sort_members_cong:
  assumes "set ms = set ns" and "distinct (map fst ms)" and "distinct (map fst ns)"
  shows "sort_members ms = sort_members ns"
  using assms
proof (induction ms arbitrary: ns)
  case (Cons m ms)
  then obtain as bs where n: "ns = as @ m # bs"
    using split_list [of m ns] by auto
  have d: "m \<notin> set ms" "m \<notin> set (as @ bs)" using Cons.prems n by (auto dest: image_eqI)
  have "set ms = set (as @ bs)" using Cons.prems(1) d n by auto
  then have "sort_members ms = sort_members (as @ bs)"
    using Cons.prems n by (intro Cons.IH) auto
  then show ?case using sort_members_split [of as m bs] Cons.prems(3) n by (simp add: sort_members_Cons)
qed (simp add: sort_members_def)

lemma canonical_member_order:
  assumes "set ms = set ns" and "distinct (map fst ms)" and "distinct (map fst ns)"
  shows "canonical_json (J_obj ms) = canonical_json (J_obj ns)"
proof -
  have m: "map fst (map (\<lambda>(k, v). (k, canonical_json v)) l) = map fst l" for l
    by (induction l) auto
  have "sort_members (map (\<lambda>(k, v). (k, canonical_json v)) ms) =
      sort_members (map (\<lambda>(k, v). (k, canonical_json v)) ns)"
    by (rule sort_members_cong) (simp_all only: set_map m assms)
  then show ?thesis by simp
qed

section \<open>Patterns\<close>

definition in_range :: "char \<Rightarrow> char \<Rightarrow> char \<Rightarrow> bool" where
  "in_range lo hi c \<longleftrightarrow> (of_char lo :: nat) \<le> of_char c \<and> (of_char c :: nat) \<le> of_char hi"

definition lower :: "char \<Rightarrow> bool" where
  "lower c \<longleftrightarrow> in_range (CHR ''a'') (CHR ''z'') c"

definition upper :: "char \<Rightarrow> bool" where
  "upper c \<longleftrightarrow> in_range (CHR ''A'') (CHR ''Z'') c"

definition digit :: "char \<Rightarrow> bool" where
  "digit c \<longleftrightarrow> in_range (CHR ''0'') (CHR ''9'') c"

text \<open>\<open>^[a-z][a-z0-9-]{0,62}$\<close> and \<open>^[a-z][a-z0-9_.-]{0,127}$\<close>, with \<open>fullmatch\<close>.\<close>

definition agent_id_ok :: "pystr \<Rightarrow> bool" where
  "agent_id_ok s \<longleftrightarrow> s \<noteq> [] \<and> lower (hd s) \<and> length s \<le> 63
     \<and> list_all (\<lambda>c. lower c \<or> digit c \<or> c = CHR ''-'') (tl s)"

definition capability_ok :: "pystr \<Rightarrow> bool" where
  "capability_ok s \<longleftrightarrow> s \<noteq> [] \<and> lower (hd s) \<and> length s \<le> 128
     \<and> list_all (\<lambda>c. lower c \<or> digit c \<or> c \<in> set ''_.-'') (tl s)"

text \<open>\<open>0|[1-9][0-9]*\<close>.\<close>

definition number_ok :: "pystr \<Rightarrow> bool" where
  "number_ok s \<longleftrightarrow> s = ''0'' \<or> positive_decimal s"

text \<open>\<open>str.split(sep)\<close> with one character, and \<open>str.partition\<close>.\<close>

fun split_on :: "char \<Rightarrow> pystr \<Rightarrow> pystr list" where
  "split_on d [] = [[]]"
| "split_on d (c # s) =
     (if c = d then [] # split_on d s
      else (case split_on d s of [] \<Rightarrow> [[c]] | t # ts \<Rightarrow> (c # t) # ts))"

definition semver_ok :: "pystr \<Rightarrow> bool" where
  "semver_ok s \<longleftrightarrow> length (split_on (CHR ''.'') s) = 3 \<and> list_all number_ok (split_on (CHR ''.'') s)"

text \<open>The UTF-8 encodings of the characters of the class \<open>\s\<close>.\<close>

definition white_spaces :: "nat list list" where
  "white_spaces = map (\<lambda>n. [n]) ([9..<14] @ [28..<33]) @ [[194, 133], [194, 160], [225, 154, 128]]
     @ map (\<lambda>n. [226, 128, n]) ([128..<139] @ [168, 169, 175]) @ [[226, 129, 159], [227, 128, 128]]"

fun has_space :: "pystr \<Rightarrow> bool" where
  "has_space [] \<longleftrightarrow> False"
| "has_space (c # s) \<longleftrightarrow>
     list_ex (\<lambda>w. take (length w) (map of_char (c # s)) = w) white_spaces \<or> has_space s"

text \<open>\<open>^(?P<repository>[^@\s]+)@(?P<digest>sha256:[0-9a-f]{64})$\<close>: the groups.\<close>

definition match_image :: "pystr \<Rightarrow> (pystr \<times> pystr) option" where
  "match_image s =
     (case split_on (CHR ''@'') s of
        [repository, digest] \<Rightarrow>
          if repository \<noteq> [] \<and> \<not> has_space repository \<and> length digest = 71
             \<and> take 7 digest = ''sha256:'' \<and> list_all is_hex (drop 7 digest)
          then Some (repository, digest) else None
      | _ \<Rightarrow> None)"

definition identifier_ok :: "pystr \<Rightarrow> bool" where
  "identifier_ok s \<longleftrightarrow> s \<noteq> [] \<and> (lower (hd s) \<or> upper (hd s) \<or> hd s = CHR ''_'')
     \<and> list_all (\<lambda>c. lower c \<or> upper c \<or> digit c \<or> c = CHR ''_'') (tl s)"

text \<open>Dotted identifiers, a colon and an identifier.\<close>

definition entrypoint_ok :: "pystr \<Rightarrow> bool" where
  "entrypoint_ok s \<longleftrightarrow>
     (case split_on (CHR '':'') s of
        [path, name] \<Rightarrow> list_all identifier_ok (split_on (CHR ''.'') path) \<and> identifier_ok name
      | _ \<Rightarrow> False)"

text \<open>\<open>^(?:[1-9][0-9]*m|(?:0|[1-9][0-9]*)(?:\.[0-9]+)?)$\<close>.\<close>

definition cpu_text_ok :: "pystr \<Rightarrow> bool" where
  "cpu_text_ok s \<longleftrightarrow>
     s \<noteq> [] \<and> last s = CHR ''m'' \<and> positive_decimal (butlast s)
     \<or> number_ok s
     \<or> (case split_on (CHR ''.'') s of
          [whole, fraction] \<Rightarrow> number_ok whole \<and> fraction \<noteq> [] \<and> list_all dec_digit fraction
        | _ \<Rightarrow> False)"

text \<open>\<open>^[1-9][0-9]*(?:Ki|Mi|Gi)$\<close>.\<close>

definition memory_text_ok :: "pystr \<Rightarrow> bool" where
  "memory_text_ok s \<longleftrightarrow> 3 \<le> length s \<and> drop (length s - 2) s \<in> {''Ki'', ''Mi'', ''Gi''}
     \<and> positive_decimal (take (length s - 2) s)"

text \<open>\<open>^[a-z0-9]+(?:[._-][a-z0-9]+)*(?:/...)*$\<close>: components separated by slashes; in a component a
  separator stands between two letters or digits.\<close>

definition component_char :: "char \<Rightarrow> bool" where
  "component_char c \<longleftrightarrow> lower c \<or> digit c"

fun component_rest :: "bool \<Rightarrow> pystr \<Rightarrow> bool" where
  "component_rest after_letter [] \<longleftrightarrow> after_letter"
| "component_rest after_letter (c # s) \<longleftrightarrow>
     (if component_char c then component_rest True s
      else after_letter \<and> c \<in> set ''._-'' \<and> component_rest False s)"

definition repository_ok :: "pystr \<Rightarrow> bool" where
  "repository_ok s \<longleftrightarrow> list_all (component_rest False) (split_on (CHR ''/'') s)"

end
