(* ===== verification/Base64.thy ===== *)
theory Base64
  imports Tokens
begin

text \<open>
  Base64 with the standard alphabet, as the publication keys, the signatures of specifications and
  the payloads of checkpoints are written: \<open>base64.b64encode\<close> and \<open>base64.b64decode\<close> with
  \<open>validate=True\<close>, and that the second inverts the first.
\<close>

section \<open>The strict decoder\<close>

text \<open>\<open>base64.b64decode(s, validate=True)\<close>, the strict mode of \<open>binascii.a2b_base64\<close>: only the
  standard alphabet, padding only where it ends the last group of four.\<close>

definition b64_std_value :: "char \<Rightarrow> nat option" where
  "b64_std_value c = (if c = CHR ''-'' \<or> c = CHR ''_'' then None else b64_value c)"

fun a2b_strict :: "nat \<Rightarrow> nat \<Rightarrow> nat \<Rightarrow> bool \<Rightarrow> pystr \<Rightarrow> pystr option" where
  "a2b_strict quad left pads started [] = (if quad = 0 then Some [] else None)"
| "a2b_strict quad left pads started (c # cs) =
     (if c = CHR ''='' then
        (if quad = 0 then None
         else if 2 \<le> quad \<and> 4 \<le> quad + (pads + 1) then (if cs = [] then Some [] else None)
         else a2b_strict quad left (if 2 \<le> quad then pads + 1 else pads) True cs)
      else
        (case b64_std_value c of
           None \<Rightarrow> None
         | Some v \<Rightarrow>
             (if started then None
              else if quad = 0 then a2b_strict 1 v 0 False cs
              else if quad = 1 then
                map_option (Cons (char_of (left * 4 + v div 16))) (a2b_strict 2 (v mod 16) 0 False cs)
              else if quad = 2 then
                map_option (Cons (char_of (left * 16 + v div 4))) (a2b_strict 3 (v mod 4) 0 False cs)
              else map_option (Cons (char_of (left * 64 + v))) (a2b_strict 0 0 0 False cs))))"

definition b64decode_strict :: "pystr \<Rightarrow> pystr option" where
  "b64decode_strict s = (if ascii s then a2b_strict 0 0 0 False s else None)"

section \<open>The encoder\<close>

definition std_char :: "char \<Rightarrow> char" where
  "std_char c = (if c = CHR ''-'' then CHR ''+'' else if c = CHR ''_'' then CHR ''/'' else c)"

text \<open>\<open>base64.b64encode\<close>.\<close>

definition b64_std_encode :: "pystr \<Rightarrow> pystr" where
  "b64_std_encode s = map std_char (b64_encode s)"

lemma std_value_digit [simp]:
  assumes "n < 64"
  shows "b64_std_value (std_char (b64_digit n)) = Some n" and "std_char (b64_digit n) \<noteq> CHR ''=''"
proof -
  have m: "b64_digit n \<in> set b64_alphabet" by (rule b64_digit_in [OF assms])
  have v: "b64_value (b64_digit n) = Some n" by (rule b64_value_digit [OF assms])
  have plus: "b64_value (CHR ''+'') = b64_value (CHR ''-'')" "b64_value (CHR ''/'') = b64_value (CHR ''_'')"
    by (simp_all add: b64_value_def)
  show "b64_std_value (std_char (b64_digit n)) = Some n"
    using v plus by (auto simp: b64_std_value_def std_char_def)
  show "std_char (b64_digit n) \<noteq> CHR ''=''"
    using b64_digit_not_pad [OF assms] by (auto simp: std_char_def)
qed

lemma std_char_pad [simp]: "std_char (CHR ''='') = CHR ''=''"
  by (simp add: std_char_def)

lemma strict_round_trip: "a2b_strict 0 left pads False (b64_std_encode s) = Some s"
proof (induction s arbitrary: left pads rule: b64_encode.induct)
  case 1
  then show ?case by (simp add: b64_std_encode_def)
next
  case (2 a)
  then show ?case using first_byte [of 0 "of_char a"] by (simp add: b64_std_encode_def byte_bounds)
next
  case (3 a b)
  show ?case
    using first_byte [of "of_char b div 16" "of_char a"]
      second_byte [of "of_char b" 0 "of_char a mod 4"]
    by (simp add: b64_std_encode_def byte_bounds)
next
  case (4 a b c rest)
  show ?case
    using 4 first_byte [of "of_char b div 16" "of_char a"]
      second_byte [of "of_char b" "of_char c div 64" "of_char a mod 4"]
      third_byte [of "of_char c" "of_char b mod 16"]
    by (simp add: b64_std_encode_def byte_bounds)
qed

lemma std_encode_ascii: "ascii (b64_std_encode s)"
proof -
  obtain d k where e: "b64_encode s = d @ replicate k (CHR ''='')" "set d \<subseteq> set b64_alphabet"
    using encode_split by blast
  have "(of_char (std_char c) :: nat) < 128" if "c \<in> set (b64_encode s)" for c
  proof -
    have "c \<in> set b64_alphabet \<or> c = CHR ''=''" using that e by (auto split: if_splits)
    then have "(of_char c :: nat) < 128"
      using b64_alphabet_facts(7) by (auto simp: ascii_def list_all_iff)
    then show ?thesis by (simp add: std_char_def)
  qed
  then show ?thesis by (auto simp: b64_std_encode_def ascii_def list_all_iff)
qed

lemma b64decode_std_encode: "b64decode_strict (b64_std_encode s) = Some s"
  by (simp add: b64decode_strict_def std_encode_ascii strict_round_trip)

end
