(* ===== verification/RegistryDomain.thy ===== *)
theory RegistryDomain
  imports Json Base64
begin

text \<open>
  The validation of a publication, \<open>agent_registry/domain.py\<close>: the manifest, the image reference
  and the provenance of a release are untrusted JSON; \<open>validate_publication\<close> accepts them or names
  the field that is wrong. The hash of the canonical text is a parameter.
\<close>

section \<open>Errors and sequencing\<close>

text \<open>\<open>Invalid code field\<close> is a \<open>PublicationValidationError\<close> (its message is left out);
  \<open>Raised\<close> is any other exception.\<close>

datatype validation_error = Invalid pystr pystr | Raised exc

type_synonym members = "(pystr \<times> json) list"

definition chain :: "'e + 'a \<Rightarrow> ('a \<Rightarrow> 'e + 'b) \<Rightarrow> 'e + 'b" where
  "chain m f = (case m of Inl e \<Rightarrow> Inl e | Inr a \<Rightarrow> f a)"

definition demand :: "bool \<Rightarrow> 'e \<Rightarrow> 'e + unit" where
  "demand b e = (if b then Inr () else Inl e)"

named_theorems outcome \<open>when a chain of checks ends well\<close>

lemma chain_simps [simp]: "chain (Inl e) f = Inl e" "chain (Inr a) f = f a"
  by (simp_all add: chain_def)

lemma chain_Inr_iff [outcome]: "chain m f = Inr b \<longleftrightarrow> (\<exists>a. m = Inr a \<and> f a = Inr b)"
  by (cases m) simp_all

lemma demand_simps [simp]: "demand True e = Inr ()" "demand False e = Inl e"
  by (simp_all add: demand_def)

lemma demand_Inr_iff [outcome]: "demand b e = Inr u \<longleftrightarrow> b"
  by (simp add: demand_def)

definition manifest_invalid :: "pystr \<Rightarrow> validation_error" where
  "manifest_invalid field = Invalid ''manifest_invalid'' field"

section \<open>Readers\<close>

text \<open>\<open>_object\<close>, \<open>_string\<close>, \<open>_keys\<close> and a subscript.\<close>

definition object_at :: "json \<Rightarrow> pystr \<Rightarrow> validation_error + members" where
  "object_at v field = (case v of J_obj ms \<Rightarrow> Inr ms | _ \<Rightarrow> Inl (manifest_invalid field))"

definition string_at :: "json \<Rightarrow> pystr \<Rightarrow> nat \<Rightarrow> bool \<Rightarrow> validation_error + pystr" where
  "string_at v field maximum allow_empty =
     (case v of
        J_str s \<Rightarrow>
          if \<not> allow_empty \<and> s = [] \<or> maximum < char_count s then Inl (manifest_invalid field)
          else Inr s
      | _ \<Rightarrow> Inl (manifest_invalid field))"

definition keys_at ::
  "members \<Rightarrow> pystr \<Rightarrow> pystr list \<Rightarrow> pystr list \<Rightarrow> validation_error + unit" where
  "keys_at ms field required optional =
     (if \<not> set required \<subseteq> set (member_keys ms) then Inl (manifest_invalid field)
      else if \<not> set (member_keys ms) \<subseteq> set (required @ optional) then Inl (manifest_invalid field)
      else Inr ())"

definition item :: "members \<Rightarrow> pystr \<Rightarrow> validation_error + json" where
  "item ms k = (case member k ms of None \<Rightarrow> Inl (Raised Key_error) | Some v \<Rightarrow> Inr v)"

definition item_or :: "members \<Rightarrow> pystr \<Rightarrow> json \<Rightarrow> json" where
  "item_or ms k d = (case member k ms of None \<Rightarrow> d | Some v \<Rightarrow> v)"

lemma object_at_Inr_iff [outcome]: "object_at v field = Inr ms \<longleftrightarrow> v = J_obj ms"
  by (cases v) (auto simp: object_at_def)

lemma string_at_Inr_iff [outcome]:
  "string_at v field maximum allow_empty = Inr s \<longleftrightarrow>
     v = J_str s \<and> char_count s \<le> maximum \<and> (allow_empty \<or> s \<noteq> [])"
  by (cases v) (auto simp: string_at_def)

lemma keys_at_Inr_iff [outcome]:
  "keys_at ms field required optional = Inr u \<longleftrightarrow>
     set required \<subseteq> set (member_keys ms) \<and> set (member_keys ms) \<subseteq> set (required @ optional)"
  by (auto simp: keys_at_def)

lemma item_Inr_iff [outcome]: "item ms k = Inr v \<longleftrightarrow> member k ms = Some v"
  by (simp add: item_def split: option.splits)

section \<open>SDK constraints\<close>

text \<open>\<open>str.strip()\<close>: the white space characters, given by their UTF-8 bytes, are removed at both
  ends.\<close>

definition white_width :: "nat list list \<Rightarrow> pystr \<Rightarrow> nat" where
  "white_width ws s =
     (case find (\<lambda>w. take (length w) (map of_char s) = w) ws of None \<Rightarrow> 0 | Some w \<Rightarrow> length w)"

lemma white_width_le: "white_width ws s \<le> length s"
proof (cases "find (\<lambda>w. take (length w) (map of_char s) = w) ws")
  case (Some w)
  then have "take (length w) (map of_char s) = w" by (auto simp: find_Some_iff)
  then have "length (take (length w) (map of_char s :: nat list)) = length w" by simp
  then show ?thesis using Some by (simp add: white_width_def)
qed (simp add: white_width_def)

function strip_left :: "nat list list \<Rightarrow> pystr \<Rightarrow> pystr" where
  "strip_left ws s =
     (if white_width ws s = 0 then s else strip_left ws (drop (white_width ws s) s))"
  by pat_completeness auto
termination
proof (relation "measure (\<lambda>(ws, s). length s)")
  fix ws s
  assume "white_width ws s \<noteq> 0"
  then show "((ws, drop (white_width ws s) s), (ws, s)) \<in> measure (\<lambda>(ws, s). length s)"
    using white_width_le [of ws s] by (cases s) (auto simp: white_width_def)
qed simp

declare strip_left.simps [simp del]

definition strip :: "pystr \<Rightarrow> pystr" where
  "strip s = rev (strip_left (map rev white_spaces) (rev (strip_left white_spaces s)))"

type_synonym sdk_version = "nat \<times> nat \<times> nat"

definition supported_sdk_version :: sdk_version where
  "supported_sdk_version = (1, 0, 0)"

text \<open>The order of Python's tuples.\<close>

fun version_less :: "sdk_version \<Rightarrow> sdk_version \<Rightarrow> bool" where
  "version_less (a, b, c) (d, e, f) \<longleftrightarrow> a < d \<or> a = d \<and> (b < e \<or> b = e \<and> c < f)"

datatype sdk_operator = At_least | Above | At_most | Below | Exactly

definition split_operator :: "pystr \<Rightarrow> sdk_operator \<times> pystr" where
  "split_operator s =
     (if take 2 s = ''>='' then (At_least, drop 2 s)
      else if take 1 s = ''>'' then (Above, drop 1 s)
      else if take 2 s = ''<='' then (At_most, drop 2 s)
      else if take 1 s = ''<'' then (Below, drop 1 s)
      else if take 2 s = ''=='' then (Exactly, drop 2 s)
      else (Exactly, s))"

definition match_comparator :: "pystr \<Rightarrow> (sdk_operator \<times> sdk_version) option" where
  "match_comparator s =
     (let (operator, version) = split_operator s in
      case split_on (CHR ''.'') version of
        [a, b] \<Rightarrow>
          if number_ok a \<and> number_ok b then Some (operator, (dec_value a, dec_value b, 0)) else None
      | [a, b, c] \<Rightarrow>
          if number_ok a \<and> number_ok b \<and> number_ok c
          then Some (operator, (dec_value a, dec_value b, dec_value c)) else None
      | _ \<Rightarrow> None)"

fun satisfies :: "sdk_version \<Rightarrow> sdk_operator \<times> sdk_version \<Rightarrow> bool" where
  "satisfies v (At_least, target) \<longleftrightarrow> \<not> version_less v target"
| "satisfies v (Above, target) \<longleftrightarrow> version_less target v"
| "satisfies v (At_most, target) \<longleftrightarrow> \<not> version_less target v"
| "satisfies v (Below, target) \<longleftrightarrow> version_less v target"
| "satisfies v (Exactly, target) \<longleftrightarrow> v = target"

definition validate_sdk_constraint :: "json \<Rightarrow> validation_error + pystr" where
  "validate_sdk_constraint constraint =
     chain (string_at constraint ''spec.sdk'' 64 False) (\<lambda>value.
     let comparisons = map match_comparator (map strip (split_on (CHR '','') value)) in
     chain (demand (None \<notin> set comparisons) (manifest_invalid ''spec.sdk'')) (\<lambda>_.
     chain (demand (list_all (\<lambda>m. satisfies supported_sdk_version (the m)) comparisons)
              (Invalid ''sdk_incompatible'' ''spec.sdk'')) (\<lambda>_.
     Inr value)))"

section \<open>Publications\<close>

definition max_manifest_bytes :: nat where
  "max_manifest_bytes = 64 * 1024"

record validated_release =
  vr_agent_id :: pystr
  vr_name :: pystr
  vr_description :: pystr
  vr_version :: pystr
  vr_image :: pystr
  vr_image_digest :: pystr
  vr_manifest :: members
  vr_manifest_sha256 :: pystr
  vr_provenance :: members
  vr_sdk_constraint :: pystr

text \<open>\<open>request_sha256\<close>, over the hash \<open>sha\<close> of a byte string.\<close>

definition request_sha256 :: "(pystr \<Rightarrow> pystr) \<Rightarrow> json \<Rightarrow> pystr" where
  "request_sha256 sha v = sha (canonical_json v)"

text \<open>The metadata: identity, version, display name and description.\<close>

definition validate_metadata ::
  "members \<Rightarrow> validation_error + (pystr \<times> pystr \<times> pystr \<times> pystr)" where
  "validate_metadata metadata =
     chain (keys_at metadata ''metadata'' [''name'', ''version''] [''displayName'', ''description'']) (\<lambda>_.
     chain (item metadata ''name'') (\<lambda>name_value.
     chain (string_at name_value ''metadata.name'' 63 False) (\<lambda>agent_id.
     chain (demand (agent_id_ok agent_id) (manifest_invalid ''metadata.name'')) (\<lambda>_.
     chain (item metadata ''version'') (\<lambda>version_value.
     chain (string_at version_value ''metadata.version'' 32 False) (\<lambda>version.
     chain (demand (semver_ok version) (manifest_invalid ''metadata.version'')) (\<lambda>_.
     chain (string_at (item_or metadata ''displayName'' (J_str agent_id))
              ''metadata.displayName'' 100 False) (\<lambda>name.
     chain (string_at (item_or metadata ''description'' (J_str []))
              ''metadata.description'' 500 True) (\<lambda>description.
     Inr (agent_id, version, name, description))))))))))"

definition hashable :: "json \<Rightarrow> bool" where
  "hashable v = (case v of J_arr _ \<Rightarrow> False | J_obj _ \<Rightarrow> False | _ \<Rightarrow> True)"

fun capability_item :: "json \<Rightarrow> bool" where
  "capability_item (J_str s) \<longleftrightarrow> capability_ok s"
| "capability_item _ \<longleftrightarrow> False"

text \<open>The lists of models and tools. \<open>set(values)\<close> raises on an unhashable item; items that are
  no texts are refused whether or not they repeat.\<close>

definition validate_names :: "members \<Rightarrow> pystr \<Rightarrow> pystr \<Rightarrow> nat \<Rightarrow> validation_error + unit" where
  "validate_names spec key field maximum =
     chain (item spec key) (\<lambda>values.
     case values of
       J_arr vs \<Rightarrow>
         if maximum < length vs then Inl (manifest_invalid field)
         else if \<not> list_all hashable vs then Inl (Raised Type_error)
         else if \<not> distinct vs \<or> \<not> list_all capability_item vs then Inl (manifest_invalid field)
         else Inr ()
     | _ \<Rightarrow> Inl (manifest_invalid field))"

definition timeout_ok :: "json \<Rightarrow> bool" where
  "timeout_ok v = (case v of J_int n \<Rightarrow> 1 \<le> n \<and> n \<le> 3600 | _ \<Rightarrow> False)"

definition validate_resources :: "members \<Rightarrow> validation_error + unit" where
  "validate_resources resources =
     chain (keys_at resources ''spec.resources'' [''cpu'', ''memory'', ''timeoutSeconds''] []) (\<lambda>_.
     chain (item resources ''cpu'') (\<lambda>cpu_value.
     chain (string_at cpu_value ''spec.resources.cpu'' 16 False) (\<lambda>cpu.
     chain (item resources ''memory'') (\<lambda>memory_value.
     chain (string_at memory_value ''spec.resources.memory'' 16 False) (\<lambda>memory.
     chain (item resources ''timeoutSeconds'') (\<lambda>timeout.
     chain (demand (cpu_text_ok cpu \<and> memory_text_ok memory) (manifest_invalid ''spec.resources'')) (\<lambda>_.
     demand (timeout_ok timeout) (manifest_invalid ''spec.resources.timeoutSeconds''))))))))"

definition schema_dialect_ok :: "members \<Rightarrow> bool" where
  "schema_dialect_ok schema \<longleftrightarrow>
     item_or schema ''$schema'' J_null
       \<in> {J_null, J_str ''https://json-schema.org/draft/2020-12/schema''}"

text \<open>The specification: the digest of the image and the SDK constraint.\<close>

definition validate_image :: "members \<Rightarrow> json \<Rightarrow> validation_error + (pystr \<times> pystr)" where
  "validate_image spec image_value =
     chain (string_at image_value ''image'' 512 False) (\<lambda>img.
     chain (item spec ''image'') (\<lambda>own_value.
     chain (string_at own_value ''spec.image'' 512 False) (\<lambda>own.
     (case match_image img of
        None \<Rightarrow> Inl (Invalid ''image_invalid'' ''image'')
      | Some (repository, digest) \<Rightarrow>
          if own \<noteq> img then Inl (Invalid ''image_mismatch'' ''spec.image'')
          else Inr (img, digest)))))"

definition validate_entrypoint :: "members \<Rightarrow> validation_error + pystr" where
  "validate_entrypoint spec =
     chain (item spec ''entrypoint'') (\<lambda>v.
     chain (string_at v ''spec.entrypoint'' 255 False) (\<lambda>entrypoint.
     chain (demand (entrypoint_ok entrypoint) (manifest_invalid ''spec.entrypoint'')) (\<lambda>_.
     Inr entrypoint)))"

definition validate_configuration :: "members \<Rightarrow> validation_error + unit" where
  "validate_configuration spec =
     chain (item spec ''configSchema'') (\<lambda>schema_value.
     chain (object_at schema_value ''spec.configSchema'') (\<lambda>schema.
     chain (demand (schema_dialect_ok schema) (manifest_invalid ''spec.configSchema.$schema'')) (\<lambda>_.
     (case member ''configDefaults'' spec of
        None \<Rightarrow> Inr ()
      | Some v \<Rightarrow> chain (object_at v ''spec.configDefaults'') (\<lambda>_. Inr ())))))"

definition spec_keys :: "pystr list" where
  "spec_keys =
     [''image'', ''entrypoint'', ''sdk'', ''models'', ''tools'', ''configSchema'', ''resources'']"

definition validate_spec :: "members \<Rightarrow> json \<Rightarrow> validation_error + (pystr \<times> pystr \<times> pystr)" where
  "validate_spec spec image_value =
     chain (keys_at spec ''spec'' spec_keys [''configDefaults'']) (\<lambda>_.
     chain (validate_image spec image_value) (\<lambda>(img, digest).
     chain (validate_entrypoint spec) (\<lambda>_.
     chain (item spec ''sdk'') (\<lambda>sdk_value.
     chain (validate_sdk_constraint sdk_value) (\<lambda>sdk.
     chain (validate_names spec ''models'' ''spec.models'' 16) (\<lambda>_.
     chain (validate_names spec ''tools'' ''spec.tools'' 64) (\<lambda>_.
     chain (validate_configuration spec) (\<lambda>_.
     chain (item spec ''resources'') (\<lambda>resources_value.
     chain (object_at resources_value ''spec.resources'') (\<lambda>resources.
     chain (validate_resources resources) (\<lambda>_.
     Inr (img, digest, sdk))))))))))))"

definition validate_provenance :: "members \<Rightarrow> pystr \<Rightarrow> validation_error + unit" where
  "validate_provenance provenance digest =
     chain (keys_at provenance ''provenance'' [''subjectDigest'', ''signature'', ''keyId''] [''builder'']) (\<lambda>_.
     chain (item provenance ''subjectDigest'') (\<lambda>subject.
     chain (demand (subject = J_str digest) (Invalid ''provenance_invalid'' ''provenance.subjectDigest'')) (\<lambda>_.
     chain (item provenance ''signature'') (\<lambda>signature_value.
     chain (string_at signature_value ''provenance.signature'' 8192 False) (\<lambda>signature.
     chain (demand (b64decode_strict signature \<notin> {None, Some []})
              (Invalid ''provenance_invalid'' ''provenance.signature'')) (\<lambda>_.
     chain (item provenance ''keyId'') (\<lambda>key_value.
     chain (string_at key_value ''provenance.keyId'' 128 False) (\<lambda>_.
     (case member ''builder'' provenance of
        None \<Rightarrow> Inr ()
      | Some v \<Rightarrow> chain (string_at v ''provenance.builder'' 255 False) (\<lambda>_. Inr ()))))))))))"

definition validate_publication ::
  "(pystr \<Rightarrow> pystr) \<Rightarrow> json \<Rightarrow> json \<Rightarrow> json \<Rightarrow> validation_error + validated_release" where
  "validate_publication sha manifest_value image_value provenance_value =
     chain (object_at manifest_value ''manifest'') (\<lambda>manifest.
     chain (demand (length (canonical_json manifest_value) \<le> max_manifest_bytes)
              (manifest_invalid ''manifest'')) (\<lambda>_.
     chain (keys_at manifest ''manifest'' [''apiVersion'', ''kind'', ''metadata'', ''spec''] []) (\<lambda>_.
     chain (demand (member ''apiVersion'' manifest = Some (J_str ''porfirium.ai/v1'')
                    \<and> member ''kind'' manifest = Some (J_str ''Agent''))
              (manifest_invalid ''manifest'')) (\<lambda>_.
     chain (item manifest ''metadata'') (\<lambda>metadata_value.
     chain (object_at metadata_value ''metadata'') (\<lambda>metadata.
     chain (validate_metadata metadata) (\<lambda>(agent_id, version, name, description).
     chain (item manifest ''spec'') (\<lambda>spec_value.
     chain (object_at spec_value ''spec'') (\<lambda>spec.
     chain (validate_spec spec image_value) (\<lambda>(img, digest, sdk).
     chain (object_at provenance_value ''provenance'') (\<lambda>provenance.
     chain (validate_provenance provenance digest) (\<lambda>_.
     Inr \<lparr>vr_agent_id = agent_id, vr_name = name, vr_description = description,
          vr_version = version, vr_image = img, vr_image_digest = digest,
          vr_manifest = manifest, vr_manifest_sha256 = request_sha256 sha manifest_value,
          vr_provenance = provenance, vr_sdk_constraint = sdk\<rparr>))))))))))))"

section \<open>What an accepted publication is\<close>

text \<open>The well-formedness of a validated release: the checks of the columns of the table
  \<open>releases\<close> and of the row of its agent, and where the parts of the manifest agree.\<close>

definition release_ok :: "(pystr \<Rightarrow> pystr) \<Rightarrow> validated_release \<Rightarrow> bool" where
  "release_ok sha r \<longleftrightarrow>
     agent_id_ok (vr_agent_id r) \<and> semver_ok (vr_version r)
     \<and> vr_name r \<noteq> [] \<and> char_count (vr_name r) \<le> 100 \<and> char_count (vr_description r) \<le> 500
     \<and> (\<exists>repository. match_image (vr_image r) = Some (repository, vr_image_digest r))
     \<and> char_count (vr_image r) \<le> 512
     \<and> vr_manifest_sha256 r = request_sha256 sha (J_obj (vr_manifest r))
     \<and> length (canonical_json (J_obj (vr_manifest r))) \<le> max_manifest_bytes"

text \<open>The parts of an accepted manifest that a run is started from.\<close>

definition manifest_spec :: "members \<Rightarrow> members option" where
  "manifest_spec manifest =
     (case member ''spec'' manifest of Some (J_obj spec) \<Rightarrow> Some spec | _ \<Rightarrow> None)"

definition text_member :: "pystr \<Rightarrow> members \<Rightarrow> pystr option" where
  "text_member k ms = (case member k ms of Some (J_str s) \<Rightarrow> Some s | _ \<Rightarrow> None)"

definition object_member :: "pystr \<Rightarrow> members \<Rightarrow> members option" where
  "object_member k ms = (case member k ms of Some (J_obj os) \<Rightarrow> Some os | _ \<Rightarrow> None)"

definition spec_ok :: "pystr \<Rightarrow> members \<Rightarrow> bool" where
  "spec_ok img spec \<longleftrightarrow>
     text_member ''image'' spec = Some img
     \<and> (\<exists>e. text_member ''entrypoint'' spec = Some e \<and> entrypoint_ok e)
     \<and> (\<exists>s. text_member ''sdk'' spec = Some s)
     \<and> (\<exists>vs. member ''models'' spec = Some (J_arr vs) \<and> length vs \<le> 16 \<and> list_all capability_item vs)
     \<and> (\<exists>vs. member ''tools'' spec = Some (J_arr vs) \<and> length vs \<le> 64 \<and> list_all capability_item vs)
     \<and> (\<exists>rs cpu memory. object_member ''resources'' spec = Some rs
          \<and> set (member_keys rs) = {''cpu'', ''memory'', ''timeoutSeconds''}
          \<and> text_member ''cpu'' rs = Some cpu \<and> cpu_text_ok cpu \<and> char_count cpu \<le> 16
          \<and> text_member ''memory'' rs = Some memory \<and> memory_text_ok memory \<and> char_count memory \<le> 16
          \<and> (\<exists>n. member ''timeoutSeconds'' rs = Some (J_int n) \<and> 1 \<le> n \<and> n \<le> 3600))"

lemma validate_metadata_ok:
  assumes "validate_metadata metadata = Inr (agent_id, version, name, description)"
  shows "agent_id_ok agent_id" and "semver_ok version" and "name \<noteq> []" and "char_count name \<le> 100"
    and "char_count description \<le> 500"
  using assms by (auto simp: validate_metadata_def outcome)

lemma validate_image_ok:
  assumes "validate_image spec image_value = Inr (img, digest)"
  shows "image_value = J_str img" and "char_count img \<le> 512"
    and "\<exists>repository. match_image img = Some (repository, digest)"
    and "text_member ''image'' spec = Some img"
  using assms by (auto simp: validate_image_def outcome text_member_def split: option.splits if_splits)

lemma validate_sdk_constraint_ok: "validate_sdk_constraint v = Inr s \<Longrightarrow> v = J_str s"
  by (auto simp: validate_sdk_constraint_def outcome Let_def)

lemma validate_names_ok:
  assumes "validate_names spec key field maximum = Inr u"
  obtains vs where "member key spec = Some (J_arr vs)" "length vs \<le> maximum" "list_all capability_item vs"
proof -
  obtain v where v: "member key spec = Some v"
    using assms by (auto simp: validate_names_def outcome)
  then obtain vs where vs: "v = J_arr vs"
    using assms by (cases v) (auto simp: validate_names_def item_def)
  show thesis
    using assms by (intro that [of vs]) (auto simp: validate_names_def item_def v vs split: if_splits)
qed

lemma validate_resources_ok:
  assumes "validate_resources rs = Inr u"
  shows "\<exists>cpu memory n. text_member ''cpu'' rs = Some cpu \<and> cpu_text_ok cpu \<and> char_count cpu \<le> 16
     \<and> text_member ''memory'' rs = Some memory \<and> memory_text_ok memory \<and> char_count memory \<le> 16
     \<and> member ''timeoutSeconds'' rs = Some (J_int n) \<and> 1 \<le> n \<and> n \<le> 3600"
    and "set (member_keys rs) = {''cpu'', ''memory'', ''timeoutSeconds''}"
proof -
  obtain cpu memory timeout where c: "member ''cpu'' rs = Some (J_str cpu)"
    "member ''memory'' rs = Some (J_str memory)" "member ''timeoutSeconds'' rs = Some timeout"
    "cpu_text_ok cpu" "memory_text_ok memory" "timeout_ok timeout"
    "char_count cpu \<le> 16" "char_count memory \<le> 16"
    and k: "set (member_keys rs) = {''cpu'', ''memory'', ''timeoutSeconds''}"
    using assms by (auto simp: validate_resources_def outcome)
  then obtain n where "timeout = J_int n" "1 \<le> n" "n \<le> 3600"
    by (cases timeout) (auto simp: timeout_ok_def)
  then show "\<exists>cpu memory n. text_member ''cpu'' rs = Some cpu \<and> cpu_text_ok cpu \<and> char_count cpu \<le> 16
     \<and> text_member ''memory'' rs = Some memory \<and> memory_text_ok memory \<and> char_count memory \<le> 16
     \<and> member ''timeoutSeconds'' rs = Some (J_int n) \<and> 1 \<le> n \<and> n \<le> 3600"
    using c by (simp add: text_member_def)
  show "set (member_keys rs) = {''cpu'', ''memory'', ''timeoutSeconds''}" by (rule k)
qed

lemma validate_entrypoint_ok:
  "validate_entrypoint spec = Inr e \<Longrightarrow> text_member ''entrypoint'' spec = Some e \<and> entrypoint_ok e"
  by (auto simp: validate_entrypoint_def outcome text_member_def)

lemma validate_spec_ok:
  assumes "validate_spec spec image_value = Inr (img, digest, sdk)"
  shows "spec_ok img spec" and "text_member ''sdk'' spec = Some sdk"
    and "validate_image spec image_value = Inr (img, digest)"
proof -
  obtain e sdk_value u1 u2 rs u3 where parts:
    "validate_image spec image_value = Inr (img, digest)"
    "validate_entrypoint spec = Inr e"
    "member ''sdk'' spec = Some sdk_value" "validate_sdk_constraint sdk_value = Inr sdk"
    "validate_names spec ''models'' ''spec.models'' 16 = Inr u1"
    "validate_names spec ''tools'' ''spec.tools'' 64 = Inr u2"
    "member ''resources'' spec = Some (J_obj rs)" "validate_resources rs = Inr u3"
    using assms unfolding validate_spec_def by (auto simp: outcome split: prod.splits)
  have m: "\<exists>vs. member ''models'' spec = Some (J_arr vs) \<and> length vs \<le> 16 \<and> list_all capability_item vs"
    using validate_names_ok [OF parts(5)] by blast
  have t: "\<exists>vs. member ''tools'' spec = Some (J_arr vs) \<and> length vs \<le> 64 \<and> list_all capability_item vs"
    using validate_names_ok [OF parts(6)] by blast
  show sdk: "text_member ''sdk'' spec = Some sdk"
    using parts(3) validate_sdk_constraint_ok [OF parts(4)] by (simp add: text_member_def)
  have o: "object_member ''resources'' spec = Some rs"
    using parts(7) by (simp add: object_member_def)
  show "spec_ok img spec"
    unfolding spec_ok_def
    using validate_image_ok(4) [OF parts(1)] validate_entrypoint_ok [OF parts(2)] sdk m t o
      validate_resources_ok [OF parts(8)] by simp
  show "validate_image spec image_value = Inr (img, digest)" by (rule parts(1))
qed

lemma validate_publication_parts:
  assumes "validate_publication sha manifest_value image_value provenance_value = Inr r"
  obtains metadata spec where
    "manifest_value = J_obj (vr_manifest r)" "provenance_value = J_obj (vr_provenance r)"
    "length (canonical_json manifest_value) \<le> max_manifest_bytes"
    "member ''metadata'' (vr_manifest r) = Some (J_obj metadata)"
    "validate_metadata metadata = Inr (vr_agent_id r, vr_version r, vr_name r, vr_description r)"
    "member ''spec'' (vr_manifest r) = Some (J_obj spec)"
    "validate_spec spec image_value = Inr (vr_image r, vr_image_digest r, vr_sdk_constraint r)"
    "validate_provenance (vr_provenance r) (vr_image_digest r) = Inr ()"
    "vr_manifest_sha256 r = request_sha256 sha manifest_value"
  using assms unfolding validate_publication_def
  by (auto simp: outcome split: prod.splits)

lemma validated_release_ok:
  assumes "validate_publication sha manifest_value image_value provenance_value = Inr r"
  shows "release_ok sha r" and "image_value = J_str (vr_image r)"
    and "\<exists>spec. manifest_spec (vr_manifest r) = Some spec \<and> spec_ok (vr_image r) spec"
proof -
  obtain metadata spec where p:
    "manifest_value = J_obj (vr_manifest r)"
    "length (canonical_json manifest_value) \<le> max_manifest_bytes"
    "validate_metadata metadata = Inr (vr_agent_id r, vr_version r, vr_name r, vr_description r)"
    "member ''spec'' (vr_manifest r) = Some (J_obj spec)"
    "validate_spec spec image_value = Inr (vr_image r, vr_image_digest r, vr_sdk_constraint r)"
    "vr_manifest_sha256 r = request_sha256 sha manifest_value"
    by (rule validate_publication_parts [OF assms])
  note s = validate_spec_ok [OF p(5)]
  note i = validate_image_ok [OF s(3)]
  show "release_ok sha r"
    unfolding release_ok_def using validate_metadata_ok [OF p(3)] i(2,3) p(2,6) by (simp add: p(1))
  show "image_value = J_str (vr_image r)" by (rule i(1))
  show "\<exists>spec. manifest_spec (vr_manifest r) = Some spec \<and> spec_ok (vr_image r) spec"
    using p(4) s(1) by (simp add: manifest_spec_def)
qed

end
