(* ===== verification/RegistryStore.thy ===== *)
theory RegistryStore
  imports RegistryDomain Contracts
begin

text \<open>
  The Agent Registry: its tables and the transactions of \<open>agent_registry/publication.py\<close>,
  \<open>lifecycle.py\<close>, \<open>access.py\<close> and \<open>resolution.py\<close>. Each transaction runs under advisory locks
  and row locks, so it is one step; an exception rolls it back. The hash, the signature and the
  text of an instant are parameters. Documents come back from jsonb as they were stored.
\<close>

section \<open>Tables\<close>

record agent_row =
  ag_agent_id :: pystr
  ag_name :: pystr
  ag_description :: pystr
  ag_default :: "uuid option"

datatype release_status = Published | Deprecated

record release_row =
  rl_id :: uuid
  rl_agent_id :: pystr
  rl_version :: pystr
  rl_image :: pystr
  rl_image_digest :: pystr
  rl_manifest :: members
  rl_manifest_sha256 :: pystr
  rl_provenance :: members
  rl_sdk_constraint :: pystr
  rl_status :: release_status
  rl_published_by :: pystr
  rl_deprecated_by :: "pystr option"
  rl_deprecated_at :: "instant option"

datatype subject_type = User_subject | Group_subject | Role_subject

datatype permission = Discover | Run_permission | Publish | Admin

record access_row =
  aw_grant_id :: uuid
  aw_agent_id :: pystr
  aw_subject_type :: subject_type
  aw_subject_id :: pystr
  aw_permission :: permission
  aw_granted_by :: pystr
  aw_revoked_at :: "instant option"

record specification_row =
  rs_specification_id :: uuid
  rs_run_id :: uuid
  rs_release_id :: uuid
  rs_user_id :: uuid
  rs_request_sha256 :: pystr
  rs_payload :: members
  rs_payload_sha256 :: pystr
  rs_signature :: pystr
  rs_key_id :: pystr
  rs_issued_at :: instant
  rs_expires_at :: instant

datatype registry_operation =
    Publish_release | Set_default_release | Deprecate_release
  | Grant_access | Revoke_access | Resolve_run_specification

text \<open>The answer that \<open>set_default_release\<close> stores.\<close>

record agent_summary =
  as_agent_id :: pystr
  as_name :: pystr
  as_description :: pystr
  as_default :: "uuid option"

record registry_idem_row =
  ik_actor :: pystr
  ik_operation :: registry_operation
  ik_key :: pystr
  ik_sha256 :: pystr
  ik_status :: nat
  ik_release :: "uuid option"
  ik_grant :: "uuid option"
  ik_specification :: "uuid option"
  ik_body :: "agent_summary option"

datatype audit_action =
    Release_published pystr pystr
  | Release_deprecated
  | Default_release_changed "uuid option"

record audit_row =
  au_release_id :: uuid
  au_action :: audit_action
  au_actor :: pystr

record access_audit_row =
  aa_grant_id :: uuid
  aa_granted :: bool
  aa_actor :: pystr

record registry_db =
  agents :: "agent_row list"
  releases :: "release_row list"
  access_grants :: "access_row list"
  run_specifications :: "specification_row list"
  registry_idempotency :: "registry_idem_row list"
  publication_audit :: "audit_row list"
  access_audit :: "access_audit_row list"

definition empty_registry_db :: registry_db where
  "empty_registry_db =
     \<lparr>agents = [], releases = [], access_grants = [], run_specifications = [],
      registry_idempotency = [], publication_audit = [], access_audit = []\<rparr>"

section \<open>Idempotency records\<close>

definition idem_id :: "registry_idem_row \<Rightarrow> pystr \<times> registry_operation \<times> pystr" where
  "idem_id i = (ik_actor i, ik_operation i, ik_key i)"

definition printable :: "pystr \<Rightarrow> bool" where
  "printable s \<longleftrightarrow> list_all (\<lambda>c. 32 \<le> (of_char c :: nat) \<and> (of_char c :: nat) < 127) s"

definition registry_key_ok :: "pystr \<Rightarrow> bool" where
  "registry_key_ok key \<longleftrightarrow> 8 \<le> char_count key \<and> char_count key \<le> 128 \<and> ascii key \<and> printable key"

definition publication_error :: "pystr \<Rightarrow> exc" where
  "publication_error code = Coded ''PublicationError'' code"

definition lifecycle_error :: "pystr \<Rightarrow> exc" where
  "lifecycle_error code = Coded ''LifecycleError'' code"

definition access_error :: "pystr \<Rightarrow> exc" where
  "access_error code = Coded ''AccessError'' code"

definition resolution_error :: "pystr \<Rightarrow> exc" where
  "resolution_error code = Coded ''ResolutionError'' code"

text \<open>The record of a key, and the insertion of one.\<close>

definition find_key ::
  "registry_db \<Rightarrow> pystr \<Rightarrow> registry_operation \<Rightarrow> pystr \<Rightarrow> registry_idem_row option" where
  "find_key db actor operation key = row_by idem_id (actor, operation, key) (registry_idempotency db)"

definition save_key :: "registry_idem_row \<Rightarrow> registry_db \<Rightarrow> registry_db" where
  "save_key i db = db\<lparr>registry_idempotency := registry_idempotency db @ [i]\<rparr>"

section \<open>Publication\<close>

record published_release =
  pr_release_id :: uuid
  pr_agent_id :: pystr
  pr_version :: pystr
  pr_image :: pystr
  pr_manifest :: members
  pr_status :: release_status

text \<open>\<open>_from_row\<close> of \<open>publication.py\<close>.\<close>

definition release_of :: "release_row \<Rightarrow> published_release" where
  "release_of r =
     \<lparr>pr_release_id = rl_id r, pr_agent_id = rl_agent_id r, pr_version = rl_version r,
      pr_image = rl_image r, pr_manifest = rl_manifest r, pr_status = rl_status r\<rparr>"

text \<open>Texts and documents that PostgreSQL refuses: a NUL character, and numbers that are no JSON.\<close>

definition nul_free :: "pystr \<Rightarrow> bool" where
  "nul_free s \<longleftrightarrow> CHR 0x00 \<notin> set s"

fun storable :: "json \<Rightarrow> bool" where
  "storable (J_str s) \<longleftrightarrow> nul_free s"
| "storable (J_float t) \<longleftrightarrow> t \<notin> {''NaN'', ''Infinity'', ''-Infinity''}"
| "storable (J_arr vs) \<longleftrightarrow> (\<forall>v \<in> set vs. storable v)"
| "storable (J_obj ms) \<longleftrightarrow> (\<forall>m \<in> set ms. nul_free (fst m) \<and> storable (snd m))"
| "storable _ \<longleftrightarrow> True"

definition new_release :: "uuid \<Rightarrow> pystr \<Rightarrow> validated_release \<Rightarrow> release_row" where
  "new_release i actor v =
     \<lparr>rl_id = i, rl_agent_id = vr_agent_id v, rl_version = vr_version v, rl_image = vr_image v,
      rl_image_digest = vr_image_digest v, rl_manifest = vr_manifest v,
      rl_manifest_sha256 = vr_manifest_sha256 v, rl_provenance = vr_provenance v,
      rl_sdk_constraint = vr_sdk_constraint v, rl_status = Published, rl_published_by = actor,
      rl_deprecated_by = None, rl_deprecated_at = None\<rparr>"

definition store_agent :: "validated_release \<Rightarrow> registry_db \<Rightarrow> exc + registry_db" where
  "store_agent v db =
     (case row_by ag_agent_id (vr_agent_id v) (agents db) of
        None \<Rightarrow>
          if \<not> nul_free (vr_name v) \<or> \<not> nul_free (vr_description v) then Inl Backend_failure
          else Inr (db\<lparr>agents := agents db @
            [\<lparr>ag_agent_id = vr_agent_id v, ag_name = vr_name v,
              ag_description = vr_description v, ag_default = None\<rparr>]\<rparr>)
      | Some a \<Rightarrow>
          if ag_name a \<noteq> vr_name v \<or> ag_description a \<noteq> vr_description v
          then Inl (publication_error ''agent_metadata_conflict'')
          else Inr db)"

text \<open>The row the uniqueness query reads: of two conflicting rows the database may return either,
  the model the older one.\<close>

definition conflicting :: "validated_release \<Rightarrow> registry_db \<Rightarrow> release_row option" where
  "conflicting v db =
     find (\<lambda>r. rl_agent_id r = vr_agent_id v \<and> rl_version r = vr_version v \<or> rl_image r = vr_image v)
       (releases db)"

definition store_release ::
  "validated_release \<Rightarrow> pystr \<Rightarrow> uuid \<Rightarrow> registry_db \<Rightarrow> exc + registry_db" where
  "store_release v actor i db =
     (case store_agent v db of
        Inl e \<Rightarrow> Inl e
      | Inr db1 \<Rightarrow>
          (case conflicting v db1 of
             Some r \<Rightarrow>
               if rl_image r = vr_image v then Inl (publication_error ''image_already_published'')
               else Inl (publication_error ''release_version_conflict'')
           | None \<Rightarrow>
               if has_row rl_id i (releases db1) then Inl Unique_violation
               else if \<not> storable (J_obj (vr_manifest v)) \<or> \<not> storable (J_obj (vr_provenance v))
               then Inl Backend_failure
               else Inr (db1\<lparr>releases := releases db1 @ [new_release i actor v],
                      publication_audit := publication_audit db1 @
                        [\<lparr>au_release_id = i,
                          au_action = Release_published (vr_image_digest v) (vr_manifest_sha256 v),
                          au_actor = actor\<rparr>]\<rparr>)))"

definition publication_digest :: "(pystr \<Rightarrow> pystr) \<Rightarrow> json \<Rightarrow> json \<Rightarrow> json \<Rightarrow> pystr" where
  "publication_digest sha manifest img provenance =
     request_sha256 sha
       (J_obj [(''manifest'', manifest), (''image'', img), (''provenance'', provenance)])"

text \<open>The transaction of \<open>publish_release\<close>. The lock on the image takes its text as a
  parameter.\<close>

definition publish_tx ::
  "validated_release \<Rightarrow> pystr \<Rightarrow> pystr \<Rightarrow> pystr \<Rightarrow> uuid \<Rightarrow> registry_db
     \<Rightarrow> (published_release, registry_db) tx" where
  "publish_tx v digest actor key i db =
     (case find_key db actor Publish_release key of
        Some previous \<Rightarrow>
          if ik_sha256 previous \<noteq> digest then Inl (publication_error ''idempotency_conflict'')
          else
            (case Option.bind (ik_release previous) (\<lambda>j. row_by rl_id j (releases db)) of
               None \<Rightarrow> Inl (publication_error ''idempotency_result_unavailable'')
             | Some r \<Rightarrow> Inr (release_of r, db))
      | None \<Rightarrow>
          if \<not> nul_free (vr_image v) then Inl Backend_failure
          else
            (case store_release v actor i db of
               Inl e \<Rightarrow> Inl e
             | Inr db' \<Rightarrow>
                 Inr (release_of (new_release i actor v),
                      save_key \<lparr>ik_actor = actor, ik_operation = Publish_release, ik_key = key,
                        ik_sha256 = digest, ik_status = 201, ik_release = Some i, ik_grant = None,
                        ik_specification = None, ik_body = None\<rparr> db')))"

definition validation_exception :: "validation_error \<Rightarrow> exc" where
  "validation_exception e =
     (case e of Invalid code field \<Rightarrow> Coded ''PublicationValidationError'' code | Raised x \<Rightarrow> x)"

definition publish_release ::
  "(pystr \<Rightarrow> pystr) \<Rightarrow> pystr \<Rightarrow> pystr \<Rightarrow> json \<Rightarrow> json \<Rightarrow> json \<Rightarrow> uuid \<Rightarrow> registry_db
     \<Rightarrow> (published_release, registry_db) tx" where
  "publish_release sha actor key manifest img provenance i db =
     (if actor = [] \<or> 255 < char_count actor then Inl (publication_error ''actor_invalid'')
      else if \<not> registry_key_ok key then Inl (publication_error ''idempotency_key_invalid'')
      else
        (case validate_publication sha manifest img provenance of
           Inl e \<Rightarrow> Inl (validation_exception e)
         | Inr v \<Rightarrow> publish_tx v (publication_digest sha manifest img provenance) actor key i db))"

section \<open>Lifecycle\<close>

definition text_of_uuid :: "uuid \<Rightarrow> json" where
  "text_of_uuid u = J_str (uuid_str u)"

definition default_digest :: "(pystr \<Rightarrow> pystr) \<Rightarrow> pystr \<Rightarrow> uuid \<Rightarrow> pystr" where
  "default_digest sha agent release =
     request_sha256 sha (J_obj [(''agent_id'', J_str agent), (''release_id'', text_of_uuid release)])"

definition summary_of :: "agent_row \<Rightarrow> uuid option \<Rightarrow> agent_summary" where
  "summary_of a chosen =
     \<lparr>as_agent_id = ag_agent_id a, as_name = ag_name a, as_description = ag_description a,
      as_default = chosen\<rparr>"

definition choose_default :: "agent_row \<Rightarrow> uuid \<Rightarrow> pystr \<Rightarrow> registry_db \<Rightarrow> registry_db" where
  "choose_default a release actor db =
     (if ag_default a = Some release then db
      else db\<lparr>agents := update_where (\<lambda>b. ag_agent_id b = ag_agent_id a)
                         (\<lambda>b. b\<lparr>ag_default := Some release\<rparr>) (agents db),
              publication_audit := publication_audit db @
                [\<lparr>au_release_id = release, au_action = Default_release_changed (ag_default a),
                  au_actor = actor\<rparr>]\<rparr>)"

definition set_default_release ::
  "(pystr \<Rightarrow> pystr) \<Rightarrow> pystr \<Rightarrow> pystr \<Rightarrow> pystr \<Rightarrow> uuid \<Rightarrow> registry_db
     \<Rightarrow> (agent_summary, registry_db) tx" where
  "set_default_release sha actor key agent release db =
     (if \<not> registry_key_ok key then Inl (lifecycle_error ''idempotency_key_invalid'')
      else if \<not> agent_id_ok agent then Inl (lifecycle_error ''agent_not_found'')
      else
        (case find_key db actor Set_default_release key of
           Some replay \<Rightarrow>
             if ik_sha256 replay \<noteq> default_digest sha agent release
             then Inl (lifecycle_error ''idempotency_conflict'')
             else
               (case ik_body replay of
                  None \<Rightarrow> Inl (lifecycle_error ''idempotency_result_unavailable'')
                | Some response \<Rightarrow> Inr (response, db))
         | None \<Rightarrow>
             (case row_by ag_agent_id agent (agents db) of
                None \<Rightarrow> Inl (lifecycle_error ''agent_not_found'')
              | Some a \<Rightarrow>
                  (case row_by rl_id release (releases db) of
                     None \<Rightarrow> Inl (lifecycle_error ''release_not_found'')
                   | Some r \<Rightarrow>
                       if rl_agent_id r \<noteq> agent then Inl (lifecycle_error ''release_not_found'')
                       else if rl_status r \<noteq> Published
                       then Inl (lifecycle_error ''release_deprecated'')
                       else
                         Inr (summary_of a (Some release),
                           save_key \<lparr>ik_actor = actor, ik_operation = Set_default_release,
                             ik_key = key, ik_sha256 = default_digest sha agent release,
                             ik_status = 200, ik_release = Some release, ik_grant = None,
                             ik_specification = None,
                             ik_body = Some (summary_of a (Some release))\<rparr>
                             (choose_default a release actor db))))))"

definition deprecation_digest :: "(pystr \<Rightarrow> pystr) \<Rightarrow> uuid \<Rightarrow> pystr" where
  "deprecation_digest sha release =
     request_sha256 sha (J_obj [(''release_id'', text_of_uuid release)])"

definition deprecate :: "pystr \<Rightarrow> instant \<Rightarrow> release_row \<Rightarrow> release_row" where
  "deprecate actor now r =
     r\<lparr>rl_status := Deprecated, rl_deprecated_by := Some actor, rl_deprecated_at := Some now\<rparr>"

definition mark_deprecated :: "release_row \<Rightarrow> pystr \<Rightarrow> instant \<Rightarrow> registry_db \<Rightarrow> registry_db" where
  "mark_deprecated r actor now db =
     (if rl_status r = Deprecated then db
      else db\<lparr>releases := update_where (\<lambda>q. rl_id q = rl_id r) (deprecate actor now) (releases db),
              publication_audit := publication_audit db @
                [\<lparr>au_release_id = rl_id r, au_action = Release_deprecated, au_actor = actor\<rparr>]\<rparr>)"

definition deprecate_release ::
  "(pystr \<Rightarrow> pystr) \<Rightarrow> pystr \<Rightarrow> pystr \<Rightarrow> uuid \<Rightarrow> instant \<Rightarrow> registry_db
     \<Rightarrow> (published_release, registry_db) tx" where
  "deprecate_release sha actor key release now db =
     (if \<not> registry_key_ok key then Inl (lifecycle_error ''idempotency_key_invalid'')
      else
        (case find_key db actor Deprecate_release key of
           Some replay \<Rightarrow>
             if ik_sha256 replay \<noteq> deprecation_digest sha release
             then Inl (lifecycle_error ''idempotency_conflict'')
             else
               (case Option.bind (ik_release replay) (\<lambda>j. row_by rl_id j (releases db)) of
                  None \<Rightarrow> Inl (lifecycle_error ''idempotency_result_unavailable'')
                | Some r \<Rightarrow> Inr (release_of r, db))
         | None \<Rightarrow>
             (case row_by rl_id release (releases db) of
                None \<Rightarrow> Inl (lifecycle_error ''release_not_found'')
              | Some r \<Rightarrow>
                  (case row_by ag_agent_id (rl_agent_id r) (agents db) of
                     None \<Rightarrow> Inl Type_error
                   | Some a \<Rightarrow>
                       if ag_default a = Some release
                       then Inl (lifecycle_error ''default_release_deprecation_forbidden'')
                       else
                         Inr (release_of (if rl_status r = Deprecated then r
                                          else deprecate actor now r),
                           save_key \<lparr>ik_actor = actor, ik_operation = Deprecate_release,
                             ik_key = key, ik_sha256 = deprecation_digest sha release,
                             ik_status = 200, ik_release = Some release, ik_grant = None,
                             ik_specification = None, ik_body = None\<rparr>
                             (mark_deprecated r actor now db))))))"

section \<open>Access\<close>

record service_identity =
  si_subject :: pystr
  si_client_id :: pystr
  si_roles :: "pystr list"
  si_groups :: "pystr list"
  si_delegated_user :: "pystr option"

text \<open>The grants a query accepts: unrevoked, with one of the permissions, for the user, one of the
  groups or one of the roles.\<close>

definition names_subject :: "pystr \<Rightarrow> service_identity \<Rightarrow> access_row \<Rightarrow> bool" where
  "names_subject user identity g \<longleftrightarrow>
     (case aw_subject_type g of
        User_subject \<Rightarrow> aw_subject_id g = user
      | Group_subject \<Rightarrow> aw_subject_id g \<in> set (si_groups identity)
      | Role_subject \<Rightarrow> aw_subject_id g \<in> set (si_roles identity))"

definition granted ::
  "permission list \<Rightarrow> pystr \<Rightarrow> service_identity \<Rightarrow> pystr \<Rightarrow> registry_db \<Rightarrow> bool" where
  "granted permissions user identity agent db \<longleftrightarrow>
     list_ex (\<lambda>g. aw_agent_id g = agent \<and> aw_revoked_at g = None
                  \<and> aw_permission g \<in> set permissions \<and> names_subject user identity g)
       (access_grants db)"

definition visible_permissions :: "permission list" where
  "visible_permissions = [Discover, Run_permission, Admin]"

fun insert_agent :: "(pystr \<Rightarrow> pystr \<Rightarrow> bool) \<Rightarrow> agent_row \<Rightarrow> agent_row list \<Rightarrow> agent_row list" where
  "insert_agent le a [] = [a]"
| "insert_agent le a (b # bs) =
     (if (if ag_name a = ag_name b then le (ag_agent_id a) (ag_agent_id b)
          else le (ag_name a) (ag_name b))
      then a # b # bs else b # insert_agent le a bs)"

text \<open>\<open>list_visible_agents\<close>; the parameter \<open>le\<close> is the collation of the database.\<close>

definition list_visible_agents ::
  "(pystr \<Rightarrow> pystr \<Rightarrow> bool) \<Rightarrow> service_identity \<Rightarrow> registry_db \<Rightarrow> agent_summary list" where
  "list_visible_agents le identity db =
     map (\<lambda>a. summary_of a (ag_default a))
       (foldr (insert_agent le)
          (filter (\<lambda>a. granted visible_permissions (si_subject identity) identity (ag_agent_id a) db
                       \<and> list_ex (\<lambda>r. rl_agent_id r = ag_agent_id a \<and> rl_status r = Published)
                           (releases db))
             (agents db)) [])"

definition get_visible_release ::
  "service_identity \<Rightarrow> pystr \<Rightarrow> pystr \<Rightarrow> registry_db \<Rightarrow> exc + published_release" where
  "get_visible_release identity agent version db =
     (case find (\<lambda>r. rl_agent_id r = agent \<and> rl_version r = version
                  \<and> granted visible_permissions (si_subject identity) identity (rl_agent_id r) db)
             (releases db) of
        None \<Rightarrow> Inl (access_error ''release_not_found'')
      | Some r \<Rightarrow> Inr (release_of r))"

definition get_visible_release_by_id ::
  "service_identity \<Rightarrow> uuid \<Rightarrow> registry_db \<Rightarrow> exc + published_release" where
  "get_visible_release_by_id identity release db =
     (case find (\<lambda>r. rl_id r = release
                  \<and> granted visible_permissions (si_subject identity) identity (rl_agent_id r) db)
             (releases db) of
        None \<Rightarrow> Inl (access_error ''release_not_found'')
      | Some r \<Rightarrow> Inr (release_of r))"

record access_grant =
  gr_grant_id :: uuid
  gr_agent_id :: pystr
  gr_subject_type :: subject_type
  gr_subject_id :: pystr
  gr_permission :: permission
  gr_revoked :: bool

text \<open>\<open>_grant_from_row\<close>.\<close>

definition grant_of :: "access_row \<Rightarrow> access_grant" where
  "grant_of g =
     \<lparr>gr_grant_id = aw_grant_id g, gr_agent_id = aw_agent_id g,
      gr_subject_type = aw_subject_type g, gr_subject_id = aw_subject_id g,
      gr_permission = aw_permission g, gr_revoked = (aw_revoked_at g \<noteq> None)\<rparr>"

definition replayed_grant :: "registry_idem_row \<Rightarrow> registry_db \<Rightarrow> exc + access_grant" where
  "replayed_grant i db =
     (case Option.bind (ik_grant i) (\<lambda>j. row_by aw_grant_id j (access_grants db)) of
        None \<Rightarrow> Inl (access_error ''idempotency_result_unavailable'')
      | Some g \<Rightarrow> Inr (grant_of g))"

fun subject_type_text :: "subject_type \<Rightarrow> pystr" where
  "subject_type_text User_subject = ''user''"
| "subject_type_text Group_subject = ''group''"
| "subject_type_text Role_subject = ''role''"

fun permission_text :: "permission \<Rightarrow> pystr" where
  "permission_text Discover = ''discover''"
| "permission_text Run_permission = ''run''"
| "permission_text Publish = ''publish''"
| "permission_text Admin = ''admin''"

text \<open>What a grant is about: agent, subject and permission.\<close>

type_synonym grant_terms = "pystr \<times> subject_type \<times> pystr \<times> permission"

definition terms_of :: "access_row \<Rightarrow> grant_terms" where
  "terms_of g = (aw_agent_id g, aw_subject_type g, aw_subject_id g, aw_permission g)"

definition grant_sha256 :: "(pystr \<Rightarrow> pystr) \<Rightarrow> grant_terms \<Rightarrow> pystr" where
  "grant_sha256 sha terms =
     (case terms of (agent, type, subject, permission) \<Rightarrow>
        request_sha256 sha (J_obj
          [(''agent_id'', J_str agent), (''subject_type'', J_str (subject_type_text type)),
           (''subject_id'', J_str subject), (''permission'', J_str (permission_text permission))]))"

definition new_access :: "uuid \<Rightarrow> pystr \<Rightarrow> grant_terms \<Rightarrow> access_row" where
  "new_access i actor terms =
     (case terms of (agent, type, subject, permission) \<Rightarrow>
        \<lparr>aw_grant_id = i, aw_agent_id = agent, aw_subject_type = type, aw_subject_id = subject,
         aw_permission = permission, aw_granted_by = actor, aw_revoked_at = None\<rparr>)"

definition active_grant :: "grant_terms \<Rightarrow> registry_db \<Rightarrow> access_row option" where
  "active_grant terms db =
     find (\<lambda>g. terms_of g = terms \<and> aw_revoked_at g = None) (access_grants db)"

definition grant_record :: "pystr \<Rightarrow> registry_operation \<Rightarrow> pystr \<Rightarrow> pystr \<Rightarrow> nat \<Rightarrow> uuid
    \<Rightarrow> registry_idem_row" where
  "grant_record actor operation key digest status i =
     \<lparr>ik_actor = actor, ik_operation = operation, ik_key = key, ik_sha256 = digest,
      ik_status = status, ik_release = None, ik_grant = Some i, ik_specification = None,
      ik_body = None\<rparr>"

definition add_access :: "access_row \<Rightarrow> registry_db \<Rightarrow> registry_db" where
  "add_access g db =
     db\<lparr>access_grants := access_grants db @ [g],
        access_audit := access_audit db @
          [\<lparr>aa_grant_id = aw_grant_id g, aa_granted = True, aa_actor = aw_granted_by g\<rparr>]\<rparr>"

definition grant_access ::
  "(pystr \<Rightarrow> pystr) \<Rightarrow> pystr \<Rightarrow> pystr \<Rightarrow> grant_terms \<Rightarrow> uuid \<Rightarrow> registry_db
     \<Rightarrow> (access_grant, registry_db) tx" where
  "grant_access sha actor key terms i db =
     (if \<not> agent_id_ok (fst terms) \<or> fst (snd (snd terms)) = [] \<or> 255 < char_count (fst (snd (snd terms)))
      then Inl (access_error ''grant_invalid'')
      else if \<not> registry_key_ok key then Inl (access_error ''idempotency_key_invalid'')
      else
        (case find_key db actor Grant_access key of
           Some stored \<Rightarrow>
             if ik_sha256 stored \<noteq> grant_sha256 sha terms
             then Inl (access_error ''idempotency_conflict'')
             else map_sum id (\<lambda>g. (g, db)) (replayed_grant stored db)
         | None \<Rightarrow>
             if \<not> has_row ag_agent_id (fst terms) (agents db)
             then Inl (access_error ''agent_not_found'')
             else
               (case active_grant terms db of
                  Some g \<Rightarrow>
                    Inr (grant_of g, save_key
                      (grant_record actor Grant_access key (grant_sha256 sha terms) 201 (aw_grant_id g)) db)
                | None \<Rightarrow>
                    if has_row aw_grant_id i (access_grants db) then Inl Unique_violation
                    else
                      Inr (grant_of (new_access i actor terms), save_key
                        (grant_record actor Grant_access key (grant_sha256 sha terms) 201 i)
                        (add_access (new_access i actor terms) db)))))"

definition revocation_digest :: "(pystr \<Rightarrow> pystr) \<Rightarrow> uuid \<Rightarrow> pystr" where
  "revocation_digest sha i = request_sha256 sha (J_obj [(''grant_id'', text_of_uuid i)])"

text \<open>The update of one grant; the unique constraint covers the terms together with the time of the
  revocation.\<close>

definition end_access :: "access_row \<Rightarrow> pystr \<Rightarrow> instant \<Rightarrow> registry_db \<Rightarrow> exc + registry_db" where
  "end_access g actor now db =
     (if aw_revoked_at g \<noteq> None then Inr db
      else if list_ex (\<lambda>h. terms_of h = terms_of g \<and> aw_revoked_at h = Some now) (access_grants db)
      then Inl Unique_violation
      else Inr (db\<lparr>access_grants := update_where (\<lambda>h. aw_grant_id h = aw_grant_id g)
                      (\<lambda>h. h\<lparr>aw_revoked_at := Some now\<rparr>) (access_grants db),
                   access_audit := access_audit db @
                     [\<lparr>aa_grant_id = aw_grant_id g, aa_granted = False, aa_actor = actor\<rparr>]\<rparr>))"

definition revoke_access ::
  "(pystr \<Rightarrow> pystr) \<Rightarrow> pystr \<Rightarrow> pystr \<Rightarrow> uuid \<Rightarrow> instant \<Rightarrow> registry_db
     \<Rightarrow> (access_grant, registry_db) tx" where
  "revoke_access sha actor key i now db =
     (if \<not> registry_key_ok key then Inl (access_error ''idempotency_key_invalid'')
      else
        (case find_key db actor Revoke_access key of
           Some stored \<Rightarrow>
             if ik_sha256 stored \<noteq> revocation_digest sha i
             then Inl (access_error ''idempotency_conflict'')
             else map_sum id (\<lambda>g. (g, db)) (replayed_grant stored db)
         | None \<Rightarrow>
             (case row_by aw_grant_id i (access_grants db) of
                None \<Rightarrow> Inl (access_error ''grant_not_found'')
              | Some g \<Rightarrow>
                  (case end_access g actor now db of
                     Inl e \<Rightarrow> Inl e
                   | Inr db' \<Rightarrow>
                       Inr ((grant_of g)\<lparr>gr_revoked := True\<rparr>, save_key
                         (grant_record actor Revoke_access key (revocation_digest sha i) 200 i) db')))))"

end
