(* ===== verification/RegistryResolution.thy ===== *)
theory RegistryResolution
  imports RegistryStore
begin

text \<open>
  Run specifications, \<open>agent_registry/resolution.py\<close>: a request is resolved once per run into a
  signed document made of the request and of the stored manifest of a published release the user
  may run.
\<close>

section \<open>Requests and specifications\<close>

record resolution_request =
  rq_run_id :: uuid
  rq_user_id :: uuid
  rq_conversation_id :: uuid
  rq_thread_id :: uuid
  rq_release_id :: uuid
  rq_delegation_grant_id :: uuid
  rq_trace_id :: pystr
  rq_configuration_revision_id :: "uuid option"
  rq_starting_checkpoint_id :: "uuid option"

definition optional_uuid :: "uuid option \<Rightarrow> json" where
  "optional_uuid u = (case u of None \<Rightarrow> J_null | Some i \<Rightarrow> text_of_uuid i)"

definition canonical_request :: "resolution_request \<Rightarrow> members" where
  "canonical_request q =
     [(''run_id'', text_of_uuid (rq_run_id q)),
      (''user_id'', text_of_uuid (rq_user_id q)),
      (''conversation_id'', text_of_uuid (rq_conversation_id q)),
      (''thread_id'', text_of_uuid (rq_thread_id q)),
      (''release_id'', text_of_uuid (rq_release_id q)),
      (''delegation_grant_id'', text_of_uuid (rq_delegation_grant_id q)),
      (''configuration_revision_id'', optional_uuid (rq_configuration_revision_id q)),
      (''starting_checkpoint_id'', optional_uuid (rq_starting_checkpoint_id q)),
      (''trace_id'', J_str (rq_trace_id q))]"

definition resolution_digest :: "(pystr \<Rightarrow> pystr) \<Rightarrow> resolution_request \<Rightarrow> pystr" where
  "resolution_digest sha q = request_sha256 sha (J_obj (canonical_request q))"

text \<open>The signer: the Ed25519 signature of a text under the configured key, its identifier and the
  life time in seconds; and the text \<open>isoformat\<close> gives an instant, with its suffix replaced.\<close>

record run_signer =
  sg_sign :: "pystr \<Rightarrow> pystr"
  sg_key_id :: pystr
  sg_ttl :: nat
  sg_time_text :: "instant \<Rightarrow> pystr"

text \<open>\<open>__post_init__\<close>.\<close>

definition run_signer_ok :: "run_signer \<Rightarrow> bool" where
  "run_signer_ok g \<longleftrightarrow>
     1 \<le> char_count (sg_key_id g) \<and> char_count (sg_key_id g) \<le> 128 \<and> 30 \<le> sg_ttl g \<and> sg_ttl g \<le> 3600"

record signed_run_specification =
  sr_specification_id :: uuid
  sr_run_id :: uuid
  sr_payload :: members
  sr_payload_sha256 :: pystr
  sr_signature :: pystr
  sr_key_id :: pystr

definition specification_of :: "specification_row \<Rightarrow> signed_run_specification" where
  "specification_of s =
     \<lparr>sr_specification_id = rs_specification_id s, sr_run_id = rs_run_id s,
      sr_payload = rs_payload s, sr_payload_sha256 = rs_payload_sha256 s,
      sr_signature = rs_signature s, sr_key_id = rs_key_id s\<rparr>"

section \<open>The payload\<close>

definition required_item :: "members \<Rightarrow> pystr \<Rightarrow> exc + json" where
  "required_item ms k = (case member k ms of None \<Rightarrow> Inl Key_error | Some v \<Rightarrow> Inr v)"

text \<open>\<open>_json_object\<close> on a value that is no text.\<close>

definition stored_object :: "json \<Rightarrow> exc + members" where
  "stored_object v = (case v of J_obj ms \<Rightarrow> Inr ms | _ \<Rightarrow> Inl (resolution_error ''stored_release_invalid''))"

definition release_section :: "release_row \<Rightarrow> json \<Rightarrow> json \<Rightarrow> json" where
  "release_section r entrypoint sdk =
     J_obj [(''agent_id'', J_str (rl_agent_id r)), (''version'', J_str (rl_version r)),
            (''image'', J_str (rl_image r)),
            (''manifest_sha256'', J_str (rl_manifest_sha256 r)),
            (''entrypoint'', entrypoint), (''sdk'', sdk)]"

definition run_payload ::
  "run_signer \<Rightarrow> resolution_request \<Rightarrow> uuid \<Rightarrow> instant \<Rightarrow> release_row \<Rightarrow> exc + members" where
  "run_payload g q i now r =
     chain (required_item (rl_manifest r) ''spec'') (\<lambda>spec_value.
     chain (stored_object spec_value) (\<lambda>spec.
     chain (required_item spec ''entrypoint'') (\<lambda>entrypoint.
     chain (required_item spec ''sdk'') (\<lambda>sdk.
     chain (required_item spec ''models'') (\<lambda>models.
     chain (required_item spec ''tools'') (\<lambda>tools.
     chain (required_item spec ''resources'') (\<lambda>resources.
     Inr ([(''specification_version'', J_int 1), (''specification_id'', text_of_uuid i)]
          @ canonical_request q
          @ [(''release'', release_section r entrypoint sdk),
             (''requested_models'', models), (''requested_tools'', tools),
             (''resources'', resources),
             (''issued_at'', J_str (sg_time_text g now)),
             (''expires_at'', J_str (sg_time_text g (now + int (sg_ttl g) * 1000000)))]))))))))"

section \<open>Resolution\<close>

definition runnable_permissions :: "permission list" where
  "runnable_permissions = [Run_permission, Admin]"

definition authorized_release ::
  "service_identity \<Rightarrow> resolution_request \<Rightarrow> registry_db \<Rightarrow> exc + release_row" where
  "authorized_release identity q db =
     (case find (\<lambda>r. rl_id r = rq_release_id q \<and> rl_status r = Published
                  \<and> granted runnable_permissions (uuid_str (rq_user_id q)) identity (rl_agent_id r) db)
             (releases db) of
        None \<Rightarrow> Inl (resolution_error ''release_not_found'')
      | Some r \<Rightarrow> Inr r)"

definition resolution_record :: "pystr \<Rightarrow> pystr \<Rightarrow> pystr \<Rightarrow> uuid \<Rightarrow> registry_idem_row" where
  "resolution_record actor key digest i =
     \<lparr>ik_actor = actor, ik_operation = Resolve_run_specification, ik_key = key, ik_sha256 = digest,
      ik_status = 200, ik_release = None, ik_grant = None, ik_specification = Some i,
      ik_body = None\<rparr>"

definition new_specification ::
  "(pystr \<Rightarrow> pystr) \<Rightarrow> run_signer \<Rightarrow> resolution_request \<Rightarrow> uuid \<Rightarrow> instant \<Rightarrow> members
     \<Rightarrow> specification_row" where
  "new_specification sha g q i now payload =
     \<lparr>rs_specification_id = i, rs_run_id = rq_run_id q, rs_release_id = rq_release_id q,
      rs_user_id = rq_user_id q, rs_request_sha256 = resolution_digest sha q, rs_payload = payload,
      rs_payload_sha256 = sha (canonical_json (J_obj payload)),
      rs_signature = sg_sign g (canonical_json (J_obj payload)), rs_key_id = sg_key_id g,
      rs_issued_at = now, rs_expires_at = now + int (sg_ttl g) * 1000000\<rparr>"

text \<open>The part of the transaction that resolves a run for the first time.\<close>

definition resolve_fresh ::
  "(pystr \<Rightarrow> pystr) \<Rightarrow> run_signer \<Rightarrow> service_identity \<Rightarrow> resolution_request \<Rightarrow> pystr \<Rightarrow> pystr
     \<Rightarrow> uuid \<times> instant \<Rightarrow> registry_db \<Rightarrow> (signed_run_specification, registry_db) tx" where
  "resolve_fresh sha g identity q actor key x db =
     chain (authorized_release identity q db) (\<lambda>r.
     chain (run_payload g q (fst x) (snd x) r) (\<lambda>payload.
     if has_row rs_specification_id (fst x) (run_specifications db) then Inl Unique_violation
     else
       (let s = new_specification sha g q (fst x) (snd x) payload in
        Inr (specification_of s,
          save_key (resolution_record actor key (resolution_digest sha q) (fst x))
            (db\<lparr>run_specifications := run_specifications db @ [s]\<rparr>)))))"

definition resolve_run_specification ::
  "(pystr \<Rightarrow> pystr) \<Rightarrow> run_signer \<Rightarrow> service_identity \<Rightarrow> resolution_request \<Rightarrow> pystr \<Rightarrow> pystr
     \<Rightarrow> uuid \<times> instant \<Rightarrow> registry_db \<Rightarrow> (signed_run_specification, registry_db) tx" where
  "resolve_run_specification sha g identity q actor key x db =
     (if si_delegated_user identity \<noteq> Some (uuid_str (rq_user_id q))
      then Inl (resolution_error ''user_context_mismatch'')
      else if char_count key < 8 \<or> 128 < char_count key \<or> \<not> ascii key
      then Inl (resolution_error ''idempotency_key_invalid'')
      else
        (case find_key db actor Resolve_run_specification key of
           Some replay \<Rightarrow>
             if ik_sha256 replay \<noteq> resolution_digest sha q
             then Inl (resolution_error ''idempotency_conflict'')
             else
               (case Option.bind (ik_specification replay)
                       (\<lambda>j. row_by rs_specification_id j (run_specifications db)) of
                  None \<Rightarrow> Inl (resolution_error ''idempotency_result_unavailable'')
                | Some s \<Rightarrow> Inr (specification_of s, db))
         | None \<Rightarrow>
             (case row_by rs_run_id (rq_run_id q) (run_specifications db) of
                Some existing \<Rightarrow>
                  if rs_request_sha256 existing \<noteq> resolution_digest sha q
                  then Inl (resolution_error ''run_specification_conflict'')
                  else Inr (specification_of existing,
                    save_key (resolution_record actor key (resolution_digest sha q)
                      (rs_specification_id existing)) db)
              | None \<Rightarrow> resolve_fresh sha g identity q actor key x db)))"

end
