(* ===== verification/RegistryApi.thy ===== *)
theory RegistryApi
  imports RegistryResolution
begin

text \<open>
  The HTTP side of the Agent Registry: \<open>agent_registry/auth.py\<close> (identities from token
  introspection), \<open>evidence.py\<close> (image digest and publication signature) and the endpoints of
  \<open>main.py\<close> with their tables of problems. The identity provider, the OCI registry and Ed25519 are
  parameters.
\<close>

section \<open>Identities\<close>

definition publisher_role :: pystr where "publisher_role = ''genai-agent-publisher''"
definition admin_role :: pystr where "admin_role = ''genai-agent-registry-admin''"
definition resolver_role :: pystr where "resolver_role = ''genai-agent-run-resolver''"

definition invalid_token :: exc where
  "invalid_token = Problem 401 ''invalid_token''"

text \<open>\<open>audience in audiences\<close>, for a claim that is a text, a list, an object or nothing iterable.\<close>

definition audience_in :: "pystr \<Rightarrow> json \<Rightarrow> exc + bool" where
  "audience_in audience v =
     (case v of
        J_str s \<Rightarrow> Inr (s = audience)
      | J_arr vs \<Rightarrow> Inr (J_str audience \<in> set vs)
      | J_obj ms \<Rightarrow> Inr (audience \<in> set (member_keys ms))
      | _ \<Rightarrow> Inl Type_error)"

fun texts_of :: "json list \<Rightarrow> pystr list" where
  "texts_of [] = []"
| "texts_of (J_str s # vs) = s # texts_of vs"
| "texts_of (_ # vs) = texts_of vs"

definition list_texts :: "json \<Rightarrow> pystr list" where
  "list_texts v = (case v of J_arr vs \<Rightarrow> texts_of vs | _ \<Rightarrow> [])"

definition roles_from_claims :: "members \<Rightarrow> pystr list" where
  "roles_from_claims claims =
     (case member ''realm_access'' claims of
        Some (J_obj realm) \<Rightarrow> list_texts (item_or realm ''roles'' J_null)
      | _ \<Rightarrow> [])
     @ list_texts (item_or claims ''roles'' J_null)"

text \<open>\<open>groups\<close>: a list of texts, or refused.\<close>

definition groups_from_claims :: "members \<Rightarrow> exc + pystr list" where
  "groups_from_claims claims =
     (case item_or claims ''groups'' (J_arr []) of
        J_arr vs \<Rightarrow> if length (texts_of vs) = length vs then Inr (texts_of vs) else Inl invalid_token
      | _ \<Rightarrow> Inl invalid_token)"

definition delegated_user :: "members \<Rightarrow> exc + pystr option" where
  "delegated_user claims =
     (case item_or claims ''porfirium_user_id'' J_null of
        J_null \<Rightarrow> Inr None | J_str s \<Rightarrow> Inr (Some s) | _ \<Rightarrow> Inl invalid_token)"

definition nonempty_text :: "json \<Rightarrow> exc + pystr" where
  "nonempty_text v = (case v of J_str s \<Rightarrow> if s = [] then Inl invalid_token else Inr s
     | _ \<Rightarrow> Inl invalid_token)"

definition plain_text :: "json \<Rightarrow> exc + pystr" where
  "plain_text v = (case v of J_str s \<Rightarrow> Inr s | _ \<Rightarrow> Inl invalid_token)"

text \<open>\<open>OidcAuthenticator.authenticate\<close> after the introspection call; None is a failed call.\<close>

definition authenticate :: "pystr \<Rightarrow> json option \<Rightarrow> exc + service_identity" where
  "authenticate audience response =
     (case response of
        None \<Rightarrow> Inl (Problem 503 ''identity_unavailable'')
      | Some (J_obj claims) \<Rightarrow>
          chain (demand (member ''active'' claims = Some (J_bool True)) invalid_token) (\<lambda>_.
          chain (audience_in audience (item_or claims ''aud'' (J_arr []))) (\<lambda>inside.
          chain (demand inside invalid_token) (\<lambda>_.
          chain (nonempty_text (item_or claims ''sub'' J_null)) (\<lambda>subject.
          chain (plain_text (item_or claims ''client_id'' (item_or claims ''azp'' J_null))) (\<lambda>client.
          chain (groups_from_claims claims) (\<lambda>groups.
          chain (delegated_user claims) (\<lambda>user.
          Inr \<lparr>si_subject = subject, si_client_id = client, si_roles = roles_from_claims claims,
               si_groups = groups, si_delegated_user = user\<rparr>)))))))
      | Some _ \<Rightarrow> Inl Type_error)"

text \<open>The environment of the service: introspection (unset when it is not configured), the verifier
  of publications, the signer and the hash.\<close>

datatype head_response = Transport_failure | Head_status nat "pystr option"

record evidence_verifier =
  vf_head :: "pystr \<Rightarrow> head_response"
  vf_registry_url :: pystr
  vf_registry_host :: pystr
  vf_publication_keys :: "(pystr \<times> pystr) list"
  vf_allowed_builders :: "pystr list"
  vf_ed25519 :: "pystr \<Rightarrow> pystr \<Rightarrow> pystr \<Rightarrow> bool"

record registry_service =
  rv_introspect :: "(pystr \<Rightarrow> json option) option"
  rv_audience :: pystr
  rv_verifier :: "evidence_verifier option"
  rv_signer :: "run_signer option"
  rv_sha :: "pystr \<Rightarrow> pystr"

definition authenticated_identity ::
  "registry_service \<Rightarrow> pystr option \<Rightarrow> exc + service_identity" where
  "authenticated_identity S authorization =
     (case authorization of
        None \<Rightarrow> Inl (Problem 401 ''authentication_required'')
      | Some header \<Rightarrow>
          if take 7 header \<noteq> ''Bearer '' then Inl (Problem 401 ''authentication_required'')
          else if drop 7 header = [] \<or> \<not> ascii (drop 7 header) \<or> 8192 < char_count (drop 7 header)
          then Inl invalid_token
          else
            (case rv_introspect S of
               None \<Rightarrow> Inl (Problem 503 ''publication_not_configured'')
             | Some introspect \<Rightarrow> authenticate (rv_audience S) (introspect (drop 7 header))))"

definition authorize_publisher :: "service_identity \<Rightarrow> exc + service_identity" where
  "authorize_publisher identity =
     (if publisher_role \<in> set (si_roles identity) then Inr identity
      else Inl (Problem 403 ''publication_forbidden''))"

definition authorize_admin :: "service_identity \<Rightarrow> exc + service_identity" where
  "authorize_admin identity =
     (if admin_role \<in> set (si_roles identity) then Inr identity
      else Inl (Problem 403 ''grant_administration_forbidden''))"

definition require_resolver :: "registry_service \<Rightarrow> pystr option \<Rightarrow> exc + service_identity" where
  "require_resolver S authorization =
     chain (authenticated_identity S authorization) (\<lambda>identity.
     if resolver_role \<notin> set (si_roles identity) \<or> si_delegated_user identity = None
     then Inl (Problem 403 ''resolution_forbidden'') else Inr identity)"

definition require_publisher :: "registry_service \<Rightarrow> pystr option \<Rightarrow> exc + service_identity" where
  "require_publisher S authorization =
     chain (authenticated_identity S authorization) authorize_publisher"

definition require_admin :: "registry_service \<Rightarrow> pystr option \<Rightarrow> exc + service_identity" where
  "require_admin S authorization = chain (authenticated_identity S authorization) authorize_admin"

section \<open>Evidence\<close>

text \<open>\<open>str.split("@", 1)[0]\<close> and \<open>str.partition("/")\<close>.\<close>

definition before_char :: "char \<Rightarrow> pystr \<Rightarrow> pystr" where
  "before_char c s = takeWhile (\<lambda>d. d \<noteq> c) s"

definition after_char :: "char \<Rightarrow> pystr \<Rightarrow> pystr option" where
  "after_char c s = (case dropWhile (\<lambda>d. d \<noteq> c) s of [] \<Rightarrow> None | _ # rest \<Rightarrow> Some rest)"

definition image_repository :: "pystr \<Rightarrow> pystr \<Rightarrow> exc + pystr" where
  "image_repository expected_host img =
     (let location = before_char (CHR ''@'') img in
      case after_char (CHR ''/'') location of
        Some repository \<Rightarrow>
          if before_char (CHR ''/'') location = expected_host \<and> repository_ok repository
          then Inr repository else Inl (Problem 422 ''image_registry_forbidden'')
      | None \<Rightarrow> Inl (Problem 422 ''image_registry_forbidden''))"

definition rstrip_slash :: "pystr \<Rightarrow> pystr" where
  "rstrip_slash s = rev (dropWhile (\<lambda>c. c = CHR ''/'') (rev s))"

definition verify_oci_digest :: "evidence_verifier \<Rightarrow> pystr \<Rightarrow> pystr \<Rightarrow> exc + unit" where
  "verify_oci_digest V repository digest =
     (case vf_head V (rstrip_slash (vf_registry_url V) @ ''/v2/'' @ repository @ ''/manifests/'' @ digest) of
        Transport_failure \<Rightarrow> Inl (Problem 503 ''registry_unavailable'')
      | Head_status status observed \<Rightarrow>
          if status = 404 then Inl (Problem 422 ''image_not_found'')
          else if status < 200 \<or> 299 < status then Inl (Problem 503 ''registry_unavailable'')
          else if observed \<noteq> Some digest then Inl (Problem 422 ''image_digest_mismatch'')
          else Inr ())"

definition signed_provenance :: "members \<Rightarrow> members" where
  "signed_provenance provenance = filter (\<lambda>m. fst m \<noteq> ''signature'') provenance"

definition verify_signature :: "evidence_verifier \<Rightarrow> members \<Rightarrow> exc + unit" where
  "verify_signature V provenance =
     (case Option.bind (text_member ''keyId'' provenance) (map_of (vf_publication_keys V)) of
        None \<Rightarrow> Inl (Problem 422 ''signing_key_untrusted'')
      | Some key \<Rightarrow>
          (case Option.bind (text_member ''signature'' provenance) b64decode_strict of
             None \<Rightarrow> Inl (Problem 422 ''signature_invalid'')
           | Some signature \<Rightarrow>
               if vf_ed25519 V key signature (canonical_json (J_obj (signed_provenance provenance)))
               then Inr () else Inl (Problem 422 ''signature_invalid'')))"

definition builder_trusted :: "evidence_verifier \<Rightarrow> members \<Rightarrow> bool" where
  "builder_trusted V provenance \<longleftrightarrow>
     vf_allowed_builders V = []
     \<or> (\<exists>b \<in> set (vf_allowed_builders V). text_member ''builder'' provenance = Some b)"

definition verify_evidence :: "evidence_verifier \<Rightarrow> validated_release \<Rightarrow> exc + unit" where
  "verify_evidence V v =
     (if \<not> builder_trusted V (vr_provenance v) then Inl (Problem 422 ''builder_untrusted'')
      else
        chain (image_repository (vf_registry_host V) (vr_image v)) (\<lambda>repository.
        chain (verify_oci_digest V repository (vr_image_digest v)) (\<lambda>_.
        verify_signature V (vr_provenance v))))"

text \<open>\<open>load_publication_keys\<close>: an object of base64 texts of 32 bytes each; None is a text that is
  no JSON, and every failure is one error at start.\<close>

fun decode_keys :: "members \<Rightarrow> (pystr \<times> pystr) list option" where
  "decode_keys [] = Some []"
| "decode_keys ((k, v) # ms) =
     (case v of
        J_str encoded \<Rightarrow>
          (case b64decode_strict encoded of
             None \<Rightarrow> None
           | Some raw \<Rightarrow>
               if 128 < char_count k \<or> length raw \<noteq> 32 then None
               else map_option (Cons (k, raw)) (decode_keys ms))
      | _ \<Rightarrow> None)"

definition load_publication_keys :: "json option \<Rightarrow> exc + (pystr \<times> pystr) list" where
  "load_publication_keys v =
     (case v of
        Some (J_obj ms) \<Rightarrow>
          (case (ms, decode_keys ms) of
             (_ # _, Some ks) \<Rightarrow> Inr ks
           | _ \<Rightarrow> Inl (Coded ''RuntimeError'' ''REGISTRY_PUBLICATION_KEYS''))
      | _ \<Rightarrow> Inl (Coded ''RuntimeError'' ''REGISTRY_PUBLICATION_KEYS''))"

section \<open>Problems\<close>

text \<open>The tables \<open>problems\<close> of the four translations; other codes are 500.\<close>

definition translate :: "pystr \<Rightarrow> (pystr \<times> nat) list \<Rightarrow> exc \<Rightarrow> exc" where
  "translate cls table e =
     (case e of
        Coded c code \<Rightarrow>
          if c = cls
          then Problem (case map_of table code of None \<Rightarrow> 500 | Some status \<Rightarrow> status) code
          else e
      | _ \<Rightarrow> e)"

definition publication_problem :: "exc \<Rightarrow> exc" where
  "publication_problem = translate ''PublicationError''
     [(''idempotency_conflict'', 409), (''release_version_conflict'', 409),
      (''image_already_published'', 409), (''agent_metadata_conflict'', 409),
      (''idempotency_key_invalid'', 422), (''actor_invalid'', 401),
      (''idempotency_result_unavailable'', 500)]"

definition access_problem :: "exc \<Rightarrow> exc" where
  "access_problem = translate ''AccessError''
     [(''release_not_found'', 404), (''agent_not_found'', 404), (''grant_not_found'', 404),
      (''grant_invalid'', 422), (''idempotency_key_invalid'', 422), (''idempotency_conflict'', 409),
      (''idempotency_result_unavailable'', 500)]"

definition lifecycle_problem :: "exc \<Rightarrow> exc" where
  "lifecycle_problem = translate ''LifecycleError''
     [(''agent_not_found'', 404), (''release_not_found'', 404), (''release_deprecated'', 409),
      (''default_release_deprecation_forbidden'', 409), (''idempotency_key_invalid'', 422),
      (''idempotency_conflict'', 409), (''idempotency_result_unavailable'', 500)]"

definition resolution_problem :: "exc \<Rightarrow> exc" where
  "resolution_problem = translate ''ResolutionError''
     [(''user_context_mismatch'', 403), (''release_not_found'', 404),
      (''idempotency_key_invalid'', 422), (''idempotency_conflict'', 409),
      (''run_specification_conflict'', 409), (''idempotency_result_unavailable'', 500),
      (''stored_release_invalid'', 500)]"

definition with_problem :: "(exc \<Rightarrow> exc) \<Rightarrow> exc + 'a \<Rightarrow> exc + 'a" where
  "with_problem f r = map_sum f id r"

section \<open>Endpoints\<close>

text \<open>The identity is established first, then the idempotency header is checked.\<close>

definition header_key :: "pystr \<Rightarrow> exc + unit" where
  "header_key key = demand (8 \<le> char_count key \<and> char_count key \<le> 128) (Problem 422 ''request_invalid'')"

definition list_agents_endpoint ::
  "registry_service \<Rightarrow> (pystr \<Rightarrow> pystr \<Rightarrow> bool) \<Rightarrow> pystr option \<Rightarrow> registry_db \<Rightarrow> exc + agent_summary list" where
  "list_agents_endpoint S le authorization db =
     chain (authenticated_identity S authorization) (\<lambda>identity. Inr (list_visible_agents le identity db))"

definition get_release_endpoint ::
  "registry_service \<Rightarrow> pystr \<Rightarrow> pystr \<Rightarrow> pystr option \<Rightarrow> registry_db \<Rightarrow> exc + published_release" where
  "get_release_endpoint S agent version authorization db =
     chain (authenticated_identity S authorization) (\<lambda>identity.
     with_problem access_problem (get_visible_release identity agent version db))"

definition get_release_by_id_endpoint ::
  "registry_service \<Rightarrow> uuid \<Rightarrow> pystr option \<Rightarrow> registry_db \<Rightarrow> exc + published_release" where
  "get_release_by_id_endpoint S release authorization db =
     chain (authenticated_identity S authorization) (\<lambda>identity.
     with_problem access_problem (get_visible_release_by_id identity release db))"

definition grant_access_endpoint ::
  "registry_service \<Rightarrow> pystr \<Rightarrow> subject_type \<times> pystr \<times> permission \<Rightarrow> pystr option \<Rightarrow> pystr \<Rightarrow> uuid
     \<Rightarrow> registry_db \<Rightarrow> (access_grant, registry_db) tx" where
  "grant_access_endpoint S agent body authorization key i db =
     chain (require_admin S authorization) (\<lambda>identity.
     chain (header_key key) (\<lambda>_.
     with_problem access_problem
       (grant_access (rv_sha S) (si_subject identity) key (agent, body) i db)))"

definition revoke_access_endpoint ::
  "registry_service \<Rightarrow> uuid \<Rightarrow> pystr option \<Rightarrow> pystr \<Rightarrow> instant \<Rightarrow> registry_db
     \<Rightarrow> (access_grant, registry_db) tx" where
  "revoke_access_endpoint S i authorization key now db =
     chain (require_admin S authorization) (\<lambda>identity.
     chain (header_key key) (\<lambda>_.
     with_problem access_problem (revoke_access (rv_sha S) (si_subject identity) key i now db)))"

definition set_default_release_endpoint ::
  "registry_service \<Rightarrow> pystr \<Rightarrow> uuid \<Rightarrow> pystr option \<Rightarrow> pystr \<Rightarrow> registry_db
     \<Rightarrow> (agent_summary, registry_db) tx" where
  "set_default_release_endpoint S agent release authorization key db =
     chain (require_admin S authorization) (\<lambda>identity.
     chain (header_key key) (\<lambda>_.
     with_problem lifecycle_problem
       (set_default_release (rv_sha S) (si_subject identity) key agent release db)))"

definition deprecate_release_endpoint ::
  "registry_service \<Rightarrow> uuid \<Rightarrow> pystr option \<Rightarrow> pystr \<Rightarrow> instant \<Rightarrow> registry_db
     \<Rightarrow> (published_release, registry_db) tx" where
  "deprecate_release_endpoint S release authorization key now db =
     chain (require_admin S authorization) (\<lambda>identity.
     chain (header_key key) (\<lambda>_.
     with_problem lifecycle_problem
       (deprecate_release (rv_sha S) (si_subject identity) key release now db)))"

definition resolve_run_specification_endpoint ::
  "registry_service \<Rightarrow> resolution_request \<Rightarrow> pystr option \<Rightarrow> pystr \<Rightarrow> uuid \<times> instant \<Rightarrow> registry_db
     \<Rightarrow> (signed_run_specification, registry_db) tx" where
  "resolve_run_specification_endpoint S body authorization key x db =
     chain (require_resolver S authorization) (\<lambda>identity.
     chain (header_key key) (\<lambda>_.
     chain (demand (length (rq_trace_id body) = 32 \<and> list_all is_hex (rq_trace_id body))
              (Problem 422 ''request_invalid'')) (\<lambda>_.
     (case rv_signer S of
        None \<Rightarrow> Inl (Problem 503 ''run_signing_not_configured'')
      | Some g \<Rightarrow>
          with_problem resolution_problem
            (resolve_run_specification (rv_sha S) g identity body (si_subject identity) key x db)))))"

text \<open>The answers of \<open>validate_publication\<close> at the endpoint.\<close>

definition validation_problem :: "validation_error \<Rightarrow> exc" where
  "validation_problem e = (case e of Invalid code field \<Rightarrow> Problem 422 code | Raised x \<Rightarrow> x)"

definition publish_release_endpoint ::
  "registry_service \<Rightarrow> members \<times> pystr \<times> members \<Rightarrow> pystr option \<Rightarrow> pystr \<Rightarrow> uuid \<Rightarrow> registry_db
     \<Rightarrow> (published_release, registry_db) tx" where
  "publish_release_endpoint S body authorization key i db =
     (case body of (manifest, img, provenance) \<Rightarrow>
        chain (require_publisher S authorization) (\<lambda>identity.
        chain (header_key key) (\<lambda>_.
        chain (map_sum validation_problem id
                 (validate_publication (rv_sha S) (J_obj manifest) (J_str img) (J_obj provenance))) (\<lambda>v.
        (case rv_verifier S of
           None \<Rightarrow> Inl (Problem 503 ''publication_not_configured'')
         | Some V \<Rightarrow>
             chain (verify_evidence V v) (\<lambda>_.
             with_problem publication_problem
               (publish_release (rv_sha S) (si_subject identity) key (J_obj manifest) (J_str img)
                  (J_obj provenance) i db)))))))"

end
