(* ===== verification/RegistrySafety.thy ===== *)
theory RegistrySafety
  imports RegistryApi
begin

text \<open>
  The transactions of the Agent Registry as steps, what each successful one did to the tables, and
  the invariant they keep: keys are unique, a default release is a published release of its agent,
  stored releases are well formed, stored specifications are about stored releases and every
  idempotency record has its result.
\<close>

section \<open>What a successful transaction did\<close>

definition agents_with :: "validated_release \<Rightarrow> agent_row list \<Rightarrow> agent_row list" where
  "agents_with v as =
     (if has_row ag_agent_id (vr_agent_id v) as then as
      else as @ [\<lparr>ag_agent_id = vr_agent_id v, ag_name = vr_name v,
                  ag_description = vr_description v, ag_default = None\<rparr>])"

definition publication_record :: "pystr \<Rightarrow> pystr \<Rightarrow> pystr \<Rightarrow> uuid \<Rightarrow> registry_idem_row" where
  "publication_record actor key digest i =
     \<lparr>ik_actor = actor, ik_operation = Publish_release, ik_key = key, ik_sha256 = digest,
      ik_status = 201, ik_release = Some i, ik_grant = None, ik_specification = None,
      ik_body = None\<rparr>"

definition published_audit :: "validated_release \<Rightarrow> pystr \<Rightarrow> uuid \<Rightarrow> audit_row" where
  "published_audit v actor i =
     \<lparr>au_release_id = i, au_action = Release_published (vr_image_digest v) (vr_manifest_sha256 v),
      au_actor = actor\<rparr>"

lemma store_release_effect:
  assumes "store_release v actor i db = Inr db'"
  shows "conflicting v db = None" and "\<not> has_row rl_id i (releases db)"
    and "storable (J_obj (vr_manifest v))"
    and "db' = db\<lparr>agents := agents_with v (agents db), releases := releases db @ [new_release i actor v],
      publication_audit := publication_audit db @ [published_audit v actor i]\<rparr>"
proof -
  obtain db1 where s: "store_agent v db = Inr db1"
    using assms by (cases "store_agent v db") (auto simp: store_release_def)
  have d: "db1 = db\<lparr>agents := agents_with v (agents db)\<rparr>"
    using s by (auto simp: store_agent_def agents_with_def has_row_def split: option.splits if_splits)
  have c: "conflicting v db1 = None"
    using assms s by (cases "conflicting v db1") (auto simp: store_release_def split: if_splits)
  show "conflicting v db = None" using c d by (simp add: conflicting_def)
  show "\<not> has_row rl_id i (releases db)" "storable (J_obj (vr_manifest v))"
    "db' = db\<lparr>agents := agents_with v (agents db), releases := releases db @ [new_release i actor v],
      publication_audit := publication_audit db @ [published_audit v actor i]\<rparr>"
    using assms s c d by (auto simp: store_release_def published_audit_def split: if_splits)
qed

lemma publish_effect:
  assumes "publish_release sha actor key manifest img provenance i db = Inr (p, db')"
  obtains (Replay) previous r where
    "find_key db actor Publish_release key = Some previous"
    "ik_sha256 previous = publication_digest sha manifest img provenance"
    "ik_release previous = Some (rl_id r)" "row_by rl_id (rl_id r) (releases db) = Some r"
    "p = release_of r" "db' = db"
  | (Fresh) v where
    "find_key db actor Publish_release key = None"
    "validate_publication sha manifest img provenance = Inr v"
    "conflicting v db = None" "\<not> has_row rl_id i (releases db)"
    "p = release_of (new_release i actor v)"
    "db' = save_key (publication_record actor key (publication_digest sha manifest img provenance) i)
       (db\<lparr>agents := agents_with v (agents db), releases := releases db @ [new_release i actor v],
           publication_audit := publication_audit db @ [published_audit v actor i]\<rparr>)"
proof -
  obtain v where v: "validate_publication sha manifest img provenance = Inr v"
    and t: "publish_tx v (publication_digest sha manifest img provenance) actor key i db = Inr (p, db')"
    using assms by (cases "validate_publication sha manifest img provenance")
      (auto simp: publish_release_def split: if_splits)
  show thesis
  proof (cases "find_key db actor Publish_release key")
    case (Some previous)
    then obtain r where "Option.bind (ik_release previous) (\<lambda>j. row_by rl_id j (releases db)) = Some r"
      "p = release_of r" "db' = db" "ik_sha256 previous = publication_digest sha manifest img provenance"
      using t by (auto simp: publish_tx_def split: if_splits option.splits)
    moreover from this(1) obtain j where "ik_release previous = Some j" "row_by rl_id j (releases db) = Some r"
      by (cases "ik_release previous") auto
    ultimately show thesis using Some row_by_SomeD [of rl_id j "releases db" r] by (intro Replay [of previous r]) auto
  next
    case None
    then obtain db1 where s: "store_release v actor i db = Inr db1"
      and e: "p = release_of (new_release i actor v)"
        "db' = save_key (publication_record actor key (publication_digest sha manifest img provenance) i) db1"
      using t by (cases "store_release v actor i db")
        (auto simp: publish_tx_def publication_record_def split: if_splits)
    show thesis
      using Fresh [OF None v store_release_effect(1,2) [OF s] e(1)] e(2) store_release_effect(4) [OF s] by simp
  qed
qed

definition lifecycle_record ::
  "registry_operation \<Rightarrow> pystr \<Rightarrow> pystr \<Rightarrow> pystr \<Rightarrow> uuid \<Rightarrow> agent_summary option \<Rightarrow> registry_idem_row" where
  "lifecycle_record operation actor key digest i body =
     \<lparr>ik_actor = actor, ik_operation = operation, ik_key = key, ik_sha256 = digest,
      ik_status = 200, ik_release = Some i, ik_grant = None, ik_specification = None,
      ik_body = body\<rparr>"

lemma set_default_effect:
  assumes "set_default_release sha actor key agent release db = Inr (p, db')"
  obtains (Replay) replay where "find_key db actor Set_default_release key = Some replay"
    "ik_sha256 replay = default_digest sha agent release" "ik_body replay = Some p" "db' = db"
  | (Fresh) a r where
    "find_key db actor Set_default_release key = None"
    "row_by ag_agent_id agent (agents db) = Some a" "row_by rl_id release (releases db) = Some r"
    "rl_agent_id r = agent" "rl_status r = Published" "p = summary_of a (Some release)"
    "db' = save_key (lifecycle_record Set_default_release actor key (default_digest sha agent release)
         release (Some p)) (choose_default a release actor db)"
proof (cases "find_key db actor Set_default_release key")
  case (Some replay)
  then show thesis using assms Replay
    by (auto simp: set_default_release_def split: if_splits option.splits)
next
  case None
  obtain a where a: "row_by ag_agent_id agent (agents db) = Some a"
    using assms None by (cases "row_by ag_agent_id agent (agents db)")
      (auto simp: set_default_release_def split: if_splits)
  obtain r where r: "row_by rl_id release (releases db) = Some r"
    using assms None a by (cases "row_by rl_id release (releases db)")
      (auto simp: set_default_release_def split: if_splits)
  show thesis
    using assms None a r
    by (intro Fresh [of a r]) (auto simp: set_default_release_def lifecycle_record_def split: if_splits)
qed

lemma deprecate_effect:
  assumes "deprecate_release sha actor key release now db = Inr (p, db')"
  obtains (Replay) replay r where "find_key db actor Deprecate_release key = Some replay"
    "ik_sha256 replay = deprecation_digest sha release"
    "ik_release replay = Some (rl_id r)" "row_by rl_id (rl_id r) (releases db) = Some r"
    "p = release_of r" "db' = db"
  | (Fresh) a r where
    "find_key db actor Deprecate_release key = None"
    "row_by rl_id release (releases db) = Some r"
    "row_by ag_agent_id (rl_agent_id r) (agents db) = Some a" "ag_default a \<noteq> Some release"
    "p = release_of (if rl_status r = Deprecated then r else deprecate actor now r)"
    "db' = save_key (lifecycle_record Deprecate_release actor key (deprecation_digest sha release)
         release None) (mark_deprecated r actor now db)"
proof (cases "find_key db actor Deprecate_release key")
  case (Some replay)
  then obtain r where "Option.bind (ik_release replay) (\<lambda>j. row_by rl_id j (releases db)) = Some r"
    "p = release_of r" "db' = db" "ik_sha256 replay = deprecation_digest sha release"
    using assms by (auto simp: deprecate_release_def split: if_splits option.splits)
  moreover from this(1) obtain j where "ik_release replay = Some j" "row_by rl_id j (releases db) = Some r"
    by (cases "ik_release replay") auto
  ultimately show thesis
    using Some row_by_SomeD [of rl_id j "releases db" r] by (intro Replay [of replay r]) auto
next
  case None
  obtain r where r: "row_by rl_id release (releases db) = Some r"
    using assms None by (cases "row_by rl_id release (releases db)")
      (auto simp: deprecate_release_def split: if_splits)
  obtain a where a: "row_by ag_agent_id (rl_agent_id r) (agents db) = Some a"
    using assms None r by (cases "row_by ag_agent_id (rl_agent_id r) (agents db)")
      (auto simp: deprecate_release_def split: if_splits)
  show thesis
    using assms None a r
    by (intro Fresh [of r a]) (auto simp: deprecate_release_def lifecycle_record_def split: if_splits)
qed

lemma replayed_grant_Inr:
  "replayed_grant k db = Inr p \<longleftrightarrow>
     (\<exists>g. ik_grant k = Some (aw_grant_id g) \<and> row_by aw_grant_id (aw_grant_id g) (access_grants db) = Some g
          \<and> p = grant_of g)"
  by (cases "ik_grant k")
    (auto simp: replayed_grant_def split: option.splits dest: row_by_SomeD)

lemma replay_Inr:
  assumes "map_sum id (\<lambda>g. (g, db)) r = Inr (p, db')"
  shows "r = Inr p" and "db' = db"
  using assms by (cases r; simp)+

lemma grant_effect:
  assumes "grant_access sha actor key terms i db = Inr (p, db')"
  obtains (Replay) stored where "find_key db actor Grant_access key = Some stored"
    "ik_sha256 stored = grant_sha256 sha terms" "replayed_grant stored db = Inr p" "db' = db"
  | (Known) g where "find_key db actor Grant_access key = None"
    "has_row ag_agent_id (fst terms) (agents db)" "active_grant terms db = Some g" "p = grant_of g"
    "db' = save_key (grant_record actor Grant_access key (grant_sha256 sha terms) 201 (aw_grant_id g)) db"
  | (Fresh) "find_key db actor Grant_access key = None"
    "has_row ag_agent_id (fst terms) (agents db)" "active_grant terms db = None"
    "\<not> has_row aw_grant_id i (access_grants db)" "p = grant_of (new_access i actor terms)"
    "db' = save_key (grant_record actor Grant_access key (grant_sha256 sha terms) 201 i)
       (add_access (new_access i actor terms) db)"
proof (cases "find_key db actor Grant_access key")
  case (Some stored)
  then have d: "ik_sha256 stored = grant_sha256 sha terms"
    and m: "map_sum id (\<lambda>g. (g, db)) (replayed_grant stored db) = Inr (p, db')"
    using assms unfolding grant_access_def by (simp_all add: Some)
  show thesis by (rule Replay [OF Some d replay_Inr [OF m]])
next
  case None
  show thesis
  proof (cases "active_grant terms db")
    case (Some g)
    then show thesis using assms None Known [of g]
      by (auto simp: grant_access_def split: if_splits)
  next
    case N: None
    then show thesis using assms None Fresh by (auto simp: grant_access_def split: if_splits)
  qed
qed

definition ended :: "access_row \<Rightarrow> pystr \<Rightarrow> instant \<Rightarrow> registry_db \<Rightarrow> registry_db" where
  "ended g actor now db =
     (if aw_revoked_at g \<noteq> None then db
      else db\<lparr>access_grants := update_where (\<lambda>h. aw_grant_id h = aw_grant_id g)
                 (\<lambda>h. h\<lparr>aw_revoked_at := Some now\<rparr>) (access_grants db),
              access_audit := access_audit db @
                [\<lparr>aa_grant_id = aw_grant_id g, aa_granted = False, aa_actor = actor\<rparr>]\<rparr>)"

lemma end_access_Inr: "end_access g actor now db = Inr db' \<Longrightarrow> db' = ended g actor now db"
  by (auto simp: end_access_def ended_def split: if_splits)

lemma revoke_effect:
  assumes "revoke_access sha actor key i now db = Inr (p, db')"
  obtains (Replay) stored where "find_key db actor Revoke_access key = Some stored"
    "ik_sha256 stored = revocation_digest sha i" "replayed_grant stored db = Inr p" "db' = db"
  | (Fresh) g where "find_key db actor Revoke_access key = None"
    "row_by aw_grant_id i (access_grants db) = Some g" "p = (grant_of g)\<lparr>gr_revoked := True\<rparr>"
    "db' = save_key (grant_record actor Revoke_access key (revocation_digest sha i) 200 i)
       (ended g actor now db)"
proof (cases "find_key db actor Revoke_access key")
  case (Some stored)
  then have d: "ik_sha256 stored = revocation_digest sha i"
    and m: "map_sum id (\<lambda>g. (g, db)) (replayed_grant stored db) = Inr (p, db')"
    using assms unfolding revoke_access_def by (simp_all add: Some)
  show thesis by (rule Replay [OF Some d replay_Inr [OF m]])
next
  case None
  then obtain g where g: "row_by aw_grant_id i (access_grants db) = Some g"
    using assms by (cases "row_by aw_grant_id i (access_grants db)")
      (auto simp: revoke_access_def split: if_splits)
  then obtain db1 where "end_access g actor now db = Inr db1"
    using assms None by (cases "end_access g actor now db") (auto simp: revoke_access_def split: if_splits)
  then show thesis using assms None g Fresh [of g] end_access_Inr [of g actor now db db1]
    by (auto simp: revoke_access_def split: if_splits)
qed

lemma authorized_release_Inr:
  assumes "authorized_release identity q db = Inr r"
  shows "r \<in> set (releases db)" and "rl_id r = rq_release_id q" and "rl_status r = Published"
    and "granted runnable_permissions (uuid_str (rq_user_id q)) identity (rl_agent_id r) db"
  using assms
  by (auto simp: authorized_release_def split: option.splits dest!: find_SomeD)

lemma resolve_effect:
  assumes "resolve_run_specification sha g identity q actor key x db = Inr (p, db')"
  obtains (Replay) replay s where "find_key db actor Resolve_run_specification key = Some replay"
    "ik_sha256 replay = resolution_digest sha q" "ik_specification replay = Some (rs_specification_id s)"
    "row_by rs_specification_id (rs_specification_id s) (run_specifications db) = Some s"
    "p = specification_of s" "db' = db"
  | (Known) s where "find_key db actor Resolve_run_specification key = None"
    "row_by rs_run_id (rq_run_id q) (run_specifications db) = Some s"
    "rs_request_sha256 s = resolution_digest sha q" "p = specification_of s"
    "db' = save_key (resolution_record actor key (resolution_digest sha q) (rs_specification_id s)) db"
  | (Fresh) r payload where "find_key db actor Resolve_run_specification key = None"
    "\<not> has_row rs_run_id (rq_run_id q) (run_specifications db)"
    "authorized_release identity q db = Inr r"
    "run_payload g q (fst x) (snd x) r = Inr payload"
    "\<not> has_row rs_specification_id (fst x) (run_specifications db)"
    "p = specification_of (new_specification sha g q (fst x) (snd x) payload)"
    "db' = save_key (resolution_record actor key (resolution_digest sha q) (fst x))
       (db\<lparr>run_specifications := run_specifications db
             @ [new_specification sha g q (fst x) (snd x) payload]\<rparr>)"
proof (cases "find_key db actor Resolve_run_specification key")
  case (Some replay)
  then obtain s where "Option.bind (ik_specification replay)
      (\<lambda>j. row_by rs_specification_id j (run_specifications db)) = Some s"
    "p = specification_of s" "db' = db" "ik_sha256 replay = resolution_digest sha q"
    using assms by (auto simp: resolve_run_specification_def split: if_splits option.splits)
  moreover from this(1) obtain j where "ik_specification replay = Some j"
    "row_by rs_specification_id j (run_specifications db) = Some s"
    by (cases "ik_specification replay") auto
  ultimately show thesis
    using Some row_by_SomeD [of rs_specification_id j "run_specifications db" s]
    by (intro Replay [of replay s]) auto
next
  case None
  show thesis
  proof (cases "row_by rs_run_id (rq_run_id q) (run_specifications db)")
    case (Some s)
    then show thesis using assms None Known [of s]
      by (auto simp: resolve_run_specification_def split: if_splits)
  next
    case N: None
    then have "resolve_fresh sha g identity q actor key x db = Inr (p, db')"
      using assms None by (auto simp: resolve_run_specification_def split: if_splits)
    then show thesis using None N Fresh
      by (auto simp: resolve_fresh_def outcome Let_def has_row_def split: if_splits)
  qed
qed

section \<open>Steps\<close>

text \<open>One transaction with its arguments: actor and key first, the values of the environment last.\<close>

datatype registry_op =
    Publish_op pystr pystr json json json uuid
  | Default_op pystr pystr pystr uuid
  | Deprecate_op pystr pystr uuid instant
  | Grant_op pystr pystr grant_terms uuid
  | Revoke_op pystr pystr uuid instant
  | Resolve_op run_signer service_identity resolution_request pystr pystr "uuid \<times> instant"

fun exec_registry :: "(pystr \<Rightarrow> pystr) \<Rightarrow> registry_op \<Rightarrow> registry_db \<Rightarrow> exc + registry_db" where
  "exec_registry sha (Publish_op actor key m img pv i) db =
     map_sum id snd (publish_release sha actor key m img pv i db)"
| "exec_registry sha (Default_op actor key agent release) db =
     map_sum id snd (set_default_release sha actor key agent release db)"
| "exec_registry sha (Deprecate_op actor key release now) db =
     map_sum id snd (deprecate_release sha actor key release now db)"
| "exec_registry sha (Grant_op actor key terms i) db =
     map_sum id snd (grant_access sha actor key terms i db)"
| "exec_registry sha (Revoke_op actor key i now) db =
     map_sum id snd (revoke_access sha actor key i now db)"
| "exec_registry sha (Resolve_op g identity q actor key x) db =
     map_sum id snd (resolve_run_specification sha g identity q actor key x db)"

text \<open>A failing transaction is rolled back.\<close>

definition registry_step :: "(pystr \<Rightarrow> pystr) \<Rightarrow> registry_op \<Rightarrow> registry_db \<Rightarrow> registry_db" where
  "registry_step sha op db = (case exec_registry sha op db of Inl _ \<Rightarrow> db | Inr db' \<Rightarrow> db')"

definition run_registry :: "(pystr \<Rightarrow> pystr) \<Rightarrow> registry_op list \<Rightarrow> registry_db \<Rightarrow> registry_db" where
  "run_registry sha ops db = foldl (\<lambda>d op. registry_step sha op d) db ops"

lemma run_registry_simps [simp]:
  "run_registry sha [] db = db"
  "run_registry sha (op # ops) db = run_registry sha ops (registry_step sha op db)"
  by (simp_all add: run_registry_def)

text \<open>A property that every successful transaction keeps is kept by every sequence of steps.\<close>

lemma run_registry_induct:
  assumes "\<And>op d d'. R d \<Longrightarrow> exec_registry sha op d = Inr d' \<Longrightarrow> R d'" and "R db"
  shows "R (run_registry sha ops db)"
  using assms(2)
proof (induction ops arbitrary: db)
  case (Cons op ops)
  have "R (registry_step sha op db)"
    using assms(1) [of db op] Cons.prems by (cases "exec_registry sha op db") (auto simp: registry_step_def)
  then show ?case using Cons.IH by simp
qed simp

lemma map_sum_snd_Inr: "map_sum id snd r = Inr d \<longleftrightarrow> (\<exists>p. r = Inr (p, d))"
  by (cases r) auto

section \<open>The invariant\<close>

definition agents_ok :: "registry_db \<Rightarrow> bool" where
  "agents_ok db \<longleftrightarrow> distinct (map ag_agent_id (agents db)) \<and>
     (\<forall>a \<in> set (agents db). \<forall>d. ag_default a = Some d \<longrightarrow>
        (\<exists>r \<in> set (releases db). rl_id r = d \<and> rl_agent_id r = ag_agent_id a \<and> rl_status r = Published))"

definition content_ok :: "(pystr \<Rightarrow> pystr) \<Rightarrow> release_row \<Rightarrow> bool" where
  "content_ok sha r \<longleftrightarrow> agent_id_ok (rl_agent_id r) \<and> semver_ok (rl_version r)
     \<and> (\<exists>repository. match_image (rl_image r) = Some (repository, rl_image_digest r))
     \<and> rl_manifest_sha256 r = request_sha256 sha (J_obj (rl_manifest r))
     \<and> (\<exists>spec. manifest_spec (rl_manifest r) = Some spec \<and> spec_ok (rl_image r) spec)
     \<and> (rl_status r = Deprecated \<longleftrightarrow> rl_deprecated_by r \<noteq> None)"

definition releases_ok :: "(pystr \<Rightarrow> pystr) \<Rightarrow> registry_db \<Rightarrow> bool" where
  "releases_ok sha db \<longleftrightarrow> distinct (map rl_id (releases db))
     \<and> distinct (map (\<lambda>r. (rl_agent_id r, rl_version r)) (releases db))
     \<and> distinct (map rl_image (releases db))
     \<and> (\<forall>r \<in> set (releases db). content_ok sha r \<and> has_row ag_agent_id (rl_agent_id r) (agents db))"

text \<open>A specification is the payload of its request over the stored release.\<close>

definition specification_ok :: "(pystr \<Rightarrow> pystr) \<Rightarrow> release_row list \<Rightarrow> specification_row \<Rightarrow> bool" where
  "specification_ok sha rs s \<longleftrightarrow>
     (\<exists>r \<in> set rs. \<exists>g q. rl_id r = rs_release_id s \<and> rq_run_id q = rs_run_id s
        \<and> rq_release_id q = rs_release_id s \<and> rq_user_id q = rs_user_id s
        \<and> rs_request_sha256 s = resolution_digest sha q
        \<and> run_payload g q (rs_specification_id s) (rs_issued_at s) r = Inr (rs_payload s)
        \<and> rs_payload_sha256 s = sha (canonical_json (J_obj (rs_payload s)))
        \<and> rs_signature s = sg_sign g (canonical_json (J_obj (rs_payload s))))"

definition specifications_ok :: "(pystr \<Rightarrow> pystr) \<Rightarrow> registry_db \<Rightarrow> bool" where
  "specifications_ok sha db \<longleftrightarrow> distinct (map rs_specification_id (run_specifications db))
     \<and> distinct (map rs_run_id (run_specifications db))
     \<and> (\<forall>s \<in> set (run_specifications db). specification_ok sha (releases db) s)"

definition result_ok :: "registry_db \<Rightarrow> registry_idem_row \<Rightarrow> bool" where
  "result_ok db i \<longleftrightarrow>
     (case ik_operation i of
        Publish_release \<Rightarrow> \<exists>j. ik_release i = Some j \<and> has_row rl_id j (releases db)
      | Deprecate_release \<Rightarrow> \<exists>j. ik_release i = Some j \<and> has_row rl_id j (releases db)
      | Set_default_release \<Rightarrow> ik_body i \<noteq> None
      | Resolve_run_specification \<Rightarrow>
          \<exists>s \<in> set (run_specifications db).
            ik_specification i = Some (rs_specification_id s) \<and> rs_request_sha256 s = ik_sha256 i
      | _ \<Rightarrow> \<exists>j. ik_grant i = Some j \<and> has_row aw_grant_id j (access_grants db))"

definition keys_ok :: "registry_db \<Rightarrow> bool" where
  "keys_ok db \<longleftrightarrow> distinct (map idem_id (registry_idempotency db))
     \<and> (\<forall>i \<in> set (registry_idempotency db). result_ok db i)"

definition access_ok :: "registry_db \<Rightarrow> bool" where
  "access_ok db \<longleftrightarrow> distinct (map aw_grant_id (access_grants db))"

definition registry_inv :: "(pystr \<Rightarrow> pystr) \<Rightarrow> registry_db \<Rightarrow> bool" where
  "registry_inv sha db \<longleftrightarrow> agents_ok db \<and> releases_ok sha db \<and> specifications_ok sha db \<and> keys_ok db
     \<and> access_ok db"

lemmas registry_inv_defs =
  registry_inv_def agents_ok_def releases_ok_def specifications_ok_def keys_ok_def access_ok_def

lemma registry_inv_empty: "registry_inv sha empty_registry_db"
  by (simp add: registry_inv_defs empty_registry_db_def)

text \<open>A new key with its result.\<close>

lemma keys_ok_save:
  assumes "keys_ok db" and "find_key db (ik_actor i) (ik_operation i) (ik_key i) = None"
    and "result_ok db i"
  shows "keys_ok (save_key i db)"
proof -
  have "idem_id i \<notin> idem_id ` set (registry_idempotency db)"
    using assms(2) by (simp add: find_key_def row_by_None_iff idem_id_def)
  moreover have "result_ok (save_key i db) k = result_ok db k" for k
    by (simp add: result_ok_def save_key_def cong: registry_operation.case_cong)
  ultimately show ?thesis using assms by (auto simp: keys_ok_def save_key_def)
qed

lemma save_key_other [simp]:
  "agents (save_key i db) = agents db" "releases (save_key i db) = releases db"
  "access_grants (save_key i db) = access_grants db"
  "run_specifications (save_key i db) = run_specifications db"
  "agents_ok (save_key i db) = agents_ok db" "releases_ok sha (save_key i db) = releases_ok sha db"
  "specifications_ok sha (save_key i db) = specifications_ok sha db"
  "access_ok (save_key i db) = access_ok db"
  by (simp_all add: save_key_def registry_inv_defs)

lemma registry_inv_save:
  assumes "registry_inv sha db" and "find_key db (ik_actor i) (ik_operation i) (ik_key i) = None"
    and "result_ok db i"
  shows "registry_inv sha (save_key i db)"
  using assms keys_ok_save [of db i] by (simp add: registry_inv_def)

section \<open>Preservation\<close>

lemma new_release_content:
  assumes "validate_publication sha m img pv = Inr v"
  shows "content_ok sha (new_release i actor v)"
  using validated_release_ok [OF assms] by (auto simp: content_ok_def release_ok_def new_release_def)

lemma agents_with_set:
  "a \<in> set (agents_with v as) \<Longrightarrow> a \<in> set as \<or> ag_agent_id a = vr_agent_id v \<and> ag_default a = None"
  by (auto simp: agents_with_def split: if_splits)

lemma agents_with_distinct:
  "distinct (map ag_agent_id as) \<Longrightarrow> distinct (map ag_agent_id (agents_with v as))"
  by (auto simp: agents_with_def has_row_iff)

lemma agents_with_has:
  "has_row ag_agent_id (vr_agent_id v) (agents_with v as)"
  "has_row ag_agent_id k as \<Longrightarrow> has_row ag_agent_id k (agents_with v as)"
  by (auto simp: agents_with_def)

lemma conflicting_None:
  assumes "conflicting v db = None" and "r \<in> set (releases db)"
  shows "\<not> (rl_agent_id r = vr_agent_id v \<and> rl_version r = vr_version v)" and "rl_image r \<noteq> vr_image v"
  using find_NoneD [OF assms(1) [unfolded conflicting_def] assms(2)] by auto

lemma specification_ok_mono:
  "specification_ok sha rs s \<Longrightarrow> set rs \<subseteq> set rs' \<Longrightarrow> specification_ok sha rs' s"
  unfolding specification_ok_def by blast

lemma published_inv:
  assumes inv: "registry_inv sha db" and v: "validate_publication sha m img pv = Inr v"
    and c: "conflicting v db = None" and i: "\<not> has_row rl_id i (releases db)"
  shows "registry_inv sha (db\<lparr>agents := agents_with v (agents db),
    releases := releases db @ [new_release i actor v], publication_audit := audit\<rparr>)"
proof -
  have a: "agents_ok db" and r: "releases_ok sha db" and s: "specifications_ok sha db"
    and k: "keys_ok db" and g: "access_ok db"
    using inv by (auto simp: registry_inv_def)
  have "agents_ok (db\<lparr>agents := agents_with v (agents db),
      releases := releases db @ [new_release i actor v], publication_audit := audit\<rparr>)"
    using a agents_with_distinct unfolding agents_ok_def by (fastforce dest!: agents_with_set)
  moreover have "releases_ok sha (db\<lparr>agents := agents_with v (agents db),
      releases := releases db @ [new_release i actor v], publication_audit := audit\<rparr>)"
  proof -
    have "distinct (map rl_id (releases db @ [new_release i actor v]))"
      using r i by (auto simp: releases_ok_def has_row_iff new_release_def)
    moreover have "(vr_agent_id v, vr_version v) \<notin> (\<lambda>r. (rl_agent_id r, rl_version r)) ` set (releases db)"
    proof
      assume "(vr_agent_id v, vr_version v) \<in> (\<lambda>r. (rl_agent_id r, rl_version r)) ` set (releases db)"
      then obtain q where "q \<in> set (releases db)" "rl_agent_id q = vr_agent_id v" "rl_version q = vr_version v"
        by (metis (no_types, lifting) imageE prod.inject)
      then show False using conflicting_None(1) [OF c, of q] by simp
    qed
    then have "distinct (map (\<lambda>r. (rl_agent_id r, rl_version r)) (releases db @ [new_release i actor v]))"
      using r by (simp add: releases_ok_def new_release_def)
    moreover have "vr_image v \<notin> rl_image ` set (releases db)"
      using conflicting_None(2) [OF c] by (metis imageE)
    then have "distinct (map rl_image (releases db @ [new_release i actor v]))"
      using r by (simp add: releases_ok_def new_release_def)
    moreover have "has_row ag_agent_id (rl_agent_id (new_release i actor v)) (agents_with v (agents db))"
      by (simp add: new_release_def agents_with_has)
    ultimately show ?thesis
      using r new_release_content [OF v] agents_with_has(2) by (auto simp: releases_ok_def)
  qed
  moreover have "specifications_ok sha (db\<lparr>agents := agents_with v (agents db),
      releases := releases db @ [new_release i actor v], publication_audit := audit\<rparr>)"
    using s unfolding specifications_ok_def by (auto intro: specification_ok_mono)
  moreover have "keys_ok (db\<lparr>agents := agents_with v (agents db),
      releases := releases db @ [new_release i actor v], publication_audit := audit\<rparr>)"
    using k unfolding keys_ok_def result_ok_def
    by (auto split: registry_operation.splits)
  ultimately show ?thesis using g by (simp add: registry_inv_def access_ok_def)
qed

lemma publish_inv:
  assumes "registry_inv sha db"
    and "publish_release sha actor key m img pv i db = Inr (p, db')"
  shows "registry_inv sha db'"
  using assms(2)
proof (cases rule: publish_effect)
  case Replay
  then show ?thesis using assms(1) by simp
next
  case (Fresh v)
  have "registry_inv sha (db\<lparr>agents := agents_with v (agents db),
    releases := releases db @ [new_release i actor v],
    publication_audit := publication_audit db @ [published_audit v actor i]\<rparr>)"
    by (rule published_inv [OF assms(1) Fresh(2,3,4)])
  then show ?thesis
    unfolding Fresh(6) using Fresh(1)
    by (intro registry_inv_save)
      (simp_all add: publication_record_def find_key_def result_ok_def new_release_def)
qed

lemma choose_default_other [simp]:
  "releases (choose_default a i actor db) = releases db"
  "access_grants (choose_default a i actor db) = access_grants db"
  "run_specifications (choose_default a i actor db) = run_specifications db"
  "registry_idempotency (choose_default a i actor db) = registry_idempotency db"
  by (simp_all add: choose_default_def)

lemma choose_default_agents:
  "agents (choose_default a i actor db) =
     (if ag_default a = Some i then agents db
      else update_where (\<lambda>b. ag_agent_id b = ag_agent_id a) (\<lambda>b. b\<lparr>ag_default := Some i\<rparr>) (agents db))"
  by (simp add: choose_default_def)

lemma choose_default_has:
  "has_row ag_agent_id k (agents (choose_default a i actor db)) = has_row ag_agent_id k (agents db)"
  by (simp add: choose_default_agents has_row_update_where)

lemma result_ok_cong:
  assumes "releases db' = releases db" and "run_specifications db' = run_specifications db"
    and "access_grants db' = access_grants db"
  shows "result_ok db' i = result_ok db i"
  using assms by (simp add: result_ok_def cong: registry_operation.case_cong)

lemma choose_default_inv:
  assumes inv: "registry_inv sha db" and a: "row_by ag_agent_id agent (agents db) = Some a"
    and r: "row_by rl_id i (releases db) = Some r" "rl_agent_id r = agent" "rl_status r = Published"
  shows "registry_inv sha (choose_default a i actor db)"
proof -
  have id: "ag_agent_id a = agent" using a by (auto dest: row_by_SomeD)
  have R: "r \<in> set (releases db)" "rl_id r = i" using r(1) by (auto dest: row_by_SomeD)
  have w: "\<exists>q \<in> set (releases db). rl_id q = i \<and> rl_agent_id q = agent \<and> rl_status q = Published"
    using R r(2,3) by blast
  have k: "map ag_agent_id (agents (choose_default a i actor db)) = map ag_agent_id (agents db)"
    by (simp add: choose_default_agents map_key_update_where)
  have "agents_ok (choose_default a i actor db)"
    unfolding agents_ok_def k
  proof (intro conjI ballI allI impI)
    show "distinct (map ag_agent_id (agents db))" using inv by (simp add: registry_inv_def agents_ok_def)
    fix b d
    assume b: "b \<in> set (agents (choose_default a i actor db))" "ag_default b = Some d"
    then have "b \<in> set (agents db) \<or> d = i \<and> ag_agent_id b = agent"
      using id by (auto simp: choose_default_agents in_update_where split: if_splits)
    then show "\<exists>q \<in> set (releases (choose_default a i actor db)).
        rl_id q = d \<and> rl_agent_id q = ag_agent_id b \<and> rl_status q = Published"
    proof
      assume "b \<in> set (agents db)"
      then show ?thesis using inv b(2) by (simp add: registry_inv_def agents_ok_def)
    next
      assume "d = i \<and> ag_agent_id b = agent"
      then show ?thesis using w by simp
    qed
  qed
  moreover have "result_ok (choose_default a i actor db) j = result_ok db j" for j
    by (rule result_ok_cong) simp_all
  ultimately show ?thesis
    using inv by (simp add: registry_inv_def releases_ok_def specifications_ok_def keys_ok_def access_ok_def
        choose_default_has)
qed

lemma set_default_inv:
  assumes "registry_inv sha db"
    and "set_default_release sha actor key agent i db = Inr (p, db')"
  shows "registry_inv sha db'"
  using assms(2)
proof (cases rule: set_default_effect)
  case Replay
  then show ?thesis using assms(1) by simp
next
  case (Fresh a r)
  show ?thesis
    unfolding Fresh(7) using choose_default_inv [OF assms(1) Fresh(2,3,4,5)] Fresh(1)
    by (intro registry_inv_save) (simp_all add: lifecycle_record_def find_key_def result_ok_def)
qed

lemma mark_deprecated_other [simp]:
  "agents (mark_deprecated r actor now db) = agents db"
  "access_grants (mark_deprecated r actor now db) = access_grants db"
  "run_specifications (mark_deprecated r actor now db) = run_specifications db"
  "registry_idempotency (mark_deprecated r actor now db) = registry_idempotency db"
  by (simp_all add: mark_deprecated_def)

lemma mark_deprecated_releases:
  "releases (mark_deprecated r actor now db) =
     (if rl_status r = Deprecated then releases db
      else update_where (\<lambda>q. rl_id q = rl_id r) (deprecate actor now) (releases db))"
  by (simp add: mark_deprecated_def)

lemma deprecate_fields [simp]:
  "rl_id (deprecate actor now r) = rl_id r" "rl_agent_id (deprecate actor now r) = rl_agent_id r"
  "rl_version (deprecate actor now r) = rl_version r" "rl_image (deprecate actor now r) = rl_image r"
  "rl_image_digest (deprecate actor now r) = rl_image_digest r"
  "rl_manifest (deprecate actor now r) = rl_manifest r"
  "rl_manifest_sha256 (deprecate actor now r) = rl_manifest_sha256 r"
  "rl_provenance (deprecate actor now r) = rl_provenance r"
  "rl_sdk_constraint (deprecate actor now r) = rl_sdk_constraint r"
  "rl_published_by (deprecate actor now r) = rl_published_by r"
  "rl_status (deprecate actor now r) = Deprecated"
  "rl_deprecated_by (deprecate actor now r) = Some actor"
  by (simp_all add: deprecate_def)

lemma run_payload_deprecate [simp]: "run_payload g q i t (deprecate actor now r) = run_payload g q i t r"
  by (simp add: run_payload_def release_section_def)

lemma content_ok_deprecate: "content_ok sha r \<Longrightarrow> content_ok sha (deprecate actor now r)"
  by (simp add: content_ok_def)

lemma specification_ok_deprecate:
  assumes "specification_ok sha rs s"
  shows "specification_ok sha (update_where P (deprecate actor now) rs) s"
proof -
  obtain r g q where r: "r \<in> set rs" and f: "rl_id r = rs_release_id s \<and> rq_run_id q = rs_run_id s
        \<and> rq_release_id q = rs_release_id s \<and> rq_user_id q = rs_user_id s
        \<and> rs_request_sha256 s = resolution_digest sha q
        \<and> run_payload g q (rs_specification_id s) (rs_issued_at s) r = Inr (rs_payload s)
        \<and> rs_payload_sha256 s = sha (canonical_json (J_obj (rs_payload s)))
        \<and> rs_signature s = sg_sign g (canonical_json (J_obj (rs_payload s)))"
    using assms unfolding specification_ok_def by blast
  let ?r = "if P r then deprecate actor now r else r"
  have "?r \<in> set (update_where P (deprecate actor now) rs)"
    unfolding in_update_where using r by blast
  moreover have "rl_id ?r = rl_id r" "run_payload g q i t ?r = run_payload g q i t r" for i t
    by simp_all
  ultimately show ?thesis
    using f unfolding specification_ok_def by (intro bexI [of _ ?r] exI [of _ g] exI [of _ q]) simp_all
qed

lemma mark_deprecated_inv:
  assumes inv: "registry_inv sha db" and r: "row_by rl_id i (releases db) = Some r"
    and a: "row_by ag_agent_id (rl_agent_id r) (agents db) = Some a" and d: "ag_default a \<noteq> Some i"
  shows "registry_inv sha (mark_deprecated r actor now db)"
proof (cases "rl_status r = Deprecated")
  case True
  then show ?thesis using inv by (simp add: mark_deprecated_def)
next
  case False
  have R: "r \<in> set (releases db)" "rl_id r = i" using r by (auto dest: row_by_SomeD)
  have A: "a \<in> set (agents db)" "ag_agent_id a = rl_agent_id r" using a by (auto dest: row_by_SomeD)
  have uniq: "q = r" if "q \<in> set (releases db)" "rl_id q = i" for q
    using row_by_unique [of rl_id "releases db" q] that inv r by (auto simp: registry_inv_def releases_ok_def)
  have uniqa: "b = a" if "b \<in> set (agents db)" "ag_agent_id b = rl_agent_id r" for b
    using row_by_unique [of ag_agent_id "agents db" b] that inv a by (auto simp: registry_inv_def agents_ok_def)
  have m: "map f (releases (mark_deprecated r actor now db)) = map f (releases db)"
    if "\<And>q. f (deprecate actor now q) = f q" for f :: "release_row \<Rightarrow> 'b"
    using that by (simp add: mark_deprecated_releases map_key_update_where)
  have "\<exists>q \<in> set (releases (mark_deprecated r actor now db)).
      rl_id q = j \<and> rl_agent_id q = ag_agent_id b \<and> rl_status q = Published"
    if b: "b \<in> set (agents db)" "ag_default b = Some j" for b j
  proof -
    obtain q where q: "q \<in> set (releases db)" "rl_id q = j" "rl_agent_id q = ag_agent_id b"
      "rl_status q = Published"
      using inv b unfolding registry_inv_def agents_ok_def by blast
    have "j \<noteq> i"
    proof
      assume "j = i"
      then have "q = r" using uniq q by simp
      then have "b = a" using uniqa b(1) q(3) by simp
      then show False using d b(2) \<open>j = i\<close> by simp
    qed
    then have "q \<in> set (releases (mark_deprecated r actor now db))"
      using q R False by (auto simp: mark_deprecated_releases in_update_where)
    then show ?thesis using q by blast
  qed
  then have "agents_ok (mark_deprecated r actor now db)"
    using inv by (simp add: registry_inv_def agents_ok_def)
  moreover have "releases_ok sha (mark_deprecated r actor now db)"
    unfolding releases_ok_def
  proof (intro conjI ballI)
    show "distinct (map rl_id (releases (mark_deprecated r actor now db)))"
      "distinct (map (\<lambda>r. (rl_agent_id r, rl_version r)) (releases (mark_deprecated r actor now db)))"
      "distinct (map rl_image (releases (mark_deprecated r actor now db)))"
      using inv by (simp_all add: m registry_inv_def releases_ok_def)
    fix q
    assume "q \<in> set (releases (mark_deprecated r actor now db))"
    then obtain p where "p \<in> set (releases db)" "q = p \<or> q = deprecate actor now p"
      by (auto simp: mark_deprecated_releases in_update_where split: if_splits)
    then show "content_ok sha q" "has_row ag_agent_id (rl_agent_id q) (agents (mark_deprecated r actor now db))"
      using inv by (auto simp: registry_inv_def releases_ok_def content_ok_deprecate)
  qed
  moreover have "specifications_ok sha (mark_deprecated r actor now db)"
    using inv False by (simp add: registry_inv_def specifications_ok_def mark_deprecated_releases
        specification_ok_deprecate)
  moreover have "result_ok (mark_deprecated r actor now db) k = result_ok db k" for k
    using False by (simp add: result_ok_def mark_deprecated_releases has_row_update_where
        cong: registry_operation.case_cong)
  then have "keys_ok (mark_deprecated r actor now db)"
    using inv by (simp add: registry_inv_def keys_ok_def)
  ultimately show ?thesis using inv by (simp add: registry_inv_def access_ok_def)
qed

lemma deprecate_inv:
  assumes "registry_inv sha db"
    and "deprecate_release sha actor key i now db = Inr (p, db')"
  shows "registry_inv sha db'"
  using assms(2)
proof (cases rule: deprecate_effect)
  case Replay
  then show ?thesis using assms(1) by simp
next
  case (Fresh a r)
  have "has_row rl_id i (releases db)" using Fresh(2) by (simp add: has_row_def)
  then have "has_row rl_id i (releases (mark_deprecated r actor now db))"
    by (simp add: mark_deprecated_releases has_row_update_where)
  then show ?thesis
    unfolding Fresh(6) using mark_deprecated_inv [OF assms(1) Fresh(2,3,4)] Fresh(1)
    by (intro registry_inv_save) (simp_all add: lifecycle_record_def find_key_def result_ok_def)
qed

lemma access_change_inv:
  assumes "registry_inv sha db" and "distinct (map aw_grant_id gs)"
    and "\<And>k. has_row aw_grant_id k (access_grants db) \<Longrightarrow> has_row aw_grant_id k gs"
  shows "registry_inv sha (db\<lparr>access_grants := gs, access_audit := audit\<rparr>)"
proof -
  have "result_ok db i \<Longrightarrow> result_ok (db\<lparr>access_grants := gs, access_audit := audit\<rparr>) i" for i
    using assms(3) by (auto simp: result_ok_def split: registry_operation.splits)
  then show ?thesis
    using assms by (simp add: registry_inv_defs)
qed

lemma grant_inv:
  assumes "registry_inv sha db"
    and "grant_access sha actor key terms i db = Inr (p, db')"
  shows "registry_inv sha db'"
  using assms(2)
proof (cases rule: grant_effect)
  case Replay
  then show ?thesis using assms(1) by simp
next
  case (Known g)
  have "g \<in> set (access_grants db)"
    using Known(3) by (auto simp: active_grant_def dest: find_SomeD)
  then show ?thesis
    unfolding Known(5) using assms(1) Known(1)
    by (intro registry_inv_save) (auto simp: grant_record_def result_ok_def has_row_iff)
next
  case Fresh
  have "registry_inv sha (add_access (new_access i actor terms) db)"
    unfolding add_access_def
    using assms(1) Fresh(4)
    by (intro access_change_inv) (auto simp: registry_inv_def access_ok_def has_row_iff new_access_def
        split: prod.splits)
  then show ?thesis
    unfolding Fresh(6) using Fresh(1)
    by (intro registry_inv_save) (auto simp: grant_record_def result_ok_def add_access_def find_key_def
        new_access_def split: prod.splits)
qed

lemma revoke_inv:
  assumes "registry_inv sha db"
    and "revoke_access sha actor key i now db = Inr (p, db')"
  shows "registry_inv sha db'"
  using assms(2)
proof (cases rule: revoke_effect)
  case Replay
  then show ?thesis using assms(1) by simp
next
  case (Fresh g)
  have e: "registry_inv sha (ended g actor now db)"
  proof (cases "aw_revoked_at g = None")
    case True
    have "distinct (map aw_grant_id (access_grants db))"
      using assms(1) by (simp add: registry_inv_def access_ok_def)
    then show ?thesis
      unfolding ended_def using True access_change_inv [OF assms(1)]
      by (simp add: map_key_update_where has_row_update_where)
  qed (simp add: ended_def assms(1))
  have "has_row aw_grant_id i (access_grants db)" using Fresh(2) by (simp add: has_row_def)
  then have "has_row aw_grant_id i (access_grants (ended g actor now db))"
    by (simp add: ended_def has_row_update_where)
  moreover have "registry_idempotency (ended g actor now db) = registry_idempotency db"
    by (simp add: ended_def)
  ultimately show ?thesis
    unfolding Fresh(4) using e Fresh(1)
    by (intro registry_inv_save) (simp_all add: grant_record_def result_ok_def find_key_def)
qed

lemma resolve_inv:
  assumes "registry_inv sha db"
    and "resolve_run_specification sha g identity q actor key x db = Inr (p, db')"
  shows "registry_inv sha db'"
  using assms(2)
proof (cases rule: resolve_effect)
  case Replay
  then show ?thesis using assms(1) by simp
next
  case (Known s)
  have "s \<in> set (run_specifications db)" using Known(2) by (auto dest: row_by_SomeD)
  then show ?thesis
    unfolding Known(5) using assms(1) Known(1,3)
    by (intro registry_inv_save) (auto simp: resolution_record_def result_ok_def)
next
  case (Fresh r payload)
  let ?s = "new_specification sha g q (fst x) (snd x) payload"
  note R = authorized_release_Inr [OF Fresh(3)]
  have "specification_ok sha (releases db) ?s"
    unfolding specification_ok_def
    by (intro bexI [of _ r] exI [of _ g] exI [of _ q])
      (use R Fresh(4) in \<open>simp_all add: new_specification_def\<close>)
  then have "specifications_ok sha (db\<lparr>run_specifications := run_specifications db @ [?s]\<rparr>)"
    using assms(1) Fresh(2,5)
    by (auto simp: registry_inv_def specifications_ok_def has_row_iff new_specification_def)
  moreover have "keys_ok (db\<lparr>run_specifications := run_specifications db @ [?s]\<rparr>)"
    using assms(1) unfolding registry_inv_def keys_ok_def result_ok_def
    by (auto split: registry_operation.splits)
  ultimately have "registry_inv sha (db\<lparr>run_specifications := run_specifications db @ [?s]\<rparr>)"
    using assms(1) by (simp add: registry_inv_defs)
  then show ?thesis
    unfolding Fresh(7) using Fresh(1)
    by (intro registry_inv_save)
      (simp_all add: resolution_record_def result_ok_def find_key_def new_specification_def)
qed

lemma exec_registry_inv:
  assumes "registry_inv sha db" and "exec_registry sha op db = Inr db'"
  shows "registry_inv sha db'"
  using assms
  by (cases op) (auto simp: map_sum_snd_Inr intro: publish_inv set_default_inv deprecate_inv grant_inv
      revoke_inv resolve_inv)

lemma run_registry_inv: "registry_inv sha db \<Longrightarrow> registry_inv sha (run_registry sha ops db)"
  by (rule run_registry_induct [of "registry_inv sha"]) (auto intro: exec_registry_inv)

section \<open>What never changes\<close>

text \<open>A release keeps its content; a deprecated one is never changed.\<close>

definition content_of :: "release_row \<Rightarrow> release_row" where
  "content_of r = r\<lparr>rl_status := Published, rl_deprecated_by := None, rl_deprecated_at := None\<rparr>"

definition later_release :: "release_row \<Rightarrow> release_row \<Rightarrow> bool" where
  "later_release r r' \<longleftrightarrow> content_of r' = content_of r \<and> (rl_status r = Deprecated \<longrightarrow> r' = r)"

lemma later_release_refl [simp]: "later_release r r"
  by (simp add: later_release_def)

lemma later_release_trans: "later_release r r' \<Longrightarrow> later_release r' r'' \<Longrightarrow> later_release r r''"
  by (auto simp: later_release_def)

lemma later_release_deprecate: "rl_status r \<noteq> Deprecated \<Longrightarrow> later_release r (deprecate actor now r)"
  by (simp add: later_release_def content_of_def deprecate_def)

definition keeps_release :: "uuid \<Rightarrow> release_row \<Rightarrow> registry_db \<Rightarrow> bool" where
  "keeps_release i r db \<longleftrightarrow> (\<exists>r'. row_by rl_id i (releases db) = Some r' \<and> later_release r r')"

lemma keeps_release_same:
  "keeps_release i r db \<Longrightarrow> releases db' = releases db \<Longrightarrow> keeps_release i r db'"
  by (simp add: keeps_release_def)

lemma mark_deprecated_keeps:
  assumes "keeps_release i r db" and "row_by rl_id j (releases db) = Some q"
  shows "keeps_release i r (mark_deprecated q actor now db)"
proof (cases "rl_status q = Deprecated")
  case True
  then show ?thesis using assms(1) by (simp add: mark_deprecated_def)
next
  case False
  obtain r' where r': "row_by rl_id i (releases db) = Some r'" "later_release r r'"
    using assms(1) by (auto simp: keeps_release_def)
  have "rl_id q = j" "rl_id r' = i" using assms(2) r'(1) by (auto dest: row_by_SomeD)
  then have "rl_id r' = rl_id q \<Longrightarrow> r' = q" using assms(2) r'(1) by simp
  then show ?thesis
    using r' False later_release_trans [OF r'(2) later_release_deprecate [of r' actor now]]
    by (auto simp: keeps_release_def mark_deprecated_releases row_by_update_where)
qed

lemma exec_keeps_release:
  assumes "keeps_release i r db" and "exec_registry sha op db = Inr db'"
  shows "keeps_release i r db'"
proof (cases op)
  case (Publish_op actor key m img pv j)
  then obtain p where "publish_release sha actor key m img pv j db = Inr (p, db')"
    using assms(2) by (auto simp: map_sum_snd_Inr)
  then show ?thesis
    using assms(1) by (cases rule: publish_effect) (auto simp: keeps_release_def row_by_append)
next
  case (Default_op actor key agent j)
  then obtain p where "set_default_release sha actor key agent j db = Inr (p, db')"
    using assms(2) by (auto simp: map_sum_snd_Inr)
  then show ?thesis
    using assms(1) by (cases rule: set_default_effect) (auto elim: keeps_release_same)
next
  case (Deprecate_op actor key j now)
  then obtain p where "deprecate_release sha actor key j now db = Inr (p, db')"
    using assms(2) by (auto simp: map_sum_snd_Inr)
  then show ?thesis
  proof (cases rule: deprecate_effect)
    case (Fresh a q)
    have "keeps_release i r (mark_deprecated q actor now db)"
      by (rule mark_deprecated_keeps [OF assms(1) Fresh(2)])
    then show ?thesis unfolding Fresh(6) by (rule keeps_release_same) simp
  qed (use assms(1) in simp)
next
  case (Grant_op actor key terms j)
  then obtain p where "grant_access sha actor key terms j db = Inr (p, db')"
    using assms(2) by (auto simp: map_sum_snd_Inr)
  then show ?thesis
    using assms(1) by (cases rule: grant_effect) (auto simp: keeps_release_def add_access_def)
next
  case (Revoke_op actor key j now)
  then obtain p where "revoke_access sha actor key j now db = Inr (p, db')"
    using assms(2) by (auto simp: map_sum_snd_Inr)
  then show ?thesis
    using assms(1) by (cases rule: revoke_effect) (auto simp: keeps_release_def ended_def)
next
  case (Resolve_op g identity q actor key x)
  then obtain p where "resolve_run_specification sha g identity q actor key x db = Inr (p, db')"
    using assms(2) by (auto simp: map_sum_snd_Inr)
  then show ?thesis
    using assms(1) by (cases rule: resolve_effect) (auto simp: keeps_release_def)
qed

text \<open>Specifications are only added, and a revoked grant stays revoked.\<close>

definition revoked_grant :: "uuid \<Rightarrow> registry_db \<Rightarrow> bool" where
  "revoked_grant i db \<longleftrightarrow>
     (\<exists>g. row_by aw_grant_id i (access_grants db) = Some g \<and> aw_revoked_at g \<noteq> None)"

lemma exec_keeps_specification:
  assumes "s \<in> set (run_specifications db)" and "exec_registry sha op db = Inr db'"
  shows "s \<in> set (run_specifications db')"
  using assms
  by (cases op)
    (auto simp: map_sum_snd_Inr add_access_def ended_def
      elim!: publish_effect set_default_effect deprecate_effect grant_effect revoke_effect resolve_effect)

lemma exec_keeps_revoked:
  assumes "revoked_grant i db" and "exec_registry sha op db = Inr db'"
  shows "revoked_grant i db'"
  using assms
  by (cases op)
    (auto simp: map_sum_snd_Inr revoked_grant_def add_access_def ended_def row_by_append row_by_update_where
      elim!: publish_effect set_default_effect deprecate_effect grant_effect revoke_effect resolve_effect)

lemma run_keeps_specification:
  "s \<in> set (run_specifications db) \<Longrightarrow> s \<in> set (run_specifications (run_registry sha ops db))"
  by (rule run_registry_induct [of "\<lambda>d. s \<in> set (run_specifications d)"])
    (auto intro: exec_keeps_specification)

lemma run_keeps_revoked: "revoked_grant i db \<Longrightarrow> revoked_grant i (run_registry sha ops db)"
  by (rule run_registry_induct [of "revoked_grant i"]) (auto intro: exec_keeps_revoked)

lemma run_keeps_release: "keeps_release i r db \<Longrightarrow> keeps_release i r (run_registry sha ops db)"
  by (rule run_registry_induct [of "keeps_release i r"]) (auto intro: exec_keeps_release)

end
