(* ===== verification/RegistryExample.thy ===== *)
theory RegistryExample
  imports RegistrySafety
begin

text \<open>
  A concrete Registry for the witnesses: a publication of an agent, a grant to a user and the
  resolution of a run, computed by the model. The hash writes 64 characters of the text in
  hexadecimal.
\<close>

definition ex_sha :: "pystr \<Rightarrow> pystr" where
  "ex_sha s = take 64 (map (\<lambda>c. hex_digit (of_char c)) (drop 170 s) @ replicate 64 (CHR ''0''))"

lemma ex_sha_shape: "length (ex_sha s) = 64 \<and> list_all is_hex (ex_sha s)"
proof -
  have "is_hex (CHR ''0'')" by (simp add: is_hex_def hex_digits_def)
  then show ?thesis by (auto simp: ex_sha_def list_all_iff dest!: in_set_takeD)
qed

definition ex_digest :: pystr where
  "ex_digest = ''sha256:'' @ replicate 64 (CHR ''a'')"

definition ex_image :: pystr where
  "ex_image = ''registry:5000/porfirium/echo@'' @ ex_digest"

definition ex_resources :: members where
  "ex_resources = [(''cpu'', J_str ''500m''), (''memory'', J_str ''256Mi''), (''timeoutSeconds'', J_int 300)]"

definition ex_spec :: members where
  "ex_spec =
     [(''image'', J_str ex_image), (''entrypoint'', J_str ''echo.agent:run''),
      (''sdk'', J_str ''>=1.0, <2.0''), (''models'', J_arr [J_str ''chat'']), (''tools'', J_arr []),
      (''configSchema'', J_obj []), (''resources'', J_obj ex_resources)]"

definition ex_metadata :: members where
  "ex_metadata = [(''name'', J_str ''echo''), (''version'', J_str ''1.0.0'')]"

definition ex_manifest :: members where
  "ex_manifest =
     [(''apiVersion'', J_str ''porfirium.ai/v1''), (''kind'', J_str ''Agent''),
      (''metadata'', J_obj ex_metadata), (''spec'', J_obj ex_spec)]"

text \<open>The same manifest with its members in another order, and one of another version.\<close>

definition ex_reordered :: members where
  "ex_reordered =
     [(''kind'', J_str ''Agent''), (''metadata'', J_obj (rev ex_metadata)),
      (''spec'', J_obj (rev ex_spec)), (''apiVersion'', J_str ''porfirium.ai/v1'')]"

definition ex_other :: members where
  "ex_other =
     [(''apiVersion'', J_str ''porfirium.ai/v1''), (''kind'', J_str ''Agent''),
      (''metadata'', J_obj [(''name'', J_str ''echo''), (''version'', J_str ''1.0.1'')]),
      (''spec'', J_obj ex_spec)]"

definition ex_provenance :: members where
  "ex_provenance =
     [(''subjectDigest'', J_str ex_digest), (''signature'', J_str ''c2lnbg==''), (''keyId'', J_str ''ci'')]"

definition ex_actor :: pystr where "ex_actor = ''publisher''"
definition ex_key :: pystr where "ex_key = ''key-00000001''"

text \<open>The validated release and the tables after its publication.\<close>

definition ex_validated :: validated_release where
  "ex_validated =
     \<lparr>vr_agent_id = ''echo'', vr_name = ''echo'', vr_description = [], vr_version = ''1.0.0'',
      vr_image = ex_image, vr_image_digest = ex_digest, vr_manifest = ex_manifest,
      vr_manifest_sha256 = request_sha256 ex_sha (J_obj ex_manifest),
      vr_provenance = ex_provenance, vr_sdk_constraint = ''>=1.0, <2.0''\<rparr>"

definition ex_row :: release_row where
  "ex_row = new_release 11 ex_actor ex_validated"

definition ex_publication :: pystr where
  "ex_publication = publication_digest ex_sha (J_obj ex_manifest) (J_str ex_image) (J_obj ex_provenance)"

definition ex_db1 :: registry_db where
  "ex_db1 = save_key (publication_record ex_actor ex_key ex_publication 11)
     (empty_registry_db\<lparr>agents := agents_with ex_validated [], releases := [ex_row],
        publication_audit := [published_audit ex_validated ex_actor 11]\<rparr>)"

definition ex_user :: pystr where "ex_user = uuid_str 7"

definition ex_terms :: grant_terms where
  "ex_terms = (''echo'', User_subject, ex_user, Run_permission)"

definition ex_db2 :: registry_db where
  "ex_db2 = save_key (grant_record ''admin'' Grant_access ex_key (grant_sha256 ex_sha ex_terms) 201 21)
     (add_access (new_access 21 ''admin'' ex_terms) ex_db1)"

definition ex_request :: resolution_request where
  "ex_request =
     \<lparr>rq_run_id = 31, rq_user_id = 7, rq_conversation_id = 32, rq_thread_id = 33, rq_release_id = 11,
      rq_delegation_grant_id = 34, rq_trace_id = replicate 32 (CHR ''b''),
      rq_configuration_revision_id = None, rq_starting_checkpoint_id = None\<rparr>"

definition ex_signer :: run_signer where
  "ex_signer = \<lparr>sg_sign = take 64, sg_key_id = ''run-key'', sg_ttl = 300,
     sg_time_text = (\<lambda>t. int_text t)\<rparr>"

definition ex_identity :: service_identity where
  "ex_identity = \<lparr>si_subject = ''resolver'', si_client_id = ''client'',
     si_roles = [''genai-agent-run-resolver''], si_groups = [], si_delegated_user = Some ex_user\<rparr>"

text \<open>The services: token introspection that knows a publisher and a resolver, an OCI registry that
  has the image, and one trusted publication key.\<close>

definition ex_introspect :: "pystr \<Rightarrow> json option" where
  "ex_introspect token =
     Some (J_obj [(''active'', J_bool True), (''aud'', J_str ''agent-registry''),
       (''sub'', J_str (if token = ''p'' then ''publisher'' else ''resolver'')),
       (''client_id'', J_str ''client''),
       (''roles'', J_arr [J_str (if token = ''p'' then ''genai-agent-publisher''
                                 else ''genai-agent-run-resolver'')]),
       (''porfirium_user_id'', J_str ex_user)])"

definition ex_verifier :: evidence_verifier where
  "ex_verifier =
     \<lparr>vf_head = (\<lambda>url. Head_status 200 (Some ex_digest)), vf_registry_url = ''http://registry:5000/'',
      vf_registry_host = ''registry:5000'', vf_publication_keys = [(''ci'', ''public-key'')],
      vf_allowed_builders = [],
      vf_ed25519 = (\<lambda>key signature message. key = ''public-key'' \<and> signature = ''sign'')\<rparr>"

definition ex_service :: registry_service where
  "ex_service = \<lparr>rv_introspect = Some ex_introspect, rv_audience = ''agent-registry'',
     rv_verifier = Some ex_verifier, rv_signer = Some ex_signer, rv_sha = ex_sha\<rparr>"

section \<open>Computed facts\<close>

lemma ex_texts:
  "registry_key_ok ex_key" "ex_actor \<noteq> []" "char_count ex_actor \<le> 255" "agent_id_ok ''echo''"
  "nul_free ex_image" "ex_user \<noteq> []" "char_count ex_user \<le> 255"
  by code_simp+

lemma ex_documents:
  "well_formed (J_obj ex_manifest)" "well_formed (J_obj ex_reordered)" "well_formed (J_obj ex_provenance)"
  "storable (J_obj ex_manifest)" "storable (J_obj ex_provenance)"
  by code_simp+

lemma ex_parts:
  "length (canonical_json (J_obj ex_manifest)) \<le> max_manifest_bytes"
  "validate_metadata ex_metadata = Inr (''echo'', ''1.0.0'', ''echo'', [])"
  "validate_spec ex_spec (J_str ex_image) = Inr (ex_image, ex_digest, ''>=1.0, <2.0'')"
  "validate_provenance ex_provenance ex_digest = Inr ()"
  by code_simp+

lemma accepted_publication:
  assumes "length (canonical_json (J_obj m)) \<le> max_manifest_bytes"
    and "keys_at m ''manifest'' [''apiVersion'', ''kind'', ''metadata'', ''spec''] [] = Inr ()"
    and "member ''apiVersion'' m = Some (J_str ''porfirium.ai/v1'')"
    and "member ''kind'' m = Some (J_str ''Agent'')"
    and "member ''metadata'' m = Some (J_obj md)"
    and "validate_metadata md = Inr (agent_id, version, name, description)"
    and "member ''spec'' m = Some (J_obj sp)"
    and "validate_spec sp (J_str img) = Inr (img, digest, sdk)"
    and "validate_provenance pv digest = Inr ()"
  shows "validate_publication sha (J_obj m) (J_str img) (J_obj pv) =
     Inr \<lparr>vr_agent_id = agent_id, vr_name = name, vr_description = description,
          vr_version = version, vr_image = img, vr_image_digest = digest,
          vr_manifest = m, vr_manifest_sha256 = request_sha256 sha (J_obj m),
          vr_provenance = pv, vr_sdk_constraint = sdk\<rparr>"
proof -
  have "object_at (J_obj ms) f = Inr ms" for ms f by (simp add: object_at_def)
  then show ?thesis
    unfolding validate_publication_def item_def by (simp add: assms del: canonical_json.simps)
qed

lemma ex_valid:
  "validate_publication ex_sha (J_obj ex_manifest) (J_str ex_image) (J_obj ex_provenance) = Inr ex_validated"
  unfolding ex_validated_def
  by (rule accepted_publication [OF ex_parts(1) _ _ _ _ ex_parts(2) _ ex_parts(3,4)])
    (simp_all add: ex_manifest_def keys_at_def member_keys_def)

lemma ex_small:
  "length (canonical_json (J_obj ex_reordered)) \<le> max_manifest_bytes"
  "length (canonical_json (J_obj ex_other)) \<le> max_manifest_bytes"
  by code_simp+

lemma ex_other_parts:
  "validate_metadata (rev ex_metadata) = Inr (''echo'', ''1.0.0'', ''echo'', [])"
  "validate_metadata [(''name'', J_str ''echo''), (''version'', J_str ''1.0.1'')] =
     Inr (''echo'', ''1.0.1'', ''echo'', [])"
  "validate_spec (rev ex_spec) (J_str ex_image) = Inr (ex_image, ex_digest, ''>=1.0, <2.0'')"
  by code_simp+

lemma ex_others_valid:
  "\<not> isl (validate_publication ex_sha (J_obj ex_reordered) (J_str ex_image) (J_obj ex_provenance))"
  "\<not> isl (validate_publication ex_sha (J_obj ex_other) (J_str ex_image) (J_obj ex_provenance))"
proof -
  have "validate_publication ex_sha (J_obj ex_reordered) (J_str ex_image) (J_obj ex_provenance) =
      Inr (ex_validated\<lparr>vr_manifest := ex_reordered,
        vr_manifest_sha256 := request_sha256 ex_sha (J_obj ex_reordered)\<rparr>)"
    unfolding ex_validated_def
    by (subst accepted_publication [OF ex_small(1) _ _ _ _ ex_other_parts(1) _ ex_other_parts(3) ex_parts(4)])
      (simp_all add: ex_reordered_def keys_at_def member_keys_def)
  then show "\<not> isl (validate_publication ex_sha (J_obj ex_reordered) (J_str ex_image) (J_obj ex_provenance))"
    by simp
  have "validate_publication ex_sha (J_obj ex_other) (J_str ex_image) (J_obj ex_provenance) =
      Inr (ex_validated\<lparr>vr_manifest := ex_other, vr_version := ''1.0.1'',
        vr_manifest_sha256 := request_sha256 ex_sha (J_obj ex_other)\<rparr>)"
    unfolding ex_validated_def
    by (subst accepted_publication [OF ex_small(2) _ _ _ _ ex_other_parts(2) _ ex_parts(3,4)])
      (simp_all add: ex_other_def keys_at_def member_keys_def)
  then show "\<not> isl (validate_publication ex_sha (J_obj ex_other) (J_str ex_image) (J_obj ex_provenance))"
    by simp
qed

lemma ex_published:
  "publish_release ex_sha ex_actor ex_key (J_obj ex_manifest) (J_str ex_image) (J_obj ex_provenance) 11
     empty_registry_db = Inr (release_of ex_row, ex_db1)"
proof -
  have v: "vr_image ex_validated = ex_image" "vr_manifest ex_validated = ex_manifest"
    "vr_provenance ex_validated = ex_provenance" "nul_free (vr_name ex_validated)"
    "nul_free (vr_description ex_validated)"
    by (simp_all add: ex_validated_def nul_free_def)
  have a: "store_agent ex_validated empty_registry_db =
      Inr (empty_registry_db\<lparr>agents := agents_with ex_validated []\<rparr>)"
    using v by (simp add: store_agent_def agents_with_def empty_registry_db_def)
  have s: "store_release ex_validated ex_actor 11 empty_registry_db =
      Inr (empty_registry_db\<lparr>agents := agents_with ex_validated [], releases := [ex_row],
        publication_audit := [published_audit ex_validated ex_actor 11]\<rparr>)"
    unfolding store_release_def a using v ex_documents
    by (simp add: conflicting_def empty_registry_db_def ex_row_def published_audit_def)
  have f: "find_key empty_registry_db ex_actor Publish_release ex_key = None"
    by (simp add: find_key_def empty_registry_db_def)
  show ?thesis
    unfolding publish_release_def ex_valid publish_tx_def s
    using ex_texts v f by (simp add: s ex_row_def ex_db1_def ex_publication_def publication_record_def)
qed

lemma ex_db1_inv: "registry_inv ex_sha ex_db1"
  by (rule publish_inv [OF registry_inv_empty ex_published])

lemma ex_db1_tables [simp]:
  "releases ex_db1 = [ex_row]" "access_grants ex_db1 = []" "run_specifications ex_db1 = []"
  by (simp_all add: ex_db1_def save_key_def empty_registry_db_def)

lemma ex_row_fields [simp]:
  "rl_id ex_row = 11" "rl_status ex_row = Published" "rl_agent_id ex_row = ''echo''"
  "rl_manifest ex_row = ex_manifest"
  by (simp_all add: ex_row_def new_release_def ex_validated_def)

lemma ex_granted:
  "grant_access ex_sha ''admin'' ex_key ex_terms 21 ex_db1 =
     Inr (grant_of (new_access 21 ''admin'' ex_terms), ex_db2)"
proof -
  have "find_key ex_db1 ''admin'' Grant_access ex_key = None"
    by (simp add: find_key_def ex_db1_def save_key_def empty_registry_db_def publication_record_def idem_id_def)
  moreover have "has_row ag_agent_id ''echo'' (agents ex_db1)"
    by (simp add: ex_db1_def save_key_def agents_with_def ex_validated_def)
  ultimately show ?thesis
    using ex_texts by (simp add: grant_access_def ex_terms_def ex_db2_def active_grant_def)
qed

lemma ex_db2_inv: "registry_inv ex_sha ex_db2"
  by (rule grant_inv [OF ex_db1_inv ex_granted])

lemma ex_db2_tables [simp]:
  "releases ex_db2 = [ex_row]" "run_specifications ex_db2 = []"
  "access_grants ex_db2 = [new_access 21 ''admin'' ex_terms]"
  by (simp_all add: ex_db2_def save_key_def add_access_def)

lemma ex_db2_keys:
  "find_key ex_db2 actor Resolve_run_specification key = None"
  "find_key ex_db2 actor Revoke_access key = None"
  by (simp_all add: find_key_def ex_db2_def ex_db1_def save_key_def add_access_def empty_registry_db_def
      publication_record_def grant_record_def idem_id_def)

text \<open>The identities and the evidence.\<close>

lemma ex_service_fields:
  "rv_signer ex_service = Some ex_signer" "rv_verifier ex_service = Some ex_verifier"
  "rv_sha ex_service = ex_sha"
  by (simp_all add: ex_service_def)

definition ex_publisher :: service_identity where
  "ex_publisher = \<lparr>si_subject = ''publisher'', si_client_id = ''client'',
     si_roles = [''genai-agent-publisher''], si_groups = [], si_delegated_user = Some ex_user\<rparr>"

lemma ex_identities:
  "authenticated_identity ex_service (Some ''Bearer p'') = Inr ex_publisher"
  "authenticated_identity ex_service (Some ''Bearer r'') = Inr ex_identity"
  by code_simp+

lemma ex_evidence: "verify_evidence ex_verifier ex_validated = Inr ()"
proof -
  have "builder_trusted ex_verifier p" for p
    by (simp add: builder_trusted_def ex_verifier_def)
  moreover have "image_repository (vf_registry_host ex_verifier) (vr_image ex_validated) = Inr ''porfirium/echo''"
    "verify_signature ex_verifier (vr_provenance ex_validated) = Inr ()"
    by code_simp+
  moreover have "verify_oci_digest ex_verifier r (vr_image_digest ex_validated) = Inr ()" for r
    by (simp add: verify_oci_digest_def ex_verifier_def ex_validated_def)
  ultimately show ?thesis by (simp add: verify_evidence_def)
qed

end
