(* ===== verification/RegistryProperties.thy ===== *)
theory RegistryProperties
  imports RegistryExample
begin

text \<open>
  The properties of the Agent Registry: the consistency of its tables, the immutability of
  releases, what a publication was checked for, retries, the authorization of resolutions and of
  revocations, and the uniqueness of the specification of a run.
\<close>

section \<open>Documents up to the order of members\<close>

fun normal :: "json \<Rightarrow> json" where
  "normal (J_arr vs) = J_arr (map normal vs)"
| "normal (J_obj ms) = J_obj (sort_members (map (\<lambda>(k, v). (k, normal v)) ms))"
| "normal v = v"

lemma map_fst_pairs [simp]: "map fst (map (\<lambda>(k, v). (k, f v)) ms) = map fst ms"
  by (induction ms) auto

lemma distinct_sort_members:
  "distinct (map fst ms) \<Longrightarrow> distinct (map fst (sort_members ms))"
proof (induction ms)
  case (Cons m ms)
  have "distinct (map fst (insert_member m ns))" if "distinct (map fst ns)" "fst m \<notin> fst ` set ns" for ns
    using that by (induction ns) auto
  then show ?case using Cons by (simp add: sort_members_Cons)
qed (simp add: sort_members_def)

lemma canonical_json_normal: "well_formed v \<Longrightarrow> canonical_json (normal v) = canonical_json v"
proof (induction v rule: normal.induct)
  case (1 vs)
  then have "map canonical_json (map normal vs) = map canonical_json vs" by simp
  then show ?case by (simp only: normal.simps canonical_json.simps)
next
  case (2 ms)
  let ?f = "\<lambda>(k, v). (k, canonical_json v)" and ?n = "\<lambda>(k, v). (k, normal v)"
  have d: "distinct (map fst ms)" using 2 by simp
  have e: "map ?f (map ?n ms) = map ?f ms"
    using 2 by (auto intro!: map_cong)
  have "sort_members (map ?f (sort_members (map ?n ms))) = sort_members (map ?f (map ?n ms))"
  proof (rule sort_members_cong)
    show "set (map ?f (sort_members (map ?n ms))) = set (map ?f (map ?n ms))"
      by (simp only: set_map set_sort_members)
    show "distinct (map fst (map ?f (sort_members (map ?n ms))))"
      using d distinct_sort_members [of "map ?n ms"] by (simp only: map_fst_pairs)
    show "distinct (map fst (map ?f (map ?n ms)))" using d by (simp only: map_fst_pairs)
  qed
  then show ?case unfolding e by simp
qed auto

lemma same_canonical_json:
  "well_formed v \<Longrightarrow> well_formed w \<Longrightarrow> normal v = normal w \<Longrightarrow> canonical_json v = canonical_json w"
  by (metis canonical_json_normal)

lemma publication_digest_normal:
  assumes "well_formed m" "well_formed m'" "normal m' = normal m"
    and "well_formed pv" "well_formed pv'" "normal pv' = normal pv"
  shows "publication_digest sha m' (J_str img) pv' = publication_digest sha m (J_str img) pv"
proof -
  have "canonical_json m' = canonical_json m" "canonical_json pv' = canonical_json pv"
    using assms by (auto intro: same_canonical_json)
  then show ?thesis by (simp add: publication_digest_def request_sha256_def sort_members_def)
qed

section \<open>Publications as an idempotent service\<close>

definition stored_publication :: "registry_db \<Rightarrow> pystr \<times> pystr \<Rightarrow> (pystr \<times> uuid) option" where
  "stored_publication db k =
     map_option (\<lambda>i. (ik_sha256 i, the (ik_release i))) (find_key db (fst k) Publish_release (snd k))"

definition publication_admitted ::
  "(pystr \<Rightarrow> pystr) \<Rightarrow> registry_db \<Rightarrow> pystr \<times> pystr \<Rightarrow> json \<times> json \<times> json \<Rightarrow> bool" where
  "publication_admitted sha db k q \<longleftrightarrow>
     fst k \<noteq> [] \<and> char_count (fst k) \<le> 255 \<and> registry_key_ok (snd k)
     \<and> \<not> isl (validate_publication sha (fst q) (fst (snd q)) (snd (snd q)))"

definition registry_moves :: "(pystr \<Rightarrow> pystr) \<Rightarrow> registry_db \<Rightarrow> registry_db \<Rightarrow> bool" where
  "registry_moves sha db db' \<longleftrightarrow> (\<exists>op. db' = registry_step sha op db)"

lemma run_registry_moves: "(registry_moves sha)\<^sup>*\<^sup>* db (run_registry sha ops db)"
proof (induction ops arbitrary: db)
  case (Cons op ops)
  have "registry_moves sha db (registry_step sha op db)" by (auto simp: registry_moves_def)
  then show ?case using Cons [of "registry_step sha op db"] by (simp add: converse_rtranclp_into_rtranclp)
qed simp

text \<open>Keys are only added.\<close>

lemma exec_keeps_keys:
  assumes "exec_registry sha op db = Inr db'"
  shows "\<exists>l. registry_idempotency db' = registry_idempotency db @ l"
  using assms
  by (cases op)
    (auto simp: map_sum_snd_Inr add_access_def ended_def save_key_def
      elim!: publish_effect set_default_effect deprecate_effect grant_effect revoke_effect resolve_effect)

lemma step_keeps_key:
  assumes "find_key db actor operation key = Some i"
  shows "find_key (registry_step sha op db) actor operation key = Some i"
proof (cases "exec_registry sha op db")
  case (Inr db')
  obtain l where "registry_idempotency db' = registry_idempotency db @ l"
    using exec_keeps_keys [OF Inr] by blast
  then show ?thesis using assms Inr by (simp add: registry_step_def find_key_def row_by_append)
qed (use assms in \<open>simp add: registry_step_def\<close>)

lemma find_key_saved:
  assumes "find_key db (ik_actor i) (ik_operation i) (ik_key i) = None"
    and "registry_idempotency db' = registry_idempotency db @ [i]"
  shows "find_key db' (ik_actor i) (ik_operation i) (ik_key i) = Some i"
  using assms by (simp add: find_key_def row_by_append idem_id_def)

lemma step_inv: "registry_inv sha db \<Longrightarrow> registry_inv sha (registry_step sha op db)"
  using exec_registry_inv [of sha db op] by (cases "exec_registry sha op db") (auto simp: registry_step_def)

definition publish_call :: "(pystr \<Rightarrow> pystr) \<Rightarrow> pystr \<times> pystr \<Rightarrow> json \<times> json \<times> json \<Rightarrow> uuid \<Rightarrow> registry_db
    \<Rightarrow> (published_release, registry_db) tx" where
  "publish_call sha k q i db =
     publish_release sha (fst k) (snd k) (fst q) (fst (snd q)) (snd (snd q)) i db"

lemma publication_known:
  assumes "publication_admitted sha db k q" and "find_key db (fst k) Publish_release (snd k) = Some i"
  shows "publish_call sha k q x db =
    (if ik_sha256 i \<noteq> publication_digest sha (fst q) (fst (snd q)) (snd (snd q))
     then Inl (publication_error ''idempotency_conflict'')
     else (case Option.bind (ik_release i) (\<lambda>j. row_by rl_id j (releases db)) of
             None \<Rightarrow> Inl (publication_error ''idempotency_result_unavailable'')
           | Some r \<Rightarrow> Inr (release_of r, db)))"
  using assms
  by (cases "validate_publication sha (fst q) (fst (snd q)) (snd (snd q))")
    (auto simp: publication_admitted_def publish_call_def publish_release_def publish_tx_def)

lemma publication_result:
  assumes "registry_inv sha db" and "find_key db actor Publish_release key = Some i"
  obtains r where "ik_release i = Some (rl_id r)" "row_by rl_id (rl_id r) (releases db) = Some r"
proof -
  have "i \<in> set (registry_idempotency db)" "ik_operation i = Publish_release"
    using assms(2) by (auto simp: find_key_def idem_id_def dest: row_by_SomeD)
  then have "result_ok db i" using assms(1) by (simp add: registry_inv_def keys_ok_def)
  then obtain j where "ik_release i = Some j" "has_row rl_id j (releases db)"
    using \<open>ik_operation i = Publish_release\<close> by (auto simp: result_ok_def)
  moreover from this(2) obtain r where "row_by rl_id j (releases db) = Some r"
    by (auto simp: has_row_def)
  ultimately show thesis using that row_by_SomeD [of rl_id j "releases db" r] by auto
qed

interpretation publishing: idempotent_service "publish_call sha" stored_publication
    "\<lambda>q. publication_digest sha (fst q) (fst (snd q)) (snd (snd q))" pr_release_id
    "publication_admitted sha" "publication_error ''idempotency_conflict''" "registry_inv sha"
    "registry_moves sha"
  for sha :: "pystr \<Rightarrow> pystr"
proof (unfold_locales, goal_cases)
  case (1 s k q i x)
  then obtain p where p: "find_key s (fst k) Publish_release (snd k) = Some p"
    "ik_sha256 p = publication_digest sha (fst q) (fst (snd q)) (snd (snd q))" "i = the (ik_release p)"
    by (auto simp: stored_publication_def)
  obtain r where r: "ik_release p = Some (rl_id r)" "row_by rl_id (rl_id r) (releases s) = Some r"
    by (rule publication_result [OF 1(1) p(1)])
  show ?case using publication_known [OF 1(2) p(1)] p r by (simp add: release_of_def)
next
  case (2 s k q d i x)
  then obtain p where "find_key s (fst k) Publish_release (snd k) = Some p" "d = ik_sha256 p"
    by (auto simp: stored_publication_def)
  then show ?case using publication_known [OF 2(2)] 2(4) by simp
next
  case (3 s k q x r s')
  then have "publish_release sha (fst k) (snd k) (fst q) (fst (snd q)) (snd (snd q)) x s = Inr (r, s')"
    by (simp add: publish_call_def)
  then show ?case
  proof (cases rule: publish_effect)
    case (Fresh v)
    have "find_key s' (fst k) Publish_release (snd k) =
        Some (publication_record (fst k) (snd k)
          (publication_digest sha (fst q) (fst (snd q)) (snd (snd q))) x)"
      using find_key_saved [of s "publication_record (fst k) (snd k)
          (publication_digest sha (fst q) (fst (snd q)) (snd (snd q))) x" s'] Fresh(1)
      by (simp add: publication_record_def Fresh(6) save_key_def)
    then show ?thesis
      by (simp add: stored_publication_def publication_record_def Fresh(5) release_of_def new_release_def)
  qed (auto simp: stored_publication_def release_of_def)
next
  case (4 s k q x r s' k0 v)
  then have "exec_registry sha (Publish_op (fst k) (snd k) (fst q) (fst (snd q)) (snd (snd q)) x) s = Inr s'"
    by (simp add: publish_call_def)
  then have "s' = registry_step sha (Publish_op (fst k) (snd k) (fst q) (fst (snd q)) (snd (snd q)) x) s"
    by (simp add: registry_step_def)
  then show ?case using 4(3) step_keeps_key by (auto simp: stored_publication_def)
next
  case (5 s k q x r s')
  then show ?case by (auto simp: publish_call_def intro: publish_inv)
next
  case (6 s s' k0 v)
  then show ?case using step_keeps_key by (auto simp: stored_publication_def registry_moves_def)
next
  case (7 s s')
  then show ?case by (auto simp: registry_moves_def step_inv)
qed

section \<open>Properties\<close>

text \<open>C26. Whatever transactions run, in any order and failing or not, the tables of the Registry stay
  consistent: names of agents, identities, versions and images of releases, specifications, runs and
  idempotency keys are unique; the default release of an agent is a published release of that agent;
  every stored release has a well-formed manifest, image and digest; every specification is the
  payload of its request over its stored release, hashed and signed; every key has its result.\<close>

theorem registry_consistent: "registry_inv sha (run_registry sha ops empty_registry_db)"
  by (rule run_registry_inv) (rule registry_inv_empty)

text \<open>C27. A release is immutable: later transactions leave its agent, version, image, manifest,
  provenance and publisher as they are; at most its status changes, once, from published to
  deprecated.\<close>

theorem release_immutable:
  assumes "row_by rl_id i (releases db) = Some r"
  shows "\<exists>r'. row_by rl_id i (releases (run_registry sha ops db)) = Some r'
    \<and> content_of r' = content_of r \<and> (rl_status r = Deprecated \<longrightarrow> r' = r)"
  using run_keeps_release [of i r db sha ops] assms by (auto simp: keeps_release_def later_release_def)


lemma with_problem_Inr [outcome]: "with_problem f r = Inr a \<longleftrightarrow> r = Inr a"
  by (cases r) (auto simp: with_problem_def)

lemma map_sum_id_Inr [outcome]: "map_sum f id r = Inr a \<longleftrightarrow> r = Inr a"
  by (cases r) auto

lemma require_publisher_Inr [outcome]:
  "require_publisher S authorization = Inr identity \<longleftrightarrow>
     authenticated_identity S authorization = Inr identity \<and> publisher_role \<in> set (si_roles identity)"
  by (auto simp: require_publisher_def authorize_publisher_def outcome)

lemma require_resolver_Inr [outcome]:
  "require_resolver S authorization = Inr identity \<longleftrightarrow>
     authenticated_identity S authorization = Inr identity \<and> resolver_role \<in> set (si_roles identity)
     \<and> si_delegated_user identity \<noteq> None"
  by (auto simp: require_resolver_def outcome)


text \<open>C29. Publications are compared up to the order of members: after a publication, whatever other
  transactions ran, the same request under the same key, its documents written with their members in
  any order, returns the same release and changes nothing; a request with another digest under that
  key is refused.\<close>

theorem publication_retry:
  assumes "registry_inv sha db"
    and "publish_release sha actor key m (J_str img) pv i db = Inr (p, db')"
    and "well_formed m" and "well_formed m'" and "normal m' = normal m"
    and "well_formed pv" and "well_formed pv'" and "normal pv' = normal pv"
    and "publication_admitted sha db' (actor, key) (m', J_str img, pv')"
    and "publication_admitted sha db' (actor, key) (m'', img'', pv'')"
    and "publication_digest sha m'' img'' pv'' \<noteq> publication_digest sha m (J_str img) pv"
  shows "(\<exists>p'. publish_release sha actor key m' (J_str img) pv' j (run_registry sha ops db')
             = Inr (p', run_registry sha ops db') \<and> pr_release_id p' = pr_release_id p)
    \<and> publish_release sha actor key m'' img'' pv'' j (run_registry sha ops db')
        = Inl (publication_error ''idempotency_conflict'')"
proof -
  let ?t = "run_registry sha ops db'"
  have call: "publish_call sha (actor, key) (m, J_str img, pv) i db = Inr (p, db')"
    using assms(2) by (simp add: publish_call_def)
  have inv: "registry_inv sha db'" by (rule publish_inv [OF assms(1,2)])
  have "stored_publication db' (actor, key) =
      Some (publication_digest sha m (J_str img) pv, pr_release_id p)"
    using publishing.commits [OF assms(1) call] by simp
  then have t: "registry_inv sha ?t" "stored_publication ?t (actor, key) =
      Some (publication_digest sha m' (J_str img) pv', pr_release_id p)"
    using publishing.others_keep [OF run_registry_moves inv] publication_digest_normal [OF assms(3-8)]
    by simp_all
  have a: "publication_admitted sha ?t (actor, key) (m', J_str img, pv')"
    "publication_admitted sha ?t (actor, key) (m'', img'', pv'')"
    using assms(9,10) by (simp_all add: publication_admitted_def)
  have "\<exists>p'. publish_call sha (actor, key) (m', J_str img, pv') j ?t = Inr (p', ?t)
      \<and> pr_release_id p' = pr_release_id p"
    by (rule publishing.replay [OF t(1) a(1)]) (simp add: t(2))
  moreover have "publish_call sha (actor, key) (m'', img'', pv'') j ?t
      = Inl (publication_error ''idempotency_conflict'')"
    using publishing.reuse_later [OF assms(1) call run_registry_moves a(2)] assms(11) by simp
  ultimately show ?thesis by (simp add: publish_call_def)
qed

text \<open>The members of a specification that come from the request: the run with its user, conversation,
  thread, release, grant and trace, and the configuration revision and starting checkpoint, null when
  there is none.\<close>

definition requested_members :: "resolution_request \<Rightarrow> members" where
  "requested_members q =
     [(''run_id'', J_str (uuid_str (rq_run_id q))), (''user_id'', J_str (uuid_str (rq_user_id q))),
      (''conversation_id'', J_str (uuid_str (rq_conversation_id q))),
      (''thread_id'', J_str (uuid_str (rq_thread_id q))),
      (''release_id'', J_str (uuid_str (rq_release_id q))),
      (''delegation_grant_id'', J_str (uuid_str (rq_delegation_grant_id q))),
      (''trace_id'', J_str (rq_trace_id q)),
      (''configuration_revision_id'', case rq_configuration_revision_id q of
         None \<Rightarrow> J_null | Some u \<Rightarrow> J_str (uuid_str u)),
      (''starting_checkpoint_id'', case rq_starting_checkpoint_id q of
         None \<Rightarrow> J_null | Some u \<Rightarrow> J_str (uuid_str u))]"

lemma run_payload_content:
  assumes "run_payload g q i now r = Inr payload"
  obtains spec entrypoint sdk where
    "manifest_spec (rl_manifest r) = Some spec"
    "member ''entrypoint'' spec = Some entrypoint" "member ''sdk'' spec = Some sdk"
    "member ''release'' payload = Some (release_section r entrypoint sdk)"
    "member ''requested_models'' payload = member ''models'' spec"
    "member ''requested_tools'' payload = member ''tools'' spec"
    "member ''resources'' payload = member ''resources'' spec"
    "list_all (\<lambda>(k, v). member k payload = Some v) (requested_members q)"
    "member ''expires_at'' payload = Some (J_str (sg_time_text g (now + int (sg_ttl g) * 1000000)))"
proof -
  obtain spec_value spec entrypoint sdk models tools resources where p:
    "member ''spec'' (rl_manifest r) = Some spec_value" "stored_object spec_value = Inr spec"
    "member ''entrypoint'' spec = Some entrypoint" "member ''sdk'' spec = Some sdk"
    "member ''models'' spec = Some models" "member ''tools'' spec = Some tools"
    "member ''resources'' spec = Some resources"
    "payload = [(''specification_version'', J_int 1), (''specification_id'', text_of_uuid i)]
          @ canonical_request q
          @ [(''release'', release_section r entrypoint sdk),
             (''requested_models'', models), (''requested_tools'', tools),
             (''resources'', resources),
             (''issued_at'', J_str (sg_time_text g now)),
             (''expires_at'', J_str (sg_time_text g (now + int (sg_ttl g) * 1000000)))]"
    using assms unfolding run_payload_def required_item_def
    by (auto simp: outcome split: option.splits)
  have "spec_value = J_obj spec" using p(2) by (cases spec_value) (simp_all add: stored_object_def)
  then have "manifest_spec (rl_manifest r) = Some spec" using p(1) by (simp add: manifest_spec_def)
  then show thesis
    by (rule that [OF _ p(3,4)]) (simp_all add: p(5-8) canonical_request_def requested_members_def text_of_uuid_def
      optional_uuid_def split: option.split)
qed

lemma fresh_resolution:
  assumes "registry_inv (rv_sha S) db"
    and "resolve_run_specification_endpoint S q authorization key x db = Inr (p, db')"
    and "run_specifications db' \<noteq> run_specifications db"
  shows "\<exists>identity g r spec.
    authenticated_identity S authorization = Inr identity \<and> resolver_role \<in> set (si_roles identity)
    \<and> si_delegated_user identity = Some (uuid_str (rq_user_id q)) \<and> rv_signer S = Some g
    \<and> r \<in> set (releases db) \<and> rl_id r = rq_release_id q \<and> rl_status r = Published
    \<and> (\<exists>a \<in> set (access_grants db). aw_agent_id a = rl_agent_id r \<and> aw_revoked_at a = None
         \<and> aw_permission a \<in> {Run_permission, Admin}
         \<and> names_subject (uuid_str (rq_user_id q)) identity a)
    \<and> \<not> has_row rs_run_id (rq_run_id q) (run_specifications db)
    \<and> manifest_spec (rl_manifest r) = Some spec \<and> spec_ok (rl_image r) spec
    \<and> (\<exists>entrypoint sdk. member ''entrypoint'' spec = Some entrypoint \<and> member ''sdk'' spec = Some sdk
         \<and> member ''release'' (sr_payload p) = Some (release_section r entrypoint sdk))
    \<and> list_all (\<lambda>(k, v). member k (sr_payload p) = Some v) (requested_members q)
    \<and> member ''requested_models'' (sr_payload p) = member ''models'' spec
    \<and> member ''requested_tools'' (sr_payload p) = member ''tools'' spec
    \<and> member ''resources'' (sr_payload p) = member ''resources'' spec
    \<and> sr_payload_sha256 p = rv_sha S (canonical_json (J_obj (sr_payload p)))
    \<and> sr_signature p = sg_sign g (canonical_json (J_obj (sr_payload p)))"
proof -
  obtain identity g where i: "authenticated_identity S authorization = Inr identity"
      "resolver_role \<in> set (si_roles identity)" and g: "rv_signer S = Some g"
    and c: "resolve_run_specification (rv_sha S) g identity q (si_subject identity) key x db = Inr (p, db')"
    using assms(2) by (auto simp: resolve_run_specification_endpoint_def outcome split: option.splits)
  have u: "si_delegated_user identity = Some (uuid_str (rq_user_id q))"
    using c by (auto simp: resolve_run_specification_def split: if_splits)
  from c show ?thesis
  proof (cases rule: resolve_effect)
    case (Fresh r payload)
    note R = authorized_release_Inr [OF Fresh(3)]
    have content: "content_ok (rv_sha S) r"
      using assms(1) R(1) by (simp add: registry_inv_def releases_ok_def)
    obtain spec entrypoint sdk where P: "manifest_spec (rl_manifest r) = Some spec"
      "member ''entrypoint'' spec = Some entrypoint" "member ''sdk'' spec = Some sdk"
      "list_all (\<lambda>(k, v). member k payload = Some v) (requested_members q)"
      "member ''release'' payload = Some (release_section r entrypoint sdk)"
      "member ''requested_models'' payload = member ''models'' spec"
      "member ''requested_tools'' payload = member ''tools'' spec"
      "member ''resources'' payload = member ''resources'' spec"
      by (rule run_payload_content [OF Fresh(4)])
    have so: "spec_ok (rl_image r) spec" using content P(1) by (auto simp: content_ok_def)
    obtain a where a: "a \<in> set (access_grants db)" "aw_agent_id a = rl_agent_id r"
      "aw_revoked_at a = None" "aw_permission a \<in> {Run_permission, Admin}"
      "names_subject (uuid_str (rq_user_id q)) identity a"
      using R(4) by (auto simp: granted_def list_ex_iff runnable_permissions_def)
    have p: "sr_payload p = payload"
      "sr_payload_sha256 p = rv_sha S (canonical_json (J_obj payload))"
      "sr_signature p = sg_sign g (canonical_json (J_obj payload))"
      using Fresh(6) by (simp_all add: specification_of_def new_specification_def)
    show ?thesis
      unfolding p using i u g R(1,2,3) a Fresh(2) so P by (intro exI conjI) auto
  qed (use assms(3) in simp_all)
qed

lemma fresh_specification_answer:
  assumes "resolve_run_specification_endpoint S q authorization key x db = Inr (p, db')"
    and "run_specifications db' \<noteq> run_specifications db"
  shows "sr_run_id p = rq_run_id q" and "rv_signer S = Some g \<Longrightarrow> sr_key_id p = sg_key_id g"
proof -
  obtain identity h where g: "rv_signer S = Some h"
    and c: "resolve_run_specification (rv_sha S) h identity q (si_subject identity) key x db = Inr (p, db')"
    using assms(1) by (auto simp: resolve_run_specification_endpoint_def outcome split: option.splits)
  from c have "sr_run_id p = rq_run_id q \<and> sr_key_id p = sg_key_id h"
  proof (cases rule: resolve_effect)
    case (Fresh r payload)
    then show ?thesis by (simp add: specification_of_def new_specification_def)
  qed (use assms(2) in simp_all)
  then show "sr_run_id p = rq_run_id q" and "rv_signer S = Some g \<Longrightarrow> sr_key_id p = sg_key_id g"
    using g by auto
qed

text \<open>C30. A run specification is issued only to the resolver service acting for the user of the run,
  for a published release that an unrevoked grant of the run or admin permission opens to that user,
  its groups or its roles; there was no specification for the run. What is issued has every field of
  the request and the image, entry point, SDK, models, tools and resources exactly as the stored release
  and its manifest have them, and is hashed and signed over its canonical text.\<close>

theorem resolution_authorized:
  assumes "registry_inv (rv_sha S) db"
    and "resolve_run_specification_endpoint S q authorization key x db = Inr (p, db')"
    and "run_specifications db' \<noteq> run_specifications db"
  shows "\<exists>identity g r spec.
    authenticated_identity S authorization = Inr identity \<and> resolver_role \<in> set (si_roles identity)
    \<and> si_delegated_user identity = Some (uuid_str (rq_user_id q)) \<and> rv_signer S = Some g
    \<and> r \<in> set (releases db) \<and> rl_id r = rq_release_id q \<and> rl_status r = Published
    \<and> (\<exists>a \<in> set (access_grants db). aw_agent_id a = rl_agent_id r \<and> aw_revoked_at a = None
         \<and> aw_permission a \<in> {Run_permission, Admin}
         \<and> names_subject (uuid_str (rq_user_id q)) identity a)
    \<and> \<not> has_row rs_run_id (rq_run_id q) (run_specifications db)
    \<and> manifest_spec (rl_manifest r) = Some spec \<and> spec_ok (rl_image r) spec
    \<and> (\<exists>entrypoint sdk. member ''entrypoint'' spec = Some entrypoint \<and> member ''sdk'' spec = Some sdk
         \<and> member ''release'' (sr_payload p) = Some (release_section r entrypoint sdk))
    \<and> list_all (\<lambda>(k, v). member k (sr_payload p) = Some v) (requested_members q)
    \<and> member ''requested_models'' (sr_payload p) = member ''models'' spec
    \<and> member ''requested_tools'' (sr_payload p) = member ''tools'' spec
    \<and> member ''resources'' (sr_payload p) = member ''resources'' spec
    \<and> sr_payload_sha256 p = rv_sha S (canonical_json (J_obj (sr_payload p)))
    \<and> sr_signature p = sg_sign g (canonical_json (J_obj (sr_payload p)))"
  using assms by (rule fresh_resolution)

lemma resolved_row:
  assumes "registry_inv sha db"
    and "resolve_run_specification sha g identity q actor key x db = Inr (p, db')"
  obtains s where "s \<in> set (run_specifications db')" "specification_of s = p"
    "rs_request_sha256 s = resolution_digest sha q"
  using assms(2)
proof (cases rule: resolve_effect)
  case (Replay replay s)
  have "replay \<in> set (registry_idempotency db)" "ik_operation replay = Resolve_run_specification"
    using Replay(1) by (auto simp: find_key_def idem_id_def dest: row_by_SomeD)
  then have "result_ok db replay" using assms(1) by (simp add: registry_inv_def keys_ok_def)
  then obtain s' where s': "s' \<in> set (run_specifications db)"
    "ik_specification replay = Some (rs_specification_id s')" "rs_request_sha256 s' = ik_sha256 replay"
    using \<open>ik_operation replay = Resolve_run_specification\<close> by (auto simp: result_ok_def)
  have "row_by rs_specification_id (rs_specification_id s') (run_specifications db) = Some s'"
    using s'(1) assms(1) by (intro row_by_unique) (auto simp: registry_inv_def specifications_ok_def)
  then have "s' = s" using Replay(3,4) s'(2) by simp
  then show thesis using that [of s] s' Replay(2,5,6) by simp
next
  case (Known s)
  then show thesis using that [of s] by (auto dest: row_by_SomeD)
next
  case (Fresh r payload)
  then show thesis by (intro that) (auto simp: new_specification_def)
qed

text \<open>A run has one specification: whatever transactions follow, every later answer for the run of
  a resolution is the same document; the same request under a new key returns it, and a request that
  differs is refused.\<close>

theorem run_resolved_once:
  assumes "registry_inv sha db"
    and "resolve_run_specification sha g identity q actor key x db = Inr (p, db')"
    and "t = run_registry sha ops db'"
  shows "(resolve_run_specification sha g2 identity2 q2 actor2 key2 x2 t = Inr (p2, t2)
        \<longrightarrow> sr_run_id p2 = sr_run_id p \<longrightarrow> p2 = p)
    \<and> (si_delegated_user identity2 = Some (uuid_str (rq_user_id q2)) \<longrightarrow> registry_key_ok key2
        \<longrightarrow> find_key t actor2 Resolve_run_specification key2 = None \<longrightarrow> rq_run_id q2 = sr_run_id p
        \<longrightarrow> (if resolution_digest sha q2 = resolution_digest sha q
             then \<exists>t'. resolve_run_specification sha g2 identity2 q2 actor2 key2 x2 t = Inr (p, t')
             else resolve_run_specification sha g2 identity2 q2 actor2 key2 x2 t
               = Inl (resolution_error ''run_specification_conflict'')))"
proof -
  obtain s where s: "s \<in> set (run_specifications db')" "specification_of s = p"
    "rs_request_sha256 s = resolution_digest sha q"
    by (rule resolved_row [OF assms(1,2)])
  have inv: "registry_inv sha t"
    unfolding assms(3) by (rule run_registry_inv [OF resolve_inv [OF assms(1,2)]])
  have st: "s \<in> set (run_specifications t)"
    unfolding assms(3) by (rule run_keeps_specification [OF s(1)])
  have run: "rs_run_id s = sr_run_id p" using s(2) by (auto simp: specification_of_def)
  have row: "row_by rs_run_id (sr_run_id p) (run_specifications t) = Some s"
    unfolding run [symmetric]
    by (rule row_by_unique) (use inv st in \<open>auto simp: registry_inv_def specifications_ok_def\<close>)
  have "p2 = p"
    if r: "resolve_run_specification sha g2 identity2 q2 actor2 key2 x2 t = Inr (p2, t2)"
      and e: "sr_run_id p2 = sr_run_id p"
  proof -
    obtain s2 where s2: "s2 \<in> set (run_specifications t2)" "specification_of s2 = p2"
      by (rule resolved_row [OF inv r])
    have "exec_registry sha (Resolve_op g2 identity2 q2 actor2 key2 x2) t = Inr t2" using r by simp
    then have "s \<in> set (run_specifications t2)" by (rule exec_keeps_specification [OF st])
    moreover have "registry_inv sha t2" by (rule resolve_inv [OF inv r])
    ultimately have "rs_run_id s2 = rs_run_id s \<Longrightarrow> s2 = s"
      using s2(1) by (auto simp: registry_inv_def specifications_ok_def distinct_map dest: inj_onD)
    then have "s2 = s" using e s2(2) run by (auto simp: specification_of_def)
    then show ?thesis using s(2) s2(2) by simp
  qed
  moreover have "if resolution_digest sha q2 = resolution_digest sha q
             then \<exists>t'. resolve_run_specification sha g2 identity2 q2 actor2 key2 x2 t = Inr (p, t')
             else resolve_run_specification sha g2 identity2 q2 actor2 key2 x2 t
               = Inl (resolution_error ''run_specification_conflict'')"
    if "si_delegated_user identity2 = Some (uuid_str (rq_user_id q2))" "registry_key_ok key2"
      "find_key t actor2 Resolve_run_specification key2 = None" "rq_run_id q2 = sr_run_id p"
    using that row s(2,3) by (simp add: resolve_run_specification_def registry_key_ok_def)
  ultimately show ?thesis by blast
qed

text \<open>A revocation is final and takes effect at once: after a grant was revoked, in every later
  state it is still revoked, and whatever access an agent's grants give to an identity rests on
  another, unrevoked grant.\<close>

theorem revocation_effective:
  assumes "registry_inv sha db" and "find_key db actor Revoke_access key = None"
    and "revoke_access sha actor key i now db = Inr (p, db')"
    and "t = run_registry sha ops db'"
  shows "gr_revoked p \<and> gr_grant_id p = i \<and> revoked_grant i t
    \<and> (granted permissions user identity agent t
        \<longrightarrow> (\<exists>g \<in> set (access_grants t). aw_grant_id g \<noteq> i \<and> aw_revoked_at g = None \<and> aw_agent_id g = agent
              \<and> aw_permission g \<in> set permissions \<and> names_subject user identity g))"
proof -
  from assms(3) obtain g where g: "row_by aw_grant_id i (access_grants db) = Some g"
    "p = (grant_of g)\<lparr>gr_revoked := True\<rparr>" "access_grants db' = access_grants (ended g actor now db)"
    by (cases rule: revoke_effect) (use assms(2) in auto)
  have id: "aw_grant_id g = i" using g(1) by (auto dest: row_by_SomeD)
  have "revoked_grant i db'"
    using g id by (auto simp: revoked_grant_def ended_def row_by_update_where)
  then have rv: "revoked_grant i t" unfolding assms(4) by (rule run_keeps_revoked)
  have "registry_inv sha t"
    unfolding assms(4) by (rule run_registry_inv [OF revoke_inv [OF assms(1,3)]])
  then have "row_by aw_grant_id (aw_grant_id h) (access_grants t) = Some h" if "h \<in> set (access_grants t)" for h
    using that by (intro row_by_unique) (auto simp: registry_inv_def access_ok_def)
  then have "aw_grant_id h \<noteq> i" if "h \<in> set (access_grants t)" "aw_revoked_at h = None" for h
    using that rv by (auto simp: revoked_grant_def)
  then show ?thesis
    using g(2) id rv by (auto simp: granted_def list_ex_iff grant_of_def)
qed

section \<open>Witnesses\<close>

lemma release_immutable_witness:
  "\<exists>r'. row_by rl_id 11 (releases (run_registry ex_sha [Deprecate_op ''admin'' ex_key 11 2000] ex_db1)) = Some r'
    \<and> content_of r' = content_of ex_row \<and> (rl_status ex_row = Deprecated \<longrightarrow> r' = ex_row)"
  by (rule release_immutable) simp


lemma publication_retry_witness:
  "(\<exists>p'. publish_release ex_sha ex_actor ex_key (J_obj ex_reordered) (J_str ex_image) (J_obj ex_provenance) 12
        (run_registry ex_sha [Deprecate_op ''admin'' ex_key 11 2000] ex_db1)
      = Inr (p', run_registry ex_sha [Deprecate_op ''admin'' ex_key 11 2000] ex_db1)
      \<and> pr_release_id p' = 11)
   \<and> publish_release ex_sha ex_actor ex_key (J_obj ex_other) (J_str ex_image) (J_obj ex_provenance) 12
        (run_registry ex_sha [Deprecate_op ''admin'' ex_key 11 2000] ex_db1)
      = Inl (publication_error ''idempotency_conflict'')"
proof -
  have n: "normal (J_obj ex_reordered) = normal (J_obj ex_manifest)" by code_simp
  have a: "publication_admitted ex_sha ex_db1 (ex_actor, ex_key) (J_obj ex_reordered, J_str ex_image, J_obj ex_provenance)"
    and b: "publication_admitted ex_sha ex_db1 (ex_actor, ex_key) (J_obj ex_other, J_str ex_image, J_obj ex_provenance)"
    using ex_others_valid ex_texts by (simp_all add: publication_admitted_def)
  have d: "publication_digest ex_sha (J_obj ex_other) (J_str ex_image) (J_obj ex_provenance)
      \<noteq> publication_digest ex_sha (J_obj ex_manifest) (J_str ex_image) (J_obj ex_provenance)"
    by code_simp
  have i: "pr_release_id (release_of ex_row) = 11" by (simp add: release_of_def)
  show ?thesis
    using publication_retry [OF registry_inv_empty ex_published ex_documents(1,2) n ex_documents(3,3) refl a b d,
      of 12 "[Deprecate_op ''admin'' ex_key 11 2000]"]
    unfolding i .
qed

lemma ex_payload:
  "\<exists>payload. run_payload ex_signer ex_request 41 1000 ex_row = Inr payload"
  by (simp add: run_payload_def required_item_def stored_object_def ex_manifest_def ex_spec_def)

lemma ex_authorized: "authorized_release ex_identity ex_request ex_db2 = Inr ex_row"
proof -
  have "granted runnable_permissions (uuid_str 7) ex_identity ''echo'' ex_db2"
    by (simp add: granted_def new_access_def ex_terms_def runnable_permissions_def names_subject_def ex_user_def)
  then show ?thesis by (simp add: authorized_release_def ex_request_def)
qed

lemma ex_resolved:
  obtains payload where
    "resolve_run_specification ex_sha ex_signer ex_identity ex_request ''resolver'' ex_key (41, 1000) ex_db2
     = Inr (specification_of (new_specification ex_sha ex_signer ex_request 41 1000 payload),
         save_key (resolution_record ''resolver'' ex_key (resolution_digest ex_sha ex_request) 41)
           (ex_db2\<lparr>run_specifications := [new_specification ex_sha ex_signer ex_request 41 1000 payload]\<rparr>))"
proof -
  obtain payload where p: "run_payload ex_signer ex_request 41 1000 ex_row = Inr payload"
    using ex_payload by blast
  have k: "char_count ex_key = 12" "ascii ex_key" by code_simp+
  have u: "si_delegated_user ex_identity = Some (uuid_str (rq_user_id ex_request))"
    by (simp add: ex_identity_def ex_request_def ex_user_def)
  show thesis
    by (rule that [of payload])
      (simp add: resolve_run_specification_def u k ex_db2_keys resolve_fresh_def ex_authorized p Let_def)
qed

lemma ex_endpoint_resolved:
  obtains p db' where
    "resolve_run_specification_endpoint ex_service ex_request (Some ''Bearer r'') ex_key (41, 1000) ex_db2
       = Inr (p, db')" "run_specifications db' \<noteq> run_specifications ex_db2"
proof -
  obtain payload where p:
    "resolve_run_specification ex_sha ex_signer ex_identity ex_request ''resolver'' ex_key (41, 1000) ex_db2
     = Inr (specification_of (new_specification ex_sha ex_signer ex_request 41 1000 payload),
         save_key (resolution_record ''resolver'' ex_key (resolution_digest ex_sha ex_request) 41)
           (ex_db2\<lparr>run_specifications := [new_specification ex_sha ex_signer ex_request 41 1000 payload]\<rparr>))"
    by (rule ex_resolved)
  have k: "char_count ex_key = 12" by code_simp
  have t: "length (rq_trace_id ex_request) = 32" "list_all is_hex (rq_trace_id ex_request)" by code_simp+
  have f: "require_resolver ex_service (Some ''Bearer r'') = Inr ex_identity" "si_subject ex_identity = ''resolver''"
    by (simp_all add: require_resolver_def ex_identities resolver_role_def ex_identity_def)
  let ?p = "specification_of (new_specification ex_sha ex_signer ex_request 41 1000 payload)"
  let ?d = "save_key (resolution_record ''resolver'' ex_key (resolution_digest ex_sha ex_request) 41)
           (ex_db2\<lparr>run_specifications := [new_specification ex_sha ex_signer ex_request 41 1000 payload]\<rparr>)"
  have "resolve_run_specification_endpoint ex_service ex_request (Some ''Bearer r'') ex_key (41, 1000) ex_db2
       = Inr (?p, ?d)"
    using p by (simp add: resolve_run_specification_endpoint_def f header_key_def k t ex_service_fields
        with_problem_def)
  moreover have "run_specifications ?d \<noteq> run_specifications ex_db2" by simp
  ultimately show thesis by (rule that)
qed

lemma resolution_authorized_witness:
  "\<exists>p db'. resolve_run_specification_endpoint ex_service ex_request (Some ''Bearer r'') ex_key (41, 1000) ex_db2
       = Inr (p, db')
     \<and> (\<exists>identity. authenticated_identity ex_service (Some ''Bearer r'') = Inr identity
          \<and> si_delegated_user identity = Some (uuid_str (rq_user_id ex_request)))"
proof -
  obtain p db' where r:
    "resolve_run_specification_endpoint ex_service ex_request (Some ''Bearer r'') ex_key (41, 1000) ex_db2
       = Inr (p, db')" and n: "run_specifications db' \<noteq> run_specifications ex_db2"
    by (rule ex_endpoint_resolved)
  have i: "registry_inv (rv_sha ex_service) ex_db2" using ex_db2_inv by (simp add: ex_service_fields)
  show ?thesis using resolution_authorized [OF i r n] r by blast
qed

lemma run_resolved_once_witness:
  "\<exists>p db'. resolve_run_specification ex_sha ex_signer ex_identity ex_request ''resolver'' ex_key (41, 1000) ex_db2
       = Inr (p, db')
     \<and> (\<exists>t'. resolve_run_specification ex_sha ex_signer ex_identity ex_request ''resolver'' ''key-00000002'' (42, 2000) db'
            = Inr (p, t'))"
proof -
  obtain payload where p:
    "resolve_run_specification ex_sha ex_signer ex_identity ex_request ''resolver'' ex_key (41, 1000) ex_db2
     = Inr (specification_of (new_specification ex_sha ex_signer ex_request 41 1000 payload),
         save_key (resolution_record ''resolver'' ex_key (resolution_digest ex_sha ex_request) 41)
           (ex_db2\<lparr>run_specifications := [new_specification ex_sha ex_signer ex_request 41 1000 payload]\<rparr>))"
    by (rule ex_resolved)
  let ?p = "specification_of (new_specification ex_sha ex_signer ex_request 41 1000 payload)"
  let ?d = "save_key (resolution_record ''resolver'' ex_key (resolution_digest ex_sha ex_request) 41)
           (ex_db2\<lparr>run_specifications := [new_specification ex_sha ex_signer ex_request 41 1000 payload]\<rparr>)"
  have t: "?d = run_registry ex_sha [] ?d" by simp
  have u: "si_delegated_user ex_identity = Some (uuid_str (rq_user_id ex_request))"
    by (simp add: ex_identity_def ex_request_def ex_user_def)
  have k: "registry_key_ok ''key-00000002''" "''key-00000002'' \<noteq> ex_key" by code_simp+
  have n: "find_key ?d ''resolver'' Resolve_run_specification ''key-00000002'' = None"
    using ex_db2_keys(1) [of "''resolver''" "''key-00000002''"] k(2)
    by (simp add: find_key_def save_key_def row_by_append idem_id_def resolution_record_def)
  have r: "rq_run_id ex_request = sr_run_id ?p" by (simp add: specification_of_def new_specification_def)
  have "\<exists>t'. resolve_run_specification ex_sha ex_signer ex_identity ex_request ''resolver'' ''key-00000002''
      (42, 2000) ?d = Inr (?p, t')"
    using run_resolved_once [OF ex_db2_inv p t, of ex_signer ex_identity ex_request "''resolver''"
        "''key-00000002''" "(42, 2000)" ?p ?d] u k(1) n r by simp
  then show ?thesis using p by blast
qed

lemma revocation_effective_witness:
  "\<exists>p db'. revoke_access ex_sha ''admin'' ex_key 21 2000 ex_db2 = Inr (p, db') \<and> gr_revoked p
     \<and> revoked_grant 21 (run_registry ex_sha [Grant_op ''admin'' ''key-00000002'' ex_terms 22] db')
     \<and> \<not> granted runnable_permissions ex_user ex_identity ''echo'' (run_registry ex_sha [] db')"
proof -
  let ?g = "new_access 21 ''admin'' ex_terms"
  have g: "aw_grant_id ?g = 21" "aw_revoked_at ?g = None" by (simp_all add: new_access_def ex_terms_def)
  have "end_access ?g ''admin'' 2000 ex_db2 = Inr (ended ?g ''admin'' 2000 ex_db2)"
    using g by (simp add: end_access_def ended_def)
  then obtain p db' where r: "revoke_access ex_sha ''admin'' ex_key 21 2000 ex_db2 = Inr (p, db')"
    "access_grants db' = access_grants (ended ?g ''admin'' 2000 ex_db2)"
    using ex_texts(1) g by (auto simp: revoke_access_def ex_db2_keys)
  have one: "access_grants db' = [?g\<lparr>aw_revoked_at := Some 2000\<rparr>]"
    unfolding r(2) using g by (simp add: ended_def)
  have "\<not> granted runnable_permissions ex_user ex_identity ''echo'' db'"
    using one by (simp add: granted_def)
  then show ?thesis
    using revocation_effective [OF ex_db2_inv ex_db2_keys(2) r(1) refl, of "[Grant_op ''admin'' ''key-00000002'' ex_terms 22]"] r(1) by auto
qed

end
