(* ===== verification/RunnerRegistry.thy ===== *)
theory RunnerRegistry
  imports RunnerProperties RegistryProperties
begin

text \<open>
  The way of a specification from the Registry to a container of the Runner: the client of
  \<open>agent_runner/registry.py\<close>, \<open>verify_specification\<close> and \<open>load_public_keys\<close> of
  \<open>agent_runner/specification.py\<close>, the handler \<open>admit_run\<close>, and how the Runner reads the payload
  the Registry wrote.
\<close>

section \<open>The client\<close>

text \<open>A specification as it travels: \<open>SignedSpecification\<close> of \<open>agent_runner/models.py\<close>, with the
  payload as JSON and the signature in base64.\<close>

record wire_specification =
  ws_specification_id :: uuid
  ws_run_id :: uuid
  ws_payload :: members
  ws_payload_sha256 :: pystr
  ws_signature :: pystr
  ws_key_id :: pystr

text \<open>\<open>contract_response\<close> of the Registry.\<close>

definition contract_response :: "signed_run_specification \<Rightarrow> wire_specification" where
  "contract_response s =
     \<lparr>ws_specification_id = sr_specification_id s, ws_run_id = sr_run_id s,
      ws_payload = sr_payload s, ws_payload_sha256 = sr_payload_sha256 s,
      ws_signature = b64_std_encode (sr_signature s), ws_key_id = sr_key_id s\<rparr>"

text \<open>\<open>resolution_payload\<close>.\<close>

definition resolution_payload :: "run_admission \<Rightarrow> resolution_request" where
  "resolution_payload ad =
     \<lparr>rq_run_id = ad_run_id ad, rq_user_id = ad_user_id ad,
      rq_conversation_id = ad_conversation_id ad, rq_thread_id = ad_thread_id ad,
      rq_release_id = ad_release_id ad, rq_delegation_grant_id = ad_delegation_grant_id ad,
      rq_trace_id = ad_trace_id ad, rq_configuration_revision_id = ad_configuration_revision_id ad,
      rq_starting_checkpoint_id = ad_starting_checkpoint_id ad\<rparr>"

definition resolution_failed :: "pystr \<Rightarrow> exc" where
  "resolution_failed message = Coded ''RegistryResolutionError'' message"

text \<open>\<open>ClientCredentialsTokenProvider\<close>: the token and the clock in seconds at which it expires. The
  answer of the token endpoint is None when the call fails; \<open>to_int\<close> is \<open>int\<close> on a JSON value.\<close>

record token_cache =
  tk_token :: pystr
  tk_expires_at :: int

definition client_token ::
  "(json \<Rightarrow> int option) \<Rightarrow> json option \<Rightarrow> int \<Rightarrow> token_cache \<Rightarrow> (pystr, token_cache) tx" where
  "client_token to_int answer now cache =
     (if tk_token cache \<noteq> [] \<and> now < tk_expires_at cache - 30 then Inr (tk_token cache, cache)
      else
        (case answer of
           Some (J_obj payload) \<Rightarrow>
             (case (member ''access_token'' payload, to_int (item_or payload ''expires_in'' (J_int 60))) of
                (Some (J_str token), Some expires_in) \<Rightarrow>
                  if token = [] \<or> expires_in < 1
                  then Inl (resolution_failed ''Registry identity token acquisition failed'')
                  else Inr (token, \<lparr>tk_token = token, tk_expires_at = now + expires_in\<rparr>)
              | _ \<Rightarrow> Inl (resolution_failed ''Registry identity token acquisition failed''))
         | _ \<Rightarrow> Inl (resolution_failed ''Registry identity token acquisition failed'')))"

text \<open>\<open>RegistryClient.resolve\<close> on the answer of the Registry.\<close>

definition client_resolve ::
  "exc + signed_run_specification \<Rightarrow> run_admission \<Rightarrow> exc + wire_specification" where
  "client_resolve answer ad =
     (case answer of
        Inl _ \<Rightarrow> Inl (resolution_failed ''Registry resolution failed'')
      | Inr s \<Rightarrow>
          if length (sr_payload_sha256 s) \<noteq> 64 \<or> \<not> list_all is_hex (sr_payload_sha256 s)
          then Inl (resolution_failed ''Registry resolution failed'')
          else if sr_run_id s \<noteq> ad_run_id ad
          then Inl (resolution_failed ''Registry returned a specification for another run'')
          else Inr (contract_response s))"

section \<open>Verification\<close>

definition specification_rejected :: "pystr \<Rightarrow> exc" where
  "specification_rejected message = Coded ''SpecificationVerificationError'' message"

definition load_public_keys :: "json option \<Rightarrow> exc + (pystr \<times> pystr) list" where
  "load_public_keys v =
     (case v of
        Some (J_obj (m # ms)) \<Rightarrow>
          (let decoded = map (\<lambda>(k, v). (k, case v of J_str t \<Rightarrow> b64decode_strict t | _ \<Rightarrow> None))
                 (filter (\<lambda>(k, v). case v of J_str _ \<Rightarrow> True | _ \<Rightarrow> False) (m # ms)) in
           if list_all (\<lambda>(k, raw). case raw of None \<Rightarrow> False | Some b \<Rightarrow> length b = 32) decoded
           then Inr (map (\<lambda>(k, raw). (k, the raw)) decoded)
           else Inl (Coded ''RuntimeError'' ''invalid Registry run-signing public keys''))
      | _ \<Rightarrow> Inl (Coded ''RuntimeError'' ''invalid Registry run-signing public keys''))"

definition verify_specification ::
  "(pystr \<Rightarrow> pystr) \<Rightarrow> (pystr \<Rightarrow> pystr \<Rightarrow> pystr \<Rightarrow> bool) \<Rightarrow> (pystr \<times> pystr) list \<Rightarrow> wire_specification
     \<Rightarrow> exc + unit" where
  "verify_specification sha ed_verify public_keys w =
     (if sha (canonical_json (J_obj (ws_payload w))) \<noteq> ws_payload_sha256 w
      then Inl (specification_rejected ''specification digest is invalid'')
      else
        (case map_of public_keys (ws_key_id w) of
           None \<Rightarrow> Inl (specification_rejected ''specification signing key is unknown'')
         | Some key \<Rightarrow>
             (case b64decode_strict (ws_signature w) of
                None \<Rightarrow> Inl (specification_rejected ''specification signature is invalid'')
              | Some signature \<Rightarrow>
                  if ed_verify key signature (canonical_json (J_obj (ws_payload w))) then Inr ()
                  else Inl (specification_rejected ''specification signature is invalid''))))"

section \<open>Reading the payload\<close>

text \<open>The conversions of Python the Runner applies: \<open>fromisoformat\<close> with its time zone check,
  \<open>float\<close> on a text and \<open>int\<close> on a JSON value.\<close>

record conversions =
  cv_time :: "pystr \<Rightarrow> instant fld"
  cv_float :: "pystr \<Rightarrow> pyfloat fld"
  cv_int :: "json \<Rightarrow> int fld"

text \<open>\<open>str\<close> of a value. The text of a list, an object, null or a boolean is neither a number nor a
  quantity; one such text stands for all.\<close>

definition str_of :: "json \<Rightarrow> pystr" where
  "str_of v = (case v of J_str s \<Rightarrow> s | J_int i \<Rightarrow> int_text i | J_float t \<Rightarrow> t | _ \<Rightarrow> ''None'')"

definition cpu_of :: "conversions \<Rightarrow> json \<Rightarrow> cpu_value" where
  "cpu_of C v =
     (let s = str_of v in
      if s \<noteq> [] \<and> last s = CHR ''m'' then Milli (cv_float C (butlast s))
      else if v = J_bool True then Cores (Good (Finite 1))
      else if v = J_bool False then Cores (Good (Finite 0))
      else Cores (cv_float C s))"

definition resources_of :: "conversions \<Rightarrow> members \<Rightarrow> run_resources" where
  "resources_of C rs =
     \<lparr>res_memory = map_option str_of (member ''memory'' rs),
      res_cpu = map_option (cpu_of C) (member ''cpu'' rs),
      res_pids = (case member ''pids'' rs of None \<Rightarrow> Missing | Some v \<Rightarrow> cv_int C v)\<rparr>"

definition payload_of :: "conversions \<Rightarrow> members \<Rightarrow> spec_payload" where
  "payload_of C payload =
     \<lparr>sp_expires_at = (case text_member ''expires_at'' payload of None \<Rightarrow> Missing | Some t \<Rightarrow> cv_time C t),
      sp_release_image =
        (case member ''release'' payload of
           None \<Rightarrow> Missing
         | Some (J_obj release) \<Rightarrow>
             Good (case member ''image'' release of
                     None \<Rightarrow> Missing | Some (J_str img) \<Rightarrow> Good img | Some _ \<Rightarrow> Malformed)
         | Some _ \<Rightarrow> Malformed),
      sp_resources =
        (case member ''resources'' payload of
           None \<Rightarrow> Missing | Some (J_obj rs) \<Rightarrow> Good (resources_of C rs) | Some _ \<Rightarrow> Malformed),
      sp_requested_models = list_texts (item_or payload ''requested_models'' J_null),
      sp_requested_tools = list_texts (item_or payload ''requested_tools'' J_null)\<rparr>"

definition received :: "conversions \<Rightarrow> wire_specification \<Rightarrow> signed_specification" where
  "received C w =
     \<lparr>ss_specification_id = ws_specification_id w, ss_run_id = ws_run_id w,
      ss_payload = payload_of C (ws_payload w), ss_payload_sha256 = ws_payload_sha256 w,
      ss_signature = ws_signature w, ss_key_id = ws_key_id w\<rparr>"

text \<open>The handler \<open>admit_run\<close>: resolution, verification, admission. \<open>digest\<close> hashes the admission.\<close>

definition admit_run ::
  "(pystr \<Rightarrow> pystr) \<Rightarrow> (pystr \<Rightarrow> pystr \<Rightarrow> pystr \<Rightarrow> bool) \<Rightarrow> (pystr \<times> pystr) list \<Rightarrow> conversions
     \<Rightarrow> (run_admission \<Rightarrow> pystr) \<Rightarrow> instant \<Rightarrow> exc + signed_run_specification \<Rightarrow> pystr \<Rightarrow> run_admission
     \<Rightarrow> uuid \<times> instant \<Rightarrow> runner_db \<Rightarrow> (run_row, runner_db) tx" where
  "admit_run sha ed_verify public_keys C digest timeout answer key ad x db =
     chain (header_key key) (\<lambda>_.
     chain (client_resolve answer ad) (\<lambda>w.
     chain (verify_specification sha ed_verify public_keys w) (\<lambda>_.
     admit digest (\<lambda>_. sha (canonical_json (J_obj (ws_payload w)))) timeout key (ad, received C w) x db)))"

section \<open>What the Runner accepts\<close>

text \<open>A decimal text of the manifest, and whether it is positive.\<close>

definition plain_decimal :: "pystr \<Rightarrow> bool" where
  "plain_decimal s \<longleftrightarrow> number_ok s
     \<or> (case split_on (CHR ''.'') s of
          [whole, fraction] \<Rightarrow> number_ok whole \<and> fraction \<noteq> [] \<and> list_all dec_digit fraction
        | _ \<Rightarrow> False)"

definition positive_text :: "pystr \<Rightarrow> bool" where
  "positive_text s \<longleftrightarrow> list_ex (\<lambda>c. c \<in> set ''123456789'') s"

text \<open>What the Runner relies on: \<open>float\<close> reads a short decimal text as a finite number that is positive
  exactly when the text has a digit other than zero.\<close>

definition reads_decimals :: "conversions \<Rightarrow> bool" where
  "reads_decimals C \<longleftrightarrow>
     (\<forall>s. plain_decimal s \<longrightarrow> char_count s \<le> 16 \<longrightarrow>
        (\<exists>q. cv_float C s = Good (Finite q) \<and> 0 \<le> q \<and> (0 < q \<longleftrightarrow> positive_text s)))"

lemma split_on_not_Nil: "split_on d s \<noteq> []"
  by (induction s) (auto split: list.splits)

lemma join_split_on: "join_texts [d] (split_on d s) = s"
proof (induction s)
  case (Cons c s)
  obtain t ts where "split_on d s = t # ts" using split_on_not_Nil [of d s] by (cases "split_on d s") auto
  then show ?case using Cons by (cases ts) auto
qed simp

lemma match_image_pinned:
  assumes "match_image img = Some (repository, digest)"
  shows "image_pinned img"
proof -
  obtain e: "split_on (CHR ''@'') img = [repository, digest]" and d: "length digest = 71"
    "take 7 digest = ''sha256:''" "list_all is_hex (drop 7 digest)"
    using assms by (auto simp: match_image_def split: list.splits if_splits)
  have img: "img = repository @ CHR ''@'' # digest"
    using join_split_on [of "CHR ''@''" img] unfolding e by simp
  have "length img - 72 = length repository" "length img - 64 = Suc (length repository) + 7"
    using img d(1) by simp_all
  then have "take 8 (drop (length img - 72) img) = CHR ''@'' # take 7 digest"
    "drop (length img - 64) img = drop 7 digest" "72 \<le> length img"
    using img d(1) by (simp_all add: numeral_eq_Suc)
  then show ?thesis using d by (simp add: image_pinned_def digest_suffix_def)
qed

lemma char_count_butlast: "char_count (butlast s) \<le> char_count s"
proof (cases s rule: rev_cases)
  case (snoc t c)
  then show ?thesis by (simp add: char_count_def)
qed simp

lemma dec_digit_less: "dec_digit c \<Longrightarrow> (of_char c :: nat) < 128"
  unfolding dec_digit_def by auto

lemma dec_digit_chars [simp]: "dec_digit (CHR ''0'')" "\<not> dec_digit (CHR ''m'')"
  by (simp_all add: dec_digit_def)

lemma dec_digit_ascii: "list_all dec_digit s \<Longrightarrow> ascii s"
  by (auto simp: ascii_def list_all_iff dec_digit_less)

lemma number_ok_digits: "number_ok s \<Longrightarrow> list_all dec_digit s"
  by (auto simp: number_ok_def positive_decimal_def)

lemma positive_decimal_nonzero: "positive_decimal s \<Longrightarrow> positive_text s \<and> number_ok s"
  by (cases s) (auto simp: positive_decimal_def positive_text_def number_ok_def dec_digit_def)

lemma cpu_float_of:
  assumes "reads_decimals C" and "cpu_text_ok s" and "char_count s \<le> 16"
  shows "if positive_text s then \<exists>x. cpu_float (cpu_of C (J_str s)) = Inr x
    else cpu_float (cpu_of C (J_str s)) = Inl (runner_error ''specification_invalid'')"
proof (cases "s \<noteq> [] \<and> last s = CHR ''m''")
  case True
  have "\<not> plain_decimal s"
  proof
    assume "plain_decimal s"
    then consider "number_ok s" | whole fraction where "split_on (CHR ''.'') s = [whole, fraction]"
      "fraction \<noteq> []" "list_all dec_digit fraction"
      by (auto simp: plain_decimal_def split: list.splits)
    then show False
    proof cases
      case 1
      have "last s \<in> set s" using True last_in_set by blast
      then have "dec_digit (last s)" using number_ok_digits [OF 1] unfolding list_all_iff by blast
      then show False using True by simp
    next
      case 2
      then have "s = whole @ CHR ''.'' # fraction" using join_split_on [of "CHR ''.''" s] by simp
      then have "dec_digit (last s)" using 2 by (simp add: list_all_iff)
      then show False using True by simp
    qed
  qed
  then have p: "positive_decimal (butlast s)"
    using assms(2) by (auto simp: cpu_text_ok_def plain_decimal_def split: list.splits)
  then have "plain_decimal (butlast s)" "positive_text (butlast s)"
    using positive_decimal_nonzero by (auto simp: plain_decimal_def)
  moreover have "char_count (butlast s) \<le> 16" using char_count_butlast [of s] assms(3) by simp
  ultimately obtain q where "cv_float C (butlast s) = Good (Finite q)" "0 < q"
    using assms(1) unfolding reads_decimals_def by blast
  moreover have "positive_text s"
    using \<open>positive_text (butlast s)\<close> by (auto simp: positive_text_def list_ex_iff dest: in_set_butlastD)
  ultimately show ?thesis using True by (simp add: cpu_of_def str_of_def cpu_float_def)
next
  case False
  then have "plain_decimal s"
    using assms(2) by (auto simp: cpu_text_ok_def plain_decimal_def split: list.splits)
  then obtain q where "cv_float C s = Good (Finite q)" "0 \<le> q" "0 < q \<longleftrightarrow> positive_text s"
    using assms(1,3) unfolding reads_decimals_def by blast
  then show ?thesis using False by (auto simp: cpu_of_def str_of_def cpu_float_def)
qed

lemma memory_bytes_of:
  assumes "memory_text_ok s" and "char_count s \<le> 16"
  shows "if drop (length s - 2) s = ''Ki'' then memory_bytes s = Inl (runner_error ''specification_invalid'')
    else \<exists>n. memory_bytes s = Inr n"
proof -
  let ?d = "take (length s - 2) s"
  have d: "positive_decimal ?d" and u: "drop (length s - 2) s \<in> {''Ki'', ''Mi'', ''Gi''}"
    and l: "2 < length s"
    using assms(1) by (auto simp: memory_text_ok_def)
  have "ascii ?d" using d by (simp add: positive_decimal_def dec_digit_ascii)
  then have "length ?d = char_count ?d" by (simp add: ascii_char_count)
  also have "\<dots> \<le> char_count (?d @ drop (length s - 2) s)"
    unfolding char_count_def filter_append length_append by simp
  also have "\<dots> \<le> 16" using assms(2) by simp
  finally have "\<not> 4300 < length ?d" by simp
  then show ?thesis using d u l by (auto simp: memory_bytes_def Let_def)
qed

lemma container_of_payload:
  assumes "sp_release_image (ss_payload (r_specification run)) = Good (Good img)"
    and "sp_resources (ss_payload (r_specification run)) =
      Good \<lparr>res_memory = Some memory, res_cpu = Some cpu, res_pids = Missing\<rparr>"
    and "image_pinned img"
  shows "memory_bytes memory = Inr n \<Longrightarrow> cpu_float cpu = Inr x \<Longrightarrow>
      \<exists>c. container_of run a = Inr c \<and> ac_image c = img"
    and "memory_bytes memory = Inl e \<Longrightarrow> container_of run a = Inl e"
    and "memory_bytes memory = Inr n \<Longrightarrow> cpu_float cpu = Inl e \<Longrightarrow> container_of run a = Inl e"
  using assms by (simp_all add: container_of_def pids_number_def)

text \<open>The parts of a specification that the Runner reads, for a payload the Registry wrote.\<close>

lemma payload_of_resolution:
  assumes "member ''release'' payload = Some (release_section r entrypoint sdk)"
    and "member ''resources'' payload = member ''resources'' spec"
    and "spec_ok (rl_image r) spec"
  obtains rs cpu memory where "object_member ''resources'' spec = Some rs"
    "text_member ''cpu'' rs = Some cpu" "cpu_text_ok cpu" "char_count cpu \<le> 16"
    "text_member ''memory'' rs = Some memory" "memory_text_ok memory" "char_count memory \<le> 16"
    "sp_release_image (payload_of C payload) = Good (Good (rl_image r))"
    "sp_resources (payload_of C payload) =
       Good \<lparr>res_memory = Some memory, res_cpu = Some (cpu_of C (J_str cpu)), res_pids = Missing\<rparr>"
proof -
  obtain rs cpu memory where o: "object_member ''resources'' spec = Some rs"
    and k: "set (member_keys rs) = {''cpu'', ''memory'', ''timeoutSeconds''}"
    and c: "text_member ''cpu'' rs = Some cpu" "cpu_text_ok cpu" "char_count cpu \<le> 16"
    and m: "text_member ''memory'' rs = Some memory" "memory_text_ok memory" "char_count memory \<le> 16"
    using assms(3) unfolding spec_ok_def by (elim conjE exE) (rule that, assumption+)
  have tm: "member l ms = Some (J_str s)" if "text_member l ms = Some s" for l ms s
    using that by (auto simp: text_member_def split: option.splits json.splits)
  have "member ''resources'' spec = Some (J_obj rs)"
    using o by (auto simp: object_member_def split: option.splits json.splits)
  moreover have "member ''pids'' rs = None"
    using k by (simp add: member_map_of map_of_eq_None_iff member_keys_def)
  moreover have "resources_of C rs =
      \<lparr>res_memory = Some memory, res_cpu = Some (cpu_of C (J_str cpu)), res_pids = Missing\<rparr>"
    unfolding resources_of_def using tm [OF c(1)] tm [OF m(1)] \<open>member ''pids'' rs = None\<close>
    by (simp add: str_of_def)
  ultimately have "sp_resources (payload_of C payload) =
      Good \<lparr>res_memory = Some memory, res_cpu = Some (cpu_of C (J_str cpu)), res_pids = Missing\<rparr>"
    using assms(2) by (simp add: payload_of_def)
  moreover have "sp_release_image (payload_of C payload) = Good (Good (rl_image r))"
    using assms(1) by (simp add: payload_of_def release_section_def)
  ultimately show thesis using that o c m by blast
qed

lemma verified_response:
  assumes "sr_payload_sha256 p = sha (canonical_json (J_obj (sr_payload p)))"
    and "map_of public_keys (sr_key_id p) = Some pk"
    and "ed_verify pk (sr_signature p) (canonical_json (J_obj (sr_payload p)))"
  shows "verify_specification sha ed_verify public_keys (contract_response p) = Inr ()"
  using assms
  by (simp add: verify_specification_def contract_response_def b64decode_std_encode del: canonical_json.simps)

text \<open>C31. From publication to container: the answer the Registry gives to a first resolution passes
  the Runner's check of digest and signature, and an attempt of the admitted run gets a container with
  exactly the image of the published release, provided the manifest's memory is not given in Ki and
  its CPU is not zero; for those two kinds of manifest, which the Registry accepts, every start of the
  run fails as an invalid specification.\<close>

theorem published_release_runs:
  assumes "registry_inv (rv_sha S) db"
    and "resolve_run_specification_endpoint S (resolution_payload ad) authorization key x db = Inr (p, db')"
    and "run_specifications db' \<noteq> run_specifications db"
    and "rv_signer S = Some g" and "\<And>m. ed_verify pk (sg_sign g m) m"
    and "map_of public_keys (sg_key_id g) = Some pk"
    and "\<And>m. length (rv_sha S m) = 64 \<and> list_all is_hex (rv_sha S m)"
    and "reads_decimals C"
  shows "\<exists>r spec rs cpu memory. r \<in> set (releases db) \<and> rl_id r = ad_release_id ad
    \<and> rl_status r = Published \<and> manifest_spec (rl_manifest r) = Some spec
    \<and> object_member ''resources'' spec = Some rs
    \<and> text_member ''cpu'' rs = Some cpu \<and> text_member ''memory'' rs = Some memory
    \<and> client_resolve (Inr p) ad = Inr (contract_response p)
    \<and> verify_specification (rv_sha S) ed_verify public_keys (contract_response p) = Inr ()
    \<and> (r_specification run = received C (contract_response p) \<longrightarrow>
        (if positive_text cpu \<and> drop (length memory - 2) memory \<noteq> ''Ki''
         then \<exists>c. container_of run a = Inr c \<and> ac_image c = rl_image r
         else container_of run a = Inl (runner_error ''specification_invalid'')))"
proof -
  obtain identity r spec entrypoint sdk where R: "r \<in> set (releases db)"
    "rl_id r = ad_release_id ad" "rl_status r = Published"
    "manifest_spec (rl_manifest r) = Some spec" "spec_ok (rl_image r) spec"
    and P: "member ''release'' (sr_payload p) = Some (release_section r entrypoint sdk)"
    "member ''resources'' (sr_payload p) = member ''resources'' spec"
    and h: "sr_payload_sha256 p = rv_sha S (canonical_json (J_obj (sr_payload p)))"
    and s: "sr_signature p = sg_sign g (canonical_json (J_obj (sr_payload p)))"
    using fresh_resolution [OF assms(1-3)] assms(4) by (auto simp: resolution_payload_def)
  have content: "content_ok (rv_sha S) r"
    using assms(1) R(1) by (simp add: registry_inv_def releases_ok_def)
  have f: "sr_key_id p = sg_key_id g" "sr_run_id p = ad_run_id ad"
    using fresh_specification_answer [OF assms(2,3)] assms(4) by (auto simp: resolution_payload_def)
  obtain rs cpu memory where M: "object_member ''resources'' spec = Some rs"
    "text_member ''cpu'' rs = Some cpu" "cpu_text_ok cpu" "char_count cpu \<le> 16"
    "text_member ''memory'' rs = Some memory" "memory_text_ok memory" "char_count memory \<le> 16"
    "sp_release_image (payload_of C (sr_payload p)) = Good (Good (rl_image r))"
    "sp_resources (payload_of C (sr_payload p)) =
       Good \<lparr>res_memory = Some memory, res_cpu = Some (cpu_of C (J_str cpu)), res_pids = Missing\<rparr>"
    by (rule payload_of_resolution [OF P R(5), where C = C])
  have client: "client_resolve (Inr p) ad = Inr (contract_response p)"
    using assms(7) f(2) by (simp add: client_resolve_def h del: canonical_json.simps)
  have verify: "verify_specification (rv_sha S) ed_verify public_keys (contract_response p) = Inr ()"
    by (rule verified_response [where sha = "rv_sha S" and p = p, OF h]) (use f(1) assms(5,6) s in simp_all)
  have start: "if positive_text cpu \<and> drop (length memory - 2) memory \<noteq> ''Ki''
       then \<exists>c. container_of run a = Inr c \<and> ac_image c = rl_image r
       else container_of run a = Inl (runner_error ''specification_invalid'')"
    if run: "r_specification run = received C (contract_response p)"
  proof -
    have "ss_payload (r_specification run) = payload_of C (sr_payload p)"
      by (simp add: run received_def contract_response_def)
    note S = container_of_payload [of run, unfolded this, OF M(8,9)]
    have pin: "image_pinned (rl_image r)"
      using content match_image_pinned by (auto simp: content_ok_def)
    show ?thesis
      using cpu_float_of [OF assms(8) M(3,4)] memory_bytes_of [OF M(6,7)] S [OF pin]
      by (auto split: if_splits)
  qed
  show ?thesis using R(1-4) M(1,2,5) client verify start by blast
qed

section \<open>Witness\<close>

text \<open>The value of a decimal text.\<close>

definition decimal_value :: "pystr \<Rightarrow> rat" where
  "decimal_value s =
     (case split_on (CHR ''.'') s of
        [whole, fraction] \<Rightarrow> of_nat (dec_value whole) + of_nat (dec_value fraction) / 10 ^ length fraction
      | _ \<Rightarrow> of_nat (dec_value s))"

definition ex_conversions :: conversions where
  "ex_conversions = \<lparr>cv_time = (\<lambda>s. Malformed), cv_float = (\<lambda>s. Good (Finite (decimal_value s))),
     cv_int = (\<lambda>v. Malformed)\<rparr>"

lemma dec_value_snoc: "dec_value (s @ [c]) = 10 * dec_value s + (of_char c - 48)"
  by (simp add: dec_value_def)

lemma digit_positive: "dec_digit c \<Longrightarrow> 0 < (of_char c - 48 :: nat) \<longleftrightarrow> c \<in> set ''123456789''"
  unfolding dec_digit_def by auto

lemma dec_value_positive: "list_all dec_digit s \<Longrightarrow> 0 < dec_value s \<longleftrightarrow> positive_text s"
proof (induction s rule: rev_induct)
  case Nil
  then show ?case by (simp add: dec_value_def positive_text_def)
next
  case (snoc c s)
  then have "0 < dec_value s \<longleftrightarrow> positive_text s" "dec_digit c" by simp_all
  then show ?case
    using digit_positive [of c] unfolding dec_value_snoc positive_text_def by (auto simp del: list.set)
qed

lemma ex_reads_decimals: "reads_decimals ex_conversions"
  unfolding reads_decimals_def
proof (intro allI impI)
  fix s
  assume "plain_decimal s"
  have "0 \<le> decimal_value s \<and> (0 < decimal_value s \<longleftrightarrow> positive_text s)"
  proof (cases "\<exists>whole fraction. split_on (CHR ''.'') s = [whole, fraction]")
    case True
    then obtain whole fraction where e: "split_on (CHR ''.'') s = [whole, fraction]" by blast
    then have s: "s = whole @ CHR ''.'' # fraction" using join_split_on [of "CHR ''.''" s] by simp
    then have "\<not> list_all dec_digit s" by (simp add: dec_digit_def)
    then have d: "list_all dec_digit whole" "list_all dec_digit fraction"
      using \<open>plain_decimal s\<close> e number_ok_digits by (auto simp: plain_decimal_def)
    have "positive_text s \<longleftrightarrow> 0 < dec_value whole \<or> 0 < dec_value fraction"
      using dec_value_positive [OF d(1)] dec_value_positive [OF d(2)] unfolding s positive_text_def
      by simp
    moreover have "0 < w + f \<longleftrightarrow> 0 < w \<or> 0 < f" if "0 \<le> w" "0 \<le> f" for w f :: rat
      using that by linarith
    ultimately show ?thesis using e by (simp add: decimal_value_def zero_less_divide_iff)
  next
    case False
    then have "number_ok s" using \<open>plain_decimal s\<close> by (auto simp: plain_decimal_def split: list.splits)
    then show ?thesis
      using False dec_value_positive [OF number_ok_digits]
      by (auto simp: decimal_value_def split: list.splits)
  qed
  then show "\<exists>q. cv_float ex_conversions s = Good (Finite q) \<and> 0 \<le> q \<and> (0 < q) = positive_text s"
    by (simp add: ex_conversions_def)
qed

definition ex_admission :: run_admission where
  "ex_admission = sample_admission
     \<lparr>ad_run_id := 31, ad_user_id := 7, ad_conversation_id := 32, ad_thread_id := 33,
      ad_release_id := 11, ad_delegation_grant_id := 34, ad_trace_id := replicate 32 (CHR ''b'')\<rparr>"

lemma ex_request_of_admission: "resolution_payload ex_admission = ex_request"
  by (simp add: resolution_payload_def ex_admission_def ex_request_def sample_admission_def)

lemma published_release_runs_witness:
  "\<exists>p. verify_specification ex_sha (\<lambda>pk signature m. signature = sg_sign ex_signer m) [(''run-key'', ''pk'')]
       (contract_response p) = Inr ()
     \<and> (\<exists>c. container_of ((sample_row Accepted None 0 0)
                \<lparr>r_specification := received ex_conversions (contract_response p)\<rparr>) sample_attempt = Inr c
          \<and> ac_image c = ex_image)"
proof -
  let ?run = "\<lambda>p. (sample_row Accepted None 0 0)\<lparr>r_specification := received ex_conversions (contract_response p)\<rparr>"
  obtain p db' where r: "resolve_run_specification_endpoint ex_service (resolution_payload ex_admission)
      (Some ''Bearer r'') ex_key (41, 1000) ex_db2 = Inr (p, db')"
    and n: "run_specifications db' \<noteq> run_specifications ex_db2"
    unfolding ex_request_of_admission by (rule ex_endpoint_resolved)
  have i: "registry_inv (rv_sha ex_service) ex_db2" using ex_db2_inv by (simp add: ex_service_fields)
  have k: "map_of [(''run-key'', ''pk'')] (sg_key_id ex_signer) = Some ''pk''"
    by (simp add: ex_signer_def)
  have sh: "\<And>m. length (rv_sha ex_service m) = 64 \<and> list_all is_hex (rv_sha ex_service m)"
    by (simp add: ex_service_fields ex_sha_shape)
  let ?ed = "\<lambda>(pk::pystr) signature m. signature = sg_sign ex_signer m"
  have ed: "\<And>m. ?ed ''pk'' (sg_sign ex_signer m) m" by simp
  obtain rw spec rs cpu memory where F: "rw \<in> set (releases ex_db2)"
    "manifest_spec (rl_manifest rw) = Some spec" "object_member ''resources'' spec = Some rs"
    "text_member ''cpu'' rs = Some cpu" "text_member ''memory'' rs = Some memory"
    "verify_specification (rv_sha ex_service) (\<lambda>pk signature m. signature = sg_sign ex_signer m)
       [(''run-key'', ''pk'')] (contract_response p) = Inr ()"
    and st: "r_specification (?run p) = received ex_conversions (contract_response p) \<longrightarrow>
        (if positive_text cpu \<and> drop (length memory - 2) memory \<noteq> ''Ki''
         then \<exists>c. container_of (?run p) sample_attempt = Inr c \<and> ac_image c = rl_image rw
         else container_of (?run p) sample_attempt = Inl (runner_error ''specification_invalid''))"
    using published_release_runs [where ed_verify = "?ed" and pk = "''pk''" and run = "?run p" and
        a = sample_attempt, OF i r n ex_service_fields(1) ed k sh ex_reads_decimals] by blast
  have rw: "rw = ex_row" using F(1) by simp
  have "spec = ex_spec" using F(2) rw by (simp add: manifest_spec_def ex_manifest_def)
  then have "rs = ex_resources" using F(3) by (simp add: object_member_def ex_spec_def)
  then have "cpu = ''500m''" "memory = ''256Mi''"
    using F(4,5) by (simp_all add: text_member_def ex_resources_def)
  then have "\<exists>c. container_of (?run p) sample_attempt = Inr c \<and> ac_image c = rl_image rw"
    using st by (simp add: positive_text_def)
  then show ?thesis
    using F(6) rw by (auto simp: ex_service_fields ex_row_def new_release_def ex_validated_def)
qed

end
