(* ===== verification/DeadLetters.thy ===== *)
theory DeadLetters
  imports RunnerCompletion Json Tokens
begin

text \<open>
  Messages the Runner cannot process: \<open>agent_runner/deadletter.py\<close>, the loop of
  \<open>consume_completion_events\<close> around one delivery (\<open>agent_runner/messaging.py\<close>), the operator's
  endpoints of \<open>agent_runner/main.py\<close> and the deletions of \<open>agent_runner/retention.py\<close>.

  A message is a sequence of bytes. Reading it as JSON, SHA-256, \<open>uuid5\<close> in the name space of the
  dead letters, \<open>UUID(str(v))\<close>, the reading of the envelope's fields and the Fernet cipher are
  parameters (\<open>dead_letter_codec\<close>).
\<close>

section \<open>State\<close>

record dead_letter_row =
  dl_id :: uuid
  dl_event_id :: uuid
  dl_subject :: pystr
  dl_type :: pystr
  dl_consumer :: pystr
  dl_attempts :: nat
  dl_error_code :: pystr
  dl_ciphertext :: pystr
  dl_first_failed :: instant
  dl_last_failed :: instant
  dl_replayed_at :: "instant option"
  dl_replayed_by :: "pystr option"

record operator_audit_row =
  oa_id :: uuid
  oa_action :: pystr
  oa_subject :: uuid
  oa_operator :: pystr

record dead_letter_db =
  dead_letters :: "dead_letter_row list"
  operator_audit :: "operator_audit_row list"

text \<open>A delivery of the broker; without metadata the message counts as delivered once.\<close>

record stream_message =
  sm_data :: pystr
  sm_subject :: pystr
  sm_delivered :: "nat option"

text \<open>\<open>json.loads\<close>: the value, a text that is no JSON (or no text), or nesting beyond the recursion
  limit, which raises \<open>RecursionError\<close>.\<close>

datatype json_reading = Decoded json | Undecodable | Too_nested

record dead_letter_codec =
  dc_json :: "pystr \<Rightarrow> json_reading"
  dc_sha256 :: "pystr \<Rightarrow> pystr"
  dc_uuid5 :: "pystr \<Rightarrow> uuid"
  dc_uuid :: "json \<Rightarrow> uuid option"
  dc_envelope :: "(pystr \<times> json) list \<Rightarrow> envelope"
  dc_key :: bool
  dc_encrypt :: "nat \<Rightarrow> pystr \<Rightarrow> pystr"
  dc_decrypt :: "pystr \<Rightarrow> pystr option"

text \<open>What is published about a dead letter (\<open>porfirium.dlq.message.v1\<close>), and the message a replay
  publishes: the original bytes with the original identity.\<close>

record dead_letter_notice =
  dn_id :: uuid
  dn_dead_letter :: uuid
  dn_user :: uuid
  dn_correlation :: uuid
  dn_causation :: uuid
  dn_traceparent :: pystr
  dn_type :: pystr
  dn_consumer :: pystr
  dn_attempts :: nat
  dn_error_code :: pystr
  dn_failed_at :: instant

record replayed_message =
  rm_subject :: pystr
  rm_data :: pystr
  rm_event_id :: uuid

record dead_letter_env =
  de_now :: instant
  de_event_id :: uuid
  de_nonce :: nat

section \<open>Recording a dead letter\<close>

text \<open>\<open>text[:n]\<close> of a text given by its UTF-8 bytes.\<close>

fun take_chars :: "nat \<Rightarrow> pystr \<Rightarrow> pystr" where
  "take_chars n [] = []"
| "take_chars n (c # s) =
     (if continuation_byte c then c # take_chars n s
      else (case n of 0 \<Rightarrow> [] | Suc k \<Rightarrow> c # take_chars k s))"

definition delivery_attempt :: "stream_message \<Rightarrow> nat" where
  "delivery_attempt m = max 1 (case sm_delivered m of None \<Rightarrow> 1 | Some n \<Rightarrow> n)"

text \<open>\<open>event_identity\<close>: the identity and the type the message claims, when it claims both.\<close>

definition dead_letter_identity :: "dead_letter_codec \<Rightarrow> pystr \<Rightarrow> json option \<Rightarrow> uuid \<times> pystr" where
  "dead_letter_identity C data body =
     (let unknown = (dc_uuid5 C (dc_sha256 C data), ''porfirium.unknown.v1'') in
      case body of
        Some (J_obj ms) \<Rightarrow>
          (case (member ''id'' ms, member ''type'' ms) of
             (Some i, Some (J_str kind)) \<Rightarrow>
               (case dc_uuid C i of
                  Some event_id \<Rightarrow> if kind \<noteq> [] then (event_id, take_chars 128 kind) else unknown
                | None \<Rightarrow> unknown)
           | _ \<Rightarrow> unknown)
      | _ \<Rightarrow> unknown)"

text \<open>\<open>error_code\<close>: the code of an exception that has one, or the name of its class in lower case.
  \<open>CompletionError\<close> and the errors of the Registry's client have a message only.\<close>

definition lower_char :: "char \<Rightarrow> char" where
  "lower_char c = (if in_range (CHR ''A'') (CHR ''Z'') c then char_of (of_char c + 32 :: nat) else c)"

fun dead_letter_code :: "exc \<Rightarrow> pystr" where
  "dead_letter_code (Coded cls code) =
     (if cls \<in> {''RunnerError'', ''EventValidationError''} \<and> code \<noteq> [] then take_chars 64 code
      else take_chars 64 (map lower_char cls))"
| "dead_letter_code (Problem status code) = take_chars 64 code"
| "dead_letter_code Unique_violation = ''uniqueviolationerror''"
| "dead_letter_code Check_violation = ''checkviolationerror''"
| "dead_letter_code Value_error = ''valueerror''"
| "dead_letter_code Key_error = ''keyerror''"
| "dead_letter_code Type_error = ''typeerror''"
| "dead_letter_code Attribute_error = ''attributeerror''"
| "dead_letter_code Runtime_error = ''runtimeerror''"
| "dead_letter_code Recursion_error = ''recursionerror''"
| "dead_letter_code Backend_failure = ''containererror''"
| "dead_letter_code Timeout_failure = ''timeouterror''"

text \<open>What is encrypted: the message, or the digest of one that is no JSON.\<close>

definition protected_payload :: "dead_letter_codec \<Rightarrow> pystr \<Rightarrow> exc + pystr" where
  "protected_payload C data =
     (case dc_json C data of
        Decoded _ \<Rightarrow> Inr data
      | Undecodable \<Rightarrow>
          Inr (canonical_json (J_obj [(''malformed_sha256'', J_str (dc_sha256 C data))]))
      | Too_nested \<Rightarrow> Inl Recursion_error)"

text \<open>\<open>INSERT ... ON CONFLICT (original_event_id, consumer) DO UPDATE\<close> with the constraints of
  \<open>0006_hardening.sql\<close>.\<close>

definition dead_letter_row_ok :: "dead_letter_row \<Rightarrow> bool" where
  "dead_letter_row_ok r \<longleftrightarrow> 1 \<le> char_count (dl_subject r) \<and> char_count (dl_subject r) \<le> 256
     \<and> 1 \<le> char_count (dl_type r) \<and> char_count (dl_type r) \<le> 128
     \<and> 1 \<le> char_count (dl_consumer r) \<and> char_count (dl_consumer r) \<le> 128
     \<and> 0 < dl_attempts r
     \<and> 1 \<le> char_count (dl_error_code r) \<and> char_count (dl_error_code r) \<le> 64"

definition dead_letter_key :: "dead_letter_row \<Rightarrow> uuid \<times> pystr" where
  "dead_letter_key r = (dl_event_id r, dl_consumer r)"

definition keep_dead_letter :: "dead_letter_row \<Rightarrow> dead_letter_db \<Rightarrow> exc + dead_letter_db" where
  "keep_dead_letter r db =
     (if \<not> dead_letter_row_ok r then Inl Check_violation
      else if has_row dead_letter_key (dead_letter_key r) (dead_letters db) then
        Inr (db\<lparr>dead_letters := update_where (\<lambda>q. dead_letter_key q = dead_letter_key r)
          (\<lambda>q. q\<lparr>dl_attempts := max (dl_attempts q) (dl_attempts r),
                  dl_error_code := dl_error_code r, dl_last_failed := dl_last_failed r\<rparr>)
          (dead_letters db)\<rparr>)
      else if has_row dl_id (dl_id r) (dead_letters db) then Inl Unique_violation
      else Inr (db\<lparr>dead_letters := dead_letters db @ [r]\<rparr>))"

text \<open>The row and the diagnostic event. Correlation, user and trace are taken over from a message
  that is a valid envelope.\<close>

definition dead_letter_row_of ::
  "dead_letter_codec \<Rightarrow> stream_message \<Rightarrow> pystr \<Rightarrow> exc \<Rightarrow> json option \<Rightarrow> dead_letter_env \<Rightarrow> pystr
     \<Rightarrow> dead_letter_row" where
  "dead_letter_row_of C m consumer err body x protected =
     (case dead_letter_identity C (sm_data m) body of (event_id, kind) \<Rightarrow>
        \<lparr>dl_id = dc_uuid5 C (consumer @ '':'' @ uuid_str event_id), dl_event_id = event_id,
         dl_subject = take_chars 256 (sm_subject m), dl_type = kind, dl_consumer = consumer,
         dl_attempts = delivery_attempt m, dl_error_code = dead_letter_code err,
         dl_ciphertext = dc_encrypt C (de_nonce x) protected, dl_first_failed = de_now x,
         dl_last_failed = de_now x, dl_replayed_at = None, dl_replayed_by = None\<rparr>)"

definition traced_envelope :: "dead_letter_codec \<Rightarrow> json option \<Rightarrow> (uuid \<times> uuid \<times> pystr) option" where
  "traced_envelope C body =
     (case body of
        Some (J_obj ms) \<Rightarrow>
          (let e = dc_envelope C ms in
           if \<not> validate_envelope e then None
           else (case (ev_correlation_id e, ev_user_id e, ev_traceparent e) of
                   (Good c, Good u, Some t) \<Rightarrow> Some (c, u, t) | _ \<Rightarrow> None))
      | _ \<Rightarrow> None)"

definition notice_of ::
  "dead_letter_codec \<Rightarrow> json option \<Rightarrow> dead_letter_env \<Rightarrow> dead_letter_row \<Rightarrow> dead_letter_notice" where
  "notice_of C body x r =
     (case (case traced_envelope C body of
              Some traced \<Rightarrow> traced
            | None \<Rightarrow> (de_event_id x, 0, ''00-'' @ uuid_hex (de_event_id x) @ ''-''
                @ take 16 (uuid_hex (de_event_id x)) @ ''-00'')) of
        (correlation, user, trace) \<Rightarrow>
          \<lparr>dn_id = de_event_id x, dn_dead_letter = dl_id r, dn_user = user,
           dn_correlation = correlation, dn_causation = dl_event_id r, dn_traceparent = trace,
           dn_type = dl_type r, dn_consumer = dl_consumer r, dn_attempts = dl_attempts r,
           dn_error_code = dl_error_code r, dn_failed_at = de_now x\<rparr>)"

text \<open>\<open>dead_letter\<close>: the row is stored by a statement of its own before the event is published;
  \<open>refused\<close> is the error of a publication the broker does not acknowledge.\<close>

definition dead_letter ::
  "dead_letter_codec \<Rightarrow> stream_message \<Rightarrow> pystr \<Rightarrow> exc \<Rightarrow> json option \<Rightarrow> dead_letter_env
     \<Rightarrow> exc option \<Rightarrow> dead_letter_db
     \<Rightarrow> (exc + uuid) \<times> dead_letter_notice list \<times> dead_letter_db" where
  "dead_letter C m consumer err body x refused db =
     (case protected_payload C (sm_data m) of
        Inl e \<Rightarrow> (Inl e, [], db)
      | Inr protected \<Rightarrow>
          if \<not> dc_key C then (Inl Runtime_error, [], db)
          else
            (let r = dead_letter_row_of C m consumer err body x protected in
             case keep_dead_letter r db of
               Inl e \<Rightarrow> (Inl e, [], db)
             | Inr db' \<Rightarrow>
                 (case refused of
                    Some e \<Rightarrow> (Inl e, [], db')
                  | None \<Rightarrow> (Inr (dl_id r), [notice_of C body x r], db'))))"

section \<open>One delivery of a consumer\<close>

text \<open>A processed message is acknowledged. A failed one is returned to the broker, and after its last
  delivery it is recorded as a dead letter and acknowledged. An exception of \<open>dead_letter\<close> itself
  leaves the \<open>async for\<close>: the consumer's task has ended, and the message stays unacknowledged.\<close>

datatype settlement = Acknowledged | Returned | Consumer_stopped

definition settle ::
  "dead_letter_codec \<Rightarrow> nat \<Rightarrow> stream_message \<Rightarrow> pystr \<Rightarrow> exc option \<Rightarrow> json option
     \<Rightarrow> dead_letter_env \<Rightarrow> exc option \<Rightarrow> dead_letter_db
     \<Rightarrow> settlement \<times> dead_letter_notice list \<times> dead_letter_db" where
  "settle C max_deliveries m consumer outcome body x refused db =
     (case outcome of
        None \<Rightarrow> (Acknowledged, [], db)
      | Some err \<Rightarrow>
          if delivery_attempt m < max_deliveries then (Returned, [], db)
          else
            (case dead_letter C m consumer err body x refused db of
               (Inl _, notices, db') \<Rightarrow> (Consumer_stopped, notices, db')
             | (Inr _, notices, db') \<Rightarrow> (Acknowledged, notices, db')))"

definition completion_consumer :: pystr where
  "completion_consumer = ''agent-runner-completion-v1''"

text \<open>The \<open>try\<close> of \<open>consume_completion_events\<close>: the value of \<open>envelope\<close> when it is left, and the
  outcome.\<close>

definition process_completion ::
  "dead_letter_codec \<Rightarrow> stream_message \<Rightarrow> removal \<Rightarrow> runner_env \<Rightarrow> runner_db
     \<Rightarrow> json option \<times> exc option \<times> backend_call list \<times> runner_db" where
  "process_completion C m backend x db =
     (case dc_json C (sm_data m) of
        Undecodable \<Rightarrow> (None, Some (Coded ''JSONDecodeError'' []), [], db)
      | Too_nested \<Rightarrow> (None, Some Recursion_error, [], db)
      | Decoded body \<Rightarrow>
          (case body of
             J_obj ms \<Rightarrow> (Some body, completion_effect backend (dc_envelope C ms) x db)
           | _ \<Rightarrow> (Some body, Some event_validation_error, [], db)))"

definition deliver_completion ::
  "dead_letter_codec \<Rightarrow> nat \<Rightarrow> stream_message \<Rightarrow> removal \<Rightarrow> runner_env \<Rightarrow> dead_letter_env
     \<Rightarrow> exc option \<Rightarrow> runner_db \<times> dead_letter_db
     \<Rightarrow> settlement \<times> backend_call list \<times> dead_letter_notice list \<times> runner_db \<times> dead_letter_db" where
  "deliver_completion C max_deliveries m backend x y refused s =
     (case process_completion C m backend x (fst s) of
        (body, outcome, calls, rdb) \<Rightarrow>
          (case settle C max_deliveries m completion_consumer outcome body y refused (snd s) of
             (settled, notices, ddb) \<Rightarrow> (settled, calls, notices, rdb, ddb)))"

section \<open>The operator\<close>

text \<open>\<open>"malformed_sha256" in payload\<close>: a key of an object, an element of an array, a part of a text;
  numbers, booleans and null have no \<open>in\<close>.\<close>

definition marked_malformed :: "json \<Rightarrow> exc + bool" where
  "marked_malformed payload =
     (case payload of
        J_obj ms \<Rightarrow> Inr (member ''malformed_sha256'' ms \<noteq> None)
      | J_arr vs \<Rightarrow> Inr (J_str ''malformed_sha256'' \<in> set vs)
      | J_str s \<Rightarrow> Inr (\<exists>k < Suc (length s). take 16 (drop k s) = ''malformed_sha256'')
      | _ \<Rightarrow> Inl Type_error)"

text \<open>The bytes a replay publishes: the decrypted payload, unless it is the digest of a message that
  was no JSON.\<close>

definition replay_payload :: "dead_letter_codec \<Rightarrow> dead_letter_row \<Rightarrow> exc + pystr" where
  "replay_payload C row =
     (if \<not> dc_key C then Inl Runtime_error
      else
        (case dc_decrypt C (dl_ciphertext row) of
           None \<Rightarrow> Inl Value_error
         | Some payload_bytes \<Rightarrow>
             (case dc_json C payload_bytes of
                Undecodable \<Rightarrow> Inl Value_error
              | Too_nested \<Rightarrow> Inl Recursion_error
              | Decoded payload \<Rightarrow>
                  (case marked_malformed payload of
                     Inl e \<Rightarrow> Inl e
                   | Inr marked \<Rightarrow> if marked then Inl Value_error else Inr payload_bytes))))"

text \<open>\<open>replay\<close>. The broker's answer comes before the commit of the transaction: it refuses, it
  acknowledges and the transaction is lost, or it acknowledges and the transaction commits.\<close>

definition replay ::
  "dead_letter_codec \<Rightarrow> uuid \<Rightarrow> pystr \<Rightarrow> instant \<Rightarrow> uuid \<Rightarrow> publish_outcome \<Rightarrow> dead_letter_db
     \<Rightarrow> (exc + bool) \<times> replayed_message list \<times> dead_letter_db" where
  "replay C dead_letter_id operator now audit_id broker db =
     (case row_by dl_id dead_letter_id (dead_letters db) of
        None \<Rightarrow> (Inr False, [], db)
      | Some row \<Rightarrow>
          if dl_replayed_at row \<noteq> None then (Inr True, [], db)
          else
            (case replay_payload C row of
               Inl e \<Rightarrow> (Inl e, [], db)
             | Inr payload_bytes \<Rightarrow>
                 (let sent = \<lparr>rm_subject = dl_subject row, rm_data = payload_bytes,
                              rm_event_id = dl_event_id row\<rparr> in
                  case broker of
                    Refused \<Rightarrow> (Inl Timeout_failure, [], db)
                  | Ack_then_crash \<Rightarrow> (Inl Timeout_failure, [sent], db)
                  | Ack \<Rightarrow>
                      if has_row oa_id audit_id (operator_audit db)
                      then (Inl Unique_violation, [sent], db)
                      else (Inr True, [sent], db\<lparr>
                        dead_letters := update_where (\<lambda>r. dl_id r = dead_letter_id)
                          (\<lambda>r. r\<lparr>dl_replayed_at := Some now, dl_replayed_by := Some operator\<rparr>)
                          (dead_letters db),
                        operator_audit := operator_audit db @
                          [\<lparr>oa_id = audit_id, oa_action = ''dead_letter_replay'',
                            oa_subject = dead_letter_id, oa_operator = operator\<rparr>]\<rparr>))))"

text \<open>\<open>_require_operator\<close>, where \<open>expected\<close> is the configured token, and the two endpoints.
  \<open>compare_digest\<close> raises for texts that are not ASCII. The list shows the latest hundred rows without
  the encrypted payload.\<close>

definition require_operator :: "pystr option \<Rightarrow> pystr \<Rightarrow> exc + unit" where
  "require_operator expected authorization =
     (let supplied = (if take 7 authorization = ''Bearer '' then drop 7 authorization else []) in
      case expected of
        None \<Rightarrow> Inl (runner_error ''operator_auth_unavailable'')
      | Some [] \<Rightarrow> Inl (runner_error ''operator_auth_unavailable'')
      | Some token \<Rightarrow>
          if \<not> ascii supplied \<or> \<not> ascii token then Inl Type_error
          else if supplied = token then Inr () else Inl (runner_error ''operator_forbidden''))"

definition list_dead_letters :: "pystr option \<Rightarrow> pystr \<Rightarrow> dead_letter_db \<Rightarrow> exc + dead_letter_row list" where
  "list_dead_letters expected authorization db =
     (case require_operator expected authorization of
        Inl e \<Rightarrow> Inl e
      | Inr _ \<Rightarrow> Inr (map (\<lambda>r. r\<lparr>dl_ciphertext := []\<rparr>)
          (take 100 (rev (sort_key dl_last_failed (dead_letters db))))))"

definition replay_dead_letter ::
  "pystr option \<Rightarrow> dead_letter_codec \<Rightarrow> uuid \<Rightarrow> pystr \<Rightarrow> pystr \<Rightarrow> pystr \<Rightarrow> instant \<Rightarrow> uuid
     \<Rightarrow> publish_outcome \<Rightarrow> dead_letter_db \<Rightarrow> (exc + unit) \<times> replayed_message list \<times> dead_letter_db" where
  "replay_dead_letter expected C dead_letter_id authorization operator key now audit_id broker db =
     (if \<not> (1 \<le> char_count operator \<and> char_count operator \<le> 128)
         \<or> \<not> (8 \<le> char_count key \<and> char_count key \<le> 128)
      then (Inl (Problem 422 ''validation''), [], db)
      else case require_operator expected authorization of
        Inl e \<Rightarrow> (Inl e, [], db)
      | Inr _ \<Rightarrow>
          (case replay C dead_letter_id operator now audit_id broker db of
             (Inl e, sent, db') \<Rightarrow> (Inl e, sent, db')
           | (Inr False, sent, db') \<Rightarrow> (Inl (Problem 404 ''dead letter not found''), sent, db')
           | (Inr True, sent, db') \<Rightarrow> (Inr (), sent, db')))"

section \<open>Retention\<close>

definition days :: "nat \<Rightarrow> instant" where
  "days n = int n * 86400000000"

text \<open>\<open>prune\<close>: published events, old rows of the two inboxes and replayed dead letters, with the numbers
  of deleted rows. \<open>received\<close> gives the time at which an event entered the inbox of the runs; the
  inbox of \<open>apply_schedule_once\<close> is a list of identities with their times.\<close>

definition prune_dead_letters :: "instant \<Rightarrow> dead_letter_db \<Rightarrow> dead_letter_db" where
  "prune_dead_letters now db =
     db\<lparr>dead_letters := delete_where
          (\<lambda>r. case dl_replayed_at r of None \<Rightarrow> False | Some t \<Rightarrow> t < now - days 31)
          (dead_letters db)\<rparr>"

definition prune_runner ::
  "(uuid \<Rightarrow> instant) \<Rightarrow> instant \<Rightarrow> runner_db \<times> (uuid \<times> instant) list \<times> dead_letter_db
     \<Rightarrow> (nat \<times> nat \<times> nat \<times> nat) \<times> runner_db \<times> (uuid \<times> instant) list \<times> dead_letter_db" where
  "prune_runner received now s =
     (case s of (rdb, phase2, ddb) \<Rightarrow>
        (let outbox = prune_outbox (now - days 31) (runner_outbox rdb);
             phase2' = delete_where (\<lambda>e. snd e < now - days 8) phase2;
             inbox = delete_where (\<lambda>e. received (fst e) < now - days 31) (run_inbox rdb);
             ddb' = prune_dead_letters now ddb in
         ((length (runner_outbox rdb) - length outbox, length phase2 - length phase2',
           length (run_inbox rdb) - length inbox,
           length (dead_letters ddb) - length (dead_letters ddb')),
          rdb\<lparr>runner_outbox := outbox, run_inbox := inbox\<rparr>, phase2', ddb')))"

end
