(* ===== verification/DeadLetterProperties.thy ===== *)
theory DeadLetterProperties
  imports DeadLetters
begin

text \<open>
  What becomes of a message the Runner cannot process: it is kept with its bytes until an operator
  replays it; a message that fails again after its replay is lost; and what stops a consumer.
\<close>

section \<open>Rows\<close>

lemma char_count_take_chars: "char_count (take_chars n s) \<le> n"
proof (induction n s rule: take_chars.induct)
  case (2 n c s)
  then show ?case by (cases n) (auto simp: char_count_def)
qed (simp add: char_count_def)

lemma dead_letter_key_update:
  "dead_letter_key (q\<lparr>dl_attempts := n, dl_error_code := c, dl_last_failed := t\<rparr>) = dead_letter_key q"
  by (simp add: dead_letter_key_def)

lemma dead_letter_key_replayed:
  "dead_letter_key (q\<lparr>dl_replayed_at := t, dl_replayed_by := o'\<rparr>) = dead_letter_key q"
  by (simp add: dead_letter_key_def)

text \<open>The three outcomes of the upsert.\<close>

lemma keep_dead_letter_cases:
  assumes "keep_dead_letter r db = Inr db'"
  obtains (Known) "has_row dead_letter_key (dead_letter_key r) (dead_letters db)"
      "db' = db\<lparr>dead_letters := update_where (\<lambda>q. dead_letter_key q = dead_letter_key r)
          (\<lambda>q. q\<lparr>dl_attempts := max (dl_attempts q) (dl_attempts r),
                  dl_error_code := dl_error_code r, dl_last_failed := dl_last_failed r\<rparr>)
          (dead_letters db)\<rparr>"
    | (New) "\<not> has_row dead_letter_key (dead_letter_key r) (dead_letters db)"
      "\<not> has_row dl_id (dl_id r) (dead_letters db)" "dead_letter_row_ok r"
      "db' = db\<lparr>dead_letters := dead_letters db @ [r]\<rparr>"
  using assms that by (auto simp: keep_dead_letter_def split: if_splits)

text \<open>What a transaction did to the tables: nothing, an upsert, or a replay of one row.\<close>

lemma dead_letter_stored:
  assumes "dead_letter C m consumer err body x refused db = (out, notices, db')"
  shows "db' = db \<and> isl out \<and> notices = [] \<or>
    (\<exists>protected r. protected_payload C (sm_data m) = Inr protected
      \<and> r = dead_letter_row_of C m consumer err body x protected
      \<and> keep_dead_letter r db = Inr db'
      \<and> (case refused of Some e \<Rightarrow> out = Inl e \<and> notices = []
           | None \<Rightarrow> out = Inr (dl_id r) \<and> notices = [notice_of C body x r]))"
proof (cases "protected_payload C (sm_data m)")
  case (Inl e)
  then show ?thesis using assms by (auto simp: dead_letter_def)
next
  case (Inr protected)
  show ?thesis
  proof (cases "keep_dead_letter (dead_letter_row_of C m consumer err body x protected) db")
    case (Inl e)
    then show ?thesis using assms Inr by (auto simp: dead_letter_def Let_def split: if_splits)
  next
    case (Inr db1)
    then show ?thesis using assms \<open>protected_payload C (sm_data m) = Inr protected\<close>
      by (auto simp: dead_letter_def Let_def split: if_splits option.splits)
  qed
qed

text \<open>A replay changes nothing, or sends the payload of a row that was not replayed.\<close>

definition replayed_of :: "dead_letter_row \<Rightarrow> pystr \<Rightarrow> replayed_message" where
  "replayed_of row payload =
     \<lparr>rm_subject = dl_subject row, rm_data = payload, rm_event_id = dl_event_id row\<rparr>"

definition mark_replayed ::
  "uuid \<Rightarrow> pystr \<Rightarrow> instant \<Rightarrow> dead_letter_row list \<Rightarrow> dead_letter_row list" where
  "mark_replayed i operator now t = update_where (\<lambda>r. dl_id r = i)
     (\<lambda>r. r\<lparr>dl_replayed_at := Some now, dl_replayed_by := Some operator\<rparr>) t"

lemma replay_cases:
  assumes "replay C i operator now a broker db = (out, sent, db')"
  obtains (Nothing) "db' = db" "sent = []"
    | (Sent) row payload where "row_by dl_id i (dead_letters db) = Some row"
      "dl_replayed_at row = None" "replay_payload C row = Inr payload"
      "sent = [replayed_of row payload]" "db' = db"
    | (Replayed) row payload where "row_by dl_id i (dead_letters db) = Some row"
      "dl_replayed_at row = None" "replay_payload C row = Inr payload"
      "sent = [replayed_of row payload]"
      "dead_letters db' = mark_replayed i operator now (dead_letters db)"
  using assms that
  by (auto simp: replay_def replayed_of_def mark_replayed_def Let_def
      split: option.splits sum.splits publish_outcome.splits if_splits)

lemma replay_pending:
  assumes "row_by dl_id i (dead_letters db) = Some row" and "dl_replayed_at row = None"
    and "replay_payload C row = Inr payload" and "\<not> has_row oa_id a (operator_audit db)"
  shows "\<exists>db'. replay C i operator now a Ack db = (Inr True, [replayed_of row payload], db')
    \<and> (\<forall>op' now' a' broker. replay C i op' now' a' broker db' = (Inr True, [], db'))"
  using assms row_by_SomeD [OF assms(1)]
  by (simp add: replay_def replayed_of_def row_by_update_where)

lemma row_by_delete_where:
  "row_by key k t = Some r \<Longrightarrow> \<not> P r \<Longrightarrow> row_by key k (delete_where P t) = Some r"
  by (induction t) (auto simp: delete_where_def split: if_splits)

section \<open>Histories\<close>

text \<open>The transactions on the dead letters in any order, with the messages replays have sent.\<close>

inductive dead_letter_step ::
  "dead_letter_codec \<Rightarrow> dead_letter_db \<times> replayed_message list
     \<Rightarrow> dead_letter_db \<times> replayed_message list \<Rightarrow> bool" for C where
  record_failure: "dead_letter C m consumer err body x refused db = (out, notices, db')
    \<Longrightarrow> dead_letter_step C (db, sent_log) (db', sent_log)"
| replay_row: "replay C i operator now a broker db = (answer, sent, db')
    \<Longrightarrow> dead_letter_step C (db, sent_log) (db', sent_log @ sent)"
| prune_rows: "dead_letter_step C (db, sent_log) (prune_dead_letters now db, sent_log)"

text \<open>A row that waits with its payload, or whose payload was sent.\<close>

definition waiting_or_sent ::
  "dead_letter_codec \<Rightarrow> uuid \<Rightarrow> replayed_message \<Rightarrow> dead_letter_db \<times> replayed_message list \<Rightarrow> bool" where
  "waiting_or_sent C i msg s \<longleftrightarrow>
     (\<exists>r payload. row_by dl_id i (dead_letters (fst s)) = Some r \<and> dl_replayed_at r = None
        \<and> replay_payload C r = Inr payload \<and> replayed_of r payload = msg)
     \<or> msg \<in> set (snd s)"

lemma waiting_or_sentI:
  "row_by dl_id i (dead_letters db) = Some r \<Longrightarrow> dl_replayed_at r = None
   \<Longrightarrow> replay_payload C r = Inr payload \<Longrightarrow> waiting_or_sent C i (replayed_of r payload) (db, sent_log)"
  by (auto simp: waiting_or_sent_def)

lemma waiting_kept_record:
  assumes "keep_dead_letter q db = Inr db'" and "waiting_or_sent C i msg (db, sent_log)"
  shows "waiting_or_sent C i msg (db', sent_log)"
proof (cases "msg \<in> set sent_log")
  case False
  then obtain r payload where r: "row_by dl_id i (dead_letters db) = Some r"
    "dl_replayed_at r = None" "replay_payload C r = Inr payload" "replayed_of r payload = msg"
    using assms(2) by (auto simp: waiting_or_sent_def)
  from assms(1) show ?thesis
  proof (cases rule: keep_dead_letter_cases)
    case Known
    let ?f = "\<lambda>r. r\<lparr>dl_attempts := max (dl_attempts r) (dl_attempts q),
                  dl_error_code := dl_error_code q, dl_last_failed := dl_last_failed q\<rparr>"
    have "row_by dl_id i (dead_letters db')
        = Some (if dead_letter_key r = dead_letter_key q then ?f r else r)"
      using Known r(1) by (simp add: row_by_update_where)
    moreover have "replay_payload C (?f r) = Inr payload" "replayed_of (?f r) payload = msg"
      using r(3,4) by (simp_all add: replay_payload_def replayed_of_def)
    ultimately show ?thesis using r(2-4)
      by (cases "dead_letter_key r = dead_letter_key q") (auto simp: waiting_or_sent_def)
  next
    case New
    then show ?thesis using r by (auto simp: waiting_or_sent_def row_by_append)
  qed
qed (simp add: waiting_or_sent_def)

lemma waiting_kept_replay:
  assumes "replay C j operator now a broker db = (answer, sent, db')"
    and "waiting_or_sent C i msg (db, sent_log)"
  shows "waiting_or_sent C i msg (db', sent_log @ sent)"
  using assms(1)
proof (cases rule: replay_cases)
  case (Replayed row payload)
  show ?thesis
  proof (cases "i = j")
    case True
    then show ?thesis using assms(2) Replayed by (auto simp: waiting_or_sent_def)
  next
    case False
    then have "row_by dl_id i (dead_letters db') = row_by dl_id i (dead_letters db)"
      using Replayed(5) by (auto simp: mark_replayed_def intro!: row_by_update_other)
    then show ?thesis using assms(2) by (auto simp: waiting_or_sent_def)
  qed
qed (use assms(2) in \<open>auto simp: waiting_or_sent_def\<close>)

lemma waiting_kept_step:
  assumes "dead_letter_step C s s'" and "waiting_or_sent C i msg s"
  shows "waiting_or_sent C i msg s'"
  using assms
proof (cases rule: dead_letter_step.cases)
  case (record_failure m consumer err body x refused db out notices db' sent_log)
  show ?thesis
    using dead_letter_stored [OF record_failure(3)] waiting_kept_record assms(2) record_failure(1,2)
    by fastforce
next
  case (replay_row j operator now a broker db answer sent db' sent_log)
  then show ?thesis using waiting_kept_replay assms(2) by blast
next
  case (prune_rows db sent_log now)
  then show ?thesis using assms(2)
    by (auto simp: waiting_or_sent_def prune_dead_letters_def intro!: row_by_delete_where)
qed

lemma waiting_kept:
  assumes "(dead_letter_step C)\<^sup>*\<^sup>* s s'" and "waiting_or_sent C i msg s"
  shows "waiting_or_sent C i msg s'"
  using assms by (induction rule: rtranclp_induct) (auto intro: waiting_kept_step)

section \<open>Deliveries\<close>

text \<open>An acknowledged failure is in the dead letters.\<close>

lemma settle_failure:
  assumes "settle C max_deliveries m consumer (Some err) body y refused db = (Acknowledged, notices, db')"
  obtains protected r where "protected_payload C (sm_data m) = Inr protected" "dc_key C"
    "r = dead_letter_row_of C m consumer err body y protected"
    "keep_dead_letter r db = Inr db'" "notices = [notice_of C body y r]"
    "max_deliveries \<le> delivery_attempt m"
  using assms that
  by (auto simp: settle_def dead_letter_def Let_def
      split: if_splits prod.splits sum.splits option.splits)

lemma settle_acknowledged:
  assumes "settle C max_deliveries m consumer (Some err) body y refused db = (Acknowledged, notices, db')"
  shows "max_deliveries \<le> delivery_attempt m \<and> has_row dl_consumer consumer (dead_letters db')"
proof -
  obtain protected r where r: "r = dead_letter_row_of C m consumer err body y protected"
    "keep_dead_letter r db = Inr db'" "max_deliveries \<le> delivery_attempt m"
    by (rule settle_failure [OF assms])
  have c: "dl_consumer r = consumer" by (simp add: r(1) dead_letter_row_of_def split: prod.split)
  from r(2) have "has_row dl_consumer consumer (dead_letters db')"
  proof (cases rule: keep_dead_letter_cases)
    case Known
    have "has_row dl_consumer consumer (dead_letters db)"
      using Known(1) c by (auto simp: has_row_iff dead_letter_key_def image_iff)
    then show ?thesis by (simp add: Known(2) has_row_update_where)
  next
    case New
    then show ?thesis using c by simp
  qed
  then show ?thesis using r(3) by simp
qed

lemma acknowledged_failure:
  assumes "deliver_completion C max_deliveries m backend x y refused (rdb, db)
      = (Acknowledged, calls, notices, rdb', db')"
    and "process_completion C m backend x rdb = (body, Some err, calls', rdb1)"
  obtains protected r where "protected_payload C (sm_data m) = Inr protected" "dc_key C"
    "r = dead_letter_row_of C m completion_consumer err body y protected"
    "keep_dead_letter r db = Inr db'" "notices = [notice_of C body y r]"
    "max_deliveries \<le> delivery_attempt m"
proof -
  have "settle C max_deliveries m completion_consumer (Some err) body y refused db = (Acknowledged, notices, db')"
    using assms by (auto simp: deliver_completion_def split: prod.splits)
  from settle_failure [OF this] that show thesis by blast
qed

lemma protected_json:
  "dc_json C data = Decoded j \<Longrightarrow> protected_payload C data = Inr data"
  by (simp add: protected_payload_def)

text \<open>C11. A JSON message of the completion consumer that is not marked as malformed and whose identity has
  no dead letter yet is acknowledged after its failed last delivery only when its bytes are kept:
  whatever is recorded, replayed or pruned afterwards, either the dead letter still waits and a
  replay would publish exactly the bytes of the message under its subject and identity, and would do
  so once, or they were published already. (The cipher reads what it wrote.)\<close>

theorem dead_letter_kept:
  assumes "deliver_completion C max_deliveries m backend x y refused (rdb, db)
      = (Acknowledged, calls, notices, rdb', db')"
    and "process_completion C m backend x rdb = (body, Some err, calls', rdb1)"
    and "dc_json C (sm_data m) = Decoded j" and "marked_malformed j = Inr False"
    and "\<And>n p. dc_decrypt C (dc_encrypt C n p) = Some p"
    and "dead_letter_identity C (sm_data m) body = (event_id, kind)"
    and "\<not> has_row dead_letter_key (event_id, completion_consumer) (dead_letters db)"
    and "(dead_letter_step C)\<^sup>*\<^sup>* (db', sent_log) (later, later_log)"
  shows "let msg = \<lparr>rm_subject = take_chars 256 (sm_subject m), rm_data = sm_data m,
                     rm_event_id = event_id\<rparr> in
    msg \<in> set later_log \<or>
    (\<exists>i. \<forall>operator now a. \<not> has_row oa_id a (operator_audit later) \<longrightarrow>
       (\<exists>db2. replay C i operator now a Ack later = (Inr True, [msg], db2)
          \<and> (\<forall>op' now' a' broker. replay C i op' now' a' broker db2 = (Inr True, [], db2))))"
proof -
  let ?msg = "\<lparr>rm_subject = take_chars 256 (sm_subject m), rm_data = sm_data m, rm_event_id = event_id\<rparr>"
  obtain r where r: "dc_key C" "r = dead_letter_row_of C m completion_consumer err body y (sm_data m)"
    "keep_dead_letter r db = Inr db'"
    by (rule acknowledged_failure [OF assms(1,2)]) (use protected_json [OF assms(3)] in simp)
  have f: "dl_event_id r = event_id" "dl_consumer r = completion_consumer" "dl_replayed_at r = None"
    "dl_subject r = take_chars 256 (sm_subject m)" "dl_ciphertext r = dc_encrypt C (de_nonce y) (sm_data m)"
    using assms(6) by (simp_all add: r(2) dead_letter_row_of_def)
  have "row_by dl_id (dl_id r) (dead_letters db') = Some r"
    using r(3)
  proof (cases rule: keep_dead_letter_cases)
    case Known
    then show ?thesis using assms(7) f by (simp add: dead_letter_key_def)
  next
    case New
    then show ?thesis by (simp add: row_by_append has_row_def)
  qed
  moreover have p: "replay_payload C r = Inr (sm_data m)"
    using assms(3-5) r(1) by (simp add: replay_payload_def f)
  moreover have "replayed_of r (sm_data m) = ?msg" by (simp add: replayed_of_def f)
  ultimately have "waiting_or_sent C (dl_id r) ?msg (db', sent_log)"
    using waiting_or_sentI f(3) by metis
  then have "waiting_or_sent C (dl_id r) ?msg (later, later_log)"
    by (rule waiting_kept [OF assms(8)])
  then show ?thesis
    using replay_pending unfolding waiting_or_sent_def Let_def fst_conv snd_conv by metis
qed

text \<open>C12. A replayed message that fails again is lost. Its delivery is acknowledged, but the dead letter
  stays marked as replayed, so that every further replay reports success and publishes nothing, and
  retention deletes it 31 days after the first replay, however recently it failed.\<close>

theorem replayed_event_lost:
  assumes "deliver_completion C max_deliveries m backend x y refused (rdb, db)
      = (Acknowledged, calls, notices, rdb', db')"
    and "process_completion C m backend x rdb = (body, Some err, calls', rdb1)"
    and "dead_letter_identity C (sm_data m) body = (event_id, kind)"
    and "row_by dl_id i (dead_letters db) = Some r"
    and "dead_letter_key r = (event_id, completion_consumer)" and "dl_replayed_at r = Some t"
  shows "\<exists>r'. row_by dl_id i (dead_letters db') = Some r' \<and> dl_last_failed r' = de_now y
    \<and> dl_replayed_at r' = Some t \<and> dl_ciphertext r' = dl_ciphertext r
    \<and> (\<forall>operator now a broker. replay C i operator now a broker db' = (Inr True, [], db'))
    \<and> (\<forall>now. t < now - days 31 \<longrightarrow> r' \<notin> set (dead_letters (prune_dead_letters now db')))"
proof -
  obtain protected q where q: "q = dead_letter_row_of C m completion_consumer err body y protected"
    "keep_dead_letter q db = Inr db'"
    by (rule acknowledged_failure [OF assms(1,2)])
  have f: "dead_letter_key q = dead_letter_key r" "dl_last_failed q = de_now y"
    using assms(3,5) by (simp_all add: q(1) dead_letter_row_of_def dead_letter_key_def)
  let ?r = "r\<lparr>dl_attempts := max (dl_attempts r) (dl_attempts q),
              dl_error_code := dl_error_code q, dl_last_failed := dl_last_failed q\<rparr>"
  have known: "has_row dead_letter_key (dead_letter_key q) (dead_letters db)"
    using row_by_SomeD [OF assms(4)] f(1) by (auto simp: has_row_iff)
  have "row_by dl_id i (dead_letters db') = Some ?r"
    using q(2)
  proof (cases rule: keep_dead_letter_cases)
    case Known
    then show ?thesis using assms(4) f(1) by (simp add: row_by_update_where)
  qed (use known in simp)
  moreover from this have "replay C i operator now a broker db' = (Inr True, [], db')"
    for operator now a broker using assms(6) by (simp add: replay_def)
  ultimately show ?thesis using f(2) assms(6) by (intro exI [of _ ?r]) (simp add: prune_dead_letters_def)
qed

text \<open>A consumer stops exactly when a failure at the last delivery cannot be recorded and reported: the
  message is nested too deeply for \<open>json.loads\<close>, the key is not configured, the row is refused, or
  the broker does not take the diagnostic event.\<close>

lemma consumer_stops_iff:
  "fst (settle C max_deliveries m consumer outcome body x refused db) = Consumer_stopped \<longleftrightarrow>
    (\<exists>err. outcome = Some err \<and> max_deliveries \<le> delivery_attempt m \<and>
      (dc_json C (sm_data m) = Too_nested \<or> \<not> dc_key C \<or> refused \<noteq> None \<or>
       (\<exists>p. protected_payload C (sm_data m) = Inr p \<and>
          isl (keep_dead_letter (dead_letter_row_of C m consumer err body x p) db))))"
  by (cases outcome; cases "dc_json C (sm_data m)"; cases refused)
    (auto simp: settle_def dead_letter_def protected_payload_def Let_def split: sum.splits)

text \<open>Such a message is a poison: it stops every consumer that gets it.\<close>

lemma nested_message_stops:
  assumes "dc_json C (sm_data m) = Too_nested" and "max_deliveries \<le> delivery_attempt m"
  shows "deliver_completion C max_deliveries m backend x y refused s = (Consumer_stopped, [], [], s)"
  using assms
  by (cases s) (simp add: deliver_completion_def process_completion_def settle_def dead_letter_def
      protected_payload_def)

section \<open>Instances\<close>

text \<open>A message that is a JSON object with an identity and a type but no envelope. The cipher puts a
  byte before the text.\<close>

definition sample_body :: json where
  "sample_body = J_obj [(''id'', J_str ''e''), (''type'', J_str ''porfirium.run.result_proposed.v1'')]"

definition sample_codec :: dead_letter_codec where
  "sample_codec = \<lparr>dc_json = (\<lambda>s. if s = ''message'' then Decoded sample_body else Undecodable),
     dc_sha256 = (\<lambda>s. s), dc_uuid5 = length, dc_uuid = (\<lambda>v. if v = J_str ''e'' then Some 7 else None),
     dc_envelope = (\<lambda>_. (make_envelope 0 [] [] 0 0 0 0 0 0 sample_trace 0 empty_data)\<lparr>ev_id := Malformed\<rparr>),
     dc_key = True, dc_encrypt = (\<lambda>n s. CHR ''*'' # s),
     dc_decrypt = (\<lambda>s. case s of [] \<Rightarrow> None | _ # t \<Rightarrow> Some t)\<rparr>"

definition sample_failure :: stream_message where
  "sample_failure = \<lparr>sm_data = ''message'', sm_subject = ''porfirium.run.event.proposed'',
     sm_delivered = Some 5\<rparr>"

definition sample_dead_letter_env :: dead_letter_env where
  "sample_dead_letter_env = \<lparr>de_now = days 40, de_event_id = 9, de_nonce = 0\<rparr>"

definition sample_runner_env :: runner_env where
  "sample_runner_env = \<lparr>re_now = 0, re_first_event = 1, re_second_event = 2, re_bytes = 0\<rparr>"

definition no_dead_letters :: dead_letter_db where
  "no_dead_letters = \<lparr>dead_letters = [], operator_audit = []\<rparr>"

definition sample_row :: "instant \<Rightarrow> dead_letter_row" where
  "sample_row now = dead_letter_row_of sample_codec sample_failure completion_consumer
     event_validation_error (Some sample_body) (sample_dead_letter_env\<lparr>de_now := now\<rparr>) ''message''"

definition sample_replayed_row :: dead_letter_row where
  "sample_replayed_row = (sample_row 0)\<lparr>dl_replayed_at := Some (days 1), dl_replayed_by := Some ''operator''\<rparr>"

definition sample_delivery ::
  "dead_letter_db \<Rightarrow> settlement \<times> backend_call list \<times> dead_letter_notice list \<times> runner_db \<times> dead_letter_db" where
  "sample_delivery db = deliver_completion sample_codec 5 sample_failure Removed sample_runner_env
     sample_dead_letter_env None (empty_runner_db, db)"

lemma sample_processed:
  "process_completion sample_codec sample_failure Removed x rdb
     = (Some sample_body, Some event_validation_error, [], rdb)"
  by (simp add: process_completion_def sample_codec_def sample_failure_def sample_body_def
      completion_effect_def validate_envelope_def make_envelope_def)

lemma sample_identity:
  "dead_letter_identity sample_codec (sm_data sample_failure) (Some sample_body)
     = (7, ''porfirium.run.result_proposed.v1'')"
  by code_simp

lemma sample_decoded: "dc_json sample_codec (sm_data sample_failure) = Decoded sample_body"
  "marked_malformed sample_body = Inr False"
  "dc_decrypt sample_codec (dc_encrypt sample_codec n p) = Some p"
  by (simp_all add: sample_codec_def sample_failure_def sample_body_def marked_malformed_def)

lemma sample_row_ok: "dead_letter_row_ok (sample_row now)"
  using sample_identity
  by (simp add: dead_letter_row_ok_def sample_row_def dead_letter_row_of_def sample_failure_def
      completion_consumer_def event_validation_error_def delivery_attempt_def char_count_def
      continuation_byte_def eval_nat_numeral)

lemma sample_kept:
  assumes "keep_dead_letter (sample_row (days 40)) db = Inr db'"
  shows "\<exists>notices. sample_delivery db = (Acknowledged, [], notices, empty_runner_db, db')"
  using assms
  by (simp add: sample_delivery_def deliver_completion_def sample_processed settle_def dead_letter_def
      protected_json [OF sample_decoded(1)] sample_row_def Let_def)
    (simp add: sample_codec_def sample_failure_def sample_dead_letter_env_def delivery_attempt_def)

lemma dead_letter_kept_witness:
  "\<exists>db1. fst (sample_delivery no_dead_letters) = Acknowledged
    \<and> snd (snd (snd (snd (sample_delivery no_dead_letters)))) = db1
    \<and> (\<exists>i db2. replay sample_codec i ''operator'' 0 1 Ack (prune_dead_letters (days 400) db1)
      = (Inr True, [\<lparr>rm_subject = take_chars 256 (sm_subject sample_failure),
           rm_data = sm_data sample_failure, rm_event_id = 7\<rparr>], db2))"
proof -
  let ?db = "\<lparr>dead_letters = [sample_row (days 40)], operator_audit = []\<rparr>"
  have "keep_dead_letter (sample_row (days 40)) no_dead_letters = Inr ?db"
    by (simp add: keep_dead_letter_def sample_row_ok no_dead_letters_def)
  then obtain notices where d: "sample_delivery no_dead_letters = (Acknowledged, [], notices, empty_runner_db, ?db)"
    using sample_kept by blast
  have step: "(dead_letter_step sample_codec)\<^sup>*\<^sup>* (?db, []) (prune_dead_letters (days 400) ?db, [])"
    by (intro r_into_rtranclp prune_rows)
  have fresh: "\<not> has_row dead_letter_key (7, completion_consumer) (dead_letters no_dead_letters)"
    by (simp add: no_dead_letters_def)
  have "\<not> has_row oa_id 1 (operator_audit (prune_dead_letters (days 400) ?db))"
    by (simp add: prune_dead_letters_def)
  then show ?thesis
    using dead_letter_kept [OF d [unfolded sample_delivery_def] sample_processed sample_decoded
        sample_identity fresh step] d
    by (simp only: Let_def list.set empty_iff simp_thms fst_conv snd_conv) blast
qed

lemma replayed_event_lost_witness:
  "\<exists>db1. fst (sample_delivery \<lparr>dead_letters = [sample_replayed_row], operator_audit = []\<rparr>) = Acknowledged
    \<and> snd (snd (snd (snd (sample_delivery \<lparr>dead_letters = [sample_replayed_row], operator_audit = []\<rparr>)))) = db1
    \<and> replay sample_codec (dl_id sample_replayed_row) ''operator'' (days 41) 1 Ack db1 = (Inr True, [], db1)"
proof -
  let ?db = "\<lparr>dead_letters = [sample_replayed_row], operator_audit = []\<rparr>"
  have k: "dead_letter_key sample_replayed_row = (7, completion_consumer)"
    "dead_letter_key (sample_row now) = (7, completion_consumer)" for now
    using sample_identity by (simp_all add: dead_letter_key_def sample_replayed_row_def sample_row_def
        dead_letter_row_of_def)
  obtain db1 where "keep_dead_letter (sample_row (days 40)) ?db = Inr db1"
    using k by (simp add: keep_dead_letter_def sample_row_ok)
  then obtain notices where d: "sample_delivery ?db = (Acknowledged, [], notices, empty_runner_db, db1)"
    using sample_kept by blast
  have "row_by dl_id (dl_id sample_replayed_row) (dead_letters ?db) = Some sample_replayed_row"
    "dl_replayed_at sample_replayed_row = Some (days 1)"
    by (simp_all add: sample_replayed_row_def)
  from replayed_event_lost [OF d [unfolded sample_delivery_def] sample_processed sample_identity
      this(1) k(1) this(2)] d
  show ?thesis by auto
qed

end
