(* ===== verification/Conversation.thy ===== *)
theory Conversation
  imports Events Contracts Outbox
begin

text \<open>
  The Conversation Service: \<open>PostgresStore\<close> of \<open>conversation_service/store.py\<close> over the tables
  of \<open>migrations/\<close>, the completion check of \<open>domain.py\<close>, the HTTP handlers and the event stream
  of \<open>main.py\<close>, the consumer loop of \<open>messaging.py\<close> and \<open>retention.py\<close>.

  Every store method is one transaction. Hashes are parameters (\<open>digests\<close>): SHA-256 of a text,
  the digest of the canonical JSON of a request, and the name-based identity of an input request.
  Fresh identities, the clock and the size of an encoded event are arguments (\<open>conv_env\<close>).
  PostgreSQL's refusal of the NUL character in text columns is left out.
\<close>

section \<open>Tables\<close>

record conversation_row =
  v_conversation_id :: uuid
  v_owner_id :: uuid
  v_thread_id :: uuid
  v_release_id :: uuid
  v_configuration_revision_id :: "uuid option"
  v_title :: pystr
  v_last_sequence :: nat
  v_created_at :: instant
  v_updated_at :: instant
  v_delegation_grant_id :: "uuid option"

datatype message_role = User_role | Assistant_role | Progress_role | Ui_role

datatype message_status = Streaming | Completed | Interrupted | Failed

record message_row =
  m_message_id :: uuid
  m_conversation_id :: uuid
  m_run_id :: uuid
  m_role :: message_role
  m_status :: message_status
  m_content :: pystr
  m_finish_reason :: "pystr option"
  m_usage :: pystr
  m_created_at :: instant
  m_completed_at :: "instant option"

record chunk_row =
  h_message_id :: uuid
  h_sequence :: nat
  h_content :: pystr

datatype input_state = Reserved | Pending | Answered | Expired | Withdrawn

record input_row =
  q_input_request_id :: uuid
  q_conversation_id :: uuid
  q_run_id :: uuid
  q_suspension_id :: uuid
  q_checkpoint_id :: uuid
  q_prompt :: pystr
  q_schema :: pystr
  q_state :: input_state
  q_response :: "pystr option"
  q_response_run_id :: "uuid option"
  q_created_at :: instant
  q_answered_at :: "instant option"
  q_delegation_grant_id :: "uuid option"

text \<open>What \<open>message_json\<close> shows of a message, and the JSON data of a presentation event.\<close>

record message_view =
  mv_message_id :: uuid
  mv_run_id :: uuid
  mv_role :: message_role
  mv_status :: message_status
  mv_content :: pystr
  mv_created_at :: instant
  mv_completed_at :: "instant option"
  mv_finish_reason :: "pystr option"
  mv_usage :: pystr

definition message_json :: "message_row \<Rightarrow> message_view" where
  "message_json m = \<lparr>mv_message_id = m_message_id m, mv_run_id = m_run_id m, mv_role = m_role m,
     mv_status = m_status m, mv_content = m_content m, mv_created_at = m_created_at m,
     mv_completed_at = m_completed_at m, mv_finish_reason = m_finish_reason m,
     mv_usage = m_usage m\<rparr>"

datatype presentation_data =
    Message_shown message_view
  | Runtime_shown event_data
  | Input_shown uuid uuid uuid pystr pystr
  | Response_shown uuid

record presentation_row =
  s_conversation_id :: uuid
  s_sequence :: nat
  s_event_type :: pystr
  s_data :: presentation_data
  s_created_at :: instant

record request_row =
  i_owner_id :: uuid
  i_operation :: pystr
  i_key :: pystr
  i_request_sha256 :: pystr
  i_resource_id :: uuid
  i_sequence :: "nat option"

record proposal_result_row =
  rp_run_id :: uuid
  rp_event_id :: uuid
  rp_conversation_id :: uuid
  rp_final_message_ids :: "uuid list"
  rp_traceparent :: pystr
  rp_correlation_id :: uuid
  rp_causation_id :: uuid
  rp_confirmation_event_id :: "uuid option"

record commitment_row =
  sc_suspension_id :: uuid
  sc_event_id :: uuid
  sc_run_id :: uuid
  sc_checkpoint_id :: uuid
  sc_input_request_id :: uuid

text \<open>The \<open>porfirium.run.requested.v1\<close> command. The fields that only one of the two producers
  writes are options.\<close>

record run_requested =
  rr_specversion :: "pystr option"
  rr_source :: "pystr option"
  rr_subject :: "pystr option"
  rr_event_id :: uuid
  rr_user_id :: uuid
  rr_conversation_id :: uuid
  rr_thread_id :: uuid
  rr_release_id :: uuid
  rr_run_id :: uuid
  rr_message_id :: "uuid option"
  rr_trigger_type :: pystr
  rr_trigger_id :: uuid
  rr_value :: pystr
  rr_delegation_grant_id :: "uuid option"
  rr_configuration_revision_id :: "uuid option"
  rr_starting_checkpoint_id :: "uuid option"
  rr_trace_id :: pystr

datatype conversation_event = Run_requested run_requested | Messages_committed envelope

record conversation_db =
  conversations :: "conversation_row list"
  messages :: "message_row list"
  message_chunks :: "chunk_row list"
  input_requests :: "input_row list"
  presentation_events :: "presentation_row list"
  request_idempotency :: "request_row list"
  inbox_events :: "(uuid \<times> pystr \<times> instant) list"
  conversation_outbox :: "conversation_event outbox_row list"
  result_proposals :: "proposal_result_row list"
  suspension_commitments :: "commitment_row list"

definition empty_conversation_db :: conversation_db where
  "empty_conversation_db = \<lparr>conversations = [], messages = [], message_chunks = [],
     input_requests = [], presentation_events = [], request_idempotency = [], inbox_events = [],
     conversation_outbox = [], result_proposals = [], suspension_commitments = []\<rparr>"

section \<open>Requests, digests and environment\<close>

record conversation_payload =
  cp_title :: pystr
  cp_release_id :: uuid
  cp_thread_id :: uuid
  cp_configuration_revision_id :: "uuid option"

record message_payload =
  mp_message_id :: uuid
  mp_run_id :: uuid
  mp_content :: pystr
  mp_delegation_grant_id :: uuid

datatype conversation_request =
    Create_request conversation_payload
  | Message_request message_payload
  | Answer_request uuid pystr

record digests =
  dg_sha256 :: "pystr \<Rightarrow> pystr"
  dg_request :: "conversation_request \<Rightarrow> pystr"
  dg_input_id :: "uuid \<Rightarrow> uuid"

record conv_env =
  xe_now :: instant
  xe_fresh :: uuid
  xe_bytes :: nat

definition conversation_not_found :: exc where
  "conversation_not_found = Problem 404 ''conversation_not_found''"

definition idempotency_conflict :: exc where
  "idempotency_conflict = Problem 409 ''idempotency_conflict''"

definition suspension_conflict :: exc where
  "suspension_conflict = Problem 409 ''suspension_conflict''"

text \<open>Subscripting the payload and converting: a missing key and a failing conversion raise.\<close>

fun required_uuid :: "uuid fld \<Rightarrow> exc + uuid" where
  "required_uuid Missing = Inl Key_error"
| "required_uuid Malformed = Inl Value_error"
| "required_uuid (Good u) = Inr u"

text \<open>\<open>[UUID(str(value)) for value in values]\<close>.\<close>

fun parse_uuids :: "uuid fld list \<Rightarrow> exc + uuid list" where
  "parse_uuids [] = Inr []"
| "parse_uuids (Good u # us) = (case parse_uuids us of Inl e \<Rightarrow> Inl e | Inr vs \<Rightarrow> Inr (u # vs))"
| "parse_uuids (_ # us) = Inl Value_error"

section \<open>Shared steps\<close>

definition owned :: "uuid \<Rightarrow> uuid \<Rightarrow> conversation_db \<Rightarrow> exc + conversation_row" where
  "owned owner cid db =
     (case row_by v_conversation_id cid (conversations db) of
        None \<Rightarrow> Inl conversation_not_found
      | Some c \<Rightarrow> if v_owner_id c = owner then Inr c else Inl conversation_not_found)"

text \<open>\<open>_present\<close>: the counter of the conversation row is incremented and the event stored under
  its new value. A conversation that does not exist yields no sequence, which the column refuses.\<close>

definition present ::
  "uuid \<Rightarrow> pystr \<Rightarrow> presentation_data \<Rightarrow> instant \<Rightarrow> conversation_db
     \<Rightarrow> (nat, conversation_db) tx" where
  "present cid kind data now db =
     (case row_by v_conversation_id cid (conversations db) of
        None \<Rightarrow> Inl Check_violation
      | Some c \<Rightarrow>
          (let s = v_last_sequence c + 1 in
           if has_row (\<lambda>r. (s_conversation_id r, s_sequence r)) (cid, s) (presentation_events db)
           then Inl Unique_violation
           else Inr (s, db\<lparr>
             conversations := update_where (\<lambda>r. v_conversation_id r = cid)
               (\<lambda>r. r\<lparr>v_last_sequence := v_last_sequence r + 1, v_updated_at := now\<rparr>)
               (conversations db),
             presentation_events := presentation_events db @
               [\<lparr>s_conversation_id = cid, s_sequence = s, s_event_type = kind, s_data = data,
                 s_created_at = now\<rparr>]\<rparr>)))"

definition find_request ::
  "uuid \<Rightarrow> pystr \<Rightarrow> pystr \<Rightarrow> conversation_db \<Rightarrow> request_row option" where
  "find_request owner operation key db =
     row_by (\<lambda>r. (i_owner_id r, i_operation r, i_key r)) (owner, operation, key)
       (request_idempotency db)"

definition remember_request ::
  "uuid \<Rightarrow> pystr \<Rightarrow> pystr \<Rightarrow> pystr \<Rightarrow> uuid \<Rightarrow> nat option \<Rightarrow> conversation_db
     \<Rightarrow> conversation_db" where
  "remember_request owner operation key digest resource sequence db =
     db\<lparr>request_idempotency := request_idempotency db @
       [\<lparr>i_owner_id = owner, i_operation = operation, i_key = key, i_request_sha256 = digest,
         i_resource_id = resource, i_sequence = sequence\<rparr>]\<rparr>"

text \<open>\<open>INSERT INTO outbox_events\<close>: the identity is the primary key.\<close>

definition put_outbox ::
  "uuid \<Rightarrow> pystr \<Rightarrow> conversation_event \<Rightarrow> instant \<Rightarrow> conversation_db \<Rightarrow> exc + conversation_db" where
  "put_outbox event_id subject payload now db =
     (if has_row o_event_id event_id (conversation_outbox db) then Inl Unique_violation
      else Inr (db\<lparr>conversation_outbox := conversation_outbox db @
        [outbox_entry event_id subject payload now]\<rparr>))"

definition run_command_subject :: pystr where
  "run_command_subject = ''porfirium.run.command.requested''"

definition messages_committed_subject :: pystr where
  "messages_committed_subject = ''porfirium.run.event.messages_committed''"

section \<open>Commands of the user\<close>

definition create_conversation ::
  "digests \<Rightarrow> uuid \<Rightarrow> pystr \<Rightarrow> conversation_payload \<Rightarrow> conv_env \<Rightarrow> conversation_db
     \<Rightarrow> (conversation_row, conversation_db) tx" where
  "create_conversation H owner key q x db =
     (let digest = dg_request H (Create_request q); op = ''create_conversation'' in
      case find_request owner op key db of
        Some old \<Rightarrow>
          if i_request_sha256 old \<noteq> digest then Inl idempotency_conflict
          else (case row_by v_conversation_id (i_resource_id old) (conversations db) of
                  None \<Rightarrow> Inl Type_error | Some c \<Rightarrow> Inr (c, db))
      | None \<Rightarrow>
          (let c = \<lparr>v_conversation_id = xe_fresh x, v_owner_id = owner,
                 v_thread_id = cp_thread_id q, v_release_id = cp_release_id q,
                 v_configuration_revision_id = cp_configuration_revision_id q,
                 v_title = cp_title q, v_last_sequence = 0, v_created_at = xe_now x,
                 v_updated_at = xe_now x, v_delegation_grant_id = None\<rparr> in
           if char_count (cp_title q) < 1 \<or> 200 < char_count (cp_title q) then Inl Check_violation
           else if has_row v_conversation_id (xe_fresh x) (conversations db)
             \<or> has_row v_thread_id (cp_thread_id q) (conversations db)
           then Inl Unique_violation
           else Inr (c, remember_request owner op key digest (xe_fresh x) None
                  (db\<lparr>conversations := conversations db @ [c]\<rparr>))))"

definition message_operation :: "uuid \<Rightarrow> pystr" where
  "message_operation cid = ''message:'' @ uuid_str cid"

definition user_message :: "uuid \<Rightarrow> message_payload \<Rightarrow> instant \<Rightarrow> message_row" where
  "user_message cid q now = \<lparr>m_message_id = mp_message_id q, m_conversation_id = cid,
     m_run_id = mp_run_id q, m_role = User_role, m_status = Completed,
     m_content = mp_content q, m_finish_reason = None, m_usage = ''{}'', m_created_at = now,
     m_completed_at = Some now\<rparr>"

definition message_command :: "uuid \<Rightarrow> conversation_row \<Rightarrow> message_payload \<Rightarrow> uuid \<Rightarrow> run_requested" where
  "message_command owner c q event_id = \<lparr>rr_specversion = Some ''1.0'',
     rr_source = Some ''conversation-service'',
     rr_subject = Some (''conversation/'' @ uuid_str (v_conversation_id c)),
     rr_event_id = event_id, rr_user_id = owner, rr_conversation_id = v_conversation_id c,
     rr_thread_id = v_thread_id c, rr_release_id = v_release_id c, rr_run_id = mp_run_id q,
     rr_message_id = Some (mp_message_id q), rr_trigger_type = ''user_message'',
     rr_trigger_id = mp_message_id q, rr_value = mp_content q,
     rr_delegation_grant_id = Some (mp_delegation_grant_id q),
     rr_configuration_revision_id = v_configuration_revision_id c,
     rr_starting_checkpoint_id = None, rr_trace_id = uuid_hex event_id\<rparr>"

definition create_message ::
  "digests \<Rightarrow> uuid \<Rightarrow> uuid \<Rightarrow> pystr \<Rightarrow> message_payload \<Rightarrow> conv_env \<Rightarrow> conversation_db
     \<Rightarrow> (message_row \<times> nat, conversation_db) tx" where
  "create_message H owner cid key q x db =
     (let digest = dg_request H (Message_request q); op = message_operation cid; now = xe_now x in
      case owned owner cid db of
        Inl e \<Rightarrow> Inl e
      | Inr c \<Rightarrow>
        (case find_request owner op key db of
           Some old \<Rightarrow>
             if i_request_sha256 old \<noteq> digest then Inl idempotency_conflict
             else (case (row_by m_message_id (i_resource_id old) (messages db), i_sequence old) of
                     (Some m, Some s) \<Rightarrow> Inr ((m, s), db)
                   | _ \<Rightarrow> Inl Type_error)
         | None \<Rightarrow>
             if has_row m_message_id (mp_message_id q) (messages db)
             then Inl (Problem 409 ''message_exists'')
             else
               (let m = user_message cid q now;
                    db1 = db\<lparr>messages := messages db @ [m],
                      conversations := update_where (\<lambda>r. v_conversation_id r = cid)
                        (\<lambda>r. r\<lparr>v_delegation_grant_id := Some (mp_delegation_grant_id q)\<rparr>)
                        (conversations db)\<rparr> in
                case present cid ''message.completed'' (Message_shown (message_json m)) now db1 of
                  Inl e \<Rightarrow> Inl e
                | Inr (s, db2) \<Rightarrow>
                    (case put_outbox (xe_fresh x) run_command_subject
                            (Run_requested (message_command owner c q (xe_fresh x))) now db2 of
                       Inl e \<Rightarrow> Inl e
                     | Inr db3 \<Rightarrow>
                         Inr ((m, s), remember_request owner op key digest (mp_message_id q)
                                (Some s) db3)))))"

definition input_operation :: "uuid \<Rightarrow> pystr" where
  "input_operation rid = ''input:'' @ uuid_str rid"

definition answer_command ::
  "uuid \<Rightarrow> conversation_row \<Rightarrow> input_row \<Rightarrow> uuid \<Rightarrow> pystr \<Rightarrow> uuid \<Rightarrow> run_requested" where
  "answer_command owner c r run response event_id = \<lparr>rr_specversion = None, rr_source = None,
     rr_subject = None, rr_event_id = event_id, rr_user_id = owner,
     rr_conversation_id = q_conversation_id r, rr_thread_id = v_thread_id c,
     rr_release_id = v_release_id c, rr_run_id = run, rr_message_id = None,
     rr_trigger_type = ''user_response'', rr_trigger_id = q_input_request_id r,
     rr_value = response, rr_delegation_grant_id = q_delegation_grant_id r,
     rr_configuration_revision_id = v_configuration_revision_id c,
     rr_starting_checkpoint_id = Some (q_checkpoint_id r), rr_trace_id = uuid_hex event_id\<rparr>"

definition answer_input ::
  "digests \<Rightarrow> uuid \<Rightarrow> uuid \<Rightarrow> pystr \<Rightarrow> uuid \<Rightarrow> pystr \<Rightarrow> conv_env \<Rightarrow> conversation_db
     \<Rightarrow> (uuid \<times> nat, conversation_db) tx" where
  "answer_input H owner rid key run response x db =
     (let digest = dg_request H (Answer_request run response); op = input_operation rid;
          now = xe_now x; missing = Inl (Problem 404 ''input_request_not_found'') in
      case row_by q_input_request_id rid (input_requests db) of
        None \<Rightarrow> missing
      | Some r \<Rightarrow>
        (case row_by v_conversation_id (q_conversation_id r) (conversations db) of
           None \<Rightarrow> missing
         | Some c \<Rightarrow>
             if v_owner_id c \<noteq> owner then missing
             else
               (case find_request owner op key db of
                  Some old \<Rightarrow>
                    if i_request_sha256 old \<noteq> digest then Inl idempotency_conflict
                    else (case i_sequence old of None \<Rightarrow> Inl Type_error | Some s \<Rightarrow> Inr ((rid, s), db))
                | None \<Rightarrow>
                    if q_state r \<noteq> Pending then Inl (Problem 409 ''input_already_answered'')
                    else
                      (let db1 = db\<lparr>input_requests :=
                             update_where (\<lambda>i. q_input_request_id i = rid)
                               (\<lambda>i. i\<lparr>q_state := Answered, q_response := Some response,
                                   q_response_run_id := Some run, q_answered_at := Some now\<rparr>)
                               (input_requests db)\<rparr> in
                       case present (q_conversation_id r) ''input.response.accepted''
                              (Response_shown rid) now db1 of
                         Inl e \<Rightarrow> Inl e
                       | Inr (s, db2) \<Rightarrow>
                           (case put_outbox (xe_fresh x) run_command_subject
                               (Run_requested (answer_command owner c r run response (xe_fresh x)))
                               now db2 of
                              Inl e \<Rightarrow> Inl e
                            | Inr db3 \<Rightarrow>
                                Inr ((rid, s), remember_request owner op key digest rid (Some s)
                                       db3))))))"

section \<open>Reading\<close>

definition list_conversations :: "uuid \<Rightarrow> conversation_db \<Rightarrow> conversation_row list" where
  "list_conversations owner db =
     sort_key (\<lambda>c. - v_updated_at c) (filter (\<lambda>c. v_owner_id c = owner) (conversations db))"

definition projection ::
  "uuid \<Rightarrow> uuid \<Rightarrow> conversation_db
     \<Rightarrow> exc + (conversation_row \<times> message_row list \<times> input_row list)" where
  "projection owner cid db =
     (case owned owner cid db of
        Inl e \<Rightarrow> Inl e
      | Inr c \<Rightarrow> Inr (c,
          sort_key (\<lambda>m. (m_created_at m, m_message_id m))
            (filter (\<lambda>m. m_conversation_id m = cid) (messages db)),
          sort_key (\<lambda>r. (q_created_at r, q_input_request_id r))
            (filter (\<lambda>r. q_conversation_id r = cid) (input_requests db))))"

definition replay ::
  "uuid \<Rightarrow> uuid \<Rightarrow> nat \<Rightarrow> nat \<Rightarrow> conversation_db \<Rightarrow> exc + presentation_row list" where
  "replay owner cid after limit db =
     (case owned owner cid db of
        Inl e \<Rightarrow> Inl e
      | Inr _ \<Rightarrow> Inr (take limit (sort_key s_sequence
          (filter (\<lambda>r. s_conversation_id r = cid \<and> after < s_sequence r)
            (presentation_events db)))))"

text \<open>The generator of \<open>conversation_events\<close>: one replay of at most 1000 events per poll, the
  cursor moved to the last event sent. The database is read afresh at each poll, so the argument
  is the list of states the polls see. The result is the events sent and the cursor; a poll that
  raises ends the stream.\<close>

definition replay_limit :: nat where
  "replay_limit = 1000"

fun event_stream ::
  "uuid \<Rightarrow> uuid \<Rightarrow> nat \<Rightarrow> conversation_db list \<Rightarrow> presentation_row list \<times> nat" where
  "event_stream owner cid cursor [] = ([], cursor)"
| "event_stream owner cid cursor (db # dbs) =
     (case replay owner cid cursor replay_limit db of
        Inl e \<Rightarrow> ([], cursor)
      | Inr batch \<Rightarrow>
          (let cursor' = (if batch = [] then cursor else s_sequence (last batch)) in
           case event_stream owner cid cursor' dbs of (rest, c) \<Rightarrow> (batch @ rest, c)))"

end
