(* ===== verification/ConversationProjection.thy ===== *)
theory ConversationProjection
  imports Conversation
begin

text \<open>
  How the Conversation Service projects runtime events: \<open>validate_completion\<close> of \<open>domain.py\<close>,
  \<open>project\<close>, \<open>_reconcile_suspension\<close>, \<open>_confirm_messages\<close> and \<open>_require_streaming\<close> of \<open>store.py\<close>,
  the consumer loop of \<open>messaging.py\<close>, the request bodies of \<open>main.py\<close> and \<open>retention.py\<close>.
\<close>

section \<open>Completion of a streamed message\<close>

definition max_message_bytes :: nat where
  "max_message_bytes = 256 * 1024"

definition max_chunks :: int where
  "max_chunks = 65536"

text \<open>\<open>chunks\<close> is the dictionary from chunk sequence to content, as an association list.\<close>

definition chunk_of :: "(nat \<times> pystr) list \<Rightarrow> nat \<Rightarrow> pystr" where
  "chunk_of chunks i = (case map_of chunks i of None \<Rightarrow> [] | Some s \<Rightarrow> s)"

definition validate_completion ::
  "(pystr \<Rightarrow> pystr) \<Rightarrow> event_data \<Rightarrow> (nat \<times> pystr) list \<Rightarrow> exc + pystr" where
  "validate_completion sha data chunks =
     (case (d_content data, d_content_bytes data, d_chunk_count data, d_content_sha256 data) of
        (Some content, Good content_bytes, Good chunk_count, Some digest) \<Rightarrow>
          if max_message_bytes < length content \<or> \<not> (0 \<le> chunk_count \<and> chunk_count \<le> max_chunks)
          then Inl (Problem 422 ''completion_invalid'')
          else if int (length content) \<noteq> content_bytes \<or> sha content \<noteq> digest
          then Inl (Problem 422 ''completion_invalid'')
          else if int (length chunks) \<noteq> chunk_count
            \<or> sort (map fst chunks) \<noteq> [1..<nat chunk_count + 1]
          then Inl (Problem 409 ''completion_incomplete'')
          else if concat (map (chunk_of chunks) [1..<nat chunk_count + 1]) \<noteq> content
          then Inl (Problem 409 ''completion_mismatch'')
          else Inr content
      | _ \<Rightarrow> Inl (Problem 422 ''completion_invalid''))"

definition chunks_of :: "uuid \<Rightarrow> conversation_db \<Rightarrow> chunk_row list" where
  "chunks_of mid db = filter (\<lambda>h. h_message_id h = mid) (message_chunks db)"

text \<open>The chunks joined in the order of their sequence.\<close>

definition joined_chunks :: "uuid \<Rightarrow> conversation_db \<Rightarrow> pystr" where
  "joined_chunks mid db = concat (map h_content (sort_key h_sequence (chunks_of mid db)))"

text \<open>\<open>_require_streaming\<close>: the identity is optional, a missing one selects no row.\<close>

definition require_streaming :: "uuid option \<Rightarrow> uuid \<Rightarrow> conversation_db \<Rightarrow> exc + uuid" where
  "require_streaming mid cid db =
     (case mid of
        None \<Rightarrow> Inl (Problem 409 ''message_not_started'')
      | Some i \<Rightarrow>
          (case row_by m_message_id i (messages db) of
             None \<Rightarrow> Inl (Problem 409 ''message_not_started'')
           | Some m \<Rightarrow>
               if m_conversation_id m \<noteq> cid then Inl (Problem 409 ''message_not_started'')
               else if m_status m \<noteq> Streaming then Inl (Problem 409 ''message_terminal'')
               else Inr i))"

section \<open>Confirmation of the final messages\<close>

text \<open>\<open>SELECT count(*) FROM messages WHERE run_id=$1 AND message_id=ANY(ids) AND
  status='completed'\<close>, optionally within one conversation.\<close>

definition completed_count :: "uuid option \<Rightarrow> uuid \<Rightarrow> uuid list \<Rightarrow> conversation_db \<Rightarrow> nat" where
  "completed_count cid run ids db =
     count_where (\<lambda>m. (case cid of None \<Rightarrow> True | Some c \<Rightarrow> m_conversation_id m = c)
        \<and> m_run_id m = run \<and> m_message_id m \<in> set ids \<and> m_status m = Completed) (messages db)"

definition last_presented :: "uuid \<Rightarrow> conversation_db \<Rightarrow> nat" where
  "last_presented cid db =
     max_of s_sequence (filter (\<lambda>r. s_conversation_id r = cid) (presentation_events db))"

definition committed_messages_event ::
  "proposal_result_row \<Rightarrow> conversation_row \<Rightarrow> uuid list \<Rightarrow> nat \<Rightarrow> conv_env \<Rightarrow> envelope" where
  "committed_messages_event p c ids s x =
     make_envelope (xe_bytes x) ''conversation-service'' ''porfirium.run.messages_committed.v1''
       (xe_fresh x) (xe_now x) (v_owner_id c) (rp_conversation_id p) (v_thread_id c) (rp_run_id p)
       (uuid_hex (rp_correlation_id p)) (rp_event_id p)
       (empty_data\<lparr>d_run_id := Good (rp_run_id p), d_message_ids := map Good ids,
          d_conversation_sequence := Good (max 1 (int s))\<rparr>)"

definition confirm_messages ::
  "uuid \<Rightarrow> uuid list \<Rightarrow> conv_env \<Rightarrow> conversation_db \<Rightarrow> exc + conversation_db" where
  "confirm_messages run ids x db =
     (case row_by rp_run_id run (result_proposals db) of
        None \<Rightarrow> Inl Type_error
      | Some p \<Rightarrow>
        (case row_by v_conversation_id (rp_conversation_id p) (conversations db) of
           None \<Rightarrow> Inl Type_error
         | Some c \<Rightarrow>
             if rp_confirmation_event_id p \<noteq> None then Inr db
             else
               (case put_outbox (xe_fresh x) messages_committed_subject
                   (Messages_committed (committed_messages_event p c ids
                     (last_presented (rp_conversation_id p) db) x)) (xe_now x) db of
                  Inl e \<Rightarrow> Inl e
                | Inr db1 \<Rightarrow> Inr (db1\<lparr>result_proposals :=
                    update_where (\<lambda>r. rp_run_id r = run)
                      (\<lambda>r. r\<lparr>rp_confirmation_event_id := Some (xe_fresh x)\<rparr>)
                      (result_proposals db1)\<rparr>))))"

section \<open>The suspension saga\<close>

text \<open>\<open>_reconcile_suspension\<close>: the reserved input request becomes pending once the commitment of
  its suspension is stored too, whichever came first.\<close>

definition reconcile_suspension ::
  "uuid \<Rightarrow> instant \<Rightarrow> conversation_db \<Rightarrow> (nat option, conversation_db) tx" where
  "reconcile_suspension susp now db =
     (case (row_by q_suspension_id susp (input_requests db),
            row_by sc_suspension_id susp (suspension_commitments db)) of
        (Some r, Some c) \<Rightarrow>
          if q_input_request_id r \<noteq> sc_input_request_id c \<or> q_checkpoint_id r \<noteq> sc_checkpoint_id c
            \<or> q_run_id r \<noteq> sc_run_id c
          then Inl suspension_conflict
          else if q_state r \<noteq> Reserved then Inr (None, db)
          else
            (case present (q_conversation_id r) ''input.request_created''
                (Input_shown (q_input_request_id r) susp (q_checkpoint_id r) (q_prompt r)
                  (q_schema r)) now
                (db\<lparr>input_requests := update_where (\<lambda>i. q_suspension_id i = susp)
                   (\<lambda>i. i\<lparr>q_state := Pending\<rparr>) (input_requests db)\<rparr>) of
               Inl e \<Rightarrow> Inl e
             | Inr (s, db1) \<Rightarrow> Inr (Some s, db1))
      | _ \<Rightarrow> Inr (None, db))"

section \<open>Projection of one event\<close>

text \<open>The identities \<open>project\<close> has parsed, with the event's type.\<close>

record parsed_event =
  pe_event_id :: uuid
  pe_conversation_id :: uuid
  pe_run_id :: uuid
  pe_correlation_id :: uuid
  pe_causation_id :: uuid
  pe_traceparent :: pystr
  pe_kind :: pystr
  pe_message_id :: "uuid option"

text \<open>The branches store rows and call \<open>_present\<close> at the end; the result is the sequence of the
  event presented, if any.\<close>

definition show_event ::
  "parsed_event \<Rightarrow> event_data \<Rightarrow> conv_env \<Rightarrow> conversation_db \<Rightarrow> (nat option, conversation_db) tx" where
  "show_event pe data x db =
     (case present (pe_conversation_id pe) (pe_kind pe) (Runtime_shown data) (xe_now x) db of
        Inl e \<Rightarrow> Inl e | Inr (s, db1) \<Rightarrow> Inr (Some s, db1))"

text \<open>\<open>INSERT INTO result_proposals ... ON CONFLICT(run_id) DO NOTHING\<close> and the insert of a
  commitment: each table has a second unique key, the event identity.\<close>

definition record_proposal ::
  "parsed_event \<Rightarrow> uuid list \<Rightarrow> conversation_db \<Rightarrow> conversation_db" where
  "record_proposal pe ids db =
     (if has_row rp_run_id (pe_run_id pe) (result_proposals db) then db
      else db\<lparr>result_proposals := result_proposals db @
        [\<lparr>rp_run_id = pe_run_id pe, rp_event_id = pe_event_id pe,
          rp_conversation_id = pe_conversation_id pe, rp_final_message_ids = ids,
          rp_traceparent = pe_traceparent pe, rp_correlation_id = pe_correlation_id pe,
          rp_causation_id = pe_causation_id pe, rp_confirmation_event_id = None\<rparr>]\<rparr>)"

definition project_result ::
  "parsed_event \<Rightarrow> event_data \<Rightarrow> conv_env \<Rightarrow> conversation_db \<Rightarrow> (nat option, conversation_db) tx" where
  "project_result pe data x db =
     (case parse_uuids (d_final_message_ids data) of
        Inl e \<Rightarrow> Inl e
      | Inr ids \<Rightarrow>
          if ids = [] \<or> ''messages'' \<notin> set (d_required_confirmations data) then Inr (None, db)
          else if \<not> has_row rp_run_id (pe_run_id pe) (result_proposals db)
            \<and> has_row rp_event_id (pe_event_id pe) (result_proposals db) then Inl Unique_violation
          else
            (case (if completed_count (Some (pe_conversation_id pe)) (pe_run_id pe) ids db
                      = length ids
                   then confirm_messages (pe_run_id pe) ids x (record_proposal pe ids db)
                   else Inr (record_proposal pe ids db)) of
               Inl e \<Rightarrow> Inl e
             | Inr db2 \<Rightarrow> show_event pe data x db2))"

definition record_commitment ::
  "parsed_event \<Rightarrow> uuid \<Rightarrow> uuid \<Rightarrow> uuid \<Rightarrow> conversation_db \<Rightarrow> conversation_db" where
  "record_commitment pe susp ckpt rid db =
     (if has_row sc_suspension_id susp (suspension_commitments db) then db
      else db\<lparr>suspension_commitments := suspension_commitments db @
        [\<lparr>sc_suspension_id = susp, sc_event_id = pe_event_id pe, sc_run_id = pe_run_id pe,
          sc_checkpoint_id = ckpt, sc_input_request_id = rid\<rparr>]\<rparr>)"

definition project_suspension ::
  "parsed_event \<Rightarrow> event_data \<Rightarrow> conv_env \<Rightarrow> conversation_db \<Rightarrow> (nat option, conversation_db) tx" where
  "project_suspension pe data x db =
     (case (required_uuid (d_suspension_id data), required_uuid (d_checkpoint_id data),
            required_uuid (d_input_request_id data)) of
        (Inr susp, Inr ckpt, Inr rid) \<Rightarrow>
          if \<not> has_row sc_suspension_id susp (suspension_commitments db)
            \<and> has_row sc_event_id (pe_event_id pe) (suspension_commitments db)
          then Inl Unique_violation
          else
            (case row_by sc_suspension_id susp
                (suspension_commitments (record_commitment pe susp ckpt rid db)) of
               None \<Rightarrow> Inl Type_error
             | Some c \<Rightarrow>
                 if sc_run_id c \<noteq> pe_run_id pe \<or> sc_checkpoint_id c \<noteq> ckpt
                   \<or> sc_input_request_id c \<noteq> rid
                 then Inl suspension_conflict
                 else reconcile_suspension susp (xe_now x)
                        (record_commitment pe susp ckpt rid db))
      | (Inl e, _, _) \<Rightarrow> Inl e
      | (_, Inl e, _) \<Rightarrow> Inl e
      | (_, _, Inl e) \<Rightarrow> Inl e)"

definition streaming_message :: "parsed_event \<Rightarrow> uuid \<Rightarrow> instant \<Rightarrow> message_row" where
  "streaming_message pe mid now = \<lparr>m_message_id = mid,
     m_conversation_id = pe_conversation_id pe, m_run_id = pe_run_id pe,
     m_role = Assistant_role, m_status = Streaming, m_content = [], m_finish_reason = None,
     m_usage = ''{}'', m_created_at = now, m_completed_at = None\<rparr>"

definition project_started ::
  "parsed_event \<Rightarrow> event_data \<Rightarrow> conv_env \<Rightarrow> conversation_db \<Rightarrow> (nat option, conversation_db) tx" where
  "project_started pe data x db =
     (case pe_message_id pe of
        None \<Rightarrow> Inl Check_violation
      | Some mid \<Rightarrow>
          show_event pe data x
            (if has_row m_message_id mid (messages db) then db
             else db\<lparr>messages := messages db @ [streaming_message pe mid (xe_now x)]\<rparr>))"

text \<open>The checks on a delta, with the defaults of \<open>data.get\<close>. A chunk sequence outside the
  32-bit column is refused by the driver.\<close>

definition max_chunk_sequence :: int where
  "max_chunk_sequence = 2 ^ 31 - 1"

definition max_delta_bytes :: nat where
  "max_delta_bytes = 4096"

definition parse_delta :: "event_data \<Rightarrow> exc + (nat \<times> pystr)" where
  "parse_delta data =
     (case (d_chunk_sequence data, d_content data) of
        (Malformed, _) \<Rightarrow> Inl Value_error
      | (Good chunk, Some content) \<Rightarrow>
          if chunk < 1 \<or> content = [] \<or> max_delta_bytes < length content
          then Inl (Problem 422 ''delta_invalid'')
          else if max_chunk_sequence < chunk then Inl Value_error
          else Inr (nat chunk, content)
      | _ \<Rightarrow> Inl (Problem 422 ''delta_invalid''))"

definition project_delta ::
  "parsed_event \<Rightarrow> event_data \<Rightarrow> conv_env \<Rightarrow> conversation_db \<Rightarrow> (nat option, conversation_db) tx" where
  "project_delta pe data x db =
     (case require_streaming (pe_message_id pe) (pe_conversation_id pe) db of
        Inl e \<Rightarrow> Inl e
      | Inr mid \<Rightarrow>
        (case parse_delta data of
           Inl e \<Rightarrow> Inl e
         | Inr (chunk, content) \<Rightarrow>
             (case row_by h_sequence chunk (chunks_of mid db) of
                Some old \<Rightarrow>
                  if h_content old \<noteq> content then Inl (Problem 409 ''delta_conflict'')
                  else show_event pe data x db
              | None \<Rightarrow>
                  show_event pe data x (db\<lparr>message_chunks := message_chunks db @
                    [\<lparr>h_message_id = mid, h_sequence = chunk, h_content = content\<rparr>]\<rparr>))))"

definition finish_message ::
  "uuid \<Rightarrow> message_status \<Rightarrow> pystr \<Rightarrow> (pystr \<times> pystr) option \<Rightarrow> instant \<Rightarrow> conversation_db
     \<Rightarrow> conversation_db" where
  "finish_message mid status content meta now db =
     db\<lparr>messages := update_where (\<lambda>m. m_message_id m = mid)
       (\<lambda>m. (case meta of
               None \<Rightarrow> m
             | Some (reason, usage) \<Rightarrow> m\<lparr>m_finish_reason := Some reason, m_usage := usage\<rparr>)
            \<lparr>m_status := status, m_content := content, m_completed_at := Some now\<rparr>)
       (messages db)\<rparr>"

definition confirm_if_complete ::
  "uuid \<Rightarrow> conv_env \<Rightarrow> conversation_db \<Rightarrow> exc + conversation_db" where
  "confirm_if_complete run x db =
     (case row_by rp_run_id run (result_proposals db) of
        None \<Rightarrow> Inr db
      | Some p \<Rightarrow>
          if completed_count None run (rp_final_message_ids p) db = length (rp_final_message_ids p)
          then confirm_messages run (rp_final_message_ids p) x db
          else Inr db)"

definition project_completed ::
  "digests \<Rightarrow> parsed_event \<Rightarrow> event_data \<Rightarrow> conv_env \<Rightarrow> conversation_db
     \<Rightarrow> (nat option, conversation_db) tx" where
  "project_completed H pe data x db =
     (case require_streaming (pe_message_id pe) (pe_conversation_id pe) db of
        Inl e \<Rightarrow> Inl e
      | Inr mid \<Rightarrow>
        (case validate_completion (dg_sha256 H) data
            (map (\<lambda>h. (h_sequence h, h_content h)) (chunks_of mid db)) of
           Inl e \<Rightarrow> Inl e
         | Inr content \<Rightarrow>
             (let reason = (case d_finish_reason data of None \<Rightarrow> ''stop'' | Some r \<Rightarrow> r) in
              case confirm_if_complete (pe_run_id pe) x
                  (finish_message mid Completed content (Some (reason, d_usage data)) (xe_now x)
                    db) of
                Inl e \<Rightarrow> Inl e
              | Inr db1 \<Rightarrow> show_event pe data x db1)))"

definition project_ended ::
  "message_status \<Rightarrow> parsed_event \<Rightarrow> event_data \<Rightarrow> conv_env \<Rightarrow> conversation_db
     \<Rightarrow> (nat option, conversation_db) tx" where
  "project_ended status pe data x db =
     (case require_streaming (pe_message_id pe) (pe_conversation_id pe) db of
        Inl e \<Rightarrow> Inl e
      | Inr mid \<Rightarrow>
          show_event pe data x
            (finish_message mid status (joined_chunks mid db) None (xe_now x) db))"

definition new_input :: "digests \<Rightarrow> parsed_event \<Rightarrow> event_data \<Rightarrow> uuid \<Rightarrow> uuid \<Rightarrow> pystr \<Rightarrow> conv_env
     \<Rightarrow> conversation_db \<Rightarrow> input_row" where
  "new_input H pe data susp ckpt prompt x db =
     \<lparr>q_input_request_id = dg_input_id H susp, q_conversation_id = pe_conversation_id pe,
      q_run_id = pe_run_id pe, q_suspension_id = susp, q_checkpoint_id = ckpt,
      q_prompt = prompt, q_schema = d_schema data, q_state = Reserved,
      q_response = None, q_response_run_id = None, q_created_at = xe_now x,
      q_answered_at = None,
      q_delegation_grant_id =
        (case row_by v_conversation_id (pe_conversation_id pe) (conversations db) of
           None \<Rightarrow> None | Some c \<Rightarrow> v_delegation_grant_id c)\<rparr>"

definition project_input ::
  "digests \<Rightarrow> parsed_event \<Rightarrow> event_data \<Rightarrow> conv_env \<Rightarrow> conversation_db
     \<Rightarrow> (nat option, conversation_db) tx" where
  "project_input H pe data x db =
     (case (required_uuid (d_suspension_id data), required_uuid (d_checkpoint_id data),
            d_prompt data) of
        (Inl e, _, _) \<Rightarrow> Inl e
      | (_, Inl e, _) \<Rightarrow> Inl e
      | (_, _, None) \<Rightarrow> Inl Key_error
      | (Inr susp, Inr ckpt, Some prompt) \<Rightarrow>
          if has_row q_suspension_id susp (input_requests db)
          then reconcile_suspension susp (xe_now x) db
          else if has_row q_input_request_id (dg_input_id H susp) (input_requests db)
          then Inl Unique_violation
          else reconcile_suspension susp (xe_now x)
            (db\<lparr>input_requests := input_requests db @
               [new_input H pe data susp ckpt prompt x db]\<rparr>))"

definition project_effect ::
  "digests \<Rightarrow> parsed_event \<Rightarrow> event_data \<Rightarrow> conv_env \<Rightarrow> conversation_db
     \<Rightarrow> (nat option, conversation_db) tx" where
  "project_effect H pe data x db =
     (let kind = pe_kind pe in
      if kind = ''porfirium.run.result_proposed.v1'' then project_result pe data x db
      else if kind = ''porfirium.run.suspension_committed.v1'' then project_suspension pe data x db
      else if kind = ''porfirium.message.started.v1'' then project_started pe data x db
      else if kind = ''porfirium.message.delta.v1'' then project_delta pe data x db
      else if kind = ''porfirium.message.completed.v1'' then project_completed H pe data x db
      else if kind = ''porfirium.message.interrupted.v1'' then
        project_ended Interrupted pe data x db
      else if kind = ''porfirium.message.failed.v1'' then project_ended Failed pe data x db
      else if kind = ''porfirium.input.request_proposed.v1'' then project_input H pe data x db
      else Inl (Problem 422 ''event_unsupported''))"

text \<open>\<open>project\<close>: validation, the inbox, ownership and thread of the conversation, the branch of
  the event's type, and the inbox row. \<open>None\<close> stands for an event that is presented nowhere.\<close>

definition project ::
  "digests \<Rightarrow> envelope \<Rightarrow> conv_env \<Rightarrow> conversation_db \<Rightarrow> (nat option, conversation_db) tx" where
  "project H e x db =
     (if \<not> validate_event_envelope e then Inl conversation_event_invalid
      else
        (case (ev_id e, ev_conversation_id e, ev_user_id e, ev_run_id e, ev_thread_id e,
               ev_correlation_id e, ev_causation_id e, ev_traceparent e, ev_type e, ev_data e) of
           (Good event_id, Good cid, Good owner, Good run, Good thread, Good corr, Good cause,
            Some tp, Some kind, Some data) \<Rightarrow>
             if has_row fst event_id (inbox_events db) then Inr (None, db)
             else
               (case owned owner cid db of
                  Inl err \<Rightarrow> Inl err
                | Inr c \<Rightarrow>
                    if thread \<noteq> v_thread_id c then Inl conversation_event_invalid
                    else if d_message_id data = Malformed then Inl Value_error
                    else
                      (case project_effect H
                          \<lparr>pe_event_id = event_id, pe_conversation_id = cid, pe_run_id = run,
                           pe_correlation_id = corr, pe_causation_id = cause,
                           pe_traceparent = tp, pe_kind = kind,
                           pe_message_id = fld_value (d_message_id data)\<rparr> data x db of
                         Inl err \<Rightarrow> Inl err
                       | Inr (out, db1) \<Rightarrow>
                           Inr (out, db1\<lparr>inbox_events :=
                             inbox_events db1 @ [(event_id, kind, xe_now x)]\<rparr>)))
         | _ \<Rightarrow> Inl conversation_event_invalid))"

text \<open>One delivery of \<open>consume_runtime_events\<close>: acknowledged when the projection commits,
  refused (and redelivered) when it raises.\<close>

definition consume_runtime_event ::
  "digests \<Rightarrow> envelope \<Rightarrow> conv_env \<Rightarrow> conversation_db \<Rightarrow> bool \<times> conversation_db" where
  "consume_runtime_event H e x db =
     (case project H e x db of Inl _ \<Rightarrow> (False, db) | Inr (_, db') \<Rightarrow> (True, db'))"

section \<open>Request bodies\<close>

text \<open>The bounds the request models and headers of \<open>main.py\<close> put on a request; a request that
  breaks them is answered 422 before the store is called.\<close>

definition request_invalid :: exc where
  "request_invalid = Problem 422 ''request_invalid''"

definition idempotency_key_ok :: "pystr \<Rightarrow> bool" where
  "idempotency_key_ok key \<longleftrightarrow> 8 \<le> char_count key \<and> char_count key \<le> 128"

definition api_create_conversation ::
  "digests \<Rightarrow> uuid \<Rightarrow> pystr \<Rightarrow> conversation_payload \<Rightarrow> conv_env \<Rightarrow> conversation_db
     \<Rightarrow> (conversation_row, conversation_db) tx" where
  "api_create_conversation H owner key q x db =
     (if idempotency_key_ok key \<and> 1 \<le> char_count (cp_title q) \<and> char_count (cp_title q) \<le> 200
      then create_conversation H owner key q x db else Inl request_invalid)"

definition api_create_message ::
  "digests \<Rightarrow> uuid \<Rightarrow> uuid \<Rightarrow> pystr \<Rightarrow> message_payload \<Rightarrow> conv_env \<Rightarrow> conversation_db
     \<Rightarrow> (uuid \<times> uuid \<times> nat, conversation_db) tx" where
  "api_create_message H owner cid key q x db =
     (if idempotency_key_ok key \<and> 1 \<le> char_count (mp_content q)
        \<and> char_count (mp_content q) \<le> 20000
      then (case create_message H owner cid key q x db of
              Inl e \<Rightarrow> Inl e
            | Inr ((m, s), db') \<Rightarrow> Inr ((m_message_id m, m_run_id m, s), db'))
      else Inl request_invalid)"

definition api_answer_input ::
  "digests \<Rightarrow> uuid \<Rightarrow> uuid \<Rightarrow> pystr \<Rightarrow> uuid \<Rightarrow> pystr \<Rightarrow> conv_env \<Rightarrow> conversation_db
     \<Rightarrow> (uuid \<times> uuid \<times> nat, conversation_db) tx" where
  "api_answer_input H owner rid key run response x db =
     (if idempotency_key_ok key
      then (case answer_input H owner rid key run response x db of
              Inl e \<Rightarrow> Inl e | Inr ((i, s), db') \<Rightarrow> Inr ((i, run, s), db'))
      else Inl request_invalid)"

section \<open>Retention\<close>

definition minute :: int where
  "minute = 60 * 1000000"

definition day :: int where
  "day = 24 * 60 * minute"

definition terminal_before :: "instant \<Rightarrow> message_row \<Rightarrow> bool" where
  "terminal_before cutoff m \<longleftrightarrow> m_status m \<in> {Completed, Interrupted, Failed}
     \<and> (case m_completed_at m of None \<Rightarrow> False | Some t \<Rightarrow> t < cutoff)"

definition prune_conversations :: "instant \<Rightarrow> conversation_db \<Rightarrow> conversation_db" where
  "prune_conversations now db = db\<lparr>
     message_chunks := delete_where (\<lambda>h. \<exists>m \<in> set (messages db).
       m_message_id m = h_message_id h \<and> terminal_before (now - 30 * minute) m)
       (message_chunks db),
     conversation_outbox := prune_outbox (now - 91 * day) (conversation_outbox db),
     inbox_events := delete_where (\<lambda>r. snd (snd r) < now - 31 * day) (inbox_events db)\<rparr>"

end
