(* ===== verification/ConversationChanges.thy ===== *)
theory ConversationChanges
  imports ConversationProjection
begin

text \<open>
  The elementary changes of the Conversation Service's tables (\<open>change\<close>), the invariant they keep
  and the proof that every committed operation is a composition of them. Invariants and
  monotonicity are then proved once per elementary change.
\<close>

section \<open>Shapes of the shared steps\<close>

lemma present_cases:
  assumes "present cid kind data now db = Inr (s, db')"
  obtains c where "row_by v_conversation_id cid (conversations db) = Some c"
    "s = v_last_sequence c + 1"
    "db' = db\<lparr>conversations := update_where (\<lambda>r. v_conversation_id r = cid)
         (\<lambda>r. r\<lparr>v_last_sequence := v_last_sequence r + 1, v_updated_at := now\<rparr>)
         (conversations db),
       presentation_events := presentation_events db @
         [\<lparr>s_conversation_id = cid, s_sequence = s, s_event_type = kind, s_data = data,
           s_created_at = now\<rparr>]\<rparr>"
  using assms by (auto simp: present_def Let_def split: option.splits if_splits)

lemma put_outbox_cases:
  assumes "put_outbox i subject payload now db = Inr db'"
  shows "\<not> has_row o_event_id i (conversation_outbox db)"
    and "db' = db\<lparr>conversation_outbox := conversation_outbox db @
      [outbox_entry i subject payload now]\<rparr>"
  using assms by (auto simp: put_outbox_def split: if_splits)

lemma confirm_cases:
  assumes "confirm_messages run ids x db = Inr db'"
  obtains (Before) p where "row_by rp_run_id run (result_proposals db) = Some p"
      "rp_confirmation_event_id p \<noteq> None" "db' = db"
  | (Now) p c where "row_by rp_run_id run (result_proposals db) = Some p"
      "row_by v_conversation_id (rp_conversation_id p) (conversations db) = Some c"
      "rp_confirmation_event_id p = None"
      "\<not> has_row o_event_id (xe_fresh x) (conversation_outbox db)"
      "db' = db\<lparr>conversation_outbox := conversation_outbox db @
           [outbox_entry (xe_fresh x) messages_committed_subject (Messages_committed
             (committed_messages_event p c ids (last_presented (rp_conversation_id p) db) x))
             (xe_now x)],
         result_proposals := update_where (\<lambda>r. rp_run_id r = run)
           (\<lambda>r. r\<lparr>rp_confirmation_event_id := Some (xe_fresh x)\<rparr>) (result_proposals db)\<rparr>"
proof -
  obtain p where p: "row_by rp_run_id run (result_proposals db) = Some p"
    using assms by (auto simp: confirm_messages_def split: option.splits)
  obtain c where c: "row_by v_conversation_id (rp_conversation_id p) (conversations db) = Some c"
    using assms p by (auto simp: confirm_messages_def split: option.splits)
  show thesis
  proof (cases "rp_confirmation_event_id p")
    case None
    let ?ev = "Messages_committed
      (committed_messages_event p c ids (last_presented (rp_conversation_id p) db) x)"
    obtain db1 where o: "put_outbox (xe_fresh x) messages_committed_subject ?ev (xe_now x) db
        = Inr db1"
      using assms p c None
      by (cases "put_outbox (xe_fresh x) messages_committed_subject ?ev (xe_now x) db")
        (simp_all add: confirm_messages_def)
    then have "db' = db1\<lparr>result_proposals := update_where (\<lambda>r. rp_run_id r = run)
        (\<lambda>r. r\<lparr>rp_confirmation_event_id := Some (xe_fresh x)\<rparr>) (result_proposals db1)\<rparr>"
      using assms p c None by (simp add: confirm_messages_def)
    then show thesis
      using put_outbox_cases [OF o] by (intro Now [OF p c None]) simp_all
  next
    case (Some i)
    then have "db' = db" using assms p c by (simp add: confirm_messages_def)
    then show thesis using Before p Some by simp
  qed
qed

section \<open>Elementary changes\<close>

definition answers_request :: "uuid \<Rightarrow> conversation_event \<Rightarrow> bool" where
  "answers_request rid ev \<longleftrightarrow> (case ev of Messages_committed _ \<Rightarrow> False
     | Run_requested r \<Rightarrow> rr_trigger_type r = ''user_response'' \<and> rr_trigger_id r = rid)"

definition commitment_agrees :: "input_row \<Rightarrow> commitment_row \<Rightarrow> bool" where
  "commitment_agrees r c \<longleftrightarrow> q_suspension_id r = sc_suspension_id c
     \<and> q_input_request_id r = sc_input_request_id c
     \<and> q_checkpoint_id r = sc_checkpoint_id c \<and> q_run_id r = sc_run_id c"

definition request_ok :: "conversation_db \<Rightarrow> request_row \<Rightarrow> bool" where
  "request_ok db q \<longleftrightarrow>
     (i_operation q = ''create_conversation'' \<and>
        has_row v_conversation_id (i_resource_id q) (conversations db))
   \<or> (take 8 (i_operation q) = ''message:'' \<and>
        has_row m_message_id (i_resource_id q) (messages db) \<and> i_sequence q \<noteq> None)
   \<or> (take 6 (i_operation q) = ''input:'' \<and> i_sequence q \<noteq> None)"

inductive change :: "digests \<Rightarrow> conversation_db \<Rightarrow> conversation_db \<Rightarrow> bool" for H where
  add_conversation:
    "\<lbrakk>\<not> has_row v_conversation_id (v_conversation_id c) (conversations db); v_last_sequence c = 0\<rbrakk>
     \<Longrightarrow> change H db (db\<lparr>conversations := conversations db @ [c]\<rparr>)"
| set_grant:
    "change H db (db\<lparr>conversations := update_where (\<lambda>r. v_conversation_id r = cid)
       (\<lambda>r. r\<lparr>v_delegation_grant_id := g\<rparr>) (conversations db)\<rparr>)"
| presented: "present cid kind data now db = Inr (s, db') \<Longrightarrow> change H db db'"
| add_message:
    "\<lbrakk>\<not> has_row m_message_id (m_message_id m) (messages db);
      m_role m = User_role \<and> m_status m = Completed \<or> m_status m = Streaming\<rbrakk>
     \<Longrightarrow> change H db (db\<lparr>messages := messages db @ [m]\<rparr>)"
| add_chunk:
    "\<lbrakk>row_by m_message_id mid (messages db) = Some m; m_status m = Streaming;
      row_by h_sequence n (chunks_of mid db) = None; 0 < n; length s \<le> max_delta_bytes\<rbrakk>
     \<Longrightarrow> change H db (db\<lparr>message_chunks := message_chunks db @
          [\<lparr>h_message_id = mid, h_sequence = n, h_content = s\<rparr>]\<rparr>)"
| finish:
    "\<lbrakk>row_by m_message_id mid (messages db) = Some m; m_status m = Streaming;
      status \<noteq> Streaming; content = joined_chunks mid db\<rbrakk>
     \<Longrightarrow> change H db (finish_message mid status content meta now db)"
| add_proposal:
    "\<lbrakk>\<not> has_row rp_run_id (rp_run_id p) (result_proposals db); rp_confirmation_event_id p = None\<rbrakk>
     \<Longrightarrow> change H db (db\<lparr>result_proposals := result_proposals db @ [p]\<rparr>)"
| confirm:
    "\<lbrakk>confirm_messages run ids x db = Inr db'; completed_count cid run ids db = length ids\<rbrakk>
     \<Longrightarrow> change H db db'"
| add_commitment:
    "\<not> has_row sc_suspension_id (sc_suspension_id k) (suspension_commitments db)
     \<Longrightarrow> change H db (db\<lparr>suspension_commitments := suspension_commitments db @ [k]\<rparr>)"
| add_input:
    "\<lbrakk>\<not> has_row q_suspension_id (q_suspension_id r) (input_requests db);
      \<not> has_row q_input_request_id (q_input_request_id r) (input_requests db);
      q_input_request_id r = dg_input_id H (q_suspension_id r); q_state r = Reserved;
      q_response_run_id r = None\<rbrakk>
     \<Longrightarrow> change H db (db\<lparr>input_requests := input_requests db @ [r]\<rparr>)"
| open_input:
    "\<lbrakk>row_by q_suspension_id susp (input_requests db) = Some r;
      row_by sc_suspension_id susp (suspension_commitments db) = Some k;
      commitment_agrees r k; q_state r = Reserved\<rbrakk>
     \<Longrightarrow> change H db (db\<lparr>input_requests := update_where (\<lambda>i. q_suspension_id i = susp)
           (\<lambda>i. i\<lparr>q_state := Pending\<rparr>) (input_requests db)\<rparr>)"
| close_input:
    "\<lbrakk>row_by q_input_request_id rid (input_requests db) = Some r; q_state r = Pending\<rbrakk>
     \<Longrightarrow> change H db (db\<lparr>input_requests := update_where (\<lambda>i. q_input_request_id i = rid)
           (\<lambda>i. i\<lparr>q_state := Answered, q_response := Some v, q_response_run_id := Some run,
                  q_answered_at := Some now\<rparr>) (input_requests db)\<rparr>)"
| command:
    "\<lbrakk>put_outbox i subject (Run_requested c) now db = Inr db';
      rr_trigger_type c = ''user_message''
      \<or> (rr_trigger_type c = ''user_response''
         \<and> count_where (\<lambda>w. answers_request (rr_trigger_id c) (o_payload w))
             (conversation_outbox db) = 0
         \<and> (\<exists>r. row_by q_input_request_id (rr_trigger_id c) (input_requests db) = Some r
              \<and> q_state r = Answered))\<rbrakk>
     \<Longrightarrow> change H db db'"
| remember:
    "\<lbrakk>find_request owner op key db = None;
      request_ok db \<lparr>i_owner_id = owner, i_operation = op, i_key = key, i_request_sha256 = d,
         i_resource_id = resource, i_sequence = s\<rparr>\<rbrakk>
     \<Longrightarrow> change H db (remember_request owner op key d resource s db)"
| mark_event: "change H db (db\<lparr>inbox_events := inbox_events db @ [e]\<rparr>)"

section \<open>Invariant\<close>

definition counter :: "uuid \<Rightarrow> conversation_db \<Rightarrow> nat" where
  "counter cid db = (case row_by v_conversation_id cid (conversations db) of
     None \<Rightarrow> 0 | Some c \<Rightarrow> v_last_sequence c)"

definition history :: "uuid \<Rightarrow> conversation_db \<Rightarrow> presentation_row list" where
  "history cid db = filter (\<lambda>r. s_conversation_id r = cid) (presentation_events db)"

text \<open>Presentation: the events of a conversation are numbered by its counter, without gaps.\<close>

definition history_inv :: "conversation_db \<Rightarrow> bool" where
  "history_inv db \<longleftrightarrow> distinct (map v_conversation_id (conversations db))
     \<and> (\<forall>cid. map s_sequence (history cid db) = [1..<Suc (counter cid db)])"

text \<open>Messages: a terminal message holds its chunks joined, unless retention has removed them.\<close>

definition message_inv :: "conversation_db \<Rightarrow> bool" where
  "message_inv db \<longleftrightarrow> distinct (map m_message_id (messages db))
     \<and> distinct (map (\<lambda>h. (h_message_id h, h_sequence h)) (message_chunks db))
     \<and> (\<forall>h \<in> set (message_chunks db). has_row m_message_id (h_message_id h) (messages db)
          \<and> 0 < h_sequence h \<and> length (h_content h) \<le> max_delta_bytes)
     \<and> (\<forall>m \<in> set (messages db). m_status m \<noteq> Streaming \<longrightarrow>
          chunks_of (m_message_id m) db = [] \<or> m_content m = joined_chunks (m_message_id m) db)"

text \<open>Confirmations: each one in the outbox is the one its run's proposal names, and the
  messages it names are completed messages of the run.\<close>

definition completed_in :: "conversation_db \<Rightarrow> uuid \<Rightarrow> uuid \<Rightarrow> bool" where
  "completed_in db run u \<longleftrightarrow> (\<exists>m \<in> set (messages db). m_message_id m = u \<and> m_run_id m = run
     \<and> m_status m = Completed)"

definition confirmation_ok :: "conversation_db \<Rightarrow> uuid \<Rightarrow> conversation_event \<Rightarrow> bool" where
  "confirmation_ok db i ev \<longleftrightarrow> (case ev of Run_requested _ \<Rightarrow> True
     | Messages_committed e \<Rightarrow>
         (\<exists>p \<in> set (result_proposals db). rp_confirmation_event_id p = Some i
            \<and> ev_run_id e = Good (rp_run_id p)
            \<and> (\<exists>data ids. ev_data e = Some data \<and> d_message_ids data = map Good ids \<and>
                (\<forall>u \<in> set ids. completed_in db (rp_run_id p) u))))"

definition proposal_inv :: "conversation_db \<Rightarrow> bool" where
  "proposal_inv db \<longleftrightarrow> distinct (map rp_run_id (result_proposals db))
     \<and> distinct (map o_event_id (conversation_outbox db))
     \<and> (\<forall>w \<in> set (conversation_outbox db). confirmation_ok db (o_event_id w) (o_payload w))"

text \<open>Input requests: opened only with the matching commitment, answered at most once.\<close>

definition input_row_ok :: "digests \<Rightarrow> conversation_db \<Rightarrow> input_row \<Rightarrow> bool" where
  "input_row_ok H db r \<longleftrightarrow> q_input_request_id r = dg_input_id H (q_suspension_id r)
     \<and> q_state r \<in> {Reserved, Pending, Answered}
     \<and> (q_state r \<noteq> Reserved \<longrightarrow>
          (\<exists>k \<in> set (suspension_commitments db). commitment_agrees r k))
     \<and> (q_state r = Answered \<longleftrightarrow> q_response_run_id r \<noteq> None)"

definition answers_bounded :: "conversation_db \<Rightarrow> uuid \<Rightarrow> bool" where
  "answers_bounded db rid \<longleftrightarrow>
     count_where (\<lambda>w. answers_request rid (o_payload w)) (conversation_outbox db)
       \<le> (case row_by q_input_request_id rid (input_requests db) of None \<Rightarrow> 0
           | Some r \<Rightarrow> if q_state r = Answered then 1 else 0)"

definition input_inv :: "digests \<Rightarrow> conversation_db \<Rightarrow> bool" where
  "input_inv H db \<longleftrightarrow> distinct (map q_input_request_id (input_requests db))
     \<and> distinct (map q_suspension_id (input_requests db))
     \<and> distinct (map sc_suspension_id (suspension_commitments db))
     \<and> (\<forall>r \<in> set (input_requests db). input_row_ok H db r) \<and> (\<forall>rid. answers_bounded db rid)"

definition request_inv :: "conversation_db \<Rightarrow> bool" where
  "request_inv db \<longleftrightarrow> (\<forall>q \<in> set (request_idempotency db). request_ok db q)"

definition conv_inv :: "digests \<Rightarrow> conversation_db \<Rightarrow> bool" where
  "conv_inv H db \<longleftrightarrow> history_inv db \<and> message_inv db \<and> proposal_inv db \<and> input_inv H db
     \<and> request_inv db"

end
