(* ===== verification/ConversationSafety.thy ===== *)
theory ConversationSafety
  imports ConversationChanges
begin

text \<open>
  The invariant of the Conversation Service is kept by every elementary change, every operation is
  a composition of elementary changes, and so the invariant holds in every reachable state.
\<close>

section \<open>Presentation\<close>

lemmas history_defs = history_inv_def counter_def history_def

lemma counter_update:
  assumes "\<And>r. v_conversation_id (f r) = v_conversation_id r"
    and "\<And>r. v_last_sequence (f r) = v_last_sequence r + k"
  shows "counter c (db\<lparr>conversations := update_where (\<lambda>r. v_conversation_id r = cid) f
      (conversations db)\<rparr>)
    = (if c = cid \<and> has_row v_conversation_id cid (conversations db) then counter c db + k
       else counter c db)"
proof -
  have "row_by v_conversation_id c (update_where (\<lambda>r. v_conversation_id r = cid) f (conversations db))
      = map_option (\<lambda>r. if v_conversation_id r = cid then f r else r)
          (row_by v_conversation_id c (conversations db))"
    by (rule row_by_update_where) (rule assms(1))
  moreover have "row_by v_conversation_id c (conversations db) = Some r \<Longrightarrow> v_conversation_id r = c"
    for r by (auto dest: row_by_SomeD)
  ultimately show ?thesis using assms(2)
    by (cases "row_by v_conversation_id c (conversations db)")
      (auto simp: counter_def has_row_def)
qed

lemma history_inv_present:
  assumes "history_inv db" and "present cid kind data now db = Inr (s, db')"
  shows "history_inv db'"
  using assms(2)
proof (cases rule: present_cases)
  case (1 c)
  let ?f = "\<lambda>r. r\<lparr>v_last_sequence := v_last_sequence r + 1, v_updated_at := now\<rparr>"
  let ?C = "update_where (\<lambda>r. v_conversation_id r = cid) ?f (conversations db)"
  have cnt: "counter a db' = (if a = cid then Suc (counter a db) else counter a db)" for a
    using counter_update [of ?f 1 a cid db] 1 by (auto simp: counter_def has_row_def)
  have s: "s = Suc (counter cid db)" using 1 by (simp add: counter_def)
  have "map v_conversation_id ?C = map v_conversation_id (conversations db)"
    by (rule map_key_update_where) simp
  moreover have "map s_sequence (history a db') = [1..<Suc (counter a db')]" for a
    using assms(1) 1(3) s cnt [of a] by (simp add: history_inv_def history_def)
  ultimately show ?thesis using assms(1) 1(3) by (simp add: history_inv_def)
qed

lemma history_inv_change: "change H db db' \<Longrightarrow> history_inv db \<Longrightarrow> history_inv db'"
proof (induction rule: change.induct)
  case (add_conversation c db)
  then have "counter a (db\<lparr>conversations := conversations db @ [c]\<rparr>) = counter a db" for a
    by (auto simp: counter_def row_by_snoc split: option.splits)
  with add_conversation show ?case
    by (auto simp: history_inv_def has_row_iff history_def)
next
  case (set_grant db cid g)
  let ?f = "\<lambda>r. r\<lparr>v_delegation_grant_id := g\<rparr>"
  have "counter a (db\<lparr>conversations := update_where (\<lambda>r. v_conversation_id r = cid) ?f
      (conversations db)\<rparr>) = counter a db" for a
    using counter_update [of ?f 0 a cid db] by simp
  moreover have "map v_conversation_id (update_where (\<lambda>r. v_conversation_id r = cid) ?f
      (conversations db)) = map v_conversation_id (conversations db)"
    by (rule map_key_update_where) simp
  ultimately show ?case using set_grant by (simp add: history_inv_def history_def)
next
  case (presented cid kind data now db s db')
  then show ?case by (blast intro: history_inv_present)
next
  case (confirm run ids x db db' cid)
  from confirm(1) show ?case
  proof (cases rule: confirm_cases)
    case (Now p c)
    with confirm(3) show ?thesis by (simp add: history_defs)
  qed (use confirm(3) in simp)
next
  case (command i subject c now db db')
  have e: "db' = db\<lparr>conversation_outbox := conversation_outbox db @
      [outbox_entry i subject (Run_requested c) now]\<rparr>"
    by (rule put_outbox_cases(2)) (rule command(1))
  show ?case unfolding e using command(3) by (simp add: history_defs)
qed (simp_all add: history_defs finish_message_def remember_request_def)

section \<open>Messages\<close>

lemmas message_defs = message_inv_def chunks_of_def joined_chunks_def

text \<open>Only the two tables of messages matter.\<close>

lemma message_inv_cong:
  "messages db' = messages db \<Longrightarrow> message_chunks db' = message_chunks db
     \<Longrightarrow> message_inv db \<Longrightarrow> message_inv db'"
  by (simp add: message_defs)

lemma message_inv_add_message:
  assumes "message_inv db" and "\<not> has_row m_message_id (m_message_id m) (messages db)"
  shows "message_inv (db\<lparr>messages := messages db @ [m]\<rparr>)"
proof -
  have "chunks_of (m_message_id m) db = []"
    using assms by (auto simp: message_inv_def chunks_of_def filter_empty_conv)
  then show ?thesis using assms
    by (auto simp: message_defs has_row_iff)
qed

lemma chunks_of_snoc:
  "chunks_of i (db\<lparr>message_chunks := message_chunks db @ [h]\<rparr>)
     = chunks_of i db @ (if h_message_id h = i then [h] else [])"
  by (simp add: chunks_of_def)

lemma row_by_unique_key:
  "distinct (map key t) \<Longrightarrow> q \<in> set t \<Longrightarrow> row_by key k t = Some r \<Longrightarrow> key q = k \<Longrightarrow> q = r"
  using row_by_unique [of key t q] by simp

lemma message_inv_add_chunk:
  assumes inv: "message_inv db" and m: "row_by m_message_id mid (messages db) = Some m"
    and st: "m_status m = Streaming"
    and new: "row_by h_sequence n (chunks_of mid db) = None" and "0 < n" "length s \<le> max_delta_bytes"
  shows "message_inv (db\<lparr>message_chunks := message_chunks db @
    [\<lparr>h_message_id = mid, h_sequence = n, h_content = s\<rparr>]\<rparr>)"
    (is "message_inv ?db")
proof -
  let ?h = "\<lparr>h_message_id = mid, h_sequence = n, h_content = s\<rparr>"
  have k: "(mid, n) \<notin> (\<lambda>h. (h_message_id h, h_sequence h)) ` set (message_chunks db)"
    using new by (auto simp: row_by_None_iff chunks_of_def image_iff)
  have "has_row m_message_id mid (messages db)" using m by (simp add: has_row_def)
  moreover have "chunks_of (m_message_id q) ?db = [] \<or>
      m_content q = joined_chunks (m_message_id q) ?db"
    if "q \<in> set (messages db)" "m_status q \<noteq> Streaming" for q
  proof -
    have "m_message_id q \<noteq> mid"
      using inv m st that row_by_unique_key [of m_message_id "messages db" q mid m]
      by (auto simp: message_inv_def)
    then have "chunks_of (m_message_id q) ?db = chunks_of (m_message_id q) db"
      using chunks_of_snoc [of "m_message_id q" db ?h] by simp
    then show ?thesis using inv that by (simp add: message_inv_def joined_chunks_def)
  qed
  ultimately show ?thesis using inv k assms(5,6)
    by (simp add: message_inv_def)
qed

lemma finish_message_fields:
  "map m_message_id (messages (finish_message mid st c meta now db)) = map m_message_id (messages db)"
  "message_chunks (finish_message mid st c meta now db) = message_chunks db"
  "conversations (finish_message mid st c meta now db) = conversations db"
  "input_requests (finish_message mid st c meta now db) = input_requests db"
  "presentation_events (finish_message mid st c meta now db) = presentation_events db"
  "request_idempotency (finish_message mid st c meta now db) = request_idempotency db"
  "inbox_events (finish_message mid st c meta now db) = inbox_events db"
  "conversation_outbox (finish_message mid st c meta now db) = conversation_outbox db"
  "result_proposals (finish_message mid st c meta now db) = result_proposals db"
  "suspension_commitments (finish_message mid st c meta now db) = suspension_commitments db"
  by (auto simp: finish_message_def intro!: map_key_update_where split: option.split)

lemma in_finish_message:
  assumes "q \<in> set (messages (finish_message mid st c meta now db))"
  obtains "q \<in> set (messages db)" "m_message_id q \<noteq> mid"
  | r where "r \<in> set (messages db)" "m_message_id r = mid" "m_message_id q = mid"
      "m_status q = st" "m_content q = c" "m_run_id q = m_run_id r" "m_role q = m_role r"
      "m_conversation_id q = m_conversation_id r"
proof -
  let ?F = "\<lambda>m. (case meta of None \<Rightarrow> m
      | Some (reason, usage) \<Rightarrow> m\<lparr>m_finish_reason := Some reason, m_usage := usage\<rparr>)
    \<lparr>m_status := st, m_content := c, m_completed_at := Some now\<rparr>"
  obtain r where r: "r \<in> set (messages db)" "q = (if m_message_id r = mid then ?F r else r)"
    using assms by (auto simp: finish_message_def in_update_where)
  show thesis
  proof (cases "m_message_id r = mid")
    case True
    then have q: "q = ?F r" using r(2) by simp
    show thesis
      by (rule that(2) [OF r(1) True]) (use True in \<open>simp_all add: q split: option.split\<close>)
  qed (use r that(1) in simp)
qed

lemma message_inv_finish:
  assumes inv: "message_inv db" and "content = joined_chunks mid db"
  shows "message_inv (finish_message mid status content meta now db)" (is "message_inv ?db")
proof -
  have "chunks_of (m_message_id q) ?db = [] \<or> m_content q = joined_chunks (m_message_id q) ?db"
    if q: "q \<in> set (messages ?db)" "m_status q \<noteq> Streaming" for q
    using q(1)
  proof (cases rule: in_finish_message)
    case 1
    then show ?thesis using inv q(2)
      by (simp add: message_inv_def joined_chunks_def chunks_of_def finish_message_fields)
  next
    case (2 r)
    then show ?thesis using assms(2)
      by (simp add: joined_chunks_def chunks_of_def finish_message_fields)
  qed
  moreover have "has_row m_message_id i (messages ?db) \<longleftrightarrow> has_row m_message_id i (messages db)" for i
    using arg_cong [OF finish_message_fields(1) [of mid status content meta now db], of set]
    by (simp add: has_row_iff)
  ultimately show ?thesis using inv
    by (simp add: message_inv_def finish_message_fields)
qed

text \<open>Changes that touch neither messages nor chunks.\<close>

lemma present_frame:
  assumes "present cid kind data now db = Inr (s, db')"
  shows "messages db' = messages db" and "message_chunks db' = message_chunks db"
    and "input_requests db' = input_requests db"
    and "request_idempotency db' = request_idempotency db"
    and "inbox_events db' = inbox_events db"
    and "conversation_outbox db' = conversation_outbox db"
    and "result_proposals db' = result_proposals db"
    and "suspension_commitments db' = suspension_commitments db"
  using assms by (auto elim!: present_cases)

lemma put_outbox_frame:
  assumes "put_outbox i subject payload now db = Inr db'"
  shows "messages db' = messages db" and "message_chunks db' = message_chunks db"
    and "input_requests db' = input_requests db"
    and "request_idempotency db' = request_idempotency db"
    and "inbox_events db' = inbox_events db"
    and "conversations db' = conversations db"
    and "presentation_events db' = presentation_events db"
    and "result_proposals db' = result_proposals db"
    and "suspension_commitments db' = suspension_commitments db"
  using put_outbox_cases(2) [OF assms] by simp_all

lemma confirm_frame:
  assumes "confirm_messages run ids x db = Inr db'"
  shows "messages db' = messages db" and "message_chunks db' = message_chunks db"
    and "input_requests db' = input_requests db"
    and "request_idempotency db' = request_idempotency db"
    and "inbox_events db' = inbox_events db"
    and "conversations db' = conversations db"
    and "presentation_events db' = presentation_events db"
    and "suspension_commitments db' = suspension_commitments db"
  using assms by (auto elim!: confirm_cases)

lemma message_inv_change: "change H db db' \<Longrightarrow> message_inv db \<Longrightarrow> message_inv db'"
proof (induction rule: change.induct)
  case (add_message m db)
  then show ?case by (blast intro: message_inv_add_message)
next
  case (add_chunk mid db m n s)
  then show ?case by (blast intro: message_inv_add_chunk)
next
  case (finish mid db m status content meta now)
  then show ?case by (blast intro: message_inv_finish)
next
  case (presented cid kind data now db s db')
  then show ?case using present_frame [OF presented(1)] by (blast intro: message_inv_cong)
next
  case (confirm run ids x db db' cid)
  then show ?case using confirm_frame [OF confirm(1)] by (blast intro: message_inv_cong)
next
  case (command i subject c now db db')
  then show ?case using put_outbox_frame [OF command(1)] by (blast intro: message_inv_cong)
qed (simp_all add: message_defs remember_request_def)

section \<open>Confirmations\<close>

lemma completed_count_all:
  assumes "distinct (map m_message_id (messages db))"
    and "completed_count cid run ids db = length ids"
  shows "distinct ids" and "\<forall>u \<in> set ids. completed_in db run u"
proof -
  let ?P = "\<lambda>m. (case cid of None \<Rightarrow> True | Some c \<Rightarrow> m_conversation_id m = c)
        \<and> m_run_id m = run \<and> m_message_id m \<in> set ids \<and> m_status m = Completed"
  let ?I = "m_message_id ` set (filter ?P (messages db))"
  have "distinct (map m_message_id (filter ?P (messages db)))"
    using assms(1) by (rule distinct_map_filter)
  then have c: "card ?I = length ids"
    using assms(2) distinct_card [of "map m_message_id (filter ?P (messages db))"]
    by (simp add: completed_count_def count_where_def)
  have "?I \<subseteq> set ids" by auto
  moreover have "card (set ids) \<le> card ?I" using c card_length [of ids] by simp
  ultimately have e: "?I = set ids" using card_seteq [of "set ids" ?I] by simp
  then show "distinct ids" using c by (simp add: card_distinct)
  show "\<forall>u \<in> set ids. completed_in db run u"
  proof
    fix u assume "u \<in> set ids"
    then have "u \<in> ?I" unfolding e .
    then show "completed_in db run u" by (auto simp: completed_in_def)
  qed
qed

lemma completed_in_cong: "messages db' = messages db \<Longrightarrow> completed_in db' = completed_in db"
  by (simp add: completed_in_def fun_eq_iff)

lemma completed_in_finish:
  assumes "message_inv db" and m: "row_by m_message_id mid (messages db) = Some m"
    and st: "m_status m = Streaming" and "completed_in db run u"
  shows "completed_in (finish_message mid status content meta now db) run u"
proof -
  obtain q where q: "q \<in> set (messages db)" "m_message_id q = u" "m_run_id q = run"
      "m_status q = Completed"
    using assms(4) by (auto simp: completed_in_def)
  then have "m_message_id q \<noteq> mid"
    using assms(1) m st row_by_unique_key [of m_message_id "messages db" q mid m]
    by (auto simp: message_inv_def)
  then have "q \<in> set (messages (finish_message mid status content meta now db))"
    using q(1) by (auto simp: finish_message_def in_update_where)
  then show ?thesis using q by (auto simp: completed_in_def)
qed

lemma completed_in_change:
  assumes "change H db db'" and "message_inv db" and "completed_in db run u"
  shows "completed_in db' run u"
  using assms
proof (induction rule: change.induct)
  case (finish mid db m status content meta now)
  then show ?case by (blast intro: completed_in_finish)
next
  case (presented cid kind data now db s db')
  then show ?case using completed_in_cong [OF present_frame(1) [OF presented(1)]] by simp
next
  case (confirm r ids x db db' cid)
  then show ?case using completed_in_cong [OF confirm_frame(1) [OF confirm(1)]] by simp
next
  case (command i subject c now db db')
  then show ?case using completed_in_cong [OF put_outbox_frame(1) [OF command(1)]] by simp
next
  case (add_message m db)
  then show ?case by (auto simp: completed_in_def)
qed (simp_all add: completed_in_def remember_request_def)

text \<open>Proposals only grow, and a confirmation once named stays.\<close>

lemma confirmation_ok_mono:
  assumes "confirmation_ok db i ev"
    and "\<And>p. p \<in> set (result_proposals db) \<Longrightarrow> rp_confirmation_event_id p \<noteq> None
      \<Longrightarrow> p \<in> set (result_proposals db')"
    and "\<And>run u. completed_in db run u \<Longrightarrow> completed_in db' run u"
  shows "confirmation_ok db' i ev"
  using assms by (cases ev) (fastforce simp: confirmation_ok_def)+

lemma proposal_inv_frame:
  assumes "proposal_inv db" and "change H db db'" and "message_inv db"
    and "result_proposals db' = result_proposals db"
    and "conversation_outbox db' = conversation_outbox db"
  shows "proposal_inv db'"
proof -
  have "confirmation_ok db' i ev" if "confirmation_ok db i ev" for i ev
    using that assms(4) completed_in_change [OF assms(2,3)]
    by (intro confirmation_ok_mono [of db i ev db']) auto
  then show ?thesis using assms(1,4,5) by (simp add: proposal_inv_def)
qed

lemma proposal_inv_confirm:
  assumes inv: "proposal_inv db" "message_inv db"
    and c: "confirm_messages run ids x db = Inr db'" "completed_count cid run ids db = length ids"
  shows "proposal_inv db'"
  using c(1)
proof (cases rule: confirm_cases)
  case Before
  then show ?thesis using inv by simp
next
  case (Now p cv)
  let ?f = "\<lambda>r. r\<lparr>rp_confirmation_event_id := Some (xe_fresh x)\<rparr>"
  have p: "p \<in> set (result_proposals db)" "rp_run_id p = run"
    using Now(1) by (auto dest: row_by_SomeD)
  have props: "result_proposals db' = update_where (\<lambda>r. rp_run_id r = run) ?f (result_proposals db)"
    and out: "conversation_outbox db' = conversation_outbox db @ [outbox_entry (xe_fresh x)
      messages_committed_subject (Messages_committed
        (committed_messages_event p cv ids (last_presented (rp_conversation_id p) db) x)) (xe_now x)]"
    using Now(5) by simp_all
  have comp: "completed_in db' = completed_in db"
    by (rule completed_in_cong) (rule confirm_frame(1) [OF c(1)])
  have old: "confirmation_ok db' i ev" if "confirmation_ok db i ev" for i ev
  proof (rule confirmation_ok_mono [OF that])
    fix q assume "q \<in> set (result_proposals db)" "rp_confirmation_event_id q \<noteq> None"
    moreover have "rp_run_id q \<noteq> run"
      using calculation Now(1,3) inv(1)
        row_by_unique_key [of rp_run_id "result_proposals db" q run p]
      by (auto simp: proposal_inv_def)
    ultimately show "q \<in> set (result_proposals db')"
      by (auto simp: props in_update_where)
  qed (simp add: comp)
  have "?f p \<in> set (result_proposals db')" using p by (auto simp: props in_update_where)
  then have "confirmation_ok db' (xe_fresh x) (Messages_committed
      (committed_messages_event p cv ids (last_presented (rp_conversation_id p) db) x))"
    using completed_count_all(2) [of db cid run ids] inv(2) c(2) p(2)
    by (auto simp: confirmation_ok_def committed_messages_event_def make_envelope_def comp
        message_inv_def intro!: bexI [of _ "?f p"])
  moreover have "map rp_run_id (result_proposals db') = map rp_run_id (result_proposals db)"
    unfolding props by (rule map_key_update_where) simp
  ultimately show ?thesis using inv(1) old Now(4)
    by (auto simp: proposal_inv_def out has_row_iff)
qed

lemma proposal_inv_change:
  assumes "change H db db'" and "message_inv db" and "proposal_inv db"
  shows "proposal_inv db'"
  using assms
proof (cases rule: change.cases)
  case (confirm run ids x cid)
  then show ?thesis using assms by (blast intro: proposal_inv_confirm)
next
  case (add_proposal p)
  have "confirmation_ok db' i ev" if "confirmation_ok db i ev" for i ev
    using that completed_in_change [OF assms(1,2)] add_proposal(1)
    by (intro confirmation_ok_mono [of db i ev db']) auto
  then show ?thesis using assms(3) add_proposal
    by (auto simp: proposal_inv_def has_row_iff)
next
  case (command i subject c now)
  have "confirmation_ok db' j ev" if "confirmation_ok db j ev" for j ev
    using that completed_in_change [OF assms(1,2)] put_outbox_frame [OF command(1)]
    by (intro confirmation_ok_mono [of db j ev db']) auto
  moreover have "confirmation_ok db' i (Run_requested c)" by (simp add: confirmation_ok_def)
  ultimately show ?thesis using assms(3) put_outbox_cases [OF command(1)]
    by (auto simp: proposal_inv_def has_row_iff)
next
  case (presented cid kind data now s)
  then show ?thesis using proposal_inv_frame [OF assms(3,1,2)] present_frame [OF presented]
    by simp
next
  case (finish mid m status content meta now)
  then show ?thesis using proposal_inv_frame [OF assms(3,1,2)]
    by (simp add: finish_message_fields)
qed (use proposal_inv_frame [OF assms(3,1,2)] in \<open>simp_all add: remember_request_def\<close>)

section \<open>Input requests\<close>

lemma answers_request_simps [simp]:
  "\<not> answers_request rid (Messages_committed e)"
  "answers_request rid (Run_requested r) \<longleftrightarrow>
     rr_trigger_type r = ''user_response'' \<and> rr_trigger_id r = rid"
  by (simp_all add: answers_request_def)

lemma input_row_ok_cong:
  "suspension_commitments db' = suspension_commitments db \<Longrightarrow> input_row_ok H db' r = input_row_ok H db r"
  by (simp add: input_row_ok_def)

lemma input_inv_frame:
  assumes "input_inv H db" and "input_requests db' = input_requests db"
    and "suspension_commitments db' = suspension_commitments db"
    and "conversation_outbox db' = conversation_outbox db"
  shows "input_inv H db'"
  using assms by (simp add: input_inv_def answers_bounded_def input_row_ok_cong [of db' db])

text \<open>An update of one row, found by one of its two keys.\<close>

lemma input_inv_update:
  assumes inv: "input_inv H db" and r: "r \<in> set (input_requests db)"
    and P: "\<And>q. q \<in> set (input_requests db) \<Longrightarrow> P q \<longleftrightarrow> q = r"
    and f: "\<And>q. q_input_request_id (f q) = q_input_request_id q"
      "\<And>q. q_suspension_id (f q) = q_suspension_id q"
    and ok: "input_row_ok H db (f r)"
    and up: "q_state r = Answered \<Longrightarrow> q_state (f r) = Answered"
  shows "input_inv H (db\<lparr>input_requests := update_where P f (input_requests db)\<rparr>)"
    (is "input_inv H ?db")
proof -
  have "map q_input_request_id (update_where P f (input_requests db))
      = map q_input_request_id (input_requests db)"
    "map q_suspension_id (update_where P f (input_requests db))
      = map q_suspension_id (input_requests db)"
    using f by (auto intro!: map_key_update_where)
  moreover have "input_row_ok H ?db q" if "q \<in> set (input_requests ?db)" for q
  proof -
    have "\<exists>q0 \<in> set (input_requests db). q = (if P q0 then f q0 else q0)"
      using that by (simp add: in_update_where)
    then obtain q0 where "q0 \<in> set (input_requests db)" "q = (if P q0 then f q0 else q0)"
      by (rule bexE)
    then have "input_row_ok H db q"
      using inv ok P [of q0] by (auto simp: input_inv_def)
    then show ?thesis by (simp add: input_row_ok_cong [of ?db db])
  qed
  moreover have "answers_bounded ?db rid" for rid
  proof -
    have "row_by q_input_request_id rid (input_requests ?db)
        = map_option (\<lambda>q. if P q then f q else q) (row_by q_input_request_id rid (input_requests db))"
      using f(1) row_by_update_where [of P q_input_request_id f rid "input_requests db"] by simp
    moreover have "answers_bounded db rid" using inv by (simp add: input_inv_def)
    ultimately show ?thesis using up P
      by (auto simp: answers_bounded_def dest!: row_by_SomeD split: option.splits if_splits)
  qed
  ultimately show ?thesis using inv by (simp add: input_inv_def)
qed

lemma input_inv_open:
  assumes inv: "input_inv H db"
    and r: "row_by q_suspension_id susp (input_requests db) = Some r"
    and k: "row_by sc_suspension_id susp (suspension_commitments db) = Some k"
    and a: "commitment_agrees r k" "q_state r = Reserved"
  shows "input_inv H (db\<lparr>input_requests := update_where (\<lambda>i. q_suspension_id i = susp)
           (\<lambda>i. i\<lparr>q_state := Pending\<rparr>) (input_requests db)\<rparr>)"
proof (rule input_inv_update [OF inv, of r])
  show "r \<in> set (input_requests db)" using r by (auto dest: row_by_SomeD)
  then have "input_row_ok H db r" using inv by (simp add: input_inv_def)
  moreover have "commitment_agrees (r\<lparr>q_state := Pending\<rparr>) k"
    using a(1) by (simp add: commitment_agrees_def)
  ultimately show "input_row_ok H db (r\<lparr>q_state := Pending\<rparr>)"
    using a(2) row_by_SomeD [OF k] by (auto simp: input_row_ok_def)
  fix q assume "q \<in> set (input_requests db)"
  then show "(q_suspension_id q = susp) = (q = r)"
    using inv r row_by_unique_key [of q_suspension_id "input_requests db" q susp r]
    by (auto simp: input_inv_def dest: row_by_SomeD)
qed (use a in simp_all)

lemma input_inv_close:
  assumes inv: "input_inv H db"
    and r: "row_by q_input_request_id rid (input_requests db) = Some r"
    and a: "q_state r = Pending"
  shows "input_inv H (db\<lparr>input_requests := update_where (\<lambda>i. q_input_request_id i = rid)
           (\<lambda>i. i\<lparr>q_state := Answered, q_response := Some v, q_response_run_id := Some run,
                  q_answered_at := Some now\<rparr>) (input_requests db)\<rparr>)"
proof (rule input_inv_update [OF inv, of r])
  show "r \<in> set (input_requests db)" using r by (auto dest: row_by_SomeD)
  then have "input_row_ok H db r" using inv by (simp add: input_inv_def)
  then show "input_row_ok H db (r\<lparr>q_state := Answered, q_response := Some v,
      q_response_run_id := Some run, q_answered_at := Some now\<rparr>)"
    using a by (auto simp: input_row_ok_def commitment_agrees_def)
  fix q assume "q \<in> set (input_requests db)"
  then show "(q_input_request_id q = rid) = (q = r)"
    using inv r row_by_unique_key [of q_input_request_id "input_requests db" q rid r]
    by (auto simp: input_inv_def dest: row_by_SomeD)
qed simp_all

lemma input_inv_add:
  assumes inv: "input_inv H db"
    and n: "\<not> has_row q_suspension_id (q_suspension_id r) (input_requests db)"
      "\<not> has_row q_input_request_id (q_input_request_id r) (input_requests db)"
    and i: "q_input_request_id r = dg_input_id H (q_suspension_id r)" "q_state r = Reserved"
      "q_response_run_id r = None"
  shows "input_inv H (db\<lparr>input_requests := input_requests db @ [r]\<rparr>)"
proof -
  have "answers_bounded (db\<lparr>input_requests := input_requests db @ [r]\<rparr>) rid" for rid
  proof -
    have "answers_bounded db rid" using inv by (simp add: input_inv_def)
    then show ?thesis
      by (auto simp: answers_bounded_def row_by_snoc split: option.splits)
  qed
  then show ?thesis using assms
    by (auto simp: input_inv_def input_row_ok_def has_row_iff)
qed

lemma input_inv_outbox:
  assumes inv: "input_inv H db" and out: "conversation_outbox db' = conversation_outbox db @ [w]"
    and fr: "input_requests db' = input_requests db"
      "suspension_commitments db' = suspension_commitments db"
    and n: "\<And>rid. answers_request rid (o_payload w) \<Longrightarrow>
      count_where (\<lambda>w. answers_request rid (o_payload w)) (conversation_outbox db) = 0
      \<and> (\<exists>r. row_by q_input_request_id rid (input_requests db) = Some r \<and> q_state r = Answered)"
  shows "input_inv H db'"
proof -
  have "answers_bounded db' rid" for rid
  proof -
    have "answers_bounded db rid" using inv by (simp add: input_inv_def)
    then show ?thesis using n [of rid]
      by (cases "answers_request rid (o_payload w)") (auto simp: answers_bounded_def out fr)
  qed
  then show ?thesis using inv by (simp add: input_inv_def fr input_row_ok_cong [of db' db])
qed

lemma input_inv_change:
  assumes "change H db db'" and "input_inv H db"
  shows "input_inv H db'"
  using assms
proof (cases rule: change.cases)
  case (add_input r)
  then show ?thesis using assms(2) by (auto intro: input_inv_add)
next
  case (open_input susp r k)
  then show ?thesis using assms(2) by (auto intro: input_inv_open)
next
  case (close_input rid r v run now)
  then show ?thesis using assms(2) by (auto intro: input_inv_close)
next
  case (confirm run ids x cid)
  from confirm(1) show ?thesis
  proof (cases rule: confirm_cases)
    case (Now p c)
    let ?w = "outbox_entry (xe_fresh x) messages_committed_subject (Messages_committed
      (committed_messages_event p c ids (last_presented (rp_conversation_id p) db) x)) (xe_now x)"
    show ?thesis
      by (rule input_inv_outbox [OF assms(2), of _ ?w]) (simp_all add: Now(5))
  qed (use assms(2) in simp)
next
  case (command i subject c now)
  then show ?thesis using put_outbox_cases(2) [OF command(1)]
    by (intro input_inv_outbox [OF assms(2)]) (auto simp: answers_request_def)
next
  case (add_commitment k)
  have "input_row_ok H db' r" if "input_row_ok H db r" for r
    using that add_commitment(1) by (auto simp: input_row_ok_def)
  moreover have "answers_bounded db' = answers_bounded db"
    using add_commitment(1) by (simp add: answers_bounded_def fun_eq_iff)
  ultimately show ?thesis using assms(2) add_commitment
    by (auto simp: input_inv_def has_row_iff)
next
  case (presented cid kind data now s)
  then show ?thesis using input_inv_frame [OF assms(2)] present_frame [OF presented] by simp
next
  case (finish mid m status content meta now)
  then show ?thesis using input_inv_frame [OF assms(2)] by (simp add: finish_message_fields)
qed (use input_inv_frame [OF assms(2)] in \<open>simp_all add: remember_request_def\<close>)

section \<open>Stored requests\<close>

lemma has_row_change:
  assumes "change H db db'"
  shows "has_row v_conversation_id i (conversations db) \<Longrightarrow>
      has_row v_conversation_id i (conversations db')"
    and "has_row m_message_id j (messages db) \<Longrightarrow> has_row m_message_id j (messages db')"
proof -
  show "has_row v_conversation_id i (conversations db')"
    if "has_row v_conversation_id i (conversations db)"
    using assms that
  proof (cases rule: change.cases)
    case (set_grant cid g)
    then show ?thesis using that by (simp add: has_row_update_where)
  next
    case (presented cid kind data now s)
    from presented that show ?thesis
      by (cases rule: present_cases) (simp add: has_row_update_where)
  next
    case (confirm run ids x cid)
    then show ?thesis using that confirm_frame(6) [OF confirm(1)] by simp
  next
    case (command k subject c now)
    then show ?thesis using that put_outbox_frame(6) [OF command(1)] by simp
  qed (simp_all add: finish_message_def remember_request_def)
  show "has_row m_message_id j (messages db')" if "has_row m_message_id j (messages db)"
    using assms that
  proof (cases rule: change.cases)
    case (finish mid m status content meta now)
    have "has_row m_message_id j (messages (finish_message mid status content meta now db))"
      using that arg_cong [OF finish_message_fields(1) [of mid status content meta now db], of set]
      by (simp add: has_row_iff)
    then show ?thesis using finish by simp
  next
    case (presented cid kind data now s)
    then show ?thesis using that present_frame(1) [OF presented] by simp
  next
    case (confirm run ids x cid)
    then show ?thesis using that confirm_frame(1) [OF confirm(1)] by simp
  next
    case (command k subject c now)
    then show ?thesis using that put_outbox_frame(1) [OF command(1)] by simp
  qed (simp_all add: remember_request_def)
qed

lemma request_ok_change: "change H db db' \<Longrightarrow> request_ok db q \<Longrightarrow> request_ok db' q"
  using has_row_change(1) [of H db db' "i_resource_id q"]
    has_row_change(2) [of H db db' "i_resource_id q"]
  by (auto simp: request_ok_def)

lemma request_inv_change:
  assumes "change H db db'" and "request_inv db"
  shows "request_inv db'"
proof -
  have "request_idempotency db' = request_idempotency db
      \<or> (\<exists>q. request_idempotency db' = request_idempotency db @ [q] \<and> request_ok db q)"
    using assms(1)
  proof (cases rule: change.cases)
    case (presented cid kind data now s)
    then show ?thesis using present_frame(4) [OF presented] by simp
  next
    case (confirm run ids x cid)
    then show ?thesis using confirm_frame(4) [OF confirm(1)] by simp
  next
    case (command k subject c now)
    then show ?thesis using put_outbox_frame(4) [OF command(1)] by simp
  qed (auto simp: finish_message_fields remember_request_def)
  then show ?thesis using assms request_ok_change [OF assms(1)] by (auto simp: request_inv_def)
qed

lemma conv_inv_change: "change H db db' \<Longrightarrow> conv_inv H db \<Longrightarrow> conv_inv H db'"
  using history_inv_change message_inv_change proposal_inv_change input_inv_change
    request_inv_change
  by (auto simp: conv_inv_def)

lemma conv_inv_changes: "(change H)\<^sup>*\<^sup>* db db' \<Longrightarrow> conv_inv H db \<Longrightarrow> conv_inv H db'"
  by (induction rule: rtranclp_induct) (auto intro: conv_inv_change)

end
