(* ===== verification/ConversationSteps.thy ===== *)
theory ConversationSteps
  imports ConversationSafety
begin

text \<open>
  What a committed operation of the Conversation Service did: a replay that changed nothing, or a
  sequence of elementary changes. \<open>conv_step\<close> collects the transactions of the service, its
  publisher and its retention job; the invariant holds in every state they reach.
\<close>

section \<open>Completed content\<close>

lemma map_fst_sort_key: "map f (sort_key f xs) = sort (map f xs)"
proof (rule properties_for_sort [symmetric])
  show "mset (map f (sort_key f xs)) = mset (map f xs)" by simp
qed simp

lemma concat_chunks:
  assumes "sort (map fst chunks) = [1..<Suc n]"
  shows "concat (map (chunk_of chunks) [1..<Suc n]) = concat (map snd (sort_key fst chunks))"
proof -
  let ?ys = "sort_key fst chunks"
  have d: "distinct (map fst chunks)"
    using assms by (metis distinct_sort distinct_upt)
  have k: "map fst ?ys = [1..<Suc n]" using assms by (simp add: map_fst_sort_key)
  have "chunk_of chunks (fst y) = snd y" if "y \<in> set ?ys" for y
  proof -
    have "y \<in> set chunks" using that by simp
    then have "map_of chunks (fst y) = Some (snd y)" using d by simp
    then show ?thesis by (simp add: chunk_of_def)
  qed
  then have "map (chunk_of chunks) (map fst ?ys) = map snd ?ys" by simp
  then show ?thesis unfolding k by simp
qed

lemma sort_key_map: "sort_key f (map g xs) = map g (sort_key (\<lambda>x. f (g x)) xs)"
proof (induction xs)
  case (Cons x xs)
  have "insort_key f (g x) (map g ys) = map g (insort_key (\<lambda>x. f (g x)) x ys)" for ys
    by (induction ys) auto
  then show ?case using Cons by simp
qed simp

lemma validate_completion_cases:
  assumes "validate_completion sha data (map (\<lambda>h. (h_sequence h, h_content h)) (chunks_of mid db))
    = Inr content"
  shows "content = joined_chunks mid db" and "d_content data = Some content"
    and "d_content_sha256 data = Some (sha content)" and "length content \<le> max_message_bytes"
    and "sort (map h_sequence (chunks_of mid db)) = [1..<Suc (length (chunks_of mid db))]"
    and "d_content_bytes data = Good (int (length content))"
proof -
  let ?c = "map (\<lambda>h. (h_sequence h, h_content h)) (chunks_of mid db)"
  obtain s b n d where f: "d_content data = Some s" "d_content_bytes data = Good b"
      "d_chunk_count data = Good n" "d_content_sha256 data = Some d"
    using assms by (auto simp: validate_completion_def split: option.splits fld.splits)
  have g: "length s \<le> max_message_bytes" "0 \<le> n" "int (length s) = b" "sha s = d"
      "int (length ?c) = n" "sort (map fst ?c) = [1..<nat n + 1]"
      "concat (map (chunk_of ?c) [1..<nat n + 1]) = s" "content = s"
    using assms by (auto simp: validate_completion_def f split: if_splits)
  have n: "nat n = length (chunks_of mid db)" using g(5) by simp
  have o: "sort (map fst ?c) = [1..<Suc (length (chunks_of mid db))]" using g(6) n by simp
  have "concat (map snd (sort_key fst ?c)) = s"
    using concat_chunks [OF o] g(7) n by simp
  then show "content = joined_chunks mid db"
    using g(8) by (simp add: sort_key_map joined_chunks_def o_def)
  show "sort (map h_sequence (chunks_of mid db)) = [1..<Suc (length (chunks_of mid db))]"
    using o by (simp add: o_def)
qed (use assms in \<open>auto simp: validate_completion_def split: option.splits fld.splits if_splits\<close>)

section \<open>Commands\<close>

lemma create_conversation_cases:
  assumes "create_conversation H owner key q x db = Inr (c, db')"
  obtains (Replay) old where "find_request owner ''create_conversation'' key db = Some old"
      "i_request_sha256 old = dg_request H (Create_request q)"
      "row_by v_conversation_id (i_resource_id old) (conversations db) = Some c" "db' = db"
  | (Fresh) "find_request owner ''create_conversation'' key db = None"
      "\<not> has_row v_conversation_id (v_conversation_id c) (conversations db)"
      "v_conversation_id c = xe_fresh x" "v_last_sequence c = 0" "v_owner_id c = owner"
      "db' = remember_request owner ''create_conversation'' key (dg_request H (Create_request q))
         (xe_fresh x) None (db\<lparr>conversations := conversations db @ [c]\<rparr>)"
proof (cases "find_request owner ''create_conversation'' key db")
  case None
  then show thesis using assms Fresh
    by (auto simp: create_conversation_def Let_def split: if_splits)
next
  case (Some old)
  then show thesis using assms Replay [of old]
    by (auto simp: create_conversation_def Let_def split: if_splits option.splits)
qed

lemma create_message_cases:
  assumes "create_message H owner cid key q x db = Inr (r, db')"
  obtains (Replay) c old m s where "owned owner cid db = Inr c"
      "find_request owner (message_operation cid) key db = Some old"
      "i_request_sha256 old = dg_request H (Message_request q)"
      "row_by m_message_id (i_resource_id old) (messages db) = Some m"
      "i_sequence old = Some s" "r = (m, s)" "db' = db"
  | (Fresh) c s db2 db3 where "owned owner cid db = Inr c"
      "find_request owner (message_operation cid) key db = None"
      "\<not> has_row m_message_id (mp_message_id q) (messages db)"
      "present cid ''message.completed'' (Message_shown (message_json (user_message cid q (xe_now x))))
         (xe_now x) (db\<lparr>messages := messages db @ [user_message cid q (xe_now x)],
            conversations := update_where (\<lambda>r. v_conversation_id r = cid)
              (\<lambda>r. r\<lparr>v_delegation_grant_id := Some (mp_delegation_grant_id q)\<rparr>)
              (conversations db)\<rparr>) = Inr (s, db2)"
      "put_outbox (xe_fresh x) run_command_subject
         (Run_requested (message_command owner c q (xe_fresh x))) (xe_now x) db2 = Inr db3"
      "r = (user_message cid q (xe_now x), s)"
      "db' = remember_request owner (message_operation cid) key (dg_request H (Message_request q))
         (mp_message_id q) (Some s) db3"
proof -
  obtain c where c: "owned owner cid db = Inr c"
    using assms by (auto simp: create_message_def Let_def split: sum.splits)
  show thesis
  proof (cases "find_request owner (message_operation cid) key db")
    case (Some old)
    then show thesis using assms c Replay [of c old]
      by (auto simp: create_message_def Let_def split: if_splits option.splits)
  next
    case None
    note n = None
    let ?m = "user_message cid q (xe_now x)"
    let ?db1 = "db\<lparr>messages := messages db @ [?m], conversations := update_where
      (\<lambda>r. v_conversation_id r = cid) (\<lambda>r. r\<lparr>v_delegation_grant_id := Some (mp_delegation_grant_id q)\<rparr>)
      (conversations db)\<rparr>"
    have new: "\<not> has_row m_message_id (mp_message_id q) (messages db)"
      using assms c n by (auto simp: create_message_def Let_def)
    obtain s db2 where p: "present cid ''message.completed'' (Message_shown (message_json ?m))
        (xe_now x) ?db1 = Inr (s, db2)"
      using assms c n new
      by (cases "present cid ''message.completed'' (Message_shown (message_json ?m)) (xe_now x) ?db1")
        (auto simp: create_message_def Let_def)
    obtain db3 where "put_outbox (xe_fresh x) run_command_subject
        (Run_requested (message_command owner c q (xe_fresh x))) (xe_now x) db2 = Inr db3"
      using assms c n new p
      by (cases "put_outbox (xe_fresh x) run_command_subject
        (Run_requested (message_command owner c q (xe_fresh x))) (xe_now x) db2")
        (auto simp: create_message_def Let_def)
    then show thesis using assms c n new p
      by (intro Fresh [OF c n new p]) (auto simp: create_message_def Let_def)
  qed
qed

lemma answer_input_cases:
  assumes "answer_input H owner rid key run response x db = Inr (res, db')"
  obtains (Replay) r c old s where "row_by q_input_request_id rid (input_requests db) = Some r"
      "row_by v_conversation_id (q_conversation_id r) (conversations db) = Some c"
      "v_owner_id c = owner" "find_request owner (input_operation rid) key db = Some old"
      "i_request_sha256 old = dg_request H (Answer_request run response)"
      "i_sequence old = Some s" "res = (rid, s)" "db' = db"
  | (Fresh) r c s db2 db3 where "row_by q_input_request_id rid (input_requests db) = Some r"
      "row_by v_conversation_id (q_conversation_id r) (conversations db) = Some c"
      "v_owner_id c = owner" "find_request owner (input_operation rid) key db = None"
      "q_state r = Pending"
      "present (q_conversation_id r) ''input.response.accepted'' (Response_shown rid) (xe_now x)
         (db\<lparr>input_requests := update_where (\<lambda>i. q_input_request_id i = rid)
            (\<lambda>i. i\<lparr>q_state := Answered, q_response := Some response,
                q_response_run_id := Some run, q_answered_at := Some (xe_now x)\<rparr>)
            (input_requests db)\<rparr>) = Inr (s, db2)"
      "put_outbox (xe_fresh x) run_command_subject
         (Run_requested (answer_command owner c r run response (xe_fresh x))) (xe_now x) db2
         = Inr db3"
      "res = (rid, s)"
      "db' = remember_request owner (input_operation rid) key
         (dg_request H (Answer_request run response)) rid (Some s) db3"
proof -
  obtain r where r: "row_by q_input_request_id rid (input_requests db) = Some r"
    using assms by (cases "row_by q_input_request_id rid (input_requests db)")
      (simp_all add: answer_input_def Let_def)
  obtain c where c: "row_by v_conversation_id (q_conversation_id r) (conversations db) = Some c"
    using assms r by (cases "row_by v_conversation_id (q_conversation_id r) (conversations db)")
      (simp_all add: answer_input_def Let_def)
  have w: "v_owner_id c = owner"
    using assms r c by (simp add: answer_input_def Let_def split: if_splits)
  show thesis
  proof (cases "find_request owner (input_operation rid) key db")
    case (Some old)
    then show thesis using assms r c w Replay [of r c old]
      by (auto simp: answer_input_def Let_def split: if_splits option.splits)
  next
    case None
    note n = None
    let ?db1 = "db\<lparr>input_requests := update_where (\<lambda>i. q_input_request_id i = rid)
            (\<lambda>i. i\<lparr>q_state := Answered, q_response := Some response,
                q_response_run_id := Some run, q_answered_at := Some (xe_now x)\<rparr>)
            (input_requests db)\<rparr>"
    let ?p = "present (q_conversation_id r) ''input.response.accepted'' (Response_shown rid)
      (xe_now x) ?db1"
    have st: "q_state r = Pending"
      using assms r c w n by (simp add: answer_input_def Let_def split: if_splits)
    obtain s db2 where p: "?p = Inr (s, db2)"
      using assms r c w n st by (cases ?p) (auto simp: answer_input_def Let_def)
    let ?o = "put_outbox (xe_fresh x) run_command_subject
      (Run_requested (answer_command owner c r run response (xe_fresh x))) (xe_now x) db2"
    obtain db3 where "?o = Inr db3"
      using assms r c w n st p by (cases ?o) (auto simp: answer_input_def Let_def)
    then show thesis using assms r c w n st p
      by (intro Fresh [OF r c w n st p]) (auto simp: answer_input_def Let_def)
  qed
qed

section \<open>Operations as elementary changes\<close>

lemma change_r: "(change H)\<^sup>*\<^sup>* a b \<Longrightarrow> change H b c \<Longrightarrow> (change H)\<^sup>*\<^sup>* a c"
  by (rule rtranclp.rtrancl_into_rtrancl)

lemma find_request_frame:
  "request_idempotency db' = request_idempotency db \<Longrightarrow>
   find_request owner op key db' = find_request owner op key db"
  by (simp add: find_request_def)

lemma create_conversation_changes:
  assumes "create_conversation H owner key q x db = Inr (c, db')"
  shows "(change H)\<^sup>*\<^sup>* db db'"
  using assms
proof (cases rule: create_conversation_cases)
  case Fresh
  let ?db1 = "db\<lparr>conversations := conversations db @ [c]\<rparr>"
  have "change H db ?db1" using Fresh by (intro add_conversation) simp_all
  moreover have "change H ?db1 db'" unfolding Fresh(6)
    using Fresh by (intro remember) (simp_all add: find_request_def request_ok_def)
  ultimately show ?thesis by (rule change_r [OF r_into_rtranclp])
qed simp

lemma create_message_changes:
  assumes "create_message H owner cid key q x db = Inr (r, db')"
  shows "(change H)\<^sup>*\<^sup>* db db'"
  using assms
proof (cases rule: create_message_cases)
  case (Fresh c s db2 db3)
  let ?m = "user_message cid q (xe_now x)"
  let ?da = "db\<lparr>messages := messages db @ [?m]\<rparr>"
  let ?db1 = "?da\<lparr>conversations := update_where (\<lambda>r. v_conversation_id r = cid)
    (\<lambda>r. r\<lparr>v_delegation_grant_id := Some (mp_delegation_grant_id q)\<rparr>) (conversations ?da)\<rparr>"
  have "change H db ?da" using Fresh(3) by (intro add_message) (simp_all add: user_message_def)
  moreover have "change H ?da ?db1" by (rule set_grant)
  moreover have "change H ?db1 db2" using Fresh(4) by (intro presented) simp
  moreover have "change H db2 db3"
    by (rule command [OF Fresh(5)]) (simp add: message_command_def)
  moreover have "has_row m_message_id (mp_message_id q) (messages db3)"
    using put_outbox_frame(1) [OF Fresh(5)] present_frame(1) [OF Fresh(4)]
    by (simp add: user_message_def)
  then have "change H db3 db'" unfolding Fresh(7)
    using Fresh(2) put_outbox_frame(4) [OF Fresh(5)] present_frame(4) [OF Fresh(4)]
    by (intro remember) (simp_all add: find_request_def request_ok_def message_operation_def)
  ultimately show ?thesis
    by (meson change_r r_into_rtranclp)
qed simp

lemma answer_input_changes:
  assumes "answer_input H owner rid key run response x db = Inr (res, db')" and "input_inv H db"
  shows "(change H)\<^sup>*\<^sup>* db db'"
  using assms(1)
proof (cases rule: answer_input_cases)
  case (Fresh r c s db2 db3)
  let ?f = "\<lambda>i. i\<lparr>q_state := Answered, q_response := Some response,
     q_response_run_id := Some run, q_answered_at := Some (xe_now x)\<rparr>"
  let ?db1 = "db\<lparr>input_requests := update_where (\<lambda>i. q_input_request_id i = rid) ?f
     (input_requests db)\<rparr>"
  have rid: "q_input_request_id r = rid" using Fresh(1) by (auto dest: row_by_SomeD)
  have "change H db ?db1" using Fresh(1,5) by (rule close_input)
  moreover have "change H ?db1 db2" by (rule presented [OF Fresh(6)])
  moreover have "answers_bounded db rid" using assms(2) by (simp add: input_inv_def)
  then have "count_where (\<lambda>w. answers_request rid (o_payload w)) (conversation_outbox db2) = 0"
    using Fresh(1,5) present_frame(6) [OF Fresh(6)] by (simp add: answers_bounded_def)
  moreover have "row_by q_input_request_id rid (input_requests db2) = Some (?f r)"
    using Fresh(1) present_frame(3) [OF Fresh(6)] rid
      row_by_update_where [of "\<lambda>i. q_input_request_id i = rid" q_input_request_id ?f rid
        "input_requests db"] by simp
  ultimately have "change H db2 db3"
    by (intro command [OF Fresh(7)]) (simp add: answer_command_def rid)
  moreover have "change H db3 db'" unfolding Fresh(9)
    using Fresh(4) put_outbox_frame(4) [OF Fresh(7)] present_frame(4) [OF Fresh(6)]
    by (intro remember) (simp_all add: find_request_def request_ok_def input_operation_def)
  ultimately show ?thesis
    using \<open>change H db ?db1\<close> \<open>change H ?db1 db2\<close> by (meson change_r r_into_rtranclp)
qed simp

section \<open>Projection as elementary changes\<close>

lemma show_event_cases:
  assumes "show_event pe data x db = Inr (out, db')"
  obtains s where "present (pe_conversation_id pe) (pe_kind pe) (Runtime_shown data) (xe_now x) db
      = Inr (s, db')" "out = Some s"
  using assms by (auto simp: show_event_def split: sum.splits)

lemma show_event_change: "show_event pe data x db = Inr (out, db') \<Longrightarrow> change H db db'"
  by (erule show_event_cases) (rule presented)

lemma require_streaming_cases:
  assumes "require_streaming mid cid db = Inr i"
  obtains m where "mid = Some i" "row_by m_message_id i (messages db) = Some m"
    "m_conversation_id m = cid" "m_status m = Streaming"
  using assms by (auto simp: require_streaming_def split: option.splits if_splits)

lemma reconcile_cases:
  assumes "reconcile_suspension susp now db = Inr (out, db')"
  obtains (Nothing) "out = None" "db' = db"
  | (Opened) r k s where "row_by q_suspension_id susp (input_requests db) = Some r"
      "row_by sc_suspension_id susp (suspension_commitments db) = Some k"
      "commitment_agrees r k" "q_state r = Reserved"
      "present (q_conversation_id r) ''input.request_created''
         (Input_shown (q_input_request_id r) susp (q_checkpoint_id r) (q_prompt r) (q_schema r)) now
         (db\<lparr>input_requests := update_where (\<lambda>i. q_suspension_id i = susp)
            (\<lambda>i. i\<lparr>q_state := Pending\<rparr>) (input_requests db)\<rparr>) = Inr (s, db')" "out = Some s"
proof (cases "row_by q_suspension_id susp (input_requests db)")
  case None
  then show thesis using assms Nothing by (simp add: reconcile_suspension_def)
next
  case (Some r)
  note r = Some
  show thesis
  proof (cases "row_by sc_suspension_id susp (suspension_commitments db)")
    case None
    then show thesis using assms r Nothing by (simp add: reconcile_suspension_def)
  next
    case (Some k)
    have "q_suspension_id r = susp" "sc_suspension_id k = susp"
      using r Some by (auto dest: row_by_SomeD)
    moreover have "q_input_request_id r = sc_input_request_id k
        \<and> q_checkpoint_id r = sc_checkpoint_id k \<and> q_run_id r = sc_run_id k"
      using assms r Some by (simp add: reconcile_suspension_def split: if_splits)
    ultimately have a: "commitment_agrees r k" by (simp add: commitment_agrees_def)
    show thesis
    proof (cases "q_state r = Reserved")
      case True
      let ?db1 = "db\<lparr>input_requests := update_where (\<lambda>i. q_suspension_id i = susp)
            (\<lambda>i. i\<lparr>q_state := Pending\<rparr>) (input_requests db)\<rparr>"
      let ?p = "present (q_conversation_id r) ''input.request_created''
         (Input_shown (q_input_request_id r) susp (q_checkpoint_id r) (q_prompt r) (q_schema r)) now
         ?db1"
      obtain s db1 where p: "?p = Inr (s, db1)"
        using assms r Some a True
        by (cases ?p) (auto simp: reconcile_suspension_def commitment_agrees_def)
      then show thesis using assms r Some a True
        by (intro Opened [OF r Some a True]) (auto simp: reconcile_suspension_def
            commitment_agrees_def)
    next
      case False
      then show thesis using assms r Some a Nothing
        by (simp add: reconcile_suspension_def commitment_agrees_def)
    qed
  qed
qed

lemma reconcile_changes:
  assumes "reconcile_suspension susp now db = Inr (out, db')"
  shows "(change H)\<^sup>*\<^sup>* db db'"
  using assms
proof (cases rule: reconcile_cases)
  case (Opened r k s)
  then have "change H db (db\<lparr>input_requests := update_where (\<lambda>i. q_suspension_id i = susp)
            (\<lambda>i. i\<lparr>q_state := Pending\<rparr>) (input_requests db)\<rparr>)"
    by (intro open_input)
  moreover note presented [OF Opened(5)]
  ultimately show ?thesis by (rule change_r [OF r_into_rtranclp])
qed simp

lemma project_result_cases:
  assumes "project_result pe data x db = Inr (out, db')"
  obtains (Ignored) "out = None" "db' = db"
  | (Proposed) ids db2 where "parse_uuids (d_final_message_ids data) = Inr ids" "ids \<noteq> []"
      "''messages'' \<in> set (d_required_confirmations data)"
      "if completed_count (Some (pe_conversation_id pe)) (pe_run_id pe) ids db = length ids
       then confirm_messages (pe_run_id pe) ids x (record_proposal pe ids db) = Inr db2
       else db2 = record_proposal pe ids db"
      "show_event pe data x db2 = Inr (out, db')"
proof -
  obtain ids where ids: "parse_uuids (d_final_message_ids data) = Inr ids"
    using assms by (cases "parse_uuids (d_final_message_ids data)")
      (simp_all add: project_result_def)
  show thesis
  proof (cases "ids = [] \<or> ''messages'' \<notin> set (d_required_confirmations data)")
    case True
    then show thesis using assms ids Ignored by (simp add: project_result_def)
  next
    case False
    let ?c = "if completed_count (Some (pe_conversation_id pe)) (pe_run_id pe) ids db = length ids
       then confirm_messages (pe_run_id pe) ids x (record_proposal pe ids db)
       else Inr (record_proposal pe ids db)"
    have e: "project_result pe data x db = (case ?c of Inl e \<Rightarrow> Inl e
        | Inr db2 \<Rightarrow> show_event pe data x db2)"
      using assms ids False by (simp add: project_result_def del: sum_case_Inr_iff)
    obtain db2 where c: "?c = Inr db2"
      using assms unfolding e by (cases ?c) simp_all
    then have "show_event pe data x db2 = Inr (out, db')" using assms unfolding e by simp
    then show thesis using False c
      by (intro Proposed [OF ids, of db2]) (auto split: if_splits)
  qed
qed

lemma record_proposal_changes: "(change H)\<^sup>*\<^sup>* db (record_proposal pe ids db)"
  by (auto simp: record_proposal_def intro!: r_into_rtranclp add_proposal)

lemma record_proposal_frame [simp]:
  "messages (record_proposal pe ids db) = messages db"
  "completed_count c r us (record_proposal pe ids db) = completed_count c r us db"
  by (simp_all add: record_proposal_def completed_count_def)

lemma project_result_changes:
  assumes "project_result pe data x db = Inr (out, db')"
  shows "(change H)\<^sup>*\<^sup>* db db'"
  using assms
proof (cases rule: project_result_cases)
  case (Proposed ids db2)
  have "(change H)\<^sup>*\<^sup>* (record_proposal pe ids db) db2"
  proof (cases "completed_count (Some (pe_conversation_id pe)) (pe_run_id pe) ids db = length ids")
    case True
    then have "confirm_messages (pe_run_id pe) ids x (record_proposal pe ids db) = Inr db2"
      using Proposed(4) by simp
    then have "change H (record_proposal pe ids db) db2"
      by (rule confirm [where cid = "Some (pe_conversation_id pe)"]) (use True in simp)
    then show ?thesis by (rule r_into_rtranclp)
  qed (use Proposed(4) in simp)
  with record_proposal_changes have "(change H)\<^sup>*\<^sup>* db db2" by (rule rtranclp_trans)
  then show ?thesis using show_event_change [OF Proposed(5)] by (rule change_r)
qed simp

lemma project_suspension_cases:
  assumes "project_suspension pe data x db = Inr (out, db')"
  obtains susp ckpt rid k where "d_suspension_id data = Good susp"
    "d_checkpoint_id data = Good ckpt" "d_input_request_id data = Good rid"
    "row_by sc_suspension_id susp (suspension_commitments (record_commitment pe susp ckpt rid db))
       = Some k"
    "sc_run_id k = pe_run_id pe" "sc_checkpoint_id k = ckpt" "sc_input_request_id k = rid"
    "reconcile_suspension susp (xe_now x) (record_commitment pe susp ckpt rid db)
       = Inr (out, db')"
proof -
  obtain susp ckpt rid where g: "d_suspension_id data = Good susp"
    "d_checkpoint_id data = Good ckpt" "d_input_request_id data = Good rid"
    using assms
    by (cases "d_suspension_id data"; cases "d_checkpoint_id data"; cases "d_input_request_id data")
      (simp_all add: project_suspension_def)
  let ?r = "row_by sc_suspension_id susp
    (suspension_commitments (record_commitment pe susp ckpt rid db))"
  obtain k where k: "?r = Some k"
    using assms g by (cases ?r) (simp_all add: project_suspension_def)
  show thesis using assms g k that [OF g k]
    by (simp add: project_suspension_def split: if_splits)
qed

lemma record_commitment_changes: "(change H)\<^sup>*\<^sup>* db (record_commitment pe susp ckpt rid db)"
  by (auto simp: record_commitment_def intro!: r_into_rtranclp add_commitment)

lemma project_suspension_changes:
  assumes "project_suspension pe data x db = Inr (out, db')"
  shows "(change H)\<^sup>*\<^sup>* db db'"
  using assms
proof (cases rule: project_suspension_cases)
  case (1 susp ckpt rid k)
  then show ?thesis
    using record_commitment_changes reconcile_changes by (meson rtranclp_trans)
qed

lemma project_started_cases:
  assumes "project_started pe data x db = Inr (out, db')"
  obtains mid where "pe_message_id pe = Some mid"
    "show_event pe data x (if has_row m_message_id mid (messages db) then db
       else db\<lparr>messages := messages db @ [streaming_message pe mid (xe_now x)]\<rparr>) = Inr (out, db')"
  using assms by (auto simp: project_started_def split: option.splits)

lemma project_started_changes:
  assumes "project_started pe data x db = Inr (out, db')"
  shows "(change H)\<^sup>*\<^sup>* db db'"
  using assms
proof (cases rule: project_started_cases)
  case (1 mid)
  let ?db1 = "if has_row m_message_id mid (messages db) then db
       else db\<lparr>messages := messages db @ [streaming_message pe mid (xe_now x)]\<rparr>"
  have "(change H)\<^sup>*\<^sup>* db ?db1"
    by (auto intro!: r_into_rtranclp add_message simp: streaming_message_def)
  then show ?thesis using show_event_change [OF 1(2)] by (rule change_r)
qed

lemma parse_delta_cases:
  assumes "parse_delta data = Inr (n, s)"
  shows "d_chunk_sequence data = Good (int n)" and "0 < n" and "d_content data = Some s"
    and "s \<noteq> []" and "length s \<le> max_delta_bytes" and "int n \<le> max_chunk_sequence"
  using assms by (auto simp: parse_delta_def split: fld.splits option.splits if_splits)

lemma project_delta_cases:
  assumes "project_delta pe data x db = Inr (out, db')"
  obtains (Again) mid n s h where
    "require_streaming (pe_message_id pe) (pe_conversation_id pe) db = Inr mid"
    "parse_delta data = Inr (n, s)" "row_by h_sequence n (chunks_of mid db) = Some h"
    "h_content h = s" "show_event pe data x db = Inr (out, db')"
  | (New) mid n s where
    "require_streaming (pe_message_id pe) (pe_conversation_id pe) db = Inr mid"
    "parse_delta data = Inr (n, s)" "row_by h_sequence n (chunks_of mid db) = None"
    "show_event pe data x (db\<lparr>message_chunks := message_chunks db @
       [\<lparr>h_message_id = mid, h_sequence = n, h_content = s\<rparr>]\<rparr>) = Inr (out, db')"
proof -
  obtain mid where m: "require_streaming (pe_message_id pe) (pe_conversation_id pe) db = Inr mid"
    using assms by (cases "require_streaming (pe_message_id pe) (pe_conversation_id pe) db")
      (simp_all add: project_delta_def)
  obtain n s where d: "parse_delta data = Inr (n, s)"
    using assms m by (cases "parse_delta data") (auto simp: project_delta_def)
  show thesis
  proof (cases "row_by h_sequence n (chunks_of mid db)")
    case None
    then show thesis using assms m d New [OF m d] by (simp add: project_delta_def)
  next
    case (Some h)
    then show thesis using assms m d Again [OF m d Some]
      by (simp add: project_delta_def split: if_splits)
  qed
qed

lemma project_delta_changes:
  assumes "project_delta pe data x db = Inr (out, db')"
  shows "(change H)\<^sup>*\<^sup>* db db'"
  using assms
proof (cases rule: project_delta_cases)
  case (Again mid n s h)
  then show ?thesis by (auto intro: r_into_rtranclp show_event_change)
next
  case (New mid n s)
  from New(1) obtain m where m: "row_by m_message_id mid (messages db) = Some m"
    "m_status m = Streaming" by (rule require_streaming_cases)
  have "change H db (db\<lparr>message_chunks := message_chunks db @
       [\<lparr>h_message_id = mid, h_sequence = n, h_content = s\<rparr>]\<rparr>)"
    using m New(3) parse_delta_cases [OF New(2)] by (intro add_chunk)
  then show ?thesis using show_event_change [OF New(4)] by (rule change_r [OF r_into_rtranclp])
qed

lemma confirm_if_complete_cases:
  assumes "confirm_if_complete run x db = Inr db'"
  obtains (No_proposal) "row_by rp_run_id run (result_proposals db) = None" "db' = db"
  | (Incomplete) p where "row_by rp_run_id run (result_proposals db) = Some p"
      "completed_count None run (rp_final_message_ids p) db \<noteq> length (rp_final_message_ids p)"
      "db' = db"
  | (Complete) p where "row_by rp_run_id run (result_proposals db) = Some p"
      "completed_count None run (rp_final_message_ids p) db = length (rp_final_message_ids p)"
      "confirm_messages run (rp_final_message_ids p) x db = Inr db'"
  using assms by (auto simp: confirm_if_complete_def split: option.splits if_splits)

lemma confirm_if_complete_changes:
  assumes "confirm_if_complete run x db = Inr db'"
  shows "(change H)\<^sup>*\<^sup>* db db'"
  using assms
proof (cases rule: confirm_if_complete_cases)
  case (Complete p)
  then show ?thesis by (intro r_into_rtranclp confirm)
qed simp_all

lemma project_completed_cases:
  assumes "project_completed H pe data x db = Inr (out, db')"
  obtains mid m content db1 where
    "require_streaming (pe_message_id pe) (pe_conversation_id pe) db = Inr mid"
    "pe_message_id pe = Some mid" "row_by m_message_id mid (messages db) = Some m"
    "m_conversation_id m = pe_conversation_id pe" "m_status m = Streaming"
    "validate_completion (dg_sha256 H) data
       (map (\<lambda>h. (h_sequence h, h_content h)) (chunks_of mid db)) = Inr content"
    "confirm_if_complete (pe_run_id pe) x (finish_message mid Completed content
       (Some (case d_finish_reason data of None \<Rightarrow> ''stop'' | Some r \<Rightarrow> r, d_usage data))
       (xe_now x) db) = Inr db1"
    "show_event pe data x db1 = Inr (out, db')"
proof -
  obtain mid where m: "require_streaming (pe_message_id pe) (pe_conversation_id pe) db = Inr mid"
    using assms by (cases "require_streaming (pe_message_id pe) (pe_conversation_id pe) db")
      (simp_all add: project_completed_def)
  let ?v = "validate_completion (dg_sha256 H) data
       (map (\<lambda>h. (h_sequence h, h_content h)) (chunks_of mid db))"
  obtain content where v: "?v = Inr content"
    using assms m by (cases ?v) (simp_all add: project_completed_def)
  let ?c = "confirm_if_complete (pe_run_id pe) x (finish_message mid Completed content
       (Some (case d_finish_reason data of None \<Rightarrow> ''stop'' | Some r \<Rightarrow> r, d_usage data))
       (xe_now x) db)"
  obtain db1 where c: "?c = Inr db1"
    using assms m v by (cases ?c) (simp_all add: project_completed_def Let_def)
  from m obtain r where r: "pe_message_id pe = Some mid" "row_by m_message_id mid (messages db) = Some r"
    "m_conversation_id r = pe_conversation_id pe" "m_status r = Streaming"
    by (rule require_streaming_cases)
  show thesis
    by (rule that [OF m r v c]) (use assms m v c in \<open>simp add: project_completed_def Let_def\<close>)
qed

lemma project_completed_changes:
  assumes "project_completed H pe data x db = Inr (out, db')"
  shows "(change H)\<^sup>*\<^sup>* db db'"
  using assms
proof (cases rule: project_completed_cases)
  case (1 mid m content db1)
  let ?db = "finish_message mid Completed content
       (Some (case d_finish_reason data of None \<Rightarrow> ''stop'' | Some r \<Rightarrow> r, d_usage data))
       (xe_now x) db"
  have "change H db ?db"
    by (rule finish [OF 1(3,5) _ validate_completion_cases(1) [OF 1(6)]]) simp
  moreover have "(change H)\<^sup>*\<^sup>* ?db db1" using 1(7) by (rule confirm_if_complete_changes)
  ultimately show ?thesis using show_event_change [OF 1(8)]
    by (meson converse_rtranclp_into_rtranclp change_r)
qed

lemma project_ended_cases:
  assumes "project_ended status pe data x db = Inr (out, db')"
  obtains mid m where "pe_message_id pe = Some mid"
    "row_by m_message_id mid (messages db) = Some m"
    "m_conversation_id m = pe_conversation_id pe" "m_status m = Streaming"
    "show_event pe data x (finish_message mid status (joined_chunks mid db) None (xe_now x) db)
       = Inr (out, db')"
proof -
  obtain mid where m: "require_streaming (pe_message_id pe) (pe_conversation_id pe) db = Inr mid"
    using assms by (cases "require_streaming (pe_message_id pe) (pe_conversation_id pe) db")
      (simp_all add: project_ended_def)
  from m obtain r where r: "pe_message_id pe = Some mid" "row_by m_message_id mid (messages db) = Some r"
    "m_conversation_id r = pe_conversation_id pe" "m_status r = Streaming"
    by (rule require_streaming_cases)
  show thesis by (rule that [OF r]) (use assms m in \<open>simp add: project_ended_def\<close>)
qed

lemma project_ended_changes:
  assumes "project_ended status pe data x db = Inr (out, db')" and "status \<noteq> Streaming"
  shows "(change H)\<^sup>*\<^sup>* db db'"
  using assms(1)
proof (cases rule: project_ended_cases)
  case (1 mid m)
  have "change H db (finish_message mid status (joined_chunks mid db) None (xe_now x) db)"
    using 1(2,4) assms(2) by (rule finish) simp
  then show ?thesis using show_event_change [OF 1(5)] by (rule change_r [OF r_into_rtranclp])
qed

lemma project_input_cases:
  assumes "project_input H pe data x db = Inr (out, db')"
  obtains (Again) susp ckpt prompt where "d_suspension_id data = Good susp"
      "d_checkpoint_id data = Good ckpt" "d_prompt data = Some prompt"
      "has_row q_suspension_id susp (input_requests db)"
      "reconcile_suspension susp (xe_now x) db = Inr (out, db')"
  | (New) susp ckpt prompt where "d_suspension_id data = Good susp"
      "d_checkpoint_id data = Good ckpt" "d_prompt data = Some prompt"
      "\<not> has_row q_suspension_id susp (input_requests db)"
      "\<not> has_row q_input_request_id (dg_input_id H susp) (input_requests db)"
      "reconcile_suspension susp (xe_now x) (db\<lparr>input_requests := input_requests db @
         [new_input H pe data susp ckpt prompt x db]\<rparr>) = Inr (out, db')"
proof -
  obtain susp ckpt prompt where g: "d_suspension_id data = Good susp"
    "d_checkpoint_id data = Good ckpt" "d_prompt data = Some prompt"
    using assms
    by (cases "d_suspension_id data"; cases "d_checkpoint_id data"; cases "d_prompt data")
      (simp_all add: project_input_def)
  show thesis
  proof (cases "has_row q_suspension_id susp (input_requests db)")
    case True
    then show thesis using assms g by (intro Again [OF g True]) (simp add: project_input_def)
  next
    case False
    then show thesis using assms g
      by (intro New [OF g False]) (simp_all add: project_input_def split: if_splits)
  qed
qed

lemma project_input_changes:
  assumes "project_input H pe data x db = Inr (out, db')"
  shows "(change H)\<^sup>*\<^sup>* db db'"
  using assms
proof (cases rule: project_input_cases)
  case Again
  then show ?thesis by (intro reconcile_changes)
next
  case (New susp ckpt prompt)
  let ?db = "db\<lparr>input_requests := input_requests db @ [new_input H pe data susp ckpt prompt x db]\<rparr>"
  have "change H db ?db" using New by (intro add_input) (simp_all add: new_input_def)
  moreover have "(change H)\<^sup>*\<^sup>* ?db db'" using New(6) by (rule reconcile_changes)
  ultimately show ?thesis by (rule converse_rtranclp_into_rtranclp)
qed

lemma project_effect_changes:
  assumes "project_effect H pe data x db = Inr (out, db')"
  shows "(change H)\<^sup>*\<^sup>* db db'"
  using assms unfolding project_effect_def Let_def
  by (auto split: if_splits intro: project_result_changes project_suspension_changes
      project_started_changes project_delta_changes project_completed_changes
      project_ended_changes project_input_changes)

lemma project_cases:
  assumes "project H e x db = Inr (out, db')"
  obtains (Duplicate) i where "validate_event_envelope e" "ev_id e = Good i"
      "has_row fst i (inbox_events db)" "out = None" "db' = db"
  | (Applied) i cid owner run thread corr cause tp kind data c db1 where
      "validate_event_envelope e" "ev_id e = Good i" "ev_conversation_id e = Good cid"
      "ev_user_id e = Good owner" "ev_run_id e = Good run" "ev_data e = Some data"
      "ev_type e = Some kind"
      "\<not> has_row fst i (inbox_events db)" "owned owner cid db = Inr c"
      "thread = v_thread_id c" "ev_thread_id e = Good thread"
      "project_effect H \<lparr>pe_event_id = i, pe_conversation_id = cid, pe_run_id = run,
         pe_correlation_id = corr, pe_causation_id = cause, pe_traceparent = tp, pe_kind = kind,
         pe_message_id = fld_value (d_message_id data)\<rparr> data x db = Inr (out, db1)"
      "db' = db1\<lparr>inbox_events := inbox_events db1 @ [(i, kind, xe_now x)]\<rparr>"
      "ev_correlation_id e = Good corr" "ev_causation_id e = Good cause"
proof -
  have v: "validate_event_envelope e" using assms by (simp add: project_def split: if_splits)
  have p: "project H e x db = Inr (out, db')" by (rule assms)
  note D = project_def conversation_event_invalid_def
  obtain i where g0: "ev_id e = Good i"
    using p v by (cases "ev_id e") (simp_all add: D)
  obtain cid where g1: "ev_conversation_id e = Good cid"
    using p v g0 by (cases "ev_conversation_id e") (simp_all add: D)
  obtain owner where g2: "ev_user_id e = Good owner"
    using p v g0 g1 by (cases "ev_user_id e") (simp_all add: D)
  obtain run where g3: "ev_run_id e = Good run"
    using p v g0 g1 g2 by (cases "ev_run_id e") (simp_all add: D)
  obtain thread where g4: "ev_thread_id e = Good thread"
    using p v g0 g1 g2 g3 by (cases "ev_thread_id e") (simp_all add: D)
  obtain corr where g5: "ev_correlation_id e = Good corr"
    using p v g0 g1 g2 g3 g4 by (cases "ev_correlation_id e") (simp_all add: D)
  obtain cause where g6: "ev_causation_id e = Good cause"
    using p v g0 g1 g2 g3 g4 g5 by (cases "ev_causation_id e") (simp_all add: D)
  obtain tp where g7: "ev_traceparent e = Some tp"
    using p v g0 g1 g2 g3 g4 g5 g6 by (cases "ev_traceparent e") (simp_all add: D)
  obtain kind where g8: "ev_type e = Some kind"
    using p v g0 g1 g2 g3 g4 g5 g6 g7 by (cases "ev_type e") (simp_all add: D)
  obtain data where g9: "ev_data e = Some data"
    using p v g0 g1 g2 g3 g4 g5 g6 g7 g8 by (cases "ev_data e") (simp_all add: D)
  note g = g0 g1 g2 g3 g4 g5 g6 g7 g8 g9
  show thesis
  proof (cases "has_row fst i (inbox_events db)")
    case True
    then have "out = None \<and> db' = db" using p v g by (simp add: D)
    then show thesis using Duplicate [OF v g0 True] by simp
  next
    case False
    obtain c where c: "owned owner cid db = Inr c"
      using assms v g False by (cases "owned owner cid db") (simp_all add: project_def)
    have th: "thread = v_thread_id c" and d: "d_message_id data \<noteq> Malformed"
      using assms v g False c by (simp_all add: project_def split: if_splits)
    let ?pe = "\<lparr>pe_event_id = i, pe_conversation_id = cid, pe_run_id = run,
         pe_correlation_id = corr, pe_causation_id = cause, pe_traceparent = tp, pe_kind = kind,
         pe_message_id = fld_value (d_message_id data)\<rparr>"
    obtain o1 db1 where p: "project_effect H ?pe data x db = Inr (o1, db1)"
      using assms v g False c th d
      by (cases "project_effect H ?pe data x db") (auto simp: project_def)
    then have "o1 = out" "db' = db1\<lparr>inbox_events := inbox_events db1 @ [(i, kind, xe_now x)]\<rparr>"
      using assms v g False c th d by (simp_all add: project_def)
    then show thesis using p
      by (intro Applied [OF v g(1-4) g(10) g(9) False c th g(5), of corr cause tp db1])
        (simp_all add: g)
  qed
qed

lemma project_changes:
  assumes "project H e x db = Inr (out, db')"
  shows "(change H)\<^sup>*\<^sup>* db db'"
  using assms
proof (cases rule: project_cases)
  case (Applied i cid owner run thread corr cause tp kind data c db1)
  then show ?thesis by (auto intro: change_r project_effect_changes mark_event)
qed simp

section \<open>The service\<close>

inductive conv_step :: "digests \<Rightarrow> conversation_db \<Rightarrow> conversation_db \<Rightarrow> bool" for H where
  Create: "create_conversation H owner key q x db = Inr (c, db') \<Longrightarrow> conv_step H db db'"
| Message: "create_message H owner cid key q x db = Inr (r, db') \<Longrightarrow> conv_step H db db'"
| Answer: "answer_input H owner rid key run response x db = Inr (r, db') \<Longrightarrow> conv_step H db db'"
| Project: "project H e x db = Inr (out, db') \<Longrightarrow> conv_step H db db'"
| Publish: "publish_pending broker now (conversation_outbox db, log) = (t, log', n)
    \<Longrightarrow> conv_step H db (db\<lparr>conversation_outbox := t\<rparr>)"
| Prune: "conv_step H db (prune_conversations now db)"

definition conv_reach :: "digests \<Rightarrow> conversation_db \<Rightarrow> bool" where
  "conv_reach H db \<longleftrightarrow> (conv_step H)\<^sup>*\<^sup>* empty_conversation_db db"

lemma conv_inv_empty: "conv_inv H empty_conversation_db"
  by (simp add: conv_inv_def history_inv_def message_inv_def proposal_inv_def input_inv_def
      request_inv_def answers_bounded_def counter_def history_def empty_conversation_db_def)

text \<open>A publishing round changes neither identities nor payloads; retention only removes rows,
  and the chunks of a message all at once.\<close>

lemma publish_rows_messages:
  "publish_rows broker now rs (t, log, n) = (t', log', n')
   \<Longrightarrow> map message_of t' = map message_of t"
proof (induction broker now rs "(t, log, n)" arbitrary: t log n rule: publish_rows.induct)
  case (2 broker now r rs t log n)
  show ?case
  proof (cases "broker (o_event_id r)")
    case Ack
    show ?thesis using "2.hyps" [OF Ack] "2.prems" Ack by simp
  qed (use "2.prems" in simp_all)
qed simp

lemma conv_inv_outbox:
  assumes inv: "conv_inv H db"
    and ids: "distinct (map o_event_id t)"
    and sub: "set (map message_of t) \<subseteq> set (map message_of (conversation_outbox db))"
    and cnt: "\<And>P. count_where (\<lambda>w. P (o_payload w)) t
      \<le> count_where (\<lambda>w. P (o_payload w)) (conversation_outbox db)"
  shows "conv_inv H (db\<lparr>conversation_outbox := t\<rparr>)" (is "conv_inv H ?db")
proof -
  have "confirmation_ok ?db (o_event_id w) (o_payload w)" if "w \<in> set t" for w
  proof -
    have "message_of w \<in> set (map message_of (conversation_outbox db))" using that sub by auto
    then obtain w0 where "w0 \<in> set (conversation_outbox db)" "message_of w0 = message_of w" by auto
    then have "confirmation_ok db (o_event_id w) (o_payload w)"
      using inv by (auto simp: conv_inv_def proposal_inv_def message_of_def)
    then show ?thesis by (rule confirmation_ok_mono) (simp_all add: completed_in_def)
  qed
  then have "proposal_inv ?db" using inv ids by (simp add: conv_inv_def proposal_inv_def)
  moreover have "answers_bounded ?db rid" for rid
    using cnt [of "answers_request rid"] inv
    by (auto simp: answers_bounded_def conv_inv_def input_inv_def intro: order_trans)
  then have "input_inv H ?db"
    using inv by (simp add: conv_inv_def input_inv_def input_row_ok_cong [of ?db db])
  ultimately show ?thesis using inv
    by (simp add: conv_inv_def history_defs message_defs request_inv_def request_ok_def)
qed

lemma map_message_of_eq:
  assumes "map message_of t = map message_of u"
  shows "map o_event_id t = map o_event_id u"
    and "count_where (\<lambda>w. P (o_payload w)) t = count_where (\<lambda>w. P (o_payload w)) u"
proof -
  have l: "length t = length u" using assms by (rule map_eq_imp_length_eq)
  have "map o_event_id t = map o_event_id u
    \<and> count_where (\<lambda>w. P (o_payload w)) t = count_where (\<lambda>w. P (o_payload w)) u"
    using l assms by (induction t u rule: list_induct2) (auto simp: message_of_def)
  then show "map o_event_id t = map o_event_id u"
    "count_where (\<lambda>w. P (o_payload w)) t = count_where (\<lambda>w. P (o_payload w)) u" by auto
qed

lemma conv_inv_publish:
  assumes "publish_pending broker now (conversation_outbox db, log) = (t, log', n)"
    and inv: "conv_inv H db"
  shows "conv_inv H (db\<lparr>conversation_outbox := t\<rparr>)"
proof -
  have m: "map message_of t = map message_of (conversation_outbox db)"
    using assms(1) unfolding publish_pending_def by (auto intro: publish_rows_messages)
  have "distinct (map o_event_id (conversation_outbox db))"
    using inv by (simp add: conv_inv_def proposal_inv_def)
  then show ?thesis
    using map_message_of_eq(1) [OF m] map_message_of_eq(2) [OF m] m
    by (intro conv_inv_outbox [OF inv]) simp_all
qed

lemma count_where_filter_le: "count_where P (filter Q t) \<le> count_where P t"
  by (induction t) auto

lemma message_inv_drop_chunks:
  assumes "message_inv db"
  shows "message_inv (db\<lparr>message_chunks := delete_where (\<lambda>h. K (h_message_id h)) (message_chunks db)\<rparr>)"
    (is "message_inv ?db")
proof -
  have c: "chunks_of i ?db = (if K i then [] else chunks_of i db)" for i
    by (auto simp: chunks_of_def delete_where_def filter_empty_conv intro!: filter_cong)
  have "distinct (map (\<lambda>h. (h_message_id h, h_sequence h)) (message_chunks ?db))"
    using assms by (auto simp: message_inv_def delete_where_def intro: distinct_map_filter)
  then show ?thesis using assms
    by (simp add: message_inv_def c joined_chunks_def)
qed

lemma confirmation_ok_cong:
  assumes "result_proposals db' = result_proposals db" and "messages db' = messages db"
  shows "confirmation_ok db' i ev = confirmation_ok db i ev"
  using assms(1) completed_in_cong [OF assms(2)] by (cases ev) (simp_all add: confirmation_ok_def)

lemma conv_inv_chunks:
  assumes inv: "conv_inv H db" and "message_inv db'"
    and eq: "conversations db' = conversations db"
      "presentation_events db' = presentation_events db" "messages db' = messages db"
      "request_idempotency db' = request_idempotency db"
      "conversation_outbox db' = conversation_outbox db"
      "result_proposals db' = result_proposals db" "input_requests db' = input_requests db"
      "suspension_commitments db' = suspension_commitments db"
  shows "conv_inv H db'"
proof -
  have "history_inv db'" using inv by (simp add: conv_inv_def history_defs eq)
  moreover have "proposal_inv db'"
    using inv confirmation_ok_cong [OF eq(6,3)] by (simp add: conv_inv_def proposal_inv_def eq)
  moreover have "input_inv H db'"
    by (rule input_inv_frame [of H db]) (use inv in \<open>simp_all add: conv_inv_def eq\<close>)
  moreover have "request_inv db'"
    using inv by (simp add: conv_inv_def request_inv_def request_ok_def eq)
  ultimately show ?thesis using assms(2) by (simp add: conv_inv_def)
qed

lemma conv_inv_prune:
  assumes "conv_inv H db"
  shows "conv_inv H (prune_conversations now db)"
proof -
  let ?K = "\<lambda>i. \<exists>m \<in> set (messages db). m_message_id m = i \<and> terminal_before (now - 30 * minute) m"
  let ?d1 = "db\<lparr>message_chunks := delete_where (\<lambda>h. ?K (h_message_id h)) (message_chunks db)\<rparr>"
  let ?t = "prune_outbox (now - 91 * day) (conversation_outbox db)"
  have "message_inv ?d1" by (rule message_inv_drop_chunks) (use assms in \<open>simp add: conv_inv_def\<close>)
  then have 1: "conv_inv H ?d1" by (rule conv_inv_chunks [OF assms]) simp_all
  have 2: "conv_inv H (?d1\<lparr>conversation_outbox := ?t\<rparr>)"
  proof (rule conv_inv_outbox [OF 1])
    show "distinct (map o_event_id ?t)"
      using assms by (auto simp: conv_inv_def proposal_inv_def prune_outbox_def delete_where_def
          intro: distinct_map_filter)
  qed (auto simp: prune_outbox_def delete_where_def count_where_filter_le)
  then have "message_inv (?d1\<lparr>conversation_outbox := ?t\<rparr>)" by (simp add: conv_inv_def)
  then have "message_inv (prune_conversations now db)"
    by (rule message_inv_cong [rotated 2]) (simp_all add: prune_conversations_def)
  then show ?thesis
    by (rule conv_inv_chunks [OF 2]) (simp_all add: prune_conversations_def)
qed

lemma conv_inv_step: "conv_step H db db' \<Longrightarrow> conv_inv H db \<Longrightarrow> conv_inv H db'"
proof (induction rule: conv_step.induct)
  case (Answer owner rid key run response x db r db')
  then show ?case
    by (blast intro: conv_inv_changes answer_input_changes [OF Answer(1)] dest: conv_inv_def [THEN iffD1])
qed (blast intro: conv_inv_changes create_conversation_changes create_message_changes
    project_changes conv_inv_publish conv_inv_prune)+

lemma conv_inv_reach: "conv_reach H db \<Longrightarrow> conv_inv H db"
  unfolding conv_reach_def
  by (induction rule: rtranclp_induct) (auto intro: conv_inv_empty conv_inv_step)

end
