(* ===== verification/ConversationRequests.thy ===== *)
theory ConversationRequests
  imports ConversationSteps
begin

text \<open>
  The Conversation Service as an implementation of the contracts of \<open>Contracts\<close>: its three
  commands keyed by an idempotency key, and the projection as a consumer of at-least-once
  deliveries. Also what every step keeps: the presentation history grows at its end, terminal
  messages stay, stored requests stay.
\<close>

section \<open>What only grows\<close>

lemma requests_grow:
  assumes "change H db db'"
  shows "\<exists>ys. request_idempotency db' = request_idempotency db @ ys"
  using assms
proof (cases rule: change.cases)
  case (presented cid kind data now s)
  then show ?thesis using present_frame(4) [OF presented] by simp
next
  case (confirm run ids x cid)
  then show ?thesis using confirm_frame(4) [OF confirm(1)] by simp
next
  case (command k subject c now)
  then show ?thesis using put_outbox_frame(4) [OF command(1)] by simp
qed (auto simp: finish_message_fields remember_request_def)

lemma history_grows_change:
  assumes "change H db db'"
  shows "\<exists>ys. presentation_events db' = presentation_events db @ ys"
  using assms
proof (cases rule: change.cases)
  case (presented cid kind data now s)
  from presented show ?thesis by (cases rule: present_cases) simp
next
  case (confirm run ids x cid)
  then show ?thesis using confirm_frame(7) [OF confirm(1)] by simp
next
  case (command k subject c now)
  then show ?thesis using put_outbox_frame(7) [OF command(1)] by simp
qed (auto simp: finish_message_fields remember_request_def)

lemma row_by_append_Some: "row_by key k t = Some r \<Longrightarrow> row_by key k (t @ u) = Some r"
  by (simp add: row_by_append)

lemma terminal_stays_change:
  assumes "change H db db'" and "row_by m_message_id i (messages db) = Some m"
    and "m_status m \<noteq> Streaming"
  shows "row_by m_message_id i (messages db') = Some m"
  using assms(1)
proof (cases rule: change.cases)
  case (finish mid m0 status content meta now)
  have "mid \<noteq> i" using finish(2,3) assms(2,3) by auto
  then show ?thesis using assms(2) finish(1)
    by (auto simp: finish_message_def intro!: trans [OF row_by_update_other] split: option.split)
next
  case (presented cid kind data now s)
  then show ?thesis using present_frame(1) [OF presented] assms(2) by simp
next
  case (confirm run ids x cid)
  then show ?thesis using confirm_frame(1) [OF confirm(1)] assms(2) by simp
next
  case (command k subject c now)
  then show ?thesis using put_outbox_frame(1) [OF command(1)] assms(2) by simp
qed (use assms(2) in \<open>simp_all add: row_by_append_Some remember_request_def\<close>)

text \<open>The owner and the thread of a conversation are fixed.\<close>

lemma conversation_stays_change:
  assumes "change H db db'" and "row_by v_conversation_id i (conversations db) = Some c"
  shows "\<exists>c'. row_by v_conversation_id i (conversations db') = Some c'
    \<and> v_owner_id c' = v_owner_id c \<and> v_thread_id c' = v_thread_id c"
  using assms(1)
proof (cases rule: change.cases)
  case (set_grant cid g)
  then show ?thesis using assms(2) by (simp add: row_by_update_where)
next
  case (presented cid kind data now s)
  from presented show ?thesis
    by (cases rule: present_cases) (simp add: assms(2) row_by_update_where)
next
  case (confirm run ids x cid)
  then show ?thesis using confirm_frame(6) [OF confirm(1)] assms(2) by simp
next
  case (command k subject c now)
  then show ?thesis using put_outbox_frame(6) [OF command(1)] assms(2) by simp
qed (use assms(2) in \<open>simp_all add: row_by_append_Some remember_request_def finish_message_fields\<close>)

text \<open>Answered requests stay as they are.\<close>

lemma answered_stays_change:
  assumes "change H db db'" and "row_by q_input_request_id i (input_requests db) = Some r"
    and "q_state r = Answered" and inv: "input_inv H db"
  shows "row_by q_input_request_id i (input_requests db') = Some r"
proof -
  have other: "row_by q_input_request_id i (update_where P f (input_requests db)) = Some r"
    if "\<And>q. q_input_request_id (f q) = q_input_request_id q" and "\<not> P r" for P f
    using that assms(2) by (simp add: row_by_update_where)
  show ?thesis using assms(1)
  proof (cases rule: change.cases)
    case (open_input susp r0 k)
    have "r0 \<in> set (input_requests db)" "q_suspension_id r0 = susp" "r \<in> set (input_requests db)"
      using open_input(2) assms(2) by (auto dest: row_by_SomeD)
    then have "q_suspension_id r \<noteq> susp"
      using row_by_unique_key [of q_suspension_id "input_requests db" r susp r0] inv open_input
        assms(3) by (auto simp: input_inv_def)
    then show ?thesis unfolding open_input(1) by (simp add: other)
  next
    case (close_input rid r0 v run now)
    have "q_input_request_id r = i" using assms(2) by (auto dest: row_by_SomeD)
    moreover have "i \<noteq> rid" using close_input(2,3) assms(2,3) by auto
    ultimately show ?thesis unfolding close_input(1) by (simp add: other)
  next
    case (presented cid kind data now s)
    then show ?thesis using present_frame(3) [OF presented] assms(2) by simp
  next
    case (confirm run ids x cid)
    then show ?thesis using confirm_frame(3) [OF confirm(1)] assms(2) by simp
  next
    case (command k subject c now)
    then show ?thesis using put_outbox_frame(3) [OF command(1)] assms(2) by simp
  qed (use assms(2) in \<open>simp_all add: row_by_append_Some remember_request_def finish_message_fields\<close>)
qed

section \<open>The same for whole steps\<close>

lemma step_changes:
  assumes "conv_step H db db'" and "conv_inv H db"
  obtains "(change H)\<^sup>*\<^sup>* db db'"
  | t where "db' = db\<lparr>conversation_outbox := t\<rparr>"
  | now where "db' = prune_conversations now db"
  using assms
proof (cases rule: conv_step.cases)
  case (Answer owner rid key run response x r)
  then show thesis using answer_input_changes [OF Answer] that(1) assms(2)
    by (simp add: conv_inv_def)
qed (blast intro: that create_conversation_changes create_message_changes project_changes)+

text \<open>A fact that elementary changes keep, and that does not look at the outbox, the chunks or the
  inbox, is kept by every step.\<close>

lemma step_keeps:
  assumes "(conv_step H)\<^sup>*\<^sup>* db db'" and "conv_inv H db" and "P db"
    and ch: "\<And>a b. change H a b \<Longrightarrow> conv_inv H a \<Longrightarrow> P a \<Longrightarrow> P b"
    and out: "\<And>a t. P a \<Longrightarrow> P (a\<lparr>conversation_outbox := t\<rparr>)"
    and pr: "\<And>a now. P a \<Longrightarrow> P (prune_conversations now a)"
  shows "conv_inv H db' \<and> P db'"
  using assms(1-3)
proof (induction rule: rtranclp_induct)
  case (step a b)
  then have a: "conv_inv H a" "P a" by auto
  have many: "(change H)\<^sup>*\<^sup>* a c \<Longrightarrow> conv_inv H c \<and> P c" for c
    by (induction rule: rtranclp_induct) (use a in \<open>auto intro: conv_inv_change ch\<close>)
  from step(2) a(1) have "P b"
    by (cases rule: step_changes) (use many out pr a(2) in auto)
  then show ?case using conv_inv_step [OF step(2) a(1)] by simp
qed simp

lemma terminal_stays:
  assumes "(conv_step H)\<^sup>*\<^sup>* db db'" and "conv_inv H db"
    and "row_by m_message_id i (messages db) = Some m" and "m_status m \<noteq> Streaming"
  shows "row_by m_message_id i (messages db') = Some m"
  using step_keeps [of H db db' "\<lambda>d. row_by m_message_id i (messages d) = Some m"] assms
    terminal_stays_change [of H _ _ i m]
  by (simp add: prune_conversations_def)

lemma history_grows:
  assumes "(conv_step H)\<^sup>*\<^sup>* db db'" and "conv_inv H db"
  shows "\<exists>ys. presentation_events db' = presentation_events db @ ys"
proof -
  have "conv_inv H db' \<and> (\<exists>ys. presentation_events db' = presentation_events db @ ys)"
    using assms
  proof (rule step_keeps [where P = "\<lambda>d. \<exists>ys. presentation_events d = presentation_events db @ ys"])
    fix a b assume "change H a b" "\<exists>ys. presentation_events a = presentation_events db @ ys"
    then show "\<exists>ys. presentation_events b = presentation_events db @ ys"
      using history_grows_change [of H a b] by auto
  qed (simp_all add: prune_conversations_def)
  then show ?thesis by simp
qed

lemma stored_request_stays:
  assumes "(conv_step H)\<^sup>*\<^sup>* db db'" and "conv_inv H db"
    and "find_request owner op key db = Some r"
  shows "find_request owner op key db' = Some r"
proof -
  have "conv_inv H db' \<and> find_request owner op key db' = Some r"
    using assms
  proof (rule step_keeps)
    fix a b assume "change H a b" "find_request owner op key a = Some r"
    then show "find_request owner op key b = Some r"
      using requests_grow [of H a b] by (auto simp: find_request_def row_by_append_Some)
  qed (simp_all add: find_request_def prune_conversations_def)
  then show ?thesis by simp
qed

lemma answered_stays:
  assumes "(conv_step H)\<^sup>*\<^sup>* db db'" and "conv_inv H db"
    and "row_by q_input_request_id i (input_requests db) = Some r" and "q_state r = Answered"
  shows "row_by q_input_request_id i (input_requests db') = Some r"
proof -
  have "conv_inv H db' \<and> row_by q_input_request_id i (input_requests db') = Some r"
    using assms(1-3)
  proof (rule step_keeps)
    fix a b assume "change H a b" "conv_inv H a"
      "row_by q_input_request_id i (input_requests a) = Some r"
    then show "row_by q_input_request_id i (input_requests b) = Some r"
      using answered_stays_change [of H a b i r] assms(4) by (simp add: conv_inv_def)
  qed (simp_all add: prune_conversations_def)
  then show ?thesis by simp
qed

lemma owned_stays:
  assumes "(conv_step H)\<^sup>*\<^sup>* db db'" and "conv_inv H db" and "owned owner cid db = Inr c"
  shows "\<exists>c'. owned owner cid db' = Inr c' \<and> v_thread_id c' = v_thread_id c"
proof -
  let ?P = "\<lambda>d. \<exists>c'. row_by v_conversation_id cid (conversations d) = Some c'
    \<and> v_owner_id c' = owner \<and> v_thread_id c' = v_thread_id c"
  have "conv_inv H db' \<and> ?P db'" using assms(1,2)
  proof (rule step_keeps)
    show "?P db" using assms(3) by (auto simp: owned_def split: option.splits if_splits)
    fix a b assume ch: "change H a b" and "?P a"
    then obtain c' where "row_by v_conversation_id cid (conversations a) = Some c'"
      "v_owner_id c' = owner" "v_thread_id c' = v_thread_id c" by blast
    then show "?P b" using conversation_stays_change [OF ch, of cid c'] by auto
  qed (simp_all add: prune_conversations_def)
  then show ?thesis by (auto simp: owned_def)
qed

section \<open>The contracts\<close>

text \<open>The key of a command is the owner, the resource it addresses and the idempotency key; the
  result's identity is the resource it made and its place in the conversation.\<close>

definition stored_request :: "pystr \<Rightarrow> uuid \<Rightarrow> pystr \<Rightarrow> conversation_db
    \<Rightarrow> (pystr \<times> uuid \<times> nat option) option" where
  "stored_request op owner key db =
     map_option (\<lambda>r. (i_request_sha256 r, i_resource_id r, i_sequence r)) (find_request owner op key db)"

definition send :: "digests \<Rightarrow> uuid \<times> uuid \<times> pystr \<Rightarrow> message_payload \<Rightarrow> conv_env \<Rightarrow> conversation_db
    \<Rightarrow> (message_row \<times> nat, conversation_db) tx" where
  "send H k q x db = (case k of (owner, cid, key) \<Rightarrow> create_message H owner cid key q x db)"

definition sent :: "conversation_db \<Rightarrow> uuid \<times> uuid \<times> pystr \<Rightarrow> (pystr \<times> uuid \<times> nat option) option" where
  "sent db k = (case k of (owner, cid, key) \<Rightarrow> stored_request (message_operation cid) owner key db)"

definition may_send :: "conversation_db \<Rightarrow> uuid \<times> uuid \<times> pystr \<Rightarrow> bool" where
  "may_send db k = (case k of (owner, cid, key) \<Rightarrow> \<not> isl (owned owner cid db))"

definition answer :: "digests \<Rightarrow> uuid \<times> uuid \<times> pystr \<Rightarrow> uuid \<times> pystr \<Rightarrow> conv_env \<Rightarrow> conversation_db
    \<Rightarrow> (uuid \<times> nat, conversation_db) tx" where
  "answer H k q x db =
     (case (k, q) of ((owner, rid, key), (run, response)) \<Rightarrow>
        answer_input H owner rid key run response x db)"

definition answered :: "conversation_db \<Rightarrow> uuid \<times> uuid \<times> pystr \<Rightarrow> (pystr \<times> nat option) option" where
  "answered db k = (case k of (owner, rid, key) \<Rightarrow>
     map_option (\<lambda>(d, _, s). (d, s)) (stored_request (input_operation rid) owner key db))"

definition may_answer :: "conversation_db \<Rightarrow> uuid \<times> uuid \<times> pystr \<Rightarrow> bool" where
  "may_answer db k =
     (case k of (owner, rid, key) \<Rightarrow>
        (case row_by q_input_request_id rid (input_requests db) of
           None \<Rightarrow> False
         | Some r \<Rightarrow> \<not> isl (owned owner (q_conversation_id r) db)))"

lemma stored_remember:
  assumes "find_request owner op key db = None"
  shows "stored_request op owner key (remember_request owner op key d resource s db)
    = Some (d, resource, s)"
  using assms by (simp add: stored_request_def find_request_def remember_request_def row_by_snoc)

lemma stored_stays:
  "(conv_step H)\<^sup>*\<^sup>* db db' \<Longrightarrow> conv_inv H db \<Longrightarrow> stored_request op owner key db = Some v
     \<Longrightarrow> stored_request op owner key db' = Some v"
  using stored_request_stays by (fastforce simp: stored_request_def)

lemma stored_message_row:
  assumes "conv_inv H db" and "find_request owner (message_operation cid) key db = Some r"
  shows "\<exists>m s. row_by m_message_id (i_resource_id r) (messages db) = Some m \<and> i_sequence r = Some s"
proof -
  have "r \<in> set (request_idempotency db)" "i_operation r = message_operation cid"
    using assms(2) by (auto simp: find_request_def dest: row_by_SomeD)
  then have "request_ok db r" "i_operation r = ''message:'' @ uuid_str cid"
    using assms(1) by (simp_all add: conv_inv_def request_inv_def message_operation_def)
  then show ?thesis by (auto simp: request_ok_def has_row_def)
qed

lemma stored_answer_row:
  assumes "conv_inv H db" and "find_request owner (input_operation rid) key db = Some r"
  shows "\<exists>s. i_sequence r = Some s"
proof -
  have "r \<in> set (request_idempotency db)" "i_operation r = input_operation rid"
    using assms(2) by (auto simp: find_request_def dest: row_by_SomeD)
  then have "request_ok db r" "i_operation r = ''input:'' @ uuid_str rid"
    using assms(1) by (simp_all add: conv_inv_def request_inv_def input_operation_def)
  then show ?thesis by (auto simp: request_ok_def)
qed

lemma one_step: "conv_step H db db' \<Longrightarrow> (conv_step H)\<^sup>*\<^sup>* db db'"
  by (rule r_into_rtranclp)

interpretation sending: idempotent_service "send H" sent "\<lambda>q. dg_request H (Message_request q)"
  "\<lambda>r. (m_message_id (fst r), Some (snd r))" "\<lambda>db k q. may_send db k" idempotency_conflict
  "conv_inv H" "conv_step H" for H
proof unfold_locales
  fix db k q i x
  assume inv: "conv_inv H db" and a: "may_send db k"
    and st: "sent db k = Some (dg_request H (Message_request q), i)"
  obtain owner cid key where k: "k = (owner, cid, key)" by (cases k) auto
  obtain c where c: "owned owner cid db = Inr c"
    using a by (cases "owned owner cid db") (simp_all add: may_send_def k)
  obtain r where r: "find_request owner (message_operation cid) key db = Some r"
    "i_request_sha256 r = dg_request H (Message_request q)" "i = (i_resource_id r, i_sequence r)"
    using st by (auto simp: sent_def stored_request_def k)
  obtain m s where m: "row_by m_message_id (i_resource_id r) (messages db) = Some m"
    "i_sequence r = Some s" using stored_message_row [OF inv r(1)] by blast
  then have "send H k q x db = Inr ((m, s), db)"
    using c r by (simp add: send_def k create_message_def Let_def)
  moreover have "m_message_id m = i_resource_id r" using m(1) by (auto dest: row_by_SomeD)
  ultimately show "\<exists>r. send H k q x db = Inr (r, db) \<and> (m_message_id (fst r), Some (snd r)) = i"
    using r(3) m(2) by simp
next
  fix db k q d i x
  assume "conv_inv H db" "may_send db k" "sent db k = Some (d, i)"
    "d \<noteq> dg_request H (Message_request q)"
  then show "send H k q x db = Inl idempotency_conflict"
    by (cases k) (auto simp: may_send_def sent_def send_def create_message_def stored_request_def
        Let_def split: sum.splits)
next
  fix db k q x r db'
  assume inv: "conv_inv H db" and run: "send H k q x db = Inr (r, db')"
  obtain owner cid key where k: "k = (owner, cid, key)" by (cases k) auto
  have m: "create_message H owner cid key q x db = Inr (r, db')" using run by (simp add: send_def k)
  note step = conv_step.Message [OF m]
  show "conv_inv H db'" using conv_inv_step [OF step inv] .
  show "sent db' k0 = Some v" if "sent db k0 = Some v" for k0 v
    using stored_stays [OF one_step [OF step] inv] that by (cases k0) (auto simp: sent_def)
  show "sent db' k = Some (dg_request H (Message_request q), m_message_id (fst r), Some (snd r))"
    using m
  proof (cases rule: create_message_cases)
    case (Replay c old mr s)
    then show ?thesis by (auto simp: sent_def k stored_request_def dest: row_by_SomeD)
  next
    case (Fresh c s db2 db3)
    have "find_request owner (message_operation cid) key db3 = None"
      using Fresh(2) put_outbox_frame(4) [OF Fresh(5)] present_frame(4) [OF Fresh(4)]
      by (simp add: find_request_def)
    then show ?thesis unfolding Fresh(6,7)
      by (simp add: sent_def k stored_remember user_message_def)
  qed
next
  fix db db' k0 v assume "conv_inv H db" "conv_step H db db'" "sent db k0 = Some v"
  then show "sent db' k0 = Some v"
    using stored_stays [OF one_step] by (cases k0) (auto simp: sent_def)
qed (rule conv_inv_step)

lemma may_answer_rows:
  assumes "may_answer db (owner, rid, key)"
  obtains r c where "row_by q_input_request_id rid (input_requests db) = Some r"
    "row_by v_conversation_id (q_conversation_id r) (conversations db) = Some c"
    "v_owner_id c = owner"
  using assms by (auto simp: may_answer_def owned_def split: option.splits if_splits)

interpretation answering: idempotent_service "answer H" answered
  "\<lambda>q. dg_request H (Answer_request (fst q) (snd q))" "\<lambda>r. Some (snd r)"
  "\<lambda>db k q. may_answer db k" idempotency_conflict "conv_inv H" "conv_step H" for H
proof unfold_locales
  fix db k q i x
  assume inv: "conv_inv H db" and a: "may_answer db k"
    and st: "answered db k = Some (dg_request H (Answer_request (fst q) (snd q)), i)"
  obtain owner rid key where k: "k = (owner, rid, key)" by (cases k) auto
  obtain run response where q: "q = (run, response)" by (cases q)
  obtain r c where rc: "row_by q_input_request_id rid (input_requests db) = Some r"
    "row_by v_conversation_id (q_conversation_id r) (conversations db) = Some c"
    "v_owner_id c = owner" using a unfolding k by (rule may_answer_rows)
  obtain w where w: "find_request owner (input_operation rid) key db = Some w"
    "i_request_sha256 w = dg_request H (Answer_request run response)" "i = i_sequence w"
    using st by (auto simp: answered_def stored_request_def k q)
  obtain s where "i_sequence w = Some s" using stored_answer_row [OF inv w(1)] by blast
  then show "\<exists>r. answer H k q x db = Inr (r, db) \<and> Some (snd r) = i"
    using rc w by (simp add: answer_def k q answer_input_def Let_def)
next
  fix db k q d i x
  assume a: "may_answer db k"
    and st: "answered db k = Some (d, i)" and d: "d \<noteq> dg_request H (Answer_request (fst q) (snd q))"
  obtain owner rid key where k: "k = (owner, rid, key)" by (cases k) auto
  obtain run response where q: "q = (run, response)" by (cases q)
  obtain r c where rc: "row_by q_input_request_id rid (input_requests db) = Some r"
    "row_by v_conversation_id (q_conversation_id r) (conversations db) = Some c"
    "v_owner_id c = owner" using a unfolding k by (rule may_answer_rows)
  obtain w where w: "find_request owner (input_operation rid) key db = Some w"
    "i_request_sha256 w = d" using st by (auto simp: answered_def stored_request_def k)
  then show "answer H k q x db = Inl idempotency_conflict"
    using rc d by (simp add: answer_def k q answer_input_def Let_def)
next
  fix db k q x r db'
  assume inv: "conv_inv H db" and run: "answer H k q x db = Inr (r, db')"
  obtain owner rid key where k: "k = (owner, rid, key)" by (cases k) auto
  obtain rn response where q: "q = (rn, response)" by (cases q)
  have m: "answer_input H owner rid key rn response x db = Inr (r, db')"
    using run by (simp add: answer_def k q)
  note step = conv_step.Answer [OF m]
  show "conv_inv H db'" using conv_inv_step [OF step inv] .
  show "answered db' k0 = Some v" if "answered db k0 = Some v" for k0 v
    using stored_stays [OF one_step [OF step] inv] that by (cases k0) (auto simp: answered_def)
  show "answered db' k = Some (dg_request H (Answer_request (fst q) (snd q)), Some (snd r))"
    using m
  proof (cases rule: answer_input_cases)
    case (Replay r0 c old s)
    then show ?thesis by (simp add: answered_def k q stored_request_def)
  next
    case (Fresh r0 c s db2 db3)
    have "find_request owner (input_operation rid) key db3 = None"
      using Fresh(4) put_outbox_frame(4) [OF Fresh(7)] present_frame(4) [OF Fresh(6)]
      by (simp add: find_request_def)
    then show ?thesis unfolding Fresh(8,9)
      by (simp add: answered_def k q stored_remember)
  qed
next
  fix db db' k0 v assume "conv_inv H db" "conv_step H db db'" "answered db k0 = Some v"
  then show "answered db' k0 = Some v"
    using stored_stays [OF one_step] by (cases k0) (auto simp: answered_def)
qed (rule conv_inv_step)

text \<open>The projection consumes each event identity once. An event that raises is not recorded.\<close>

definition projected_id :: "envelope \<Rightarrow> uuid" where
  "projected_id e = (case ev_id e of Good i \<Rightarrow> i | _ \<Rightarrow> 0)"

definition projected :: "conversation_db \<Rightarrow> uuid \<Rightarrow> bool" where
  "projected db i \<longleftrightarrow> has_row fst i (inbox_events db)"

definition addressed :: "envelope \<Rightarrow> bool" where
  "addressed e \<longleftrightarrow> validate_event_envelope e \<and> good (ev_id e) \<and> good (ev_conversation_id e)
     \<and> good (ev_user_id e) \<and> good (ev_run_id e)"

lemma inbox_grows_change:
  assumes "change H db db'"
  shows "\<exists>ys. inbox_events db' = inbox_events db @ ys"
  using assms
proof (cases rule: change.cases)
  case (presented cid kind data now s)
  then show ?thesis using present_frame(5) [OF presented] by simp
next
  case (confirm run ids x cid)
  then show ?thesis using confirm_frame(5) [OF confirm(1)] by simp
next
  case (command k subject c now)
  then show ?thesis using put_outbox_frame(5) [OF command(1)] by simp
qed (auto simp: finish_message_fields remember_request_def)

lemma inbox_grows:
  assumes "(change H)\<^sup>*\<^sup>* db db'" and "projected db i"
  shows "projected db' i"
  using assms
proof (induction rule: rtranclp_induct)
  case (step a b)
  then show ?case using inbox_grows_change [OF step(2)] by (auto simp: projected_def)
qed

lemma project_seen:
  assumes "addressed e" and "projected db (projected_id e)"
  shows "project H e x db = Inr (None, db)"
proof -
  obtain i cid owner run where g: "ev_id e = Good i" "ev_conversation_id e = Good cid"
    "ev_user_id e = Good owner" "ev_run_id e = Good run"
    using assms(1) by (auto simp: addressed_def good_iff)
  obtain th co ca tp ki da where "ev_thread_id e = Good th" "ev_correlation_id e = Good co"
    "ev_causation_id e = Good ca" "ev_traceparent e = Some tp" "ev_type e = Some ki"
    "ev_data e = Some da" "validate_event_envelope e"
    using assms(1) by (auto simp: addressed_def good_iff validate_event_envelope_def
        contract_ok_def required_present_def)
  then show ?thesis using g assms(2)
    by (simp add: project_def projected_def projected_id_def)
qed

lemma project_addressed:
  assumes "project H e x db = Inr (out, db')"
  shows "addressed e"
proof -
  have p: "project H e x db = Inr (out, db')" by (rule assms)
  note D = project_def conversation_event_invalid_def
  have v: "validate_event_envelope e" using p by (simp add: project_def split: if_splits)
  obtain i where g0: "ev_id e = Good i"
    using p v by (cases "ev_id e") (simp_all add: D)
  obtain cid where g1: "ev_conversation_id e = Good cid"
    using p v g0 by (cases "ev_conversation_id e") (simp_all add: D)
  obtain owner where g2: "ev_user_id e = Good owner"
    using p v g0 g1 by (cases "ev_user_id e") (simp_all add: D)
  obtain run where g3: "ev_run_id e = Good run"
    using p v g0 g1 g2 by (cases "ev_run_id e") (simp_all add: D)
  show ?thesis by (simp add: addressed_def v g0 g1 g2 g3)
qed

lemma project_marks:
  assumes "project H e x db = Inr (out, db')"
  shows "projected db' (projected_id e)"
  using assms
proof (cases rule: project_cases)
  case (Duplicate i)
  then show ?thesis by (simp add: projected_def projected_id_def)
next
  case (Applied i cid owner run thread corr cause tp kind data c db1)
  show ?thesis unfolding Applied(13) by (simp add: projected_def projected_id_def Applied(2))
qed

interpretation projecting: event_inbox "project H" projected_id projected addressed None for H
proof unfold_locales
  fix ev :: envelope and db and x
  assume "addressed ev" "projected db (projected_id ev)"
  then show "project H ev x db = Inr (None, db)" by (rule project_seen)
next
  fix ev :: envelope and x and db
  assume "\<not> addressed ev"
  then show "\<exists>e. project H ev x db = Inl e"
    using project_addressed [of H ev x db] by (cases "project H ev x db") auto
next
  fix ev :: envelope and x and db r db'
  assume "project H ev x db = Inr (r, db')"
  then show "projected db' (projected_id ev)" by (rule project_marks)
next
  fix ev :: envelope and x and db r db' i
  assume "project H ev x db = Inr (r, db')" "projected db i"
  then show "projected db' i" by (auto dest: project_changes intro: inbox_grows)
qed

end
