(* ===== verification/ConversationProperties.thy ===== *)
theory ConversationProperties
  imports ConversationRequests
begin

text \<open>
  The properties of the Conversation Service: the numbered history and its resumable stream, the
  content of completed messages, the confirmation of final messages, human input, retries and
  redeliveries.
\<close>

section \<open>A sample service\<close>

definition sample_digests :: digests where
  "sample_digests = \<lparr>dg_sha256 = (\<lambda>s. rev s),
     dg_request = (\<lambda>r. case r of Create_request q \<Rightarrow> cp_title q | Message_request q \<Rightarrow> mp_content q
                     | Answer_request _ s \<Rightarrow> s),
     dg_input_id = (\<lambda>u. u + 100)\<rparr>"

definition sample_env :: "instant \<Rightarrow> uuid \<Rightarrow> conv_env" where
  "sample_env now i = \<lparr>xe_now = now, xe_fresh = i, xe_bytes = 300\<rparr>"

text \<open>The state after a transaction that may have raised.\<close>

definition after :: "('a, 's) tx \<Rightarrow> 's \<Rightarrow> 's" where
  "after r s = (case r of Inl _ \<Rightarrow> s | Inr (_, s') \<Rightarrow> s')"

lemma after_simps [simp]: "after (Inl e) s = s" "after (Inr (a, s')) s = s'"
  by (simp_all add: after_def)

lemma conv_reach_step:
  assumes "conv_reach H db" and "conv_step H db db'"
  shows "conv_reach H db'"
  using assms unfolding conv_reach_def by (rule rtranclp.rtrancl_into_rtrancl)

lemma conv_reach_after:
  assumes "conv_reach H db"
  shows "conv_reach H (after (create_conversation H owner key cq x db) db)"
    and "conv_reach H (after (create_message H owner cid key mq x db) db)"
    and "conv_reach H (after (project H e x db) db)"
    and "conv_reach H (after (answer_input H owner rid key run v x db) db)"
  using assms conv_reach_step [OF assms] conv_step.intros(1-4)
  by (auto simp: after_def split: sum.split prod.split)

definition sample_conversation :: conversation_db where
  "sample_conversation = after (create_conversation sample_digests 2 ''key-0001''
     \<lparr>cp_title = ''t'', cp_release_id = 8, cp_thread_id = 4, cp_configuration_revision_id = None\<rparr>
     (sample_env 0 3) empty_conversation_db) empty_conversation_db"

lemma sample_conversation_eq:
  "sample_conversation = empty_conversation_db\<lparr>
     conversations := [\<lparr>v_conversation_id = 3, v_owner_id = 2, v_thread_id = 4, v_release_id = 8,
       v_configuration_revision_id = None, v_title = ''t'', v_last_sequence = 0, v_created_at = 0,
       v_updated_at = 0, v_delegation_grant_id = None\<rparr>],
     request_idempotency := [\<lparr>i_owner_id = 2, i_operation = ''create_conversation'',
       i_key = ''key-0001'', i_request_sha256 = ''t'', i_resource_id = 3, i_sequence = None\<rparr>]\<rparr>"
  by (simp add: sample_conversation_def create_conversation_def find_request_def
      empty_conversation_db_def sample_digests_def sample_env_def remember_request_def Let_def
      char_count_def continuation_byte_def)

lemma sample_conversation_reach: "conv_reach sample_digests sample_conversation"
  unfolding sample_conversation_def
  by (rule conv_reach_after) (simp add: conv_reach_def)

definition sample_question :: message_payload where
  "sample_question = \<lparr>mp_message_id = 60, mp_run_id = 1, mp_content = ''hi'',
     mp_delegation_grant_id = 9\<rparr>"

definition sample_asked :: conversation_db where
  "sample_asked = after (create_message sample_digests 2 3 ''key-0002'' sample_question
     (sample_env 5 90) sample_conversation) sample_conversation"

definition sample_asked_row :: conversation_row where
  "sample_asked_row = \<lparr>v_conversation_id = 3, v_owner_id = 2, v_thread_id = 4, v_release_id = 8,
     v_configuration_revision_id = None, v_title = ''t'', v_last_sequence = 1, v_created_at = 0,
     v_updated_at = 5, v_delegation_grant_id = Some 9\<rparr>"

definition sample_command :: "conversation_event outbox_row" where
  "sample_command = outbox_entry 90 run_command_subject
     (Run_requested (message_command 2 (sample_asked_row\<lparr>v_last_sequence := 0, v_updated_at := 0,
        v_delegation_grant_id := None\<rparr>) sample_question 90)) 5"

lemma sample_asked_eq:
  "sample_asked = sample_conversation\<lparr>conversations := [sample_asked_row],
     messages := [user_message 3 sample_question 5],
     presentation_events := [\<lparr>s_conversation_id = 3, s_sequence = 1,
       s_event_type = ''message.completed'',
       s_data = Message_shown (message_json (user_message 3 sample_question 5)),
       s_created_at = 5\<rparr>],
     conversation_outbox := [sample_command],
     request_idempotency := request_idempotency sample_conversation @
       [\<lparr>i_owner_id = 2, i_operation = message_operation 3, i_key = ''key-0002'',
         i_request_sha256 = ''hi'', i_resource_id = 60, i_sequence = Some 1\<rparr>]\<rparr>"
  by (simp add: sample_asked_def create_message_def owned_def find_request_def
      sample_conversation_eq empty_conversation_db_def sample_env_def present_def put_outbox_def
      remember_request_def message_operation_def sample_digests_def sample_question_def
      sample_command_def sample_asked_row_def Let_def)

lemma sample_asked_reach: "conv_reach sample_digests sample_asked"
  unfolding sample_asked_def by (rule conv_reach_after) (rule sample_conversation_reach)

lemma sample_asked_owned: "owned 2 3 sample_asked = Inr sample_asked_row"
  by (simp add: owned_def sample_asked_eq sample_asked_row_def)

definition sample_runtime_event :: "nat \<Rightarrow> pystr \<Rightarrow> event_data \<Rightarrow> envelope" where
  "sample_runtime_event n kind data =
     make_envelope 300 ''runtime'' kind (sample_id n) 0 2 3 4 1 sample_trace 9 data"

lemma sample_runtime_event_valid:
  "n < 16 \<Longrightarrow> validate_event_envelope (sample_runtime_event n kind data)"
  unfolding sample_runtime_event_def
  by (intro validate_envelope_stronger make_envelope_valid sample_trace_ok span_nonzero_sample)
    (simp_all add: max_event_bytes_def)

lemma project_sample:
  assumes "n < 16" and "\<not> has_row fst (sample_id n) (inbox_events db)"
    and "owned 2 3 db = Inr c" and "v_thread_id c = 4" and "d_message_id data \<noteq> Malformed"
  shows "project H (sample_runtime_event n kind data) x db =
    (case project_effect H
        \<lparr>pe_event_id = sample_id n, pe_conversation_id = 3, pe_run_id = 1,
         pe_correlation_id = hex_value sample_trace, pe_causation_id = 9,
         pe_traceparent = make_traceparent sample_trace (sample_id n), pe_kind = kind,
         pe_message_id = fld_value (d_message_id data)\<rparr> data x db of
       Inl err \<Rightarrow> Inl err
     | Inr (out, db1) \<Rightarrow> Inr (out, db1\<lparr>inbox_events :=
         inbox_events db1 @ [(sample_id n, kind, xe_now x)]\<rparr>))"
  using sample_runtime_event_valid [OF assms(1), of kind data] assms
  by (simp add: project_def) (simp add: sample_runtime_event_def make_envelope_def)

section \<open>The history of a conversation\<close>

lemma history_owned_replay:
  assumes "history_inv db" and "owned owner cid db = Inr c"
  shows "replay owner cid k limit db = Inr (take limit (drop k (history cid db)))"
proof -
  have n: "map s_sequence (history cid db) = [1..<Suc (length (history cid db))]"
    using assms(1) by (metis One_nat_def diff_Suc_1 history_inv_def length_map length_upt)
  have f: "filter (\<lambda>r. k < s_sequence r) h = drop k h"
    if "map s_sequence h = [1..<Suc (length h)]" for h :: "presentation_row list"
    using that
  proof (induction h rule: rev_induct)
    case (snoc r h)
    then have "map s_sequence h = [1..<Suc (length h)]" "s_sequence r = Suc (length h)" by auto
    with snoc.IH show ?case by (cases "k \<le> length h") auto
  qed simp
  have "filter (\<lambda>r. s_conversation_id r = cid \<and> k < s_sequence r) (presentation_events db)
      = filter (\<lambda>r. k < s_sequence r) (history cid db)"
    by (simp add: history_def conj_commute)
  also have "\<dots> = drop k (history cid db)" using f [OF n] .
  finally have e: "filter (\<lambda>r. s_conversation_id r = cid \<and> k < s_sequence r)
      (presentation_events db) = drop k (history cid db)" .
  have "sorted (map s_sequence (drop k (history cid db)))"
    unfolding drop_map [symmetric] n by (rule sorted_wrt_drop) (rule sorted_upt)
  then have "sort_key s_sequence (drop k (history cid db)) = drop k (history cid db)"
    by (rule sort_key_id_if_sorted)
  then show ?thesis using assms(2) by (simp add: replay_def e)
qed

text \<open>C13. In every reachable state the presentation events of a conversation are numbered from one
  to the counter of its row without gap or repetition, and a replay after number \<open>k\<close> returns the
  events that follow \<open>k\<close> in order, as many as the limit allows.\<close>

theorem presentation_gap_free:
  assumes "conv_reach H db"
  shows "map s_sequence (history cid db) = [1..<Suc (counter cid db)]
    \<and> (\<forall>owner c k limit. owned owner cid db = Inr c \<longrightarrow>
         replay owner cid k limit db = Inr (take limit (drop k (history cid db))))"
  using conv_inv_reach [OF assms] history_owned_replay
  by (auto simp: conv_inv_def history_inv_def)

lemma presentation_gap_free_witness:
  "length (history 3 sample_asked) = 1
   \<and> replay 2 3 0 10 sample_asked = Inr (take 10 (drop 0 (history 3 sample_asked)))"
proof -
  have "length (history 3 sample_asked) = 1" by (simp add: sample_asked_eq history_def)
  then show ?thesis
    using presentation_gap_free [OF sample_asked_reach, of 3] sample_asked_owned by blast
qed

section \<open>The event stream\<close>

lemma history_prefix:
  assumes "(conv_step H)\<^sup>*\<^sup>* db db'" and "conv_inv H db"
  shows "\<exists>ys. history cid db' = history cid db @ ys"
  using history_grows [OF assms] by (auto simp: history_def)

lemma conv_inv_steps: "(conv_step H)\<^sup>*\<^sup>* db db' \<Longrightarrow> conv_inv H db \<Longrightarrow> conv_inv H db'"
  by (induction rule: rtranclp_induct) (auto intro: conv_inv_step)

lemma length_history: "history_inv db \<Longrightarrow> length (history cid db) = counter cid db"
  by (metis diff_Suc_1 history_inv_def length_map length_upt One_nat_def)

lemma take_upt_min: "take n [i..<Suc j] = [i..<Suc (min (i + n - 1) j)]" if "0 < i"
  using that by (cases "i + n \<le> Suc j") (auto simp: take_upt min_def simp del: upt_Suc)

lemma last_batch:
  assumes "history_inv db" and "take n (drop k (history cid db)) \<noteq> []"
  shows "s_sequence (last (take n (drop k (history cid db)))) = min (k + n) (counter cid db)"
proof -
  let ?b = "take n (drop k (history cid db))"
  have "map s_sequence ?b = take n (drop k [1..<Suc (counter cid db)])"
    using assms(1) by (simp add: history_inv_def take_map [symmetric] drop_map [symmetric] del: upt_Suc)
  also have "\<dots> = [Suc k..<Suc (min (k + n) (counter cid db))]"
    by (simp add: drop_upt take_upt_min del: upt_Suc)
  finally have "map s_sequence ?b = [Suc k..<Suc (min (k + n) (counter cid db))]" .
  moreover have "s_sequence (last ?b) = last (map s_sequence ?b)"
    using assms(2) by (simp add: last_map)
  moreover have "k < min (k + n) (counter cid db)"
    using assms(2) length_history [OF assms(1), of cid] by auto
  ultimately show ?thesis by (simp add: last_upt)
qed

lemma stream_glue:
  assumes "k \<le> m" and "m \<le> c" and "m \<le> length h \<or> m = k"
  shows "drop k (take m h) @ drop m (take c h) = drop k (take c h)"
proof -
  have "take c h = take m h @ drop m (take c h)"
    using assms(2) by (metis append_take_drop_id min.absorb1 take_take)
  then have "drop k (take c h) = drop k (take m h) @ drop (k - length (take m h)) (drop m (take c h))"
    by (metis drop_append)
  then show ?thesis using assms by (auto simp: min_def)
qed

lemma event_stream_chain:
  assumes "dbs \<noteq> []" and "conv_inv H (hd dbs)"
    and "successively (\<lambda>a b. (conv_step H)\<^sup>*\<^sup>* a b) dbs"
    and "owned owner cid (hd dbs) = Inr c"
    and "event_stream owner cid k dbs = (evs, cursor)"
  shows "evs = drop k (take cursor (history cid (last dbs))) \<and> k \<le> cursor
    \<and> cursor \<le> max k (counter cid (last dbs))
    \<and> min (counter cid (hd dbs)) (k + replay_limit * length dbs) \<le> cursor
    \<and> (conv_step H)\<^sup>*\<^sup>* (hd dbs) (last dbs)"
  using assms
proof (induction dbs arbitrary: k c evs)
  case (Cons db rest)
  let ?h = "history cid db"
  let ?b = "take replay_limit (drop k ?h)"
  define m where "m = (if ?b = [] then k else s_sequence (last ?b))"
  have inv: "conv_inv H db" "history_inv db" using Cons.prems(2) by (simp_all add: conv_inv_def)
  have rep: "replay owner cid k replay_limit db = Inr ?b"
    using history_owned_replay [OF inv(2)] Cons.prems(4) by simp
  have len: "length ?h = counter cid db" using length_history [OF inv(2)] .
  have m: "m = (if ?b = [] then k else min (k + replay_limit) (length ?h))"
    using last_batch [OF inv(2), of replay_limit k cid] len by (simp add: m_def)
  have z: "0 < replay_limit" by (simp add: replay_limit_def)
  then have e: "?b = [] \<longleftrightarrow> length ?h \<le> k" by simp
  have km: "k \<le> m" "m \<le> length ?h \<or> m = k" "min (length ?h) (k + replay_limit) \<le> m"
    "m \<le> max k (length ?h)"
    using m e by (auto split: if_splits)
  have b: "?b = drop k (take m ?h)"
  proof (cases "length ?h \<le> k")
    case True
    then show ?thesis using m e by simp
  next
    case False
    then show ?thesis using m e by (simp add: take_drop min_def add.commute)
  qed
  obtain es where st: "event_stream owner cid m rest = (es, cursor)" and evs: "evs = ?b @ es"
    using Cons.prems(5) rep by (auto simp: m_def Let_def split: prod.splits)
  show ?case
  proof (cases "rest = []")
    case True
    then have "es = []" "cursor = m" using st by simp_all
    then show ?thesis using True evs b km len by (simp add: add.commute)
  next
    case False
    then have steps: "(conv_step H)\<^sup>*\<^sup>* db (hd rest)"
      "successively (\<lambda>a b. (conv_step H)\<^sup>*\<^sup>* a b) rest"
      using Cons.prems(3) by (auto simp: successively_Cons)
    obtain c' where "owned owner cid (hd rest) = Inr c'"
      using owned_stays [OF steps(1) inv(1), of owner cid c] Cons.prems(4) by auto
    from Cons.IH [OF False conv_inv_steps [OF steps(1) inv(1)] steps(2) this st]
    have ih: "es = drop m (take cursor (history cid (last rest)))" "m \<le> cursor"
      "cursor \<le> max m (counter cid (last rest))"
      "min (counter cid (hd rest)) (m + replay_limit * length rest) \<le> cursor"
      "(conv_step H)\<^sup>*\<^sup>* (hd rest) (last rest)" by auto
    have all: "(conv_step H)\<^sup>*\<^sup>* db (last rest)" using steps(1) ih(5) by simp
    obtain ys where ys: "history cid (last rest) = ?h @ ys"
      using history_prefix [OF all inv(1)] by blast
    obtain zs where zs: "history cid (hd rest) = ?h @ zs"
      using history_prefix [OF steps(1) inv(1)] by blast
    have l1: "counter cid (hd rest) \<ge> length ?h"
      using zs length_history [of "hd rest" cid] conv_inv_steps [OF steps(1) inv(1)]
      by (simp add: conv_inv_def)
    have l2: "counter cid (last rest) = length (history cid (last rest))"
      using length_history [of "last rest" cid] conv_inv_steps [OF all inv(1)]
      by (simp add: conv_inv_def)
    let ?H = "history cid (last rest)"
    have b2: "?b = drop k (take m ?H)"
      using b km(2) by (auto simp: ys)
    have m2: "m \<le> length ?H \<or> m = k" using km(2) by (auto simp: ys)
    have "evs = drop k (take m ?H) @ drop m (take cursor ?H)" unfolding evs ih(1) b2 [symmetric] ..
    also have "\<dots> = drop k (take cursor ?H)" by (rule stream_glue [OF km(1) ih(2) m2])
    finally have "evs = drop k (take cursor ?H)" .
    moreover have "min (length ?h) (k + replay_limit * Suc (length rest)) \<le> cursor"
      using ih(2,4) l1 km(3) by (auto simp: min_def split: if_splits)
    moreover have "cursor \<le> max k (counter cid (last rest))"
      using ih(3) km(4) l2 ys by auto
    ultimately show ?thesis using False km(1) ih(2) all len by simp
  qed
qed simp

text \<open>C14. The event stream resumes exactly: whatever happens between its polls, a client that
  connects with \<open>Last-Event-ID: k\<close> has received, in order and once each, the events after \<open>k\<close> up
  to the cursor, and every poll advances it by up to 1000 events that already existed.\<close>

theorem event_stream_resumes:
  assumes "dbs \<noteq> []" and "conv_reach H (hd dbs)"
    and "successively (\<lambda>a b. (conv_step H)\<^sup>*\<^sup>* a b) dbs"
    and "owned owner cid (hd dbs) = Inr c"
    and "event_stream owner cid k dbs = (evs, cursor)"
  shows "evs = drop k (take cursor (history cid (last dbs)))
    \<and> min (counter cid (hd dbs)) (k + replay_limit * length dbs) \<le> cursor"
  using event_stream_chain [OF assms(1) conv_inv_reach [OF assms(2)] assms(3-5)] by auto

lemma event_stream_resumes_witness:
  "fst (event_stream 2 3 0 [sample_asked, sample_asked]) = history 3 sample_asked"
proof -
  let ?s = "event_stream 2 3 0 [sample_asked, sample_asked]"
  have a: "successively (\<lambda>a b. (conv_step sample_digests)\<^sup>*\<^sup>* a b) [sample_asked, sample_asked]"
    by simp
  have "counter 3 sample_asked = 1"
    by (simp add: counter_def sample_asked_eq sample_asked_row_def)
  moreover have "fst ?s = drop 0 (take (snd ?s) (history 3 sample_asked))
      \<and> min (counter 3 sample_asked) (replay_limit + replay_limit) \<le> snd ?s"
    using event_stream_resumes [OF _ _ a, of 2 3 sample_asked_row 0 "fst ?s" "snd ?s"]
      sample_asked_reach sample_asked_owned by (simp del: event_stream.simps)
  moreover have "length (history 3 sample_asked) = 1" by (simp add: sample_asked_eq history_def)
  ultimately show ?thesis by (simp add: replay_limit_def del: event_stream.simps)
qed

section \<open>Messages\<close>

text \<open>An applied \<open>message.completed\<close> event.\<close>

lemma project_completed_applied:
  assumes "project H e x db = Inr (Some s, db')" and "ev_type e = Some ''porfirium.message.completed.v1''"
    and "ev_data e = Some data"
  obtains i cid run corr cause tp db1 where "ev_id e = Good i" "ev_run_id e = Good run"
    "ev_conversation_id e = Good cid"
    "project_completed H \<lparr>pe_event_id = i, pe_conversation_id = cid, pe_run_id = run,
         pe_correlation_id = corr, pe_causation_id = cause, pe_traceparent = tp,
         pe_kind = ''porfirium.message.completed.v1'',
         pe_message_id = fld_value (d_message_id data)\<rparr> data x db = Inr (Some s, db1)"
    "db' = db1\<lparr>inbox_events := inbox_events db1
       @ [(i, ''porfirium.message.completed.v1'', xe_now x)]\<rparr>"
  using assms(1)
proof (cases rule: project_cases)
  case (Applied i cid owner run thread corr cause tp kind data0 c db1)
  have k: "kind = ''porfirium.message.completed.v1''" "data0 = data"
    using Applied(6,7) assms(2,3) by simp_all
  show thesis
    by (rule that [OF Applied(2,5,3), of corr cause tp db1])
      (use Applied(12,13) in \<open>simp_all add: k project_effect_def\<close>)
qed simp

lemma confirm_if_complete_messages:
  "confirm_if_complete run x db = Inr db' \<Longrightarrow> messages db' = messages db"
  by (erule confirm_if_complete_cases) (auto dest: confirm_frame(1))

lemma row_by_finish:
  assumes "row_by m_message_id mid (messages db) = Some m"
  shows "\<exists>m'. row_by m_message_id mid (messages (finish_message mid st c meta now db)) = Some m'
    \<and> m_status m' = st \<and> m_content m' = c \<and> m_run_id m' = m_run_id m
    \<and> m_conversation_id m' = m_conversation_id m"
proof -
  let ?F = "\<lambda>m. (case meta of None \<Rightarrow> m
      | Some (reason, usage) \<Rightarrow> m\<lparr>m_finish_reason := Some reason, m_usage := usage\<rparr>)
    \<lparr>m_status := st, m_content := c, m_completed_at := Some now\<rparr>"
  have "row_by m_message_id mid (messages (finish_message mid st c meta now db))
      = map_option (\<lambda>r. if m_message_id r = mid then ?F r else r) (row_by m_message_id mid (messages db))"
    unfolding finish_message_def
    by (simp, rule row_by_update_where) (simp split: option.split)
  moreover have "m_message_id m = mid" using assms by (auto dest: row_by_SomeD)
  ultimately show ?thesis using assms by (simp split: option.split)
qed

text \<open>C15. A message is completed only from the streaming state, with a content that is the join of
  its stored chunks 1..n, has the length and the hash the runtime announced and fits the size
  limit; from then on the stored message never changes.\<close>

theorem completed_content:
  assumes "conv_reach H db" and "project H e x db = Inr (Some s, db')"
    and "ev_type e = Some ''porfirium.message.completed.v1''" and "ev_data e = Some data"
    and "d_message_id data = Good mid" and "(conv_step H)\<^sup>*\<^sup>* db' later"
  shows "\<exists>m0 m. row_by m_message_id mid (messages db) = Some m0 \<and> m_status m0 = Streaming
    \<and> row_by m_message_id mid (messages later) = Some m \<and> m_status m = Completed
    \<and> m_content m = joined_chunks mid db \<and> d_content data = Some (m_content m)
    \<and> sort (map h_sequence (chunks_of mid db)) = [1..<Suc (length (chunks_of mid db))]
    \<and> d_content_sha256 data = Some (dg_sha256 H (m_content m))
    \<and> d_content_bytes data = Good (int (length (m_content m)))
    \<and> length (m_content m) \<le> max_message_bytes"
  using assms(2-4)
proof (cases rule: project_completed_applied)
  case (1 i cid run corr cause tp db1)
  have st: "conv_step H db db'" by (rule conv_step.Project [OF assms(2)])
  have inv: "conv_inv H db'" using conv_inv_step [OF st] conv_inv_reach [OF assms(1)] by simp
  let ?pe = "\<lparr>pe_event_id = i, pe_conversation_id = cid, pe_run_id = run,
     pe_correlation_id = corr, pe_causation_id = cause, pe_traceparent = tp,
     pe_kind = ''porfirium.message.completed.v1'',
     pe_message_id = fld_value (d_message_id data)\<rparr>"
  obtain m0 content db2 where
    r: "row_by m_message_id mid (messages db) = Some m0" "m_status m0 = Streaming"
    and val: "validate_completion (dg_sha256 H) data
       (map (\<lambda>h. (h_sequence h, h_content h)) (chunks_of mid db)) = Inr content"
    and c: "confirm_if_complete run x (finish_message mid Completed content
       (Some (case d_finish_reason data of None \<Rightarrow> ''stop'' | Some r \<Rightarrow> r, d_usage data))
       (xe_now x) db) = Inr db2"
    and sh: "show_event ?pe data x db2 = Inr (Some s, db1)"
    by (rule project_completed_cases [OF 1(4)]) (use assms(5) in auto)
  note v = validate_completion_cases [OF val]
  obtain m where m: "row_by m_message_id mid (messages (finish_message mid Completed content
       (Some (case d_finish_reason data of None \<Rightarrow> ''stop'' | Some r \<Rightarrow> r, d_usage data))
       (xe_now x) db)) = Some m" "m_status m = Completed" "m_content m = content"
    using row_by_finish [OF r(1)] by blast
  have "messages db1 = messages db2"
    by (rule show_event_cases [OF sh]) (rule present_frame(1))
  then have "row_by m_message_id mid (messages db') = Some m"
    using m(1) confirm_if_complete_messages [OF c] 1(5) by simp
  then have "row_by m_message_id mid (messages later) = Some m"
    using terminal_stays [OF assms(6) inv] m(2) by simp
  then show ?thesis using r v m(2,3) by auto
qed

text \<open>A terminal message (completed, interrupted or failed) is final: no operation, delivery or
  retention run changes or removes it, and every later event that would write to it is refused.\<close>

theorem terminal_message_final:
  assumes "conv_reach H db" and "row_by m_message_id mid (messages db) = Some m"
    and "m_status m \<noteq> Streaming" and "(conv_step H)\<^sup>*\<^sup>* db later"
  shows "row_by m_message_id mid (messages later) = Some m
    \<and> (\<forall>pe data x status. pe_message_id pe = Some mid
         \<and> pe_conversation_id pe = m_conversation_id m \<longrightarrow>
         project_delta pe data x later = Inl (Problem 409 ''message_terminal'')
         \<and> project_completed H pe data x later = Inl (Problem 409 ''message_terminal'')
         \<and> project_ended status pe data x later = Inl (Problem 409 ''message_terminal''))"
proof -
  have r: "row_by m_message_id mid (messages later) = Some m"
    using terminal_stays [OF assms(4) conv_inv_reach [OF assms(1)] assms(2,3)] .
  then have "require_streaming (Some mid) (m_conversation_id m) later
      = Inl (Problem 409 ''message_terminal'')"
    using assms(3) by (simp add: require_streaming_def)
  then show ?thesis using r
    by (simp add: project_delta_def project_completed_def project_ended_def)
qed

lemma terminal_message_final_witness:
  "project_delta \<lparr>pe_event_id = 1, pe_conversation_id = 3, pe_run_id = 1, pe_correlation_id = 1,
      pe_causation_id = 1, pe_traceparent = [], pe_kind = ''porfirium.message.delta.v1'',
      pe_message_id = Some 60\<rparr> empty_data (sample_env 9 9) (prune_conversations 100 sample_asked)
    = Inl (Problem 409 ''message_terminal'')"
proof -
  have "row_by m_message_id 60 (messages sample_asked) = Some (user_message 3 sample_question 5)"
    by (simp add: sample_asked_eq user_message_def sample_question_def)
  from terminal_message_final [OF sample_asked_reach this,
      of "prune_conversations 100 sample_asked"]
  show ?thesis by (simp add: user_message_def r_into_rtranclp conv_step.Prune)
qed

text \<open>A sample message: started, one chunk, completed.\<close>

definition sample_delta_data :: event_data where
  "sample_delta_data = empty_data\<lparr>d_message_id := Good 70, d_chunk_sequence := Good 1,
     d_content := Some ''ok''\<rparr>"

definition sample_done_data :: event_data where
  "sample_done_data = empty_data\<lparr>d_message_id := Good 70, d_content := Some ''ok'',
     d_content_bytes := Good 2, d_chunk_count := Good 1, d_content_sha256 := Some ''ko''\<rparr>"

definition sample_started :: conversation_db where
  "sample_started = after (project sample_digests (sample_runtime_event 1
     ''porfirium.message.started.v1'' (empty_data\<lparr>d_message_id := Good 70\<rparr>)) (sample_env 6 91)
     sample_conversation) sample_conversation"

definition sample_written :: conversation_db where
  "sample_written = after (project sample_digests (sample_runtime_event 2
     ''porfirium.message.delta.v1'' sample_delta_data) (sample_env 7 92) sample_started)
     sample_started"

lemma sample_owned:
  "owned 2 3 sample_conversation = Inr (hd (conversations sample_conversation))"
  "v_thread_id (hd (conversations sample_conversation)) = 4"
  by (simp_all add: owned_def sample_conversation_eq empty_conversation_db_def)

lemma sample_started_eq:
  "sample_started = sample_conversation\<lparr>
     conversations := [hd (conversations sample_conversation)\<lparr>v_last_sequence := 1,
       v_updated_at := 6\<rparr>],
     messages := [\<lparr>m_message_id = 70, m_conversation_id = 3, m_run_id = 1,
       m_role = Assistant_role, m_status = Streaming, m_content = [], m_finish_reason = None,
       m_usage = ''{}'', m_created_at = 6, m_completed_at = None\<rparr>],
     presentation_events := [\<lparr>s_conversation_id = 3, s_sequence = 1,
       s_event_type = ''porfirium.message.started.v1'',
       s_data = Runtime_shown (empty_data\<lparr>d_message_id := Good 70\<rparr>), s_created_at = 6\<rparr>],
     inbox_events := [(sample_id 1, ''porfirium.message.started.v1'', 6)]\<rparr>"
proof -
  have "\<not> has_row fst (sample_id 1) (inbox_events sample_conversation)"
    by (simp add: sample_conversation_eq empty_conversation_db_def)
  from project_sample [OF _ this sample_owned,
      of "empty_data\<lparr>d_message_id := Good 70\<rparr>" sample_digests "''porfirium.message.started.v1''"
      "sample_env 6 91"]
  show ?thesis unfolding sample_started_def
    by (simp add: project_effect_def project_started_def show_event_def present_def
        streaming_message_def sample_conversation_eq empty_conversation_db_def sample_env_def)
qed

lemma sample_written_eq:
  "sample_written = sample_started\<lparr>
     conversations := [hd (conversations sample_conversation)\<lparr>v_last_sequence := 2,
       v_updated_at := 7\<rparr>],
     message_chunks := [\<lparr>h_message_id = 70, h_sequence = 1, h_content = ''ok''\<rparr>],
     presentation_events := presentation_events sample_started @
       [\<lparr>s_conversation_id = 3, s_sequence = 2, s_event_type = ''porfirium.message.delta.v1'',
         s_data = Runtime_shown sample_delta_data, s_created_at = 7\<rparr>],
     inbox_events := inbox_events sample_started @
       [(sample_id 2, ''porfirium.message.delta.v1'', 7)]\<rparr>"
proof -
  have a: "\<not> has_row fst (sample_id 2) (inbox_events sample_started)"
    by (simp add: sample_started_eq sample_id_def)
  have b: "owned 2 3 sample_started = Inr (hd (conversations sample_started))"
    "v_thread_id (hd (conversations sample_started)) = 4"
    by (simp_all add: owned_def sample_started_eq sample_conversation_eq empty_conversation_db_def)
  from project_sample [OF _ a b, of sample_delta_data sample_digests
      "''porfirium.message.delta.v1''" "sample_env 7 92"]
  show ?thesis unfolding sample_written_def
    by (simp add: project_effect_def project_delta_def require_streaming_def parse_delta_def
        max_delta_bytes_def max_chunk_sequence_def chunks_of_def show_event_def present_def
        sample_delta_data_def sample_started_eq sample_conversation_eq empty_conversation_db_def
        sample_env_def)
qed

lemma sample_written_reach: "conv_reach sample_digests sample_written"
  unfolding sample_written_def sample_started_def
  by (intro conv_reach_after) (rule sample_conversation_reach)

definition sample_done :: "event_data \<Rightarrow> (nat option, conversation_db) tx" where
  "sample_done data = project sample_digests (sample_runtime_event 3
     ''porfirium.message.completed.v1'' data) (sample_env 8 93) sample_written"

lemma sample_done_presented: "\<exists>db'. sample_done sample_done_data = Inr (Some 3, db')"
proof -
  have a: "\<not> has_row fst (sample_id 3) (inbox_events sample_written)"
    by (simp add: sample_written_eq sample_started_eq sample_id_def)
  have b: "owned 2 3 sample_written = Inr (hd (conversations sample_written))"
    "v_thread_id (hd (conversations sample_written)) = 4"
    by (simp_all add: owned_def sample_written_eq sample_conversation_eq empty_conversation_db_def)
  from project_sample [OF _ a b, of sample_done_data sample_digests
      "''porfirium.message.completed.v1''" "sample_env 8 93"]
  show ?thesis unfolding sample_done_def
    by (simp add: project_effect_def project_completed_def require_streaming_def
        validate_completion_def max_message_bytes_def max_chunks_def chunks_of_def chunk_of_def
        show_event_def present_def finish_message_def confirm_if_complete_def
        sample_done_data_def sample_written_eq sample_started_eq sample_conversation_eq
        empty_conversation_db_def sample_env_def sample_digests_def)
qed

lemma completed_content_witness:
  "\<exists>db' m. sample_done sample_done_data = Inr (Some 3, db')
     \<and> row_by m_message_id 70 (messages (prune_conversations 99 db')) = Some m
     \<and> m_content m = ''ok''"
proof -
  obtain db' where d: "sample_done sample_done_data = Inr (Some 3, db')"
    using sample_done_presented by blast
  from completed_content [OF sample_written_reach d [unfolded sample_done_def], of sample_done_data 70
      "prune_conversations 99 db'"]
  obtain m where "row_by m_message_id 70 (messages (prune_conversations 99 db')) = Some m"
    "d_content sample_done_data = Some (m_content m)"
    by (auto simp: sample_runtime_event_def make_envelope_def sample_done_data_def
        r_into_rtranclp conv_step.Prune)
  then show ?thesis using d by (auto simp: sample_done_data_def)
qed

section \<open>Confirmation of the final messages\<close>

text \<open>C16. A confirmation is never premature and never repeated: every \<open>messages_committed\<close> event of
  the outbox is the one its run's proposal names, it is the only one of its run, and all the
  messages it lists are stored as completed messages of that run.\<close>

theorem confirmations_sound:
  assumes "conv_reach H db" and "w \<in> set (conversation_outbox db)"
    and "o_payload w = Messages_committed e" and "ev_run_id e = Good run"
  shows "(\<exists>p \<in> set (result_proposals db). rp_run_id p = run
       \<and> rp_confirmation_event_id p = Some (o_event_id w))
    \<and> (\<forall>w' \<in> set (conversation_outbox db). \<forall>e'. o_payload w' = Messages_committed e'
         \<and> ev_run_id e' = Good run \<longrightarrow> w' = w)
    \<and> (\<exists>data ids. ev_data e = Some data \<and> d_message_ids data = map Good ids
         \<and> (\<forall>u \<in> set ids. completed_in db run u))"
proof -
  have inv: "proposal_inv db" using conv_inv_reach [OF assms(1)] by (simp add: conv_inv_def)
  have ok: "\<exists>p \<in> set (result_proposals db). rp_run_id p = run
       \<and> rp_confirmation_event_id p = Some (o_event_id v)
       \<and> (\<exists>data ids. ev_data f = Some data \<and> d_message_ids data = map Good ids
         \<and> (\<forall>u \<in> set ids. completed_in db run u))"
    if "v \<in> set (conversation_outbox db)" "o_payload v = Messages_committed f"
      "ev_run_id f = Good run" for v f
  proof -
    have "confirmation_ok db (o_event_id v) (Messages_committed f)"
      using inv that(1) by (auto simp: proposal_inv_def that(2) [symmetric])
    then show ?thesis using that(3) by (auto simp: confirmation_ok_def)
  qed
  obtain p where p: "p \<in> set (result_proposals db)" "rp_run_id p = run"
    "rp_confirmation_event_id p = Some (o_event_id w)"
    and d: "\<exists>data ids. ev_data e = Some data \<and> d_message_ids data = map Good ids
         \<and> (\<forall>u \<in> set ids. completed_in db run u)"
    using ok [OF assms(2-4)] by blast
  have "w' = w" if w': "w' \<in> set (conversation_outbox db)" "o_payload w' = Messages_committed e'"
    "ev_run_id e' = Good run" for w' e'
  proof -
    obtain q where "q \<in> set (result_proposals db)" "rp_run_id q = run"
      "rp_confirmation_event_id q = Some (o_event_id w')"
      using ok [OF w'] by blast
    moreover have "q = p"
      using inv p(1,2) calculation(1,2) same_id_same_row [of rp_run_id "result_proposals db" q p]
      by (simp add: proposal_inv_def)
    ultimately have "o_event_id w' = o_event_id w" using p(3) by simp
    then show ?thesis
      using inv assms(2) w'(1) same_id_same_row [of o_event_id "conversation_outbox db" w' w]
      by (simp add: proposal_inv_def)
  qed
  then show ?thesis using p d by blast
qed

lemma completed_count_cong: "messages db' = messages db \<Longrightarrow> completed_count c r ids db' = completed_count c r ids db"
  by (simp add: completed_count_def)

lemma completed_count_widen:
  assumes "distinct (map m_message_id (messages db))"
    and "completed_count (Some c) run ids db = length ids"
  shows "completed_count None run ids db = length ids"
proof -
  let ?P = "\<lambda>m. m_run_id m = run \<and> m_message_id m \<in> set ids \<and> m_status m = Completed"
  have e: "completed_count None run ids db = length (filter ?P (messages db))"
    by (simp add: completed_count_def count_where_def)
  have "length (filter ?P (messages db)) = card (set (map m_message_id (filter ?P (messages db))))"
    using distinct_card [of "map m_message_id (filter ?P (messages db))"]
      distinct_map_filter [OF assms(1)] by simp
  also have "\<dots> \<le> card (set ids)" by (rule card_mono) auto
  also have "\<dots> \<le> length ids" by (rule card_length)
  finally have "completed_count None run ids db \<le> length ids" using e by simp
  moreover have "completed_count (Some c) run ids db \<le> completed_count None run ids db"
    unfolding completed_count_def by (rule count_where_mono) simp
  ultimately show ?thesis using assms(2) by simp
qed

lemma confirm_messages_confirms:
  assumes "confirm_messages run ids x db = Inr db'"
    and "row_by rp_run_id run (result_proposals db') = Some p"
  shows "\<exists>i. rp_confirmation_event_id p = Some i
    \<and> (p \<in> set (result_proposals db) \<or> has_row o_event_id i (conversation_outbox db'))"
  using assms(1)
proof (cases rule: confirm_cases)
  case (Before q)
  then show ?thesis using assms(2) by (auto dest: row_by_SomeD)
next
  case (Now q c)
  let ?f = "\<lambda>r. r\<lparr>rp_confirmation_event_id := Some (xe_fresh x)\<rparr>"
  have "row_by rp_run_id run (update_where (\<lambda>r. rp_run_id r = run) ?f (result_proposals db))
      = Some (if rp_run_id q = run then ?f q else q)"
    using Now(1) by (simp add: row_by_update_where)
  moreover have "rp_run_id q = run" using Now(1) by (auto dest: row_by_SomeD)
  ultimately have "rp_confirmation_event_id p = Some (xe_fresh x)"
    using assms(2) Now(5) by auto
  then show ?thesis using Now(5) by simp
qed

text \<open>A confirmation is never forgotten, in whichever order proposal and completions arrive: when
  a \<open>message.completed\<close> event of a run, or the first proposal of its result, has been applied and
  the final messages of the proposal are all completed in its conversation, the proposal is
  confirmed, and a confirmation made by this event is in the outbox.\<close>

theorem confirmation_sent:
  assumes "conv_reach H db" and "project H e x db = Inr (Some s, db')"
    and "ev_run_id e = Good run" and "ev_data e = Some data"
    and "ev_type e = Some ''porfirium.message.completed.v1''
      \<or> ev_type e = Some ''porfirium.run.result_proposed.v1''
         \<and> \<not> has_row rp_run_id run (result_proposals db)"
    and "row_by rp_run_id run (result_proposals db') = Some p"
    and "completed_count (Some (rp_conversation_id p)) run (rp_final_message_ids p) db'
      = length (rp_final_message_ids p)"
  shows "\<exists>i. rp_confirmation_event_id p = Some i
    \<and> (p \<in> set (result_proposals db) \<or> has_row o_event_id i (conversation_outbox db'))"
  using assms(2)
proof (cases rule: project_cases)
  case (Applied i cid owner run0 thread corr cause tp kind data0 c db1)
  have dd: "data0 = data" "run0 = run" using Applied(5,6) assms(3,4) by simp_all
  let ?pe = "\<lparr>pe_event_id = i, pe_conversation_id = cid, pe_run_id = run,
     pe_correlation_id = corr, pe_causation_id = cause, pe_traceparent = tp, pe_kind = kind,
     pe_message_id = fld_value (d_message_id data)\<rparr>"
  have eff: "project_effect H ?pe data x db = Inr (Some s, db1)" using Applied(12) dd by simp
  have inv': "conv_inv H db'"
    using conv_inv_step [OF conv_step.Project [OF assms(2)]] conv_inv_reach [OF assms(1)] by simp
  have frame: "messages db' = messages db1" "result_proposals db' = result_proposals db1"
    "conversation_outbox db' = conversation_outbox db1" using Applied(13) by simp_all
  show ?thesis
  proof (cases "kind = ''porfirium.message.completed.v1''")
    case True
    then have "project_completed H ?pe data x db = Inr (Some s, db1)"
      using eff by (simp add: project_effect_def)
    then obtain mid content meta db2 where
      c: "confirm_if_complete run x (finish_message mid Completed content meta (xe_now x) db)
        = Inr db2" and sh: "show_event ?pe data x db2 = Inr (Some s, db1)"
      by (rule project_completed_cases) auto
    from sh have f2: "messages db1 = messages db2" "result_proposals db1 = result_proposals db2"
      "conversation_outbox db1 = conversation_outbox db2"
      by (auto elim!: show_event_cases dest: present_frame)
    have p: "row_by rp_run_id run (result_proposals db2) = Some p"
      using assms(6) frame f2 by simp
    have n: "completed_count None run (rp_final_message_ids p) db'
        = length (rp_final_message_ids p)"
      using completed_count_widen [OF _ assms(7)] inv' by (simp add: conv_inv_def message_inv_def)
    from c show ?thesis
    proof (cases rule: confirm_if_complete_cases)
      case No_proposal
      then show ?thesis using p by simp
    next
      case (Incomplete q)
      then have "q = p" using p by simp
      then show ?thesis
        using Incomplete n completed_count_cong [of db' "finish_message mid Completed content meta
          (xe_now x) db"] frame f2 by simp
    next
      case (Complete q)
      then show ?thesis using confirm_messages_confirms [OF Complete(3) p] frame f2
        by (simp add: finish_message_fields)
    qed
  next
    case False
    then have k: "kind = ''porfirium.run.result_proposed.v1''"
      and fresh: "\<not> has_row rp_run_id run (result_proposals db)"
      using assms(5) Applied(7) by simp_all
    have "project_result ?pe data x db = Inr (Some s, db1)"
      using eff k by (simp add: project_effect_def)
    then show ?thesis
    proof (cases rule: project_result_cases)
      case (Proposed ids db2)
      have f2: "messages db1 = messages db2" "result_proposals db1 = result_proposals db2"
        "conversation_outbox db1 = conversation_outbox db2"
        using Proposed(5) by (auto elim!: show_event_cases dest: present_frame)
      have p: "row_by rp_run_id run (result_proposals db2) = Some p"
        using assms(6) frame f2 by simp
      show ?thesis
      proof (cases "completed_count (Some cid) run ids db = length ids")
        case True
        then have "confirm_messages run ids x (record_proposal ?pe ids db) = Inr db2"
          using Proposed(4) by simp
        from confirm_messages_confirms [OF this p] obtain j where
          j: "rp_confirmation_event_id p = Some j"
            "p \<in> set (result_proposals (record_proposal ?pe ids db))
             \<or> has_row o_event_id j (conversation_outbox db2)" by blast
        moreover have "p \<in> set (result_proposals db)"
          if "p \<in> set (result_proposals (record_proposal ?pe ids db))"
          using that j(1) fresh by (auto simp: record_proposal_def)
        ultimately show ?thesis using frame f2 by auto
      next
        case False
        then have e: "db2 = record_proposal ?pe ids db" using Proposed(4) by simp
        then have "p = \<lparr>rp_run_id = run, rp_event_id = i, rp_conversation_id = cid,
            rp_final_message_ids = ids, rp_traceparent = tp, rp_correlation_id = corr,
            rp_causation_id = cause, rp_confirmation_event_id = None\<rparr>"
          using p fresh by (auto simp: record_proposal_def row_by_snoc has_row_def)
        moreover have "messages db' = messages db" using frame f2 e by simp
        ultimately show ?thesis using assms(7) False completed_count_cong [of db' db] by simp
      qed
    qed simp
  qed
qed simp

definition sample_result_data :: event_data where
  "sample_result_data = empty_data\<lparr>d_final_message_ids := [Good 60],
     d_required_confirmations := [''messages'']\<rparr>"

definition sample_result :: "(nat option, conversation_db) tx" where
  "sample_result = project sample_digests (sample_runtime_event 4
     ''porfirium.run.result_proposed.v1'' sample_result_data) (sample_env 9 94) sample_asked"

definition sample_proposal_row :: proposal_result_row where
  "sample_proposal_row = \<lparr>rp_run_id = 1, rp_event_id = sample_id 4, rp_conversation_id = 3,
     rp_final_message_ids = [60], rp_traceparent = make_traceparent sample_trace (sample_id 4),
     rp_correlation_id = hex_value sample_trace, rp_causation_id = 9,
     rp_confirmation_event_id = None\<rparr>"

definition sample_confirmation :: envelope where
  "sample_confirmation = committed_messages_event sample_proposal_row sample_asked_row [60] 1
     (sample_env 9 94)"

lemma sample_result_eq:
  "\<exists>db'. sample_result = Inr (Some 2, db')
     \<and> result_proposals db' = [sample_proposal_row\<lparr>rp_confirmation_event_id := Some 94\<rparr>]
     \<and> messages db' = [user_message 3 sample_question 5]
     \<and> conversation_outbox db' = [sample_command, outbox_entry 94 messages_committed_subject
          (Messages_committed sample_confirmation) 9]"
proof -
  have a: "\<not> has_row fst (sample_id 4) (inbox_events sample_asked)"
    by (simp add: sample_asked_eq sample_conversation_eq empty_conversation_db_def)
  have b: "v_thread_id sample_asked_row = 4" by (simp add: sample_asked_row_def)
  from project_sample [OF _ a sample_asked_owned b, of sample_result_data sample_digests
      "''porfirium.run.result_proposed.v1''" "sample_env 9 94"]
  show ?thesis unfolding sample_result_def
    by (simp add: project_effect_def project_result_def sample_result_data_def
        completed_count_def record_proposal_def confirm_messages_def put_outbox_def
        last_presented_def show_event_def present_def sample_asked_eq sample_conversation_eq
        empty_conversation_db_def sample_env_def user_message_def sample_question_def
        sample_confirmation_def sample_proposal_row_def sample_command_def
        sample_asked_row_def empty_data_def)
qed

lemma confirmation_sent_witness:
  "\<exists>db' i. sample_result = Inr (Some 2, db') \<and> has_row o_event_id i (conversation_outbox db')"
proof -
  obtain db' where d: "sample_result = Inr (Some 2, db')"
    "result_proposals db' = [sample_proposal_row\<lparr>rp_confirmation_event_id := Some 94\<rparr>]"
    "messages db' = [user_message 3 sample_question 5]" using sample_result_eq by blast
  have "completed_count (Some 3) 1 [60] db' = length [60::nat]"
    by (simp add: completed_count_def d user_message_def sample_question_def)
  moreover have "row_by rp_run_id 1 (result_proposals db')
      = Some (sample_proposal_row\<lparr>rp_confirmation_event_id := Some 94\<rparr>)"
    by (simp add: d sample_proposal_row_def)
  moreover have "result_proposals sample_asked = []"
    by (simp add: sample_asked_eq sample_conversation_eq empty_conversation_db_def)
  ultimately show ?thesis
    using confirmation_sent [OF sample_asked_reach d(1) [unfolded sample_result_def], of 1
        sample_result_data "sample_proposal_row\<lparr>rp_confirmation_event_id := Some 94\<rparr>"] d(1)
    by (auto simp: sample_runtime_event_def make_envelope_def sample_proposal_row_def)
qed

lemma confirmations_sound_witness:
  "\<exists>db'. sample_result = Inr (Some 2, db') \<and> completed_in db' 1 60"
proof -
  obtain db' where d: "sample_result = Inr (Some 2, db')"
    "conversation_outbox db' = [sample_command, outbox_entry 94 messages_committed_subject
          (Messages_committed sample_confirmation) 9]" using sample_result_eq by blast
  have r: "conv_reach sample_digests db'"
    using conv_reach_step [OF sample_asked_reach]
      conv_step.Project [OF d(1) [unfolded sample_result_def]] by blast
  have e: "ev_run_id sample_confirmation = Good 1"
    "ev_data sample_confirmation = Some (empty_data\<lparr>d_run_id := Good 1, d_message_ids := [Good 60],
       d_conversation_sequence := Good 1\<rparr>)"
    by (simp_all add: sample_confirmation_def committed_messages_event_def make_envelope_def
        sample_proposal_row_def)
  have "map Good ids = [Good (60::nat)] \<Longrightarrow> ids = [60]" for ids by auto
  then have "completed_in db' 1 60"
    using confirmations_sound [OF r, of "outbox_entry 94 messages_committed_subject
        (Messages_committed sample_confirmation) 9" sample_confirmation 1] e d(2)
    by fastforce
  then show ?thesis using d(1) by blast
qed

section \<open>Human input\<close>

text \<open>What an event must be for the saga of one suspension: valid, addressed to the conversation
  and not yet applied.\<close>

definition saga_event ::
  "conversation_db \<Rightarrow> uuid \<Rightarrow> conversation_row \<Rightarrow> uuid \<Rightarrow> uuid \<Rightarrow> pystr \<Rightarrow> event_data \<Rightarrow> envelope \<Rightarrow> bool" where
  "saga_event db owner c run i kind data e \<longleftrightarrow> addressed e \<and> ev_id e = Good i
     \<and> ev_conversation_id e = Good (v_conversation_id c) \<and> ev_user_id e = Good owner
     \<and> ev_run_id e = Good run \<and> ev_thread_id e = Good (v_thread_id c) \<and> ev_type e = Some kind
     \<and> ev_data e = Some data \<and> d_message_id data = Missing
     \<and> \<not> projected db i \<and> owned owner (v_conversation_id c) db = Inr c"

definition saga_parsed :: "envelope \<Rightarrow> conversation_row \<Rightarrow> uuid \<Rightarrow> uuid \<Rightarrow> pystr \<Rightarrow> parsed_event" where
  "saga_parsed e c run i kind =
     \<lparr>pe_event_id = i, pe_conversation_id = v_conversation_id c, pe_run_id = run,
      pe_correlation_id = (case ev_correlation_id e of Good u \<Rightarrow> u | _ \<Rightarrow> 0),
      pe_causation_id = (case ev_causation_id e of Good u \<Rightarrow> u | _ \<Rightarrow> 0),
      pe_traceparent = (case ev_traceparent e of Some t \<Rightarrow> t | None \<Rightarrow> []), pe_kind = kind,
      pe_message_id = None\<rparr>"

lemma project_saga:
  assumes "saga_event db owner c run i kind data e"
  shows "project H e x db =
    (case project_effect H (saga_parsed e c run i kind) data x db of
       Inl err \<Rightarrow> Inl err
     | Inr (out, db1) \<Rightarrow> Inr (out, db1\<lparr>inbox_events := inbox_events db1 @ [(i, kind, xe_now x)]\<rparr>))"
proof -
  have v: "validate_event_envelope e"
    using assms by (simp add: saga_event_def addressed_def)
  obtain corr cause tp where g: "ev_correlation_id e = Good corr" "ev_causation_id e = Good cause"
    "ev_traceparent e = Some tp"
    using v by (auto simp: validate_event_envelope_def good_iff)
  show ?thesis using assms v g
    by (simp add: project_def saga_event_def saga_parsed_def projected_def)
qed

lemma saga_parsed_simps [simp]:
  "pe_kind (saga_parsed e c run i k) = k" "pe_event_id (saga_parsed e c run i k) = i"
  "pe_run_id (saga_parsed e c run i k) = run"
  "pe_conversation_id (saga_parsed e c run i k) = v_conversation_id c"
  by (simp_all add: saga_parsed_def)

lemma effect_input:
  "project_effect H (saga_parsed e c run i ''porfirium.input.request_proposed.v1'') data x db
   = project_input H (saga_parsed e c run i ''porfirium.input.request_proposed.v1'') data x db"
  "project_effect H (saga_parsed e c run i ''porfirium.run.suspension_committed.v1'') data x db
   = project_suspension (saga_parsed e c run i ''porfirium.run.suspension_committed.v1'') data x db"
  by (simp_all add: project_effect_def)

lemma present_succeeds:
  assumes "history_inv db" and "row_by v_conversation_id cid (conversations db) = Some c"
  shows "\<exists>db'. present cid kind data now db = Inr (Suc (v_last_sequence c), db')"
proof -
  have "s \<le> v_last_sequence c" if "r \<in> set (presentation_events db)" "s_conversation_id r = cid"
    "s_sequence r = s" for r s
  proof -
    have "s \<in> set (map s_sequence (history cid db))" using that by (auto simp: history_def)
    moreover have "map s_sequence (history cid db) = [1..<Suc (counter cid db)]"
      using assms(1) unfolding history_inv_def by blast
    ultimately have "s \<in> set [1..<Suc (counter cid db)]" by (simp only:)
    then show ?thesis using assms(2) by (auto simp: counter_def)
  qed
  then have "\<not> has_row (\<lambda>r. (s_conversation_id r, s_sequence r)) (cid, v_last_sequence c + 1)
      (presentation_events db)"
    by (force simp: has_row_iff)
  then show ?thesis using assms(2) by (simp add: present_def Let_def)
qed

lemma reconcile_opens:
  assumes "history_inv db" and r: "row_by q_suspension_id susp (input_requests db) = Some r"
    and k: "row_by sc_suspension_id susp (suspension_commitments db) = Some k"
    and a: "commitment_agrees r k" "q_state r = Reserved"
    and c: "row_by v_conversation_id (q_conversation_id r) (conversations db) = Some c"
  shows "\<exists>s db'. reconcile_suspension susp now db = Inr (Some s, db')
    \<and> row_by q_suspension_id susp (input_requests db') = Some (r\<lparr>q_state := Pending\<rparr>)
    \<and> presentation_events db' = presentation_events db @ [\<lparr>s_conversation_id = q_conversation_id r,
        s_sequence = Suc (v_last_sequence c), s_event_type = ''input.request_created'',
        s_data = Input_shown (q_input_request_id r) susp (q_checkpoint_id r) (q_prompt r)
          (q_schema r), s_created_at = now\<rparr>]"
proof -
  let ?db1 = "db\<lparr>input_requests := update_where (\<lambda>i. q_suspension_id i = susp)
            (\<lambda>i. i\<lparr>q_state := Pending\<rparr>) (input_requests db)\<rparr>"
  let ?data = "Input_shown (q_input_request_id r) susp (q_checkpoint_id r) (q_prompt r) (q_schema r)"
  have h: "history_inv ?db1" using assms(1) by (simp add: history_defs)
  obtain db' where p: "present (q_conversation_id r) ''input.request_created'' ?data now ?db1
      = Inr (Suc (v_last_sequence c), db')"
    using present_succeeds [OF h] c by fastforce
  have rs: "q_suspension_id r = susp" using r by (auto dest: row_by_SomeD)
  have "row_by q_suspension_id susp (input_requests ?db1) = Some (r\<lparr>q_state := Pending\<rparr>)"
    using r rs by (simp add: row_by_update_where)
  then have "row_by q_suspension_id susp (input_requests db') = Some (r\<lparr>q_state := Pending\<rparr>)"
    using present_frame(3) [OF p] by simp
  moreover have "presentation_events db' = presentation_events db @
      [\<lparr>s_conversation_id = q_conversation_id r, s_sequence = Suc (v_last_sequence c),
        s_event_type = ''input.request_created'', s_data = ?data, s_created_at = now\<rparr>]"
    using p by (rule present_cases) simp
  moreover have "reconcile_suspension susp now db = Inr (Some (Suc (v_last_sequence c)), db')"
    using r k a p by (simp add: reconcile_suspension_def commitment_agrees_def)
  ultimately show ?thesis by blast
qed

text \<open>The two events of a suspension and the state before them.\<close>

definition saga_start ::
  "digests \<Rightarrow> conversation_db \<Rightarrow> uuid \<Rightarrow> uuid \<Rightarrow> uuid \<Rightarrow> pystr \<Rightarrow> event_data \<Rightarrow> event_data \<Rightarrow> uuid \<Rightarrow> uuid \<Rightarrow> bool" where
  "saga_start H db susp ckpt run prompt data1 data2 i1 i2 \<longleftrightarrow>
     d_suspension_id data1 = Good susp \<and> d_checkpoint_id data1 = Good ckpt
     \<and> d_prompt data1 = Some prompt
     \<and> d_suspension_id data2 = Good susp \<and> d_checkpoint_id data2 = Good ckpt
     \<and> d_input_request_id data2 = Good (dg_input_id H susp) \<and> i1 \<noteq> i2
     \<and> \<not> has_row q_suspension_id susp (input_requests db)
     \<and> \<not> has_row q_input_request_id (dg_input_id H susp) (input_requests db)
     \<and> \<not> has_row sc_suspension_id susp (suspension_commitments db)
     \<and> \<not> has_row sc_event_id i2 (suspension_commitments db)"

definition saga_done ::
  "digests \<Rightarrow> uuid \<Rightarrow> uuid \<Rightarrow> uuid \<Rightarrow> pystr \<Rightarrow> event_data \<Rightarrow> uuid \<Rightarrow> conversation_db \<Rightarrow> conversation_db \<Rightarrow> bool" where
  "saga_done H susp ckpt run prompt data1 cid db db' \<longleftrightarrow>
     (\<exists>r now. row_by q_suspension_id susp (input_requests db') = Some r \<and> q_state r = Pending
        \<and> q_input_request_id r = dg_input_id H susp \<and> q_run_id r = run \<and> q_checkpoint_id r = ckpt
        \<and> q_prompt r = prompt \<and> q_schema r = d_schema data1 \<and> q_conversation_id r = cid
        \<and> presentation_events db' = presentation_events db @ [\<lparr>s_conversation_id = cid,
            s_sequence = Suc (counter cid db), s_event_type = ''input.request_created'',
            s_data = Input_shown (dg_input_id H susp) susp ckpt prompt (d_schema data1),
            s_created_at = now\<rparr>])"

text \<open>C17. The human-input saga converges in either order: of the proposal of an input request and
  the commitment of its suspension, the first to arrive presents nothing, the second opens the
  request and presents it exactly once.\<close>

theorem suspension_saga:
  assumes "conv_reach H db"
    and "saga_event db owner c run i1 ''porfirium.input.request_proposed.v1'' data1 e1"
    and "saga_event db owner c run i2 ''porfirium.run.suspension_committed.v1'' data2 e2"
    and "saga_start H db susp ckpt run prompt data1 data2 i1 i2"
  shows "(\<exists>s db1 db2. project H e1 x1 db = Inr (None, db1) \<and> project H e2 x2 db1 = Inr (Some s, db2)
      \<and> saga_done H susp ckpt run prompt data1 (v_conversation_id c) db db2)
    \<and> (\<exists>s db1 db2. project H e2 x2 db = Inr (None, db1) \<and> project H e1 x1 db1 = Inr (Some s, db2)
      \<and> saga_done H susp ckpt run prompt data1 (v_conversation_id c) db db2)"
proof -
  let ?cid = "v_conversation_id c"
  let ?k1 = "''porfirium.input.request_proposed.v1''"
  let ?k2 = "''porfirium.run.suspension_committed.v1''"
  let ?p1 = "saga_parsed e1 c run i1 ?k1" and ?p2 = "saga_parsed e2 c run i2 ?k2"
  have inv: "history_inv db" using conv_inv_reach [OF assms(1)] by (simp add: conv_inv_def)
  have c: "row_by v_conversation_id ?cid (conversations db) = Some c"
    using assms(2) by (auto simp: saga_event_def owned_def split: option.splits if_splits)
  note st = assms(4) [unfolded saga_start_def]
  have ne: "row_by q_suspension_id susp (input_requests db) = None"
    "row_by sc_suspension_id susp (suspension_commitments db) = None"
    using st by (auto simp: has_row_def)
  let ?r = "new_input H ?p1 data1 susp ckpt prompt x1 db"
  let ?k = "\<lparr>sc_suspension_id = susp, sc_event_id = i2, sc_run_id = run, sc_checkpoint_id = ckpt,
     sc_input_request_id = dg_input_id H susp\<rparr>"
  have r: "q_suspension_id ?r = susp" "q_state ?r = Reserved" "q_conversation_id ?r = ?cid"
    "commitment_agrees ?r ?k" "q_input_request_id ?r = dg_input_id H susp" "q_run_id ?r = run"
    "q_checkpoint_id ?r = ckpt" "q_prompt ?r = prompt" "q_schema ?r = d_schema data1"
    by (simp_all add: new_input_def commitment_agrees_def)
  let ?A = "db\<lparr>input_requests := input_requests db @ [?r],
     inbox_events := inbox_events db @ [(i1, ?k1, xe_now x1)]\<rparr>"
  let ?B = "db\<lparr>suspension_commitments := suspension_commitments db @ [?k],
     inbox_events := inbox_events db @ [(i2, ?k2, xe_now x2)]\<rparr>"
  have A: "project H e1 x1 db = Inr (None, ?A)"
    using project_saga [OF assms(2), of H x1] st ne
    by (simp add: effect_input project_input_def reconcile_suspension_def split: option.split)
  have B: "project H e2 x2 db = Inr (None, ?B)"
    using project_saga [OF assms(3), of H x2] st ne
    by (simp add: effect_input project_suspension_def record_commitment_def
        reconcile_suspension_def row_by_snoc split: option.split)
  have e2: "saga_event ?A owner c run i2 ?k2 data2 e2"
    using assms(3) st by (simp add: saga_event_def projected_def owned_def)
  have e1: "saga_event ?B owner c run i1 ?k1 data1 e1"
    using assms(2) st by (simp add: saga_event_def projected_def owned_def)
  have hA: "history_inv (?A\<lparr>suspension_commitments := suspension_commitments db @ [?k]\<rparr>)"
    and hB: "history_inv (?B\<lparr>input_requests := input_requests db @ [?r]\<rparr>)"
    using inv by (simp_all add: history_defs)
  have cnt: "counter ?cid db = v_last_sequence c" using c by (simp add: counter_def)
  have "\<exists>s db2. project H e2 x2 ?A = Inr (Some s, db2)
      \<and> saga_done H susp ckpt run prompt data1 ?cid db db2"
  proof -
    obtain s db' where "reconcile_suspension susp (xe_now x2)
        (?A\<lparr>suspension_commitments := suspension_commitments db @ [?k]\<rparr>) = Inr (Some s, db')"
      "row_by q_suspension_id susp (input_requests db') = Some (?r\<lparr>q_state := Pending\<rparr>)"
      "presentation_events db' = presentation_events db @ [\<lparr>s_conversation_id = q_conversation_id ?r,
        s_sequence = Suc (v_last_sequence c), s_event_type = ''input.request_created'',
        s_data = Input_shown (q_input_request_id ?r) susp (q_checkpoint_id ?r) (q_prompt ?r)
          (q_schema ?r), s_created_at = xe_now x2\<rparr>]"
      using reconcile_opens [OF hA, of susp ?r ?k c "xe_now x2"] r ne c
      by (auto simp: row_by_snoc)
    then show ?thesis
      using project_saga [OF e2, of H x2] st ne r cnt
      by (auto simp: effect_input project_suspension_def record_commitment_def row_by_snoc
          saga_done_def)
  qed
  moreover have "\<exists>s db2. project H e1 x1 ?B = Inr (Some s, db2)
      \<and> saga_done H susp ckpt run prompt data1 ?cid db db2"
  proof -
    obtain s db' where "reconcile_suspension susp (xe_now x1)
        (?B\<lparr>input_requests := input_requests db @ [?r]\<rparr>) = Inr (Some s, db')"
      "row_by q_suspension_id susp (input_requests db') = Some (?r\<lparr>q_state := Pending\<rparr>)"
      "presentation_events db' = presentation_events db @ [\<lparr>s_conversation_id = q_conversation_id ?r,
        s_sequence = Suc (v_last_sequence c), s_event_type = ''input.request_created'',
        s_data = Input_shown (q_input_request_id ?r) susp (q_checkpoint_id ?r) (q_prompt ?r)
          (q_schema ?r), s_created_at = xe_now x1\<rparr>]"
      using reconcile_opens [OF hB, of susp ?r ?k c "xe_now x1"] r ne c
      by (auto simp: row_by_snoc)
    moreover have "new_input H ?p1 data1 susp ckpt prompt x1 ?B = ?r" by (simp add: new_input_def)
    ultimately show ?thesis
      using project_saga [OF e1, of H x1] st r cnt
      by (auto simp: effect_input project_input_def saga_done_def)
  qed
  ultimately show ?thesis using A B by blast
qed

definition sample_input_data :: event_data where
  "sample_input_data = empty_data\<lparr>d_suspension_id := Good 20, d_checkpoint_id := Good 21,
     d_prompt := Some ''which?''\<rparr>"

definition sample_suspended_data :: event_data where
  "sample_suspended_data = empty_data\<lparr>d_suspension_id := Good 20, d_checkpoint_id := Good 21,
     d_input_request_id := Good 120\<rparr>"

lemma sample_saga_event:
  assumes "n < 16" and "d_message_id data = Missing"
  shows "saga_event sample_asked 2 sample_asked_row 1 (sample_id n) kind data
    (sample_runtime_event n kind data)"
proof -
  have "addressed (sample_runtime_event n kind data)"
    using sample_runtime_event_valid [OF assms(1)]
    by (simp add: addressed_def sample_runtime_event_def make_envelope_def)
  moreover have "\<not> projected sample_asked (sample_id n)"
    by (simp add: projected_def sample_asked_eq sample_conversation_eq empty_conversation_db_def)
  moreover have "owned 2 (v_conversation_id sample_asked_row) sample_asked = Inr sample_asked_row"
    using sample_asked_owned by (simp add: sample_asked_row_def)
  moreover have "v_conversation_id sample_asked_row = 3" "v_thread_id sample_asked_row = 4"
    by (simp_all add: sample_asked_row_def)
  ultimately show ?thesis using assms(2)
    by (simp add: saga_event_def) (simp add: sample_runtime_event_def make_envelope_def)
qed

lemma sample_saga_start:
  "saga_start sample_digests sample_asked 20 21 1 ''which?'' sample_input_data
     sample_suspended_data (sample_id 5) (sample_id 6)"
  by (simp add: saga_start_def sample_input_data_def sample_suspended_data_def sample_digests_def
      sample_id_def sample_asked_eq sample_conversation_eq empty_conversation_db_def)

lemma suspension_saga_witness:
  "\<exists>s db1 db2. project sample_digests (sample_runtime_event 5
       ''porfirium.input.request_proposed.v1'' sample_input_data) (sample_env 20 95) sample_asked
       = Inr (None, db1)
     \<and> project sample_digests (sample_runtime_event 6
       ''porfirium.run.suspension_committed.v1'' sample_suspended_data) (sample_env 21 96) db1
       = Inr (Some s, db2)
     \<and> saga_done sample_digests 20 21 1 ''which?'' sample_input_data 3 sample_asked db2"
proof -
  have e1: "saga_event sample_asked 2 sample_asked_row 1 (sample_id 5)
      ''porfirium.input.request_proposed.v1'' sample_input_data (sample_runtime_event 5
      ''porfirium.input.request_proposed.v1'' sample_input_data)"
    by (rule sample_saga_event) (simp_all add: sample_input_data_def empty_data_def)
  have e2: "saga_event sample_asked 2 sample_asked_row 1 (sample_id 6)
      ''porfirium.run.suspension_committed.v1'' sample_suspended_data (sample_runtime_event 6
      ''porfirium.run.suspension_committed.v1'' sample_suspended_data)"
    by (rule sample_saga_event) (simp_all add: sample_suspended_data_def empty_data_def)
  have "v_conversation_id sample_asked_row = 3" by (simp add: sample_asked_row_def)
  then show ?thesis
    using conjunct1 [OF suspension_saga [OF sample_asked_reach e1 e2 sample_saga_start]] by simp
qed

lemma fresh_answer:
  assumes "conv_inv H db" and "answer_input H owner rid key run response x db = Inr (res, db')"
    and "find_request owner (input_operation rid) key db = None"
  obtains r0 r cmd where "row_by q_input_request_id rid (input_requests db) = Some r0"
    "q_state r0 = Pending" "row_by q_input_request_id rid (input_requests db') = Some r"
    "q_state r = Answered" "q_response r = Some response" "q_response_run_id r = Some run"
    "q_conversation_id r = q_conversation_id r0"
    "\<exists>w \<in> set (conversation_outbox db'). o_payload w = Run_requested cmd"
    "rr_run_id cmd = run" "rr_value cmd = response" "rr_trigger_id cmd = rid"
    "rr_starting_checkpoint_id cmd = Some (q_checkpoint_id r0)"
    "rr_user_id cmd = owner" "owned owner (q_conversation_id r0) db \<noteq> Inl conversation_not_found"
    "res = (rid, snd res)" "conv_inv H db'"
proof -
  have inv': "conv_inv H db'" by (rule conv_inv_step [OF conv_step.Answer [OF assms(2)] assms(1)])
  from assms(2) show thesis
  proof (cases rule: answer_input_cases)
    case (Fresh r c s db2 db3)
    let ?f = "\<lambda>i. i\<lparr>q_state := Answered, q_response := Some response,
       q_response_run_id := Some run, q_answered_at := Some (xe_now x)\<rparr>"
    let ?cmd = "answer_command owner c r run response (xe_fresh x)"
    have rid: "q_input_request_id r = rid" using Fresh(1) by (auto dest: row_by_SomeD)
    have "row_by q_input_request_id rid (update_where (\<lambda>i. q_input_request_id i = rid) ?f
        (input_requests db)) = Some (?f r)"
      using Fresh(1) rid by (simp add: row_by_update_where)
    then have a: "row_by q_input_request_id rid (input_requests db') = Some (?f r)"
      using present_frame(3) [OF Fresh(6)] put_outbox_frame(3) [OF Fresh(7)] Fresh(9)
      by (simp add: remember_request_def)
    have w: "\<exists>w \<in> set (conversation_outbox db'). o_payload w = Run_requested ?cmd"
      using put_outbox_cases(2) [OF Fresh(7)] Fresh(9) by (simp add: remember_request_def)
    have ow: "owned owner (q_conversation_id r) db \<noteq> Inl conversation_not_found"
      using Fresh(2,3) by (simp add: owned_def)
    show thesis
      by (rule that [OF Fresh(1,5) a _ _ _ _ w _ _ _ _ _ ow _ inv'])
        (use Fresh(8) rid in \<open>simp_all add: answer_command_def\<close>)
  qed (use assms(3) in simp)
qed

text \<open>C18. An input request is answered exactly once: the first answer stores the response and
  requests one run that starts from the suspension's checkpoint; whatever happens later the answer
  stays, at most one run was ever requested for it, the same request repeated returns the same
  result without effect and any other answer is refused.\<close>

theorem input_answered_once:
  assumes "conv_reach H db" and "answer_input H owner rid key run response x db = Inr (res, db')"
    and "find_request owner (input_operation rid) key db = None"
    and "(conv_step H)\<^sup>*\<^sup>* db' later"
  shows "\<exists>r0 r cmd. row_by q_input_request_id rid (input_requests db) = Some r0
    \<and> (\<exists>w \<in> set (conversation_outbox db'). o_payload w = Run_requested cmd)
    \<and> rr_run_id cmd = run \<and> rr_value cmd = response
    \<and> rr_starting_checkpoint_id cmd = Some (q_checkpoint_id r0)
    \<and> row_by q_input_request_id rid (input_requests later) = Some r
    \<and> q_state r = Answered \<and> q_response r = Some response \<and> q_response_run_id r = Some run
    \<and> count_where (\<lambda>w. answers_request rid (o_payload w)) (conversation_outbox later) \<le> 1
    \<and> answer_input H owner rid key run response y later = Inr (res, later)
    \<and> (\<forall>key' run' v. find_request owner (input_operation rid) key' later = None \<longrightarrow>
         answer_input H owner rid key' run' v y later
           = Inl (Problem 409 ''input_already_answered''))"
proof -
  note inv = conv_inv_reach [OF assms(1)]
  obtain r0 r cmd where f: "row_by q_input_request_id rid (input_requests db) = Some r0"
    "row_by q_input_request_id rid (input_requests db') = Some r"
    "q_state r = Answered" "q_response r = Some response" "q_response_run_id r = Some run"
    "q_conversation_id r = q_conversation_id r0"
    "\<exists>w \<in> set (conversation_outbox db'). o_payload w = Run_requested cmd"
    "rr_run_id cmd = run" "rr_value cmd = response"
    "rr_starting_checkpoint_id cmd = Some (q_checkpoint_id r0)"
    "owned owner (q_conversation_id r0) db \<noteq> Inl conversation_not_found"
    "res = (rid, snd res)" "conv_inv H db'"
    by (rule fresh_answer [OF inv assms(2,3)]) blast
  have late: "conv_inv H later" by (rule conv_inv_steps [OF assms(4) f(13)])
  have r: "row_by q_input_request_id rid (input_requests later) = Some r"
    by (rule answered_stays [OF assms(4) f(13) f(2,3)])
  have all: "(conv_step H)\<^sup>*\<^sup>* db later"
    using conv_step.Answer [OF assms(2)] assms(4) by (rule converse_rtranclp_into_rtranclp)
  obtain c where c: "owned owner (q_conversation_id r) later = Inr c"
  proof -
    obtain c0 where "owned owner (q_conversation_id r0) db = Inr c0"
      using f(11) by (cases "owned owner (q_conversation_id r0) db")
        (auto simp: owned_def split: option.splits if_splits)
    then show thesis using owned_stays [OF all inv, of owner "q_conversation_id r0" c0] that f(6)
      by auto
  qed
  have may: "may_answer later (owner, rid, key)" using r c by (simp add: may_answer_def)
  have "answers_bounded later rid" using late by (simp add: conv_inv_def input_inv_def)
  then have one: "count_where (\<lambda>w. answers_request rid (o_payload w)) (conversation_outbox later) \<le> 1"
    using r by (simp add: answers_bounded_def split: if_splits)
  have "answer H (owner, rid, key) (run, response) x db = Inr (res, db')"
    using assms(2) by (simp add: answer_def)
  from answering.retry_later [OF inv this assms(4), where y = y] may
  obtain res' where "answer H (owner, rid, key) (run, response) y later = Inr (res', later)"
    "snd res' = snd res" by auto
  moreover from this have "fst res' = rid"
    by (auto simp: answer_def elim: answer_input_cases)
  ultimately have again: "answer_input H owner rid key run response y later = Inr (res, later)"
    using f(12) by (cases res') (simp add: answer_def)
  have "answer_input H owner rid key' run' v y later = Inl (Problem 409 ''input_already_answered'')"
    if "find_request owner (input_operation rid) key' later = None" for key' run' v
    using that r c f(3)
    by (auto simp: answer_input_def Let_def owned_def split: option.splits if_splits)
  then show ?thesis using f r one again by blast
qed

definition sample_input_row :: input_row where
  "sample_input_row = \<lparr>q_input_request_id = 120, q_conversation_id = 3, q_run_id = 1,
     q_suspension_id = 20, q_checkpoint_id = 21, q_prompt = ''which?'', q_schema = ''{}'',
     q_state = Reserved, q_response = None, q_response_run_id = None, q_created_at = 20,
     q_answered_at = None, q_delegation_grant_id = Some 9\<rparr>"

definition sample_reserved :: conversation_db where
  "sample_reserved = after (project sample_digests (sample_runtime_event 5
     ''porfirium.input.request_proposed.v1'' sample_input_data) (sample_env 20 95) sample_asked)
     sample_asked"

definition sample_pending :: conversation_db where
  "sample_pending = after (project sample_digests (sample_runtime_event 6
     ''porfirium.run.suspension_committed.v1'' sample_suspended_data) (sample_env 21 96)
     sample_reserved) sample_reserved"

lemma sample_reserved_eq:
  "sample_reserved = sample_asked\<lparr>input_requests := [sample_input_row],
     inbox_events := [(sample_id 5, ''porfirium.input.request_proposed.v1'', 20)]\<rparr>"
proof -
  have a: "\<not> has_row fst (sample_id 5) (inbox_events sample_asked)"
    by (simp add: sample_asked_eq sample_conversation_eq empty_conversation_db_def)
  have b: "v_thread_id sample_asked_row = 4" by (simp add: sample_asked_row_def)
  from project_sample [OF _ a sample_asked_owned b, of sample_input_data sample_digests
      "''porfirium.input.request_proposed.v1''" "sample_env 20 95"]
  show ?thesis unfolding sample_reserved_def
    by (simp add: project_effect_def project_input_def sample_input_data_def new_input_def
        reconcile_suspension_def sample_asked_eq sample_conversation_eq sample_digests_def
        empty_conversation_db_def sample_env_def sample_input_row_def empty_data_def
        sample_asked_row_def)
qed

lemma sample_pending_eq:
  "sample_pending = sample_reserved\<lparr>
     conversations := [sample_asked_row\<lparr>v_last_sequence := 2, v_updated_at := 21\<rparr>],
     input_requests := [sample_input_row\<lparr>q_state := Pending\<rparr>],
     presentation_events := presentation_events sample_asked @ [\<lparr>s_conversation_id = 3,
       s_sequence = 2, s_event_type = ''input.request_created'',
       s_data = Input_shown 120 20 21 ''which?'' ''{}'', s_created_at = 21\<rparr>],
     suspension_commitments := [\<lparr>sc_suspension_id = 20, sc_event_id = sample_id 6,
       sc_run_id = 1, sc_checkpoint_id = 21, sc_input_request_id = 120\<rparr>],
     inbox_events := inbox_events sample_reserved @
       [(sample_id 6, ''porfirium.run.suspension_committed.v1'', 21)]\<rparr>"
proof -
  have a: "\<not> has_row fst (sample_id 6) (inbox_events sample_reserved)"
    by (simp add: sample_reserved_eq sample_id_def)
  have b: "owned 2 3 sample_reserved = Inr sample_asked_row" "v_thread_id sample_asked_row = 4"
    using sample_asked_owned by (simp_all add: owned_def sample_reserved_eq sample_asked_row_def)
  from project_sample [OF _ a b, of sample_suspended_data sample_digests
      "''porfirium.run.suspension_committed.v1''" "sample_env 21 96"]
  show ?thesis unfolding sample_pending_def
    by (simp add: project_effect_def project_suspension_def record_commitment_def
        reconcile_suspension_def present_def sample_suspended_data_def sample_reserved_eq
        sample_asked_eq sample_conversation_eq empty_conversation_db_def sample_env_def
        sample_input_row_def empty_data_def sample_asked_row_def)
qed

lemma sample_pending_reach: "conv_reach sample_digests sample_pending"
  unfolding sample_pending_def sample_reserved_def
  by (intro conv_reach_after) (rule sample_asked_reach)

lemma input_answered_once_witness:
  "\<exists>db'. answer_input sample_digests 2 120 ''key-0003'' 7 ''blue'' (sample_env 30 97)
       sample_pending = Inr ((120, 3), db')
     \<and> answer_input sample_digests 2 120 ''key-0003'' 7 ''blue'' (sample_env 31 98) db'
       = Inr ((120, 3), db')"
proof -
  have "\<exists>db'. answer_input sample_digests 2 120 ''key-0003'' 7 ''blue'' (sample_env 30 97)
      sample_pending = Inr ((120, 3), db')"
    by (simp add: answer_input_def find_request_def present_def put_outbox_def sample_pending_eq
        sample_reserved_eq sample_asked_eq sample_conversation_eq empty_conversation_db_def
        sample_env_def sample_input_row_def sample_asked_row_def sample_command_def
        input_operation_def message_operation_def Let_def)
  then obtain db' where d: "answer_input sample_digests 2 120 ''key-0003'' 7 ''blue''
      (sample_env 30 97) sample_pending = Inr ((120, 3), db')" by blast
  have n: "find_request 2 (input_operation 120) ''key-0003'' sample_pending = None"
    by (simp add: find_request_def sample_pending_eq sample_reserved_eq sample_asked_eq
        sample_conversation_eq empty_conversation_db_def input_operation_def message_operation_def)
  from input_answered_once [OF sample_pending_reach d n rtranclp.rtrancl_refl, of "sample_env 31 98"]
  show ?thesis using d by blast
qed

text \<open>A repeated message is accepted once: with the same idempotency key and body, at any later
  point, \<open>create_message\<close> returns the same message and sequence and changes nothing; with another
  body it is refused as a conflict.\<close>

theorem message_retry:
  assumes "conv_reach H db" and "create_message H owner cid key q x db = Inr ((m, s), db')"
    and "(conv_step H)\<^sup>*\<^sup>* db' later"
  shows "(\<exists>m'. create_message H owner cid key q y later = Inr ((m', s), later)
      \<and> m_message_id m' = m_message_id m)
    \<and> (\<forall>q'. dg_request H (Message_request q') \<noteq> dg_request H (Message_request q) \<longrightarrow>
         create_message H owner cid key q' y later = Inl idempotency_conflict)"
proof -
  note inv = conv_inv_reach [OF assms(1)]
  obtain c where "owned owner cid db = Inr c" using assms(2) by (auto elim: create_message_cases)
  moreover have "(conv_step H)\<^sup>*\<^sup>* db later"
    using conv_step.Message [OF assms(2)] assms(3) by (rule converse_rtranclp_into_rtranclp)
  ultimately have may: "may_send later (owner, cid, key)"
    using owned_stays [of H db later owner cid c] inv by (auto simp: may_send_def)
  have run: "send H (owner, cid, key) q x db = Inr ((m, s), db')" using assms(2) by (simp add: send_def)
  show ?thesis
    using sending.retry_later [OF inv run assms(3), where y = y] may
      sending.reuse_later [OF inv run assms(3), where y = y] may
    by (auto simp: send_def)
qed

lemma message_retry_witness:
  "\<exists>m'. create_message sample_digests 2 3 ''key-0002'' sample_question (sample_env 50 99) sample_asked
     = Inr ((m', 1), sample_asked) \<and> m_message_id m' = 60"
proof -
  have "\<exists>db'. create_message sample_digests 2 3 ''key-0002'' sample_question (sample_env 5 90)
      sample_conversation = Inr ((user_message 3 sample_question 5, 1), db')"
    by (simp add: create_message_def owned_def find_request_def sample_conversation_eq
        empty_conversation_db_def sample_env_def present_def put_outbox_def message_operation_def
        sample_digests_def sample_question_def Let_def)
  then obtain db' where d: "create_message sample_digests 2 3 ''key-0002'' sample_question
      (sample_env 5 90) sample_conversation = Inr ((user_message 3 sample_question 5, 1), db')"
    by blast
  then have "db' = sample_asked" by (simp add: sample_asked_def)
  then show ?thesis
    using message_retry [OF sample_conversation_reach d, of sample_asked "sample_env 50 99"]
    by (auto simp: user_message_def sample_question_def)
qed

text \<open>A runtime event that has been applied changes nothing when it is delivered again at any
  later point, whatever was delivered in between.\<close>

theorem runtime_redelivery:
  assumes "project H e x db = Inr (out, db')"
  shows "deliver (project H) (xs @ (e, y) # ys) db' = deliver (project H) (xs @ ys) db'"
  using assms by (rule projecting.redelivery)

lemma runtime_redelivery_witness:
  "\<exists>db'. sample_result = Inr (Some 2, db') \<and>
     deliver (project sample_digests) [(sample_runtime_event 4
       ''porfirium.run.result_proposed.v1'' sample_result_data, sample_env 60 97)] db' = db'"
proof -
  obtain db' where d: "sample_result = Inr (Some 2, db')" using sample_result_eq by blast
  then show ?thesis
    using runtime_redelivery [OF d [unfolded sample_result_def], of "[]" "sample_env 60 97" "[]"]
    by (auto simp only: append_Nil deliver.simps(1))
qed

end
