(* ===== verification/RunAdmissions.thy ===== *)
theory RunAdmissions
  imports RunnerRegistry DeadLetterProperties ConversationProperties
begin

text \<open>
  How a message of a user becomes a run: the command the Conversation Service writes into its outbox
  (\<open>create_message\<close> of \<open>conversation_service/store.py\<close>), its reading as a \<open>RunAdmission\<close>
  (\<open>agent_runner/models.py\<close>) and one delivery of \<open>consume_admissions\<close>
  (\<open>agent_runner/messaging.py\<close>), with the model of the Registry as the service that resolves the
  specification.
\<close>

section \<open>The command as JSON\<close>

definition uuid_json :: "uuid \<Rightarrow> json" where
  "uuid_json u = J_str (uuid_str u)"

definition optional_uuid_json :: "uuid option \<Rightarrow> json" where
  "optional_uuid_json u = (case u of None \<Rightarrow> J_null | Some i \<Rightarrow> uuid_json i)"

text \<open>The event of \<open>create_message\<close>. A missing grant would be written as the text None; a message always
  names one.\<close>

definition message_command_json :: "run_requested \<Rightarrow> members" where
  "message_command_json r =
     [(''specversion'', J_str ''1.0''), (''type'', J_str ''porfirium.run.requested.v1''),
      (''id'', uuid_json (rr_event_id r)), (''source'', J_str ''conversation-service''),
      (''subject'', J_str (''conversation/'' @ uuid_str (rr_conversation_id r))),
      (''user_id'', uuid_json (rr_user_id r)), (''conversation_id'', uuid_json (rr_conversation_id r)),
      (''thread_id'', uuid_json (rr_thread_id r)), (''release_id'', uuid_json (rr_release_id r)),
      (''run_id'', uuid_json (rr_run_id r)), (''message_id'', optional_uuid_json (rr_message_id r)),
      (''run_input'', J_obj [(''trigger_type'', J_str (rr_trigger_type r)),
         (''trigger_id'', uuid_json (rr_trigger_id r)), (''value'', J_str (rr_value r))]),
      (''delegation_grant_id'', case rr_delegation_grant_id r of
         None \<Rightarrow> J_str ''None'' | Some g \<Rightarrow> uuid_json g),
      (''configuration_revision_id'', optional_uuid_json (rr_configuration_revision_id r)),
      (''starting_checkpoint_id'', optional_uuid_json (rr_starting_checkpoint_id r)),
      (''trigger'', J_obj [(''type'', J_str (rr_trigger_type r)), (''id'', uuid_json (rr_trigger_id r))]),
      (''trace_id'', J_str (rr_trace_id r)), (''schema_version'', J_int 1)]"

section \<open>Reading an admission\<close>

text \<open>The surroundings of the consumer: reading a UUID from JSON, the stored text of a run input and its
  sizes, \<open>str\<close>, the hash, the signature check with its keys, the conversions, the digest of an
  admission, the time limit of an attempt, and the Registry's answer to a resolution.\<close>

record admission_side =
  as_uuid :: "json \<Rightarrow> uuid option"
  as_encode :: "json \<Rightarrow> pystr"
  as_octets :: "json \<Rightarrow> nat"
  as_dumped_octets :: "json \<Rightarrow> nat"
  as_text :: "json \<Rightarrow> pystr"
  as_sha :: "pystr \<Rightarrow> pystr"
  as_verify :: "pystr \<Rightarrow> pystr \<Rightarrow> pystr \<Rightarrow> bool"
  as_keys :: "(pystr \<times> pystr) list"
  as_conversions :: conversions
  as_digest :: "run_admission \<Rightarrow> pystr"
  as_timeout :: instant
  as_registry :: "run_admission \<Rightarrow> pystr \<Rightarrow> exc + signed_run_specification"

text \<open>An object with no other members than those of the model (\<open>extra="forbid"\<close>).\<close>

definition exact_object :: "pystr list \<Rightarrow> json \<Rightarrow> members option" where
  "exact_object keys v =
     (case v of J_obj ms \<Rightarrow> if set (member_keys ms) \<subseteq> set keys then Some ms else None | _ \<Rightarrow> None)"

definition trigger_type_of :: "json option \<Rightarrow> trigger_type option" where
  "trigger_type_of v =
     (if v = Some (J_str ''user_message'') then Some User_message
      else if v = Some (J_str ''user_response'') then Some User_response
      else if v = Some (J_str ''resume'') then Some Resume else None)"

definition read_trigger :: "admission_side \<Rightarrow> json \<Rightarrow> run_trigger option" where
  "read_trigger A v =
     (case exact_object [''type'', ''id''] v of
        None \<Rightarrow> None
      | Some ms \<Rightarrow>
          (case (trigger_type_of (member ''type'' ms), as_uuid A (item_or ms ''id'' J_null)) of
             (Some kind, Some i) \<Rightarrow> Some \<lparr>tr_type = kind, tr_id = i\<rparr>
           | _ \<Rightarrow> None))"

definition read_run_input :: "admission_side \<Rightarrow> json \<Rightarrow> run_input option option" where
  "read_run_input A v =
     (if v = J_null then Some None
      else
        (case exact_object [''trigger_type'', ''trigger_id'', ''value''] v of
           None \<Rightarrow> None
         | Some ms \<Rightarrow>
             (case (trigger_type_of (member ''trigger_type'' ms), as_uuid A (item_or ms ''trigger_id'' J_null),
                    member ''value'' ms) of
                (Some kind, Some i, Some x) \<Rightarrow>
                  Some (Some \<lparr>ri_trigger_type = kind, ri_trigger_id = i, ri_value = as_encode A x,
                              ri_octets = as_octets A v, ri_dumped_octets = as_dumped_octets A v\<rparr>)
              | _ \<Rightarrow> None)))"

definition read_optional_uuid :: "admission_side \<Rightarrow> json \<Rightarrow> uuid option option" where
  "read_optional_uuid A v = (if v = J_null then Some None else map_option Some (as_uuid A v))"

definition read_trace_id :: "json \<Rightarrow> pystr option" where
  "read_trace_id v = (case v of J_str t \<Rightarrow> if trace_id_ok t then Some t else None | _ \<Rightarrow> None)"

definition read_admission :: "admission_side \<Rightarrow> members \<Rightarrow> run_admission option" where
  "read_admission A ms =
     (let item = (\<lambda>k. item_or ms k J_null); u = (\<lambda>k. as_uuid A (item k)) in
      case (u ''run_id'', u ''user_id'', u ''conversation_id'', u ''thread_id'', u ''release_id'',
            u ''delegation_grant_id'') of
        (Some run, Some user, Some conversation, Some thread, Some release, Some grant) \<Rightarrow>
          (case (read_optional_uuid A (item ''configuration_revision_id''),
                 read_optional_uuid A (item ''starting_checkpoint_id''),
                 read_trigger A (item ''trigger''), read_run_input A (item ''run_input''),
                 read_trace_id (item ''trace_id'')) of
             (Some revision, Some checkpoint, Some trigger, Some input, Some trace) \<Rightarrow>
               Some \<lparr>ad_run_id = run, ad_user_id = user, ad_conversation_id = conversation,
                 ad_thread_id = thread, ad_release_id = release, ad_delegation_grant_id = grant,
                 ad_configuration_revision_id = revision, ad_starting_checkpoint_id = checkpoint,
                 ad_trigger = trigger, ad_run_input = input, ad_trace_id = trace\<rparr>
           | _ \<Rightarrow> None)
      | _ \<Rightarrow> None)"

section \<open>One delivery\<close>

definition admission_consumer :: pystr where
  "admission_consumer = ''agent-runner-admission-v1''"

definition admit_command ::
  "admission_side \<Rightarrow> members \<Rightarrow> uuid \<times> instant \<Rightarrow> runner_db \<Rightarrow> (run_row, runner_db) tx" where
  "admit_command A ms x db =
     (case read_admission A ms of
        None \<Rightarrow> Inl (Coded ''ValidationError'' [])
      | Some ad \<Rightarrow>
          (case member ''id'' ms of
             None \<Rightarrow> Inl Key_error
           | Some i \<Rightarrow>
               (let key = as_text A i in
                chain (client_resolve (as_registry A ad key) ad) (\<lambda>w.
                chain (verify_specification (as_sha A) (as_verify A) (as_keys A) w) (\<lambda>_.
                admit (as_digest A) (\<lambda>_. as_sha A (canonical_json (J_obj (ws_payload w)))) (as_timeout A)
                  key (ad, received (as_conversions A) w) x db)))))"

definition process_admission ::
  "dead_letter_codec \<Rightarrow> admission_side \<Rightarrow> stream_message \<Rightarrow> uuid \<times> instant \<Rightarrow> runner_db
     \<Rightarrow> json option \<times> exc option \<times> runner_db" where
  "process_admission C A m x db =
     (if max_event_bytes < length (sm_data m) then (None, Some Value_error, db)
      else
        (case dc_json C (sm_data m) of
           Undecodable \<Rightarrow> (None, Some (Coded ''JSONDecodeError'' []), db)
         | Too_nested \<Rightarrow> (None, Some Recursion_error, db)
         | Decoded body \<Rightarrow>
             (case body of
                J_obj ms \<Rightarrow>
                  (case admit_command A ms x db of
                     Inl e \<Rightarrow> (Some body, Some e, db) | Inr (_, db') \<Rightarrow> (Some body, None, db'))
              | _ \<Rightarrow> (Some body, Some Value_error, db))))"

definition deliver_admission ::
  "dead_letter_codec \<Rightarrow> admission_side \<Rightarrow> nat \<Rightarrow> stream_message \<Rightarrow> uuid \<times> instant \<Rightarrow> dead_letter_env
     \<Rightarrow> exc option \<Rightarrow> runner_db \<times> dead_letter_db
     \<Rightarrow> settlement \<times> dead_letter_notice list \<times> runner_db \<times> dead_letter_db" where
  "deliver_admission C A max_deliveries m x y refused s =
     (case process_admission C A m x (fst s) of
        (body, outcome, rdb) \<Rightarrow>
          (case settle C max_deliveries m admission_consumer outcome body y refused (snd s) of
             (settled, notices, ddb) \<Rightarrow> (settled, notices, rdb, ddb)))"

section \<open>From a message to its run\<close>

text \<open>The admission a message asks for.\<close>

definition message_run_input :: "message_payload \<Rightarrow> json" where
  "message_run_input q = J_obj [(''trigger_type'', J_str ''user_message''),
     (''trigger_id'', uuid_json (mp_message_id q)), (''value'', J_str (mp_content q))]"

definition message_admission ::
  "admission_side \<Rightarrow> uuid \<Rightarrow> conversation_row \<Rightarrow> message_payload \<Rightarrow> uuid \<Rightarrow> run_admission" where
  "message_admission A owner c q event_id =
     \<lparr>ad_run_id = mp_run_id q, ad_user_id = owner, ad_conversation_id = v_conversation_id c,
      ad_thread_id = v_thread_id c, ad_release_id = v_release_id c,
      ad_delegation_grant_id = mp_delegation_grant_id q,
      ad_configuration_revision_id = v_configuration_revision_id c, ad_starting_checkpoint_id = None,
      ad_trigger = \<lparr>tr_type = User_message, tr_id = mp_message_id q\<rparr>,
      ad_run_input = Some \<lparr>ri_trigger_type = User_message, ri_trigger_id = mp_message_id q,
        ri_value = as_encode A (J_str (mp_content q)), ri_octets = as_octets A (message_run_input q),
        ri_dumped_octets = as_dumped_octets A (message_run_input q)\<rparr>,
      ad_trace_id = uuid_hex event_id\<rparr>"

text \<open>The identities of a message are 128-bit numbers, and they are read from JSON as they were
  written.\<close>

definition message_ids :: "uuid \<Rightarrow> conversation_row \<Rightarrow> message_payload \<Rightarrow> uuid \<Rightarrow> uuid set" where
  "message_ids owner c q event_id = {owner, v_conversation_id c, v_thread_id c, v_release_id c,
     mp_run_id q, mp_message_id q, mp_delegation_grant_id q, event_id}
     \<union> set_option (v_configuration_revision_id c)"

definition reads_uuids :: "admission_side \<Rightarrow> bool" where
  "reads_uuids A \<longleftrightarrow> (\<forall>u. is_uuid u \<longrightarrow> as_uuid A (uuid_json u) = Some u)
     \<and> (\<forall>s. as_text A (J_str s) = s)"

lemma message_command_members:
  "member k (message_command_json r) = map_of (message_command_json r) k"
  by (rule member_map_of)

lemma uuid_json_not_null [simp]: "uuid_json u \<noteq> J_null"
  by (simp add: uuid_json_def)

lemma read_message_command:
  assumes "reads_uuids A" and "\<forall>u \<in> message_ids owner c q e. is_uuid u" and "trace_id_ok (uuid_hex e)"
  shows "read_admission A (message_command_json (message_command owner c q e))
    = Some (message_admission A owner c q e)"
proof -
  have u: "as_uuid A (uuid_json i) = Some i" if "i \<in> message_ids owner c q e" for i
    using assms(1,2) that by (simp add: reads_uuids_def)
  have ids: "as_uuid A (uuid_json owner) = Some owner"
    "as_uuid A (uuid_json (v_conversation_id c)) = Some (v_conversation_id c)"
    "as_uuid A (uuid_json (v_thread_id c)) = Some (v_thread_id c)"
    "as_uuid A (uuid_json (v_release_id c)) = Some (v_release_id c)"
    "as_uuid A (uuid_json (mp_run_id q)) = Some (mp_run_id q)"
    "as_uuid A (uuid_json (mp_message_id q)) = Some (mp_message_id q)"
    "as_uuid A (uuid_json (mp_delegation_grant_id q)) = Some (mp_delegation_grant_id q)"
    by (rule u; simp add: message_ids_def)+
  have revision: "read_optional_uuid A (optional_uuid_json (v_configuration_revision_id c))
      = Some (v_configuration_revision_id c)"
    using u by (cases "v_configuration_revision_id c")
      (auto simp: read_optional_uuid_def optional_uuid_json_def message_ids_def)
  have checkpoint: "read_optional_uuid A J_null = Some None" by (simp add: read_optional_uuid_def)
  have trigger: "read_trigger A (J_obj [(''type'', J_str ''user_message''), (''id'', uuid_json (mp_message_id q))])
      = Some \<lparr>tr_type = User_message, tr_id = mp_message_id q\<rparr>"
    using ids by (simp add: read_trigger_def exact_object_def member_keys_def trigger_type_of_def item_or_def)
  have input: "read_run_input A (message_run_input q) = Some (Some \<lparr>ri_trigger_type = User_message,
      ri_trigger_id = mp_message_id q, ri_value = as_encode A (J_str (mp_content q)),
      ri_octets = as_octets A (message_run_input q),
        ri_dumped_octets = as_dumped_octets A (message_run_input q)\<rparr>)"
    using ids by (simp add: read_run_input_def exact_object_def member_keys_def trigger_type_of_def item_or_def
        message_run_input_def)
  have trace: "read_trace_id (J_str (uuid_hex e)) = Some (uuid_hex e)"
    using assms(3) by (simp add: read_trace_id_def)
  have items: "item_or (message_command_json (message_command owner c q e)) ''run_input'' J_null
      = message_run_input q"
    "item_or (message_command_json (message_command owner c q e)) ''starting_checkpoint_id'' J_null = J_null"
    "item_or (message_command_json (message_command owner c q e)) ''configuration_revision_id'' J_null
      = optional_uuid_json (v_configuration_revision_id c)"
    by (simp_all add: item_or_def message_command_json_def message_command_def message_run_input_def
        optional_uuid_json_def)
  show ?thesis
    unfolding read_admission_def Let_def items
    using ids revision checkpoint trigger input trace
    by (simp add: item_or_def message_command_json_def message_command_def message_admission_def)
qed

text \<open>The command is the last entry of the outbox after a first send.\<close>

lemma sent_command:
  assumes "create_message H owner cid key q x db = Inr ((m, s), db')"
    and "find_request owner (message_operation cid) key db = None"
  obtains c where "owned owner cid db = Inr c" "m = user_message cid q (xe_now x)"
    "conversation_outbox db' = conversation_outbox db @ [outbox_entry (xe_fresh x) run_command_subject
       (Run_requested (message_command owner c q (xe_fresh x))) (xe_now x)]"
  using assms(1)
proof (cases rule: create_message_cases)
  case (Fresh c s' db2 db3)
  then show thesis using that present_frame(6) [OF Fresh(4)] put_outbox_cases(2) [OF Fresh(5)]
    by (simp add: remember_request_def)
qed (use assms(2) in simp)

text \<open>What the Runner needs of the Registry's answer: it is about the run, its digest and signature are
  right, and it has not expired.\<close>

definition good_answer :: "admission_side \<Rightarrow> run_admission \<Rightarrow> instant \<Rightarrow> signed_run_specification \<Rightarrow> bool" where
  "good_answer A ad now p \<longleftrightarrow> sr_run_id p = ad_run_id ad
     \<and> length (sr_payload_sha256 p) = 64 \<and> list_all is_hex (sr_payload_sha256 p)
     \<and> verify_specification (as_sha A) (as_verify A) (as_keys A) (contract_response p) = Inr ()
     \<and> \<not> isl (parse_time (sp_expires_at (payload_of (as_conversions A) (sr_payload p))) now)"

lemma verified_digest:
  "verify_specification sha ed keys w = Inr () \<Longrightarrow> ws_payload_sha256 w = sha (canonical_json (J_obj (ws_payload w)))"
  by (simp add: verify_specification_def del: canonical_json.simps split: if_splits)

lemma admit_command_message:
  assumes "reads_uuids A" and "\<forall>u \<in> message_ids owner c q e. is_uuid u" and "trace_id_ok (uuid_hex e)"
    and "as_registry A (message_admission A owner c q e) (uuid_str e) = Inr p"
    and "good_answer A (message_admission A owner c q e) now p"
  shows "admit_command A (message_command_json (message_command owner c q e)) (x, now) db
    = admit (as_digest A) (\<lambda>_. sr_payload_sha256 p) (as_timeout A) (uuid_str e)
        (message_admission A owner c q e, received (as_conversions A) (contract_response p)) (x, now) db"
proof -
  have "member ''id'' (message_command_json (message_command owner c q e)) = Some (J_str (uuid_str e))"
    by (simp add: message_command_json_def message_command_def uuid_json_def)
  moreover have "client_resolve (Inr p) (message_admission A owner c q e) = Inr (contract_response p)"
    using assms(5) by (simp add: client_resolve_def good_answer_def)
  moreover have v: "verify_specification (as_sha A) (as_verify A) (as_keys A) (contract_response p) = Inr ()"
    using assms(5) by (simp add: good_answer_def)
  moreover have "as_sha A (canonical_json (J_obj (ws_payload (contract_response p)))) = sr_payload_sha256 p"
    using verified_digest [OF v] by (simp add: contract_response_def del: canonical_json.simps)
  ultimately show ?thesis
    using read_message_command [OF assms(1-3)] assms(1,4)
    by (simp add: admit_command_def reads_uuids_def chain_def del: canonical_json.simps)
qed

text \<open>A run that is admitted is found under its identity, and a second delivery changes nothing.\<close>

lemma admit_fresh_run:
  assumes "row_by ru_key key (run_idempotency db) = None" and "\<not> has_row r_run_id (ad_run_id ad) (runs db)"
    and "ss_run_id spec = ad_run_id ad" and "admitted_row_ok ad spec"
    and "\<not> isl (parse_time (sp_expires_at (ss_payload spec)) (snd x))"
  obtains row db' where
    "admit digest (\<lambda>_. ss_payload_sha256 spec) timeout key (ad, spec) x db = Inr (row, db')"
    "row_by r_run_id (ad_run_id ad) (runs db') = Some row" "r_state row = Accepted"
    "r_admission row = ad" "r_specification row = spec" "r_user_id row = ad_user_id ad"
    "r_conversation_id row = ad_conversation_id ad" "runs db' = runs db @ [row]"
    "\<forall>x'. admit digest (\<lambda>_. ss_payload_sha256 spec) timeout key (ad, spec) x' db' = Inr (row, db')"
proof -
  obtain t where t: "parse_time (sp_expires_at (ss_payload spec)) (snd x) = Inr t"
    using assms(5) by (cases "parse_time (sp_expires_at (ss_payload spec)) (snd x)") auto
  let ?row = "admitted_row ad spec (min t (snd x + timeout)) (snd x)"
  let ?db = "db\<lparr>runs := runs db @ [?row], run_idempotency := run_idempotency db @
      [\<lparr>ru_key = key, ru_sha256 = digest ad, ru_run_id = ad_run_id ad\<rparr>],
      runner_outbox := enqueue (fst x) ''porfirium.run.command.schedule''
        (Schedule_command (ad_run_id ad)) (snd x) (runner_outbox db)\<rparr>"
  have a: "admit digest (\<lambda>_. ss_payload_sha256 spec) timeout key (ad, spec) x db = Inr (?row, ?db)"
    using assms(1-4) t by (simp add: admit_def Let_def)
  have r: "row_by r_run_id (ad_run_id ad) (runs ?db) = Some ?row"
    using assms(2) by (simp add: row_by_append has_row_def admitted_row_def)
  have "admit digest (\<lambda>_. ss_payload_sha256 spec) timeout key (ad, spec) x' ?db = Inr (?row, ?db)" for x'
    using assms(1) r by (simp add: admit_def row_by_append get_run_def)
  then show thesis using that [OF a r] by (simp add: admitted_row_def)
qed

text \<open>C9. A message that the Conversation Service accepted, whose stored input has at most 24,576 bytes,
  becomes exactly one run when the Registry answers validly, the run is not known to the Runner and
  the identities are UUIDs that are read as they were written: its command is admitted as a run of the
  same user, conversation, thread, release and grant whose input is the message, and delivering it
  again changes nothing.\<close>

theorem message_admitted:
  assumes "create_message H owner cid key q xc cdb = Inr ((msg, s), cdb')"
    and "find_request owner (message_operation cid) key cdb = None" and "owned owner cid cdb = Inr c"
    and "o_payload (last (conversation_outbox cdb')) = Run_requested r"
    and "dc_json C (sm_data m) = Decoded (J_obj (message_command_json r))"
    and "length (sm_data m) \<le> max_event_bytes"
    and "reads_uuids A" and "\<forall>u \<in> message_ids owner c q (xe_fresh xc). is_uuid u"
    and "trace_id_ok (uuid_hex (xe_fresh xc))"
    and "as_registry A (message_admission A owner c q (xe_fresh xc)) (uuid_str (xe_fresh xc)) = Inr p"
    and "good_answer A (message_admission A owner c q (xe_fresh xc)) now p"
    and "as_octets A (message_run_input q) \<le> max_run_input_octets"
    and "row_by ru_key (uuid_str (xe_fresh xc)) (run_idempotency rdb) = None"
    and "\<not> has_row r_run_id (m_run_id msg) (runs rdb)"
  shows "\<exists>body row rdb'. process_admission C A m (x, now) rdb = (Some body, None, rdb')
    \<and> runs rdb' = runs rdb @ [row] \<and> r_run_id row = m_run_id msg \<and> r_state row = Accepted
    \<and> r_user_id row = owner \<and> r_conversation_id row = cid
    \<and> r_admission row = message_admission A owner c q (xe_fresh xc)
    \<and> r_specification row = received (as_conversions A) (contract_response p)
    \<and> (\<forall>x'. good_answer A (message_admission A owner c q (xe_fresh xc)) (snd x') p
          \<longrightarrow> process_admission C A m x' rdb' = (Some body, None, rdb'))"
proof -
  let ?e = "xe_fresh xc" and ?ad = "message_admission A owner c q (xe_fresh xc)"
  let ?spec = "received (as_conversions A) (contract_response p)"
  have c: "msg = user_message cid q (xe_now xc)" "r = message_command owner c q ?e"
    by (rule sent_command [OF assms(1,2)]; use assms(3,4) in simp)+
  have cid: "v_conversation_id c = cid"
    using assms(3) by (auto simp: owned_def split: option.splits if_splits dest: row_by_SomeD)
  have f: "ss_payload_sha256 ?spec = sr_payload_sha256 p" "ss_run_id ?spec = sr_run_id p"
    "ss_payload ?spec = payload_of (as_conversions A) (sr_payload p)"
    "ad_run_id ?ad = m_run_id msg"
    by (simp_all add: received_def contract_response_def c message_admission_def user_message_def)
  have ok: "admitted_row_ok ?ad ?spec"
    using assms(9,11,12) f by (simp add: admitted_row_ok_def good_answer_def message_admission_def trace_id_ok_def)
  have n: "\<not> has_row r_run_id (ad_run_id ?ad) (runs rdb)" using assms(14) f(4) by simp
  have i: "ss_run_id ?spec = ad_run_id ?ad" "\<not> isl (parse_time (sp_expires_at (ss_payload ?spec)) (snd (x, now)))"
    using assms(11) f by (simp_all add: good_answer_def)
  obtain row rdb' where R:
    "admit (as_digest A) (\<lambda>_. ss_payload_sha256 ?spec) (as_timeout A) (uuid_str ?e) (?ad, ?spec) (x, now) rdb = Inr (row, rdb')"
    "row_by r_run_id (ad_run_id ?ad) (runs rdb') = Some row" "r_state row = Accepted"
    "r_admission row = ?ad" "r_specification row = ?spec" "r_user_id row = ad_user_id ?ad"
    "r_conversation_id row = ad_conversation_id ?ad" "runs rdb' = runs rdb @ [row]"
    "\<forall>x'. admit (as_digest A) (\<lambda>_. ss_payload_sha256 ?spec) (as_timeout A) (uuid_str ?e) (?ad, ?spec) x' rdb' = Inr (row, rdb')"
    by (rule admit_fresh_run [where digest = "as_digest A" and timeout = "as_timeout A",
        OF assms(13) n i(1) ok i(2)])
  have command: "admit_command A (message_command_json r) x' db
      = admit (as_digest A) (\<lambda>_. ss_payload_sha256 ?spec) (as_timeout A) (uuid_str ?e) (?ad, ?spec) x' db"
    if "good_answer A ?ad (snd x') p" for x' db
    using admit_command_message [OF assms(7-10) that, of "fst x'" db] by (simp add: c(2) f(1))
  have "process_admission C A m (x, now) rdb = (Some (J_obj (message_command_json r)), None, rdb')"
    using assms(5,6) command [of "(x, now)" rdb] assms(11) R(1) by (simp add: process_admission_def)
  moreover have "process_admission C A m x' rdb' = (Some (J_obj (message_command_json r)), None, rdb')"
    if "good_answer A ?ad (snd x') p" for x'
    using assms(5,6) command [OF that, of rdb'] R(9) by (simp add: process_admission_def)
  moreover have "r_run_id row = m_run_id msg" using row_by_SomeD [OF R(2)] f(4) by simp
  moreover have "r_user_id row = owner" "r_conversation_id row = cid"
    using R(6,7) cid by (simp_all add: message_admission_def)
  ultimately show ?thesis using R(3-5,8) by blast
qed

section \<open>Messages that never run\<close>

lemma admit_row_refused:
  assumes "row_by ru_key key (run_idempotency db) = None" and "\<not> admitted_row_ok ad spec"
  shows "isl (admit digest spec_digest timeout key (ad, spec) x db)"
  using assms by (auto simp: admit_def Let_def split: sum.split)

text \<open>C10. The portal and the Conversation Service bound a message by 20,000 characters, the Runner bounds its
  stored input by 24,576 bytes. A message with more bytes than that is accepted, stored and shown to the
  user, but no delivery of its command ever starts a run: every delivery, and every replay of its
  dead letter, ends with an error and leaves the Runner's tables as they were, whatever the Registry
  answers, and the last delivery is acknowledged once the dead letter is stored. (The stored input
  contains the message.)\<close>

theorem long_message_never_runs:
  assumes "api_create_message H owner cid key q xc cdb = Inr (shown, cdb')"
    and "find_request owner (message_operation cid) key cdb = None" and "owned owner cid cdb = Inr c"
    and "o_payload (last (conversation_outbox cdb')) = Run_requested r"
    and "dc_json C (sm_data m) = Decoded (J_obj (message_command_json r))"
    and "reads_uuids A" and "\<forall>u \<in> message_ids owner c q (xe_fresh xc). is_uuid u"
    and "trace_id_ok (uuid_hex (xe_fresh xc))"
    and "\<And>ms t. member ''value'' ms = Some (J_str t) \<Longrightarrow> length t \<le> as_octets A (J_obj ms)"
    and "max_run_input_octets < length (mp_content q)"
    and "row_by ru_key (uuid_str (xe_fresh xc)) (run_idempotency rdb) = None"
    and "deliver_admission C A max_deliveries m x y refused (rdb, ddb) = (settled, notices, rdb', ddb')"
  shows "rdb' = rdb \<and> (settled = Acknowledged \<longrightarrow> max_deliveries \<le> delivery_attempt m
    \<and> has_row dl_consumer admission_consumer (dead_letters ddb'))"
proof -
  let ?e = "xe_fresh xc" and ?ad = "message_admission A owner c q (xe_fresh xc)"
  obtain msg s where "create_message H owner cid key q xc cdb = Inr ((msg, s), cdb')"
    using assms(1) by (auto simp: api_create_message_def split: if_splits)
  then have r: "r = message_command owner c q ?e"
    using sent_command [OF _ assms(2)] assms(3,4) by fastforce
  have "length (mp_content q) \<le> as_octets A (message_run_input q)"
    using assms(9) by (simp add: message_run_input_def)
  then have "\<not> admitted_row_ok ?ad spec" for spec
    using assms(10) by (simp add: admitted_row_ok_def message_admission_def)
  note refused = admit_row_refused [OF assms(11) this]
  have key: "member ''id'' (message_command_json r) = Some (J_str (uuid_str ?e))"
    by (simp add: r message_command_json_def message_command_def uuid_json_def)
  have "isl (admit_command A (message_command_json r) x rdb)"
    using read_message_command [OF assms(6-8)] key assms(6) refused
    by (simp add: admit_command_def Let_def chain_def r reads_uuids_def del: canonical_json.simps split: sum.split)
  then obtain err where "admit_command A (message_command_json r) x rdb = Inl err"
    by (cases "admit_command A (message_command_json r) x rdb") auto
  then obtain body err' where p: "process_admission C A m x rdb = (body, Some err', rdb)"
    using assms(5) by (cases "max_event_bytes < length (sm_data m)") (simp_all add: process_admission_def)
  have d: "settle C max_deliveries m admission_consumer (Some err') body y refused ddb = (settled, notices, ddb')"
    and rdb: "rdb' = rdb"
    using assms(12) p by (auto simp: deliver_admission_def split: prod.splits)
  show ?thesis using rdb d settle_acknowledged by blast
qed

section \<open>Instances\<close>

text \<open>UUIDs are read by dropping the hyphens.\<close>

definition read_uuid_text :: "json \<Rightarrow> uuid option" where
  "read_uuid_text v =
     (case v of
        J_str s \<Rightarrow> (let u = hex_value (filter (\<lambda>c. c \<noteq> CHR ''-'') s) in if uuid_str u = s then Some u else None)
      | _ \<Rightarrow> None)"

lemma uuid_hex_no_hyphen: "CHR ''-'' \<notin> set (uuid_hex u)"
  using hex_of_is_hex [of "CHR ''-''" 32 u] by (auto simp: uuid_hex_def is_hex_def hex_digits_def)

lemma filter_uuid_str: "filter (\<lambda>c. c \<noteq> CHR ''-'') (uuid_str u) = uuid_hex u"
proof -
  let ?h = "uuid_hex u"
  have keep: "filter (\<lambda>c. c \<noteq> CHR ''-'') t = t" if "set t \<subseteq> set ?h" for t
    using that uuid_hex_no_hyphen [of u] by (auto simp: filter_id_conv)
  have "?h = take 8 ?h @ take 4 (drop 8 ?h) @ take 4 (drop 12 ?h) @ take 4 (drop 16 ?h) @ drop 20 ?h"
    using append_take_drop_id [of 8 ?h] append_take_drop_id [of 4 "drop 8 ?h"]
      append_take_drop_id [of 4 "drop 12 ?h"] append_take_drop_id [of 4 "drop 16 ?h"] by simp
  then show ?thesis
    unfolding uuid_str_def Let_def
    by (simp add: keep [of "take 8 ?h"] keep [of "take 4 (drop 8 ?h)"] keep [of "take 4 (drop 12 ?h)"]
        keep [of "take 4 (drop 16 ?h)"] keep [of "drop 20 ?h"] set_take_subset set_drop_subset
        subset_trans [OF set_take_subset set_drop_subset])
qed

lemma read_uuid_text_json: "is_uuid u \<Longrightarrow> read_uuid_text (uuid_json u) = Some u"
  by (simp add: read_uuid_text_def uuid_json_def filter_uuid_str uuid_hex_def hex_value_hex_of is_uuid_def Let_def)

definition sample_answer :: signed_run_specification where
  "sample_answer = \<lparr>sr_specification_id = 70, sr_run_id = 60, sr_payload = [(''expires_at'', J_str ''t'')],
     sr_payload_sha256 = replicate 64 (CHR ''a''), sr_signature = ''s'', sr_key_id = ''k''\<rparr>"

definition sample_admission_side :: admission_side where
  "sample_admission_side = \<lparr>as_uuid = read_uuid_text, as_encode = (\<lambda>v. case v of J_str s \<Rightarrow> s | _ \<Rightarrow> []),
     as_octets = (\<lambda>v. case v of J_obj ms \<Rightarrow> (case member ''value'' ms of Some (J_str t) \<Rightarrow> length t | _ \<Rightarrow> 0)
                       | _ \<Rightarrow> 0),
     as_dumped_octets = (\<lambda>v. 0), as_text = (\<lambda>v. case v of J_str s \<Rightarrow> s | _ \<Rightarrow> []), as_sha = (\<lambda>s. replicate 64 (CHR ''a'')),
     as_verify = (\<lambda>k g m. True), as_keys = [(''k'', ''pk'')],
     as_conversions = ex_conversions\<lparr>cv_time := (\<lambda>s. Good 1000)\<rparr>, as_digest = (\<lambda>ad. ''d''),
     as_timeout = 300, as_registry = (\<lambda>ad k. Inr sample_answer)\<rparr>"

definition sample_talk :: conversation_row where
  "sample_talk = \<lparr>v_conversation_id = 3, v_owner_id = 7, v_thread_id = 4, v_release_id = 11,
     v_configuration_revision_id = None, v_title = ''t'', v_last_sequence = 0, v_created_at = 0,
     v_updated_at = 0, v_delegation_grant_id = None\<rparr>"

definition sample_talks :: conversation_db where
  "sample_talks = empty_conversation_db\<lparr>conversations := [sample_talk]\<rparr>"

definition sample_payload :: "pystr \<Rightarrow> message_payload" where
  "sample_payload content = \<lparr>mp_message_id = 61, mp_run_id = 60, mp_content = content,
     mp_delegation_grant_id = 62\<rparr>"

definition command_codec :: "pystr \<Rightarrow> dead_letter_codec" where
  "command_codec content = sample_codec\<lparr>dc_json := (\<lambda>s. Decoded (J_obj (message_command_json
     (message_command 7 sample_talk (sample_payload content) 9))))\<rparr>"

lemma sample_reads: "reads_uuids sample_admission_side"
  by (simp add: reads_uuids_def sample_admission_side_def read_uuid_text_json)

lemma sample_talk_ids: "\<forall>u \<in> message_ids 7 sample_talk (sample_payload content) 9. is_uuid u"
  by (simp add: message_ids_def sample_talk_def sample_payload_def is_uuid_def)

lemma sample_talk_trace: "trace_id_ok (uuid_hex 9)"
  by code_simp

lemma sample_sent:
  "\<exists>s cdb'. create_message sample_digests 7 3 ''key-0001'' (sample_payload content)
       (ConversationProperties.sample_env 0 9) sample_talks = Inr ((user_message 3 (sample_payload content) 0, s), cdb')
    \<and> o_payload (last (conversation_outbox cdb'))
        = Run_requested (message_command 7 sample_talk (sample_payload content) 9)"
  by (simp add: create_message_def owned_def find_request_def sample_talks_def empty_conversation_db_def
      sample_talk_def present_def put_outbox_def sample_payload_def user_message_def
      ConversationProperties.sample_env_def remember_request_def Let_def)

lemma sample_talk_owned: "owned 7 3 sample_talks = Inr sample_talk"
  "find_request 7 (message_operation 3) ''key-0001'' sample_talks = None"
  by (simp_all add: owned_def sample_talks_def sample_talk_def find_request_def empty_conversation_db_def)

lemma sample_good_answer:
  "good_answer sample_admission_side (message_admission sample_admission_side 7 sample_talk (sample_payload content) 9)
     0 sample_answer"
proof -
  have "list_all is_hex (replicate 64 (CHR ''a''))" by code_simp
  then show ?thesis
    by (simp add: good_answer_def sample_answer_def message_admission_def sample_payload_def
        sample_admission_side_def verify_specification_def contract_response_def b64decode_std_encode
        payload_of_def text_member_def parse_time_def)
qed

lemma message_admitted_witness:
  "\<exists>body row rdb'. process_admission (command_codec ''hi'') sample_admission_side sample_failure (1, 0) empty_runner_db
       = (Some body, None, rdb') \<and> runs rdb' = [row] \<and> r_run_id row = 60 \<and> r_user_id row = 7"
proof -
  let ?q = "sample_payload ''hi''" and ?x = "ConversationProperties.sample_env 0 9"
  obtain s cdb' where c: "create_message sample_digests 7 3 ''key-0001'' ?q ?x sample_talks
      = Inr ((user_message 3 ?q 0, s), cdb')"
    "o_payload (last (conversation_outbox cdb')) = Run_requested (message_command 7 sample_talk ?q 9)"
    using sample_sent by blast
  have f: "xe_fresh ?x = 9" by (simp add: ConversationProperties.sample_env_def)
  have d: "dc_json (command_codec ''hi'') (sm_data sample_failure)
      = Decoded (J_obj (message_command_json (message_command 7 sample_talk ?q 9)))"
    "length (sm_data sample_failure) \<le> max_event_bytes"
    by (simp_all add: command_codec_def sample_failure_def max_event_bytes_def)
  have a: "as_registry sample_admission_side ad k = Inr sample_answer" for ad k
    by (simp add: sample_admission_side_def)
  have o: "as_octets sample_admission_side (message_run_input ?q) \<le> max_run_input_octets"
    by (simp add: sample_admission_side_def message_run_input_def sample_payload_def max_run_input_octets_def)
  have e: "row_by ru_key k (run_idempotency empty_runner_db) = None" "\<not> has_row r_run_id i (runs empty_runner_db)" for k i
    by (simp_all add: empty_runner_db_def)
  have "runs empty_runner_db = []" by (simp add: empty_runner_db_def)
  then show ?thesis
    using message_admitted [OF c(1) sample_talk_owned(2,1) c(2) d sample_reads, unfolded f, OF sample_talk_ids
        sample_talk_trace a sample_good_answer o e(1) e(2), of 1]
    by (auto simp: user_message_def sample_payload_def)
qed

text \<open>A message of 13,000 Cyrillic letters, two bytes each.\<close>

definition cyrillic_message :: pystr where
  "cyrillic_message = concat (replicate 13000 [char_of (208::nat), char_of (159::nat)])"

lemma count_repeated: "char_count (concat (replicate n [char_of (208::nat), char_of (159::nat)])) = n"
  by (induction n) (simp_all add: char_count_def continuation_byte_def)

lemma length_repeated: "length (concat (replicate n [a, b])) = 2 * n"
  by (induction n) simp_all

lemma long_message_never_runs_witness:
  "\<exists>shown cdb'. api_create_message sample_digests 7 3 ''key-0001'' (sample_payload cyrillic_message)
       (ConversationProperties.sample_env 0 9) sample_talks = Inr (shown, cdb')
    \<and> (\<forall>m x y refused. fst (snd (snd (deliver_admission (command_codec cyrillic_message) sample_admission_side 5 m x
         y refused (empty_runner_db, no_dead_letters)))) = empty_runner_db)"
proof -
  let ?q = "sample_payload cyrillic_message" and ?x = "ConversationProperties.sample_env 0 9"
  obtain s cdb' where c: "create_message sample_digests 7 3 ''key-0001'' ?q ?x sample_talks
      = Inr ((user_message 3 ?q 0, s), cdb')"
    "o_payload (last (conversation_outbox cdb')) = Run_requested (message_command 7 sample_talk ?q 9)"
    using sample_sent by blast
  have n: "char_count (mp_content ?q) = 13000" "max_run_input_octets < length (mp_content ?q)"
    unfolding sample_payload_def message_payload.select_convs cyrillic_message_def
    by (rule count_repeated) (simp add: length_repeated max_run_input_octets_def)
  have "idempotency_key_ok ''key-0001''" by code_simp
  then obtain shown where sent: "api_create_message sample_digests 7 3 ''key-0001'' ?q ?x sample_talks = Inr (shown, cdb')"
    using c(1) n(1) by (simp add: api_create_message_def)
  have f: "xe_fresh ?x = 9" by (simp add: ConversationProperties.sample_env_def)
  have d: "dc_json (command_codec cyrillic_message) t
      = Decoded (J_obj (message_command_json (message_command 7 sample_talk ?q 9)))" for t
    by (simp add: command_codec_def)
  have o: "member ''value'' ms = Some (J_str t) \<Longrightarrow> length t \<le> as_octets sample_admission_side (J_obj ms)" for ms t
    by (simp add: sample_admission_side_def)
  have e: "row_by ru_key k (run_idempotency empty_runner_db) = None" for k
    by (simp add: empty_runner_db_def)
  have "fst (snd (snd (deliver_admission (command_codec cyrillic_message) sample_admission_side 5 m x
       y refused (empty_runner_db, no_dead_letters)))) = empty_runner_db" for m x y refused
  proof -
    obtain settled notices rdb' ddb' where D: "deliver_admission (command_codec cyrillic_message) sample_admission_side 5
        m x y refused (empty_runner_db, no_dead_letters) = (settled, notices, rdb', ddb')"
      by (cases "deliver_admission (command_codec cyrillic_message) sample_admission_side 5 m x y refused
        (empty_runner_db, no_dead_letters)") auto
    have "rdb' = empty_runner_db"
      using long_message_never_runs [OF sent sample_talk_owned(2,1) c(2) d sample_reads, unfolded f,
          OF sample_talk_ids sample_talk_trace o n(2) e D] by blast
    then show ?thesis using D by simp
  qed
  then show ?thesis using sent by blast
qed

end
