(* ===== verification/RuntimeApi.thy ===== *)
theory RuntimeApi
  imports RuntimeCapability
begin

text \<open>
  The Agent Runtime API (\<open>agent_runtime_api/runtime.py\<close>): frames of an attempt's stream, the
  acceptance of frames with lease fencing and gap-free sequences, the events it publishes, model
  and tool calls, and the loop of a stream. A protobuf message arrives decoded; a text field that
  the code parses as an identity is a \<open>uuid fld\<close>, Missing when it is empty. The SHA-256 of
  contents and requests, the two gateways and the database's acceptance of a text are parameters.
\<close>

section \<open>Frames\<close>

text \<open>\<open>fi_version\<close> is the outcome of splitting and parsing the protocol version.\<close>

record frame_identity =
  fi_version :: "(int \<times> int) fld"
  fi_run_id :: "uuid fld"
  fi_attempt_id :: "uuid fld"
  fi_lease_epoch :: nat
  fi_sequence :: nat
  fi_key :: pystr
  fi_traceparent :: pystr

record completed_payload =
  mc_message_id :: "uuid fld"
  mc_content :: pystr
  mc_chunk_count :: nat
  mc_content_bytes :: nat
  mc_content_sha256 :: pystr
  mc_finish_reason :: pystr
  mc_usage :: "pystr option"

record model_call =
  ml_request_id :: pystr
  ml_model :: pystr
  ml_prompt :: pystr
  ml_max_output_tokens :: nat

text \<open>\<open>tl_arguments\<close> is the JSON text of the arguments; its length is what the code bounds.\<close>

record tool_call =
  tl_invocation_id :: "uuid fld"
  tl_tool :: pystr
  tl_arguments :: pystr

text \<open>The alternatives of \<open>payload\<close>; \<open>F_none\<close> when none is set. Contents are bytes.\<close>

datatype payload =
    F_none
  | F_hello pystr
  | F_heartbeat
  | F_message_started "uuid fld" pystr
  | F_message_delta "uuid fld" nat pystr
  | F_message_completed completed_payload
  | F_message_interrupted "uuid fld" pystr
  | F_input_request_proposed "uuid fld" "uuid fld" pystr "pystr option"
  | F_suspension_committed "uuid fld" "uuid fld" "uuid fld"
  | F_result_proposed "uuid fld list" "uuid fld"
  | F_model_call model_call
  | F_tool_call tool_call

record agent_frame =
  fr_identity :: frame_identity
  fr_payload :: payload
  fr_size :: nat

text \<open>\<open>WhichOneof\<close>.\<close>

fun kind_of :: "payload \<Rightarrow> pystr option" where
  "kind_of F_none = None"
| "kind_of (F_hello c) = Some ''hello''"
| "kind_of F_heartbeat = Some ''heartbeat''"
| "kind_of (F_message_started m t) = Some ''message_started''"
| "kind_of (F_message_delta m n c) = Some ''message_delta''"
| "kind_of (F_message_completed c) = Some ''message_completed''"
| "kind_of (F_message_interrupted m c) = Some ''message_interrupted''"
| "kind_of (F_input_request_proposed s k p r) = Some ''input_request_proposed''"
| "kind_of (F_suspension_committed s k i) = Some ''suspension_committed''"
| "kind_of (F_result_proposed ms k) = Some ''result_proposed''"
| "kind_of (F_model_call c) = Some ''model_call''"
| "kind_of (F_tool_call c) = Some ''tool_call''"

text \<open>The table \<open>EVENTS\<close>: subject and type of the event a frame becomes.\<close>

fun event_of :: "payload \<Rightarrow> (pystr \<times> pystr) option" where
  "event_of (F_message_started m t) =
     Some (''porfirium.conversation.event.message_started'', ''porfirium.message.started.v1'')"
| "event_of (F_message_delta m n c) =
     Some (''porfirium.message.delta.accepted'', ''porfirium.message.delta.v1'')"
| "event_of (F_message_completed c) =
     Some (''porfirium.conversation.event.message_completed'', ''porfirium.message.completed.v1'')"
| "event_of (F_message_interrupted m c) =
     Some (''porfirium.conversation.event.message_interrupted'',
           ''porfirium.message.interrupted.v1'')"
| "event_of (F_input_request_proposed s k p r) =
     Some (''porfirium.conversation.event.input_request_proposed'',
           ''porfirium.input.request_proposed.v1'')"
| "event_of (F_suspension_committed s k i) =
     Some (''porfirium.run.event.suspension_committed'', ''porfirium.run.suspension_committed.v1'')"
| "event_of (F_result_proposed ms k) =
     Some (''porfirium.run.event.result_proposed'', ''porfirium.run.result_proposed.v1'')"
| "event_of _ = None"

section \<open>Limits\<close>

definition max_frame_bytes :: nat where
  "max_frame_bytes = 16 * 1024"

definition max_in_flight_frames :: nat where
  "max_in_flight_frames = 32"

definition runtime_message_bytes :: nat where
  "runtime_message_bytes = 256 * 1024"

section \<open>UTF-8\<close>

text \<open>\<open>bytes.decode("utf-8")\<close> succeeds on these byte strings; the text is then represented by the
  same bytes.\<close>

definition byte_in :: "nat \<Rightarrow> nat \<Rightarrow> char \<Rightarrow> bool" where
  "byte_in lo hi c \<longleftrightarrow> lo \<le> of_char c \<and> of_char c \<le> hi"

definition tails_ok :: "nat \<Rightarrow> nat \<Rightarrow> nat \<Rightarrow> pystr \<Rightarrow> bool" where
  "tails_ok n lo hi s \<longleftrightarrow> n \<le> length s \<and> byte_in lo hi (s ! 0)
     \<and> list_all (byte_in 128 191) (take n s)"

text \<open>The continuation bytes a lead byte needs: their number and the bounds of the first.\<close>

definition lead_byte :: "char \<Rightarrow> (nat \<times> nat \<times> nat) option" where
  "lead_byte c =
     (if byte_in 194 223 c then Some (1, 128, 191)
      else if byte_in 224 224 c then Some (2, 160, 191)
      else if byte_in 237 237 c then Some (2, 128, 159)
      else if byte_in 225 239 c then Some (2, 128, 191)
      else if byte_in 240 240 c then Some (3, 144, 191)
      else if byte_in 241 243 c then Some (3, 128, 191)
      else if byte_in 244 244 c then Some (3, 128, 143)
      else None)"

function utf8_valid :: "pystr \<Rightarrow> bool" where
  "utf8_valid [] = True"
| "utf8_valid (c # s) =
     (if byte_in 0 127 c then utf8_valid s
      else (case lead_byte c of
              None \<Rightarrow> False
            | Some (n, lo, hi) \<Rightarrow> tails_ok n lo hi s \<and> utf8_valid (drop n s)))"
  by pat_completeness auto

termination utf8_valid
  by (relation "measure length") auto

section \<open>Errors\<close>

text \<open>\<open>ValueError(code)\<close>; \<open>Value_error\<close> is a \<open>ValueError\<close> with a text of the library (a malformed
  UUID, invalid UTF-8).\<close>

definition rt_error :: "pystr \<Rightarrow> exc" where
  "rt_error code = Coded ''ValueError'' code"

section \<open>The identity of a frame\<close>

fun uuid_arg :: "uuid fld \<Rightarrow> uuid option" where
  "uuid_arg (Good u) = Some u"
| "uuid_arg _ = None"

text \<open>\<open>_validate_identity\<close>. The comparison of the run is evaluated first: a malformed run or
  attempt raises the library's error unless an earlier comparison already failed.\<close>

definition validate_identity :: "frame_identity \<Rightarrow> runtime_capability \<Rightarrow> exc + unit" where
  "validate_identity fi cap =
     (case fi_version fi of
        Good (major, minor) \<Rightarrow>
          if major \<noteq> 1 \<or> minor \<notin> {0, 1} then Inl (rt_error ''unsupported_protocol'')
          else
            (case uuid_arg (fi_run_id fi) of
               None \<Rightarrow> Inl Value_error
             | Some run \<Rightarrow>
                 if run \<noteq> rk_run_id cap then Inl (rt_error ''identity_mismatch'')
                 else
                   (case uuid_arg (fi_attempt_id fi) of
                      None \<Rightarrow> Inl Value_error
                    | Some attempt \<Rightarrow>
                        if attempt = rk_attempt_id cap \<and> int (fi_lease_epoch fi) = rk_lease_epoch cap
                           \<and> fi_key fi \<noteq> [] \<and> char_count (fi_key fi) \<le> 128
                           \<and> map_option fst (match_traceparent (fi_traceparent fi))
                             = Some (rk_trace_id cap)
                        then Inr () else Inl (rt_error ''identity_mismatch'')))
      | _ \<Rightarrow> Inl (rt_error ''unsupported_protocol''))"

section \<open>Events\<close>

text \<open>The stored envelope has one more field than the consumers read.\<close>

record runtime_event = envelope +
  ev_aggregate_sequence :: nat

text \<open>\<open>MessageToDict\<close> leaves out empty texts and zeros.\<close>

definition text_field :: "pystr \<Rightarrow> pystr option" where
  "text_field s = (if s = [] then None else Some s)"

definition number_field :: "nat \<Rightarrow> int fld" where
  "number_field n = (if n = 0 then Missing else Good (int n))"

definition json_field :: "pystr option \<Rightarrow> pystr" where
  "json_field j = (case j of None \<Rightarrow> ''{}'' | Some s \<Rightarrow> s)"

definition parse_ids :: "uuid fld list \<Rightarrow> uuid list option" where
  "parse_ids l = (if list_all good l then Some (map (\<lambda>f. case f of Good u \<Rightarrow> u | _ \<Rightarrow> 0) l)
                  else None)"

text \<open>The \<open>data\<close> of the envelope.\<close>

definition proposal_data ::
  "runtime_capability \<Rightarrow> uuid list \<Rightarrow> uuid option \<Rightarrow> event_data" where
  "proposal_data cap ids checkpoint =
     empty_data\<lparr>d_run_id := Good (rk_run_id cap), d_attempt_id := Good (rk_attempt_id cap),
       d_lease_epoch := Good (rk_lease_epoch cap), d_final_message_ids := map Good ids,
       d_final_checkpoint_id := opt_fld checkpoint,
       d_required_confirmations :=
         (if ids \<noteq> [] then [''messages''] else [])
         @ (if checkpoint \<noteq> None then [''checkpoint''] else [])\<rparr>"

fun frame_data :: "runtime_capability \<Rightarrow> payload \<Rightarrow> exc + event_data" where
  "frame_data cap (F_message_started m t) = Inr (empty_data\<lparr>d_message_id := m\<rparr>)"
| "frame_data cap (F_message_delta m n c) =
     (if utf8_valid c
      then Inr (empty_data\<lparr>d_message_id := m, d_chunk_sequence := number_field n,
                  d_content := Some c\<rparr>)
      else Inl Value_error)"
| "frame_data cap (F_message_completed c) =
     (if \<not> utf8_valid (mc_content c) then Inl Value_error
      else if runtime_message_bytes < length (mc_content c) then Inl (rt_error ''message_too_large'')
      else Inr (empty_data\<lparr>d_message_id := mc_message_id c, d_content := Some (mc_content c),
                  d_chunk_count := number_field (mc_chunk_count c),
                  d_content_bytes := number_field (mc_content_bytes c),
                  d_content_sha256 := text_field (mc_content_sha256 c),
                  d_finish_reason := text_field (mc_finish_reason c),
                  d_usage := json_field (mc_usage c)\<rparr>))"
| "frame_data cap (F_message_interrupted m c) =
     Inr (empty_data\<lparr>d_message_id := m, d_code := text_field c\<rparr>)"
| "frame_data cap (F_input_request_proposed s k p r) =
     Inr (empty_data\<lparr>d_suspension_id := s, d_checkpoint_id := k, d_prompt := text_field p,
            d_schema := json_field r\<rparr>)"
| "frame_data cap (F_suspension_committed s k i) =
     Inr (empty_data\<lparr>d_suspension_id := s, d_checkpoint_id := k, d_input_request_id := i\<rparr>)"
| "frame_data cap (F_result_proposed ms k) =
     (case parse_ids ms of
        None \<Rightarrow> Inl (rt_error ''result_proposal_invalid'')
      | Some ids \<Rightarrow>
          if k = Malformed \<or> 64 < length ids \<or> \<not> distinct ids
          then Inl (rt_error ''result_proposal_invalid'')
          else Inr (proposal_data cap ids (fld_value k)))"
| "frame_data cap _ = Inl Key_error"

text \<open>\<open>_causation_id\<close>: a key that is a UUID is the cause itself, any other key is hashed.
  \<open>key_id\<close> is this function of the key.\<close>

definition event_envelope ::
  "(pystr \<Rightarrow> uuid) \<Rightarrow> runtime_capability \<Rightarrow> frame_identity \<Rightarrow> pystr \<Rightarrow> uuid \<Rightarrow> instant \<Rightarrow> nat
     \<Rightarrow> event_data \<Rightarrow> runtime_event" where
  "event_envelope key_id cap fi kind event_id now bytes data =
     \<lparr>ev_encoded_bytes = Some bytes, ev_specversion = Some ''1.0'', ev_type = Some kind,
      ev_id = Good event_id, ev_source = Some ''agent-runtime-api'',
      ev_subject = Some (''run/'' @ uuid_str (rk_run_id cap)), ev_time = Good (now, True),
      ev_user_id = Good (rk_user_id cap), ev_conversation_id = Good (rk_conversation_id cap),
      ev_thread_id = Good (rk_thread_id cap), ev_run_id = Good (rk_run_id cap),
      ev_attempt_id = Good (rk_attempt_id cap), ev_lease_epoch = Good (rk_lease_epoch cap),
      ev_correlation_id = Good (hex_value (rk_trace_id cap)),
      ev_causation_id = Good (key_id (fi_key fi)), ev_traceparent = Some (fi_traceparent fi),
      ev_schema_version = Some 1, ev_data = Some data,
      ev_aggregate_sequence = fi_sequence fi\<rparr>"

text \<open>\<open>_event\<close>: a frame of another kind has no entry in the table.\<close>

definition make_event ::
  "(pystr \<Rightarrow> uuid) \<Rightarrow> runtime_capability \<Rightarrow> agent_frame \<Rightarrow> uuid \<Rightarrow> instant \<Rightarrow> nat
     \<Rightarrow> exc + (pystr \<times> runtime_event)" where
  "make_event key_id cap f event_id now bytes =
     (case event_of (fr_payload f) of
        None \<Rightarrow> Inl Key_error
      | Some (subject, kind) \<Rightarrow>
          (case frame_data cap (fr_payload f) of
             Inl e \<Rightarrow> Inl e
           | Inr data \<Rightarrow>
               Inr (subject,
                    event_envelope key_id cap (fr_identity f) kind event_id now bytes data)))"

end
