(* ===== verification/RuntimeStore.thy ===== *)
theory RuntimeStore
  imports RuntimeApi
begin

text \<open>
  The database side of \<open>RuntimeService\<close>: \<open>_activate\<close>, \<open>_accept\<close>, the two transactions of
  \<open>_call_tool\<close> and the retention job, with the tables of \<open>agent-runtime-api/migrations/\<close>; then the
  model and tool calls, the gateways (\<open>model_gateway.py\<close>, \<open>tool_gateway.py\<close>) and the stream.
\<close>

section \<open>Tables\<close>

record stream_row =
  ra_run :: uuid
  ra_attempt :: uuid
  ra_epoch :: int
  ra_user :: uuid
  ra_conversation :: uuid
  ra_thread :: uuid
  ra_deadline :: instant
  ra_last_sequence :: nat
  ra_heartbeat :: "instant option"

record accepted_row =
  af_run :: uuid
  af_attempt :: uuid
  af_epoch :: int
  af_sequence :: nat
  af_key :: pystr
  af_kind :: pystr
  af_event :: "uuid option"

datatype invocation_state = Executing | Done pystr bool

text \<open>\<open>Done result is_error\<close> holds the JSON text of the result.\<close>

record invocation_row =
  ti_run :: uuid
  ti_invocation :: uuid
  ti_attempt :: uuid
  ti_epoch :: int
  ti_request_sha256 :: pystr
  ti_state :: invocation_state

record runtime_db =
  rt_streams :: "stream_row list"
  rt_frames :: "accepted_row list"
  rt_invocations :: "invocation_row list"
  rt_outbox :: "runtime_event outbox_row list"

definition empty_runtime_db :: runtime_db where
  "empty_runtime_db = \<lparr>rt_streams = [], rt_frames = [], rt_invocations = [], rt_outbox = []\<rparr>"

text \<open>What the transactions take from outside: the clock, the fresh event identity and the length
  of the encoded event; and the functions of the environment: the SHA-256 of a content, the digest
  of a tool request, the hash of a key, and whether the database accepts the texts of a frame
  (PostgreSQL refuses the NUL character); and whether a JSON result fits a protobuf \<open>Value\<close>.\<close>

record runtime_env =
  xr_now :: instant
  xr_event_id :: uuid
  xr_event_bytes :: nat

record runtime_funs =
  hf_sha256 :: "pystr \<Rightarrow> pystr"
  hf_request :: "pystr \<times> pystr \<Rightarrow> pystr"
  hf_key_id :: "pystr \<Rightarrow> uuid"
  hf_storable :: "agent_frame \<Rightarrow> bool"
  hf_value_ok :: "pystr \<Rightarrow> bool"

section \<open>\<open>_activate\<close>\<close>

definition fresh_stream :: "runtime_capability \<Rightarrow> stream_row" where
  "fresh_stream cap =
     \<lparr>ra_run = rk_run_id cap, ra_attempt = rk_attempt_id cap, ra_epoch = rk_lease_epoch cap,
      ra_user = rk_user_id cap, ra_conversation = rk_conversation_id cap,
      ra_thread = rk_thread_id cap, ra_deadline = rk_deadline cap * 1000000,
      ra_last_sequence = 0, ra_heartbeat = None\<rparr>"

definition activate :: "runtime_capability \<Rightarrow> runtime_db \<Rightarrow> (nat, runtime_db) tx" where
  "activate cap db =
     (case row_by ra_run (rk_run_id cap) (rt_streams db) of
        None \<Rightarrow>
          if rk_lease_epoch cap \<le> 0 then Inl Check_violation
          else Inr (0, db\<lparr>rt_streams := rt_streams db @ [fresh_stream cap]\<rparr>)
      | Some row \<Rightarrow>
          if rk_lease_epoch cap < ra_epoch row then Inl (rt_error ''stale_epoch'')
          else if ra_epoch row = rk_lease_epoch cap \<and> ra_attempt row \<noteq> rk_attempt_id cap
          then Inl (rt_error ''attempt_mismatch'')
          else if ra_epoch row < rk_lease_epoch cap then
            Inr (0, db\<lparr>rt_streams := update_where (\<lambda>r. ra_run r = rk_run_id cap)
                   (\<lambda>r. (fresh_stream cap)\<lparr>ra_heartbeat := ra_heartbeat r\<rparr>) (rt_streams db)\<rparr>)
          else Inr (ra_last_sequence row, db))"

section \<open>\<open>_accept\<close>\<close>

definition frame_key :: "runtime_capability \<Rightarrow> pystr \<Rightarrow> accepted_row \<Rightarrow> bool" where
  "frame_key cap key r \<longleftrightarrow> af_run r = rk_run_id cap \<and> af_attempt r = rk_attempt_id cap
     \<and> af_epoch r = rk_lease_epoch cap \<and> af_key r = key"

definition find_frame ::
  "runtime_capability \<Rightarrow> pystr \<Rightarrow> accepted_row list \<Rightarrow> accepted_row option" where
  "find_frame cap key t = find (frame_key cap key) t"

text \<open>The checks on contents.\<close>

fun content_check :: "runtime_funs \<Rightarrow> payload \<Rightarrow> exc option" where
  "content_check H (F_message_delta m n c) =
     (if \<not> utf8_valid c then Some (rt_error ''invalid_utf8'')
      else if c = [] \<or> 4096 < length c then Some (rt_error ''chunk_size_invalid'')
      else None)"
| "content_check H (F_message_completed c) =
     (if length (mc_content c) \<noteq> mc_content_bytes c
         \<or> hf_sha256 H (mc_content c) \<noteq> mc_content_sha256 c \<or> 65536 < mc_chunk_count c
      then Some (rt_error ''completion_hash_invalid'') else None)"
| "content_check H _ = None"

definition accepted_frame ::
  "runtime_capability \<Rightarrow> frame_identity \<Rightarrow> pystr \<Rightarrow> uuid option \<Rightarrow> accepted_row" where
  "accepted_frame cap fi kind event =
     \<lparr>af_run = rk_run_id cap, af_attempt = rk_attempt_id cap, af_epoch = rk_lease_epoch cap,
      af_sequence = fi_sequence fi, af_key = fi_key fi, af_kind = kind, af_event = event\<rparr>"

definition sequence_taken :: "runtime_capability \<Rightarrow> nat \<Rightarrow> accepted_row list \<Rightarrow> bool" where
  "sequence_taken cap n t \<longleftrightarrow>
     list_ex (\<lambda>r. af_run r = rk_run_id cap \<and> af_attempt r = rk_attempt_id cap
       \<and> af_epoch r = rk_lease_epoch cap \<and> af_sequence r = n) t"

text \<open>The insert of the event of a frame that has one.\<close>

definition store_event ::
  "runtime_funs \<Rightarrow> runtime_capability \<Rightarrow> agent_frame \<Rightarrow> runtime_env \<Rightarrow> runtime_db
     \<Rightarrow> (uuid option, runtime_db) tx" where
  "store_event H cap f x db =
     (if event_of (fr_payload f) = None then Inr (None, db)
      else
        (case make_event (hf_key_id H) cap f (xr_event_id x) (xr_now x) (xr_event_bytes x) of
           Inl e \<Rightarrow> Inl e
         | Inr (subject, event) \<Rightarrow>
             if \<not> hf_storable H f then Inl Backend_failure
             else if has_row o_event_id (xr_event_id x) (rt_outbox db) then Inl Unique_violation
             else Inr (Some (xr_event_id x),
                       db\<lparr>rt_outbox := rt_outbox db
                            @ [outbox_entry (xr_event_id x) subject event (xr_now x)]\<rparr>)))"

text \<open>The insert of the frame and the update of the stream. The primary key of the table is the
  sequence within the attempt.\<close>

definition store_frame ::
  "runtime_funs \<Rightarrow> runtime_capability \<Rightarrow> agent_frame \<Rightarrow> pystr \<Rightarrow> uuid option \<Rightarrow> instant
     \<Rightarrow> runtime_db \<Rightarrow> (uuid option, runtime_db) tx" where
  "store_frame H cap f kind event now db =
     (let fi = fr_identity f in
      if \<not> hf_storable H f then Inl Backend_failure
      else if sequence_taken cap (fi_sequence fi) (rt_frames db) then Inl Unique_violation
      else Inr (event, db\<lparr>rt_frames := rt_frames db @ [accepted_frame cap fi kind event],
             rt_streams := update_where (\<lambda>r. ra_run r = rk_run_id cap)
               (\<lambda>r. r\<lparr>ra_last_sequence := fi_sequence fi,
                      ra_heartbeat := if kind = ''heartbeat'' then Some now else ra_heartbeat r\<rparr>)
               (rt_streams db)\<rparr>))"

definition accept_new ::
  "runtime_funs \<Rightarrow> runtime_capability \<Rightarrow> agent_frame \<Rightarrow> pystr \<Rightarrow> runtime_env \<Rightarrow> runtime_db
     \<Rightarrow> (uuid option, runtime_db) tx" where
  "accept_new H cap f kind x db =
     (case content_check H (fr_payload f) of
        Some e \<Rightarrow> Inl e
      | None \<Rightarrow>
          (case store_event H cap f x db of
             Inl e \<Rightarrow> Inl e
           | Inr (event, db1) \<Rightarrow> store_frame H cap f kind event (xr_now x) db1))"

definition accept ::
  "runtime_funs \<Rightarrow> runtime_capability \<Rightarrow> agent_frame \<Rightarrow> runtime_env \<Rightarrow> runtime_db
     \<Rightarrow> (uuid option, runtime_db) tx" where
  "accept H cap f x db =
     (case kind_of (fr_payload f) of
        None \<Rightarrow> Inl (rt_error ''invalid_frame'')
      | Some kind \<Rightarrow>
          if kind = ''hello'' then Inl (rt_error ''invalid_frame'')
          else
            (case row_by ra_run (rk_run_id cap) (rt_streams db) of
               None \<Rightarrow> Inl (rt_error ''stale_epoch'')
             | Some row \<Rightarrow>
                 if ra_epoch row \<noteq> rk_lease_epoch cap then Inl (rt_error ''stale_epoch'')
                 else
                   (case find_frame cap (fi_key (fr_identity f)) (rt_frames db) of
                      Some old \<Rightarrow>
                        if af_sequence old \<noteq> fi_sequence (fr_identity f)
                        then Inl (rt_error ''idempotency_conflict'')
                        else Inr (af_event old, db)
                    | None \<Rightarrow>
                        if fi_sequence (fr_identity f) \<noteq> ra_last_sequence row + 1
                        then Inl (rt_error ''sequence_out_of_order'')
                        else accept_new H cap f kind x db)))"

section \<open>Tool invocations\<close>

type_synonym tool_result = "pystr \<times> bool"

text \<open>The checks before the first transaction: the outcome is the invocation and the digest.\<close>

definition tool_request ::
  "runtime_funs \<Rightarrow> bool \<Rightarrow> runtime_capability \<Rightarrow> tool_call \<Rightarrow> exc + (uuid \<times> pystr)" where
  "tool_request H gateway cap c =
     (if tl_tool c \<notin> set (rk_tools cap) then Inl (rt_error ''tool_forbidden'')
      else
        (case uuid_arg (tl_invocation_id c) of
           None \<Rightarrow> Inl (rt_error ''tool_request_invalid'')
         | Some invocation \<Rightarrow>
             if tl_tool c = [] \<or> 128 < char_count (tl_tool c) \<or> 8 * 1024 < length (tl_arguments c)
             then Inl (rt_error ''tool_request_invalid'')
             else if \<not> gateway then Inl (rt_error ''tool_delegation_unavailable'')
             else Inr (invocation, hf_request H (tl_tool c, tl_arguments c))))"

text \<open>The first transaction: None when the invocation was recorded and the gateway is called now,
  the stored result when it was called before.\<close>

definition tool_begin ::
  "runtime_capability \<Rightarrow> uuid \<Rightarrow> pystr \<Rightarrow> runtime_db \<Rightarrow> (tool_result option, runtime_db) tx" where
  "tool_begin cap invocation digest db =
     (case row_by (\<lambda>r. (ti_run r, ti_invocation r)) (rk_run_id cap, invocation)
             (rt_invocations db) of
        Some old \<Rightarrow>
          if ti_request_sha256 old \<noteq> digest then Inl (rt_error ''tool_idempotency_conflict'')
          else (case ti_state old of
                  Executing \<Rightarrow> Inl (rt_error ''tool_outcome_ambiguous'')
                | Done result is_error \<Rightarrow> Inr (Some (result, is_error), db))
      | None \<Rightarrow>
          if rk_lease_epoch cap \<le> 0 then Inl Check_violation
          else Inr (None, db\<lparr>rt_invocations := rt_invocations db @
            [\<lparr>ti_run = rk_run_id cap, ti_invocation = invocation, ti_attempt = rk_attempt_id cap,
              ti_epoch = rk_lease_epoch cap, ti_request_sha256 = digest,
              ti_state = Executing\<rparr>]\<rparr>))"

definition open_invocation :: "uuid \<Rightarrow> uuid \<Rightarrow> invocation_row \<Rightarrow> bool" where
  "open_invocation run invocation r \<longleftrightarrow>
     ti_run r = run \<and> ti_invocation r = invocation \<and> ti_state r = Executing"

text \<open>The second transaction, after the gateway has answered. The length of the result's text is
  bounded first.\<close>

definition tool_finish ::
  "runtime_capability \<Rightarrow> uuid \<Rightarrow> tool_result \<Rightarrow> runtime_db \<Rightarrow> (tool_result, runtime_db) tx" where
  "tool_finish cap invocation result db =
     (if 12 * 1024 < length (fst result) then Inl (rt_error ''tool_response_invalid'')
      else if \<not> list_ex (open_invocation (rk_run_id cap) invocation) (rt_invocations db)
      then Inl (rt_error ''tool_outcome_ambiguous'')
      else Inr (result, db\<lparr>rt_invocations :=
             update_where (open_invocation (rk_run_id cap) invocation)
               (\<lambda>r. r\<lparr>ti_state := Done (fst result) (snd result)\<rparr>) (rt_invocations db)\<rparr>))"

section \<open>\<open>retention.prune\<close>\<close>

definition day :: instant where
  "day = 24 * 60 * 60 * 1000000"

definition expired_stream :: "instant \<Rightarrow> stream_row \<Rightarrow> bool" where
  "expired_stream now r \<longleftrightarrow> ra_deadline r < now - day"

definition frame_of_stream :: "stream_row \<Rightarrow> accepted_row \<Rightarrow> bool" where
  "frame_of_stream r f \<longleftrightarrow> af_run f = ra_run r \<and> af_attempt f = ra_attempt r \<and> af_epoch f = ra_epoch r"

definition prune_runtime :: "instant \<Rightarrow> runtime_db \<Rightarrow> runtime_db" where
  "prune_runtime now db =
     db\<lparr>rt_frames := delete_where
          (\<lambda>f. list_ex (\<lambda>r. expired_stream now r \<and> frame_of_stream r f) (rt_streams db)) (rt_frames db),
        rt_streams := delete_where (expired_stream now) (rt_streams db),
        rt_outbox := prune_outbox (now - 31 * day) (rt_outbox db)\<rparr>"

end
