(* ===== verification/RuntimeStream.thy ===== *)
theory RuntimeStream
  imports RuntimeStore
begin

text \<open>
  The model and tool calls of a frame, the two gateways (\<open>model_gateway.py\<close>, \<open>tool_gateway.py\<close>)
  and the stream of an attempt (\<open>RuntimeService.connect\<close>), one frame at a time.
\<close>

section \<open>Model calls\<close>

record model_response =
  mr_content :: pystr
  mr_finish_reason :: pystr
  mr_usage :: pystr

definition model_gateway_error :: "pystr \<Rightarrow> exc" where
  "model_gateway_error message = Coded ''ModelGatewayError'' message"

text \<open>One attempt of \<open>ModelGateway.respond\<close>: a status that is an error, a failure of the request
  or of reading the answer (\<open>RequestError\<close>, \<open>TypeError\<close>, \<open>ValueError\<close>), or an answer with the
  output text, the finish reason and the usage. An empty output text is a \<open>ValueError\<close>. The usage is
  None when it is no object; its text is what the code measures.\<close>

datatype model_attempt =
    Http_status nat
  | Request_failed
  | Answered pystr pystr "pystr option"

text \<open>\<open>status_code not in {408, 429} and status_code < 500\<close>.\<close>

definition status_final :: "nat \<Rightarrow> bool" where
  "status_final code \<longleftrightarrow> code \<noteq> 408 \<and> code \<noteq> 429 \<and> code < 500"

definition answer_ok :: "pystr \<Rightarrow> pystr option \<Rightarrow> bool" where
  "answer_ok content usage \<longleftrightarrow> length content \<le> 12 * 1024
     \<and> (case usage of None \<Rightarrow> False | Some u \<Rightarrow> length u \<le> 2048)"

text \<open>The loop: \<open>n\<close> attempts are left, \<open>net i\<close> is the outcome of the i-th request. The number of
  requests made is part of the result.\<close>

fun respond_from :: "(nat \<Rightarrow> model_attempt) \<Rightarrow> nat \<Rightarrow> nat \<Rightarrow> (exc + model_response) \<times> nat" where
  "respond_from net i 0 = (Inl (model_gateway_error ''model gateway request failed''), i)"
| "respond_from net i (Suc n) =
     (case net i of
        Http_status code \<Rightarrow>
          if status_final code
          then (Inl (model_gateway_error ''model gateway request failed''), Suc i)
          else respond_from net (Suc i) n
      | Request_failed \<Rightarrow> respond_from net (Suc i) n
      | Answered content reason usage \<Rightarrow>
          if content = [] then respond_from net (Suc i) n
          else if answer_ok content usage
          then (Inr \<lparr>mr_content = content, mr_finish_reason = reason,
                     mr_usage = (case usage of None \<Rightarrow> [] | Some u \<Rightarrow> u)\<rparr>, Suc i)
          else (Inl (model_gateway_error ''model gateway response is invalid''), Suc i))"

definition max_model_attempts :: nat where
  "max_model_attempts = 3"

definition respond :: "(nat \<Rightarrow> model_attempt) \<Rightarrow> (exc + model_response) \<times> nat" where
  "respond net = respond_from net 0 max_model_attempts"

text \<open>\<open>_call_model\<close>: the gateway is absent or a function of the call.\<close>

definition call_model ::
  "(model_call \<Rightarrow> exc + model_response) option \<Rightarrow> runtime_capability \<Rightarrow> model_call
     \<Rightarrow> exc + model_response" where
  "call_model gateway cap c =
     (case gateway of
        None \<Rightarrow> Inl (rt_error ''model_gateway_unavailable'')
      | Some ask \<Rightarrow>
          if ml_model c \<notin> set (rk_models cap) then Inl (rt_error ''model_forbidden'')
          else if ml_request_id c = [] \<or> 128 < char_count (ml_request_id c) \<or> ml_prompt c = []
            \<or> 12 * 1024 < length (ml_prompt c)
            \<or> \<not> (1 \<le> ml_max_output_tokens c \<and> ml_max_output_tokens c \<le> 4096)
          then Inl (rt_error ''model_request_invalid'')
          else ask c)"

section \<open>Tool calls\<close>

definition tool_gateway_error :: "pystr \<Rightarrow> exc" where
  "tool_gateway_error code = Coded ''ToolGatewayError'' code"

text \<open>The two requests \<open>McpToolGateway.invoke\<close> sends: the exchange of the delegation grant and the
  call of the tool.\<close>

record exchange_request =
  xg_grant_id :: uuid
  xg_run_authorization :: pystr
  xg_key :: pystr
  xg_run_id :: uuid
  xg_attempt_id :: uuid
  xg_lease_epoch :: int
  xg_audience :: pystr
  xg_scopes :: "pystr list"

record mcp_request =
  mq_authorization :: pystr
  mq_run_authorization :: pystr
  mq_id :: uuid
  mq_name :: pystr
  mq_arguments :: pystr

definition exchange_of :: "runtime_capability \<Rightarrow> uuid \<Rightarrow> pystr \<Rightarrow> uuid \<Rightarrow> exchange_request" where
  "exchange_of cap grant tool invocation =
     \<lparr>xg_grant_id = grant, xg_run_authorization = ''Bearer '' @ rk_raw_token cap,
      xg_key = ''tool-token-'' @ uuid_str invocation, xg_run_id = rk_run_id cap,
      xg_attempt_id = rk_attempt_id cap, xg_lease_epoch = rk_lease_epoch cap,
      xg_audience = ''porfirium-mcp-gateway'', xg_scopes = [''tool:'' @ tool]\<rparr>"

definition mcp_call_of ::
  "runtime_capability \<Rightarrow> pystr \<Rightarrow> pystr \<Rightarrow> pystr \<Rightarrow> uuid \<Rightarrow> mcp_request" where
  "mcp_call_of cap access tool arguments invocation =
     \<lparr>mq_authorization = ''Bearer '' @ access,
      mq_run_authorization = ''Bearer '' @ rk_raw_token cap, mq_id = invocation, mq_name = tool,
      mq_arguments = arguments\<rparr>"

text \<open>The answer of the delegation service is Good with the access token when the status and the
  body are right. The answer of the tool server has the length of its body, its body (\<open>_mcp_payload\<close>
  applied: Missing when there is no payload object, Malformed when parsing raises) and, in the
  payload, the \<open>error\<close> and the \<open>result\<close> members.\<close>

record mcp_payload =
  my_error :: "pystr option"
  my_result :: "pystr option"

record mcp_response =
  ms_octets :: nat
  ms_payload :: "mcp_payload fld"

text \<open>None is a transport failure or an error status.\<close>

type_synonym tool_network =
  "(exchange_request \<Rightarrow> pystr fld) \<times> (mcp_request \<Rightarrow> mcp_response option)"

definition max_gateway_response_bytes :: nat where
  "max_gateway_response_bytes = 16 * 1024"

definition mcp_outcome :: "mcp_payload \<Rightarrow> exc + tool_result" where
  "mcp_outcome p =
     (case my_error p of
        Some e \<Rightarrow> Inr (e, True)
      | None \<Rightarrow>
          (case my_result p of
             None \<Rightarrow> Inl (tool_gateway_error ''tool_response_invalid'')
           | Some r \<Rightarrow> Inr (r, False)))"

definition mcp_invoke ::
  "tool_network \<Rightarrow> runtime_capability \<Rightarrow> uuid \<Rightarrow> tool_call \<Rightarrow> exc + tool_result" where
  "mcp_invoke net cap invocation c =
     (case (rk_delegation_grant_id cap, rk_release_id cap) of
        (Some grant, Some release) \<Rightarrow>
          (case fst net (exchange_of cap grant (tl_tool c) invocation) of
             Good access \<Rightarrow>
               if access = [] then Inl (tool_gateway_error ''tool_gateway_failed'')
               else
                 (case snd net (mcp_call_of cap access (tl_tool c) (tl_arguments c) invocation) of
                    None \<Rightarrow> Inl (tool_gateway_error ''tool_gateway_failed'')
                  | Some response \<Rightarrow>
                      if max_gateway_response_bytes < ms_octets response
                      then Inl (tool_gateway_error ''tool_response_invalid'')
                      else
                        (case ms_payload response of
                           Good p \<Rightarrow> mcp_outcome p
                         | Missing \<Rightarrow> Inl (tool_gateway_error ''tool_response_invalid'')
                         | Malformed \<Rightarrow> Inl (tool_gateway_error ''tool_gateway_failed'')))
           | _ \<Rightarrow> Inl (tool_gateway_error ''tool_gateway_failed''))
      | _ \<Rightarrow> Inl (tool_gateway_error ''tool_delegation_unavailable''))"

text \<open>\<open>_call_tool\<close>, when nothing else happens between its transactions (their interleavings are
  covered by the sequences of transactions of the next theory). The first transaction stays
  committed when the call fails later.\<close>

type_synonym tool_gateway = "runtime_capability \<Rightarrow> uuid \<Rightarrow> tool_call \<Rightarrow> exc + tool_result"

definition finish_call ::
  "runtime_capability \<Rightarrow> uuid \<Rightarrow> (exc + tool_result) \<Rightarrow> runtime_db
     \<Rightarrow> (exc + tool_result) \<times> runtime_db" where
  "finish_call cap invocation answer db =
     (case answer of
        Inl e \<Rightarrow> (Inl e, db)
      | Inr result \<Rightarrow>
          (case tool_finish cap invocation result db of
             Inl e \<Rightarrow> (Inl e, db)
           | Inr (r, db') \<Rightarrow> (Inr r, db')))"

definition call_tool ::
  "runtime_funs \<Rightarrow> tool_gateway option \<Rightarrow> runtime_capability \<Rightarrow> tool_call \<Rightarrow> runtime_db
     \<Rightarrow> (exc + tool_result) \<times> runtime_db" where
  "call_tool H gateway cap c db =
     (case tool_request H (gateway \<noteq> None) cap c of
        Inl e \<Rightarrow> (Inl e, db)
      | Inr (invocation, digest) \<Rightarrow>
          (case tool_begin cap invocation digest db of
             Inl e \<Rightarrow> (Inl e, db)
           | Inr (Some stored, db1) \<Rightarrow> (Inr stored, db1)
           | Inr (None, db1) \<Rightarrow>
               finish_call cap invocation ((the gateway) cap invocation c) db1))"

section \<open>\<open>connect\<close>\<close>

datatype platform_payload =
    P_error "pystr option"
  | P_hello_accepted nat int nat nat "run_input option" "uuid option"
  | P_acknowledgement nat "uuid option"
  | P_model_result pystr model_response
  | P_tool_result "uuid fld" pystr bool

text \<open>\<open>P_error None\<close> carries a text of the library.\<close>

record platform_frame =
  pf_run_id :: "uuid fld"
  pf_attempt_id :: "uuid fld"
  pf_lease_epoch :: nat
  pf_sequence :: nat
  pf_payload :: platform_payload

definition reply :: "frame_identity \<Rightarrow> platform_payload \<Rightarrow> platform_frame" where
  "reply fi p = \<lparr>pf_run_id = fi_run_id fi, pf_attempt_id = fi_attempt_id fi,
     pf_lease_epoch = fi_lease_epoch fi, pf_sequence = fi_sequence fi, pf_payload = p\<rparr>"

datatype stream_state = Awaiting_hello | Connected runtime_capability | Closed | Aborted exc

record runtime_gateways =
  gw_decode :: "pystr \<Rightarrow> exc + runtime_capability"
  gw_model :: "(model_call \<Rightarrow> exc + model_response) option"
  gw_tool :: "tool_gateway option"

text \<open>\<open>except (CapabilityError, KeyError, ValueError)\<close> and \<open>except (ModelGatewayError, ValueError)\<close>:
  the coded exceptions of the service are all of these classes.\<close>

fun caught_hello :: "exc \<Rightarrow> bool" where
  "caught_hello (Coded c m) = True"
| "caught_hello Value_error = True"
| "caught_hello Key_error = True"
| "caught_hello _ = False"

fun caught_frame :: "exc \<Rightarrow> bool" where
  "caught_frame (Coded c m) = True"
| "caught_frame Value_error = True"
| "caught_frame _ = False"

fun code_of :: "exc \<Rightarrow> pystr option" where
  "code_of (Coded c m) = Some m"
| "code_of _ = None"

text \<open>A step of the stream: the frames sent, the stream afterwards, the database.\<close>

type_synonym served = "platform_frame list \<times> stream_state \<times> runtime_db"

definition hello_accepted :: "runtime_capability \<Rightarrow> nat \<Rightarrow> platform_payload" where
  "hello_accepted cap resume =
     P_hello_accepted resume (rk_deadline cap) max_frame_bytes max_in_flight_frames
       (rk_run_input cap)
       (if rk_run_input cap = None then None else rk_starting_checkpoint_id cap)"

definition hello_rejected :: "frame_identity \<Rightarrow> exc \<Rightarrow> runtime_db \<Rightarrow> served" where
  "hello_rejected fi e db =
     (if caught_hello e then ([reply fi (P_error (Some ''capability_invalid''))], Closed, db)
      else ([], Aborted e, db))"

definition serve_hello ::
  "runtime_gateways \<Rightarrow> agent_frame \<Rightarrow> runtime_db \<Rightarrow> served" where
  "serve_hello G f db =
     (let fi = fr_identity f in
      case fr_payload f of
        F_hello token \<Rightarrow>
          (case gw_decode G token of
             Inl e \<Rightarrow> hello_rejected fi e db
           | Inr cap \<Rightarrow>
               (case validate_identity fi cap of
                  Inl e \<Rightarrow> hello_rejected fi e db
                | Inr _ \<Rightarrow>
                    (case activate cap db of
                       Inl e \<Rightarrow> hello_rejected fi e db
                     | Inr (resume, db') \<Rightarrow>
                         ([reply fi (hello_accepted cap resume)], Connected cap, db'))))
      | _ \<Rightarrow> ([reply fi (P_error (Some ''hello_required''))], Closed, db))"

text \<open>A frame that is refused: the stream ends on a lost lease and goes on otherwise; an exception
  of another class ends the call.\<close>

definition frame_rejected ::
  "frame_identity \<Rightarrow> runtime_capability \<Rightarrow> exc \<Rightarrow> runtime_db \<Rightarrow> served" where
  "frame_rejected fi cap e db =
     (if caught_frame e then
        ([reply fi (P_error (code_of e))],
         if code_of e = Some ''stale_epoch'' \<or> code_of e = Some ''identity_mismatch''
         then Closed else Connected cap, db)
      else ([], Aborted e, db))"

text \<open>The outcome of the call a frame asks for: nothing, a model result or a tool result.\<close>

datatype call_result = No_call | Model_answer pystr model_response | Tool_answer "uuid fld" tool_result

definition perform_call ::
  "runtime_funs \<Rightarrow> runtime_gateways \<Rightarrow> runtime_capability \<Rightarrow> payload \<Rightarrow> runtime_db
     \<Rightarrow> (exc + call_result) \<times> runtime_db" where
  "perform_call H G cap p db =
     (case p of
        F_model_call c \<Rightarrow>
          (case call_model (gw_model G) cap c of
             Inl e \<Rightarrow> (Inl e, db)
           | Inr r \<Rightarrow> (Inr (Model_answer (ml_request_id c) r), db))
      | F_tool_call c \<Rightarrow>
          (case call_tool H (gw_tool G) cap c db of
             (Inl e, db') \<Rightarrow> (Inl e, db')
           | (Inr r, db') \<Rightarrow> (Inr (Tool_answer (tl_invocation_id c) r), db'))
      | _ \<Rightarrow> (Inr No_call, db))"

text \<open>The replies to an accepted frame: the result of its call, then the acknowledgement, which a
  result that is no protobuf value suppresses.\<close>

fun replies ::
  "runtime_funs \<Rightarrow> frame_identity \<Rightarrow> uuid option \<Rightarrow> call_result \<Rightarrow> platform_frame list" where
  "replies H fi event No_call = [reply fi (P_acknowledgement (fi_sequence fi) event)]"
| "replies H fi event (Model_answer request r) =
     [reply fi (P_model_result request r), reply fi (P_acknowledgement (fi_sequence fi) event)]"
| "replies H fi event (Tool_answer invocation (result, is_error)) =
     (if hf_value_ok H result
      then [reply fi (P_tool_result invocation result is_error),
            reply fi (P_acknowledgement (fi_sequence fi) event)]
      else [reply fi (P_error (Some ''tool_response_invalid''))])"

definition serve_connected ::
  "runtime_funs \<Rightarrow> runtime_gateways \<Rightarrow> runtime_capability \<Rightarrow> agent_frame \<Rightarrow> runtime_env
     \<Rightarrow> runtime_db \<Rightarrow> served" where
  "serve_connected H G cap f x db =
     (let fi = fr_identity f in
      case validate_identity fi cap of
        Inl e \<Rightarrow> frame_rejected fi cap e db
      | Inr _ \<Rightarrow>
          if fi_sequence fi < 1 then frame_rejected fi cap (rt_error ''sequence_out_of_order'') db
          else
            (case perform_call H G cap (fr_payload f) db of
               (Inl e, db1) \<Rightarrow> frame_rejected fi cap e db1
             | (Inr result, db1) \<Rightarrow>
                 (case accept H cap f x db1 of
                    Inl e \<Rightarrow> frame_rejected fi cap e db1
                  | Inr (event, db2) \<Rightarrow>
                      (replies H fi event result, Connected cap, db2))))"

definition serve_frame ::
  "runtime_funs \<Rightarrow> runtime_gateways \<Rightarrow> agent_frame \<Rightarrow> runtime_env \<Rightarrow> stream_state \<Rightarrow> runtime_db
     \<Rightarrow> served" where
  "serve_frame H G f x st db =
     (case st of
        Closed \<Rightarrow> ([], st, db)
      | Aborted e \<Rightarrow> ([], st, db)
      | Awaiting_hello \<Rightarrow>
          if max_frame_bytes < fr_size f
          then ([reply (fr_identity f) (P_error (Some ''frame_too_large''))], st, db)
          else serve_hello G f db
      | Connected cap \<Rightarrow>
          if max_frame_bytes < fr_size f
          then ([reply (fr_identity f) (P_error (Some ''frame_too_large''))], st, db)
          else serve_connected H G cap f x db)"

text \<open>A whole stream.\<close>

fun serve_stream ::
  "runtime_funs \<Rightarrow> runtime_gateways \<Rightarrow> (agent_frame \<times> runtime_env) list \<Rightarrow> stream_state
     \<Rightarrow> runtime_db \<Rightarrow> served" where
  "serve_stream H G [] st db = ([], st, db)"
| "serve_stream H G ((f, x) # fs) st db =
     (let (out, st1, db1) = serve_frame H G f x st db;
          (rest, st2, db2) = serve_stream H G fs st1 db1
      in (out @ rest, st2, db2))"

end
