(* ===== verification/RuntimeSafety.thy ===== *)
theory RuntimeSafety
  imports RuntimeStream
begin

text \<open>
  The transactions of the Runtime API in any order, as several streams execute them: the outcomes
  of each, the invariant of the accepted frames, the fencing of superseded attempts and the
  accounting of tool calls. Every frame a stream serves is such a sequence of transactions.
\<close>

section \<open>Sequences of transactions\<close>

datatype runtime_op =
    Op_activate runtime_capability
  | Op_accept runtime_capability agent_frame runtime_env
  | Op_begin runtime_capability uuid pystr
  | Op_finish runtime_capability uuid tool_result
  | Op_prune instant

text \<open>A transaction that raises leaves the database as it was.\<close>

definition committed :: "('a, 's) tx \<Rightarrow> 's \<Rightarrow> 's" where
  "committed r s = (case r of Inl e \<Rightarrow> s | Inr (a, s') \<Rightarrow> s')"

lemma committed_simps [simp]: "committed (Inl e) s = s" "committed (Inr (a, t)) s = t"
  by (simp_all add: committed_def)

fun exec_op :: "runtime_funs \<Rightarrow> runtime_op \<Rightarrow> runtime_db \<Rightarrow> runtime_db" where
  "exec_op H (Op_activate cap) db = committed (activate cap db) db"
| "exec_op H (Op_accept cap f x) db = committed (accept H cap f x db) db"
| "exec_op H (Op_begin cap i d) db = committed (tool_begin cap i d db) db"
| "exec_op H (Op_finish cap i r) db = committed (tool_finish cap i r db) db"
| "exec_op H (Op_prune now) db = prune_runtime now db"

fun run_ops :: "runtime_funs \<Rightarrow> runtime_op list \<Rightarrow> runtime_db \<Rightarrow> runtime_db" where
  "run_ops H [] db = db"
| "run_ops H (p # ps) db = run_ops H ps (exec_op H p db)"

lemma run_ops_append: "run_ops H (ps @ qs) db = run_ops H qs (run_ops H ps db)"
  by (induction ps arbitrary: db) auto

fun op_capability :: "runtime_op \<Rightarrow> runtime_capability option" where
  "op_capability (Op_activate cap) = Some cap"
| "op_capability (Op_accept cap f x) = Some cap"
| "op_capability (Op_begin cap i d) = Some cap"
| "op_capability (Op_finish cap i r) = Some cap"
| "op_capability (Op_prune now) = None"

fun is_prune :: "runtime_op \<Rightarrow> bool" where
  "is_prune (Op_prune now) = True"
| "is_prune _ = False"

text \<open>A lease epoch of a run belongs to one attempt: \<open>holder\<close> is the assignment the Runner makes
  when it starts an attempt.\<close>

definition issued :: "(uuid \<Rightarrow> int \<Rightarrow> uuid) \<Rightarrow> runtime_op \<Rightarrow> bool" where
  "issued holder p \<longleftrightarrow>
     (case op_capability p of
        None \<Rightarrow> True
      | Some cap \<Rightarrow> rk_attempt_id cap = holder (rk_run_id cap) (rk_lease_epoch cap))"

section \<open>Outcomes\<close>

definition new_event ::
  "runtime_funs \<Rightarrow> runtime_capability \<Rightarrow> agent_frame \<Rightarrow> runtime_env \<Rightarrow> pystr \<Rightarrow> pystr \<Rightarrow> event_data
     \<Rightarrow> runtime_event outbox_row" where
  "new_event H cap f x subject kind data =
     outbox_entry (xr_event_id x) subject
       (event_envelope (hf_key_id H) cap (fr_identity f) kind (xr_event_id x) (xr_now x)
         (xr_event_bytes x) data) (xr_now x)"

lemma make_event_cases:
  assumes "make_event key_id cap f i now b = Inr (subject, event)"
  obtains kind data where "event_of (fr_payload f) = Some (subject, kind)"
    "frame_data cap (fr_payload f) = Inr data"
    "event = event_envelope key_id cap (fr_identity f) kind i now b data"
  using assms by (auto simp: make_event_def split: option.splits sum.splits)

lemma store_event_cases:
  assumes "store_event H cap f x db = Inr (event, db')"
  obtains (quiet) "event_of (fr_payload f) = None" "event = None" "db' = db"
  | (publish) subject kind data where "event_of (fr_payload f) = Some (subject, kind)"
      "frame_data cap (fr_payload f) = Inr data" "event = Some (xr_event_id x)"
      "\<not> has_row o_event_id (xr_event_id x) (rt_outbox db)"
      "db' = db\<lparr>rt_outbox := rt_outbox db @ [new_event H cap f x subject kind data]\<rparr>"
proof (cases "event_of (fr_payload f)")
  case None
  then show ?thesis using assms quiet by (simp add: store_event_def)
next
  case (Some e)
  then obtain subject event' where m:
    "make_event (hf_key_id H) cap f (xr_event_id x) (xr_now x) (xr_event_bytes x)
       = Inr (subject, event')"
    and r: "event = Some (xr_event_id x)" "\<not> has_row o_event_id (xr_event_id x) (rt_outbox db)"
    "db' = db\<lparr>rt_outbox := rt_outbox db
       @ [outbox_entry (xr_event_id x) subject event' (xr_now x)]\<rparr>"
    using assms by (auto simp: store_event_def split: if_splits sum.splits)
  from m show ?thesis
    by (rule make_event_cases) (rule publish, use r in \<open>simp_all add: new_event_def\<close>)
qed

definition bump_stream ::
  "runtime_capability \<Rightarrow> nat \<Rightarrow> pystr \<Rightarrow> instant \<Rightarrow> stream_row list \<Rightarrow> stream_row list" where
  "bump_stream cap n kind now t =
     update_where (\<lambda>r. ra_run r = rk_run_id cap)
       (\<lambda>r. r\<lparr>ra_last_sequence := n,
              ra_heartbeat := if kind = ''heartbeat'' then Some now else ra_heartbeat r\<rparr>) t"

text \<open>An accepted frame is a repetition, or new: next in sequence on the stream of its lease.\<close>

definition repeated ::
  "runtime_capability \<Rightarrow> agent_frame \<Rightarrow> uuid option \<Rightarrow> runtime_db \<Rightarrow> bool" where
  "repeated cap f event db \<longleftrightarrow>
     (\<exists>old. find_frame cap (fi_key (fr_identity f)) (rt_frames db) = Some old
        \<and> af_sequence old = fi_sequence (fr_identity f) \<and> event = af_event old)"

definition next_on_stream :: "runtime_capability \<Rightarrow> agent_frame \<Rightarrow> runtime_db \<Rightarrow> bool" where
  "next_on_stream cap f db \<longleftrightarrow>
     (\<exists>row. row_by ra_run (rk_run_id cap) (rt_streams db) = Some row
        \<and> ra_epoch row = rk_lease_epoch cap
        \<and> fi_sequence (fr_identity f) = ra_last_sequence row + 1)
     \<and> find_frame cap (fi_key (fr_identity f)) (rt_frames db) = None
     \<and> \<not> sequence_taken cap (fi_sequence (fr_identity f)) (rt_frames db)"

definition appended ::
  "runtime_funs \<Rightarrow> runtime_capability \<Rightarrow> agent_frame \<Rightarrow> runtime_env \<Rightarrow> pystr \<Rightarrow> uuid option
     \<Rightarrow> runtime_event outbox_row list \<Rightarrow> runtime_db \<Rightarrow> runtime_db" where
  "appended H cap f x kind event rows db =
     db\<lparr>rt_frames := rt_frames db @ [accepted_frame cap (fr_identity f) kind event],
        rt_streams := bump_stream cap (fi_sequence (fr_identity f)) kind (xr_now x) (rt_streams db),
        rt_outbox := rt_outbox db @ rows\<rparr>"

text \<open>The rows the event adds: none for a frame without event.\<close>

definition event_rows ::
  "runtime_funs \<Rightarrow> runtime_capability \<Rightarrow> agent_frame \<Rightarrow> runtime_env \<Rightarrow> uuid option
     \<Rightarrow> runtime_event outbox_row list \<Rightarrow> runtime_db \<Rightarrow> bool" where
  "event_rows H cap f x event rows db \<longleftrightarrow>
     (event_of (fr_payload f) = None \<and> event = None \<and> rows = [])
     \<or> (event = Some (xr_event_id x) \<and> \<not> has_row o_event_id (xr_event_id x) (rt_outbox db)
        \<and> (\<exists>subject kind data. event_of (fr_payload f) = Some (subject, kind)
             \<and> frame_data cap (fr_payload f) = Inr data
             \<and> rows = [new_event H cap f x subject kind data]))"

lemma accept_new_cases:
  assumes "accept_new H cap f kind x db = Inr (event, db')"
  obtains rows where "event_rows H cap f x event rows db"
    "db' = appended H cap f x kind event rows db"
    "\<not> sequence_taken cap (fi_sequence (fr_identity f)) (rt_frames db)"
proof -
  obtain ev db1 where s: "store_event H cap f x db = Inr (ev, db1)"
    and t: "store_frame H cap f kind ev (xr_now x) db1 = Inr (event, db')"
    using assms by (auto simp: accept_new_def split: option.splits sum.splits)
  have e: "event = ev" "\<not> sequence_taken cap (fi_sequence (fr_identity f)) (rt_frames db1)"
    "db' = appended H cap f x kind ev [] db1"
    using t by (auto simp: store_frame_def appended_def bump_stream_def Let_def split: if_splits)
  from s show ?thesis
  proof (cases rule: store_event_cases)
    case quiet
    then show ?thesis using e that [of "[]"] by (simp add: event_rows_def)
  next
    case (publish subject kind' data)
    then show ?thesis using e that [of "[new_event H cap f x subject kind' data]"]
      by (simp add: event_rows_def appended_def)
  qed
qed

lemma accept_cases:
  assumes "accept H cap f x db = Inr (event, db')"
  obtains (again) "repeated cap f event db" "db' = db"
  | (fresh) kind rows where "kind_of (fr_payload f) = Some kind" "next_on_stream cap f db"
      "event_rows H cap f x event rows db" "db' = appended H cap f x kind event rows db"
proof -
  obtain kind where k: "kind_of (fr_payload f) = Some kind"
    using assms by (auto simp: accept_def split: option.splits)
  obtain row where r: "row_by ra_run (rk_run_id cap) (rt_streams db) = Some row"
    "ra_epoch row = rk_lease_epoch cap"
    using assms by (auto simp: accept_def split: option.splits if_splits)
  show ?thesis
  proof (cases "find_frame cap (fi_key (fr_identity f)) (rt_frames db)")
    case None
    then have n: "fi_sequence (fr_identity f) = ra_last_sequence row + 1"
      "accept_new H cap f kind x db = Inr (event, db')"
      using assms k r by (auto simp: accept_def split: if_splits)
    show ?thesis
      using n(2) by (rule accept_new_cases)
        (rule fresh, use k r n(1) None in \<open>auto simp: next_on_stream_def\<close>)
  next
    case (Some old)
    then have "af_sequence old = fi_sequence (fr_identity f)" "event = af_event old" "db' = db"
      using assms k r by (auto simp: accept_def split: if_splits)
    then show ?thesis using Some by (intro again) (simp_all add: repeated_def)
  qed
qed

lemma activate_cases:
  assumes "activate cap db = Inr (n, db')"
  obtains (first) "row_by ra_run (rk_run_id cap) (rt_streams db) = None" "0 < rk_lease_epoch cap"
      "n = 0" "db' = db\<lparr>rt_streams := rt_streams db @ [fresh_stream cap]\<rparr>"
  | (takeover) row where "row_by ra_run (rk_run_id cap) (rt_streams db) = Some row"
      "ra_epoch row < rk_lease_epoch cap" "n = 0"
      "db' = db\<lparr>rt_streams := update_where (\<lambda>r. ra_run r = rk_run_id cap)
         (\<lambda>r. (fresh_stream cap)\<lparr>ra_heartbeat := ra_heartbeat r\<rparr>) (rt_streams db)\<rparr>"
  | (resume) row where "row_by ra_run (rk_run_id cap) (rt_streams db) = Some row"
      "ra_epoch row = rk_lease_epoch cap" "ra_attempt row = rk_attempt_id cap"
      "n = ra_last_sequence row" "db' = db"
  using assms by (auto simp: activate_def split: option.splits if_splits)

lemma tool_begin_cases:
  assumes "tool_begin cap i d db = Inr (r, db')"
  obtains (stored) result is_error where "r = Some (result, is_error)" "db' = db"
  | (started) row where "r = None" "ti_run row = rk_run_id cap" "ti_invocation row = i"
      "row_by (\<lambda>r. (ti_run r, ti_invocation r)) (rk_run_id cap, i) (rt_invocations db) = None"
      "db' = db\<lparr>rt_invocations := rt_invocations db @ [row]\<rparr>"
proof (cases "row_by (\<lambda>r. (ti_run r, ti_invocation r)) (rk_run_id cap, i) (rt_invocations db)")
  case None
  let ?row = "\<lparr>ti_run = rk_run_id cap, ti_invocation = i, ti_attempt = rk_attempt_id cap,
    ti_epoch = rk_lease_epoch cap, ti_request_sha256 = d, ti_state = Executing\<rparr>"
  have "r = None" "db' = db\<lparr>rt_invocations := rt_invocations db @ [?row]\<rparr>"
    using assms None by (auto simp: tool_begin_def split: if_splits)
  then show ?thesis using None started [of ?row] by simp
next
  case (Some old)
  then show ?thesis using assms stored
    by (auto simp: tool_begin_def split: if_splits invocation_state.splits)
qed

lemma tool_finish_cases:
  assumes "tool_finish cap i r db = Inr (r', db')"
  obtains "r' = r" "list_ex (open_invocation (rk_run_id cap) i) (rt_invocations db)"
    "db' = db\<lparr>rt_invocations := update_where (open_invocation (rk_run_id cap) i)
       (\<lambda>q. q\<lparr>ti_state := Done (fst r) (snd r)\<rparr>) (rt_invocations db)\<rparr>"
  using assms by (auto simp: tool_finish_def split: if_splits)

section \<open>The invariant\<close>

definition attempt_frames :: "uuid \<Rightarrow> uuid \<Rightarrow> int \<Rightarrow> runtime_db \<Rightarrow> accepted_row list" where
  "attempt_frames run attempt epoch db =
     filter (\<lambda>f. af_run f = run \<and> af_attempt f = attempt \<and> af_epoch f = epoch) (rt_frames db)"

definition frame_ident :: "accepted_row \<Rightarrow> uuid \<times> uuid \<times> int \<times> pystr" where
  "frame_ident f = (af_run f, af_attempt f, af_epoch f, af_key f)"

definition event_kinds :: "pystr list" where
  "event_kinds = [''message_started'', ''message_delta'', ''message_completed'',
     ''message_interrupted'', ''input_request_proposed'', ''suspension_committed'',
     ''result_proposed'']"

definition stream_ok :: "(uuid \<Rightarrow> int \<Rightarrow> uuid) \<Rightarrow> runtime_db \<Rightarrow> stream_row \<Rightarrow> bool" where
  "stream_ok holder db r \<longleftrightarrow> ra_attempt r = holder (ra_run r) (ra_epoch r) \<and> 0 < ra_epoch r
     \<and> ra_last_sequence r
       \<le> length (attempt_frames (ra_run r) (holder (ra_run r) (ra_epoch r)) (ra_epoch r) db)"

definition frames_numbered :: "runtime_db \<Rightarrow> bool" where
  "frames_numbered db \<longleftrightarrow>
     (\<forall>run attempt epoch. gap_free (map af_sequence (attempt_frames run attempt epoch db)))"

definition runtime_inv :: "(uuid \<Rightarrow> int \<Rightarrow> uuid) \<Rightarrow> runtime_db \<Rightarrow> bool" where
  "runtime_inv holder db \<longleftrightarrow> distinct (map ra_run (rt_streams db))
     \<and> list_all (stream_ok holder db) (rt_streams db) \<and> frames_numbered db
     \<and> distinct (map frame_ident (rt_frames db)) \<and> distinct (map o_event_id (rt_outbox db))
     \<and> list_all (\<lambda>f. (af_event f \<noteq> None) = (af_kind f \<in> set event_kinds)) (rt_frames db)"

lemma runtime_inv_empty: "runtime_inv holder empty_runtime_db"
  by (simp add: runtime_inv_def empty_runtime_db_def frames_numbered_def attempt_frames_def)

lemma event_of_kind:
  assumes "kind_of p = Some kind"
  shows "event_of p \<noteq> None \<longleftrightarrow> kind \<in> set event_kinds"
  using assms by (cases p) (auto simp: event_kinds_def)

lemma find_frame_None:
  "find_frame cap key t = None \<longleftrightarrow>
     (rk_run_id cap, rk_attempt_id cap, rk_lease_epoch cap, key) \<notin> set (map frame_ident t)"
  by (auto simp: find_frame_def find_None_iff frame_key_def frame_ident_def image_iff)

lemma attempt_frames_append:
  "attempt_frames run attempt epoch (db\<lparr>rt_frames := rt_frames db @ [f]\<rparr>) =
     attempt_frames run attempt epoch db
     @ (if af_run f = run \<and> af_attempt f = attempt \<and> af_epoch f = epoch then [f] else [])"
  by (simp add: attempt_frames_def)

lemma attempt_frames_cong:
  "rt_frames db' = rt_frames db \<Longrightarrow>
   attempt_frames run attempt epoch db' = attempt_frames run attempt epoch db"
  by (simp add: attempt_frames_def)

lemma sequence_taken_iff:
  "sequence_taken cap n (rt_frames db) \<longleftrightarrow>
     n \<in> set (map af_sequence
       (attempt_frames (rk_run_id cap) (rk_attempt_id cap) (rk_lease_epoch cap) db))"
  by (auto simp: sequence_taken_def attempt_frames_def list_ex_iff)

subsection \<open>A new frame\<close>

lemma appended_simps [simp]:
  "rt_streams (appended H cap f x kind event rows db) =
     bump_stream cap (fi_sequence (fr_identity f)) kind (xr_now x) (rt_streams db)"
  "rt_frames (appended H cap f x kind event rows db) =
     rt_frames db @ [accepted_frame cap (fr_identity f) kind event]"
  "rt_outbox (appended H cap f x kind event rows db) = rt_outbox db @ rows"
  "rt_invocations (appended H cap f x kind event rows db) = rt_invocations db"
  by (simp_all add: appended_def)

lemma attempt_frames_appended:
  "attempt_frames run attempt epoch (appended H cap f x kind event rows db) =
     attempt_frames run attempt epoch db
     @ (if rk_run_id cap = run \<and> rk_attempt_id cap = attempt \<and> rk_lease_epoch cap = epoch
        then [accepted_frame cap (fr_identity f) kind event] else [])"
  by (simp add: attempt_frames_def accepted_frame_def)

text \<open>The sequence of a new frame is the next number of its attempt.\<close>

lemma next_sequence:
  assumes i: "runtime_inv holder db" and n: "next_on_stream cap f db"
    and h: "rk_attempt_id cap = holder (rk_run_id cap) (rk_lease_epoch cap)"
  shows "fi_sequence (fr_identity f) = Suc (length
    (attempt_frames (rk_run_id cap) (rk_attempt_id cap) (rk_lease_epoch cap) db))"
proof -
  let ?fs = "attempt_frames (rk_run_id cap) (rk_attempt_id cap) (rk_lease_epoch cap) db"
  obtain row where r: "row \<in> set (rt_streams db)" "ra_run row = rk_run_id cap"
    "ra_epoch row = rk_lease_epoch cap" "fi_sequence (fr_identity f) = ra_last_sequence row + 1"
    using n by (auto simp: next_on_stream_def dest: row_by_SomeD)
  then have "stream_ok holder db row" using i by (auto simp: runtime_inv_def list_all_iff)
  then have le: "ra_last_sequence row \<le> length ?fs" using r h by (simp add: stream_ok_def)
  have "gap_free (map af_sequence ?fs)" using i by (simp add: runtime_inv_def frames_numbered_def)
  then have "set (map af_sequence ?fs) = {1..length ?fs}"
    using gap_free_set [of "map af_sequence ?fs"] by simp
  moreover have "fi_sequence (fr_identity f) \<notin> set (map af_sequence ?fs)"
    using n by (simp add: next_on_stream_def sequence_taken_iff)
  ultimately show ?thesis using le r(4) by simp
qed

lemma appended_numbered:
  assumes "runtime_inv holder db" and "next_on_stream cap f db"
    and "rk_attempt_id cap = holder (rk_run_id cap) (rk_lease_epoch cap)"
  shows "frames_numbered (appended H cap f x kind event rows db)"
  using next_sequence [OF assms] assms(1) gap_free_snoc
  by (fastforce simp: frames_numbered_def attempt_frames_appended accepted_frame_def runtime_inv_def)

lemma appended_streams:
  assumes i: "runtime_inv holder db" and n: "next_on_stream cap f db"
    and h: "rk_attempt_id cap = holder (rk_run_id cap) (rk_lease_epoch cap)"
  shows "list_all (stream_ok holder (appended H cap f x kind event rows db))
    (bump_stream cap (fi_sequence (fr_identity f)) kind now (rt_streams db))"
  unfolding list_all_iff
proof
  fix r assume "r \<in> set (bump_stream cap (fi_sequence (fr_identity f)) kind now (rt_streams db))"
  then obtain q where q: "q \<in> set (rt_streams db)"
    "r = (if ra_run q = rk_run_id cap then q\<lparr>ra_last_sequence := fi_sequence (fr_identity f),
       ra_heartbeat := if kind = ''heartbeat'' then Some now else ra_heartbeat q\<rparr> else q)"
    by (auto simp: bump_stream_def in_update_where)
  have ok: "stream_ok holder db q" using i q(1) by (auto simp: runtime_inv_def list_all_iff)
  show "stream_ok holder (appended H cap f x kind event rows db) r"
  proof (cases "ra_run q = rk_run_id cap")
    case True
    obtain row where row: "row_by ra_run (rk_run_id cap) (rt_streams db) = Some row"
      "ra_epoch row = rk_lease_epoch cap" using n by (auto simp: next_on_stream_def)
    have "row_by ra_run (ra_run q) (rt_streams db) = Some q"
      using i q(1) by (intro row_by_unique) (auto simp: runtime_inv_def)
    then have "q = row" using row True by simp
    then show ?thesis
      using ok q(2) True row h next_sequence [OF i n h]
      by (simp add: stream_ok_def attempt_frames_appended)
  next
    case False
    then show ?thesis using ok q(2) by (simp add: stream_ok_def attempt_frames_appended)
  qed
qed

lemma event_rows_ids:
  assumes "event_rows H cap f x event rows db"
  shows "map o_event_id rows = (case event of None \<Rightarrow> [] | Some e \<Rightarrow> [e])"
    and "event \<noteq> None \<longleftrightarrow> event_of (fr_payload f) \<noteq> None"
    and "distinct (map o_event_id (rt_outbox db)) \<Longrightarrow>
      distinct (map o_event_id (rt_outbox db @ rows))"
  using assms by (auto simp: event_rows_def new_event_def has_row_iff image_iff)

lemma appended_inv:
  assumes i: "runtime_inv holder db" and k: "kind_of (fr_payload f) = Some kind"
    and n: "next_on_stream cap f db" and e: "event_rows H cap f x event rows db"
    and h: "rk_attempt_id cap = holder (rk_run_id cap) (rk_lease_epoch cap)"
  shows "runtime_inv holder (appended H cap f x kind event rows db)"
  unfolding runtime_inv_def
proof (intro conjI)
  show "distinct (map ra_run (rt_streams (appended H cap f x kind event rows db)))"
    using i by (simp add: runtime_inv_def bump_stream_def map_key_update_where)
  show "list_all (stream_ok holder (appended H cap f x kind event rows db))
    (rt_streams (appended H cap f x kind event rows db))"
    using appended_streams [OF i n h] by simp
  show "frames_numbered (appended H cap f x kind event rows db)"
    by (rule appended_numbered [OF i n h])
  have "(rk_run_id cap, rk_attempt_id cap, rk_lease_epoch cap, fi_key (fr_identity f))
      \<notin> set (map frame_ident (rt_frames db))"
    using n by (simp add: next_on_stream_def find_frame_None)
  then show "distinct (map frame_ident (rt_frames (appended H cap f x kind event rows db)))"
    using i by (simp add: runtime_inv_def accepted_frame_def frame_ident_def)
  show "distinct (map o_event_id (rt_outbox (appended H cap f x kind event rows db)))"
    using i event_rows_ids(3) [OF e] by (simp add: runtime_inv_def)
  show "list_all (\<lambda>g. (af_event g \<noteq> None) = (af_kind g \<in> set event_kinds))
    (rt_frames (appended H cap f x kind event rows db))"
    using i event_of_kind [OF k] event_rows_ids(2) [OF e]
    by (simp add: runtime_inv_def accepted_frame_def)
qed

subsection \<open>The other transactions\<close>

lemma fresh_stream_simps [simp]:
  "ra_run (fresh_stream cap) = rk_run_id cap" "ra_attempt (fresh_stream cap) = rk_attempt_id cap"
  "ra_epoch (fresh_stream cap) = rk_lease_epoch cap" "ra_last_sequence (fresh_stream cap) = 0"
  by (simp_all add: fresh_stream_def)

lemma stream_ok_cong:
  "rt_frames db' = rt_frames db \<Longrightarrow> stream_ok holder db' r = stream_ok holder db r"
  by (simp add: stream_ok_def attempt_frames_def)

text \<open>A transaction that changes only the stream table keeps the invariant when its rows do.\<close>

lemma inv_streams:
  assumes "runtime_inv holder db" and "distinct (map ra_run t)" and "list_all (stream_ok holder db) t"
  shows "runtime_inv holder (db\<lparr>rt_streams := t\<rparr>)"
proof -
  have "list_all (stream_ok holder (db\<lparr>rt_streams := t\<rparr>)) t"
    using assms(3) by (simp add: list_all_iff stream_ok_cong [of "db\<lparr>rt_streams := t\<rparr>" db])
  then show ?thesis using assms(1,2)
    by (simp add: runtime_inv_def frames_numbered_def attempt_frames_def)
qed

lemma inv_invocations:
  "runtime_inv holder db \<Longrightarrow> runtime_inv holder (db\<lparr>rt_invocations := t\<rparr>)"
  by (simp add: runtime_inv_def frames_numbered_def attempt_frames_def list_all_iff stream_ok_def)

lemma activate_inv:
  assumes i: "runtime_inv holder db" and a: "activate cap db = Inr (n, db')"
    and h: "rk_attempt_id cap = holder (rk_run_id cap) (rk_lease_epoch cap)"
  shows "runtime_inv holder db'"
  using a
proof (cases rule: activate_cases)
  case first
  then have "rk_run_id cap \<notin> ra_run ` set (rt_streams db)" by (simp add: row_by_None_iff)
  then have "runtime_inv holder (db\<lparr>rt_streams := rt_streams db @ [fresh_stream cap]\<rparr>)"
    using first(2) i h
    by (intro inv_streams) (simp_all add: runtime_inv_def stream_ok_def)
  then show ?thesis by (simp add: first(4))
next
  case (takeover row)
  have "0 < ra_epoch row"
    using takeover(1) i by (auto simp: runtime_inv_def list_all_iff stream_ok_def dest: row_by_SomeD)
  then have p: "0 < rk_lease_epoch cap" using takeover(2) by simp
  show ?thesis unfolding takeover(4)
  proof (rule inv_streams [OF i])
    show "distinct (map ra_run (update_where (\<lambda>r. ra_run r = rk_run_id cap)
        (\<lambda>r. (fresh_stream cap)\<lparr>ra_heartbeat := ra_heartbeat r\<rparr>) (rt_streams db)))"
      using i by (subst map_key_update_where) (auto simp: runtime_inv_def)
    show "list_all (stream_ok holder db) (update_where (\<lambda>r. ra_run r = rk_run_id cap)
        (\<lambda>r. (fresh_stream cap)\<lparr>ra_heartbeat := ra_heartbeat r\<rparr>) (rt_streams db))"
      using i p h by (auto simp: runtime_inv_def list_all_iff in_update_where stream_ok_def)
  qed
qed (use i in simp)

text \<open>Retention removes the frames of an expired stream altogether.\<close>

lemma attempt_frames_prune:
  "attempt_frames run attempt epoch (prune_runtime now db) =
     (if list_ex (\<lambda>r. expired_stream now r \<and> ra_run r = run \<and> ra_attempt r = attempt
                \<and> ra_epoch r = epoch) (rt_streams db)
      then [] else attempt_frames run attempt epoch db)"
  by (auto simp: attempt_frames_def prune_runtime_def delete_where_def frame_of_stream_def
      list_ex_iff filter_empty_conv intro!: filter_cong)

lemma distinct_map_filter_keep: "distinct (map f t) \<Longrightarrow> distinct (map f (delete_where P t))"
  by (simp add: delete_where_def distinct_map_filter)

lemma prune_runtime_inv:
  assumes i: "runtime_inv holder db"
  shows "runtime_inv holder (prune_runtime now db)"
proof -
  have s: "stream_ok holder (prune_runtime now db) r"
    if r: "r \<in> set (rt_streams db)" "\<not> expired_stream now r" for r
  proof -
    have "q = r" if "q \<in> set (rt_streams db)" "ra_run q = ra_run r" for q
      using i r(1) that by (auto simp: runtime_inv_def distinct_map dest: inj_onD)
    then show ?thesis using r i
      by (auto simp: stream_ok_def attempt_frames_prune list_ex_iff runtime_inv_def list_all_iff)
  qed
  have n: "frames_numbered (prune_runtime now db)"
    using i by (simp add: frames_numbered_def attempt_frames_prune runtime_inv_def)
  show ?thesis
    unfolding runtime_inv_def
  proof (intro conjI)
    show "list_all (stream_ok holder (prune_runtime now db)) (rt_streams (prune_runtime now db))"
      using s by (auto simp: list_all_iff prune_runtime_def)
  qed (use i n in \<open>auto simp: runtime_inv_def prune_runtime_def prune_outbox_def list_all_iff
      intro!: distinct_map_filter_keep\<close>)
qed

lemma accept_inv:
  assumes i: "runtime_inv holder db" and a: "accept H cap f x db = Inr (event, db')"
    and h: "rk_attempt_id cap = holder (rk_run_id cap) (rk_lease_epoch cap)"
  shows "runtime_inv holder db'"
  using a by (cases rule: accept_cases) (use i h in \<open>auto intro: appended_inv\<close>)

lemma exec_op_inv:
  assumes i: "runtime_inv holder db" and h: "issued holder p"
  shows "runtime_inv holder (exec_op H p db)"
proof (cases p)
  case (Op_activate cap)
  then show ?thesis using i h activate_inv [OF i]
    by (cases "activate cap db") (auto simp: issued_def)
next
  case (Op_accept cap f x)
  then show ?thesis using i h accept_inv [OF i]
    by (cases "accept H cap f x db") (auto simp: issued_def)
next
  case (Op_begin cap j d)
  show ?thesis
  proof (cases "tool_begin cap j d db")
    case (Inr b)
    obtain r db' where b: "b = (r, db')" by (cases b)
    show ?thesis using Inr [unfolded b] Op_begin i
      by (cases rule: tool_begin_cases) (auto simp: b Inr intro: inv_invocations)
  qed (use Op_begin i in simp)
next
  case (Op_finish cap j r)
  show ?thesis
  proof (cases "tool_finish cap j r db")
    case (Inr b)
    obtain r' db' where b: "b = (r', db')" by (cases b)
    show ?thesis using Inr [unfolded b] Op_finish i
      by (cases rule: tool_finish_cases) (auto simp: b Inr intro: inv_invocations)
  qed (use Op_finish i in simp)
qed (use i prune_runtime_inv in simp)

lemma run_ops_inv:
  "runtime_inv holder db \<Longrightarrow> list_all (issued holder) ps \<Longrightarrow> runtime_inv holder (run_ops H ps db)"
  by (induction ps arbitrary: db) (auto intro: exec_op_inv)

end
