(* ===== verification/RuntimeProtocol.thy ===== *)
theory RuntimeProtocol
  imports RuntimeSafety
begin

text \<open>
  What the transactions of the Runtime API keep over time: the events match the accepted frames,
  lease epochs do not go down, a tool invocation stays recorded. The stream handler is shown to be
  a sequence of transactions under its own capability, and the acceptance of frames is an instance
  of \<open>idempotent_service\<close>.
\<close>

section \<open>Events and frames\<close>

type_synonym frame_mark = "uuid \<times> uuid fld \<times> uuid fld \<times> int fld \<times> nat"

definition frame_mark :: "accepted_row \<Rightarrow> frame_mark list" where
  "frame_mark f = (case af_event f of None \<Rightarrow> []
     | Some e \<Rightarrow> [(e, Good (af_run f), Good (af_attempt f), Good (af_epoch f), af_sequence f)])"

definition event_mark :: "runtime_event outbox_row \<Rightarrow> frame_mark" where
  "event_mark r = (o_event_id r, ev_run_id (o_payload r), ev_attempt_id (o_payload r),
     ev_lease_epoch (o_payload r), ev_aggregate_sequence (o_payload r))"

definition events_match :: "runtime_db \<Rightarrow> bool" where
  "events_match db \<longleftrightarrow> map event_mark (rt_outbox db) = concat (map frame_mark (rt_frames db))"

lemma event_rows_marks:
  assumes "event_rows H cap f x event rows db"
  shows "map event_mark rows = frame_mark (accepted_frame cap (fr_identity f) kind event)"
  using assms
  by (auto simp: event_rows_def event_mark_def frame_mark_def new_event_def accepted_frame_def
      event_envelope_def)

lemma exec_op_events:
  assumes "events_match db" and "\<not> is_prune p"
  shows "events_match (exec_op H p db)"
proof (cases p)
  case (Op_activate cap)
  show ?thesis
  proof (cases "activate cap db")
    case (Inr b)
    obtain n db' where b: "b = (n, db')" by (cases b)
    show ?thesis using Inr [unfolded b] Op_activate assms(1)
      by (cases rule: activate_cases) (simp_all add: b Inr events_match_def)
  qed (use Op_activate assms in simp)
next
  case (Op_accept cap f x)
  show ?thesis
  proof (cases "accept H cap f x db")
    case (Inr b)
    obtain ev db' where b: "b = (ev, db')" by (cases b)
    show ?thesis using Inr [unfolded b] Op_accept assms(1)
      by (cases rule: accept_cases) (simp_all add: b Inr events_match_def event_rows_marks)
  qed (use Op_accept assms in simp)
next
  case (Op_begin cap j d)
  show ?thesis
  proof (cases "tool_begin cap j d db")
    case (Inr b)
    obtain r db' where b: "b = (r, db')" by (cases b)
    show ?thesis using Inr [unfolded b] Op_begin assms(1)
      by (cases rule: tool_begin_cases) (simp_all add: b Inr events_match_def)
  qed (use Op_begin assms in simp)
next
  case (Op_finish cap j r)
  show ?thesis
  proof (cases "tool_finish cap j r db")
    case (Inr b)
    obtain r' db' where b: "b = (r', db')" by (cases b)
    show ?thesis using Inr [unfolded b] Op_finish assms(1)
      by (cases rule: tool_finish_cases) (simp_all add: b Inr events_match_def)
  qed (use Op_finish assms in simp)
qed (use assms in simp)

lemma run_ops_events:
  "events_match db \<Longrightarrow> list_all (\<lambda>p. \<not> is_prune p) ps \<Longrightarrow> events_match (run_ops H ps db)"
  by (induction ps arbitrary: db) (auto intro: exec_op_events)

lemma tool_tx_frames:
  "tool_begin cap i d db = Inr (r, db') \<Longrightarrow> rt_streams db' = rt_streams db \<and> rt_frames db' = rt_frames db"
  "tool_finish cap i t db = Inr (t', db') \<Longrightarrow> rt_streams db' = rt_streams db \<and> rt_frames db' = rt_frames db"
  by (erule tool_begin_cases, simp_all) (erule tool_finish_cases, simp)

section \<open>Where a stream resumes\<close>

text \<open>Until retention runs, the counter of a stream is the number of frames accepted under its lease,
  and no frame carries a later epoch than the stream of its run.\<close>

definition counts_exact :: "(uuid \<Rightarrow> int \<Rightarrow> uuid) \<Rightarrow> runtime_db \<Rightarrow> bool" where
  "counts_exact holder db \<longleftrightarrow>
     list_all (\<lambda>r. ra_last_sequence r
       = length (attempt_frames (ra_run r) (holder (ra_run r) (ra_epoch r)) (ra_epoch r) db))
       (rt_streams db)
     \<and> list_all (\<lambda>f. list_ex (\<lambda>r. ra_run r = af_run f \<and> af_epoch f \<le> ra_epoch r) (rt_streams db))
       (rt_frames db)"

lemma counts_exact_empty: "counts_exact holder empty_runtime_db"
  by (simp add: counts_exact_def empty_runtime_db_def)

lemma no_later_frames:
  assumes "counts_exact holder db" and "distinct (map ra_run (rt_streams db))"
    and "\<And>r. r \<in> set (rt_streams db) \<Longrightarrow> ra_run r = run \<Longrightarrow> ra_epoch r < epoch"
  shows "attempt_frames run attempt epoch db = []"
  using assms(1,3) by (fastforce simp: counts_exact_def attempt_frames_def filter_empty_conv
      list_all_iff list_ex_iff)

lemma counts_exact_same:
  assumes "counts_exact holder db" and "rt_streams db' = rt_streams db" and "rt_frames db' = rt_frames db"
  shows "counts_exact holder db'"
  using assms by (simp add: counts_exact_def attempt_frames_def)

lemma activate_exact:
  assumes i: "runtime_inv holder db" and c: "counts_exact holder db"
    and a: "activate cap db = Inr (n, db')"
    and h: "rk_attempt_id cap = holder (rk_run_id cap) (rk_lease_epoch cap)"
  shows "counts_exact holder db'
    \<and> n = length (attempt_frames (rk_run_id cap) (rk_attempt_id cap) (rk_lease_epoch cap) db')"
  using a
proof (cases rule: activate_cases)
  case first
  then have "rk_run_id cap \<notin> ra_run ` set (rt_streams db)" by (simp add: row_by_None_iff)
  then have e: "attempt_frames (rk_run_id cap) (rk_attempt_id cap) (rk_lease_epoch cap) db = []"
    using i by (intro no_later_frames [OF c]) (auto simp: runtime_inv_def image_iff)
  then show ?thesis using first c h by (simp add: counts_exact_def attempt_frames_def list_all_iff)
next
  case (takeover row)
  have u: "r = row" if "r \<in> set (rt_streams db)" "ra_run r = rk_run_id cap" for r
    using row_by_unique [of ra_run "rt_streams db" r] that takeover(1) i by (simp add: runtime_inv_def)
  have e: "attempt_frames (rk_run_id cap) (rk_attempt_id cap) (rk_lease_epoch cap) db = []"
    using i takeover(2) u by (intro no_later_frames [OF c]) (auto simp: runtime_inv_def)
  have "row \<in> set (rt_streams db)" "ra_run row = rk_run_id cap"
    using takeover(1) by (auto dest: row_by_SomeD)
  note m = this
  let ?t = "update_where (\<lambda>r. ra_run r = rk_run_id cap)
    (\<lambda>r. (fresh_stream cap)\<lparr>ra_heartbeat := ra_heartbeat r\<rparr>) (rt_streams db)"
  have streams: "ra_last_sequence r
      = length (attempt_frames (ra_run r) (holder (ra_run r) (ra_epoch r)) (ra_epoch r) db)"
    if "r \<in> set ?t" for r
    using that c e h by (auto simp: counts_exact_def in_update_where list_all_iff)
  have frames: "\<exists>r \<in> set ?t. ra_run r = run \<and> epoch \<le> ra_epoch r"
    if "\<exists>r \<in> set (rt_streams db). ra_run r = run \<and> epoch \<le> ra_epoch r" for run epoch
  proof -
    from that obtain r where r: "r \<in> set (rt_streams db)" "ra_run r = run" "epoch \<le> ra_epoch r" by blast
    have "ra_run r = rk_run_id cap \<Longrightarrow> epoch \<le> rk_lease_epoch cap"
      using u [OF r(1)] r(3) takeover(2) by simp
    then show ?thesis using r
      by (intro bexI [of _ "if ra_run r = rk_run_id cap
          then (fresh_stream cap)\<lparr>ra_heartbeat := ra_heartbeat r\<rparr> else r"])
        (auto simp: update_where_def)
  qed
  have "counts_exact holder (db\<lparr>rt_streams := ?t\<rparr>)"
    using streams frames c
    by (simp add: counts_exact_def list_all_iff list_ex_iff attempt_frames_def)
  then show ?thesis using takeover(3,4) e by (simp add: attempt_frames_def)
next
  case (resume row)
  then show ?thesis using c h by (auto simp: counts_exact_def list_all_iff dest: row_by_SomeD)
qed

lemma accept_exact:
  assumes i: "runtime_inv holder db" and c: "counts_exact holder db"
    and a: "accept H cap f x db = Inr (event, db')"
    and h: "rk_attempt_id cap = holder (rk_run_id cap) (rk_lease_epoch cap)"
  shows "counts_exact holder db'"
  using a
proof (cases rule: accept_cases)
  case (fresh kind rows)
  obtain row where row: "row_by ra_run (rk_run_id cap) (rt_streams db) = Some row"
    "ra_epoch row = rk_lease_epoch cap" using fresh(2) by (auto simp: next_on_stream_def)
  have u: "r = row" if "r \<in> set (rt_streams db)" "ra_run r = rk_run_id cap" for r
    using row_by_unique [of ra_run "rt_streams db" r] that row i by (simp add: runtime_inv_def)
  have m: "row \<in> set (rt_streams db)" "ra_run row = rk_run_id cap" using row by (auto dest: row_by_SomeD)
  have s: "fi_sequence (fr_identity f) = Suc (length
      (attempt_frames (rk_run_id cap) (rk_attempt_id cap) (rk_lease_epoch cap) db))"
    by (rule next_sequence [OF i fresh(2) h])
  have streams: "ra_last_sequence r = length (attempt_frames (ra_run r)
      (holder (ra_run r) (ra_epoch r)) (ra_epoch r) (appended H cap f x kind event rows db))"
    if r: "r \<in> set (bump_stream cap (fi_sequence (fr_identity f)) kind (xr_now x) (rt_streams db))" for r
  proof -
    obtain q where q: "q \<in> set (rt_streams db)"
      "r = (if ra_run q = rk_run_id cap then q\<lparr>ra_last_sequence := fi_sequence (fr_identity f),
         ra_heartbeat := if kind = ''heartbeat'' then Some (xr_now x) else ra_heartbeat q\<rparr> else q)"
      using r by (auto simp: bump_stream_def in_update_where)
    show ?thesis
    proof (cases "ra_run q = rk_run_id cap")
      case True
      then have "q = row" using u q(1) by simp
      then show ?thesis using q(2) True row h s by (simp add: attempt_frames_appended)
    next
      case False
      then show ?thesis using q c by (simp add: attempt_frames_appended counts_exact_def list_all_iff)
    qed
  qed
  have frames: "\<exists>r \<in> set (bump_stream cap n kind now (rt_streams db)).
      ra_run r = run \<and> epoch \<le> ra_epoch r"
    if "\<exists>r \<in> set (rt_streams db). ra_run r = run \<and> epoch \<le> ra_epoch r" for run epoch n now
  proof -
    from that obtain r where r: "r \<in> set (rt_streams db)" "ra_run r = run" "epoch \<le> ra_epoch r" by blast
    then show ?thesis
      by (intro bexI [of _ "if ra_run r = rk_run_id cap then r\<lparr>ra_last_sequence := n,
          ra_heartbeat := if kind = ''heartbeat'' then Some now else ra_heartbeat r\<rparr> else r"])
        (auto simp: bump_stream_def update_where_def)
  qed
  have mine: "\<exists>r \<in> set (rt_streams db). ra_run r = rk_run_id cap \<and> rk_lease_epoch cap \<le> ra_epoch r"
    using m row(2) by auto
  show ?thesis
    unfolding counts_exact_def fresh(4) appended_simps
  proof (intro conjI)
    show "list_all (\<lambda>g. list_ex (\<lambda>r. ra_run r = af_run g \<and> af_epoch g \<le> ra_epoch r)
        (bump_stream cap (fi_sequence (fr_identity f)) kind (xr_now x) (rt_streams db)))
      (rt_frames db @ [accepted_frame cap (fr_identity f) kind event])"
      using c frames frames [OF mine]
      by (auto simp: counts_exact_def list_all_iff list_ex_iff accepted_frame_def)
  qed (use streams in \<open>simp add: list_all_iff\<close>)
qed (use c in simp)

lemma exec_op_exact:
  assumes "runtime_inv holder db" and "counts_exact holder db" and "issued holder p" and "\<not> is_prune p"
  shows "counts_exact holder (exec_op H p db)"
proof (cases p)
  case (Op_activate cap)
  then show ?thesis using assms activate_exact [OF assms(1,2)]
    by (cases "activate cap db") (auto simp: issued_def)
next
  case (Op_accept cap f x)
  then show ?thesis using assms accept_exact [OF assms(1,2)]
    by (cases "accept H cap f x db") (auto simp: issued_def)
next
  case (Op_begin cap i d)
  then show ?thesis using tool_tx_frames(1) [of cap i d db] assms(2)
    by (cases "tool_begin cap i d db") (auto intro: counts_exact_same)
next
  case (Op_finish cap i t)
  then show ?thesis using tool_tx_frames(2) [of cap i t db] assms(2)
    by (cases "tool_finish cap i t db") (auto intro: counts_exact_same)
qed (use assms in simp)

lemma run_ops_exact:
  assumes "runtime_inv holder db" and "counts_exact holder db"
    and "list_all (issued holder) ps" and "list_all (\<lambda>p. \<not> is_prune p) ps"
  shows "counts_exact holder (run_ops H ps db)"
  using assms
proof (induction ps arbitrary: db)
  case (Cons p ps)
  then show ?case using exec_op_inv [of holder db p H] exec_op_exact [of holder db p H] by simp
qed simp

section \<open>Lease epochs\<close>

definition stream_epoch :: "uuid \<Rightarrow> runtime_db \<Rightarrow> int" where
  "stream_epoch run db = (case row_by ra_run run (rt_streams db) of None \<Rightarrow> 0 | Some r \<Rightarrow> ra_epoch r)"

lemma row_by_bump:
  "row_by ra_run run (bump_stream cap n kind now t) = map_option
     (\<lambda>r. if ra_run r = rk_run_id cap then r\<lparr>ra_last_sequence := n,
        ra_heartbeat := if kind = ''heartbeat'' then Some now else ra_heartbeat r\<rparr> else r)
     (row_by ra_run run t)"
  unfolding bump_stream_def by (rule row_by_update_where) simp

lemma row_by_takeover:
  "row_by ra_run run (update_where (\<lambda>r. ra_run r = rk_run_id cap)
       (\<lambda>r. (fresh_stream cap)\<lparr>ra_heartbeat := ra_heartbeat r\<rparr>) t) = map_option
     (\<lambda>r. if ra_run r = rk_run_id cap then (fresh_stream cap)\<lparr>ra_heartbeat := ra_heartbeat r\<rparr> else r)
     (row_by ra_run run t)"
  by (rule row_by_update_where) simp

lemma activate_epoch:
  assumes "activate cap db = Inr (n, db')"
  shows "stream_epoch run db \<le> stream_epoch run db'"
    and "stream_epoch (rk_run_id cap) db' = rk_lease_epoch cap"
    and "has_row ra_run (rk_run_id cap) (rt_streams db')"
proof -
  have 1: "stream_epoch run db \<le> stream_epoch run db'"
    using assms
  proof (cases rule: activate_cases)
    case first
    then show ?thesis
      by (cases "run = rk_run_id cap") (auto simp: stream_epoch_def row_by_snoc split: option.split)
  next
    case (takeover row)
    then show ?thesis
      by (cases "run = rk_run_id cap")
        (auto simp: stream_epoch_def row_by_takeover dest: row_by_SomeD split: option.split)
  qed simp
  have 2: "stream_epoch (rk_run_id cap) db' = rk_lease_epoch cap
      \<and> has_row ra_run (rk_run_id cap) (rt_streams db')"
    using assms
  proof (cases rule: activate_cases)
    case first
    then show ?thesis by (simp add: stream_epoch_def row_by_snoc has_row_def)
  next
    case (takeover row)
    then show ?thesis
      by (auto simp: stream_epoch_def row_by_takeover has_row_def dest: row_by_SomeD)
  next
    case (resume row)
    then show ?thesis by (simp add: stream_epoch_def has_row_def)
  qed
  show "stream_epoch run db \<le> stream_epoch run db'" by (rule 1)
  show "stream_epoch (rk_run_id cap) db' = rk_lease_epoch cap"
    "has_row ra_run (rk_run_id cap) (rt_streams db')" using 2 by simp_all
qed

lemma accept_epoch:
  assumes "accept H cap f x db = Inr (event, db')"
  shows "stream_epoch run db' = stream_epoch run db"
    and "has_row ra_run run (rt_streams db') = has_row ra_run run (rt_streams db)"
  using assms
  by (cases rule: accept_cases;
      auto simp: stream_epoch_def row_by_bump has_row_def split: option.split)+

lemma exec_op_epoch:
  assumes "\<not> is_prune p"
  shows "stream_epoch run db \<le> stream_epoch run (exec_op H p db)
    \<and> (has_row ra_run run (rt_streams db) \<longrightarrow> has_row ra_run run (rt_streams (exec_op H p db)))"
proof (cases p)
  case (Op_activate cap)
  show ?thesis
  proof (cases "activate cap db")
    case (Inr b)
    obtain n db' where b: "b = (n, db')" by (cases b)
    have "has_row ra_run run (rt_streams db) \<longrightarrow> has_row ra_run run (rt_streams db')"
      using Inr [unfolded b]
      by (cases rule: activate_cases) (auto simp: has_row_def row_by_takeover row_by_append)
    then show ?thesis using Op_activate Inr b activate_epoch(1) [of cap db n db' run] by simp
  qed (use Op_activate in simp)
next
  case (Op_accept cap f x)
  then show ?thesis using accept_epoch [of H cap f x db]
    by (cases "accept H cap f x db") (auto simp: committed_def)
next
  case (Op_begin cap i d)
  then show ?thesis using tool_tx_frames(1) [of cap i d db]
    by (cases "tool_begin cap i d db") (auto simp: stream_epoch_def)
next
  case (Op_finish cap i t)
  then show ?thesis using tool_tx_frames(2) [of cap i t db]
    by (cases "tool_finish cap i t db") (auto simp: stream_epoch_def)
qed (use assms in simp)

lemma run_ops_epoch:
  assumes "list_all (\<lambda>p. \<not> is_prune p) ps"
  shows "stream_epoch run db \<le> stream_epoch run (run_ops H ps db)
    \<and> (has_row ra_run run (rt_streams db) \<longrightarrow> has_row ra_run run (rt_streams (run_ops H ps db)))"
  using assms
proof (induction ps arbitrary: db)
  case (Cons p ps)
  have "stream_epoch run db \<le> stream_epoch run (exec_op H p db)"
    using exec_op_epoch [of p run db H] Cons.prems by simp
  also have "\<dots> \<le> stream_epoch run (run_ops H ps (exec_op H p db))"
    using Cons.IH [of "exec_op H p db"] Cons.prems by simp
  finally show ?case
    using exec_op_epoch [of p run db H] Cons.IH [of "exec_op H p db"] Cons.prems by simp
qed simp

text \<open>A lower epoch is refused.\<close>

lemma accept_stale:
  assumes "stream_epoch (rk_run_id cap) db \<noteq> rk_lease_epoch cap"
    and "has_row ra_run (rk_run_id cap) (rt_streams db)"
    and "kind_of (fr_payload f) \<notin> {None, Some ''hello''}"
  shows "accept H cap f x db = Inl (rt_error ''stale_epoch'')"
  using assms by (auto simp: accept_def stream_epoch_def has_row_def split: option.split)

lemma activate_stale:
  assumes "rk_lease_epoch cap < stream_epoch (rk_run_id cap) db"
    and "has_row ra_run (rk_run_id cap) (rt_streams db)"
  shows "activate cap db = Inl (rt_error ''stale_epoch'')"
  using assms by (auto simp: activate_def stream_epoch_def has_row_def split: option.split)

section \<open>Retransmission\<close>

definition with_key :: "pystr \<Rightarrow> agent_frame \<Rightarrow> agent_frame" where
  "with_key key f = f\<lparr>fr_identity := (fr_identity f)\<lparr>fi_key := key\<rparr>\<rparr>"

lemma with_key_simps [simp]:
  "fi_key (fr_identity (with_key key f)) = key" "fr_payload (with_key key f) = fr_payload f"
  "fi_sequence (fr_identity (with_key key f)) = fi_sequence (fr_identity f)"
  by (simp_all add: with_key_def)

lemma with_key_same: "with_key (fi_key (fr_identity f)) f = f"
  by (simp add: with_key_def)

definition frame_stored ::
  "runtime_db \<Rightarrow> runtime_capability \<times> pystr \<Rightarrow> (nat \<times> uuid option) option" where
  "frame_stored db k =
     map_option (\<lambda>r. (af_sequence r, af_event r)) (find_frame (fst k) (snd k) (rt_frames db))"

text \<open>The guards before the lookup: the kind of the frame and the lease.\<close>

definition frame_admitted ::
  "runtime_db \<Rightarrow> runtime_capability \<times> pystr \<Rightarrow> agent_frame \<Rightarrow> bool" where
  "frame_admitted db k f \<longleftrightarrow> kind_of (fr_payload f) \<notin> {None, Some ''hello''}
     \<and> has_row ra_run (rk_run_id (fst k)) (rt_streams db)
     \<and> stream_epoch (rk_run_id (fst k)) db = rk_lease_epoch (fst k)"

definition frame_sequence :: "agent_frame \<Rightarrow> nat" where
  "frame_sequence f = fi_sequence (fr_identity f)"

lemma accept_known:
  assumes "frame_admitted db (cap, key) f"
    and "find_frame cap key (rt_frames db) = Some old"
  shows "accept H cap (with_key key f) x db =
    (if af_sequence old \<noteq> frame_sequence f then Inl (rt_error ''idempotency_conflict'')
     else Inr (af_event old, db))"
  using assms
  by (auto simp: frame_admitted_def accept_def stream_epoch_def has_row_def frame_sequence_def
      split: option.split)

lemma find_frame_snoc:
  "find_frame cap key (t @ [r]) =
     (case find_frame cap key t of None \<Rightarrow> if frame_key cap key r then Some r else None
      | Some q \<Rightarrow> Some q)"
  by (induction t) (auto simp: find_frame_def)

lemma exec_op_frames:
  assumes "\<not> is_prune p" and "frame_stored db k = Some v"
  shows "frame_stored (exec_op H p db) k = Some v"
proof (cases p)
  case (Op_activate cap)
  show ?thesis
  proof (cases "activate cap db")
    case (Inr b)
    obtain n db' where b: "b = (n, db')" by (cases b)
    show ?thesis using Inr [unfolded b] Op_activate assms(2)
      by (cases rule: activate_cases) (simp_all add: b Inr frame_stored_def)
  qed (use Op_activate assms in simp)
next
  case (Op_accept cap f x)
  show ?thesis
  proof (cases "accept H cap f x db")
    case (Inr b)
    obtain ev db' where b: "b = (ev, db')" by (cases b)
    show ?thesis using Inr [unfolded b] Op_accept assms(2)
      by (cases rule: accept_cases) (auto simp: b Inr frame_stored_def find_frame_snoc)
  qed (use Op_accept assms in simp)
next
  case (Op_begin cap i d)
  then show ?thesis using tool_tx_frames(1) [of cap i d db] assms
    by (cases "tool_begin cap i d db") (auto simp: frame_stored_def)
next
  case (Op_finish cap i t)
  then show ?thesis using tool_tx_frames(2) [of cap i t db] assms
    by (cases "tool_finish cap i t db") (auto simp: frame_stored_def)
qed (use assms in simp)

definition quiet_step :: "runtime_funs \<Rightarrow> runtime_db \<Rightarrow> runtime_db \<Rightarrow> bool" where
  "quiet_step H db db' \<longleftrightarrow> (\<exists>p. \<not> is_prune p \<and> db' = exec_op H p db)"

lemma accept_exec: "accept H cap f x db = Inr (ev, db') \<Longrightarrow> exec_op H (Op_accept cap f x) db = db'"
  by simp

lemma run_ops_steps:
  "list_all (\<lambda>p. \<not> is_prune p) ps \<Longrightarrow> (quiet_step H)\<^sup>*\<^sup>* db (run_ops H ps db)"
proof (induction ps arbitrary: db)
  case (Cons p ps)
  have "quiet_step H db (exec_op H p db)" using Cons.prems by (auto simp: quiet_step_def)
  then show ?case using Cons by (auto intro: converse_rtranclp_into_rtranclp)
qed simp

interpretation framing: idempotent_service
  "\<lambda>k f x db. accept H (fst k) (with_key (snd k) f) x db" frame_stored frame_sequence
  "\<lambda>r. r" frame_admitted "rt_error ''idempotency_conflict''" "\<lambda>_. True" "quiet_step H"
proof unfold_locales
  fix db k f i x
  assume "frame_admitted db k f" and s: "frame_stored db k = Some (frame_sequence f, i)"
  then show "\<exists>r. accept H (fst k) (with_key (snd k) f) x db = Inr (r, db) \<and> r = i"
    using accept_known [of db "fst k" "snd k" f] by (auto simp: frame_stored_def)
next
  fix db k f d i x
  assume "frame_admitted db k f" "frame_stored db k = Some (d, i)" "d \<noteq> frame_sequence f"
  then show "accept H (fst k) (with_key (snd k) f) x db = Inl (rt_error ''idempotency_conflict'')"
    using accept_known [of db "fst k" "snd k" f] by (auto simp: frame_stored_def)
next
  fix k f x db r db'
  assume "accept H (fst k) (with_key (snd k) f) x db = Inr (r, db')"
  then show "frame_stored db' k = Some (frame_sequence f, r)"
  proof (cases rule: accept_cases)
    case again
    then show ?thesis by (auto simp: repeated_def frame_stored_def frame_sequence_def)
  next
    case (fresh kind rows)
    then show ?thesis
      by (simp add: next_on_stream_def frame_stored_def find_frame_snoc frame_key_def
          accepted_frame_def frame_sequence_def)
  qed
next
  fix k f x db r db' k0 v
  assume a: "accept H (fst k) (with_key (snd k) f) x db = Inr (r, db')"
    and "frame_stored db k0 = Some v"
  then show "frame_stored db' k0 = Some v"
    using exec_op_frames [of "Op_accept (fst k) (with_key (snd k) f) x" db k0 v H] by simp
next
  fix db db' k0 v
  assume "quiet_step H db db'" "frame_stored db k0 = Some v"
  then show "frame_stored db' k0 = Some v" by (auto simp: quiet_step_def exec_op_frames)
qed simp_all

section \<open>Tool invocations\<close>

definition invocation_key :: "invocation_row \<Rightarrow> uuid \<times> uuid" where
  "invocation_key r = (ti_run r, ti_invocation r)"

lemma invocation_key_eta: "(\<lambda>r. (ti_run r, ti_invocation r)) = invocation_key"
  by (simp add: fun_eq_iff invocation_key_def)

text \<open>A transaction after which the gateway is called for invocation \<open>k\<close>, and the number of such
  transactions in a sequence.\<close>

fun starts_call :: "uuid \<times> uuid \<Rightarrow> runtime_op \<Rightarrow> runtime_db \<Rightarrow> bool" where
  "starts_call k (Op_begin cap i d) db \<longleftrightarrow> (rk_run_id cap, i) = k
     \<and> (case tool_begin cap i d db of Inr (None, db') \<Rightarrow> True | _ \<Rightarrow> False)"
| "starts_call k _ db \<longleftrightarrow> False"

fun tool_calls :: "runtime_funs \<Rightarrow> uuid \<times> uuid \<Rightarrow> runtime_op list \<Rightarrow> runtime_db \<Rightarrow> nat" where
  "tool_calls H k [] db = 0"
| "tool_calls H k (p # ps) db =
     (if starts_call k p db then 1 else 0) + tool_calls H k ps (exec_op H p db)"

lemma starts_call_fresh:
  assumes "starts_call k p db"
  shows "row_by invocation_key k (rt_invocations db) = None"
    and "row_by invocation_key k (rt_invocations (exec_op H p db)) \<noteq> None"
proof -
  obtain cap i d db' where p: "p = Op_begin cap i d" "k = (rk_run_id cap, i)"
    "tool_begin cap i d db = Inr (None, db')"
    using assms by (cases p) (auto split: sum.splits prod.splits option.splits)
  have e: "exec_op H p db = db'" by (simp add: p)
  have "row_by invocation_key k (rt_invocations db) = None
    \<and> row_by invocation_key k (rt_invocations db') \<noteq> None"
    using p(3) by (cases rule: tool_begin_cases)
      (auto simp: p(2) invocation_key_eta row_by_snoc, simp add: invocation_key_def)
  then show "row_by invocation_key k (rt_invocations db) = None"
    "row_by invocation_key k (rt_invocations (exec_op H p db)) \<noteq> None" using e by simp_all
qed

text \<open>An invocation stays recorded, a finished one as it is.\<close>

lemma row_by_finish_call:
  "row_by invocation_key k (update_where (open_invocation run i)
       (\<lambda>q. q\<lparr>ti_state := Done a b\<rparr>) t) = map_option
     (\<lambda>q. if open_invocation run i q then q\<lparr>ti_state := Done a b\<rparr> else q)
     (row_by invocation_key k t)"
  by (rule row_by_update_where) (simp add: invocation_key_def)

lemma accept_invocations:
  assumes "accept H cap f x db = Inr (event, db')"
  shows "rt_invocations db' = rt_invocations db"
  using assms by (cases rule: accept_cases) simp_all

lemma activate_invocations:
  assumes "activate cap db = Inr (n, db')"
  shows "rt_invocations db' = rt_invocations db"
  using assms by (cases rule: activate_cases) simp_all

lemma exec_op_invocation:
  assumes "row_by invocation_key k (rt_invocations db) = Some row"
  shows "\<exists>row'. row_by invocation_key k (rt_invocations (exec_op H p db)) = Some row'
    \<and> (ti_state row \<noteq> Executing \<longrightarrow> row' = row)"
proof (cases p)
  case (Op_activate cap)
  then show ?thesis using assms activate_invocations [of cap db]
    by (cases "activate cap db") auto
next
  case (Op_accept cap f x)
  then show ?thesis using assms accept_invocations [of H cap f x db]
    by (cases "accept H cap f x db") auto
next
  case (Op_begin cap i d)
  show ?thesis
  proof (cases "tool_begin cap i d db")
    case (Inr b)
    obtain r db' where b: "b = (r, db')" by (cases b)
    show ?thesis using Inr [unfolded b] Op_begin assms
      by (cases rule: tool_begin_cases) (auto simp: b Inr row_by_snoc)
  qed (use Op_begin assms in simp)
next
  case (Op_finish cap i r)
  show ?thesis
  proof (cases "tool_finish cap i r db")
    case (Inr b)
    obtain r' db' where b: "b = (r', db')" by (cases b)
    show ?thesis using Inr [unfolded b] Op_finish assms
      by (cases rule: tool_finish_cases) (auto simp: b Inr row_by_finish_call open_invocation_def)
  qed (use Op_finish assms in simp)
next
  case (Op_prune now)
  then show ?thesis using assms by (simp add: prune_runtime_def)
qed

lemma recorded_not_called:
  assumes "row_by invocation_key k (rt_invocations db) = Some row"
  shows "tool_calls H k ps db = 0 \<and> (\<exists>row'. row_by invocation_key k (rt_invocations (run_ops H ps db))
    = Some row' \<and> (ti_state row \<noteq> Executing \<longrightarrow> row' = row))"
  using assms
proof (induction ps arbitrary: db row)
  case (Cons p ps)
  obtain row1 where r: "row_by invocation_key k (rt_invocations (exec_op H p db)) = Some row1"
    "ti_state row \<noteq> Executing \<longrightarrow> row1 = row"
    using exec_op_invocation [OF Cons.prems] by blast
  have "\<not> starts_call k p db" using starts_call_fresh(1) [of k p db] Cons.prems by auto
  then show ?case using Cons.IH [OF r(1)] r(2) by auto
qed simp

lemma called_once: "tool_calls H k ps db \<le> 1"
proof (induction ps arbitrary: db)
  case (Cons p ps)
  show ?case
  proof (cases "starts_call k p db")
    case True
    then obtain row where "row_by invocation_key k (rt_invocations (exec_op H p db)) = Some row"
      using starts_call_fresh(2) by blast
    then show ?thesis using recorded_not_called True by simp
  qed (use Cons in simp)
qed simp

lemma tool_begin_recorded:
  assumes "row_by invocation_key (rk_run_id cap, i) (rt_invocations db) = Some row"
  shows "tool_begin cap i d db =
    (if ti_request_sha256 row \<noteq> d then Inl (rt_error ''tool_idempotency_conflict'')
     else case ti_state row of Executing \<Rightarrow> Inl (rt_error ''tool_outcome_ambiguous'')
       | Done r e \<Rightarrow> Inr (Some (r, e), db))"
  using assms by (simp add: tool_begin_def invocation_key_eta)

section \<open>Streams as sequences of transactions\<close>

text \<open>The transactions a stream executes carry its capability.\<close>

definition ops_of :: "runtime_capability \<Rightarrow> runtime_op list \<Rightarrow> bool" where
  "ops_of cap ps \<longleftrightarrow> list_all (\<lambda>p. op_capability p = Some cap) ps"

lemma call_tool_ops:
  "\<exists>ps. snd (call_tool H gw cap c db) = run_ops H ps db \<and> ops_of cap ps"
proof (cases "tool_request H (gw \<noteq> None) cap c")
  case (Inl e)
  then have "snd (call_tool H gw cap c db) = run_ops H [] db" by (simp add: call_tool_def)
  then show ?thesis by (intro exI [of _ "[]"]) (simp add: ops_of_def)
next
  case (Inr r)
  obtain i d where r: "r = (i, d)" by (cases r)
  show ?thesis
  proof (cases "tool_begin cap i d db")
    case (Inl e)
    then have "snd (call_tool H gw cap c db) = run_ops H [] db"
      using Inr r by (simp add: call_tool_def)
    then show ?thesis by (intro exI [of _ "[]"]) (simp add: ops_of_def)
  next
    case i: (Inr b)
    obtain out db1 where b: "b = (out, db1)" by (cases b)
    have one: "run_ops H [Op_begin cap i d] db = db1"
      if "tool_begin cap i d db = Inr (out, db1)" for i using that by simp
    show ?thesis
    proof (cases out)
      case (Some stored)
      then have "snd (call_tool H gw cap c db) = db1" using Inr r i b by (simp add: call_tool_def)
      then show ?thesis using one i b
        by (intro exI [of _ "[Op_begin cap (fst r) d]"]) (simp add: ops_of_def r)
    next
      case None
      let ?answer = "(the gw) cap (fst r) c"
      have f: "snd (call_tool H gw cap c db) = snd (finish_call cap (fst r) ?answer db1)"
        using Inr r i b None by (simp add: call_tool_def)
      show ?thesis
      proof (cases ?answer)
        case (Inl e)
        then show ?thesis using f one i b
          by (intro exI [of _ "[Op_begin cap (fst r) d]"]) (simp add: ops_of_def r finish_call_def)
      next
        case a: (Inr t)
        have "snd (finish_call cap (fst r) ?answer db1) = exec_op H (Op_finish cap (fst r) t) db1"
          unfolding a by (cases "tool_finish cap (fst r) t db1") (auto simp: finish_call_def)
        then show ?thesis using f i b
          by (intro exI [of _ "[Op_begin cap (fst r) d, Op_finish cap (fst r) t]"])
            (simp add: ops_of_def r)
      qed
    qed
  qed
qed

lemma perform_call_ops:
  "\<exists>ps. snd (perform_call H G cap p db) = run_ops H ps db \<and> ops_of cap ps"
proof -
  have none: "\<exists>ps. db = run_ops H ps db \<and> ops_of cap ps"
    by (intro exI [of _ "[]"]) (simp add: ops_of_def)
  show ?thesis
  proof (cases p)
    case (F_model_call c)
    then show ?thesis using none
      by (cases "call_model (gw_model G) cap c") (simp_all add: perform_call_def)
  next
    case (F_tool_call c)
    then have "snd (perform_call H G cap p db) = snd (call_tool H (gw_tool G) cap c db)"
      by (auto simp: perform_call_def split: prod.split sum.split)
    then show ?thesis using call_tool_ops by simp
  qed (use none in \<open>simp_all add: perform_call_def\<close>)
qed

lemma serve_connected_ops:
  assumes "serve_connected H G cap f x db = (out, st', db')"
  shows "\<exists>ps. db' = run_ops H ps db \<and> ops_of cap ps"
proof -
  have none: "\<exists>ps. db = run_ops H ps db \<and> ops_of cap ps"
    by (intro exI [of _ "[]"]) (simp add: ops_of_def)
  obtain r db1 where c: "perform_call H G cap (fr_payload f) db = (r, db1)" by fastforce
  obtain ps where ps: "db1 = run_ops H ps db" "ops_of cap ps"
    using perform_call_ops [of H G cap "fr_payload f" db] c by auto
  have rej: "d = db'" if "frame_rejected fi cap e d = (out, st', db')" for fi e d
    using that by (auto simp: frame_rejected_def split: if_splits)
  consider "db' = db" | "db' = db1" | ev where "accept H cap f x db1 = Inr (ev, db')"
    using assms c by (auto simp: serve_connected_def Let_def dest!: rej split: sum.splits if_splits)
  then show ?thesis
  proof cases
    case 3
    then have "db' = run_ops H (ps @ [Op_accept cap f x]) db" by (simp add: run_ops_append ps(1) [symmetric])
    then show ?thesis using ps(2) by (intro exI [of _ "ps @ [Op_accept cap f x]"]) (simp add: ops_of_def)
  qed (use none ps in blast)+
qed

text \<open>The stream's capability: the one it is connected with before or after the frame.\<close>

lemma serve_hello_ops:
  assumes "serve_hello G f db = (out, st', db')"
  shows "db' = db \<or> (\<exists>cap. st' = Connected cap \<and> db' = exec_op H (Op_activate cap) db)"
proof -
  have rej: "d = db'" if "hello_rejected fi e d = (out, st', db')" for fi e d
    using that by (auto simp: hello_rejected_def split: if_splits)
  show ?thesis
    using assms
    by (auto simp: serve_hello_def Let_def dest!: rej split: payload.splits sum.splits)
qed

lemma serve_frame_ops:
  assumes "serve_frame H G f x st db = (out, st', db')"
  shows "db' = db \<or> (\<exists>cap ps. (st = Connected cap \<or> st = Awaiting_hello \<and> st' = Connected cap)
    \<and> db' = run_ops H ps db \<and> ops_of cap ps)"
proof (cases st)
  case Awaiting_hello
  then consider "db' = db" | "serve_hello G f db = (out, st', db')"
    using assms by (auto simp: serve_frame_def split: if_splits)
  then show ?thesis
  proof cases
    case 2
    then show ?thesis
    proof (rule serve_hello_ops [THEN disjE])
      assume "\<exists>cap. st' = Connected cap \<and> db' = exec_op H (Op_activate cap) db"
      then obtain cap where "st' = Connected cap" "db' = run_ops H [Op_activate cap] db" by auto
      then show ?thesis using Awaiting_hello
        by (intro disjI2 exI [of _ cap] exI [of _ "[Op_activate cap]"]) (simp add: ops_of_def)
    qed simp
  qed simp
next
  case (Connected cap)
  then consider "db' = db" | "serve_connected H G cap f x db = (out, st', db')"
    using assms by (auto simp: serve_frame_def split: if_splits)
  then show ?thesis
  proof cases
    case 2
    then show ?thesis using serve_connected_ops Connected by blast
  qed simp
qed (use assms in \<open>simp_all add: serve_frame_def\<close>)

lemma serve_connected_state:
  assumes "serve_connected H G cap f x db = (out, st', db')"
  shows "st' = Connected cap \<or> st' = Closed \<or> (\<exists>e. st' = Aborted e)"
proof -
  have "st' = Connected cap \<or> st' = Closed \<or> (\<exists>e. st' = Aborted e)"
    if "frame_rejected fi cap e d = (out, st', db')" for fi e d
    using that by (auto simp: frame_rejected_def split: if_splits)
  then show ?thesis
    using assms by (auto simp: serve_connected_def Let_def split: sum.splits if_splits prod.splits)
qed

lemma serve_stream_ended:
  "st = Closed \<or> (\<exists>e. st = Aborted e) \<Longrightarrow> serve_stream H G fs st db = ([], st, db)"
  by (induction fs) (auto simp: serve_frame_def)

lemma serve_stream_connected:
  assumes "serve_stream H G fs (Connected cap) db = (out, st', db')"
  shows "\<exists>ps. db' = run_ops H ps db \<and> ops_of cap ps"
  using assms
proof (induction fs arbitrary: db out)
  case Nil
  then show ?case by (intro exI [of _ "[]"]) (simp add: ops_of_def)
next
  case (Cons g fs)
  obtain f x where g: "g = (f, x)" by (cases g)
  obtain o1 st1 db1 where s: "serve_frame H G f x (Connected cap) db = (o1, st1, db1)"
    by (metis prod_cases3)
  obtain o2 where r: "serve_stream H G fs st1 db1 = (o2, st', db')"
    using Cons.prems g s by (auto split: prod.splits)
  have one: "\<exists>ps. db1 = run_ops H ps db \<and> ops_of cap ps"
    using serve_frame_ops [OF s] by (auto intro: exI [of _ "[]"] simp: ops_of_def)
  have "st1 = Connected cap \<or> st1 = Closed \<or> (\<exists>e. st1 = Aborted e)"
    using s serve_connected_state by (auto simp: serve_frame_def split: if_splits)
  then show ?case
  proof (elim disjE exE)
    assume "st1 = Connected cap"
    then obtain qs where "db' = run_ops H qs db1" "ops_of cap qs" using Cons.IH r by blast
    then show ?case using one by (metis run_ops_append ops_of_def list_all_append)
  qed (use r one serve_stream_ended [of st1 H G fs db1] in auto)
qed

lemma serve_hello_connected:
  assumes "serve_hello G f db = (out, Connected cap, db')"
  obtains token n where "fr_payload f = F_hello token" "gw_decode G token = Inr cap"
    "validate_identity (fr_identity f) cap = Inr ()" "activate cap db = Inr (n, db')"
  using assms
  by (auto simp: serve_hello_def hello_rejected_def Let_def
      split: payload.splits sum.splits if_splits)

end
