(* ===== verification/RuntimeProperties.thy ===== *)
theory RuntimeProperties
  imports RunnerProperties RuntimeProtocol
begin

text \<open>
  The properties of the Agent Runtime API and of the run capability, and their composition with
  the consumers of its events.
\<close>

section \<open>Samples\<close>

definition sample_rcap :: "nat \<Rightarrow> runtime_capability" where
  "sample_rcap n = \<lparr>rk_user_id = 2, rk_conversation_id = 3, rk_thread_id = 4, rk_run_id = 1,
     rk_attempt_id = 19 + n, rk_lease_epoch = int n, rk_deadline = 300, rk_run_input = None,
     rk_starting_checkpoint_id = None, rk_models = [''model''], rk_trace_id = sample_trace,
     rk_tools = [''clock''], rk_release_id = Some 5, rk_delegation_grant_id = Some 6,
     rk_raw_token = ''token''\<rparr>"

definition sample_funs :: runtime_funs where
  "sample_funs = \<lparr>hf_sha256 = (\<lambda>s. ''sha''), hf_request = (\<lambda>q. ''digest''), hf_key_id = (\<lambda>k. 9),
     hf_storable = (\<lambda>f. True), hf_value_ok = (\<lambda>r. True)\<rparr>"

definition sample_holder :: "uuid \<Rightarrow> int \<Rightarrow> uuid" where
  "sample_holder run epoch = 19 + nat epoch"

definition sample_parent :: pystr where
  "sample_parent = make_traceparent sample_trace (sample_id 1)"

definition sample_identity :: "nat \<Rightarrow> nat \<Rightarrow> pystr \<Rightarrow> frame_identity" where
  "sample_identity epoch n key = \<lparr>fi_version = Good (1, 0), fi_run_id = Good 1,
     fi_attempt_id = Good (19 + epoch), fi_lease_epoch = epoch, fi_sequence = n, fi_key = key,
     fi_traceparent = sample_parent\<rparr>"

definition sample_frame :: "nat \<Rightarrow> nat \<Rightarrow> pystr \<Rightarrow> payload \<Rightarrow> agent_frame" where
  "sample_frame epoch n key p = \<lparr>fr_identity = sample_identity epoch n key, fr_payload = p, fr_size = 200\<rparr>"

definition sample_renv :: "nat \<Rightarrow> runtime_env" where
  "sample_renv n = \<lparr>xr_now = int n, xr_event_id = sample_id n, xr_event_bytes = 500\<rparr>"

definition sample_delta :: "nat \<Rightarrow> pystr \<Rightarrow> agent_frame" where
  "sample_delta epoch key = sample_frame epoch 1 key (F_message_delta (Good 60) 1 ''hi'')"

definition sample_ops :: "runtime_op list" where
  "sample_ops = [Op_activate (sample_rcap 1),
     Op_accept (sample_rcap 1) (sample_delta 1 ''k1'') (sample_renv 1)]"

lemmas sample_runtime_defs = sample_rcap_def sample_funs_def sample_holder_def sample_identity_def
  sample_frame_def sample_renv_def sample_delta_def sample_ops_def

lemma sample_issued: "list_all (issued sample_holder) sample_ops"
  by (simp add: sample_runtime_defs issued_def)

lemma sample_no_prune: "list_all (\<lambda>p. \<not> is_prune p) sample_ops"
  by (simp add: sample_ops_def)

section \<open>Properties\<close>

text \<open>C19. For every attempt and lease epoch the accepted frames are numbered 1, 2, ... without gap
  and have distinct idempotency keys, in any interleaving of the transactions of any streams
  (retention included). As long as retention has not run, the published events are exactly the
  event frames, one event each, in the order of acceptance and under the same identities, and a
  stream that connects is told the number of frames accepted under its lease.\<close>

theorem accepted_frames_numbered:
  assumes "list_all (issued holder) ps" and "db = run_ops H ps empty_runtime_db"
  shows "gap_free (map af_sequence (attempt_frames run attempt epoch db))
    \<and> distinct (map frame_ident (rt_frames db))
    \<and> (list_all (\<lambda>p. \<not> is_prune p) ps \<longrightarrow>
         map event_mark (rt_outbox db) = concat (map frame_mark (rt_frames db))
         \<and> list_all (\<lambda>f. (af_event f \<noteq> None) = (af_kind f \<in> set event_kinds)) (rt_frames db)
         \<and> (issued holder (Op_activate cap) \<and> activate cap db = Inr (n, db') \<longrightarrow>
              n = length (attempt_frames (rk_run_id cap) (rk_attempt_id cap) (rk_lease_epoch cap) db')))"
proof (intro conjI impI)
  have i: "runtime_inv holder db"
    unfolding assms(2) by (rule run_ops_inv [OF runtime_inv_empty assms(1)])
  then show "gap_free (map af_sequence (attempt_frames run attempt epoch db))"
    "distinct (map frame_ident (rt_frames db))"
    "list_all (\<lambda>f. (af_event f \<noteq> None) = (af_kind f \<in> set event_kinds)) (rt_frames db)"
    by (simp_all add: runtime_inv_def frames_numbered_def)
  assume q: "list_all (\<lambda>p. \<not> is_prune p) ps"
  have "events_match empty_runtime_db" by (simp add: events_match_def empty_runtime_db_def)
  then show "map event_mark (rt_outbox db) = concat (map frame_mark (rt_frames db))"
    using run_ops_events q assms(2) by (simp add: events_match_def)
  have "counts_exact holder db"
    unfolding assms(2) by (rule run_ops_exact [OF runtime_inv_empty counts_exact_empty assms(1) q])
  then show "n = length (attempt_frames (rk_run_id cap) (rk_attempt_id cap) (rk_lease_epoch cap) db')"
    if "issued holder (Op_activate cap) \<and> activate cap db = Inr (n, db')"
    using activate_exact [OF i] that by (simp add: issued_def)
qed

lemma accepted_frames_numbered_witness:
  "gap_free (map af_sequence (attempt_frames 1 20 1 (run_ops sample_funs sample_ops empty_runtime_db)))
    \<and> length (rt_frames (run_ops sample_funs sample_ops empty_runtime_db)) = 1"
proof -
  have "length (rt_frames (run_ops sample_funs sample_ops empty_runtime_db)) = 1"
    by (simp add: sample_runtime_defs activate_def empty_runtime_db_def accept_def find_frame_def
        fresh_stream_def accept_new_def utf8_valid.simps byte_in_def store_event_def make_event_def
        store_frame_def sequence_taken_def Let_def)
  then show ?thesis using accepted_frames_numbered [OF sample_issued refl] by blast
qed

lemma accept_sample:
  "accept sample_funs (sample_rcap 1) (sample_delta 1 ''k1'') (sample_renv 1)
     (run_ops sample_funs [Op_activate (sample_rcap 1)] empty_runtime_db)
   = Inr (Some (sample_id 1), run_ops sample_funs sample_ops empty_runtime_db)"
  by (simp add: sample_runtime_defs activate_def empty_runtime_db_def accept_def find_frame_def
      fresh_stream_def accept_new_def utf8_valid.simps byte_in_def store_event_def make_event_def
      store_frame_def sequence_taken_def Let_def)

text \<open>What a frame of a superseded stream does: the call it asks for, and nothing else.\<close>

lemma perform_call_keeps:
  "rt_streams (snd (perform_call H G cap p db)) = rt_streams db
   \<and> rt_frames (snd (perform_call H G cap p db)) = rt_frames db
   \<and> rt_outbox (snd (perform_call H G cap p db)) = rt_outbox db"
proof -
  have finish: "rt_streams d' = rt_streams d \<and> rt_frames d' = rt_frames d \<and> rt_outbox d' = rt_outbox d"
    if "finish_call c i r d = (out, d')" for c i r d out d'
    using that by (auto simp: finish_call_def elim!: tool_finish_cases split: sum.splits prod.splits)
  have start: "rt_streams d' = rt_streams d \<and> rt_frames d' = rt_frames d \<and> rt_outbox d' = rt_outbox d"
    if "tool_begin c i g d = Inr (r, d')" for c i g d r d'
    using that by (rule tool_begin_cases) simp_all
  have tool: "rt_streams d' = rt_streams d \<and> rt_frames d' = rt_frames d \<and> rt_outbox d' = rt_outbox d"
    if "call_tool H g c q d = (out, d')" for g c q d out d'
    using that
    by (auto simp: call_tool_def dest!: start finish split: sum.splits prod.splits option.splits)
  show ?thesis
    by (cases p) (auto simp: perform_call_def dest: tool split: sum.split prod.split)
qed

text \<open>A frame that \<open>accept\<close> refuses is answered with errors only.\<close>

lemma refused_frame_served:
  assumes "perform_call H G cap (fr_payload f) db = (res, db2)" and "accept H cap f x db2 = Inl err"
    and "serve_frame H G f x (Connected cap) db = (out, st, db')"
  shows "(db' = db \<or> db' = db2) \<and> (\<forall>r \<in> set out. \<exists>code. r = reply (fr_identity f) (P_error code))"
proof -
  have "d' = d \<and> (\<forall>r \<in> set o'. \<exists>code. r = reply (fr_identity f) (P_error code))"
    if "frame_rejected (fr_identity f) cap e d = (o', s', d')" for e d o' s' d'
    using that by (auto simp: frame_rejected_def split: if_splits)
  note rej = this
  show ?thesis using assms(2,3)
    by (cases res) (auto simp: serve_frame_def serve_connected_def assms(1) Let_def dest!: rej
        split: if_splits sum.splits)
qed

lemma stale_frame_ends:
  assumes "perform_call H G cap (fr_payload f) db = (Inr call, db2)"
    and "accept H cap f x db2 = Inl (rt_error ''stale_epoch'')"
    and "validate_identity (fr_identity f) cap = Inr ()" and "1 \<le> fi_sequence (fr_identity f)"
    and "fr_size f \<le> max_frame_bytes"
  shows "serve_frame H G f x (Connected cap) db
    = ([reply (fr_identity f) (P_error (Some ''stale_epoch''))], Closed, db2)"
  using assms by (simp add: serve_frame_def serve_connected_def Let_def frame_rejected_def rt_error_def)

lemma perform_call_other:
  "kind_of p \<notin> {Some ''model_call'', Some ''tool_call''} \<Longrightarrow> \<not> isl (fst (perform_call H G cap p db))"
  "kind_of p \<noteq> Some ''tool_call'' \<Longrightarrow> snd (perform_call H G cap p db) = db"
  by (cases p; simp add: perform_call_def split: sum.split)+

text \<open>A stream whose lease was lost accepts nothing.\<close>

lemma stale_refuses:
  assumes "rk_lease_epoch cap < stream_epoch (rk_run_id cap) later"
    and "has_row ra_run (rk_run_id cap) (rt_streams later)" and "rt_streams d = rt_streams later"
  shows "isl (accept H cap f x d)"
    and "kind_of (fr_payload f) \<notin> {None, Some ''hello''} \<Longrightarrow> accept H cap f x d = Inl (rt_error ''stale_epoch'')"
proof -
  show s: "accept H cap f x d = Inl (rt_error ''stale_epoch'')"
    if "kind_of (fr_payload f) \<notin> {None, Some ''hello''}"
    by (rule accept_stale) (use assms that in \<open>auto simp: stream_epoch_def\<close>)
  show "isl (accept H cap f x d)"
    by (cases "kind_of (fr_payload f) \<in> {None, Some ''hello''}") (use s in \<open>auto simp: accept_def\<close>)
qed

text \<open>C20. Once a later lease epoch of a run has connected, an older one is out until retention: it
  cannot connect again, none of its frames is accepted, numbered or published, and no frame on its stream
  is answered with anything but an error. A frame that is addressed correctly is answered with
  \<open>stale_epoch\<close> and ends the stream; only a model or tool call is still made before, and when that
  call fails its error is the answer. Apart from the record of a tool call nothing changes.\<close>

theorem superseded_stream_fenced:
  assumes "activate cap db = Inr (n, db1)" and "list_all (\<lambda>p. \<not> is_prune p) ps"
    and "later = run_ops H ps db1"
    and "rk_run_id old = rk_run_id cap" and "rk_lease_epoch old < rk_lease_epoch cap"
    and "serve_frame H G f x (Connected old) later = (out, st, later')"
  shows "activate old later = Inl (rt_error ''stale_epoch'')
    \<and> isl (accept H old f x later)
    \<and> (kind_of (fr_payload f) \<notin> {None, Some ''hello''}
        \<longrightarrow> accept H old f x later = Inl (rt_error ''stale_epoch''))
    \<and> rt_streams later' = rt_streams later \<and> rt_frames later' = rt_frames later
    \<and> rt_outbox later' = rt_outbox later
    \<and> (\<forall>r \<in> set out. \<exists>code. r = reply (fr_identity f) (P_error code))
    \<and> (kind_of (fr_payload f) \<noteq> Some ''tool_call'' \<longrightarrow> later' = later)
    \<and> (kind_of (fr_payload f) \<notin> {None, Some ''hello''}
        \<and> validate_identity (fr_identity f) old = Inr () \<and> 1 \<le> fi_sequence (fr_identity f)
        \<and> fr_size f \<le> max_frame_bytes
        \<and> (kind_of (fr_payload f) \<in> {Some ''model_call'', Some ''tool_call''}
             \<longrightarrow> \<not> isl (fst (perform_call H G old (fr_payload f) later)))
        \<longrightarrow> out = [reply (fr_identity f) (P_error (Some ''stale_epoch''))] \<and> st = Closed)"
proof -
  have e: "rk_lease_epoch old < stream_epoch (rk_run_id old) later"
    "has_row ra_run (rk_run_id old) (rt_streams later)"
    using activate_epoch(2,3) [OF assms(1)] run_ops_epoch [OF assms(2), of "rk_run_id cap" db1 H]
      assms(3-5) by auto
  obtain res db2 where res: "perform_call H G old (fr_payload f) later = (res, db2)"
    by (cases "perform_call H G old (fr_payload f) later") auto
  have keeps: "rt_streams db2 = rt_streams later" "rt_frames db2 = rt_frames later"
    "rt_outbox db2 = rt_outbox later"
    using perform_call_keeps [of H G old "fr_payload f" later] res by simp_all
  obtain err where acc: "accept H old f x db2 = Inl err"
    using stale_refuses(1) [OF e keeps(1), of H f x] by (cases "accept H old f x db2") auto
  note served = refused_frame_served [OF res acc assms(6)]
  have model: "db2 = later" if "kind_of (fr_payload f) \<noteq> Some ''tool_call''"
    using perform_call_other(2) [OF that, of H G old later] res by simp
  have ended: "out = [reply (fr_identity f) (P_error (Some ''stale_epoch''))] \<and> st = Closed"
    if h: "kind_of (fr_payload f) \<notin> {None, Some ''hello''}" "validate_identity (fr_identity f) old = Inr ()"
      "1 \<le> fi_sequence (fr_identity f)" "fr_size f \<le> max_frame_bytes"
      "kind_of (fr_payload f) \<in> {Some ''model_call'', Some ''tool_call''}
         \<longrightarrow> \<not> isl (fst (perform_call H G old (fr_payload f) later))"
  proof -
    obtain call where "res = Inr call"
      using h(5) perform_call_other(1) [of "fr_payload f" H G old later] res by (cases res) auto
    then show ?thesis
      using stale_frame_ends [OF _ stale_refuses(2) [OF e keeps(1) h(1)] h(2-4)] res assms(6) by fastforce
  qed
  show ?thesis
    using activate_stale [OF e] stale_refuses [OF e refl] served keeps model ended by auto
qed

lemma match_sample_parent: "match_traceparent sample_parent = Some (sample_trace, take 16 (uuid_hex (sample_id 1)))"
  unfolding sample_parent_def
  by (rule match_make_traceparent [OF sample_trace_ok])
    (use span_nonzero_sample [of 1] in \<open>simp add: span_nonzero_def\<close>)

lemma validate_sample_identity:
  "key \<noteq> [] \<Longrightarrow> char_count key \<le> 128 \<Longrightarrow>
   validate_identity (sample_identity n k key) (sample_rcap n) = Inr ()"
  by (simp add: validate_identity_def sample_identity_def sample_rcap_def match_sample_parent)

lemma sample_takeover:
  "activate (sample_rcap 2) (run_ops sample_funs sample_ops empty_runtime_db) =
     Inr (0, (run_ops sample_funs sample_ops empty_runtime_db)
       \<lparr>rt_streams := [fresh_stream (sample_rcap 2)]\<rparr>)"
proof -
  have "rt_streams (run_ops sample_funs sample_ops empty_runtime_db) =
      [(fresh_stream (sample_rcap 1))\<lparr>ra_last_sequence := 1\<rparr>]"
    by (simp add: sample_runtime_defs activate_def empty_runtime_db_def accept_def find_frame_def
        fresh_stream_def accept_new_def utf8_valid.simps byte_in_def store_event_def make_event_def
        store_frame_def sequence_taken_def Let_def)
  then show ?thesis by (simp add: activate_def sample_rcap_def fresh_stream_def)
qed

lemma superseded_stream_fenced_witness:
  "\<exists>db1. activate (sample_rcap 2) (run_ops sample_funs sample_ops empty_runtime_db) = Inr (0, db1)
    \<and> activate (sample_rcap 1) db1 = Inl (rt_error ''stale_epoch'')
    \<and> (\<forall>G. fst (serve_frame sample_funs G (sample_delta 1 ''k2'') (sample_renv 2) (Connected (sample_rcap 1)) db1)
       = [reply (fr_identity (sample_delta 1 ''k2'')) (P_error (Some ''stale_epoch''))])"
proof -
  have v: "validate_identity (fr_identity (sample_delta 1 ''k2'')) (sample_rcap 1) = Inr ()"
    using validate_sample_identity [of "''k2''" 1 1]
    by (simp add: sample_delta_def sample_frame_def char_count_def)
  obtain db1 where d: "activate (sample_rcap 2) (run_ops sample_funs sample_ops empty_runtime_db) = Inr (0, db1)"
    using sample_takeover by blast
  have "activate (sample_rcap 1) db1 = Inl (rt_error ''stale_epoch'')
      \<and> fst (serve_frame sample_funs G (sample_delta 1 ''k2'') (sample_renv 2) (Connected (sample_rcap 1)) db1)
        = [reply (fr_identity (sample_delta 1 ''k2'')) (P_error (Some ''stale_epoch''))]" for G
  proof -
    obtain out st later where s: "serve_frame sample_funs G (sample_delta 1 ''k2'') (sample_renv 2)
        (Connected (sample_rcap 1)) db1 = (out, st, later)"
      by (cases "serve_frame sample_funs G (sample_delta 1 ''k2'') (sample_renv 2) (Connected (sample_rcap 1)) db1") auto
    then show ?thesis
      using superseded_stream_fenced [OF d, of "[]" db1 sample_funs "sample_rcap 1" G "sample_delta 1 ''k2''"
          "sample_renv 2" out st later] v
      by (simp add: sample_runtime_defs max_frame_bytes_def)
  qed
  then show ?thesis using d by blast
qed

text \<open>A frame that was accepted may be sent again at any later time before retention, with the
  lease still held: the same key with the same sequence returns the recorded event identity and
  changes nothing, with another sequence it is refused as a conflict.\<close>

theorem frame_retransmitted:
  assumes "accept H cap f x db = Inr (event, db1)" and "list_all (\<lambda>p. \<not> is_prune p) ps"
    and "later = run_ops H ps db1"
    and "fi_key (fr_identity g) = fi_key (fr_identity f)"
    and "frame_admitted later (cap, fi_key (fr_identity f)) g"
  shows "accept H cap g y later =
    (if frame_sequence g = frame_sequence f then Inr (event, later)
     else Inl (rt_error ''idempotency_conflict''))"
proof -
  let ?k = "(cap, fi_key (fr_identity f))"
  have run: "accept H (fst ?k) (with_key (snd ?k) f) x db = Inr (event, db1)"
    using assms(1) by (simp add: with_key_same)
  have "frame_stored db1 ?k = Some (frame_sequence f, event)"
    by (rule framing.commits [OF TrueI run])
  then have s: "frame_stored later ?k = Some (frame_sequence f, event)"
    using framing.others_keep [OF run_ops_steps [OF assms(2)]] assms(3) by blast
  have g: "accept H cap g y later = accept H (fst ?k) (with_key (snd ?k) g) y later"
    using with_key_same [of g] assms(4) by simp
  show ?thesis
  proof (cases "frame_sequence g = frame_sequence f")
    case True
    then show ?thesis
      using framing.replay [OF TrueI assms(5), where x = y and H = H] s unfolding g by auto
  next
    case False
    then show ?thesis
      using framing.clash [OF TrueI assms(5) s, where x = y and H = H] unfolding g by auto
  qed
qed

lemma frame_retransmitted_witness:
  "accept sample_funs (sample_rcap 1) (sample_delta 1 ''k1'') (sample_renv 2)
     (run_ops sample_funs sample_ops empty_runtime_db)
   = Inr (Some (sample_id 1), run_ops sample_funs sample_ops empty_runtime_db)"
proof -
  have "frame_admitted (run_ops sample_funs sample_ops empty_runtime_db) (sample_rcap 1, ''k1'')
      (sample_delta 1 ''k1'')"
    by (simp add: sample_runtime_defs activate_def empty_runtime_db_def accept_def find_frame_def
        fresh_stream_def accept_new_def utf8_valid.simps byte_in_def store_event_def make_event_def
        store_frame_def sequence_taken_def Let_def frame_admitted_def stream_epoch_def)
  moreover have "fi_key (fr_identity (sample_delta 1 ''k1'')) = ''k1''"
    by (simp add: sample_runtime_defs)
  ultimately show ?thesis
    using frame_retransmitted [OF accept_sample, of "[]" _ "sample_delta 1 ''k1''" "sample_renv 2"] by simp
qed

text \<open>C21. In any interleaving of transactions the tool gateway is called at most once for an
  invocation of a run. Once its result is recorded the gateway is never called for it again:
  the same request gets the recorded result, another request a conflict.\<close>

theorem tool_called_once:
  "tool_calls H (run, i) ps db \<le> 1
    \<and> (row_by invocation_key (run, i) (rt_invocations db) = Some row \<and> ti_state row = Done r e
        \<and> rk_run_id cap = run \<longrightarrow>
       tool_calls H (run, i) ps db = 0
       \<and> tool_begin cap i d (run_ops H ps db) =
          (if ti_request_sha256 row = d then Inr (Some (r, e), run_ops H ps db)
           else Inl (rt_error ''tool_idempotency_conflict'')))"
proof (intro conjI impI)
  show "tool_calls H (run, i) ps db \<le> 1" by (rule called_once)
  assume a: "row_by invocation_key (run, i) (rt_invocations db) = Some row \<and> ti_state row = Done r e
    \<and> rk_run_id cap = run"
  then have "row_by invocation_key (run, i) (rt_invocations (run_ops H ps db)) = Some row"
    using recorded_not_called [of "(run, i)" db row H ps] by auto
  then show "tool_begin cap i d (run_ops H ps db) =
      (if ti_request_sha256 row = d then Inr (Some (r, e), run_ops H ps db)
       else Inl (rt_error ''tool_idempotency_conflict''))"
    using a tool_begin_recorded [of cap i "run_ops H ps db" row d] by simp
  show "tool_calls H (run, i) ps db = 0"
    using a recorded_not_called [of "(run, i)" db row H ps] by simp
qed

definition sample_invoked :: runtime_db where
  "sample_invoked = empty_runtime_db\<lparr>rt_invocations :=
     [\<lparr>ti_run = 1, ti_invocation = 70, ti_attempt = 20, ti_epoch = 1,
       ti_request_sha256 = ''digest'', ti_state = Done ''12:00'' False\<rparr>]\<rparr>"

lemma tool_called_once_witness:
  "tool_calls sample_funs (1, 70) [Op_begin (sample_rcap 1) 70 ''digest''] sample_invoked = 0
    \<and> tool_begin (sample_rcap 1) 70 ''digest'' sample_invoked = Inr (Some (''12:00'', False), sample_invoked)"
proof -
  have r: "rk_run_id (sample_rcap 1) = 1" by (simp add: sample_rcap_def)
  let ?row = "\<lparr>ti_run = 1, ti_invocation = 70, ti_attempt = 20, ti_epoch = 1,
    ti_request_sha256 = ''digest'', ti_state = Done ''12:00'' False\<rparr>"
  have s: "row_by invocation_key (1, 70) (rt_invocations sample_invoked) = Some ?row"
    by (simp add: sample_invoked_def invocation_key_def)
  have h: "row_by invocation_key (1, 70) (rt_invocations sample_invoked) = Some ?row
      \<and> ti_state ?row = Done ''12:00'' False \<and> rk_run_id (sample_rcap 1) = 1" using s r by simp
  have d: "ti_request_sha256 ?row = ''digest''" by simp
  note once = mp [OF conjunct2 [OF tool_called_once] h]
  have "tool_calls sample_funs (1, 70) [Op_begin (sample_rcap 1) 70 ''digest''] sample_invoked = 0"
    by (rule conjunct1 [OF once])
  moreover have "tool_begin (sample_rcap 1) 70 ''digest'' (run_ops sample_funs [] sample_invoked) =
      Inr (Some (''12:00'', False), run_ops sample_funs [] sample_invoked)"
    by (rule trans [OF conjunct2 [OF once] if_P [OF d]])
  ultimately show ?thesis by simp
qed

lemma validate_identity_trace:
  assumes "validate_identity fi cap = Inr ()"
  obtains sp where "match_traceparent (fi_traceparent fi) = Some (rk_trace_id cap, sp)"
  using assms
  by (auto simp: validate_identity_def split: fld.splits prod.splits option.splits if_splits)

lemma event_valid:
  assumes "trace_id_ok (rk_trace_id cap)" and "validate_identity (fr_identity f) cap = Inr ()"
    and "make_event key_id cap f event_id time bytes = Inr (subject, event)"
    and "bytes \<le> max_event_bytes"
  shows "validate_envelope (envelope.truncate event)
    \<and> validate_event_envelope (envelope.truncate event)
    \<and> validate_run_binding (envelope.truncate event) (rk_user_id cap) (rk_conversation_id cap)
        (rk_thread_id cap) (rk_run_id cap) (rk_trace_id cap)
    \<and> ev_attempt_id event = Good (rk_attempt_id cap) \<and> ev_lease_epoch event = Good (rk_lease_epoch cap)"
proof -
  have t: "uuid_hex (hex_value (rk_trace_id cap)) = rk_trace_id cap"
    using assms(1) by (rule trace_id_ok_uuid_hex)
  obtain sp where sp: "match_traceparent (fi_traceparent (fr_identity f)) = Some (rk_trace_id cap, sp)"
    using assms(2) by (rule validate_identity_trace)
  from assms(3) obtain kind data where e:
    "event = event_envelope key_id cap (fr_identity f) kind event_id time bytes data"
    by (rule make_event_cases)
  have v: "validate_envelope (envelope.truncate event)"
    using assms(4) t sp unfolding e
    by (simp add: validate_envelope_def event_envelope_def envelope.truncate_def size_ok_def
        contract_ok_def required_present_def)
  show ?thesis
    using v validate_envelope_stronger [OF v] t unfolding e
    by (simp add: event_envelope_def envelope.truncate_def validate_run_binding_def)
qed

text \<open>C22. Every event the Runtime API publishes for a decoded capability and a checked frame
  identity passes the envelope validation of the Agent Runner and of the Conversation Service, is
  bound to the user, conversation, thread, run and trace of the capability and names its attempt
  and lease epoch.\<close>

theorem published_event_valid:
  assumes "decode_capability loads mac now token secret = Inr cap"
    and "validate_identity (fr_identity f) cap = Inr ()"
    and "make_event key_id cap f event_id time bytes = Inr (subject, event)"
    and "bytes \<le> max_event_bytes"
  shows "validate_envelope (envelope.truncate event)
    \<and> validate_event_envelope (envelope.truncate event)
    \<and> validate_run_binding (envelope.truncate event) (rk_user_id cap) (rk_conversation_id cap)
        (rk_thread_id cap) (rk_run_id cap) (rk_trace_id cap)
    \<and> ev_attempt_id event = Good (rk_attempt_id cap) \<and> ev_lease_epoch event = Good (rk_lease_epoch cap)"
  using event_valid [OF decode_capability_ok(1) [OF assms(1)] assms(2-4)] .

text \<open>A sample capability as issued by the Runner.\<close>

definition sample_claims :: run_claims where
  "sample_claims = issue_claims (sample_row Starting (Some 20) 1 5000000
     \<lparr>r_deadline := 300000000\<rparr>) 20"

definition sample_loads :: "pystr \<Rightarrow> token_claims option" where
  "sample_loads s = (if s = ''claims'' then Some (claims_read sample_claims) else None)"

definition sample_token :: pystr where
  "sample_token = issue_run_capability (\<lambda>c. ''claims'') (\<lambda>k s. ''mac'') ''secret'' sample_claims"

lemma sample_claims_limits: "claims_within_limits sample_claims"
  using sample_trace_ok
  by (simp add: claims_within_limits_def sample_claims_def issue_claims_def sample_row_def
      admitted_row_def sample_admission_def sample_spec_def Let_def)

lemma decode_sample_token:
  "decode_capability sample_loads (\<lambda>k s. ''mac'') 10 sample_token ''secret'' =
     Inr (capability_of_claims sample_claims sample_token)"
proof -
  have "read_capability 10 sample_token (claims_read sample_claims)
      = Some (capability_of_claims sample_claims sample_token)"
    by (rule read_issued [OF sample_claims_limits])
      (simp_all add: sample_claims_def issue_claims_def Let_def)
  then show ?thesis
    by (simp add: decode_capability_def sample_token_def issue_run_capability_def open_sign_token
        sample_loads_def)
qed

lemma published_event_valid_witness:
  "\<exists>event. make_event (\<lambda>k. 9) (capability_of_claims sample_claims sample_token) (sample_delta 1 ''k1'')
      5 8 500 = Inr (''porfirium.message.delta.accepted'', event)
    \<and> validate_envelope (envelope.truncate event)"
proof -
  let ?cap = "capability_of_claims sample_claims sample_token"
  have cap: "rk_run_id ?cap = 1" "rk_attempt_id ?cap = 20" "rk_lease_epoch ?cap = 1"
    "rk_trace_id ?cap = sample_trace"
    by (simp_all add: capability_of_claims_def sample_claims_def issue_claims_def sample_row_def
        admitted_row_def sample_admission_def Let_def)
  have v: "validate_identity (fr_identity (sample_delta 1 ''k1'')) ?cap = Inr ()"
    by (simp add: validate_identity_def sample_delta_def sample_frame_def sample_identity_def
        match_sample_parent cap char_count_def)
  obtain event where m: "make_event (\<lambda>k. 9) ?cap (sample_delta 1 ''k1'') 5 8 500 =
      Inr (''porfirium.message.delta.accepted'', event)"
    by (simp add: make_event_def sample_delta_def sample_frame_def utf8_valid.simps byte_in_def)
  show ?thesis
    using published_event_valid [OF decode_sample_token v m] m by (simp add: max_event_bytes_def)
qed

text \<open>C23. A run capability issued by the Agent Runner is read back by the Agent Runtime API with
  exactly the run's identities, attempt, lease epoch, trace, models, tools and input, if it is within
  the limits of the reader (at most 16 models, 64 tools of at most 128 characters, a trace that is not
  zero, and an input whose \<open>json.dumps\<close> has at most 24,576 bytes), until the deadline of the run; from then
  on, and beyond the limits, it is refused. A token whose signature part is not the HMAC of its payload
  part is refused.\<close>

theorem capability_roundtrip:
  assumes "claims = issue_claims r attempt"
    and "loads (dumps claims) = Some (claims_read claims)"
    and "token = issue_run_capability dumps mac secret claims"
    and "split_dot forged = Some (payload, signature)"
    and "token_decode signature \<noteq> Some (mac secret payload)"
  shows "decode_capability loads mac now token secret =
      (if claims_within_limits claims \<and> now < r_deadline r div 1000000
       then Inr (capability_of_claims claims token) else Inl capability_error)
    \<and> decode_capability loads mac now forged secret = Inl capability_error"
proof
  have c: "rc_exp claims = r_deadline r div 1000000" "rc_audience claims = ''agent-runtime-api''"
    "rc_operations claims = [''runtime:connect'']"
    by (simp_all add: assms(1) issue_claims_def Let_def)
  have o: "open_token mac secret token = Some (dumps claims)"
    by (simp add: assms(3) issue_run_capability_def open_sign_token)
  have "read_capability now token (claims_read claims) =
      (if claims_within_limits claims \<and> now < rc_exp claims then Some (capability_of_claims claims token) else None)"
  proof (cases "now < rc_exp claims")
    case True
    then show ?thesis using read_issued [OF _ True c(2,3)] read_beyond_limits by auto
  next
    case False
    then show ?thesis by (simp add: read_capability_def claims_read_def split: option.splits)
  qed
  then show "decode_capability loads mac now token secret =
      (if claims_within_limits claims \<and> now < r_deadline r div 1000000
       then Inr (capability_of_claims claims token) else Inl capability_error)"
    using o assms(2) c(1) by (simp add: decode_capability_def)
  show "decode_capability loads mac now forged secret = Inl capability_error"
    using assms(4,5) by (simp add: decode_capability_def open_token_def)
qed

lemma capability_roundtrip_witness:
  "decode_capability sample_loads (\<lambda>k s. ''mac'') 10 sample_token ''secret'' =
     Inr (capability_of_claims sample_claims sample_token)"
proof -
  have l: "sample_loads ((\<lambda>c. ''claims'') sample_claims) = Some (claims_read sample_claims)"
    by (simp add: sample_loads_def)
  have f: "split_dot ''a.'' = Some (''a'', [])" "token_decode [] \<noteq> Some ((\<lambda>k s. ''mac'') ''secret'' ''a'')"
    by (simp_all add: token_decode_def ascii_def char_count_def)
  show ?thesis
    using capability_roundtrip [where dumps = "\<lambda>c. ''claims''" and mac = "\<lambda>k s. ''mac''"
        and loads = sample_loads and now = 10, OF sample_claims_def _
        sample_token_def f] l sample_claims_limits
    by simp
qed

lemma all_values_Good: "all_values (map Good ids) = Inr ids"
  by (induction ids) (simp_all add: need_value_def)

text \<open>A result proposal that the Runtime API accepts is understood by the Agent Runner: from
  the current attempt it is recorded as the completion of the run, with the same messages and
  checkpoint, and with the confirmations that these make necessary.\<close>

theorem proposal_understood:
  assumes "frame_data cap (F_result_proposed ms k) = Inr data"
    and "r_active run = Some (rk_attempt_id cap)" and "int (r_epoch run) = rk_lease_epoch cap"
    and "0 < r_epoch run" and "completion_of (r_run_id run) db = None"
    and "\<not> has_row c_event event_id (completions db)"
  shows "\<exists>ids c db'. parse_ids ms = Some ids \<and> distinct ids \<and> length ids \<le> 64
    \<and> proposal run event_id data now db = Inr db' \<and> completion_of (r_run_id run) db' = Some c
    \<and> c_messages c = ids \<and> c_checkpoint c = fld_value k
    \<and> (''messages'' \<in> set (c_required c) \<longleftrightarrow> ids \<noteq> [])
    \<and> (''checkpoint'' \<in> set (c_required c) \<longleftrightarrow> fld_value k \<noteq> None)"
proof -
  obtain ids where ids: "parse_ids ms = Some ids" "distinct ids" "length ids \<le> 64"
    "data = proposal_data cap ids (fld_value k)"
    using assms(1) by (auto split: option.splits if_splits)
  have d: "d_attempt_id data = Good (rk_attempt_id cap)" "d_lease_epoch data = Good (rk_lease_epoch cap)"
    "d_final_message_ids data = map Good ids" "d_final_checkpoint_id data = opt_fld (fld_value k)"
    "d_required_confirmations data = (if ids \<noteq> [] then [''messages''] else [])
      @ (if fld_value k \<noteq> None then [''checkpoint''] else [])"
    by (simp_all add: ids(4) proposal_data_def empty_data_def)
  have m: "opt_fld (fld_value k) \<noteq> Malformed" "(opt_fld (fld_value k) \<noteq> Missing) = (fld_value k \<noteq> None)"
    "fld_value (opt_fld (fld_value k)) = fld_value k"
    by (cases k; simp add: opt_fld_def)+
  have p: "0 < rk_lease_epoch cap" using assms(3,4) by simp
  let ?required = "dedup (d_required_confirmations data)"
  have r: "set ?required \<subseteq> {''messages'', ''checkpoint''}" "''messages'' \<in> set ?required \<longleftrightarrow> ids \<noteq> []"
    "''checkpoint'' \<in> set ?required \<longleftrightarrow> fld_value k \<noteq> None"
    by (simp_all add: d(5))
  have "\<exists>db'. proposal run event_id data now db = Inr db' \<and> (\<exists>c. completion_of (r_run_id run) db' = Some c
      \<and> c_messages c = ids \<and> c_checkpoint c = fld_value k \<and> c_required c = ?required)"
    using assms(2-6) d(1-4) r m p
    by (simp add: proposal_def need_def all_values_Good Let_def completion_of_def row_by_append)
  then show ?thesis using ids r by auto
qed

lemma proposal_understood_witness:
  "\<exists>db'. proposal (sample_row Running (Some 20) 1 6) 50
      (proposal_data (sample_rcap 1) [60] None) 7 sample_running = Inr db'"
proof -
  have f: "frame_data (sample_rcap 1) (F_result_proposed [Good 60] Missing) =
      Inr (proposal_data (sample_rcap 1) [60] None)"
    by (simp add: parse_ids_def)
  have "completion_of (r_run_id (sample_row Running (Some 20) 1 6)) sample_running = None"
    "\<not> has_row c_event 50 (completions sample_running)"
    by (simp_all add: completion_of_def sample_running_def sample_starting_def sample_admitted_def
        empty_runner_db_def)
  then show ?thesis
    using proposal_understood [OF f, of "sample_row Running (Some 20) 1 6" sample_running 50 7]
    by (auto simp: sample_row_def admitted_row_def sample_rcap_def)
qed

fun transient :: "model_attempt \<Rightarrow> bool" where
  "transient (Http_status code) \<longleftrightarrow> \<not> status_final code"
| "transient Request_failed \<longleftrightarrow> True"
| "transient (Answered content reason usage) \<longleftrightarrow> content = []"

lemma respond_from_ends:
  assumes "respond_from net i n = (r, k)"
  shows "i \<le> k \<and> k \<le> i + n \<and> (0 < n \<longrightarrow> i < k) \<and> (\<forall>j. i \<le> j \<and> Suc j < k \<longrightarrow> transient (net j))
    \<and> (case r of
         Inr m \<Rightarrow> \<exists>usage. net (k - 1) = Answered (mr_content m) (mr_finish_reason m) (Some usage)
           \<and> mr_usage m = usage \<and> mr_content m \<noteq> [] \<and> answer_ok (mr_content m) (Some usage) \<and> i < k
       | Inl e \<Rightarrow> \<exists>message. e = model_gateway_error message
           \<and> (i < k \<and> transient (net (k - 1)) \<longrightarrow> k = i + n))"
  using assms
proof (induction net i n arbitrary: r k rule: respond_from.induct)
  case (2 net i n)
  show ?case
  proof (cases "transient (net i)")
    case True
    then have "respond_from net (Suc i) n = (r, k)"
      using "2.prems" by (cases "net i") auto
    then have ih: "Suc i \<le> k \<and> k \<le> Suc i + n \<and> (0 < n \<longrightarrow> Suc i < k)
      \<and> (\<forall>j. Suc i \<le> j \<and> Suc j < k \<longrightarrow> transient (net j))
      \<and> (case r of
         Inr m \<Rightarrow> \<exists>usage. net (k - 1) = Answered (mr_content m) (mr_finish_reason m) (Some usage)
           \<and> mr_usage m = usage \<and> mr_content m \<noteq> [] \<and> answer_ok (mr_content m) (Some usage) \<and> Suc i < k
       | Inl e \<Rightarrow> \<exists>message. e = model_gateway_error message
           \<and> (Suc i < k \<and> transient (net (k - 1)) \<longrightarrow> k = Suc i + n))"
      using True 2 by (cases "net i") auto
    have "\<forall>j. i \<le> j \<and> Suc j < k \<longrightarrow> transient (net j)"
      using ih True by (metis le_neq_implies_less Suc_leI)
    then show ?thesis using ih by (cases r) auto
  next
    case False
    then have "k = Suc i" using "2.prems" by (cases "net i") (auto split: if_splits)
    moreover have "case r of
         Inr m \<Rightarrow> \<exists>usage. net i = Answered (mr_content m) (mr_finish_reason m) (Some usage)
           \<and> mr_usage m = usage \<and> mr_content m \<noteq> [] \<and> answer_ok (mr_content m) (Some usage)
       | Inl e \<Rightarrow> \<exists>message. e = model_gateway_error message"
      using False "2.prems"
      by (cases "net i") (auto simp: answer_ok_def split: if_splits option.splits)
    ultimately show ?thesis using False by (cases r) auto
  qed
qed auto

text \<open>C24. A model call ends after at most three requests. Every request but the last failed in a way
  that may pass (no answer, an unreadable or empty one, status 408, 429 or 500 and above); the
  result is an answer within the limits of the last request, or the gateway's error.\<close>

theorem model_call_bounded:
  "1 \<le> snd (respond net) \<and> snd (respond net) \<le> 3
    \<and> (\<forall>j. Suc j < snd (respond net) \<longrightarrow> transient (net j))
    \<and> (case fst (respond net) of
         Inr m \<Rightarrow> \<exists>usage. net (snd (respond net) - 1)
             = Answered (mr_content m) (mr_finish_reason m) (Some usage)
           \<and> mr_usage m = usage \<and> mr_content m \<noteq> [] \<and> answer_ok (mr_content m) (Some usage)
       | Inl e \<Rightarrow> \<exists>message. e = model_gateway_error message
           \<and> (transient (net (snd (respond net) - 1)) \<longrightarrow> snd (respond net) = 3))"
proof -
  have e: "respond_from net 0 3 = (fst (respond net), snd (respond net))"
    by (simp add: respond_def max_model_attempts_def)
  show ?thesis
    using respond_from_ends [OF e] by (auto split: sum.splits)
qed

lemma model_call_bounded_witness:
  "snd (respond (\<lambda>i. Http_status 503)) = 3
    \<and> fst (respond (\<lambda>i. Http_status 503)) = Inl (model_gateway_error ''model gateway request failed'')"
proof -
  have "fst (respond (\<lambda>i. Http_status 503)) = Inl (model_gateway_error ''model gateway request failed'')"
    by (simp add: respond_def max_model_attempts_def status_final_def numeral_3_eq_3)
  then show ?thesis using model_call_bounded [of "\<lambda>i. Http_status 503"] by (simp add: status_final_def)
qed

text \<open>A stream does nothing but transactions under the one capability that its hello frame
  presented and that was verified, beginning with its activation; before a valid hello and after
  its end it changes nothing.\<close>

theorem stream_confined:
  assumes "serve_stream H G fs Awaiting_hello db = (out, st, db')"
  shows "db' = db \<or> (\<exists>token cap ps. gw_decode G token = Inr cap
    \<and> (\<exists>f \<in> set fs. fr_payload (fst f) = F_hello token
         \<and> validate_identity (fr_identity (fst f)) cap = Inr ())
    \<and> db' = run_ops H (Op_activate cap # ps) db
    \<and> (\<forall>p \<in> set ps. op_capability p = Some cap))"
  using assms
proof (induction fs arbitrary: out)
  case (Cons g fs)
  obtain f x where g: "g = (f, x)" by (cases g)
  obtain o1 st1 db1 where s: "serve_frame H G f x Awaiting_hello db = (o1, st1, db1)"
    by (metis prod_cases3)
  obtain o2 where r: "serve_stream H G fs st1 db1 = (o2, st, db')"
    using Cons.prems g s by (auto split: prod.splits)
  show ?case
  proof (cases st1)
    case Awaiting_hello
    then have "db1 = db" using serve_frame_ops [OF s] by simp
    then show ?thesis using Cons.IH [of o2] r Awaiting_hello by fastforce
  next
    case (Connected cap)
    then have "serve_hello G f db = (o1, Connected cap, db1)"
      using s by (auto simp: serve_frame_def split: if_splits)
    then obtain token n where h: "fr_payload f = F_hello token" "gw_decode G token = Inr cap"
      "validate_identity (fr_identity f) cap = Inr ()" "activate cap db = Inr (n, db1)"
      by (rule serve_hello_connected)
    obtain ps where "db' = run_ops H ps db1" "ops_of cap ps"
      using serve_stream_connected r Connected by blast
    then have "db' = run_ops H (Op_activate cap # ps) db" "\<forall>p \<in> set ps. op_capability p = Some cap"
      using h(4) by (simp_all add: ops_of_def list_all_iff)
    then show ?thesis using h(1-3) g by (intro disjI2) force
  next
    case Closed
    then show ?thesis
      using r serve_frame_ops [OF s] serve_stream_ended [of st1 H G fs db1] by auto
  next
    case (Aborted e)
    then show ?thesis
      using r serve_frame_ops [OF s] serve_stream_ended [of st1 H G fs db1] by auto
  qed
qed simp

definition sample_gateways :: runtime_gateways where
  "sample_gateways = \<lparr>gw_decode = (\<lambda>t. Inr (sample_rcap 1)), gw_model = None, gw_tool = None\<rparr>"

lemma stream_confined_witness:
  "\<exists>out st db'. serve_stream sample_funs sample_gateways
      [(sample_frame 1 0 ''k0'' (F_hello ''token''), sample_renv 0)] Awaiting_hello empty_runtime_db
      = (out, st, db')
    \<and> (\<exists>ps. db' = run_ops sample_funs (Op_activate (sample_rcap 1) # ps) empty_runtime_db)"
proof -
  let ?f = "sample_frame 1 0 ''k0'' (F_hello ''token'')"
  have v: "validate_identity (sample_identity 1 0 ''k0'') (sample_rcap 1) = Inr ()"
    by (rule validate_sample_identity) (simp_all add: char_count_def)
  obtain out st db' where s: "serve_stream sample_funs sample_gateways [(?f, sample_renv 0)]
      Awaiting_hello empty_runtime_db = (out, st, db')" by (metis prod_cases3)
  moreover have "db' \<noteq> empty_runtime_db"
    using s v by (simp add: serve_frame_def serve_hello_def sample_frame_def sample_gateways_def
        max_frame_bytes_def activate_def empty_runtime_db_def sample_rcap_def Let_def) auto
  moreover have "gw_decode sample_gateways t = Inr c \<Longrightarrow> c = sample_rcap 1" for t c
    by (simp add: sample_gateways_def)
  ultimately show ?thesis using stream_confined [OF s] by metis
qed

end
