(* ===== verification/Identity.thy ===== *)
theory Identity
  imports Contracts Tokens
begin

text \<open>
  Identity Delegation: the grants of \<open>identity_delegation/store.py\<close>, the handlers of
  \<open>identity_delegation/main.py\<close> (creation, exchange, revocation, the two gateway authorizations),
  the policy of \<open>policy.py\<close> and \<open>verify_token\<close> of \<open>tokens.py\<close>. The digest of a creation request,
  the HMAC and the reading and writing of JSON are parameters.
\<close>

section \<open>Tables\<close>

record grant_row =
  g_grant_id :: uuid
  g_user_id :: uuid
  g_conversation_id :: uuid
  g_release_id :: uuid
  g_maximum_scopes :: "pystr list"
  g_expires_at :: instant
  g_revoked_at :: "instant option"
  g_created_at :: instant

record grant_idem_row =
  gi_actor :: uuid
  gi_key :: pystr
  gi_sha256 :: pystr
  gi_grant_id :: uuid

record delegation_db =
  grants :: "grant_row list"
  grant_idempotency :: "grant_idem_row list"

definition empty_delegation_db :: delegation_db where
  "empty_delegation_db = \<lparr>grants = [], grant_idempotency = []\<rparr>"

definition grant_not_found :: exc where
  "grant_not_found = Problem 404 ''grant_not_found''"

definition get_grant :: "uuid \<Rightarrow> delegation_db \<Rightarrow> exc + grant_row" where
  "get_grant i db =
     (case row_by g_grant_id i (grants db) of None \<Rightarrow> Inl grant_not_found | Some g \<Rightarrow> Inr g)"

section \<open>Creation and revocation\<close>

record create_grant_body =
  cg_conversation_id :: uuid
  cg_release_id :: uuid
  cg_maximum_scopes :: "pystr list"

text \<open>What is hashed: the user, the body with sorted scopes and the expiry that the handler computed
  from the clock.\<close>

type_synonym grant_digest = "uuid \<times> uuid \<times> uuid \<times> pystr list \<times> instant \<Rightarrow> pystr"

definition new_grant :: "uuid \<Rightarrow> uuid \<Rightarrow> create_grant_body \<Rightarrow> instant \<Rightarrow> instant \<Rightarrow> grant_row" where
  "new_grant i user body expires now =
     \<lparr>g_grant_id = i, g_user_id = user, g_conversation_id = cg_conversation_id body,
      g_release_id = cg_release_id body,
      g_maximum_scopes = sorted_set (cg_maximum_scopes body), g_expires_at = expires,
      g_revoked_at = None, g_created_at = now\<rparr>"

definition create_grant ::
  "grant_digest \<Rightarrow> uuid \<Rightarrow> pystr \<Rightarrow> create_grant_body \<Rightarrow> instant \<Rightarrow> uuid \<times> instant \<Rightarrow> delegation_db
     \<Rightarrow> (grant_row, delegation_db) tx" where
  "create_grant D user key body expires x db =
     (let digest = D (user, cg_conversation_id body, cg_release_id body,
                      sorted_texts (cg_maximum_scopes body), expires) in
      case row_by (\<lambda>r. (gi_actor r, gi_key r)) (user, key) (grant_idempotency db) of
        Some previous \<Rightarrow>
          if gi_sha256 previous \<noteq> digest then Inl (Problem 409 ''idempotency_conflict'')
          else (case get_grant (gi_grant_id previous) db of Inl e \<Rightarrow> Inl e | Inr g \<Rightarrow> Inr (g, db))
      | None \<Rightarrow>
          if has_row g_grant_id (fst x) (grants db) then Inl Unique_violation
          else
            (let g = new_grant (fst x) user body expires (snd x) in
             Inr (g, db\<lparr>grants := grants db @ [g],
                        grant_idempotency := grant_idempotency db @
                          [\<lparr>gi_actor = user, gi_key = key, gi_sha256 = digest,
                            gi_grant_id = fst x\<rparr>]\<rparr>)))"

definition hours :: "int \<Rightarrow> instant" where
  "hours n = n * 60 * 60 * 1000000"

definition minutes :: "int \<Rightarrow> instant" where
  "minutes n = n * 60 * 1000000"

definition request_invalid :: exc where
  "request_invalid = Problem 422 ''request_invalid''"

definition key_ok :: "pystr \<Rightarrow> bool" where
  "key_ok key \<longleftrightarrow> 8 \<le> char_count key \<and> char_count key \<le> 128"

text \<open>\<open>grant_create\<close>, with the validation of body and header. \<open>snd x\<close> is the clock.\<close>

definition grant_create ::
  "grant_digest \<Rightarrow> uuid \<Rightarrow> pystr \<Rightarrow> create_grant_body \<Rightarrow> uuid \<times> instant \<Rightarrow> delegation_db
     \<Rightarrow> (grant_row, delegation_db) tx" where
  "grant_create D user key body x db =
     (if 64 < length (cg_maximum_scopes body) \<or> \<not> key_ok key then Inl request_invalid
      else if \<not> distinct (cg_maximum_scopes body) then Inl (Problem 422 ''scopes_invalid'')
      else create_grant D user key body (snd x + hours 8) x db)"

definition revoke_grant :: "uuid \<Rightarrow> instant \<Rightarrow> delegation_db \<Rightarrow> (unit, delegation_db) tx" where
  "revoke_grant i now db =
     (if \<not> has_row g_grant_id i (grants db) then Inl grant_not_found
      else Inr ((), db\<lparr>grants := update_where (\<lambda>g. g_grant_id g = i)
        (\<lambda>g. g\<lparr>g_revoked_at := Some (case g_revoked_at g of Some t \<Rightarrow> t | None \<Rightarrow> now)\<rparr>)
        (grants db)\<rparr>))"

definition grant_revoke ::
  "uuid \<Rightarrow> uuid \<Rightarrow> pystr \<Rightarrow> instant \<Rightarrow> delegation_db \<Rightarrow> (unit, delegation_db) tx" where
  "grant_revoke i user key now db =
     (if \<not> key_ok key then Inl request_invalid
      else
        (case get_grant i db of
           Inl e \<Rightarrow> Inl e
         | Inr g \<Rightarrow> if g_user_id g \<noteq> user then Inl grant_not_found else revoke_grant i now db))"

section \<open>Tokens\<close>

text \<open>The claims the service reads, with the outcome of reading each. An identity is Good when it is
  the canonical text of a UUID, as every issuer writes it. \<open>yc_audience\<close> is the value of
  \<open>claims.get("aud", claims.get("audience"))\<close>, None when it is no text. A list claim is Malformed
  when it cannot be iterated.\<close>

record identity_claims =
  yc_audience :: "pystr option"
  yc_exp :: "int fld"
  yc_sub :: "uuid fld"
  yc_grant_id :: "uuid fld"
  yc_delegation_grant_id :: "uuid fld"
  yc_run_id :: "uuid fld"
  yc_attempt_id :: "uuid fld"
  yc_lease_epoch :: "int fld"
  yc_active :: bool
  yc_cancelled :: bool
  yc_release_id :: "uuid fld"
  yc_models :: "pystr list fld"
  yc_tools :: "pystr list fld"
  yc_scopes :: "pystr list fld"
  yc_jti :: "uuid fld"
  yc_iat :: "int fld"

text \<open>The functions and secrets of the environment.\<close>

record token_service =
  ty_mac :: "pystr \<Rightarrow> pystr \<Rightarrow> pystr"
  ty_dumps :: "identity_claims \<Rightarrow> pystr"
  ty_loads :: "pystr \<Rightarrow> identity_claims option"
  ty_signing_secret :: "pystr option"
  ty_capability_secret :: "pystr option"

definition token_invalid :: exc where
  "token_invalid = Problem 401 ''token_invalid''"

definition issue_token :: "token_service \<Rightarrow> identity_claims \<Rightarrow> pystr \<Rightarrow> pystr" where
  "issue_token S claims secret = sign_token (ty_mac S) secret (ty_dumps S claims)"

text \<open>\<open>verify_token\<close>; \<open>now\<close> is the clock in whole seconds.\<close>

definition verify_token ::
  "token_service \<Rightarrow> int \<Rightarrow> pystr \<Rightarrow> pystr \<Rightarrow> pystr \<Rightarrow> exc + identity_claims" where
  "verify_token S now token secret audience =
     (case open_token (ty_mac S) secret token of
        None \<Rightarrow> Inl token_invalid
      | Some claims_text \<Rightarrow>
          (case ty_loads S claims_text of
             None \<Rightarrow> Inl token_invalid
           | Some c \<Rightarrow>
               (case (yc_audience c = Some audience, yc_exp c) of
                  (True, Good expiry) \<Rightarrow> if expiry \<le> now then Inl token_invalid else Inr c
                | _ \<Rightarrow> Inl token_invalid)))"

definition token_issuer_unavailable :: exc where
  "token_issuer_unavailable = Problem 503 ''token_issuer_unavailable''"

text \<open>An unset or empty variable.\<close>

definition secret_of :: "pystr option \<Rightarrow> exc + pystr" where
  "secret_of v = (case v of None \<Rightarrow> Inl token_issuer_unavailable
     | Some s \<Rightarrow> if s = [] then Inl token_issuer_unavailable else Inr s)"

definition bearer :: "pystr option \<Rightarrow> exc + pystr" where
  "bearer header =
     (case header of
        None \<Rightarrow> Inl (Problem 401 ''authentication_required'')
      | Some h \<Rightarrow> if take 7 h = ''Bearer '' then Inr (drop 7 h)
                  else Inl (Problem 401 ''authentication_required''))"

text \<open>A verification of the token of a header with a secret of the environment. The header is
  checked first.\<close>

definition verify_header ::
  "token_service \<Rightarrow> int \<Rightarrow> pystr option \<Rightarrow> pystr option \<Rightarrow> pystr \<Rightarrow> exc + identity_claims" where
  "verify_header S now header secret audience =
     (case bearer header of
        Inl e \<Rightarrow> Inl e
      | Inr token \<Rightarrow>
          (case secret_of secret of
             Inl e \<Rightarrow> Inl e
           | Inr k \<Rightarrow> verify_token S now token k audience))"

section \<open>Exchange\<close>

record exchange_body =
  xb_run_id :: uuid
  xb_attempt_id :: uuid
  xb_lease_epoch :: int
  xb_audience :: pystr
  xb_scopes :: "pystr list"

definition mcp_audience :: pystr where
  "mcp_audience = ''porfirium-mcp-gateway''"

text \<open>The claims of the caller: from a run capability, whose secret must be configured before its
  header is looked at, or from a token of the service itself.\<close>

definition caller_claims ::
  "token_service \<Rightarrow> int \<Rightarrow> pystr option \<Rightarrow> pystr option \<Rightarrow> exc + identity_claims" where
  "caller_claims S now authorization capability =
     (case capability of
        Some h \<Rightarrow>
          (case secret_of (ty_capability_secret S) of
             Inl e \<Rightarrow> Inl e
           | Inr k \<Rightarrow> verify_header S now capability (Some k) ''agent-runtime-api'')
      | None \<Rightarrow> verify_header S now authorization (ty_signing_secret S) ''identity-delegation'')"

definition binding_ok ::
  "bool \<Rightarrow> uuid \<Rightarrow> exchange_body \<Rightarrow> identity_claims \<Rightarrow> bool" where
  "binding_ok by_capability grant body c \<longleftrightarrow>
     (if by_capability then yc_delegation_grant_id c else yc_grant_id c) = Good grant
     \<and> yc_run_id c = Good (xb_run_id body) \<and> yc_attempt_id c = Good (xb_attempt_id body)
     \<and> yc_lease_epoch c = Good (xb_lease_epoch body)
     \<and> (yc_active c \<or> by_capability) \<and> \<not> yc_cancelled c"

definition tool_scope :: "pystr \<Rightarrow> pystr" where
  "tool_scope tool = ''tool:'' @ tool"

text \<open>\<open>claims.get("tools", [])\<close>.\<close>

definition claim_list :: "pystr list fld \<Rightarrow> exc + pystr list" where
  "claim_list f = (case f of Missing \<Rightarrow> Inr [] | Malformed \<Rightarrow> Inl Type_error | Good l \<Rightarrow> Inr l)"

definition run_scopes_ok :: "bool \<Rightarrow> exchange_body \<Rightarrow> identity_claims \<Rightarrow> exc + unit" where
  "run_scopes_ok by_capability body c =
     (if \<not> by_capability then Inr ()
      else
        (case claim_list (yc_tools c) of
           Inl e \<Rightarrow> Inl e
         | Inr tools \<Rightarrow>
             if set (xb_scopes body) \<subseteq> set (map tool_scope tools) then Inr ()
             else Inl (Problem 403 ''scope_not_granted'')))"

text \<open>The new token: the claims, and with them the expiry and the scopes of the answer.\<close>

record delegated_token =
  dt_claims :: identity_claims
  dt_access_token :: pystr
  dt_expires_at :: instant
  dt_scopes :: "pystr list"

definition delegated_claims ::
  "grant_row \<Rightarrow> exchange_body \<Rightarrow> pystr list \<Rightarrow> uuid \<Rightarrow> instant \<Rightarrow> instant \<Rightarrow> identity_claims" where
  "delegated_claims g body scopes jti now expires =
     \<lparr>yc_audience = Some mcp_audience, yc_exp = Good (expires div 1000000),
      yc_sub = Good (g_user_id g), yc_grant_id = Good (g_grant_id g),
      yc_delegation_grant_id = Missing, yc_run_id = Good (xb_run_id body),
      yc_attempt_id = Good (xb_attempt_id body), yc_lease_epoch = Good (xb_lease_epoch body),
      yc_active = False, yc_cancelled = False, yc_release_id = Missing, yc_models = Missing,
      yc_tools = Missing, yc_scopes = Good scopes, yc_jti = Good jti,
      yc_iat = Good (now div 1000000)\<rparr>"

definition issue_delegated ::
  "token_service \<Rightarrow> grant_row \<Rightarrow> exchange_body \<Rightarrow> uuid \<Rightarrow> instant \<Rightarrow> exc + delegated_token" where
  "issue_delegated S g body jti now =
     (let effective = filter (\<lambda>s. s \<in> set (g_maximum_scopes g)) (sorted_set (xb_scopes body));
          expires = min (g_expires_at g) (now + minutes 5);
          claims = delegated_claims g body effective jti now expires in
      if set effective \<noteq> set (xb_scopes body) then Inl (Problem 403 ''scope_not_delegated'')
      else
        (case secret_of (ty_signing_secret S) of
           Inl e \<Rightarrow> Inl e
         | Inr k \<Rightarrow>
             Inr \<lparr>dt_claims = claims, dt_access_token = issue_token S claims k,
                  dt_expires_at = expires, dt_scopes = effective\<rparr>))"

text \<open>\<open>exchange_token\<close>. The environment is the token identity and the clock; the service reads the
  clock in whole seconds when it verifies and in microseconds afterwards.\<close>

definition exchange_token ::
  "token_service \<Rightarrow> uuid \<Rightarrow> exchange_body \<Rightarrow> pystr option \<Rightarrow> pystr option \<Rightarrow> uuid \<times> instant
     \<Rightarrow> delegation_db \<Rightarrow> exc + delegated_token" where
  "exchange_token S grant body authorization capability x db =
     (let now = snd x; by_capability = (capability \<noteq> None) in
      case caller_claims S (now div 1000000) authorization capability of
        Inl e \<Rightarrow> Inl e
      | Inr c \<Rightarrow>
          if \<not> binding_ok by_capability grant body c
          then Inl (Problem 403 ''run_binding_invalid'')
          else
            (case get_grant grant db of
               Inl e \<Rightarrow> Inl e
             | Inr g \<Rightarrow>
                 if g_revoked_at g \<noteq> None \<or> g_expires_at g \<le> now
                 then Inl (Problem 403 ''grant_inactive'')
                 else if yc_release_id c \<noteq> Good (g_release_id g)
                 then Inl (Problem 403 ''release_binding_invalid'')
                 else
                   (case run_scopes_ok by_capability body c of
                      Inl e \<Rightarrow> Inl e
                    | Inr _ \<Rightarrow> issue_delegated S g body (fst x) now)))"

definition grant_exchange ::
  "token_service \<Rightarrow> uuid \<Rightarrow> exchange_body \<Rightarrow> pystr \<Rightarrow> pystr option \<Rightarrow> pystr option \<Rightarrow> uuid \<times> instant
     \<Rightarrow> delegation_db \<Rightarrow> exc + delegated_token" where
  "grant_exchange S grant body key authorization capability x db =
     (if xb_lease_epoch body < 1 \<or> xb_audience body \<noteq> mcp_audience \<or> 64 < length (xb_scopes body)
         \<or> \<not> key_ok key
      then Inl request_invalid
      else exchange_token S grant body authorization capability x db)"

section \<open>Authorization of gateway calls\<close>

record run_grant =
  rg_run_id :: uuid
  rg_attempt_id :: uuid
  rg_lease_epoch :: int
  rg_models :: "pystr list"
  rg_tools :: "pystr list"
  rg_cancelled :: bool

definition read_run_grant :: "identity_claims \<Rightarrow> exc + run_grant" where
  "read_run_grant c =
     (case (yc_run_id c, yc_attempt_id c, yc_lease_epoch c, yc_models c, yc_tools c) of
        (Good run, Good attempt, Good epoch, Good models, Good tools) \<Rightarrow>
          Inr \<lparr>rg_run_id = run, rg_attempt_id = attempt, rg_lease_epoch = epoch,
               rg_models = models, rg_tools = tools, rg_cancelled = yc_cancelled c\<rparr>
      | _ \<Rightarrow> Inl token_invalid)"

text \<open>\<open>run_grant\<close>: a token of the service itself, or else a run capability.\<close>

definition run_grant_of ::
  "token_service \<Rightarrow> int \<Rightarrow> pystr option \<Rightarrow> exc + run_grant" where
  "run_grant_of S now header =
     (case bearer header of
        Inl e \<Rightarrow> Inl e
      | Inr token \<Rightarrow>
          (case verify_header S now header (ty_signing_secret S) ''porfirium-gateway-policy'' of
             Inr c \<Rightarrow> read_run_grant c
           | Inl e \<Rightarrow>
               (case secret_of (ty_capability_secret S) of
                  Inl _ \<Rightarrow> Inl e
                | Inr k \<Rightarrow>
                    (case verify_token S now token k ''agent-runtime-api'' of
                       Inl e2 \<Rightarrow> Inl e2
                     | Inr c \<Rightarrow> read_run_grant c))))"

definition authorize_model :: "run_grant \<Rightarrow> pystr \<Rightarrow> exc + unit" where
  "authorize_model run model =
     (if rg_cancelled run then Inl (Problem 409 ''run_cancelled'')
      else if model \<notin> set (rg_models run) then Inl (Problem 403 ''model_forbidden'')
      else Inr ())"

definition authorize_tool :: "run_grant \<Rightarrow> pystr \<Rightarrow> pystr list \<Rightarrow> exc + unit" where
  "authorize_tool run tool scopes =
     (if rg_cancelled run then Inl (Problem 409 ''run_cancelled'')
      else if tool \<notin> set (rg_tools run) then Inl (Problem 403 ''tool_grant_missing'')
      else if tool_scope tool \<notin> set scopes then Inl (Problem 403 ''delegated_scope_missing'')
      else Inr ())"

definition name_ok :: "pystr \<Rightarrow> bool" where
  "name_ok s \<longleftrightarrow> 1 \<le> char_count s \<and> char_count s \<le> 128"

definition model_authorize ::
  "token_service \<Rightarrow> int \<Rightarrow> pystr \<Rightarrow> pystr option \<Rightarrow> exc + unit" where
  "model_authorize S now model authorization =
     (if \<not> name_ok model then Inl request_invalid
      else
        (case run_grant_of S now authorization of
           Inl e \<Rightarrow> Inl e
         | Inr run \<Rightarrow> authorize_model run model))"

definition tool_authorize ::
  "token_service \<Rightarrow> int \<Rightarrow> pystr \<Rightarrow> pystr option \<Rightarrow> pystr option \<Rightarrow> exc + unit" where
  "tool_authorize S now tool authorization delegated =
     (if \<not> name_ok tool then Inl request_invalid
      else
        (case run_grant_of S now authorization of
           Inl e \<Rightarrow> Inl e
         | Inr run \<Rightarrow>
             (case verify_header S now delegated (ty_signing_secret S) mcp_audience of
                Inl e \<Rightarrow> Inl e
              | Inr c \<Rightarrow>
                  if yc_run_id c \<noteq> Good (rg_run_id run) \<or> yc_attempt_id c \<noteq> Good (rg_attempt_id run)
                     \<or> yc_lease_epoch c \<noteq> Good (rg_lease_epoch run)
                  then Inl (Problem 403 ''token_run_mismatch'')
                  else
                    (case claim_list (yc_scopes c) of
                       Inl e \<Rightarrow> Inl e
                     | Inr scopes \<Rightarrow> authorize_tool run tool scopes))))"

end
