(* ===== verification/IdentityProperties.thy ===== *)
theory IdentityProperties
  imports Identity RuntimeProperties
begin

text \<open>
  What the Identity Delegation service guarantees: a delegated token carries no more than the
  user's grant and the run's own tools, a revoked grant stays dead, and the requests that the tool
  gateway of the Runtime API sends obtain exactly the authorization of the one tool they name.
\<close>

section \<open>Outcomes of an exchange\<close>

lemma issue_delegated_cases:
  assumes "issue_delegated S g body jti now = Inr t"
  obtains k where "secret_of (ty_signing_secret S) = Inr k"
    "dt_claims t = delegated_claims g body (dt_scopes t) jti now (dt_expires_at t)"
    "dt_expires_at t = min (g_expires_at g) (now + minutes 5)"
    "set (dt_scopes t) = set (xb_scopes body)" "set (dt_scopes t) \<subseteq> set (g_maximum_scopes g)"
    "dt_access_token t = issue_token S (dt_claims t) k"
proof -
  let ?scopes = "filter (\<lambda>s. s \<in> set (g_maximum_scopes g)) (sorted_set (xb_scopes body))"
  obtain k where k: "secret_of (ty_signing_secret S) = Inr k" and e: "set ?scopes = set (xb_scopes body)"
    and t: "t = \<lparr>dt_claims = delegated_claims g body ?scopes jti now (min (g_expires_at g) (now + minutes 5)),
      dt_access_token = issue_token S
        (delegated_claims g body ?scopes jti now (min (g_expires_at g) (now + minutes 5))) k,
      dt_expires_at = min (g_expires_at g) (now + minutes 5), dt_scopes = ?scopes\<rparr>"
    using assms by (auto simp: issue_delegated_def Let_def split: if_splits sum.splits)
  show ?thesis by (rule that [OF k]) (use e in \<open>simp_all add: t, auto\<close>)
qed

lemma exchange_cases:
  assumes "exchange_token S grant body authorization capability x db = Inr t"
  obtains c g where "caller_claims S (snd x div 1000000) authorization capability = Inr c"
    "binding_ok (capability \<noteq> None) grant body c" "get_grant grant db = Inr g"
    "g_revoked_at g = None" "snd x < g_expires_at g" "yc_release_id c = Good (g_release_id g)"
    "run_scopes_ok (capability \<noteq> None) body c = Inr ()"
    "issue_delegated S g body (fst x) (snd x) = Inr t"
  using assms by (auto simp: exchange_token_def Let_def split: sum.splits if_splits)

section \<open>Sequences of operations\<close>

datatype delegation_op =
    Grant_create uuid pystr create_grant_body "uuid \<times> instant"
  | Grant_revoke uuid uuid pystr instant

fun exec_delegation :: "grant_digest \<Rightarrow> delegation_op \<Rightarrow> delegation_db \<Rightarrow> delegation_db" where
  "exec_delegation D (Grant_create user key body x) db = committed (grant_create D user key body x db) db"
| "exec_delegation D (Grant_revoke i user key now) db = committed (grant_revoke i user key now db) db"

fun run_delegation :: "grant_digest \<Rightarrow> delegation_op list \<Rightarrow> delegation_db \<Rightarrow> delegation_db" where
  "run_delegation D [] db = db"
| "run_delegation D (p # ps) db = run_delegation D ps (exec_delegation D p db)"

lemma grant_create_cases:
  assumes "grant_create D user key body x db = Inr (g, db')"
  obtains (again) "db' = db" | (fresh) "\<not> has_row g_grant_id (fst x) (grants db)" "g_revoked_at g = None"
    "grants db' = grants db @ [g]" "g_grant_id g = fst x"
  using assms
  by (auto simp: grant_create_def create_grant_def Let_def new_grant_def
      split: if_splits option.splits sum.splits)

lemma revoke_grant_cases:
  assumes "grant_revoke i user key now db = Inr (u, db')"
  obtains g where "get_grant i db = Inr g" "g_user_id g = user"
    "grants db' = update_where (\<lambda>g. g_grant_id g = i)
      (\<lambda>g. g\<lparr>g_revoked_at := Some (case g_revoked_at g of Some t \<Rightarrow> t | None \<Rightarrow> now)\<rparr>) (grants db)"
  using assms
  by (auto simp: grant_revoke_def revoke_grant_def split: if_splits sum.splits)

text \<open>A row keeps everything but its revocation, and a revocation is final.\<close>

definition same_grant :: "grant_row \<Rightarrow> grant_row \<Rightarrow> bool" where
  "same_grant g g' \<longleftrightarrow> g' = g\<lparr>g_revoked_at := g_revoked_at g'\<rparr>
     \<and> (g_revoked_at g \<noteq> None \<longrightarrow> g_revoked_at g' = g_revoked_at g)"

lemma exec_delegation_keeps:
  assumes "get_grant i db = Inr g"
  shows "\<exists>g'. get_grant i (exec_delegation D p db) = Inr g' \<and> same_grant g g'"
proof (cases p)
  case (Grant_create user key body x)
  show ?thesis
  proof (cases "grant_create D user key body x db")
    case (Inr b)
    obtain h db' where b: "b = (h, db')" by (cases b)
    show ?thesis using Inr [unfolded b]
      by (cases rule: grant_create_cases)
        (use assms in \<open>auto simp: Grant_create Inr b get_grant_def same_grant_def row_by_append
          split: option.splits\<close>)
  qed (use Grant_create assms in \<open>simp add: same_grant_def\<close>)
next
  case (Grant_revoke j user key now)
  show ?thesis
  proof (cases "grant_revoke j user key now db")
    case (Inr b)
    obtain u db' where b: "b = (u, db')" by (cases b)
    have e: "exec_delegation D p db = db'" using Grant_revoke Inr b by simp
    from Inr [unfolded b] show ?thesis
    proof (cases rule: revoke_grant_cases)
      case (1 h)
      have r: "row_by g_grant_id i (grants db) = Some g"
        using assms by (auto simp: get_grant_def split: option.splits)
      have "row_by g_grant_id i (grants db') = map_option (\<lambda>g. if g_grant_id g = j
          then g\<lparr>g_revoked_at := Some (case g_revoked_at g of Some t \<Rightarrow> t | None \<Rightarrow> now)\<rparr> else g)
          (row_by g_grant_id i (grants db))"
        unfolding 1(3) by (rule row_by_update_where) simp
      then show ?thesis unfolding e get_grant_def by (auto simp: r same_grant_def split: option.split)
    qed
  qed (use Grant_revoke assms in \<open>simp add: same_grant_def\<close>)
qed

lemma same_grant_trans: "same_grant g h \<Longrightarrow> same_grant h k \<Longrightarrow> same_grant g k"
  unfolding same_grant_def
  by (metis (no_types, lifting) grant_row.surjective grant_row.update_convs(7))

lemma run_delegation_keeps:
  assumes "get_grant i db = Inr g"
  shows "\<exists>g'. get_grant i (run_delegation D ps db) = Inr g' \<and> same_grant g g'"
  using assms
proof (induction ps arbitrary: db g)
  case (Cons p ps)
  then show ?case using exec_delegation_keeps [OF Cons.prems, of D p] same_grant_trans by fastforce
qed (simp add: same_grant_def)

section \<open>Properties\<close>

text \<open>C25. A delegated token never exceeds what was delegated. It exists only for a caller whose verified
  claims name exactly this grant, the run, attempt and lease epoch of the request and are not
  cancelled, and who holds a run capability or a delegated token that is active; only for an active
  grant of the release in the claims. Its scopes are the requested ones, within the grant and, for a run
  capability, within the tools of the run; it names the same grant, run, attempt and epoch, expires with
  the grant and within five minutes, and its subject is the user who granted.\<close>

theorem delegated_token_bounded:
  assumes "exchange_token S grant body authorization capability x db = Inr t"
  shows "\<exists>g c. get_grant grant db = Inr g
    \<and> caller_claims S (snd x div 1000000) authorization capability = Inr c
    \<and> (if capability \<noteq> None then yc_delegation_grant_id c else yc_grant_id c) = Good grant
    \<and> yc_run_id c = Good (xb_run_id body) \<and> yc_attempt_id c = Good (xb_attempt_id body)
    \<and> yc_lease_epoch c = Good (xb_lease_epoch body)
    \<and> (capability = None \<longrightarrow> yc_active c) \<and> \<not> yc_cancelled c
    \<and> g_revoked_at g = None \<and> snd x < g_expires_at g \<and> yc_release_id c = Good (g_release_id g)
    \<and> yc_grant_id (dt_claims t) = Good grant
    \<and> yc_run_id (dt_claims t) = Good (xb_run_id body)
    \<and> yc_attempt_id (dt_claims t) = Good (xb_attempt_id body)
    \<and> yc_lease_epoch (dt_claims t) = Good (xb_lease_epoch body)
    \<and> yc_sub (dt_claims t) = Good (g_user_id g) \<and> yc_scopes (dt_claims t) = Good (dt_scopes t)
    \<and> yc_exp (dt_claims t) = Good (dt_expires_at t div 1000000)
    \<and> dt_expires_at t \<le> g_expires_at g \<and> dt_expires_at t \<le> snd x + minutes 5
    \<and> set (dt_scopes t) = set (xb_scopes body) \<and> set (dt_scopes t) \<subseteq> set (g_maximum_scopes g)
    \<and> (capability \<noteq> None \<longrightarrow>
         (\<exists>tools. claim_list (yc_tools c) = Inr tools \<and> set (dt_scopes t) \<subseteq> tool_scope ` set tools))"
  using assms
proof (cases rule: exchange_cases)
  case (1 c g)
  from 1(8) show ?thesis
  proof (cases rule: issue_delegated_cases)
    case (1 k)
    note t = this
    have s: "\<exists>tools. claim_list (yc_tools c) = Inr tools \<and> set (dt_scopes t) \<subseteq> tool_scope ` set tools"
      if "capability \<noteq> None"
      using \<open>run_scopes_ok (capability \<noteq> None) body c = Inr ()\<close> that t(4)
      by (auto simp: run_scopes_ok_def split: sum.splits if_splits)
    have "g_grant_id g = grant"
      using \<open>get_grant grant db = Inr g\<close> by (auto simp: get_grant_def dest: row_by_SomeD split: option.splits)
    then show ?thesis
      by (intro exI [of _ g] exI [of _ c] conjI impI s)
        (use 1(2-5) t \<open>get_grant grant db = Inr g\<close> \<open>binding_ok (capability \<noteq> None) grant body c\<close>
          \<open>caller_claims S (snd x div 1000000) authorization capability = Inr c\<close>
          \<open>g_revoked_at g = None\<close> \<open>snd x < g_expires_at g\<close> \<open>yc_release_id c = Good (g_release_id g)\<close>
          in \<open>auto simp: delegated_claims_def binding_ok_def\<close>)
  qed
qed

text \<open>Once the user has revoked a grant, no exchange and no renewal of it succeeds any more,
  whatever other grants are created or revoked later and whichever token is presented.\<close>

theorem revoked_grant_final:
  assumes "grant_revoke i user key now db = Inr (u, db1)"
  shows "\<exists>e. grant_exchange S i body key2 authorization capability x (run_delegation D ps db1) = Inl e"
proof -
  from assms obtain g where g: "get_grant i db = Inr g" "grants db1 = update_where (\<lambda>g. g_grant_id g = i)
      (\<lambda>g. g\<lparr>g_revoked_at := Some (case g_revoked_at g of Some t \<Rightarrow> t | None \<Rightarrow> now)\<rparr>) (grants db)"
    by (rule revoke_grant_cases)
  have "row_by g_grant_id i (grants db1) = map_option (\<lambda>g. if g_grant_id g = i
      then g\<lparr>g_revoked_at := Some (case g_revoked_at g of Some t \<Rightarrow> t | None \<Rightarrow> now)\<rparr> else g)
      (row_by g_grant_id i (grants db))"
    unfolding g(2) by (rule row_by_update_where) simp
  then obtain g1 where g1: "get_grant i db1 = Inr g1" "g_revoked_at g1 \<noteq> None"
    using g(1) by (auto simp: get_grant_def dest: row_by_SomeD split: option.splits)
  obtain g2 where "get_grant i (run_delegation D ps db1) = Inr g2" "g_revoked_at g2 \<noteq> None"
    using run_delegation_keeps [OF g1(1), of D ps] g1(2) by (auto simp: same_grant_def)
  then have "exchange_token S i body authorization capability x (run_delegation D ps db1) \<noteq> Inr t" for t
    by (auto elim!: exchange_cases)
  then show ?thesis
    by (cases "grant_exchange S i body key2 authorization capability x (run_delegation D ps db1)")
      (auto simp: grant_exchange_def split: if_splits)
qed

section \<open>The tool gateway's requests\<close>

text \<open>The claims of a run capability as this service reads them, and the body of the exchange request
  of the tool gateway.\<close>

definition identity_view :: "run_claims \<Rightarrow> identity_claims" where
  "identity_view c = \<lparr>yc_audience = Some (rc_audience c), yc_exp = Good (rc_exp c), yc_sub = Missing,
     yc_grant_id = Missing, yc_delegation_grant_id = Good (rc_delegation_grant_id c),
     yc_run_id = Good (rc_run_id c), yc_attempt_id = Good (rc_attempt_id c),
     yc_lease_epoch = Good (int (rc_lease_epoch c)), yc_active = False, yc_cancelled = False,
     yc_release_id = Good (rc_release_id c), yc_models = Good (rc_models c),
     yc_tools = Good (rc_tools c), yc_scopes = Missing, yc_jti = Missing, yc_iat = Missing\<rparr>"

definition body_of_exchange :: "exchange_request \<Rightarrow> exchange_body" where
  "body_of_exchange r = \<lparr>xb_run_id = xg_run_id r, xb_attempt_id = xg_attempt_id r,
     xb_lease_epoch = xg_lease_epoch r, xb_audience = xg_audience r, xb_scopes = xg_scopes r\<rparr>"

lemma char_count_append [simp]: "char_count (s @ t) = char_count s + char_count t"
  by (simp add: char_count_def)

lemma exchange_key_ok: "key_ok (''tool-token-'' @ uuid_str i)"
proof -
  have "length (uuid_str i) = 36" by (simp add: uuid_str_def Let_def)
  then have "char_count (uuid_str i) \<le> 36" using char_count_le_length [of "uuid_str i"] by simp
  moreover have "char_count ''tool-token-'' = 11" by (simp add: char_count_def continuation_byte_def)
  ultimately show ?thesis unfolding key_ok_def char_count_append by linarith
qed

lemma verify_issued:
  assumes "ty_loads S (ty_dumps S c) = Some c" and "yc_exp c = Good e" and "now < e"
  shows "verify_token S now (issue_token S c k) k audience =
    (if yc_audience c = Some audience then Inr c else Inl token_invalid)"
  using assms by (simp add: verify_token_def issue_token_def open_sign_token)

lemma capability_verified:
  assumes "ty_loads S (dumps c) = Some (identity_view c)" and "now < rc_exp c"
    and "rc_audience c = ''agent-runtime-api''"
  shows "verify_token S now (issue_run_capability dumps (ty_mac S) secret c) secret ''agent-runtime-api''
    = Inr (identity_view c)"
  using assms
  by (simp add: verify_token_def issue_run_capability_def open_sign_token identity_view_def)

text \<open>A token of another audience is no policy token.\<close>

lemma run_grant_capability:
  assumes "ty_loads S (dumps c) = Some (identity_view c)" and "now < rc_exp c"
    and "rc_audience c = ''agent-runtime-api''"
    and "ty_capability_secret S = Some secret" and "secret \<noteq> []"
  shows "run_grant_of S now (Some (''Bearer '' @ issue_run_capability dumps (ty_mac S) secret c)) =
    Inr \<lparr>rg_run_id = rc_run_id c, rg_attempt_id = rc_attempt_id c, rg_lease_epoch = int (rc_lease_epoch c),
         rg_models = rc_models c, rg_tools = rc_tools c, rg_cancelled = False\<rparr>"
proof -
  let ?token = "issue_run_capability dumps (ty_mac S) secret c"
  have "verify_token S now ?token k ''porfirium-gateway-policy'' = Inl token_invalid" for k
  proof (cases "open_token (ty_mac S) k ?token")
    case (Some claims_text)
    then have "claims_text = dumps c"
      using open_sign_token [of "ty_mac S" secret "dumps c"]
      by (auto simp: issue_run_capability_def elim!: open_token_signed)
    then show ?thesis using Some assms(1,3) by (simp add: verify_token_def identity_view_def)
  qed (simp add: verify_token_def)
  then obtain e where "verify_header S now (Some (''Bearer '' @ ?token)) (ty_signing_secret S)
      ''porfirium-gateway-policy'' = Inl e"
    by (cases "secret_of (ty_signing_secret S)") (auto simp: verify_header_def bearer_def)
  then show ?thesis
    using capability_verified [of S dumps c now secret] assms
    by (simp add: run_grant_of_def secret_of_def read_run_grant_def identity_view_def bearer_def)
qed

text \<open>The requests the tool gateway of the Runtime API sends for a tool that both the run's
  specification and the user's grant allow obtain a delegated token with exactly the scope of that
  tool, and with this token and the run capability the gateway's authorization succeeds for that
  tool and for no other, until one of the two tokens expires.\<close>

theorem tool_call_delegated:
  assumes "token = issue_run_capability dumps (ty_mac S) secret claims"
    and "ty_loads S (dumps claims) = Some (identity_view claims)"
    and "rc_audience claims = ''agent-runtime-api''" and "1 \<le> rc_lease_epoch claims"
    and "ty_capability_secret S = Some secret" and "secret \<noteq> []"
    and "ty_signing_secret S = Some k" and "k \<noteq> []"
    and "get_grant (rc_delegation_grant_id claims) db = Inr g" and "g_revoked_at g = None"
    and "now < g_expires_at g" and "g_release_id g = rc_release_id claims"
    and "tool \<in> set (rc_tools claims)" and "tool_scope tool \<in> set (g_maximum_scopes g)"
    and "name_ok tool" and "now div 1000000 < rc_exp claims"
    and "cap = capability_of_claims claims token"
    and "request = exchange_of cap (rc_delegation_grant_id claims) tool invocation"
  shows "\<exists>t. grant_exchange S (xg_grant_id request) (body_of_exchange request) (xg_key request) None
      (Some (xg_run_authorization request)) (jti, now) db = Inr t
    \<and> dt_scopes t = [tool_scope tool]
    \<and> (ty_loads S (ty_dumps S (dt_claims t)) = Some (dt_claims t) \<and> later < rc_exp claims
        \<and> later < dt_expires_at t div 1000000 \<longrightarrow>
       (\<forall>name. name_ok name \<longrightarrow>
          (tool_authorize S later name
             (Some (mq_run_authorization (mcp_call_of cap (dt_access_token t) tool arguments invocation)))
             (Some (mq_authorization (mcp_call_of cap (dt_access_token t) tool arguments invocation)))
           = Inr ()) = (name = tool)))"
proof -
  let ?body = "body_of_exchange request" and ?expires = "min (g_expires_at g) (now + minutes 5)"
  let ?claims = "delegated_claims g ?body [tool_scope tool] jti now ?expires"
  let ?t = "\<lparr>dt_claims = ?claims, dt_access_token = issue_token S ?claims k, dt_expires_at = ?expires,
    dt_scopes = [tool_scope tool]\<rparr>"
  have raw: "rk_raw_token cap = token" by (simp add: assms(17) capability_of_claims_def)
  have body: "xb_run_id ?body = rc_run_id claims" "xb_attempt_id ?body = rc_attempt_id claims"
    "xb_lease_epoch ?body = int (rc_lease_epoch claims)" "xb_audience ?body = mcp_audience"
    "xb_scopes ?body = [tool_scope tool]"
    by (simp_all add: assms(17,18) body_of_exchange_def exchange_of_def capability_of_claims_def
        mcp_audience_def tool_scope_def)
  have head: "xg_grant_id request = rc_delegation_grant_id claims"
    "xg_run_authorization request = ''Bearer '' @ token" "key_ok (xg_key request)"
    using exchange_key_ok by (simp_all add: assms(18) exchange_of_def raw)
  have caller: "caller_claims S (now div 1000000) None (Some (''Bearer '' @ token))
      = Inr (identity_view claims)"
    using capability_verified [of S dumps claims "now div 1000000" secret] assms(1-3,5,6,16)
    by (simp add: caller_claims_def verify_header_def secret_of_def bearer_def)
  have issue: "issue_delegated S g ?body jti now = Inr ?t"
    using assms(7,8,14)
    by (simp add: issue_delegated_def Let_def body secret_of_def sorted_set_def sorted_texts_def)
  have bind: "binding_ok True (rc_delegation_grant_id claims) ?body (identity_view claims)"
    by (simp add: binding_ok_def identity_view_def body)
  have scopes: "run_scopes_ok True ?body (identity_view claims) = Inr ()"
    using assms(13) by (simp add: run_scopes_ok_def claim_list_def identity_view_def body)
  have "exchange_token S (rc_delegation_grant_id claims) ?body None (Some (''Bearer '' @ token)) (jti, now) db
      = Inr ?t"
    using caller bind scopes issue assms(9-12)
    by (simp add: exchange_token_def identity_view_def Let_def)
  then have ex: "grant_exchange S (xg_grant_id request) ?body (xg_key request) None
      (Some (xg_run_authorization request)) (jti, now) db = Inr ?t"
    using head assms(4) by (simp add: grant_exchange_def body)
  let ?call = "mcp_call_of cap (dt_access_token ?t) tool arguments invocation"
  have auth: "(tool_authorize S later name (Some (mq_run_authorization ?call))
      (Some (mq_authorization ?call)) = Inr ()) = (name = tool)"
    if l: "ty_loads S (ty_dumps S ?claims) = Some ?claims" "later < rc_exp claims"
      "later < ?expires div 1000000" and n: "name_ok name" for name
  proof -
    have run: "run_grant_of S later (Some (mq_run_authorization ?call)) =
        Inr \<lparr>rg_run_id = rc_run_id claims, rg_attempt_id = rc_attempt_id claims,
          rg_lease_epoch = int (rc_lease_epoch claims), rg_models = rc_models claims,
          rg_tools = rc_tools claims, rg_cancelled = False\<rparr>"
      using run_grant_capability [of S dumps claims later secret] assms(2,3,5,6) l(2)
      by (simp add: mcp_call_of_def raw assms(1))
    have "verify_token S later (issue_token S ?claims k) k mcp_audience = Inr ?claims"
      by (subst verify_issued [OF l(1) _ l(3)]) (simp_all add: delegated_claims_def)
    then have del: "verify_header S later (Some (mq_authorization ?call)) (ty_signing_secret S) mcp_audience
        = Inr ?claims"
      using assms(7,8) by (simp add: verify_header_def mcp_call_of_def secret_of_def bearer_def)
    show ?thesis
      unfolding tool_authorize_def run del
      using n assms(13)
      by (auto simp: delegated_claims_def body claim_list_def authorize_tool_def tool_scope_def)
  qed
  show ?thesis using ex auth by (intro exI [of _ ?t]) simp
qed

section \<open>Instances\<close>

definition sample_grant_body :: create_grant_body where
  "sample_grant_body = \<lparr>cg_conversation_id = 3, cg_release_id = 5,
     cg_maximum_scopes = [''tool:clock'', ''tool:mail'']\<rparr>"

definition sample_grants :: delegation_db where
  "sample_grants = \<lparr>grants = [new_grant 6 2 sample_grant_body (hours 8) 0],
     grant_idempotency = [\<lparr>gi_actor = 2, gi_key = ''grant-key'', gi_sha256 = ''d'', gi_grant_id = 6\<rparr>]\<rparr>"

lemma sample_grants_eq:
  "grant_create (\<lambda>q. ''d'') 2 ''grant-key'' sample_grant_body (6, 0) empty_delegation_db =
     Inr (new_grant 6 2 sample_grant_body (hours 8) 0, sample_grants)"
  by (simp add: grant_create_def create_grant_def key_ok_def char_count_def continuation_byte_def
      sample_grant_body_def empty_delegation_db_def sample_grants_def Let_def)

text \<open>The sample claims with one tool.\<close>

definition sample_tool_claims :: run_claims where
  "sample_tool_claims = sample_claims\<lparr>rc_tools := [''clock'']\<rparr>"

definition sample_tool_token :: pystr where
  "sample_tool_token = issue_run_capability (\<lambda>c. ''claims'') (\<lambda>k s. ''mac'') ''secret'' sample_tool_claims"

definition sample_request :: exchange_request where
  "sample_request = exchange_of (capability_of_claims sample_tool_claims sample_tool_token) 6 ''clock'' 70"

definition sample_delegated :: identity_claims where
  "sample_delegated = delegated_claims (new_grant 6 2 sample_grant_body (hours 8) 0)
     (body_of_exchange sample_request) [tool_scope ''clock''] 80 10000000 (10000000 + minutes 5)"

definition sample_tokens :: token_service where
  "sample_tokens = \<lparr>ty_mac = (\<lambda>k s. ''mac''), ty_dumps = (\<lambda>c. ''delegated''),
     ty_loads = (\<lambda>s. if s = ''delegated'' then Some sample_delegated
       else if s = ''claims'' then Some (identity_view sample_tool_claims) else None),
     ty_signing_secret = Some ''signing'', ty_capability_secret = Some ''secret''\<rparr>"

lemma sample_tool_claims_fields:
  "rc_audience sample_tool_claims = ''agent-runtime-api''" "rc_lease_epoch sample_tool_claims = 1"
  "rc_delegation_grant_id sample_tool_claims = 6" "rc_release_id sample_tool_claims = 5"
  "rc_tools sample_tool_claims = [''clock'']" "rc_exp sample_tool_claims = 300"
  by (simp_all add: sample_tool_claims_def sample_claims_def issue_claims_def sample_row_def
      admitted_row_def sample_admission_def Let_def)

lemma sample_active_grant:
  "get_grant 6 sample_grants = Inr (new_grant 6 2 sample_grant_body (hours 8) 0)"
  by (simp add: get_grant_def sample_grants_def new_grant_def)

lemma sample_tool_token_eq:
  "sample_tool_token = issue_run_capability (\<lambda>c. ''claims'') (ty_mac sample_tokens) ''secret'' sample_tool_claims"
  by (simp add: sample_tool_token_def sample_tokens_def)

lemma tool_call_delegated_witness:
  "\<exists>t. grant_exchange sample_tokens 6 (body_of_exchange sample_request) (xg_key sample_request) None
      (Some (xg_run_authorization sample_request)) (80, 10000000) sample_grants = Inr t
    \<and> dt_scopes t = [''tool:clock'']"
proof -
  let ?g = "new_grant 6 2 sample_grant_body (hours 8) 0"
  have tokens: "ty_loads sample_tokens ''claims'' = Some (identity_view sample_tool_claims)"
    "ty_capability_secret sample_tokens = Some ''secret''"
    "ty_signing_secret sample_tokens = Some ''signing''"
    by (simp_all add: sample_tokens_def)
  have row: "g_revoked_at ?g = None" "(10000000::int) < g_expires_at ?g" "g_release_id ?g = 5"
    "tool_scope ''clock'' \<in> set (g_maximum_scopes ?g)"
    by (simp_all add: new_grant_def hours_def sample_grant_body_def tool_scope_def)
  have name: "name_ok ''clock''" by (simp add: name_ok_def char_count_def continuation_byte_def)
  have head: "xg_grant_id sample_request = 6" by (simp add: sample_request_def exchange_of_def)
  have h: "sample_request = exchange_of (capability_of_claims sample_tool_claims sample_tool_token)
      (rc_delegation_grant_id sample_tool_claims) ''clock'' 70"
    by (simp add: sample_request_def sample_tool_claims_fields)
  obtain t where "grant_exchange sample_tokens (xg_grant_id sample_request)
      (body_of_exchange sample_request) (xg_key sample_request) None
      (Some (xg_run_authorization sample_request)) (80, 10000000) sample_grants = Inr t"
    "dt_scopes t = [tool_scope ''clock'']"
    using tool_call_delegated [where db = sample_grants and now = 10000000 and tool = "''clock''"
        and g = ?g and k = "''signing''" and jti = 80,
        OF sample_tool_token_eq _ _ _ _ _ _ _ _ row(1,2) _ _ row(4) name _ refl h]
      tokens row(3) sample_active_grant sample_tool_claims_fields by force
  then show ?thesis unfolding head by (intro exI [of _ t]) (simp add: tool_scope_def)
qed

lemma sample_grant_exchange:
  "\<exists>t. grant_exchange sample_tokens 6 (body_of_exchange sample_request) (xg_key sample_request) None
      (Some (xg_run_authorization sample_request)) (80, 10000000) sample_grants = Inr t"
proof -
  have caller: "caller_claims sample_tokens 10 None (Some (''Bearer '' @ sample_tool_token))
      = Inr (identity_view sample_tool_claims)"
    using capability_verified [of sample_tokens "\<lambda>c. ''claims''" sample_tool_claims 10 "''secret''"]
    by (simp add: caller_claims_def verify_header_def secret_of_def bearer_def sample_tool_token_eq
        sample_tool_claims_fields sample_tokens_def)
  have body: "xb_run_id (body_of_exchange sample_request) = rc_run_id sample_tool_claims"
    "xb_attempt_id (body_of_exchange sample_request) = rc_attempt_id sample_tool_claims"
    "xb_lease_epoch (body_of_exchange sample_request) = 1"
    "xb_audience (body_of_exchange sample_request) = mcp_audience"
    "xb_scopes (body_of_exchange sample_request) = [''tool:clock'']"
    "xg_run_authorization sample_request = ''Bearer '' @ sample_tool_token"
    "key_ok (xg_key sample_request)"
    using exchange_key_ok
    by (simp_all add: sample_request_def body_of_exchange_def exchange_of_def capability_of_claims_def
        mcp_audience_def sample_tool_claims_fields)
  show ?thesis
    using caller sample_active_grant
    by (simp add: grant_exchange_def exchange_token_def body Let_def binding_ok_def identity_view_def
        sample_tool_claims_fields new_grant_def hours_def run_scopes_ok_def claim_list_def tool_scope_def
        issue_delegated_def secret_of_def sorted_set_def sorted_texts_def sample_grant_body_def)
      (simp add: sample_tokens_def)
qed

lemma sample_exchange:
  "\<exists>t. exchange_token sample_tokens 6 (body_of_exchange sample_request) None
      (Some (xg_run_authorization sample_request)) (80, 10000000) sample_grants = Inr t"
proof -
  obtain t where "grant_exchange sample_tokens 6 (body_of_exchange sample_request)
      (xg_key sample_request) None (Some (xg_run_authorization sample_request)) (80, 10000000) sample_grants = Inr t"
    using sample_grant_exchange by blast
  then show ?thesis by (auto simp: grant_exchange_def split: if_splits)
qed

lemma delegated_token_bounded_witness:
  "\<exists>t. exchange_token sample_tokens 6 (body_of_exchange sample_request) None
      (Some (xg_run_authorization sample_request)) (80, 10000000) sample_grants = Inr t
    \<and> set (dt_scopes t) \<subseteq> {''tool:clock'', ''tool:mail''} \<and> dt_expires_at t \<le> 310000000"
proof -
  obtain t where t: "exchange_token sample_tokens 6 (body_of_exchange sample_request) None
      (Some (xg_run_authorization sample_request)) (80, 10000000) sample_grants = Inr t"
    using sample_exchange by blast
  then show ?thesis
    using delegated_token_bounded [OF t] sample_active_grant
    by (auto simp: new_grant_def sample_grant_body_def minutes_def)
qed

lemma revoked_grant_final_witness:
  "\<exists>db1 e. grant_revoke 6 2 ''revoke-key'' 5 sample_grants = Inr ((), db1)
    \<and> grant_exchange sample_tokens 6 (body_of_exchange sample_request) ''exchange-key'' None
        (Some (xg_run_authorization sample_request)) (80, 10000000) db1 = Inl e"
proof -
  obtain db1 where r: "grant_revoke 6 2 ''revoke-key'' 5 sample_grants = Inr ((), db1)"
    using sample_active_grant
    by (simp add: grant_revoke_def revoke_grant_def key_ok_def char_count_def continuation_byte_def
        new_grant_def sample_grants_def)
  show ?thesis
    using revoked_grant_final [OF r, of sample_tokens "body_of_exchange sample_request" "''exchange-key''"
        None "Some (xg_run_authorization sample_request)" "(80, 10000000)" "\<lambda>q. ''d''" "[]"] r
    by simp
qed

end
