(* ===== verification/AgentSdk.thy ===== *)
theory AgentSdk
  imports RuntimeStream Json
begin

text \<open>
  The client of the Agent Runtime API in the agent SDK
  (\<open>agent-sdk-python/porfirium_agent_sdk/runtime.py\<close>): the stream of an attempt with its
  retransmission buffer, the calls of models and tools and the reading of the bootstrap
  environment. A call holds the lock of the client from its first to its last step, so calls do not
  interleave. The gRPC channel is a \<open>transport\<close>: operations on a state of its own.
\<close>

section \<open>The channel\<close>

text \<open>The status of an \<open>AioRpcError\<close>, and what a read yields: a frame, the end of the stream, an
  error, or nothing ever.\<close>

datatype rpc_status = Unavailable | Cancelled_call | Other_status

datatype incoming =
    Received platform_payload
  | Cancellation
  | End_of_stream
  | Broken rpc_status
  | Silent

record 'w transport =
  tp_open :: "'w \<Rightarrow> 'w"
  tp_close :: "'w \<Rightarrow> 'w"
  tp_write :: "agent_frame \<Rightarrow> 'w \<Rightarrow> rpc_status option \<times> 'w"
  tp_read :: "'w \<Rightarrow> incoming \<times> 'w"

text \<open>\<open>PlatformError\<close> with its code (None when it carries a text of the library), \<open>ValueError\<close>,
  \<open>RuntimeError\<close>, an \<open>AioRpcError\<close> or a failure of the HTTP client that is not caught, and the
  unreachable assertion.\<close>

datatype sdk_error =
    Platform_error "pystr option"
  | Sdk_value_error
  | Sdk_runtime_error
  | Rpc_failure rpc_status
  | Http_failure
  | Sdk_assertion

abbreviation platform_error :: "pystr \<Rightarrow> sdk_error" where
  "platform_error code \<equiv> Platform_error (Some code)"

section \<open>The client\<close>

text \<open>\<open>sc_connected\<close> holds when \<open>_call\<close> is not None; the buffer keeps its insertion order.\<close>

record sdk_client =
  sc_run :: uuid
  sc_attempt :: uuid
  sc_epoch :: nat
  sc_capability :: pystr
  sc_trace :: pystr
  sc_last_ack :: nat
  sc_pending :: "(nat \<times> agent_frame) list"
  sc_connected :: bool
  sc_cancelled :: bool
  sc_deadline :: "int option"
  sc_input :: "(run_input \<times> uuid option) option"

definition new_client :: "uuid \<Rightarrow> uuid \<Rightarrow> nat \<Rightarrow> pystr \<Rightarrow> pystr \<Rightarrow> sdk_client" where
  "new_client run attempt epoch capability trace =
     \<lparr>sc_run = run, sc_attempt = attempt, sc_epoch = epoch, sc_capability = capability,
      sc_trace = trace, sc_last_ack = 0, sc_pending = [], sc_connected = False,
      sc_cancelled = False, sc_deadline = None, sc_input = None\<rparr>"

text \<open>The functions of the environment: the encoded length of a frame, the length of the run input
  written back as JSON, what the JSON text of a tool's arguments becomes as a protobuf \<open>Struct\<close>
  (None when the conversion raises), the length of a tool result written back as JSON, SHA-256.\<close>

record sdk_funs =
  sf_size :: "frame_identity \<Rightarrow> payload \<Rightarrow> nat"
  sf_input_octets :: "run_input \<Rightarrow> uuid option \<Rightarrow> nat"
  sf_struct :: "pystr \<Rightarrow> pystr option"
  sf_result_octets :: "pystr \<Rightarrow> nat"
  sf_sha256 :: "pystr \<Rightarrow> pystr"

text \<open>The two fresh identities of a frame.\<close>

type_synonym stamp = "uuid \<times> uuid"

text \<open>\<open>_identity\<close>: an absent key is a fresh identity.\<close>

definition sdk_identity :: "sdk_client \<Rightarrow> nat \<Rightarrow> pystr option \<Rightarrow> stamp \<Rightarrow> frame_identity" where
  "sdk_identity c n key st =
     \<lparr>fi_version = Good (1, 0), fi_run_id = Good (sc_run c), fi_attempt_id = Good (sc_attempt c),
      fi_lease_epoch = sc_epoch c, fi_sequence = n,
      fi_key = (case key of None \<Rightarrow> uuid_str (fst st) | Some k \<Rightarrow> k),
      fi_traceparent = make_traceparent (sc_trace c) (snd st)\<rparr>"

definition sdk_frame ::
  "sdk_funs \<Rightarrow> sdk_client \<Rightarrow> nat \<Rightarrow> pystr option \<Rightarrow> stamp \<Rightarrow> payload \<Rightarrow> agent_frame" where
  "sdk_frame F c n key st p =
     (let fi = sdk_identity c n key st in
      \<lparr>fr_identity = fi, fr_payload = p, fr_size = sf_size F fi p\<rparr>)"

section \<open>\<open>connect\<close>\<close>

text \<open>An outcome: None when the call never returns; otherwise the exception or the value, the
  client and the channel.\<close>

type_synonym ('a, 'w) outcome = "((sdk_error + 'a) \<times> sdk_client \<times> 'w) option"

text \<open>\<open>decode_run_input\<close>; the identity in the received input is one the Runtime API wrote.\<close>

definition decode_run_input ::
  "sdk_funs \<Rightarrow> run_input option \<Rightarrow> uuid option
     \<Rightarrow> sdk_error + (run_input \<times> uuid option) option" where
  "decode_run_input F input checkpoint =
     (case input of
        None \<Rightarrow> Inr None
      | Some i \<Rightarrow>
          if 24576 < sf_input_octets F i checkpoint then Inl (platform_error ''run_input_too_large'')
          else Inr (Some (i, checkpoint)))"

text \<open>\<open>_raise_response\<close>.\<close>

fun response_error :: "incoming \<Rightarrow> sdk_error" where
  "response_error (Received (P_error code)) = Platform_error code"
| "response_error _ = platform_error ''transport_unavailable''"

fun write_all ::
  "'w transport \<Rightarrow> agent_frame list \<Rightarrow> 'w \<Rightarrow> rpc_status option \<times> 'w" where
  "write_all tp [] w = (None, w)"
| "write_all tp (f # fs) w =
     (case tp_write tp f w of
        (Some s, w') \<Rightarrow> (Some s, w')
      | (None, w') \<Rightarrow> write_all tp fs w')"

definition unacknowledged :: "sdk_client \<Rightarrow> agent_frame list" where
  "unacknowledged c = map snd (filter (\<lambda>p. sc_last_ack c < fst p) (sort_key fst (sc_pending c)))"

definition resume_stream ::
  "sdk_funs \<Rightarrow> 'w transport \<Rightarrow> nat \<Rightarrow> int \<Rightarrow> run_input option \<Rightarrow> uuid option \<Rightarrow> sdk_client \<Rightarrow> 'w
     \<Rightarrow> (unit, 'w) outcome" where
  "resume_stream F tp resume deadline input checkpoint c w =
     (let c1 = c\<lparr>sc_last_ack := resume, sc_deadline := Some deadline\<rparr> in
      case decode_run_input F input checkpoint of
        Inl e \<Rightarrow> Some (Inl e, c1, w)
      | Inr i \<Rightarrow>
          (let c2 = c1\<lparr>sc_input := i\<rparr> in
           case write_all tp (unacknowledged c2) w of
             (Some s, w') \<Rightarrow> Some (Inl (Rpc_failure s), c2, w')
           | (None, w') \<Rightarrow> Some (Inr (), c2, w')))"

definition connect ::
  "sdk_funs \<Rightarrow> 'w transport \<Rightarrow> stamp \<Rightarrow> sdk_client \<Rightarrow> 'w \<Rightarrow> (unit, 'w) outcome" where
  "connect F tp st c0 w0 =
     (let c = c0\<lparr>sc_connected := True\<rparr> in
      case tp_write tp (sdk_frame F c 0 (Some ''hello'') st (F_hello (sc_capability c)))
             (tp_open tp w0) of
        (Some s, w1) \<Rightarrow> Some (Inl (Rpc_failure s), c, w1)
      | (None, w1) \<Rightarrow>
          (case tp_read tp w1 of
             (Silent, w2) \<Rightarrow> None
           | (Broken s, w2) \<Rightarrow> Some (Inl (Rpc_failure s), c, w2)
           | (Received (P_hello_accepted resume deadline frame_bytes in_flight input checkpoint), w2)
               \<Rightarrow> resume_stream F tp resume deadline input checkpoint c w2
           | (r, w2) \<Rightarrow> Some (Inl (response_error r), c, w2)))"

text \<open>\<open>close\<close>: the stream is ended and the channel closed.\<close>

definition sdk_close :: "'w transport \<Rightarrow> sdk_client \<Rightarrow> 'w \<Rightarrow> sdk_client \<times> 'w" where
  "sdk_close tp c w = (c\<lparr>sc_connected := False\<rparr>, tp_close tp w)"

section \<open>Waiting for the answer\<close>

text \<open>An acknowledgement covers all frames up to its sequence.\<close>

definition acknowledge :: "nat \<Rightarrow> sdk_client \<Rightarrow> sdk_client" where
  "acknowledge n c =
     c\<lparr>sc_last_ack := max (sc_last_ack c) n,
       sc_pending := filter (\<lambda>p. \<not> fst p \<le> n) (sc_pending c)\<rparr>"

type_synonym acknowledgement = "nat \<times> uuid option"

text \<open>The loop over the frames read. \<open>take\<close> recognises the result the call waits for and checks
  it; frames it does not know are skipped, and so is the end of the stream.\<close>

partial_function (option) await_reply ::
  "'w transport \<Rightarrow> (platform_payload \<Rightarrow> (sdk_error + 'r) option) \<Rightarrow> 'r option \<Rightarrow> sdk_client \<Rightarrow> 'w
     \<Rightarrow> (acknowledgement \<times> 'r option, 'w) outcome" where
  "await_reply tp recognise r c w =
     (case tp_read tp w of
        (Silent, w') \<Rightarrow> None
      | (Broken s, w') \<Rightarrow> Some (Inl (Rpc_failure s), c, w')
      | (End_of_stream, w') \<Rightarrow> await_reply tp recognise r c w'
      | (Cancellation, w') \<Rightarrow> await_reply tp recognise r (c\<lparr>sc_cancelled := True\<rparr>) w'
      | (Received p, w') \<Rightarrow>
          (case p of
             P_error code \<Rightarrow> Some (Inl (Platform_error code), c, w')
           | P_acknowledgement n event \<Rightarrow> Some (Inr ((n, event), r), acknowledge n c, w')
           | _ \<Rightarrow>
               (case recognise p of
                  None \<Rightarrow> await_reply tp recognise r c w'
                | Some (Inl e) \<Rightarrow> Some (Inl e, c, w')
                | Some (Inr v) \<Rightarrow> await_reply tp recognise (Some v) c w')))"

section \<open>\<open>send\<close>\<close>

definition next_sequence :: "sdk_client \<Rightarrow> nat" where
  "next_sequence c = fold max (map fst (sc_pending c)) (sc_last_ack c) + 1"

text \<open>One attempt: the frame is written, or the stream is opened again, which writes all frames
  that are not acknowledged; then the answer is awaited.\<close>

definition transmit ::
  "sdk_funs \<Rightarrow> 'w transport \<Rightarrow> stamp \<Rightarrow> agent_frame \<Rightarrow> sdk_client \<Rightarrow> 'w \<Rightarrow> (unit, 'w) outcome" where
  "transmit F tp st f c w =
     (if sc_connected c then
        (case tp_write tp f w of
           (Some s, w') \<Rightarrow> Some (Inl (Rpc_failure s), c, w')
         | (None, w') \<Rightarrow> Some (Inr (), c, w'))
      else connect F tp st c w)"

definition send_once ::
  "sdk_funs \<Rightarrow> 'w transport \<Rightarrow> stamp \<Rightarrow> agent_frame \<Rightarrow> sdk_client \<Rightarrow> 'w
     \<Rightarrow> (acknowledgement, 'w) outcome" where
  "send_once F tp st f c w =
     (case transmit F tp st f c w of
        None \<Rightarrow> None
      | Some (Inl e, c1, w1) \<Rightarrow> Some (Inl e, c1, w1)
      | Some (Inr _, c1, w1) \<Rightarrow>
          (case await_reply tp (\<lambda>p. None :: (sdk_error + unit) option) None c1 w1 of
             None \<Rightarrow> None
           | Some (Inl e, c2, w2) \<Rightarrow> Some (Inl e, c2, w2)
           | Some (Inr (a, _), c2, w2) \<Rightarrow> Some (Inr a, c2, w2)))"

definition transient :: "rpc_status \<Rightarrow> bool" where
  "transient s \<longleftrightarrow> s = Unavailable \<or> s = Cancelled_call"

text \<open>The attempts, \<open>n\<close> of them left; each may need the stamp of a hello.\<close>

fun send_attempts ::
  "sdk_funs \<Rightarrow> 'w transport \<Rightarrow> nat \<Rightarrow> (nat \<Rightarrow> stamp) \<Rightarrow> agent_frame \<Rightarrow> sdk_client \<Rightarrow> 'w
     \<Rightarrow> (acknowledgement, 'w) outcome" where
  "send_attempts F tp 0 st f c w = Some (Inl Sdk_assertion, c, w)"
| "send_attempts F tp (Suc n) st f c w =
     (case send_once F tp (st n) f c w of
        Some (Inl (Rpc_failure s), c1, w1) \<Rightarrow>
          (let c2 = c1\<lparr>sc_connected := False\<rparr> in
           if \<not> transient s then Some (Inl (platform_error ''transport_error''), c2, w1)
           else if n = 0 then Some (Inl (platform_error ''transport_unavailable''), c2, w1)
           else send_attempts F tp n st f c2 w1)
      | result \<Rightarrow> result)"

definition max_send_attempts :: nat where
  "max_send_attempts = 4"

text \<open>The connection a call starts with; its failures are not caught.\<close>

definition ensure_connected ::
  "sdk_funs \<Rightarrow> 'w transport \<Rightarrow> stamp \<Rightarrow> sdk_client \<Rightarrow> 'w \<Rightarrow> (unit, 'w) outcome" where
  "ensure_connected F tp st c w =
     (if sc_connected c then Some (Inr (), c, w) else connect F tp st c w)"

definition enqueue :: "agent_frame \<Rightarrow> sdk_client \<Rightarrow> sdk_client" where
  "enqueue f c = c\<lparr>sc_pending := sc_pending c @ [(fi_sequence (fr_identity f), f)]\<rparr>"

text \<open>The stamps are those of the first hello, of the frame and of the attempts.\<close>

record send_stamps =
  ss_hello :: stamp
  ss_frame :: stamp
  ss_retry :: "nat \<Rightarrow> stamp"

definition send ::
  "sdk_funs \<Rightarrow> 'w transport \<Rightarrow> send_stamps \<Rightarrow> payload \<Rightarrow> sdk_client \<Rightarrow> 'w
     \<Rightarrow> (acknowledgement, 'w) outcome" where
  "send F tp x p c0 w0 =
     (case ensure_connected F tp (ss_hello x) c0 w0 of
        None \<Rightarrow> None
      | Some (Inl e, c1, w1) \<Rightarrow> Some (Inl e, c1, w1)
      | Some (Inr _, c1, w1) \<Rightarrow>
          (let f = sdk_frame F c1 (next_sequence c1) None (ss_frame x) p in
           send_attempts F tp max_send_attempts (ss_retry x) f (enqueue f c1) w1))"

section \<open>\<open>model\<close> and \<open>tool\<close>\<close>

text \<open>Both write their frame once: a failure of the channel is not caught.\<close>

definition call_once ::
  "sdk_funs \<Rightarrow> 'w transport \<Rightarrow> send_stamps \<Rightarrow> uuid \<Rightarrow> payload \<Rightarrow> pystr
     \<Rightarrow> (platform_payload \<Rightarrow> (sdk_error + 'r) option) \<Rightarrow> sdk_client \<Rightarrow> 'w \<Rightarrow> ('r, 'w) outcome" where
  "call_once F tp x request p missing recognise c0 w0 =
     (case ensure_connected F tp (ss_hello x) c0 w0 of
        None \<Rightarrow> None
      | Some (Inl e, c1, w1) \<Rightarrow> Some (Inl e, c1, w1)
      | Some (Inr _, c1, w1) \<Rightarrow>
          (let f = sdk_frame F c1 (next_sequence c1) (Some (uuid_str request)) (ss_frame x) p;
               c2 = enqueue f c1 in
           case tp_write tp f w1 of
             (Some s, w2) \<Rightarrow> Some (Inl (Rpc_failure s), c2, w2)
           | (None, w2) \<Rightarrow>
               (case await_reply tp recognise None c2 w2 of
                  None \<Rightarrow> None
                | Some (Inl e, c3, w3) \<Rightarrow> Some (Inl e, c3, w3)
                | Some (Inr (_, None), c3, w3) \<Rightarrow> Some (Inl (platform_error missing), c3, w3)
                | Some (Inr (_, Some r), c3, w3) \<Rightarrow> Some (Inr r, c3, w3))))"

fun take_model_result ::
  "uuid \<Rightarrow> platform_payload \<Rightarrow> (sdk_error + model_response) option" where
  "take_model_result request (P_model_result received r) =
     Some (if received \<noteq> uuid_str request then Inl (platform_error ''model_response_mismatch'')
           else if \<not> utf8_valid (mr_content r) then Inl (platform_error ''model_response_invalid'')
           else if mr_content r = [] \<or> 12 * 1024 < length (mr_content r)
           then Inl (platform_error ''model_response_invalid'')
           else Inr r)"
| "take_model_result request _ = None"

definition model_request_ok :: "pystr \<Rightarrow> pystr \<Rightarrow> int \<Rightarrow> bool" where
  "model_request_ok prompt model tokens \<longleftrightarrow>
     \<not> (prompt = [] \<or> 12 * 1024 < length prompt \<or> model = [] \<or> 128 < char_count model
        \<or> \<not> (1 \<le> tokens \<and> tokens \<le> 4096))"

definition sdk_model ::
  "sdk_funs \<Rightarrow> 'w transport \<Rightarrow> send_stamps \<Rightarrow> uuid \<Rightarrow> pystr \<Rightarrow> pystr \<Rightarrow> int \<Rightarrow> sdk_client \<Rightarrow> 'w
     \<Rightarrow> (model_response, 'w) outcome" where
  "sdk_model F tp x request prompt model tokens c w =
     (if \<not> model_request_ok prompt model tokens then Some (Inl Sdk_value_error, c, w)
      else call_once F tp x request
        (F_model_call \<lparr>ml_request_id = uuid_str request, ml_model = model, ml_prompt = prompt,
           ml_max_output_tokens = nat tokens\<rparr>)
        ''model_response_missing'' (take_model_result request) c w)"

fun take_tool_result ::
  "sdk_funs \<Rightarrow> uuid \<Rightarrow> platform_payload \<Rightarrow> (sdk_error + tool_result) option" where
  "take_tool_result F invocation (P_tool_result received result is_error) =
     Some (if received \<noteq> Good invocation then Inl (platform_error ''tool_response_mismatch'')
           else if 12 * 1024 < sf_result_octets F result
           then Inl (platform_error ''tool_response_invalid'')
           else Inr (result, is_error))"
| "take_tool_result F invocation _ = None"

text \<open>The arguments are given by their JSON text.\<close>

definition sdk_tool ::
  "sdk_funs \<Rightarrow> 'w transport \<Rightarrow> send_stamps \<Rightarrow> uuid \<Rightarrow> pystr \<Rightarrow> pystr \<Rightarrow> sdk_client \<Rightarrow> 'w
     \<Rightarrow> (tool_result, 'w) outcome" where
  "sdk_tool F tp x invocation tool arguments c w =
     (if tool = [] \<or> 128 < char_count tool \<or> 8 * 1024 < length arguments
      then Some (Inl Sdk_value_error, c, w)
      else
        (case sf_struct F arguments of
           None \<Rightarrow> Some (Inl Sdk_value_error, c, w)
         | Some received \<Rightarrow>
             call_once F tp x invocation
               (F_tool_call \<lparr>tl_invocation_id = Good invocation, tl_tool = tool,
                  tl_arguments = received\<rparr>)
               ''tool_response_missing'' (take_tool_result F invocation) c w))"

section \<open>\<open>propose_result\<close>\<close>

definition sdk_propose_result ::
  "sdk_funs \<Rightarrow> 'w transport \<Rightarrow> send_stamps \<Rightarrow> uuid list \<Rightarrow> uuid option \<Rightarrow> sdk_client \<Rightarrow> 'w
     \<Rightarrow> (acknowledgement, 'w) outcome" where
  "sdk_propose_result F tp x ids checkpoint c w =
     (if 64 < length ids \<or> \<not> distinct ids then Some (Inl Sdk_value_error, c, w)
      else send F tp x (F_result_proposed (map Good ids) (opt_fld checkpoint)) c w)"

section \<open>\<open>from_environment\<close>\<close>

text \<open>\<open>loads\<close> reads the JSON text of the claims (None when it is no object).\<close>

definition from_environment ::
  "(pystr \<Rightarrow> token_claims option) \<Rightarrow> pystr \<Rightarrow> pystr \<Rightarrow> sdk_error + sdk_client" where
  "from_environment loads endpoint capability =
     (let invalid = Inl (platform_error ''bootstrap_invalid'') in
      if endpoint = [] \<or> 512 < char_count endpoint \<or> capability = [] \<or> 32768 < char_count capability
      then invalid
      else
        (case split_on (CHR ''.'') capability of
           [encoded, signature] \<Rightarrow>
             if encoded = [] \<or> signature = [] then invalid
             else
               (case Option.bind (token_decode encoded) loads of
                  None \<Rightarrow> invalid
                | Some claims \<Rightarrow>
                    (case (tc_run_id claims, tc_attempt_id claims, tc_lease_epoch claims,
                           tc_trace_id claims) of
                       (Good run, Good attempt, Good epoch, Good trace) \<Rightarrow>
                         if epoch < 1 \<or> char_count trace \<noteq> 32 \<or> \<not> list_all is_hex trace then invalid
                         else Inr (new_client run attempt (nat epoch) capability trace)
                     | _ \<Rightarrow> invalid))
         | _ \<Rightarrow> invalid))"

end
