(* ===== verification/AgentMessages.thy ===== *)
theory AgentMessages
  imports AgentSdk Base64 Checkpoint
begin

text \<open>
  What agents do with the client: a streamed message (\<open>MessageStream\<close> of \<open>runtime.py\<close>), the client
  of the Checkpoint API (\<open>checkpoints.py\<close>), the suspension of an activation for human input
  (\<open>suspension.py\<close>) and the LangGraph checkpointer (\<open>langgraph.py\<close>).
\<close>

section \<open>\<open>MessageStream\<close>\<close>

record message_stream =
  mw_message_id :: uuid
  mw_content_type :: pystr
  mw_chunks :: "pystr list option"
  mw_terminal :: bool

text \<open>\<open>RuntimeClient.message\<close>.\<close>

definition sdk_message :: "uuid \<Rightarrow> pystr \<Rightarrow> message_stream" where
  "sdk_message message content_type =
     \<lparr>mw_message_id = message, mw_content_type = content_type, mw_chunks = None,
      mw_terminal = False\<rparr>"

text \<open>Every operation yields the stream, whether it raises or not.\<close>

type_synonym ('a, 'w) stream_outcome = "((sdk_error + 'a) \<times> message_stream \<times> sdk_client \<times> 'w) option"

definition send_of ::
  "message_stream \<Rightarrow> message_stream \<Rightarrow> (acknowledgement, 'w) outcome \<Rightarrow> (unit, 'w) stream_outcome" where
  "send_of raised done result =
     (case result of
        None \<Rightarrow> None
      | Some (Inl e, c, w) \<Rightarrow> Some (Inl e, raised, c, w)
      | Some (Inr _, c, w) \<Rightarrow> Some (Inr (), done, c, w))"

text \<open>\<open>__aenter__\<close>.\<close>

definition message_enter ::
  "sdk_funs \<Rightarrow> 'w transport \<Rightarrow> send_stamps \<Rightarrow> message_stream \<Rightarrow> sdk_client \<Rightarrow> 'w
     \<Rightarrow> (unit, 'w) stream_outcome" where
  "message_enter F tp x m c w =
     (let m1 = m\<lparr>mw_chunks := Some []\<rparr> in
      send_of m1 m1
        (send F tp x (F_message_started (Good (mw_message_id m)) (mw_content_type m)) c w))"

text \<open>The chunk is recorded before it is sent.\<close>

definition message_delta ::
  "sdk_funs \<Rightarrow> 'w transport \<Rightarrow> send_stamps \<Rightarrow> pystr \<Rightarrow> message_stream \<Rightarrow> sdk_client \<Rightarrow> 'w
     \<Rightarrow> (unit, 'w) stream_outcome" where
  "message_delta F tp x content m c w =
     (case (mw_terminal m, mw_chunks m) of
        (False, Some chunks) \<Rightarrow>
          if content = [] \<or> 4096 < length content then Some (Inl Sdk_value_error, m, c, w)
          else
            (let m1 = m\<lparr>mw_chunks := Some (chunks @ [content])\<rparr> in
             send_of m1 m1
               (send F tp x
                 (F_message_delta (Good (mw_message_id m)) (length (chunks @ [content])) content) c w))
      | _ \<Rightarrow> Some (Inl Sdk_runtime_error, m, c, w))"

definition completed_frame :: "sdk_funs \<Rightarrow> uuid \<Rightarrow> pystr list \<Rightarrow> pystr \<Rightarrow> payload" where
  "completed_frame F message chunks finish_reason =
     F_message_completed
       \<lparr>mc_message_id = Good message, mc_content = concat chunks, mc_chunk_count = length chunks,
        mc_content_bytes = length (concat chunks), mc_content_sha256 = sf_sha256 F (concat chunks),
        mc_finish_reason = finish_reason, mc_usage = None\<rparr>"

definition message_complete ::
  "sdk_funs \<Rightarrow> 'w transport \<Rightarrow> send_stamps \<Rightarrow> pystr \<Rightarrow> message_stream \<Rightarrow> sdk_client \<Rightarrow> 'w
     \<Rightarrow> (unit, 'w) stream_outcome" where
  "message_complete F tp x finish_reason m c w =
     (case (mw_terminal m, mw_chunks m) of
        (False, Some chunks) \<Rightarrow>
          if 256 * 1024 < length (concat chunks) then Some (Inl Sdk_value_error, m, c, w)
          else send_of m (m\<lparr>mw_terminal := True\<rparr>)
                 (send F tp x (completed_frame F (mw_message_id m) chunks finish_reason) c w)
      | _ \<Rightarrow> Some (Inl Sdk_runtime_error, m, c, w))"

definition message_interrupt ::
  "sdk_funs \<Rightarrow> 'w transport \<Rightarrow> send_stamps \<Rightarrow> pystr \<Rightarrow> message_stream \<Rightarrow> sdk_client \<Rightarrow> 'w
     \<Rightarrow> (unit, 'w) stream_outcome" where
  "message_interrupt F tp x code m c w =
     (if mw_terminal m then Some (Inr (), m, c, w)
      else send_of m (m\<lparr>mw_terminal := True\<rparr>)
             (send F tp x (F_message_interrupted (Good (mw_message_id m)) code) c w))"

text \<open>\<open>__aexit__\<close>: the body raised or not.\<close>

definition message_exit ::
  "sdk_funs \<Rightarrow> 'w transport \<Rightarrow> send_stamps \<Rightarrow> bool \<Rightarrow> message_stream \<Rightarrow> sdk_client \<Rightarrow> 'w
     \<Rightarrow> (unit, 'w) stream_outcome" where
  "message_exit F tp x raised m c w =
     (if mw_terminal m then Some (Inr (), m, c, w)
      else if raised then message_interrupt F tp x ''agent_interrupted'' m c w
      else message_complete F tp x ''stop'' m c w)"

text \<open>The body of an \<open>async with\<close> block that writes the given deltas, each with its stamps; it
  raises at the first one that fails.\<close>

fun message_deltas ::
  "sdk_funs \<Rightarrow> 'w transport \<Rightarrow> (send_stamps \<times> pystr) list \<Rightarrow> message_stream \<Rightarrow> sdk_client \<Rightarrow> 'w
     \<Rightarrow> (unit, 'w) stream_outcome" where
  "message_deltas F tp [] m c w = Some (Inr (), m, c, w)"
| "message_deltas F tp ((x, content) # ds) m c w =
     (case message_delta F tp x content m c w of
        Some (Inr _, m1, c1, w1) \<Rightarrow> message_deltas F tp ds m1 c1 w1
      | result \<Rightarrow> result)"

text \<open>The block: an exception of the body is raised again unless leaving the block raises.\<close>

definition stream_message ::
  "sdk_funs \<Rightarrow> 'w transport \<Rightarrow> send_stamps \<times> send_stamps \<Rightarrow> (send_stamps \<times> pystr) list \<Rightarrow> uuid
     \<Rightarrow> pystr \<Rightarrow> sdk_client \<Rightarrow> 'w \<Rightarrow> (unit, 'w) stream_outcome" where
  "stream_message F tp xs ds message content_type c w =
     (case message_enter F tp (fst xs) (sdk_message message content_type) c w of
        Some (Inr _, m1, c1, w1) \<Rightarrow>
          (case message_deltas F tp ds m1 c1 w1 of
             None \<Rightarrow> None
           | Some (Inr _, m2, c2, w2) \<Rightarrow> message_exit F tp (snd xs) False m2 c2 w2
           | Some (Inl e, m2, c2, w2) \<Rightarrow>
               (case message_exit F tp (snd xs) True m2 c2 w2 of
                  Some (Inr _, m3, c3, w3) \<Rightarrow> Some (Inl e, m3, c3, w3)
                | result \<Rightarrow> result))
      | result \<Rightarrow> result)"

section \<open>\<open>CheckpointClient\<close>\<close>

record checkpoint_metadata =
  cm_checkpoint_id :: uuid
  cm_thread_id :: uuid
  cm_version :: nat
  cm_serialization_version :: pystr
  cm_payload_sha256 :: pystr
  cm_created_at :: instant

text \<open>An answer of the service: a success, a problem with its code (\<open>platform_error\<close> when the body
  has none), or no answer. The service is three operations on its state: they take the thread,
  what the path and the body say, and the bearer token. The payload of a read is its base64
  text.\<close>

datatype 'a reply = Reply_ok 'a | Reply_problem pystr | Reply_failed

record 'k checkpoint_service =
  cs_put :: "uuid \<Rightarrow> uuid \<Rightarrow> put_body \<Rightarrow> pystr \<Rightarrow> pystr \<Rightarrow> 'k \<Rightarrow> checkpoint_metadata reply \<times> 'k"
  cs_get :: "uuid \<Rightarrow> uuid \<Rightarrow> pystr \<Rightarrow> 'k \<Rightarrow> (checkpoint_metadata \<times> pystr) reply"
  cs_list :: "uuid \<Rightarrow> pystr \<Rightarrow> 'k \<Rightarrow> checkpoint_metadata list reply"

record checkpoint_client =
  cc_thread :: uuid
  cc_run :: uuid
  cc_attempt :: uuid
  cc_epoch :: int
  cc_capability :: pystr

text \<open>\<open>_raise\<close>.\<close>

fun raise_reply :: "'a reply \<Rightarrow> sdk_error + 'a" where
  "raise_reply (Reply_ok a) = Inr a"
| "raise_reply (Reply_problem code) = Inl (platform_error code)"
| "raise_reply Reply_failed = Inl Http_failure"

text \<open>The body of a write. The service reads the payload with the strict decoder.\<close>

definition read_payload :: "pystr \<Rightarrow> pystr fld" where
  "read_payload text = (case b64decode_strict text of None \<Rightarrow> Malformed | Some p \<Rightarrow> Good p)"

definition sdk_put_body ::
  "(pystr \<Rightarrow> pystr) \<Rightarrow> checkpoint_client \<Rightarrow> pystr \<Rightarrow> nat \<Rightarrow> pystr \<Rightarrow> put_body" where
  "sdk_put_body sha cc payload expected serialization =
     \<lparr>b_run_id = cc_run cc, b_attempt_id = cc_attempt cc, b_lease_epoch = cc_epoch cc,
      b_expected_version = expected, b_serialization_version = serialization,
      b_payload = read_payload (b64_std_encode payload), b_payload_sha256 = sha payload\<rparr>"

definition client_put ::
  "(pystr \<Rightarrow> pystr) \<Rightarrow> 'k checkpoint_service \<Rightarrow> checkpoint_client \<Rightarrow> pystr \<Rightarrow> nat \<Rightarrow> pystr \<Rightarrow> uuid
     \<Rightarrow> pystr \<Rightarrow> 'k \<Rightarrow> (sdk_error + checkpoint_metadata) \<times> 'k" where
  "client_put sha S cc payload expected serialization checkpoint key k =
     (case cs_put S (cc_thread cc) checkpoint (sdk_put_body sha cc payload expected serialization)
             key (cc_capability cc) k of
        (r, k') \<Rightarrow> (raise_reply r, k'))"

text \<open>A payload that is no base64 is a \<open>binascii.Error\<close>.\<close>

definition client_get ::
  "'k checkpoint_service \<Rightarrow> checkpoint_client \<Rightarrow> uuid \<Rightarrow> 'k
     \<Rightarrow> sdk_error + (checkpoint_metadata \<times> pystr)" where
  "client_get S cc checkpoint k =
     (case raise_reply (cs_get S (cc_thread cc) checkpoint (cc_capability cc) k) of
        Inl e \<Rightarrow> Inl e
      | Inr (item, text) \<Rightarrow>
          (case b64decode_strict text of
             None \<Rightarrow> Inl Sdk_value_error
           | Some payload \<Rightarrow> Inr (item, payload)))"

definition client_list ::
  "'k checkpoint_service \<Rightarrow> checkpoint_client \<Rightarrow> 'k \<Rightarrow> sdk_error + checkpoint_metadata list" where
  "client_list S cc k = raise_reply (cs_list S (cc_thread cc) (cc_capability cc) k)"

text \<open>\<open>put_json\<close> and \<open>get_json\<close>; \<open>dumps\<close> and \<open>loads\<close> are those of the JSON library.\<close>

definition client_put_json ::
  "('j \<Rightarrow> pystr) \<Rightarrow> (pystr \<Rightarrow> pystr) \<Rightarrow> 'k checkpoint_service \<Rightarrow> checkpoint_client \<Rightarrow> 'j \<Rightarrow> nat
     \<Rightarrow> uuid \<Rightarrow> pystr \<Rightarrow> 'k \<Rightarrow> (sdk_error + checkpoint_metadata) \<times> 'k" where
  "client_put_json dumps sha S cc v expected checkpoint key k =
     client_put sha S cc (dumps v) expected ''json-v1'' checkpoint key k"

definition client_get_json ::
  "(pystr \<Rightarrow> 'j option) \<Rightarrow> 'k checkpoint_service \<Rightarrow> checkpoint_client \<Rightarrow> uuid \<Rightarrow> 'k \<Rightarrow> sdk_error + 'j" where
  "client_get_json loads S cc checkpoint k =
     (case client_get S cc checkpoint k of
        Inl e \<Rightarrow> Inl e
      | Inr (_, payload) \<Rightarrow>
          (case loads payload of None \<Rightarrow> Inl Sdk_value_error | Some v \<Rightarrow> Inr v))"

section \<open>\<open>LangGraphCheckpointer\<close>\<close>

text \<open>The entries of \<open>configurable\<close> the class reads; a state is the triple of the checkpoint, its
  metadata and the new versions.\<close>

record graph_config =
  gc_thread_id :: "uuid option"
  gc_checkpoint_id :: "uuid option"
  gc_checkpoint_version :: "nat option"

definition graph_get ::
  "(pystr \<Rightarrow> 'j option) \<Rightarrow> 'k checkpoint_service \<Rightarrow> checkpoint_client \<Rightarrow> graph_config \<Rightarrow> 'k
     \<Rightarrow> sdk_error + (graph_config \<times> 'j) option" where
  "graph_get loads S cc config k =
     (case (case gc_checkpoint_id config of
              Some i \<Rightarrow> Inr (Some i)
            | None \<Rightarrow>
                (case client_list S cc k of
                   Inl e \<Rightarrow> Inl e
                 | Inr [] \<Rightarrow> Inr None
                 | Inr (item # _) \<Rightarrow> Inr (Some (cm_checkpoint_id item)))) of
        Inl e \<Rightarrow> Inl e
      | Inr None \<Rightarrow> Inr None
      | Inr (Some i) \<Rightarrow>
          (case client_get_json loads S cc i k of
             Inl e \<Rightarrow> Inl e
           | Inr v \<Rightarrow> Inr (Some (config, v))))"

definition graph_list ::
  "'k checkpoint_service \<Rightarrow> checkpoint_client \<Rightarrow> nat option \<Rightarrow> 'k \<Rightarrow> sdk_error + (uuid \<times> nat) list" where
  "graph_list S cc limit k =
     (case client_list S cc k of
        Inl e \<Rightarrow> Inl e
      | Inr items \<Rightarrow>
          Inr (map (\<lambda>i. (cm_thread_id i, cm_version i))
                 (case limit of None \<Rightarrow> items | Some n \<Rightarrow> take n items)))"

text \<open>An absent version is 0. The identity and the key of the write are fresh.\<close>

definition graph_put ::
  "('j \<Rightarrow> pystr) \<Rightarrow> (pystr \<Rightarrow> pystr) \<Rightarrow> 'k checkpoint_service \<Rightarrow> checkpoint_client \<Rightarrow> uuid \<times> uuid
     \<Rightarrow> graph_config \<Rightarrow> 'j \<Rightarrow> 'k \<Rightarrow> (sdk_error + graph_config) \<times> 'k" where
  "graph_put dumps sha S cc fresh config v k =
     (case client_put_json dumps sha S cc v
             (case gc_checkpoint_version config of None \<Rightarrow> 0 | Some n \<Rightarrow> n)
             (fst fresh) (uuid_str (snd fresh)) k of
        (Inl e, k') \<Rightarrow> (Inl e, k')
      | (Inr item, k') \<Rightarrow>
          (Inr \<lparr>gc_thread_id = Some (cm_thread_id item),
                gc_checkpoint_id = Some (cm_checkpoint_id item),
                gc_checkpoint_version = Some (cm_version item)\<rparr>, k'))"

section \<open>\<open>AgentContext\<close>\<close>

text \<open>The deadline and the clock are in the same unit; \<open>ensure_active\<close> raises \<open>TimeoutError\<close>, here
  \<open>False\<close>.\<close>

definition remaining_seconds :: "instant \<Rightarrow> instant \<Rightarrow> instant" where
  "remaining_seconds now deadline = max 0 (deadline - now)"

definition ensure_active :: "instant \<Rightarrow> instant \<Rightarrow> bool" where
  "ensure_active now deadline \<longleftrightarrow> \<not> remaining_seconds now deadline \<le> 0"

section \<open>\<open>request_input\<close>\<close>

text \<open>The identities derived from the suspension; \<open>name_id\<close> is \<open>uuid5\<close> in the namespace of URLs.\<close>

definition suspension_checkpoint :: "(pystr \<Rightarrow> uuid) \<Rightarrow> uuid \<Rightarrow> uuid" where
  "suspension_checkpoint name_id s = name_id (''porfirium:checkpoint:'' @ uuid_str s)"

definition suspension_request :: "(pystr \<Rightarrow> uuid) \<Rightarrow> uuid \<Rightarrow> uuid" where
  "suspension_request name_id s = name_id (''porfirium:suspension:'' @ uuid_str s)"

definition suspension_key :: "uuid \<Rightarrow> pystr" where
  "suspension_key s = ''suspension:'' @ uuid_str s @ '':checkpoint''"

text \<open>A control character other than line feed and tab.\<close>

definition unsafe_char :: "char \<Rightarrow> bool" where
  "unsafe_char c \<longleftrightarrow> (of_char c :: nat) < 32 \<and> (of_char c :: nat) \<noteq> 10 \<and> (of_char c :: nat) \<noteq> 9"

definition prompt_ok :: "pystr \<Rightarrow> bool" where
  "prompt_ok prompt \<longleftrightarrow> prompt \<noteq> [] \<and> char_count prompt \<le> 4096 \<and> \<not> list_ex unsafe_char prompt"

text \<open>The two frames after the checkpoint. \<open>Inr\<close> is the exception \<open>InputSuspended\<close>, which ends the
  activation; the schema is given by its JSON text.\<close>

definition announce_suspension ::
  "sdk_funs \<Rightarrow> 'w transport \<Rightarrow> (pystr \<Rightarrow> uuid) \<Rightarrow> send_stamps \<times> send_stamps \<Rightarrow> uuid \<Rightarrow> pystr \<Rightarrow> pystr
     \<Rightarrow> sdk_client \<Rightarrow> 'w \<Rightarrow> (uuid \<times> uuid, 'w) outcome" where
  "announce_suspension F tp name_id xs s prompt schema c w =
     (let checkpoint = suspension_checkpoint name_id s; request = suspension_request name_id s in
      case send F tp (fst xs)
             (F_input_request_proposed (Good s) (Good checkpoint) prompt (Some schema)) c w of
        None \<Rightarrow> None
      | Some (Inl e, c1, w1) \<Rightarrow> Some (Inl e, c1, w1)
      | Some (Inr _, c1, w1) \<Rightarrow>
          (case send F tp (snd xs)
                  (F_suspension_committed (Good s) (Good checkpoint) (Good request)) c1 w1 of
             None \<Rightarrow> None
           | Some (Inl e, c2, w2) \<Rightarrow> Some (Inl e, c2, w2)
           | Some (Inr _, c2, w2) \<Rightarrow> Some (Inr (s, request), c2, w2)))"

definition request_input ::
  "sdk_funs \<Rightarrow> 'w transport \<Rightarrow> (pystr \<Rightarrow> uuid) \<Rightarrow> 'k checkpoint_service \<Rightarrow> checkpoint_client
     \<Rightarrow> send_stamps \<times> send_stamps \<Rightarrow> pystr \<Rightarrow> nat \<Rightarrow> pystr \<Rightarrow> pystr \<Rightarrow> uuid \<Rightarrow> sdk_client \<Rightarrow> 'w \<Rightarrow> 'k
     \<Rightarrow> ((uuid \<times> uuid, 'w) outcome) \<times> 'k" where
  "request_input F tp name_id S cc xs payload expected prompt schema s c w k =
     (if \<not> prompt_ok prompt then (Some (Inl Sdk_value_error, c, w), k)
      else
        (case client_put (sf_sha256 F) S cc payload expected ''json-v1''
                (suspension_checkpoint name_id s) (suspension_key s) k of
           (Inl e, k') \<Rightarrow> (Some (Inl e, c, w), k')
         | (Inr _, k') \<Rightarrow>
             (case sf_struct F schema of
                None \<Rightarrow> (Some (Inl Sdk_value_error, c, w), k')
              | Some received \<Rightarrow>
                  (announce_suspension F tp name_id xs s prompt received c w, k'))))"

end
