(* ===== verification/AgentLink.thy ===== *)
theory AgentLink
  imports AgentMessages
begin

text \<open>
  The client of an agent connected to the Agent Runtime API: a channel with faults between
  \<open>AgentSdk\<close> and \<open>serve_frame\<close>, the services behind the Checkpoint API's client, and what a call of
  the client does to the stream and the database.
\<close>

section \<open>The channel\<close>

text \<open>What happens to a frame that is written: it is delivered and answered, the connection breaks
  before it arrives, or the connection breaks before the answer arrives. After the schedule every
  frame is delivered.\<close>

datatype fault = Delivered | Lost_frame | Lost_reply

record link =
  lk_db :: runtime_db
  lk_stream :: stream_state
  lk_inbox :: "platform_frame list"
  lk_broken :: bool
  lk_faults :: "fault list"
  lk_clock :: nat

record runtime_side =
  rx_funs :: runtime_funs
  rx_gateways :: runtime_gateways
  rx_env :: "nat \<Rightarrow> runtime_env"

definition link_open :: "link \<Rightarrow> link" where
  "link_open l = l\<lparr>lk_stream := Awaiting_hello, lk_inbox := [], lk_broken := False\<rparr>"

definition link_close :: "link \<Rightarrow> link" where
  "link_close l = l\<lparr>lk_stream := Closed, lk_inbox := []\<rparr>"

definition link_serve :: "runtime_side \<Rightarrow> agent_frame \<Rightarrow> link \<Rightarrow> link" where
  "link_serve R f l =
     (case serve_frame (rx_funs R) (rx_gateways R) f (rx_env R (lk_clock l)) (lk_stream l) (lk_db l) of
        (out, stream, db) \<Rightarrow>
          l\<lparr>lk_db := db, lk_stream := stream, lk_inbox := lk_inbox l @ out,
            lk_clock := Suc (lk_clock l)\<rparr>)"

text \<open>The channel refuses to send a message above \<open>grpc.max_send_message_length\<close>.\<close>

definition link_write :: "runtime_side \<Rightarrow> agent_frame \<Rightarrow> link \<Rightarrow> rpc_status option \<times> link" where
  "link_write R f l =
     (if lk_broken l then (Some Unavailable, l)
      else if 16 * 1024 < fr_size f then (Some Other_status, l\<lparr>lk_broken := True\<rparr>)
      else
        (case lk_faults l of
           [] \<Rightarrow> (None, link_serve R f l)
         | Delivered # fs \<Rightarrow> (None, link_serve R f (l\<lparr>lk_faults := fs\<rparr>))
         | Lost_frame # fs \<Rightarrow> (None, l\<lparr>lk_faults := fs, lk_broken := True\<rparr>)
         | Lost_reply # fs \<Rightarrow>
             (None, (link_serve R f (l\<lparr>lk_faults := fs\<rparr>))\<lparr>lk_broken := True\<rparr>)))"

definition link_read :: "link \<Rightarrow> incoming \<times> link" where
  "link_read l =
     (if lk_broken l then (Broken Unavailable, l)
      else
        (case lk_inbox l of
           p # ps \<Rightarrow> (Received (pf_payload p), l\<lparr>lk_inbox := ps\<rparr>)
         | [] \<Rightarrow>
             (case lk_stream l of
                Closed \<Rightarrow> (End_of_stream, l)
              | Aborted e \<Rightarrow> (Broken Other_status, l)
              | _ \<Rightarrow> (Silent, l))))"

definition runtime_link :: "runtime_side \<Rightarrow> link transport" where
  "runtime_link R = \<lparr>tp_open = link_open, tp_close = link_close, tp_write = link_write R, tp_read = link_read\<rparr>"

lemma runtime_link_simps [simp]:
  "tp_open (runtime_link R) = link_open" "tp_write (runtime_link R) = link_write R"
  "tp_read (runtime_link R) = link_read"
  by (simp_all add: runtime_link_def)

lemma link_open_simps [simp]:
  "lk_db (link_open l) = lk_db l" "lk_stream (link_open l) = Awaiting_hello"
  "lk_inbox (link_open l) = []" "\<not> lk_broken (link_open l)" "lk_faults (link_open l) = lk_faults l"
  "lk_clock (link_open l) = lk_clock l"
  by (simp_all add: link_open_def)

section \<open>The Checkpoint API\<close>

text \<open>The state of the service: its database and the number of writes served. \<open>admit\<close> is the
  capability of a bearer token.\<close>

type_synonym checkpoint_state = "checkpoint_db \<times> nat"

definition metadata_of :: "checkpoint_row \<Rightarrow> checkpoint_metadata" where
  "metadata_of r =
     \<lparr>cm_checkpoint_id = k_checkpoint_id r, cm_thread_id = k_thread_id r, cm_version = k_version r,
      cm_serialization_version = k_serialization_version r,
      cm_payload_sha256 = k_payload_sha256 r, cm_created_at = k_created_at r\<rparr>"

fun problem_reply :: "exc \<Rightarrow> 'a reply" where
  "problem_reply (Problem status code) = Reply_problem code"
| "problem_reply _ = Reply_problem ''platform_error''"

text \<open>The three handlers with their authentication.\<close>

definition api_put ::
  "(pystr \<Rightarrow> pystr) \<Rightarrow> (pystr \<Rightarrow> exc + Checkpoint.run_capability) \<Rightarrow> (nat \<Rightarrow> uuid \<times> instant)
     \<Rightarrow> uuid \<Rightarrow> uuid \<Rightarrow> put_body \<Rightarrow> pystr \<Rightarrow> pystr \<Rightarrow> checkpoint_state
     \<Rightarrow> checkpoint_metadata reply \<times> checkpoint_state" where
  "api_put sha bearer env thread checkpoint body key token k =
     (case bearer token of
        Inl e \<Rightarrow> (problem_reply e, fst k, Suc (snd k))
      | Inr cap \<Rightarrow>
          (case checkpoint_put sha thread checkpoint body cap key (env (snd k)) (fst k) of
             Inl e \<Rightarrow> (problem_reply e, fst k, Suc (snd k))
           | Inr (row, db') \<Rightarrow> (Reply_ok (metadata_of row), db', Suc (snd k))))"

definition api_get ::
  "(pystr \<Rightarrow> exc + Checkpoint.run_capability) \<Rightarrow> uuid \<Rightarrow> uuid \<Rightarrow> pystr \<Rightarrow> checkpoint_state
     \<Rightarrow> (checkpoint_metadata \<times> pystr) reply" where
  "api_get bearer thread checkpoint token k =
     (case bearer token of
        Inl e \<Rightarrow> problem_reply e
      | Inr cap \<Rightarrow>
          (case checkpoint_get thread checkpoint cap (fst k) of
             Inl e \<Rightarrow> problem_reply e
           | Inr row \<Rightarrow> Reply_ok (metadata_of row, b64_std_encode (k_payload row))))"

definition api_list ::
  "(pystr \<Rightarrow> exc + Checkpoint.run_capability) \<Rightarrow> uuid \<Rightarrow> pystr \<Rightarrow> checkpoint_state
     \<Rightarrow> checkpoint_metadata list reply" where
  "api_list bearer thread token k =
     (case bearer token of
        Inl e \<Rightarrow> problem_reply e
      | Inr cap \<Rightarrow>
          (case checkpoint_list thread cap (fst k) of
             Inl e \<Rightarrow> problem_reply e
           | Inr rows \<Rightarrow> Reply_ok (map metadata_of rows)))"

definition checkpoint_api ::
  "(pystr \<Rightarrow> pystr) \<Rightarrow> (pystr \<Rightarrow> exc + Checkpoint.run_capability) \<Rightarrow> (nat \<Rightarrow> uuid \<times> instant)
     \<Rightarrow> checkpoint_state checkpoint_service" where
  "checkpoint_api sha bearer env =
     \<lparr>cs_put = api_put sha bearer env, cs_get = api_get bearer, cs_list = api_list bearer\<rparr>"

section \<open>A client in step with the Runtime API\<close>

text \<open>The client and the capability of its stream name the same attempt.\<close>

definition agrees :: "runtime_capability \<Rightarrow> sdk_client \<Rightarrow> bool" where
  "agrees cap c \<longleftrightarrow> sc_run c = rk_run_id cap \<and> sc_attempt c = rk_attempt_id cap
     \<and> int (sc_epoch c) = rk_lease_epoch cap \<and> sc_trace c = rk_trace_id cap
     \<and> trace_id_ok (rk_trace_id cap)"

text \<open>The stream of the attempt stands at sequence \<open>n\<close>.\<close>

definition stands_at :: "runtime_capability \<Rightarrow> nat \<Rightarrow> runtime_db \<Rightarrow> bool" where
  "stands_at cap n db \<longleftrightarrow>
     (\<exists>row. row_by ra_run (rk_run_id cap) (rt_streams db) = Some row
        \<and> ra_epoch row = rk_lease_epoch cap \<and> ra_attempt row = rk_attempt_id cap
        \<and> ra_last_sequence row = n)
     \<and> list_all (\<lambda>f. af_run f = rk_run_id cap \<and> af_attempt f = rk_attempt_id cap
          \<and> af_epoch f = rk_lease_epoch cap \<longrightarrow> af_sequence f \<le> n) (rt_frames db)"

definition link_ready :: "runtime_capability \<Rightarrow> link \<Rightarrow> bool" where
  "link_ready cap l \<longleftrightarrow> \<not> lk_broken l \<and> lk_inbox l = [] \<and> lk_stream l = Connected cap"

definition in_step :: "runtime_capability \<Rightarrow> sdk_client \<Rightarrow> link \<Rightarrow> bool" where
  "in_step cap c l \<longleftrightarrow> agrees cap c \<and> sc_connected c \<and> sc_pending c = [] \<and> link_ready cap l
     \<and> stands_at cap (sc_last_ack c) (lk_db l)"

text \<open>What \<open>uuid4\<close> guarantees: a span that is not zero and a key no stored frame has; the event
  identities of the Runtime API are fresh.\<close>

definition fresh_stamp :: "stamp \<Rightarrow> runtime_db \<Rightarrow> bool" where
  "fresh_stamp st db \<longleftrightarrow> take 16 (uuid_hex (snd st)) \<noteq> replicate 16 (CHR ''0'')
     \<and> uuid_str (fst st) \<notin> af_key ` set (rt_frames db)"

definition fresh_events :: "runtime_side \<Rightarrow> nat \<Rightarrow> runtime_db \<Rightarrow> bool" where
  "fresh_events R n db \<longleftrightarrow> inj (\<lambda>i. xr_event_id (rx_env R i))
     \<and> (\<forall>r \<in> set (rt_outbox db). \<exists>i < n. o_event_id r = xr_event_id (rx_env R i))"

text \<open>A payload the Runtime API accepts: it is no call, its content passes the checks, its event can
  be built, the database takes it and the frame fits the channel.\<close>

definition deliverable ::
  "sdk_funs \<Rightarrow> runtime_side \<Rightarrow> runtime_capability \<Rightarrow> payload \<Rightarrow> bool" where
  "deliverable F R cap p \<longleftrightarrow>
     kind_of p \<notin> {None, Some ''hello'', Some ''model_call'', Some ''tool_call''}
     \<and> content_check (rx_funs R) p = None
     \<and> (event_of p \<noteq> None \<longrightarrow> \<not> isl (frame_data cap p))
     \<and> (\<forall>f. fr_payload f = p \<longrightarrow> hf_storable (rx_funs R) f)
     \<and> (\<forall>fi. sf_size F fi p \<le> max_frame_bytes)"

text \<open>The rows of a delivered frame.\<close>

definition published_rows ::
  "runtime_side \<Rightarrow> runtime_capability \<Rightarrow> agent_frame \<Rightarrow> nat \<Rightarrow> runtime_event outbox_row list" where
  "published_rows R cap f n =
     (let x = rx_env R n in
      case make_event (hf_key_id (rx_funs R)) cap f (xr_event_id x) (xr_now x) (xr_event_bytes x) of
        Inl e \<Rightarrow> []
      | Inr (subject, event) \<Rightarrow> [outbox_entry (xr_event_id x) subject event (xr_now x)])"

definition published_id :: "runtime_side \<Rightarrow> payload \<Rightarrow> nat \<Rightarrow> uuid option" where
  "published_id R p n = (if event_of p = None then None else Some (xr_event_id (rx_env R n)))"

lemma length_uuid_str: "length (uuid_str u) = 36"
  by (simp add: uuid_str_def Let_def)

lemma sdk_identity_valid:
  assumes "agrees cap c" and "take 16 (uuid_hex (snd st)) \<noteq> replicate 16 (CHR ''0'')"
    and "key \<noteq> Some []" and "\<And>k. key = Some k \<Longrightarrow> char_count k \<le> 128"
  shows "validate_identity (sdk_identity c n key st) cap = Inr ()"
proof -
  have k: "char_count (uuid_str u) \<le> 128" for u
    using char_count_le_length [of "uuid_str u"] length_uuid_str [of u] by simp
  have e: "uuid_str u \<noteq> []" for u using length_uuid_str [of u] by auto
  show ?thesis
    using assms match_make_traceparent [of "rk_trace_id cap" "snd st"] k e
    by (auto simp: validate_identity_def sdk_identity_def agrees_def split: option.splits)
qed

section \<open>One frame\<close>

definition delivered_db ::
  "runtime_side \<Rightarrow> runtime_capability \<Rightarrow> agent_frame \<Rightarrow> pystr \<Rightarrow> nat \<Rightarrow> runtime_db \<Rightarrow> runtime_db" where
  "delivered_db R cap f kind n db =
     db\<lparr>rt_frames := rt_frames db
          @ [accepted_frame cap (fr_identity f) kind (published_id R (fr_payload f) n)],
        rt_streams := update_where (\<lambda>r. ra_run r = rk_run_id cap)
          (\<lambda>r. r\<lparr>ra_last_sequence := fi_sequence (fr_identity f),
                 ra_heartbeat := if kind = ''heartbeat'' then Some (xr_now (rx_env R n))
                   else ra_heartbeat r\<rparr>) (rt_streams db),
        rt_outbox := rt_outbox db @ published_rows R cap f n\<rparr>"

lemma not_taken:
  assumes "stands_at cap n db"
  shows "\<not> sequence_taken cap (Suc n) (rt_frames db)"
  using assms by (auto simp: stands_at_def sequence_taken_def list_all_iff list_ex_iff)

lemma key_unknown:
  assumes "fresh_stamp st db" and "fi_key fi = uuid_str (fst st)"
  shows "find_frame cap (fi_key fi) (rt_frames db) = None"
  using assms by (auto simp: fresh_stamp_def find_frame_def frame_key_def find_None_iff image_iff)

lemma event_id_unused:
  assumes "fresh_events R n db"
  shows "\<not> has_row o_event_id (xr_event_id (rx_env R n)) (rt_outbox db)"
proof
  assume "has_row o_event_id (xr_event_id (rx_env R n)) (rt_outbox db)"
  then obtain r where r: "r \<in> set (rt_outbox db)" "o_event_id r = xr_event_id (rx_env R n)"
    by (auto simp: has_row_iff)
  then obtain i where "i < n" "xr_event_id (rx_env R i) = xr_event_id (rx_env R n)"
    using assms by (fastforce simp: fresh_events_def)
  then show False using assms injD [of "\<lambda>i. xr_event_id (rx_env R i)" i n] by (simp add: fresh_events_def)
qed

lemma store_deliverable:
  assumes d: "deliverable F R cap (fr_payload f)" and e: "fresh_events R n db"
  shows "store_event (rx_funs R) cap f (rx_env R n) db
    = Inr (published_id R (fr_payload f) n, db\<lparr>rt_outbox := rt_outbox db @ published_rows R cap f n\<rparr>)"
proof (cases "event_of (fr_payload f)")
  case None
  then show ?thesis
    by (simp add: store_event_def published_id_def published_rows_def make_event_def Let_def)
next
  case (Some s)
  obtain subject kind where s: "s = (subject, kind)" by (cases s)
  obtain data where "frame_data cap (fr_payload f) = Inr data"
    using d Some by (cases "frame_data cap (fr_payload f)") (auto simp: deliverable_def)
  then show ?thesis using Some s d event_id_unused [OF e]
    by (simp add: store_event_def published_id_def published_rows_def make_event_def Let_def
        deliverable_def)
qed

lemma accept_deliverable:
  assumes d: "deliverable F R cap (fr_payload f)" and k: "kind_of (fr_payload f) = Some kind"
    and s: "stands_at cap n db" and q: "fi_sequence (fr_identity f) = Suc n"
    and key: "find_frame cap (fi_key (fr_identity f)) (rt_frames db) = None"
    and e: "fresh_events R i db"
  shows "accept (rx_funs R) cap f (rx_env R i) db
    = Inr (published_id R (fr_payload f) i, delivered_db R cap f kind i db)"
proof -
  obtain row where row: "row_by ra_run (rk_run_id cap) (rt_streams db) = Some row"
    "ra_epoch row = rk_lease_epoch cap" "ra_last_sequence row = n"
    using s by (auto simp: stands_at_def)
  have new: "accept_new (rx_funs R) cap f kind (rx_env R i) db
      = Inr (published_id R (fr_payload f) i, delivered_db R cap f kind i db)"
    using d not_taken [OF s] q store_deliverable [OF d e]
    by (simp add: accept_new_def store_frame_def delivered_db_def deliverable_def Let_def)
  show ?thesis using d k row key q new by (simp add: accept_def deliverable_def)
qed

lemma stands_at_delivered:
  assumes "stands_at cap n db" and "fi_sequence (fr_identity f) = Suc n"
  shows "stands_at cap (Suc n) (delivered_db R cap f kind i db)"
proof -
  obtain row where row: "row_by ra_run (rk_run_id cap) (rt_streams db) = Some row"
    "ra_epoch row = rk_lease_epoch cap" "ra_attempt row = rk_attempt_id cap"
    using assms(1) by (auto simp: stands_at_def)
  let ?u = "\<lambda>r. r\<lparr>ra_last_sequence := fi_sequence (fr_identity f),
      ra_heartbeat := if kind = ''heartbeat'' then Some (xr_now (rx_env R i)) else ra_heartbeat r\<rparr>"
  have "row_by ra_run (rk_run_id cap)
      (update_where (\<lambda>r. ra_run r = rk_run_id cap) ?u (rt_streams db)) = Some (?u row)"
    using row(1) by (subst row_by_update_where) (auto dest: row_by_SomeD)
  then show ?thesis using assms row(2,3)
    by (auto simp: stands_at_def delivered_db_def accepted_frame_def list_all_iff)
qed

lemma fresh_events_delivered:
  assumes "fresh_events R n db"
  shows "fresh_events R (Suc n) (delivered_db R cap f kind n db)"
proof -
  have "o_event_id r = xr_event_id (rx_env R n)" if "r \<in> set (published_rows R cap f n)" for r
    using that by (auto simp: published_rows_def Let_def split: sum.splits prod.splits)
  then have "\<exists>i < Suc n. o_event_id r = xr_event_id (rx_env R i)"
    if "r \<in> set (rt_outbox db) \<or> r \<in> set (published_rows R cap f n)" for r
    using that assms less_SucI unfolding fresh_events_def by blast
  then show ?thesis using assms by (simp add: fresh_events_def delivered_db_def)
qed

section \<open>One call\<close>

text \<open>Serving a deliverable frame of a client in step: the acknowledgement is the only answer.\<close>

definition acknowledged_frame :: "runtime_side \<Rightarrow> agent_frame \<Rightarrow> nat \<Rightarrow> platform_frame" where
  "acknowledged_frame R f n = reply (fr_identity f)
     (P_acknowledgement (fi_sequence (fr_identity f)) (published_id R (fr_payload f) n))"

lemma no_call:
  assumes "deliverable F R cap p"
  shows "perform_call H G cap p db = (Inr No_call, db)"
  using assms by (cases p) (auto simp: deliverable_def perform_call_def)

lemma deliverable_kind:
  assumes "deliverable F R cap p"
  obtains kind where "kind_of p = Some kind"
  using assms by (cases "kind_of p") (auto simp: deliverable_def)

lemma sdk_frame_simps [simp]:
  "fr_payload (sdk_frame F c n key st p) = p"
  "fr_identity (sdk_frame F c n key st p) = sdk_identity c n key st"
  "fi_sequence (sdk_identity c n key st) = n"
  "fi_key (sdk_identity c n None st) = uuid_str (fst st)"
  "fi_key (sdk_identity c n (Some k) st) = k"
  by (simp_all add: sdk_frame_def sdk_identity_def Let_def)

lemma frame_fits:
  assumes "deliverable F R cap p"
  shows "fr_size (sdk_frame F c n key st p) \<le> max_frame_bytes"
  using assms by (simp add: deliverable_def sdk_frame_def Let_def)

lemma serve_deliverable:
  assumes d: "deliverable F R cap p" and k: "kind_of p = Some kind" and a: "agrees cap c"
    and s: "stands_at cap n (lk_db l)" and x: "fresh_stamp st (lk_db l)"
    and e: "fresh_events R (lk_clock l) (lk_db l)" and st: "lk_stream l = Connected cap"
  defines "f \<equiv> sdk_frame F c (Suc n) None st p"
  shows "link_serve R f l = l\<lparr>lk_db := delivered_db R cap f kind (lk_clock l) (lk_db l),
    lk_inbox := lk_inbox l @ [acknowledged_frame R f (lk_clock l)], lk_clock := Suc (lk_clock l)\<rparr>"
proof -
  have v: "validate_identity (fr_identity f) cap = Inr ()"
    using sdk_identity_valid [OF a, of st None "Suc n"] x by (simp add: f_def fresh_stamp_def)
  have acc: "accept (rx_funs R) cap f (rx_env R (lk_clock l)) (lk_db l)
      = Inr (published_id R p (lk_clock l), delivered_db R cap f kind (lk_clock l) (lk_db l))"
    using accept_deliverable [of F R cap f kind n "lk_db l" "lk_clock l"] d k s e
      key_unknown [OF x, of "sdk_identity c (Suc n) None st" cap]
    by (simp add: f_def)
  have "serve_connected (rx_funs R) (rx_gateways R) cap f (rx_env R (lk_clock l)) (lk_db l)
      = ([acknowledged_frame R f (lk_clock l)], Connected cap,
         delivered_db R cap f kind (lk_clock l) (lk_db l))"
    using v acc no_call [OF d, of "rx_funs R" "rx_gateways R" "lk_db l"]
    by (simp add: serve_connected_def acknowledged_frame_def f_def Let_def)
  then show ?thesis using st frame_fits [OF d, of c "Suc n" None st]
    by (simp add: link_serve_def serve_frame_def f_def)
qed

lemma await_acknowledgement:
  assumes "\<not> lk_broken l" and "lk_inbox l = [acknowledged_frame R f n]"
  shows "await_reply (runtime_link R) recognise r c l
    = Some (Inr ((fi_sequence (fr_identity f), published_id R (fr_payload f) n), r),
        acknowledge (fi_sequence (fr_identity f)) c, l\<lparr>lk_inbox := []\<rparr>)"
  using assms by (subst await_reply.simps) (simp add: link_read_def acknowledged_frame_def reply_def)

lemma next_sequence_Nil: "sc_pending c = [] \<Longrightarrow> next_sequence c = Suc (sc_last_ack c)"
  by (simp add: next_sequence_def)

text \<open>A call on a reliable channel: the client and the Runtime API advance by one frame.\<close>

lemma send_delivered:
  assumes i: "in_step cap c l" and d: "deliverable F R cap p" and k: "kind_of p = Some kind"
    and x: "fresh_stamp (ss_frame x) (lk_db l)" and e: "fresh_events R (lk_clock l) (lk_db l)"
    and fs: "lk_faults l = []"
  defines "f \<equiv> sdk_frame F c (Suc (sc_last_ack c)) None (ss_frame x) p"
  shows "send F (runtime_link R) x p c l =
    Some (Inr (Suc (sc_last_ack c), published_id R p (lk_clock l)),
      c\<lparr>sc_last_ack := Suc (sc_last_ack c)\<rparr>,
      l\<lparr>lk_db := delivered_db R cap f kind (lk_clock l) (lk_db l), lk_clock := Suc (lk_clock l)\<rparr>)"
proof -
  have c: "sc_connected c" "sc_pending c = []" "agrees cap c" "stands_at cap (sc_last_ack c) (lk_db l)"
    and l: "\<not> lk_broken l" "lk_inbox l = []" "lk_stream l = Connected cap"
    using i by (auto simp: in_step_def link_ready_def)
  have f: "fi_sequence (fr_identity f) = Suc (sc_last_ack c)" "fr_payload f = p" by (simp_all add: f_def)
  have size: "\<not> 16 * 1024 < fr_size f"
    using frame_fits [OF d, of c "Suc (sc_last_ack c)" None "ss_frame x"]
    by (simp add: f_def max_frame_bytes_def)
  let ?l1 = "l\<lparr>lk_db := delivered_db R cap f kind (lk_clock l) (lk_db l),
    lk_inbox := [acknowledged_frame R f (lk_clock l)], lk_clock := Suc (lk_clock l)\<rparr>"
  have w: "link_write R f l = (None, ?l1)"
    using serve_deliverable [OF d k c(3,4) x e l(3)] l size fs by (simp add: link_write_def f_def)
  have ack: "acknowledge (Suc (sc_last_ack c)) (enqueue f c) = c\<lparr>sc_last_ack := Suc (sc_last_ack c)\<rparr>"
    using c f by (simp add: acknowledge_def enqueue_def)
  have inbox: "?l1\<lparr>lk_inbox := []\<rparr> = l\<lparr>lk_db := delivered_db R cap f kind (lk_clock l) (lk_db l),
      lk_clock := Suc (lk_clock l)\<rparr>" using l(2) by (cases l) simp
  have aw: "await_reply (runtime_link R) (\<lambda>p. None :: (sdk_error + unit) option) None (enqueue f c) ?l1
    = Some (Inr ((Suc (sc_last_ack c), published_id R p (lk_clock l)), None),
        c\<lparr>sc_last_ack := Suc (sc_last_ack c)\<rparr>, ?l1\<lparr>lk_inbox := []\<rparr>)"
    using await_acknowledgement [where R = R and f = f and n = "lk_clock l" and l = ?l1
        and recognise = "\<lambda>p. None :: (sdk_error + unit) option" and r = None and c = "enqueue f c"]
    by (simp add: l(1) f ack)
  have "send_once F (runtime_link R) st f (enqueue f c) l =
    Some (Inr (Suc (sc_last_ack c), published_id R p (lk_clock l)),
      c\<lparr>sc_last_ack := Suc (sc_last_ack c)\<rparr>, ?l1\<lparr>lk_inbox := []\<rparr>)" for st
    using w c(1) aw by (simp add: send_once_def transmit_def enqueue_def)
  then show ?thesis using c(1) next_sequence_Nil [OF c(2)] inbox
    by (simp add: send_def ensure_connected_def max_send_attempts_def f_def [symmetric]
        eval_nat_numeral)
qed

lemma in_step_delivered:
  assumes "in_step cap c l"
  shows "in_step cap (c\<lparr>sc_last_ack := Suc (sc_last_ack c)\<rparr>)
    (l\<lparr>lk_db := delivered_db R cap (sdk_frame F c (Suc (sc_last_ack c)) key st p) kind n (lk_db l),
       lk_clock := m\<rparr>)"
  using assms stands_at_delivered [of cap "sc_last_ack c" "lk_db l"]
  by (simp add: in_step_def link_ready_def agrees_def)

end
