(* ===== verification/AgentFaults.thy ===== *)
theory AgentFaults
  imports AgentLink
begin

text \<open>
  The client when its connection breaks: a frame that is lost is sent again over a new stream and
  accepted once; an acknowledgement that is lost, and a frame that is refused, leave the client
  stuck.
\<close>

section \<open>Opening the stream again\<close>

lemma not_islE:
  assumes "\<not> isl r"
  obtains a where "r = Inr a"
  using assms by (cases r) auto

definition reconnectable ::
  "sdk_funs \<Rightarrow> runtime_side \<Rightarrow> runtime_capability \<Rightarrow> sdk_client \<Rightarrow> bool" where
  "reconnectable F R cap c \<longleftrightarrow> gw_decode (rx_gateways R) (sc_capability c) = Inr cap
     \<and> (\<forall>fi. sf_size F fi (F_hello (sc_capability c)) \<le> max_frame_bytes)
     \<and> \<not> isl (decode_run_input F (rk_run_input cap)
         (if rk_run_input cap = None then None else rk_starting_checkpoint_id cap))"

lemma activate_standing:
  assumes "stands_at cap n db"
  shows "activate cap db = Inr (n, db)"
  using assms by (auto simp: stands_at_def activate_def)

text \<open>The hello of a client whose attempt holds the lease is answered with the sequence at which the
  stream stands; the database stays as it is.\<close>

lemma hello_frame_size:
  assumes "reconnectable F R cap c"
  shows "fr_size (sdk_frame F (c\<lparr>sc_connected := b\<rparr>) 0 key st (F_hello (sc_capability c))) \<le> max_frame_bytes"
  using assms by (simp add: reconnectable_def sdk_frame_def Let_def)

lemma serve_hello_standing:
  assumes r: "reconnectable F R cap c" and a: "agrees cap c" and s: "stands_at cap n (lk_db l)"
    and z: "take 16 (uuid_hex (snd st)) \<noteq> replicate 16 (CHR ''0'')" and st: "lk_stream l = Awaiting_hello"
  defines "f \<equiv> sdk_frame F (c\<lparr>sc_connected := True\<rparr>) 0 (Some ''hello'') st (F_hello (sc_capability c))"
  shows "link_serve R f l = l\<lparr>lk_stream := Connected cap,
    lk_inbox := lk_inbox l @ [reply (fr_identity f) (hello_accepted cap n)],
    lk_clock := Suc (lk_clock l)\<rparr>"
proof -
  have v: "validate_identity (fr_identity f) cap = Inr ()"
    using sdk_identity_valid [of cap "c\<lparr>sc_connected := True\<rparr>" st "Some ''hello''" 0] a z
    by (simp add: f_def agrees_def char_count_def continuation_byte_def)
  have "serve_frame (rx_funs R) (rx_gateways R) f (rx_env R (lk_clock l)) Awaiting_hello (lk_db l)
      = ([reply (fr_identity f) (hello_accepted cap n)], Connected cap, lk_db l)"
    using r v activate_standing [OF s] hello_frame_size [OF r, of True "Some ''hello''" st]
    by (simp add: serve_frame_def serve_hello_def reconnectable_def f_def Let_def)
  then show ?thesis using st by (simp add: link_serve_def)
qed

text \<open>The frame that waits in the buffer.\<close>

definition waiting ::
  "sdk_funs \<Rightarrow> runtime_side \<Rightarrow> runtime_capability \<Rightarrow> nat \<Rightarrow> agent_frame \<Rightarrow> runtime_db \<Rightarrow> sdk_client
     \<Rightarrow> link \<Rightarrow> bool" where
  "waiting F R cap n f db c l \<longleftrightarrow> agrees cap c \<and> reconnectable F R cap c \<and> sc_last_ack c = n
     \<and> sc_pending c = [(Suc n, f)] \<and> lk_db l = db \<and> fresh_events R (lk_clock l) db"

definition waiting_frame ::
  "sdk_funs \<Rightarrow> runtime_side \<Rightarrow> runtime_capability \<Rightarrow> nat \<Rightarrow> agent_frame \<Rightarrow> runtime_db \<Rightarrow> bool" where
  "waiting_frame F R cap n f db \<longleftrightarrow> stands_at cap n db \<and> deliverable F R cap (fr_payload f)
     \<and> fi_sequence (fr_identity f) = Suc n \<and> validate_identity (fr_identity f) cap = Inr ()
     \<and> find_frame cap (fi_key (fr_identity f)) (rt_frames db) = None \<and> fr_size f \<le> max_frame_bytes"

text \<open>The faults after which \<open>k\<close> more attempts succeed: in each, the hello or the answer to it is
  lost, or the frame, until both arrive.\<close>

fun recovers :: "nat \<Rightarrow> fault list \<Rightarrow> bool" where
  "recovers 0 fs = False"
| "recovers (Suc k) (Lost_frame # fs) = recovers k fs"
| "recovers (Suc k) (Lost_reply # fs) = recovers k fs"
| "recovers (Suc k) (Delivered # Lost_frame # fs) = recovers k fs"
| "recovers (Suc k) (Delivered # Lost_reply # fs) = False"
| "recovers (Suc k) _ = True"

definition resumed :: "runtime_capability \<Rightarrow> sdk_funs \<Rightarrow> sdk_client \<Rightarrow> sdk_client" where
  "resumed cap F c = c\<lparr>sc_connected := True, sc_deadline := Some (rk_deadline cap),
     sc_input := (case decode_run_input F (rk_run_input cap)
         (if rk_run_input cap = None then None else rk_starting_checkpoint_id cap) of
       Inl e \<Rightarrow> None | Inr i \<Rightarrow> i)\<rparr>"

lemma resumed_simps [simp]:
  "sc_connected (resumed cap F c)" "sc_pending (resumed cap F c) = sc_pending c"
  "sc_last_ack (resumed cap F c) = sc_last_ack c" "sc_capability (resumed cap F c) = sc_capability c"
  "agrees k (resumed cap F c) = agrees k c"
  "reconnectable F' R k (resumed cap F c) = reconnectable F' R k c"
  by (simp_all add: resumed_def agrees_def reconnectable_def)

text \<open>A hello that arrives: the client is connected and writes the waiting frame.\<close>

definition connected_link :: "runtime_capability \<Rightarrow> link \<Rightarrow> fault list \<Rightarrow> link" where
  "connected_link cap l fs = l\<lparr>lk_stream := Connected cap, lk_inbox := [], lk_broken := False,
     lk_faults := fs, lk_clock := Suc (lk_clock l)\<rparr>"

lemma connect_arrives:
  assumes w: "waiting F R cap n f db c l" and s: "stands_at cap n db"
    and z: "take 16 (uuid_hex (snd st)) \<noteq> replicate 16 (CHR ''0'')"
    and fs: "lk_faults l = [] \<and> fs = [] \<or> lk_faults l = Delivered # fs"
  shows "connect F (runtime_link R) st c l =
    (case link_write R f (connected_link cap l fs) of
       (Some e, l') \<Rightarrow> Some (Inl (Rpc_failure e), resumed cap F c, l')
     | (None, l') \<Rightarrow> Some (Inr (), resumed cap F c, l'))"
proof -
  have c: "agrees cap c" "reconnectable F R cap c" "sc_last_ack c = n" "sc_pending c = [(Suc n, f)]"
    "lk_db l = db" using w by (auto simp: waiting_def)
  let ?h = "sdk_frame F (c\<lparr>sc_connected := True\<rparr>) 0 (Some ''hello'') st (F_hello (sc_capability c))"
  let ?o = "(link_open l)\<lparr>lk_faults := fs\<rparr>"
  have size: "\<not> 16 * 1024 < fr_size ?h"
    using hello_frame_size [OF c(2), of True "Some ''hello''" st] by (simp add: max_frame_bytes_def)
  have "link_serve R ?h ?o = ?o\<lparr>lk_stream := Connected cap,
      lk_inbox := [reply (fr_identity ?h) (hello_accepted cap n)], lk_clock := Suc (lk_clock l)\<rparr>"
    using serve_hello_standing [OF c(2,1), of n ?o st] s c(5) z by simp
  moreover have "link_write R ?h (link_open l) = (None, link_serve R ?h ?o)"
  proof (cases "lk_faults l")
    case Nil
    then have "?o = link_open l" using fs by (simp add: link_open_def)
    then show ?thesis using size Nil by (simp add: link_write_def)
  qed (use fs size in \<open>auto simp: link_write_def\<close>)
  moreover have "(?o\<lparr>lk_stream := Connected cap,
      lk_inbox := [reply (fr_identity ?h) (hello_accepted cap n)], lk_clock := Suc (lk_clock l)\<rparr>)
        \<lparr>lk_inbox := []\<rparr> = connected_link cap l fs"
    by (simp add: connected_link_def link_open_def)
  moreover obtain i where "decode_run_input F (rk_run_input cap)
      (if rk_run_input cap = None then None else rk_starting_checkpoint_id cap) = Inr i"
    using c(2) unfolding reconnectable_def by (auto simp del: if_split elim: not_islE)
  ultimately show ?thesis using c(3,4)
    by (simp add: connect_def link_read_def reply_def hello_accepted_def resume_stream_def
        unacknowledged_def resumed_def Let_def split: prod.split option.split)
qed

section \<open>Sending until it arrives\<close>

text \<open>The outcome: the frame is accepted once and the client is in step again.\<close>

definition frame_accepted ::
  "runtime_side \<Rightarrow> runtime_capability \<Rightarrow> nat \<Rightarrow> agent_frame \<Rightarrow> runtime_db \<Rightarrow> (acknowledgement, link) outcome
     \<Rightarrow> bool" where
  "frame_accepted R cap n f db result \<longleftrightarrow>
     (\<exists>c l i kind. kind_of (fr_payload f) = Some kind
        \<and> result = Some (Inr (Suc n, published_id R (fr_payload f) i), c, l)
        \<and> lk_db l = delivered_db R cap f kind i db \<and> in_step cap c l \<and> sc_last_ack c = Suc n)"

lemma serve_waiting:
  assumes f: "waiting_frame F R cap n f (lk_db l)" and k: "kind_of (fr_payload f) = Some kind"
    and e: "fresh_events R (lk_clock l) (lk_db l)" and st: "lk_stream l = Connected cap"
  shows "link_serve R f l = l\<lparr>lk_db := delivered_db R cap f kind (lk_clock l) (lk_db l),
    lk_inbox := lk_inbox l @ [acknowledged_frame R f (lk_clock l)], lk_clock := Suc (lk_clock l)\<rparr>"
proof -
  note w = f [unfolded waiting_frame_def]
  have acc: "accept (rx_funs R) cap f (rx_env R (lk_clock l)) (lk_db l)
      = Inr (published_id R (fr_payload f) (lk_clock l),
          delivered_db R cap f kind (lk_clock l) (lk_db l))"
    using accept_deliverable [of F R cap f kind n "lk_db l" "lk_clock l"] w k e by simp
  have d: "deliverable F R cap (fr_payload f)" using w by simp
  have "serve_connected (rx_funs R) (rx_gateways R) cap f (rx_env R (lk_clock l)) (lk_db l)
      = ([acknowledged_frame R f (lk_clock l)], Connected cap,
         delivered_db R cap f kind (lk_clock l) (lk_db l))"
    using w acc no_call [OF d, of "rx_funs R" "rx_gateways R" "lk_db l"]
    by (simp add: serve_connected_def acknowledged_frame_def Let_def)
  then show ?thesis using st w by (simp add: link_serve_def serve_frame_def)
qed

text \<open>A delivered frame: the answer is read and the client is in step.\<close>

lemma delivered_and_read:
  assumes f: "waiting_frame F R cap n f (lk_db l)" and e: "fresh_events R (lk_clock l) (lk_db l)"
    and l: "lk_stream l = Connected cap" "\<not> lk_broken l" "lk_inbox l = []"
    and c: "agrees cap c" "sc_connected c" "sc_last_ack c = n" "sc_pending c = [(Suc n, f)]"
  shows "\<exists>a c2 l2. await_reply (runtime_link R) recognise r c (link_serve R f l) = Some (Inr (a, r), c2, l2)
    \<and> frame_accepted R cap n f (lk_db l) (Some (Inr a, c2, l2))"
proof -
  obtain kind where k: "kind_of (fr_payload f) = Some kind"
    using f by (auto simp: waiting_frame_def elim: deliverable_kind)
  let ?l1 = "l\<lparr>lk_db := delivered_db R cap f kind (lk_clock l) (lk_db l),
    lk_inbox := [acknowledged_frame R f (lk_clock l)], lk_clock := Suc (lk_clock l)\<rparr>"
  have s: "link_serve R f l = ?l1" using serve_waiting [OF f k e l(1)] l(3) by simp
  have q: "fi_sequence (fr_identity f) = Suc n" and st: "stands_at cap n (lk_db l)"
    using f by (auto simp: waiting_frame_def)
  have "await_reply (runtime_link R) recognise r c ?l1
      = Some (Inr ((Suc n, published_id R (fr_payload f) (lk_clock l)), r),
          acknowledge (Suc n) c, ?l1\<lparr>lk_inbox := []\<rparr>)"
    using await_acknowledgement [where R = R and f = f and n = "lk_clock l" and l = ?l1
        and recognise = recognise and r = r and c = c] l(2) q by simp
  moreover have "in_step cap (acknowledge (Suc n) c) (?l1\<lparr>lk_inbox := []\<rparr>)"
    using c l stands_at_delivered [OF st q]
    by (simp add: in_step_def link_ready_def acknowledge_def agrees_def)
  moreover have "sc_last_ack (acknowledge (Suc n) c) = Suc n" using c by (simp add: acknowledge_def)
  ultimately show ?thesis using s k by (auto simp: frame_accepted_def)
qed

text \<open>A broken channel reports itself at the next read.\<close>

lemma await_broken:
  assumes "lk_broken l"
  shows "await_reply (runtime_link R) recognise r c l = Some (Inl (Rpc_failure Unavailable), c, l)"
  using assms by (subst await_reply.simps) (simp add: link_read_def)

lemma write_fits:
  assumes "waiting_frame F R cap n f db" and "\<not> lk_broken l"
  shows "link_write R f l =
    (case lk_faults l of
       [] \<Rightarrow> (None, link_serve R f l)
     | Delivered # fs \<Rightarrow> (None, link_serve R f (l\<lparr>lk_faults := fs\<rparr>))
     | Lost_frame # fs \<Rightarrow> (None, l\<lparr>lk_faults := fs, lk_broken := True\<rparr>)
     | Lost_reply # fs \<Rightarrow> (None, (link_serve R f (l\<lparr>lk_faults := fs\<rparr>))\<lparr>lk_broken := True\<rparr>))"
  using assms by (simp add: link_write_def waiting_frame_def max_frame_bytes_def)

text \<open>An attempt that fails leaves the frame waiting, with the faults that are left.\<close>

definition attempt_failed ::
  "sdk_funs \<Rightarrow> runtime_side \<Rightarrow> runtime_capability \<Rightarrow> nat \<Rightarrow> agent_frame \<Rightarrow> runtime_db \<Rightarrow> fault list
     \<Rightarrow> (acknowledgement, link) outcome \<Rightarrow> bool" where
  "attempt_failed F R cap n f db fs result \<longleftrightarrow>
     (\<exists>c l. result = Some (Inl (Rpc_failure Unavailable), c, l) \<and> waiting F R cap n f db c l
        \<and> lk_faults l = fs)"

lemma fresh_events_Suc: "fresh_events R n db \<Longrightarrow> fresh_events R (Suc n) db"
  unfolding fresh_events_def using less_SucI by blast

lemma connect_breaks:
  assumes w: "waiting F R cap n f db c l" and s: "stands_at cap n db"
    and z: "take 16 (uuid_hex (snd st)) \<noteq> replicate 16 (CHR ''0'')"
    and fs: "lk_faults l = Lost_frame # fs \<or> lk_faults l = Lost_reply # fs"
  shows "attempt_failed F R cap n f db fs (send_once F (runtime_link R) st f (c\<lparr>sc_connected := False\<rparr>) l)"
proof -
  have c: "agrees cap c" "reconnectable F R cap c" "lk_db l = db" "fresh_events R (lk_clock l) db"
    using w by (auto simp: waiting_def)
  let ?h = "sdk_frame F (c\<lparr>sc_connected := True\<rparr>) 0 (Some ''hello'') st (F_hello (sc_capability c))"
  let ?o = "(link_open l)\<lparr>lk_faults := fs\<rparr>"
  have size: "\<not> 16 * 1024 < fr_size ?h"
    using hello_frame_size [OF c(2), of True "Some ''hello''" st] by (simp add: max_frame_bytes_def)
  have serve: "link_serve R ?h ?o = ?o\<lparr>lk_stream := Connected cap,
      lk_inbox := [reply (fr_identity ?h) (hello_accepted cap n)], lk_clock := Suc (lk_clock l)\<rparr>"
    using serve_hello_standing [OF c(2,1), of n ?o st] s c(3) z by simp
  obtain l1 where l1: "link_write R ?h (link_open l) = (None, l1)" "lk_broken l1" "lk_db l1 = db"
    "lk_faults l1 = fs" "lk_clock l1 \<in> {lk_clock l, Suc (lk_clock l)}"
    using fs size serve c(3) by (auto simp: link_write_def)
  have "fresh_events R (lk_clock l1) db"
    using c(4) l1(5) fresh_events_Suc by auto
  then have "waiting F R cap n f db (c\<lparr>sc_connected := True\<rparr>) l1"
    using w l1 by (simp add: waiting_def agrees_def reconnectable_def)
  moreover have "send_once F (runtime_link R) st f (c\<lparr>sc_connected := False\<rparr>) l
      = Some (Inl (Rpc_failure Unavailable), c\<lparr>sc_connected := True\<rparr>, l1)"
    using l1 by (simp add: send_once_def transmit_def connect_def link_read_def Let_def)
  ultimately show ?thesis using l1(4) by (auto simp: attempt_failed_def)
qed

lemma waiting_connected_link:
  assumes "waiting F R cap n f db c l"
  shows "waiting F R cap n f db (resumed cap F c) (connected_link cap l fs)"
  using assms fresh_events_Suc by (simp add: waiting_def connected_link_def)

lemma connect_then_lost:
  assumes w: "waiting F R cap n f db c l" and f: "waiting_frame F R cap n f db"
    and z: "take 16 (uuid_hex (snd st)) \<noteq> replicate 16 (CHR ''0'')"
    and fs: "lk_faults l = Delivered # Lost_frame # fs"
  shows "attempt_failed F R cap n f db fs (send_once F (runtime_link R) st f (c\<lparr>sc_connected := False\<rparr>) l)"
proof -
  have w': "waiting F R cap n f db (c\<lparr>sc_connected := False\<rparr>) l"
    using w by (simp add: waiting_def agrees_def reconnectable_def)
  let ?c = "resumed cap F (c\<lparr>sc_connected := False\<rparr>)"
  let ?k = "connected_link cap l (Lost_frame # fs)"
  let ?b = "?k\<lparr>lk_faults := fs, lk_broken := True\<rparr>"
  have "link_write R f ?k = (None, ?b)"
    using write_fits [OF f, of ?k] by (simp add: connected_link_def)
  then have "connect F (runtime_link R) st (c\<lparr>sc_connected := False\<rparr>) l = Some (Inr (), ?c, ?b)"
    using connect_arrives [OF w' _ z, of "Lost_frame # fs"] f fs by (simp add: waiting_frame_def)
  then have "send_once F (runtime_link R) st f (c\<lparr>sc_connected := False\<rparr>) l
      = Some (Inl (Rpc_failure Unavailable), ?c, ?b)"
    using await_broken [of ?b R "\<lambda>p. None :: (sdk_error + unit) option" None ?c]
    by (simp add: send_once_def transmit_def)
  moreover have "waiting F R cap n f db ?c ?b"
    using waiting_connected_link [OF w', of "Lost_frame # fs"] by (simp add: waiting_def)
  ultimately show ?thesis by (auto simp: attempt_failed_def)
qed

lemma connect_then_delivered:
  assumes w: "waiting F R cap n f db c l" and f: "waiting_frame F R cap n f db"
    and z: "take 16 (uuid_hex (snd st)) \<noteq> replicate 16 (CHR ''0'')"
    and fs: "lk_faults l = [] \<and> fs = [] \<or> lk_faults l = Delivered # fs" "fs = [] \<or> hd fs = Delivered"
  shows "frame_accepted R cap n f db (send_once F (runtime_link R) st f (c\<lparr>sc_connected := False\<rparr>) l)"
proof -
  have w': "waiting F R cap n f db (c\<lparr>sc_connected := False\<rparr>) l"
    using w by (simp add: waiting_def agrees_def reconnectable_def)
  let ?c = "resumed cap F (c\<lparr>sc_connected := False\<rparr>)"
  let ?k = "connected_link cap l fs"
  let ?s = "?k\<lparr>lk_faults := tl fs\<rparr>"
  have k: "waiting F R cap n f db ?c ?k" by (rule waiting_connected_link [OF w'])
  have "link_write R f ?k = (None, link_serve R f ?s)"
  proof (cases fs)
    case Nil
    then have e: "?s = ?k" by (simp add: connected_link_def)
    have "link_write R f ?k = (None, link_serve R f ?k)"
      using Nil write_fits [OF f, of ?k] by (simp add: connected_link_def)
    then show ?thesis by (simp only: e)
  next
    case (Cons a as)
    then show ?thesis using fs(2) write_fits [OF f, of ?k] by (simp add: connected_link_def)
  qed
  then have con: "connect F (runtime_link R) st (c\<lparr>sc_connected := False\<rparr>) l
      = Some (Inr (), ?c, link_serve R f ?s)"
    using connect_arrives [OF w' _ z fs(1)] f by (simp add: waiting_frame_def)
  have db: "lk_db ?s = db" "fresh_events R (lk_clock ?s) db" using k by (auto simp: waiting_def)
  obtain a c2 l2 where a: "await_reply (runtime_link R) (\<lambda>p. None :: (sdk_error + unit) option) None ?c
      (link_serve R f ?s) = Some (Inr (a, None), c2, l2)"
    "frame_accepted R cap n f db (Some (Inr a, c2, l2))"
    using delivered_and_read [of F R cap n f ?s ?c "\<lambda>p. None :: (sdk_error + unit) option" None]
      f db k by (auto simp: waiting_def connected_link_def)
  then show ?thesis using con by (simp add: send_once_def transmit_def)
qed

lemma send_recovers:
  assumes "waiting F R cap n f db c l" and "waiting_frame F R cap n f db"
    and "\<And>i. take 16 (uuid_hex (snd (st i))) \<noteq> replicate 16 (CHR ''0'')" and "recovers k (lk_faults l)"
  shows "frame_accepted R cap n f db (send_attempts F (runtime_link R) k st f (c\<lparr>sc_connected := False\<rparr>) l)"
  using assms(1,4)
proof (induction k arbitrary: c l)
  case (Suc k)
  note s = assms(2) [unfolded waiting_frame_def, THEN conjunct1]
  let ?once = "send_once F (runtime_link R) (st k) f (c\<lparr>sc_connected := False\<rparr>) l"
  have again: ?case if a: "attempt_failed F R cap n f db fs ?once" and r: "recovers k fs" for fs
  proof -
    obtain c1 l1 where 1: "?once = Some (Inl (Rpc_failure Unavailable), c1, l1)"
      "waiting F R cap n f db c1 l1" "lk_faults l1 = fs" using a by (auto simp: attempt_failed_def)
    have "k \<noteq> 0" using r by (cases k) auto
    then show ?thesis using 1 Suc.IH [OF 1(2)] r by (simp add: transient_def Let_def)
  qed
  have here: ?case if "frame_accepted R cap n f db ?once"
    using that by (auto simp: frame_accepted_def)
  consider (lost) fs where "lk_faults l = Lost_frame # fs \<or> lk_faults l = Lost_reply # fs" "recovers k fs"
    | (frame) fs where "lk_faults l = Delivered # Lost_frame # fs" "recovers k fs"
    | (good) fs where "lk_faults l = [] \<and> fs = [] \<or> lk_faults l = Delivered # fs" "fs = [] \<or> hd fs = Delivered"
  proof (cases "lk_faults l")
    case (Cons a as)
    then show thesis using Suc.prems(2) that
      by (cases a; cases as; cases "hd as") auto
  qed (use that in blast)
  then show ?case
  proof cases
    case lost
    then show ?thesis using again connect_breaks [OF Suc.prems(1) s assms(3)] by blast
  next
    case frame
    then show ?thesis using again connect_then_lost [OF Suc.prems(1) assms(2,3)] by blast
  next
    case good
    then show ?thesis using here connect_then_delivered [OF Suc.prems(1) assms(2,3)] by blast
  qed
qed simp

section \<open>What a caller of \<open>send\<close> can rely on\<close>

lemma waiting_after_enqueue:
  assumes i: "in_step cap c l" and d: "deliverable F R cap p" and r: "reconnectable F R cap c"
    and x: "fresh_stamp st (lk_db l)" and e: "fresh_events R (lk_clock l) (lk_db l)"
  defines "f \<equiv> sdk_frame F c (Suc (sc_last_ack c)) None st p"
  shows "waiting F R cap (sc_last_ack c) f (lk_db l) (enqueue f c) l"
    and "waiting_frame F R cap (sc_last_ack c) f (lk_db l)"
proof -
  have c: "agrees cap c" "sc_pending c = []" "stands_at cap (sc_last_ack c) (lk_db l)"
    using i by (auto simp: in_step_def)
  show "waiting F R cap (sc_last_ack c) f (lk_db l) (enqueue f c) l"
    using c r e by (simp add: waiting_def enqueue_def agrees_def reconnectable_def f_def)
  show "waiting_frame F R cap (sc_last_ack c) f (lk_db l)"
    using c d frame_fits [OF d] key_unknown [OF x, of "sdk_identity c (Suc (sc_last_ack c)) None st" cap]
      sdk_identity_valid [OF c(1), of st None "Suc (sc_last_ack c)"] x
    by (simp add: waiting_frame_def f_def fresh_stamp_def)
qed

text \<open>The frame of a call to \<open>send\<close>.\<close>

abbreviation call_frame :: "sdk_funs \<Rightarrow> send_stamps \<Rightarrow> payload \<Rightarrow> sdk_client \<Rightarrow> agent_frame" where
  "call_frame F x p c \<equiv> sdk_frame F c (Suc (sc_last_ack c)) None (ss_frame x) p"

lemma send_connected:
  assumes "in_step cap c l"
  shows "send F tp x p c l = send_attempts F tp 4 (ss_retry x) (call_frame F x p c)
    (enqueue (call_frame F x p c) c) l"
  using assms next_sequence_Nil [of c]
  by (simp add: in_step_def send_def ensure_connected_def max_send_attempts_def Let_def)

lemma send_under_faults:
  assumes i: "in_step cap c l" and d: "deliverable F R cap p" and r: "reconnectable F R cap c"
    and x: "fresh_stamp (ss_frame x) (lk_db l)" and e: "fresh_events R (lk_clock l) (lk_db l)"
    and z: "\<And>i. take 16 (uuid_hex (snd (ss_retry x i))) \<noteq> replicate 16 (CHR ''0'')"
    and fs: "recovers 4 (Delivered # lk_faults l)"
  shows "frame_accepted R cap (sc_last_ack c) (call_frame F x p c) (lk_db l)
    (send F (runtime_link R) x p c l)"
proof -
  let ?f = "call_frame F x p c" and ?c = "enqueue (call_frame F x p c) c"
  note w = waiting_after_enqueue [OF i d r x e]
  have l: "\<not> lk_broken l" "lk_inbox l = []" "lk_stream l = Connected cap" "sc_connected c"
    using i by (auto simp: in_step_def link_ready_def)
  show ?thesis
  proof (cases "\<exists>fs. lk_faults l = Lost_frame # fs")
    case True
    then obtain fs where fs': "lk_faults l = Lost_frame # fs" by blast
    let ?b = "l\<lparr>lk_faults := fs, lk_broken := True\<rparr>"
    have "send_once F (runtime_link R) (ss_retry x 3) ?f ?c l
        = Some (Inl (Rpc_failure Unavailable), ?c, ?b)"
      using write_fits [OF w(2) l(1)] fs' l(4)
        await_broken [of ?b R "\<lambda>p. None :: (sdk_error + unit) option" None ?c]
      by (simp add: send_once_def transmit_def enqueue_def)
    moreover have "waiting F R cap (sc_last_ack c) ?f (lk_db l) ?c ?b"
      using w(1) by (simp add: waiting_def)
    moreover have "recovers 3 fs" using fs fs' by (simp add: eval_nat_numeral)
    ultimately have "frame_accepted R cap (sc_last_ack c) ?f (lk_db l)
        (send_attempts F (runtime_link R) 4 (ss_retry x) ?f ?c l)"
      using send_recovers [OF _ w(2) z, of ?c ?b 3]
      by (simp add: eval_nat_numeral transient_def Let_def)
    then show ?thesis by (simp add: send_connected [OF i])
  next
    case False
    let ?s = "l\<lparr>lk_faults := tl (lk_faults l)\<rparr>"
    have "link_write R ?f l = (None, link_serve R ?f ?s)"
    proof (cases "lk_faults l")
      case Nil
      then have e: "?s = l" by simp
      have "link_write R ?f l = (None, link_serve R ?f l)"
        using Nil write_fits [OF w(2) l(1)] by simp
      then show ?thesis by (simp only: e)
    next
      case (Cons a as)
      then show ?thesis using False fs write_fits [OF w(2) l(1)] by (cases a) (simp_all add: eval_nat_numeral)
    qed
    moreover obtain a c2 l2 where a: "await_reply (runtime_link R)
        (\<lambda>p. None :: (sdk_error + unit) option) None ?c (link_serve R ?f ?s) = Some (Inr (a, None), c2, l2)"
      "frame_accepted R cap (sc_last_ack c) ?f (lk_db l) (Some (Inr a, c2, l2))"
      using delivered_and_read [of F R cap "sc_last_ack c" ?f ?s ?c "\<lambda>p. None :: (sdk_error + unit) option" None]
        w l i e by (auto simp: in_step_def enqueue_def agrees_def)
    ultimately have "send_once F (runtime_link R) (ss_retry x 3) ?f ?c l = Some (Inr a, c2, l2)"
      using l(4) by (simp add: send_once_def transmit_def enqueue_def)
    then show ?thesis using a(2) by (simp add: send_connected [OF i] eval_nat_numeral)
  qed
qed

section \<open>A lost acknowledgement\<close>

lemma link_serve_faults [simp]:
  "lk_faults (link_serve R f l) = lk_faults l" "lk_broken (link_serve R f l) = lk_broken l"
  by (simp_all add: link_serve_def split: prod.split)

text \<open>A client whose frame the Runtime API already has: it connects, sends nothing and waits for
  ever.\<close>

lemma reconnect_silent:
  assumes a: "agrees cap c" and r: "reconnectable F R cap c" and p: "sc_pending c = [(m, f)]"
    and s: "stands_at cap m (lk_db l)" and z: "take 16 (uuid_hex (snd st)) \<noteq> replicate 16 (CHR ''0'')"
    and fs: "lk_faults l = []" and d: "\<not> sc_connected c"
  shows "send_once F (runtime_link R) st f c l = None"
proof -
  let ?h = "sdk_frame F (c\<lparr>sc_connected := True\<rparr>) 0 (Some ''hello'') st (F_hello (sc_capability c))"
  let ?l1 = "(link_open l)\<lparr>lk_stream := Connected cap,
      lk_inbox := [reply (fr_identity ?h) (hello_accepted cap m)], lk_clock := Suc (lk_clock l)\<rparr>"
  have "link_write R ?h (link_open l) = (None, ?l1)"
    using serve_hello_standing [OF r a, of m "link_open l"] s z fs
      hello_frame_size [OF r, of True "Some ''hello''" st]
    by (simp add: link_write_def max_frame_bytes_def)
  moreover obtain i where "decode_run_input F (rk_run_input cap)
      (if rk_run_input cap = None then None else rk_starting_checkpoint_id cap) = Inr i"
    using r unfolding reconnectable_def by (auto simp del: if_split elim: not_islE)
  ultimately obtain c1 where c1: "connect F (runtime_link R) st c l = Some (Inr (), c1, ?l1\<lparr>lk_inbox := []\<rparr>)"
    using p by (simp add: connect_def link_read_def reply_def hello_accepted_def resume_stream_def
        unacknowledged_def Let_def)
  have "link_read (?l1\<lparr>lk_inbox := []\<rparr>) = (Silent, ?l1\<lparr>lk_inbox := []\<rparr>)"
    by (simp add: link_read_def)
  then have "await_reply (runtime_link R) (\<lambda>p. None :: (sdk_error + unit) option) None c1
      (?l1\<lparr>lk_inbox := []\<rparr>) = None"
    by (subst await_reply.simps) simp
  then show ?thesis using c1 d by (simp add: send_once_def transmit_def)
qed

lemma lost_reply_blocks:
  assumes i: "in_step cap c l" and d: "deliverable F R cap p" and k: "kind_of p = Some kind"
    and r: "reconnectable F R cap c" and x: "fresh_stamp (ss_frame x) (lk_db l)"
    and e: "fresh_events R (lk_clock l) (lk_db l)"
    and z: "\<And>i. take 16 (uuid_hex (snd (ss_retry x i))) \<noteq> replicate 16 (CHR ''0'')"
    and fs: "lk_faults l = [Lost_reply]"
  shows "lk_db (snd (link_write R (call_frame F x p c) l))
      = delivered_db R cap (call_frame F x p c) kind (lk_clock l) (lk_db l)"
    and "send F (runtime_link R) x p c l = None"
proof -
  let ?f = "call_frame F x p c" and ?c = "enqueue (call_frame F x p c) c"
  let ?d = "delivered_db R cap ?f kind (lk_clock l) (lk_db l)"
  note w = waiting_after_enqueue [OF i d r x e]
  have l: "\<not> lk_broken l" "lk_stream l = Connected cap" "sc_connected c" "agrees cap c"
    "stands_at cap (sc_last_ack c) (lk_db l)"
    using i by (auto simp: in_step_def link_ready_def)
  let ?b = "(link_serve R ?f (l\<lparr>lk_faults := []\<rparr>))\<lparr>lk_broken := True\<rparr>"
  have lw: "link_write R ?f l = (None, ?b)" using write_fits [OF w(2) l(1)] fs by simp
  have db: "lk_db ?b = ?d"
    using serve_waiting [of F R cap "sc_last_ack c" ?f "l\<lparr>lk_faults := []\<rparr>" kind] w(2) k e l(2) by simp
  then show "lk_db (snd (link_write R ?f l)) = ?d" using lw by simp
  have "send_once F (runtime_link R) (ss_retry x 3) ?f ?c l = Some (Inl (Rpc_failure Unavailable), ?c, ?b)"
    using lw l(3) await_broken [of ?b R "\<lambda>p. None :: (sdk_error + unit) option" None ?c]
    by (simp add: send_once_def transmit_def enqueue_def)
  moreover have "send_once F (runtime_link R) (ss_retry x 2) ?f (?c\<lparr>sc_connected := False\<rparr>) ?b = None"
  proof (rule reconnect_silent)
    show "agrees cap (?c\<lparr>sc_connected := False\<rparr>)" using l(4) by (simp add: agrees_def enqueue_def)
    show "reconnectable F R cap (?c\<lparr>sc_connected := False\<rparr>)"
      using r by (simp add: reconnectable_def enqueue_def)
    show "stands_at cap (Suc (sc_last_ack c)) (lk_db ?b)"
      unfolding db using stands_at_delivered [OF l(5)] by simp
    show "sc_pending (?c\<lparr>sc_connected := False\<rparr>) = [(Suc (sc_last_ack c), ?f)]"
      using i by (simp add: enqueue_def in_step_def)
  qed (use z in simp_all)
  ultimately show "send F (runtime_link R) x p c l = None"
    by (simp add: send_connected [OF i] eval_nat_numeral transient_def Let_def)
qed

section \<open>A refused frame\<close>

text \<open>A client whose buffer holds a frame the Runtime API refused: its next sequence is beyond the one
  the stream expects.\<close>

definition wedged :: "runtime_capability \<Rightarrow> sdk_client \<Rightarrow> link \<Rightarrow> bool" where
  "wedged cap c l \<longleftrightarrow> agrees cap c \<and> sc_connected c \<and> link_ready cap l \<and> lk_faults l = []
     \<and> (\<exists>n. stands_at cap n (lk_db l) \<and> Suc n < next_sequence c)"

lemma refused_serve:
  assumes v: "validate_identity (fr_identity f) cap = Inr ()" and q: "1 \<le> fi_sequence (fr_identity f)"
    and k: "kind_of (fr_payload f) \<notin> {Some ''model_call'', Some ''tool_call''}"
    and a: "accept (rx_funs R) cap f (rx_env R (lk_clock l)) (lk_db l) = Inl (rt_error code)"
    and e: "code \<noteq> ''stale_epoch''" "code \<noteq> ''identity_mismatch''"
    and l: "lk_stream l = Connected cap" "fr_size f \<le> max_frame_bytes"
  shows "link_serve R f l = l\<lparr>lk_inbox := lk_inbox l @ [reply (fr_identity f) (P_error (Some code))],
    lk_clock := Suc (lk_clock l)\<rparr>"
proof -
  have c: "perform_call H G cap (fr_payload f) db = (Inr No_call, db)" for H G db
    using k by (cases "fr_payload f") (auto simp: perform_call_def)
  have "serve_connected (rx_funs R) (rx_gateways R) cap f (rx_env R (lk_clock l)) (lk_db l)
      = ([reply (fr_identity f) (P_error (Some code))], Connected cap, lk_db l)"
    using v q a e c by (simp add: serve_connected_def frame_rejected_def rt_error_def Let_def)
  then show ?thesis using l by (simp add: link_serve_def serve_frame_def)
qed

lemma await_error:
  assumes "\<not> lk_broken l" and "lk_inbox l = [reply fi (P_error code)]"
  shows "await_reply (runtime_link R) recognise r c l = Some (Inl (Platform_error code), c, l\<lparr>lk_inbox := []\<rparr>)"
  using assms by (subst await_reply.simps) (simp add: link_read_def reply_def)

lemma next_sequence_enqueue:
  "next_sequence (enqueue (sdk_frame F c (next_sequence c) key st p) c) = Suc (next_sequence c)"
  by (simp add: next_sequence_def enqueue_def)

lemma send_refused:
  assumes r: "agrees cap c" "sc_connected c" "link_ready cap l" "lk_faults l = []"
    and x: "take 16 (uuid_hex (snd (ss_frame x))) \<noteq> replicate 16 (CHR ''0'')"
    and k: "kind_of p \<notin> {Some ''model_call'', Some ''tool_call''}"
    and size: "\<forall>fi. sf_size F fi p \<le> max_frame_bytes"
    and a: "accept (rx_funs R) cap (sdk_frame F c (next_sequence c) None (ss_frame x) p)
        (rx_env R (lk_clock l)) (lk_db l) = Inl (rt_error code)"
    and e: "code \<noteq> ''stale_epoch''" "code \<noteq> ''identity_mismatch''"
  shows "send F (runtime_link R) x p c l = Some (Inl (platform_error code),
    enqueue (sdk_frame F c (next_sequence c) None (ss_frame x) p) c, l\<lparr>lk_clock := Suc (lk_clock l)\<rparr>)"
proof -
  let ?f = "sdk_frame F c (next_sequence c) None (ss_frame x) p"
  have fits: "fr_size ?f \<le> max_frame_bytes" using size by (simp add: sdk_frame_def Let_def)
  have q: "1 \<le> fi_sequence (fr_identity ?f)" by (simp add: next_sequence_def)
  have v: "validate_identity (fr_identity ?f) cap = Inr ()"
    using sdk_identity_valid [OF r(1) x, of None] by simp
  have l: "\<not> lk_broken l" "lk_inbox l = []" "lk_stream l = Connected cap"
    using r(3) by (auto simp: link_ready_def)
  let ?l1 = "l\<lparr>lk_inbox := [reply (fr_identity ?f) (P_error (Some code))], lk_clock := Suc (lk_clock l)\<rparr>"
  have w: "link_write R ?f l = (None, ?l1)"
    using refused_serve [OF v q _ a e l(3) fits] k l r(4) fits
    by (simp add: link_write_def max_frame_bytes_def)
  have aw: "await_reply (runtime_link R) (\<lambda>p. None :: (sdk_error + unit) option) None (enqueue ?f c) ?l1
      = Some (Inl (platform_error code), enqueue ?f c, ?l1\<lparr>lk_inbox := []\<rparr>)"
    using await_error [of ?l1 "fr_identity ?f" "Some code" R
        "\<lambda>p. None :: (sdk_error + unit) option" None "enqueue ?f c"] l(1) by simp
  have inbox: "?l1\<lparr>lk_inbox := []\<rparr> = l\<lparr>lk_clock := Suc (lk_clock l)\<rparr>" using l(2) by (cases l) simp
  have con: "sc_connected (enqueue ?f c)" using r(2) by (simp add: enqueue_def)
  have "send_once F (runtime_link R) st ?f (enqueue ?f c) l
      = Some (Inl (platform_error code), enqueue ?f c, l\<lparr>lk_clock := Suc (lk_clock l)\<rparr>)" for st
    using w con aw inbox by (simp add: send_once_def transmit_def)
  then show ?thesis using r(2)
    by (simp add: send_def ensure_connected_def max_send_attempts_def Let_def eval_nat_numeral)
qed

text \<open>A payload the client may send at any time.\<close>

definition plain_payload :: "sdk_funs \<Rightarrow> payload \<Rightarrow> bool" where
  "plain_payload F p \<longleftrightarrow> kind_of p \<notin> {None, Some ''hello'', Some ''model_call'', Some ''tool_call''}
     \<and> (\<forall>fi. sf_size F fi p \<le> max_frame_bytes)"

lemma accept_beyond:
  assumes "stands_at cap n db" and "Suc n < fi_sequence (fr_identity f)"
    and "kind_of (fr_payload f) \<notin> {None, Some ''hello''}"
    and "find_frame cap (fi_key (fr_identity f)) (rt_frames db) = None"
  shows "accept H cap f x db = Inl (rt_error ''sequence_out_of_order'')"
  using assms by (auto simp: accept_def stands_at_def)

lemma wedged_send:
  assumes w: "wedged cap c l" and p: "plain_payload F p" and x: "fresh_stamp (ss_frame x) (lk_db l)"
  shows "\<exists>c' l'. send F (runtime_link R) x p c l
      = Some (Inl (platform_error ''sequence_out_of_order''), c', l')
    \<and> wedged cap c' l' \<and> lk_db l' = lk_db l"
proof -
  obtain n where n: "stands_at cap n (lk_db l)" "Suc n < next_sequence c"
    and r: "agrees cap c" "sc_connected c" "link_ready cap l" "lk_faults l = []"
    using w by (auto simp: wedged_def)
  let ?f = "sdk_frame F c (next_sequence c) None (ss_frame x) p"
  let ?c = "enqueue ?f c" and ?l = "l\<lparr>lk_clock := Suc (lk_clock l)\<rparr>"
  have a: "accept (rx_funs R) cap ?f (rx_env R (lk_clock l)) (lk_db l)
      = Inl (rt_error ''sequence_out_of_order'')"
    using accept_beyond [OF n(1), of ?f] n(2) p key_unknown [OF x, of "fr_identity ?f" cap]
    by (simp add: plain_payload_def)
  have "send F (runtime_link R) x p c l
      = Some (Inl (platform_error ''sequence_out_of_order''), ?c, ?l)"
    using p x by (intro send_refused [OF r _ _ _ a]) (auto simp: plain_payload_def fresh_stamp_def)
  moreover have "wedged cap ?c ?l"
    using r n next_sequence_enqueue [of F c None "ss_frame x" p]
    by (auto simp: wedged_def agrees_def link_ready_def enqueue_def)
  ultimately show ?thesis by auto
qed

lemma refused_then_wedged:
  assumes i: "in_step cap c l" and fs: "lk_faults l = []" and p: "plain_payload F p"
    and x: "take 16 (uuid_hex (snd (ss_frame x))) \<noteq> replicate 16 (CHR ''0'')"
    and a: "accept (rx_funs R) cap (call_frame F x p c) (rx_env R (lk_clock l)) (lk_db l)
      = Inl (rt_error code)"
    and e: "code \<noteq> ''stale_epoch''" "code \<noteq> ''identity_mismatch''"
  shows "\<exists>c' l'. send F (runtime_link R) x p c l = Some (Inl (platform_error code), c', l')
    \<and> wedged cap c' l' \<and> lk_db l' = lk_db l"
proof -
  have c: "agrees cap c" "sc_connected c" "sc_pending c = []" "link_ready cap l"
    "stands_at cap (sc_last_ack c) (lk_db l)" using i by (auto simp: in_step_def)
  let ?c = "enqueue (call_frame F x p c) c" and ?l = "l\<lparr>lk_clock := Suc (lk_clock l)\<rparr>"
  have n: "next_sequence c = Suc (sc_last_ack c)" by (rule next_sequence_Nil [OF c(3)])
  have "send F (runtime_link R) x p c l = Some (Inl (platform_error code), ?c, ?l)"
    using send_refused [OF c(1,2,4) fs x _ _ _ e, of p F R] p a n by (simp add: plain_payload_def)
  moreover have "next_sequence ?c = Suc (Suc (sc_last_ack c))"
    using next_sequence_enqueue [of F c None "ss_frame x" p] n by simp
  then have "wedged cap ?c ?l" using c fs
    by (auto simp: wedged_def agrees_def link_ready_def enqueue_def)
  ultimately show ?thesis by auto
qed

text \<open>The results of calls made one after the other, until one does not return.\<close>

fun send_results ::
  "sdk_funs \<Rightarrow> 'w transport \<Rightarrow> (send_stamps \<times> payload) list \<Rightarrow> sdk_client \<Rightarrow> 'w
     \<Rightarrow> (sdk_error + acknowledgement) option list" where
  "send_results F tp [] c w = []"
| "send_results F tp ((x, p) # qs) c w =
     (case send F tp x p c w of
        None \<Rightarrow> [None]
      | Some (r, c', w') \<Rightarrow> Some r # send_results F tp qs c' w')"

lemma wedged_results:
  assumes "wedged cap c l"
    and "list_all (\<lambda>q. plain_payload F (snd q) \<and> fresh_stamp (ss_frame (fst q)) (lk_db l)) qs"
  shows "send_results F (runtime_link R) qs c l
    = replicate (length qs) (Some (Inl (platform_error ''sequence_out_of_order'')))"
  using assms
proof (induction qs arbitrary: c l)
  case (Cons q qs)
  obtain x p where q: "q = (x, p)" by (cases q)
  obtain c' l' where "send F (runtime_link R) x p c l
      = Some (Inl (platform_error ''sequence_out_of_order''), c', l')" "wedged cap c' l'" "lk_db l' = lk_db l"
    using wedged_send [OF Cons.prems(1), of F p x R] Cons.prems(2) q by auto
  then show ?case using Cons.IH [of c' l'] Cons.prems(2) q by simp
qed simp

text \<open>A frame above the limit of the channel is never sent.\<close>

lemma oversized_frame_fails:
  assumes "in_step cap c l" and "16 * 1024 < fr_size (call_frame F x p c)"
  shows "\<exists>c' l'. send F (runtime_link R) x p c l = Some (Inl (platform_error ''transport_error''), c', l')"
proof -
  have l: "\<not> lk_broken l" "sc_connected c" using assms(1) by (auto simp: in_step_def link_ready_def)
  have "send_once F (runtime_link R) st (call_frame F x p c) (enqueue (call_frame F x p c) c) l
      = Some (Inl (Rpc_failure Other_status), enqueue (call_frame F x p c) c, l\<lparr>lk_broken := True\<rparr>)" for st
    using assms(2) l by (simp add: send_once_def transmit_def link_write_def enqueue_def)
  then show ?thesis by (simp add: send_connected [OF assms(1)] eval_nat_numeral transient_def Let_def)
qed

end
