(* ===== verification/AgentStream.thy ===== *)
theory AgentStream
  imports AgentLink
begin

text \<open>
  A message streamed by an agent over a reliable channel: the frames the Runtime API accepts and the
  events it publishes for it.
\<close>

section \<open>Frames sent one after the other\<close>

definition advanced :: "sdk_client \<Rightarrow> sdk_client" where
  "advanced c = c\<lparr>sc_last_ack := Suc (sc_last_ack c)\<rparr>"

abbreviation numbered_frame :: "sdk_funs \<Rightarrow> sdk_client \<Rightarrow> stamp \<Rightarrow> payload \<Rightarrow> agent_frame" where
  "numbered_frame F c st p \<equiv> sdk_frame F c (Suc (sc_last_ack c)) None st p"

definition pushed ::
  "sdk_funs \<Rightarrow> runtime_side \<Rightarrow> runtime_capability \<Rightarrow> sdk_client \<Rightarrow> stamp \<Rightarrow> payload \<Rightarrow> link \<Rightarrow> link" where
  "pushed F R cap c st p l =
     l\<lparr>lk_db := delivered_db R cap (numbered_frame F c st p) (the (kind_of p)) (lk_clock l) (lk_db l),
       lk_clock := Suc (lk_clock l)\<rparr>"

fun push_all ::
  "sdk_funs \<Rightarrow> runtime_side \<Rightarrow> runtime_capability \<Rightarrow> (stamp \<times> payload) list \<Rightarrow> sdk_client \<Rightarrow> link
     \<Rightarrow> sdk_client \<times> link" where
  "push_all F R cap [] c l = (c, l)"
| "push_all F R cap ((st, p) # ps) c l = push_all F R cap ps (advanced c) (pushed F R cap c st p l)"

fun pushed_rows ::
  "sdk_funs \<Rightarrow> runtime_side \<Rightarrow> runtime_capability \<Rightarrow> (stamp \<times> payload) list \<Rightarrow> sdk_client \<Rightarrow> nat
     \<Rightarrow> runtime_event outbox_row list" where
  "pushed_rows F R cap [] c n = []"
| "pushed_rows F R cap ((st, p) # ps) c n =
     published_rows R cap (numbered_frame F c st p) n @ pushed_rows F R cap ps (advanced c) (Suc n)"

lemma push_all_append:
  "push_all F R cap (ps @ qs) c l =
     (case push_all F R cap ps c l of (c', l') \<Rightarrow> push_all F R cap qs c' l')"
  by (induction F R cap ps c l rule: push_all.induct) simp_all

lemma push_all_outbox:
  "rt_outbox (lk_db (snd (push_all F R cap ps c l)))
     = rt_outbox (lk_db l) @ pushed_rows F R cap ps c (lk_clock l)"
  by (induction F R cap ps c l rule: push_all.induct) (simp_all add: pushed_def delivered_db_def)

lemma push_all_ack:
  "sc_last_ack (fst (push_all F R cap ps c l)) = sc_last_ack c + length ps"
  by (induction F R cap ps c l rule: push_all.induct) (simp_all add: advanced_def)

lemma push_all_frames:
  "length (rt_frames (lk_db (snd (push_all F R cap ps c l)))) = length (rt_frames (lk_db l)) + length ps"
  by (induction F R cap ps c l rule: push_all.induct) (simp_all add: pushed_def delivered_db_def)

text \<open>The state the calls keep, and the stamps they need.\<close>

definition reliable :: "runtime_side \<Rightarrow> runtime_capability \<Rightarrow> sdk_client \<Rightarrow> link \<Rightarrow> bool" where
  "reliable R cap c l \<longleftrightarrow> in_step cap c l \<and> lk_faults l = [] \<and> fresh_events R (lk_clock l) (lk_db l)"

definition fresh_stamps :: "stamp list \<Rightarrow> runtime_db \<Rightarrow> bool" where
  "fresh_stamps sts db \<longleftrightarrow> distinct (map (\<lambda>st. uuid_str (fst st)) sts)
     \<and> list_all (\<lambda>st. fresh_stamp st db) sts"

lemma reliable_pushed:
  assumes "reliable R cap c l"
  shows "reliable R cap (advanced c) (pushed F R cap c st p l)"
  using assms in_step_delivered [where cap = cap and c = c and l = l and m = "Suc (lk_clock l)"]
    fresh_events_delivered [of R "lk_clock l" "lk_db l" cap]
  by (simp add: reliable_def advanced_def pushed_def)

lemma fresh_stamps_pushed:
  assumes "fresh_stamps (st # sts) (lk_db l)"
  shows "fresh_stamps sts (lk_db (pushed F R cap c st p l))"
  using assms
  by (auto simp: fresh_stamps_def fresh_stamp_def pushed_def delivered_db_def accepted_frame_def
      list_all_iff image_iff)

lemma send_pushes:
  assumes "reliable R cap c l" and "deliverable F R cap p" and "fresh_stamp (ss_frame x) (lk_db l)"
  shows "\<exists>a. send F (runtime_link R) x p c l
    = Some (Inr a, advanced c, pushed F R cap c (ss_frame x) p l)"
proof -
  obtain kind where k: "kind_of p = Some kind" using assms(2) by (rule deliverable_kind)
  show ?thesis using send_delivered [OF _ assms(2) k assms(3)] assms(1) k
    by (simp add: reliable_def advanced_def pushed_def)
qed

section \<open>A streamed message\<close>

fun delta_payloads :: "uuid \<Rightarrow> nat \<Rightarrow> (send_stamps \<times> pystr) list \<Rightarrow> (stamp \<times> payload) list" where
  "delta_payloads mid n [] = []"
| "delta_payloads mid n ((x, content) # ds) =
     (ss_frame x, F_message_delta (Good mid) (Suc n) content) # delta_payloads mid (Suc n) ds"

definition message_payloads ::
  "sdk_funs \<Rightarrow> send_stamps \<times> send_stamps \<Rightarrow> (send_stamps \<times> pystr) list \<Rightarrow> uuid \<Rightarrow> pystr
     \<Rightarrow> (stamp \<times> payload) list" where
  "message_payloads F xs ds mid content_type =
     (ss_frame (fst xs), F_message_started (Good mid) content_type)
     # delta_payloads mid 0 ds @ [(ss_frame (snd xs), completed_frame F mid (map snd ds) ''stop'')]"

lemma delta_payloads_stamps: "map fst (delta_payloads mid n ds) = map (ss_frame \<circ> fst) ds"
  by (induction mid n ds rule: delta_payloads.induct) simp_all

lemma delta_payloads_nth:
  "i < length ds \<Longrightarrow> delta_payloads mid n ds ! i
     = (ss_frame (fst (ds ! i)), F_message_delta (Good mid) (Suc (n + i)) (snd (ds ! i)))"
  by (induction mid n ds arbitrary: i rule: delta_payloads.induct) (auto simp: nth_Cons')

lemma length_delta_payloads [simp]: "length (delta_payloads mid n ds) = length ds"
  by (induction mid n ds rule: delta_payloads.induct) simp_all

text \<open>What the caller has to respect: chunks of 1 to 4096 bytes.\<close>

definition chunk_ok :: "pystr \<Rightarrow> bool" where
  "chunk_ok content \<longleftrightarrow> content \<noteq> [] \<and> length content \<le> 4096"

definition writing :: "message_stream \<Rightarrow> pystr list \<Rightarrow> bool" where
  "writing m chunks \<longleftrightarrow> \<not> mw_terminal m \<and> mw_chunks m = Some chunks"

lemma message_deltas_pushed:
  assumes "reliable R cap c l" and "list_all (\<lambda>d. chunk_ok (snd d)) ds"
    and "list_all (\<lambda>q. deliverable F R cap (snd q)) (delta_payloads (mw_message_id m) (length chunks) ds)"
    and "fresh_stamps (map (ss_frame \<circ> fst) ds @ sts) (lk_db l)" and "writing m chunks"
  shows "\<exists>c' l'. message_deltas F (runtime_link R) ds m c l
      = Some (Inr (), m\<lparr>mw_chunks := Some (chunks @ map snd ds)\<rparr>, c', l')
    \<and> push_all F R cap (delta_payloads (mw_message_id m) (length chunks) ds) c l = (c', l')
    \<and> reliable R cap c' l' \<and> fresh_stamps sts (lk_db l')"
  using assms
proof (induction ds arbitrary: m chunks c l)
  case Nil
  then show ?case by (simp add: writing_def)
next
  case (Cons d ds)
  obtain x content where d: "d = (x, content)" by (cases d)
  let ?p = "F_message_delta (Good (mw_message_id m)) (Suc (length chunks)) content"
  let ?m = "m\<lparr>mw_chunks := Some (chunks @ [content])\<rparr>" and ?l = "pushed F R cap c (ss_frame x) ?p l"
  have fr: "fresh_stamp (ss_frame x) (lk_db l)" "deliverable F R cap ?p"
    using Cons.prems(3,4) d by (auto simp: fresh_stamps_def)
  obtain a where "send F (runtime_link R) x ?p c l = Some (Inr a, advanced c, ?l)"
    using send_pushes [OF Cons.prems(1) fr(2,1)] by blast
  then have one: "message_delta F (runtime_link R) x content m c l = Some (Inr (), ?m, advanced c, ?l)"
    using Cons.prems(2,5) d
    by (simp add: message_delta_def writing_def chunk_ok_def send_of_def Let_def)
  have f: "fresh_stamps (map (ss_frame \<circ> fst) ds @ sts) (lk_db ?l)"
    using fresh_stamps_pushed [of "ss_frame x"] Cons.prems(4) by (simp add: d comp_def)
  have dl: "list_all (\<lambda>q. deliverable F R cap (snd q))
      (delta_payloads (mw_message_id ?m) (length (chunks @ [content])) ds)"
    using Cons.prems(3) d by simp
  have ok: "list_all (\<lambda>d. chunk_ok (snd d)) ds" using Cons.prems(2) by simp
  have w: "writing ?m (chunks @ [content])" using Cons.prems(5) by (simp add: writing_def)
  obtain c' l' where rest: "message_deltas F (runtime_link R) ds ?m (advanced c) ?l
      = Some (Inr (), ?m\<lparr>mw_chunks := Some ((chunks @ [content]) @ map snd ds)\<rparr>, c', l')"
    "push_all F R cap (delta_payloads (mw_message_id m) (Suc (length chunks)) ds) (advanced c) ?l = (c', l')"
    "reliable R cap c' l'" "fresh_stamps sts (lk_db l')"
    using Cons.IH [OF reliable_pushed [OF Cons.prems(1)] ok dl f w] by auto
  then show ?case using one d by simp
qed

lemma stream_message_pushed:
  assumes r: "reliable R cap c l" and ok: "list_all (\<lambda>d. chunk_ok (snd d)) ds"
    and size: "length (concat (map snd ds)) \<le> 256 * 1024"
    and del: "list_all (\<lambda>q. deliverable F R cap (snd q)) (message_payloads F xs ds mid content_type)"
    and fr: "fresh_stamps (map fst (message_payloads F xs ds mid content_type)) (lk_db l)"
  shows "\<exists>m c' l'. stream_message F (runtime_link R) xs ds mid content_type c l = Some (Inr (), m, c', l')
    \<and> push_all F R cap (message_payloads F xs ds mid content_type) c l = (c', l')
    \<and> reliable R cap c' l'"
proof -
  let ?m0 = "(sdk_message mid content_type)\<lparr>mw_chunks := Some []\<rparr>"
  let ?s = "F_message_started (Good mid) content_type" and ?e = "completed_frame F mid (map snd ds) ''stop''"
  let ?l1 = "pushed F R cap c (ss_frame (fst xs)) ?s l"
  have fr': "fresh_stamps (ss_frame (fst xs) # map (ss_frame \<circ> fst) ds @ [ss_frame (snd xs)]) (lk_db l)"
    using fr by (simp add: message_payloads_def delta_payloads_stamps)
  have del': "deliverable F R cap ?s" "deliverable F R cap ?e"
    "list_all (\<lambda>q. deliverable F R cap (snd q)) (delta_payloads mid 0 ds)"
    using del by (simp_all add: message_payloads_def)
  have m: "mw_message_id (sdk_message mid content_type) = mid" "mw_content_type (sdk_message mid content_type) = content_type"
    by (simp_all add: sdk_message_def)
  obtain a where "send F (runtime_link R) (fst xs) ?s c l = Some (Inr a, advanced c, ?l1)"
    using send_pushes [OF r del'(1), of "fst xs"] fr' by (auto simp: fresh_stamps_def)
  then have 1: "message_enter F (runtime_link R) (fst xs) (sdk_message mid content_type) c l
      = Some (Inr (), ?m0, advanced c, ?l1)"
    using m by (simp add: message_enter_def send_of_def Let_def)
  have r1: "reliable R cap (advanced c) ?l1" by (rule reliable_pushed [OF r])
  have f1: "fresh_stamps (map (ss_frame \<circ> fst) ds @ [ss_frame (snd xs)]) (lk_db ?l1)"
    by (rule fresh_stamps_pushed [OF fr'])
  have w: "writing ?m0 []" "mw_message_id ?m0 = mid" by (simp_all add: writing_def sdk_message_def)
  have dl: "list_all (\<lambda>q. deliverable F R cap (snd q))
      (delta_payloads (mw_message_id ?m0) (length ([] :: pystr list)) ds)"
    using del'(3) w(2) by simp
  obtain c2 l2 where 2: "message_deltas F (runtime_link R) ds ?m0 (advanced c) ?l1
      = Some (Inr (), ?m0\<lparr>mw_chunks := Some (map snd ds)\<rparr>, c2, l2)"
    "push_all F R cap (delta_payloads mid 0 ds) (advanced c) ?l1 = (c2, l2)"
    "reliable R cap c2 l2" "fresh_stamps [ss_frame (snd xs)] (lk_db l2)"
    using message_deltas_pushed [OF r1 ok dl f1 w(1)] w(2) by auto
  let ?m2 = "?m0\<lparr>mw_chunks := Some (map snd ds)\<rparr>"
  obtain b where "send F (runtime_link R) (snd xs) ?e c2 l2
      = Some (Inr b, advanced c2, pushed F R cap c2 (ss_frame (snd xs)) ?e l2)"
    using send_pushes [OF 2(3) del'(2), of "snd xs"] 2(4) by (auto simp: fresh_stamps_def)
  then have 3: "message_exit F (runtime_link R) (snd xs) False ?m2 c2 l2
      = Some (Inr (), ?m2\<lparr>mw_terminal := True\<rparr>, advanced c2, pushed F R cap c2 (ss_frame (snd xs)) ?e l2)"
    using size by (simp add: message_exit_def message_complete_def sdk_message_def send_of_def Let_def)
  have "push_all F R cap (message_payloads F xs ds mid content_type) c l
      = (advanced c2, pushed F R cap c2 (ss_frame (snd xs)) ?e l2)"
    using 2(2) by (simp add: message_payloads_def push_all_append)
  then show ?thesis using 1 2(1) 3 reliable_pushed [OF 2(3)]
    by (simp add: stream_message_def)
qed

end
