(* ===== verification/ConversationStream.thy ===== *)
theory ConversationStream
  imports ConversationProperties
begin

text \<open>
  How the Conversation Service composes a message from the events of its stream: each of them is
  applied, and the last one completes the message with the chunks joined.
\<close>

section \<open>Events of a run\<close>

text \<open>The address of a run: its owner, conversation, run and thread.\<close>

type_synonym run_address = "uuid \<times> uuid \<times> uuid \<times> uuid"

definition bound_event :: "run_address \<Rightarrow> envelope \<Rightarrow> pystr \<times> event_data \<Rightarrow> bool" where
  "bound_event a e kd \<longleftrightarrow> (case a of (owner, cid, run, thread) \<Rightarrow>
     addressed e \<and> ev_conversation_id e = Good cid \<and> ev_user_id e = Good owner
     \<and> ev_run_id e = Good run \<and> ev_thread_id e = Good thread \<and> ev_type e = Some (fst kd)
     \<and> ev_data e = Some (snd kd))"

definition at_home :: "run_address \<Rightarrow> conversation_db \<Rightarrow> bool" where
  "at_home a db \<longleftrightarrow> (case a of (owner, cid, run, thread) \<Rightarrow>
     (\<exists>c. owned owner cid db = Inr c \<and> v_thread_id c = thread)
     \<and> row_by rp_run_id run (result_proposals db) = None)"

definition parsed_of :: "envelope \<Rightarrow> run_address \<Rightarrow> pystr \<Rightarrow> uuid \<Rightarrow> parsed_event" where
  "parsed_of e a kind mid = (case a of (owner, cid, run, thread) \<Rightarrow>
     \<lparr>pe_event_id = projected_id e, pe_conversation_id = cid, pe_run_id = run,
      pe_correlation_id = (case ev_correlation_id e of Good u \<Rightarrow> u | _ \<Rightarrow> 0),
      pe_causation_id = (case ev_causation_id e of Good u \<Rightarrow> u | _ \<Rightarrow> 0),
      pe_traceparent = (case ev_traceparent e of Some t \<Rightarrow> t | None \<Rightarrow> []), pe_kind = kind,
      pe_message_id = Some mid\<rparr>)"

lemma project_bound:
  assumes "bound_event a e (kind, data)" and "at_home a db" and "d_message_id data = Good mid"
    and "\<not> projected db (projected_id e)"
  shows "project H e x db =
    (case project_effect H (parsed_of e a kind mid) data x db of
       Inl err \<Rightarrow> Inl err
     | Inr (out, db1) \<Rightarrow> Inr (out, db1\<lparr>inbox_events := inbox_events db1
         @ [(projected_id e, kind, xe_now x)]\<rparr>))"
proof -
  obtain owner cid run thread where a: "a = (owner, cid, run, thread)" by (cases a)
  have v: "validate_event_envelope e" using assms(1) by (simp add: bound_event_def a addressed_def)
  obtain i where i: "ev_id e = Good i"
    using assms(1) by (auto simp: bound_event_def a addressed_def good_iff)
  obtain corr cause tp where g: "ev_correlation_id e = Good corr" "ev_causation_id e = Good cause"
    "ev_traceparent e = Some tp"
    using v by (auto simp: validate_event_envelope_def good_iff)
  obtain c where c: "owned owner cid db = Inr c" "v_thread_id c = thread"
    using assms(2) by (auto simp: at_home_def a)
  have id: "projected_id e = i" using i by (simp add: projected_id_def)
  show ?thesis using assms v g i c unfolding id
    by (simp add: project_def bound_event_def a parsed_of_def projected_def id)
qed

lemma parsed_of_simps [simp]:
  "pe_kind (parsed_of e a kind mid) = kind" "pe_message_id (parsed_of e a kind mid) = Some mid"
  "pe_event_id (parsed_of e a kind mid) = projected_id e"
  by (simp_all add: parsed_of_def case_prod_unfold)

lemma parsed_of_address [simp]:
  "pe_conversation_id (parsed_of e (owner, cid, run, thread) kind mid) = cid"
  "pe_run_id (parsed_of e (owner, cid, run, thread) kind mid) = run"
  by (simp_all add: parsed_of_def)

section \<open>Presenting\<close>

text \<open>The invariant of the service gives what presenting an event needs.\<close>

lemma show_event_succeeds:
  assumes "history_inv db" and "at_home a db"
  shows "\<exists>s db'. show_event (parsed_of e a kind mid) data x db = Inr (Some s, db')
    \<and> at_home a db' \<and> messages db' = messages db \<and> message_chunks db' = message_chunks db
    \<and> inbox_events db' = inbox_events db"
proof -
  obtain owner cid run thread where a: "a = (owner, cid, run, thread)" by (cases a)
  obtain c where c: "owned owner cid db = Inr c" "v_thread_id c = thread"
    "row_by rp_run_id run (result_proposals db) = None"
    using assms(2) by (auto simp: at_home_def a)
  then have r: "row_by v_conversation_id cid (conversations db) = Some c" "v_owner_id c = owner"
    by (auto simp: owned_def split: option.splits if_splits)
  obtain db' where p: "present cid kind (Runtime_shown data) (xe_now x) db
      = Inr (Suc (v_last_sequence c), db')" using present_succeeds [OF assms(1) r(1)] by blast
  have "row_by v_conversation_id cid (conversations db')
      = Some (c\<lparr>v_last_sequence := v_last_sequence c + 1, v_updated_at := xe_now x\<rparr>)"
    using p
  proof (rule present_cases)
    fix c0
    assume c0: "row_by v_conversation_id cid (conversations db) = Some c0"
      and "db' = db\<lparr>conversations := update_where (\<lambda>r. v_conversation_id r = cid)
         (\<lambda>r. r\<lparr>v_last_sequence := v_last_sequence r + 1, v_updated_at := xe_now x\<rparr>)
         (conversations db),
       presentation_events := presentation_events db @
         [\<lparr>s_conversation_id = cid, s_sequence = Suc (v_last_sequence c), s_event_type = kind,
           s_data = Runtime_shown data, s_created_at = xe_now x\<rparr>]\<rparr>"
    moreover have "v_conversation_id c = cid" using r(1) by (auto dest: row_by_SomeD)
    ultimately show ?thesis using r(1) by (simp add: row_by_update_where)
  qed
  then have "at_home a db'"
    using c r(2) present_frame(7) [OF p] by (simp add: at_home_def a owned_def)
  then show ?thesis using p present_frame(1,2,5) [OF p] by (simp add: show_event_def a)
qed

section \<open>Composing a message\<close>

definition chunk_rows :: "uuid \<Rightarrow> pystr list \<Rightarrow> chunk_row list" where
  "chunk_rows mid cs =
     map (\<lambda>i. \<lparr>h_message_id = mid, h_sequence = Suc i, h_content = cs ! i\<rparr>) [0..<length cs]"

definition composing ::
  "digests \<Rightarrow> run_address \<Rightarrow> uuid \<Rightarrow> pystr list \<Rightarrow> uuid set \<Rightarrow> conversation_db \<Rightarrow> bool" where
  "composing H a mid cs used db \<longleftrightarrow> conv_inv H db \<and> at_home a db
     \<and> (\<exists>m. row_by m_message_id mid (messages db) = Some m \<and> m_conversation_id m = fst (snd a)
          \<and> m_run_id m = fst (snd (snd a)) \<and> m_status m = Streaming)
     \<and> chunks_of mid db = chunk_rows mid cs \<and> fst ` set (inbox_events db) = used"

lemma chunk_rows_snoc:
  "chunk_rows mid (cs @ [c])
     = chunk_rows mid cs @ [\<lparr>h_message_id = mid, h_sequence = Suc (length cs), h_content = c\<rparr>]"
  by (simp add: chunk_rows_def nth_append)

lemma projected_iff: "projected db i \<longleftrightarrow> i \<in> fst ` set (inbox_events db)"
  by (auto simp: projected_def has_row_iff image_iff)

lemma conv_inv_project: "project H e x db = Inr (out, db') \<Longrightarrow> conv_inv H db \<Longrightarrow> conv_inv H db'"
  by (rule conv_inv_step [OF conv_step.Project])

definition started_data :: "uuid \<Rightarrow> pystr \<times> event_data" where
  "started_data mid = (''porfirium.message.started.v1'', empty_data\<lparr>d_message_id := Good mid\<rparr>)"

definition delta_data :: "uuid \<Rightarrow> nat \<Rightarrow> pystr \<Rightarrow> pystr \<times> event_data" where
  "delta_data mid n content = (''porfirium.message.delta.v1'',
     empty_data\<lparr>d_message_id := Good mid, d_chunk_sequence := Good (int n), d_content := Some content\<rparr>)"

text \<open>What the completing event announces: the content with its length, hash and number of chunks.\<close>

definition announces :: "digests \<Rightarrow> uuid \<Rightarrow> pystr list \<Rightarrow> event_data \<Rightarrow> bool" where
  "announces H mid cs data \<longleftrightarrow> d_message_id data = Good mid \<and> d_content data = Some (concat cs)
     \<and> d_content_bytes data = Good (int (length (concat cs)))
     \<and> d_chunk_count data = Good (int (length cs))
     \<and> d_content_sha256 data = Some (dg_sha256 H (concat cs))"

lemma empty_data_message: "d_message_id (snd (started_data mid)) = Good mid"
  "d_message_id (snd (delta_data mid n c)) = Good mid"
  by (simp_all add: started_data_def delta_data_def)

lemma conv_inv_history: "conv_inv H db \<Longrightarrow> history_inv db"
  by (simp add: conv_inv_def)

lemma at_home_inbox [simp]: "at_home a (db\<lparr>inbox_events := v\<rparr>) = at_home a db"
  by (simp add: at_home_def owned_def split: prod.split)

lemma composing_started:
  assumes inv: "conv_inv H db" and home: "at_home a db" and b: "bound_event a e (started_data mid)"
    and new: "row_by m_message_id mid (messages db) = None" "chunks_of mid db = []"
    and id: "projected_id e \<notin> fst ` set (inbox_events db)"
  shows "\<exists>s db'. project H e x db = Inr (Some s, db')
    \<and> composing H a mid [] (insert (projected_id e) (fst ` set (inbox_events db))) db'"
proof -
  let ?kind = "''porfirium.message.started.v1''" and ?data = "snd (started_data mid)"
  let ?pe = "parsed_of e a ?kind mid"
  let ?db1 = "db\<lparr>messages := messages db @ [streaming_message ?pe mid (xe_now x)]\<rparr>"
  have b': "bound_event a e (?kind, ?data)" using b by (simp add: started_data_def)
  have h1: "history_inv ?db1" using conv_inv_history [OF inv] by (simp add: history_defs)
  have "at_home a ?db1" using home by (simp add: at_home_def owned_def split: prod.split)
  then obtain s db2 where sh: "show_event ?pe ?data x ?db1 = Inr (Some s, db2)" "at_home a db2"
    "messages db2 = messages ?db1" "message_chunks db2 = message_chunks db"
    "inbox_events db2 = inbox_events db" using show_event_succeeds [OF h1] by fastforce
  let ?db3 = "db2\<lparr>inbox_events := inbox_events db2 @ [(projected_id e, ?kind, xe_now x)]\<rparr>"
  have "project_effect H ?pe ?data x db = Inr (Some s, db2)"
    using sh(1) new(1) by (simp add: project_effect_def project_started_def has_row_def)
  then have p: "project H e x db = Inr (Some s, ?db3)"
    using project_bound [OF b' home] id by (simp add: empty_data_message projected_iff)
  have m: "row_by m_message_id mid (messages ?db3) = Some (streaming_message ?pe mid (xe_now x))"
    using sh(3) new(1) by (simp add: row_by_append streaming_message_def)
  have "m_conversation_id (streaming_message ?pe mid (xe_now x)) = fst (snd a)"
    "m_run_id (streaming_message ?pe mid (xe_now x)) = fst (snd (snd a))"
    "m_status (streaming_message ?pe mid (xe_now x)) = Streaming"
    by (cases a; simp add: streaming_message_def)+
  then have "composing H a mid [] (insert (projected_id e) (fst ` set (inbox_events db))) ?db3"
    using conv_inv_project [OF p inv] sh m new(2)
    by (simp add: composing_def chunk_rows_def chunks_of_def)
  then show ?thesis using p by blast
qed

lemma project_bound_applied:
  assumes "bound_event a e (kind, data)" and "at_home a db" and "d_message_id data = Good mid"
    and "projected_id e \<notin> fst ` set (inbox_events db)"
    and "project_effect H (parsed_of e a kind mid) data x db = Inr (Some s, db2)"
  shows "project H e x db = Inr (Some s, db2\<lparr>inbox_events := inbox_events db2
    @ [(projected_id e, kind, xe_now x)]\<rparr>)"
  using project_bound [OF assms(1-3), where H = H and x = x] assms(4,5) by (simp add: projected_iff)

lemma streaming_found:
  assumes "composing H a mid cs used db"
  shows "require_streaming (Some mid) (fst (snd a)) db = Inr mid"
  using assms by (auto simp: composing_def require_streaming_def)

lemma chunk_rows_row_by: "row_by h_sequence (Suc (length cs)) (chunk_rows mid cs) = None"
  by (auto simp: row_by_None_iff chunk_rows_def)

lemma parsed_address: "pe_conversation_id (parsed_of e a kind mid) = fst (snd a)"
  "pe_run_id (parsed_of e a kind mid) = fst (snd (snd a))"
  by (simp_all add: parsed_of_def case_prod_unfold)

text \<open>The bounds of a stream: chunks of 1 to 4096 bytes, at most 65536 of them.\<close>

definition chunk_fits :: "pystr \<Rightarrow> bool" where
  "chunk_fits content \<longleftrightarrow> content \<noteq> [] \<and> length content \<le> max_delta_bytes"

lemma composing_delta:
  assumes k: "composing H a mid cs used db" and b: "bound_event a e (delta_data mid (Suc (length cs)) content)"
    and id: "projected_id e \<notin> used" and ok: "chunk_fits content" and n: "length cs < 65536"
  shows "\<exists>s db'. project H e x db = Inr (Some s, db')
    \<and> composing H a mid (cs @ [content]) (insert (projected_id e) used) db'"
proof -
  let ?kind = "''porfirium.message.delta.v1''" and ?data = "snd (delta_data mid (Suc (length cs)) content)"
  let ?pe = "parsed_of e a ?kind mid"
  let ?row = "\<lparr>h_message_id = mid, h_sequence = Suc (length cs), h_content = content\<rparr>"
  let ?db1 = "db\<lparr>message_chunks := message_chunks db @ [?row]\<rparr>"
  note c = k [unfolded composing_def]
  have b': "bound_event a e (?kind, ?data)" using b by (simp add: delta_data_def)
  have h1: "history_inv ?db1" using c conv_inv_history [of H db] by (simp add: history_defs)
  have "at_home a ?db1" using c by (simp add: at_home_def owned_def split: prod.split)
  then obtain s db2 where sh: "show_event ?pe ?data x ?db1 = Inr (Some s, db2)" "at_home a db2"
    "messages db2 = messages ?db1" "message_chunks db2 = message_chunks ?db1"
    "inbox_events db2 = inbox_events ?db1" using show_event_succeeds [OF h1] by blast
  have pd: "parse_delta ?data = Inr (Suc (length cs), content)"
    using ok n by (simp add: parse_delta_def delta_data_def chunk_fits_def max_chunk_sequence_def)
  have "row_by h_sequence (Suc (length cs)) (chunks_of mid db) = None"
    using c chunk_rows_row_by by simp
  then have eff: "project_effect H ?pe ?data x db = Inr (Some s, db2)"
    using sh(1) pd streaming_found [OF k]
    by (simp add: project_effect_def project_delta_def parsed_address)
  note p = project_bound_applied [OF b' _ empty_data_message(2) _ eff]
  have p': "project H e x db = Inr (Some s, db2\<lparr>inbox_events := inbox_events db2
      @ [(projected_id e, ?kind, xe_now x)]\<rparr>)"
    using p c id by simp
  have "composing H a mid (cs @ [content]) (insert (projected_id e) used)
      (db2\<lparr>inbox_events := inbox_events db2 @ [(projected_id e, ?kind, xe_now x)]\<rparr>)"
    using conv_inv_project [OF p'] sh c
    by (auto simp: composing_def chunk_rows_snoc chunks_of_def)
  then show ?thesis using p' by blast
qed

lemma chunk_rows_facts:
  "map (\<lambda>h. h_sequence h) (chunk_rows mid cs) = [1..<Suc (length cs)]"
  "concat (map (chunk_of (map (\<lambda>h. (h_sequence h, h_content h)) (chunk_rows mid cs)))
     [1..<Suc (length cs)]) = concat cs"
proof -
  show s: "map (\<lambda>h. h_sequence h) (chunk_rows mid cs) = [1..<Suc (length cs)]"
    by (simp add: chunk_rows_def comp_def map_Suc_upt del: upt_Suc)
  let ?m = "map (\<lambda>h. (h_sequence h, h_content h)) (chunk_rows mid cs)"
  have keys: "distinct (map fst ?m)"
  proof -
    have "map fst ?m = [1..<Suc (length cs)]" using s by (simp add: comp_def del: upt_Suc)
    then show ?thesis by (simp del: upt_Suc)
  qed
  have "chunk_of ?m (Suc i) = cs ! i" if "i < length cs" for i
  proof -
    have "(Suc i, cs ! i) \<in> set ?m" using that by (auto simp: chunk_rows_def image_iff)
    then have "map_of ?m (Suc i) = Some (cs ! i)" using keys by (rule map_of_is_SomeI [rotated])
    then show ?thesis by (simp add: chunk_of_def)
  qed
  then have "map (chunk_of ?m) [1..<Suc (length cs)] = map (\<lambda>i. cs ! i) [0..<length cs]"
    unfolding One_nat_def map_Suc_upt [symmetric] map_map by (intro map_cong refl) simp
  then have "map (chunk_of ?m) [1..<Suc (length cs)] = cs"
    by (simp add: map_nth del: upt_Suc)
  then show "concat (map (chunk_of ?m) [1..<Suc (length cs)]) = concat cs" by (rule arg_cong)
qed

lemma composed_validates:
  assumes "announces H mid cs data" and "length (concat cs) \<le> max_message_bytes" and "length cs \<le> 65536"
  shows "validate_completion (dg_sha256 H) data
    (map (\<lambda>h. (h_sequence h, h_content h)) (chunk_rows mid cs)) = Inr (concat cs)"
proof -
  have m: "map fst (map (\<lambda>h. (h_sequence h, h_content h)) (chunk_rows mid cs)) = [1..<Suc (length cs)]"
    using chunk_rows_facts(1) by (simp add: comp_def del: upt_Suc)
  have n: "nat (int (length cs)) + 1 = Suc (length cs)" by simp
  have l: "length (chunk_rows mid cs) = length cs" by (simp add: chunk_rows_def)
  show ?thesis using assms m l chunk_rows_facts(2) [of mid cs]
    unfolding validate_completion_def announces_def
    by (simp add: n max_chunks_def sort_upt del: upt_Suc map_map)
qed

definition composed :: "uuid \<Rightarrow> run_address \<Rightarrow> pystr \<Rightarrow> conversation_db \<Rightarrow> bool" where
  "composed mid a content db \<longleftrightarrow>
     (\<exists>m. row_by m_message_id mid (messages db) = Some m \<and> m_status m = Completed
        \<and> m_content m = content \<and> m_conversation_id m = fst (snd a) \<and> m_run_id m = fst (snd (snd a)))"

lemma composing_completed:
  assumes k: "composing H a mid cs used db" and b: "bound_event a e (''porfirium.message.completed.v1'', data)"
    and id: "projected_id e \<notin> used" and an: "announces H mid cs data"
    and n: "length cs \<le> 65536" and size: "length (concat cs) \<le> max_message_bytes"
  shows "\<exists>s db'. project H e x db = Inr (Some s, db') \<and> composed mid a (concat cs) db'"
proof -
  let ?kind = "''porfirium.message.completed.v1''"
  let ?pe = "parsed_of e a ?kind mid"
  note c = k [unfolded composing_def]
  let ?meta = "Some (case d_finish_reason data of None \<Rightarrow> ''stop'' | Some r \<Rightarrow> r, d_usage data)"
  let ?db1 = "finish_message mid Completed (concat cs) ?meta (xe_now x) db"
  have d: "d_message_id data = Good mid" using an by (simp add: announces_def)
  have h1: "history_inv ?db1" using c conv_inv_history [of H db]
    by (simp add: history_defs finish_message_def)
  have home1: "at_home a ?db1"
    using c by (simp add: at_home_def owned_def finish_message_def split: prod.split)
  then obtain s db2 where sh: "show_event ?pe data x ?db1 = Inr (Some s, db2)"
    "messages db2 = messages ?db1" using show_event_succeeds [OF h1] by blast
  have conf: "confirm_if_complete (fst (snd (snd a))) x ?db1 = Inr ?db1"
    using home1 by (auto simp: confirm_if_complete_def at_home_def split: option.split)
  have "project_effect H ?pe data x db = Inr (Some s, db2)"
    using sh(1) streaming_found [OF k] composed_validates [OF an size n] c conf
    by (simp add: project_effect_def project_completed_def parsed_address Let_def)
  then have p: "project H e x db = Inr (Some s, db2\<lparr>inbox_events := inbox_events db2
      @ [(projected_id e, ?kind, xe_now x)]\<rparr>)"
    using project_bound_applied [OF b _ d, of db H x s db2] c id by simp
  obtain m where m: "row_by m_message_id mid (messages db) = Some m" "m_conversation_id m = fst (snd a)"
    "m_run_id m = fst (snd (snd a))" using c by blast
  obtain m' where "row_by m_message_id mid (messages ?db1) = Some m'" "m_status m' = Completed"
    "m_content m' = concat cs" "m_run_id m' = m_run_id m" "m_conversation_id m' = m_conversation_id m"
    using row_by_finish [OF m(1)] by blast
  then have "composed mid a (concat cs) (db2\<lparr>inbox_events := inbox_events db2
      @ [(projected_id e, ?kind, xe_now x)]\<rparr>)"
    using m sh(2) by (simp add: composed_def)
  then show ?thesis using p by blast
qed

section \<open>A whole stream\<close>

text \<open>The events of a message: its start, the deltas from number \<open>n\<close>, its completion.\<close>

fun delta_stream :: "run_address \<Rightarrow> uuid \<Rightarrow> nat \<Rightarrow> envelope list \<Rightarrow> pystr list \<Rightarrow> bool" where
  "delta_stream a mid n [] [] = True"
| "delta_stream a mid n (e # es) (c # cs) =
     (bound_event a e (delta_data mid (Suc n) c) \<and> delta_stream a mid (Suc n) es cs)"
| "delta_stream a mid n _ _ = False"

lemma deltas_composed:
  assumes "composing H a mid cs used db" and "delta_stream a mid (length cs) es ds"
    and "distinct (map projected_id es)" and "set (map projected_id es) \<inter> used = {}"
    and "list_all chunk_fits ds" and "length cs + length ds \<le> 65536" and "length xs = length es"
  shows "composing H a mid (cs @ ds) (used \<union> set (map projected_id es))
    (deliver (project H) (zip es xs) db)"
  using assms
proof (induction es arbitrary: cs ds xs used db)
  case Nil
  then show ?case by (cases ds) auto
next
  case (Cons e es)
  obtain d ds' where ds: "ds = d # ds'" using Cons.prems(2) by (cases ds) auto
  obtain x xs' where xs: "xs = x # xs'" using Cons.prems(7) by (cases xs) auto
  obtain s db' where 1: "project H e x db = Inr (Some s, db')"
    "composing H a mid (cs @ [d]) (insert (projected_id e) used) db'"
    using composing_delta [OF Cons.prems(1), of e d x] Cons.prems(2,4-6) ds by auto
  have "composing H a mid ((cs @ [d]) @ ds') (insert (projected_id e) used \<union> set (map projected_id es))
      (deliver (project H) (zip es xs') db')"
    using Cons.prems ds xs by (intro Cons.IH [OF 1(2)]) auto
  then show ?case using 1(1) ds xs by (simp add: insert_commute)
qed

lemma stream_composed:
  assumes inv: "conv_inv H db" and home: "at_home a db"
    and new: "row_by m_message_id mid (messages db) = None" "chunks_of mid db = []"
    and b1: "bound_event a e1 (started_data mid)" and b2: "delta_stream a mid 0 es cs"
    and b3: "bound_event a e3 (''porfirium.message.completed.v1'', data)" "announces H mid cs data"
    and ids: "distinct (map projected_id (e1 # es @ [e3]))"
      "set (map projected_id (e1 # es @ [e3])) \<inter> fst ` set (inbox_events db) = {}"
    and ok: "list_all chunk_fits cs" "length cs \<le> 65536" "length (concat cs) \<le> max_message_bytes"
    and xs: "length xs = length es"
  shows "composed mid a (concat cs)
    (deliver (project H) ((e1, x1) # zip es xs @ [(e3, x3)]) db)"
proof -
  let ?used = "insert (projected_id e1) (fst ` set (inbox_events db))"
  obtain s db1 where 1: "project H e1 x1 db = Inr (Some s, db1)" "composing H a mid [] ?used db1"
    using composing_started [OF inv home b1 new, of x1] ids(2) by auto
  let ?db2 = "deliver (project H) (zip es xs) db1"
  have 2: "composing H a mid ([] @ cs) (?used \<union> set (map projected_id es)) ?db2"
    using ids ok xs b2 by (intro deltas_composed [OF 1(2)]) auto
  have id3: "projected_id e3 \<notin> ?used \<union> set (map projected_id es)" using ids by auto
  obtain s3 db3 where 3: "project H e3 x3 ?db2 = Inr (Some s3, db3)" "composed mid a (concat cs) db3"
    using composing_completed [OF 2 b3(1), of x3] id3 b3(2) ok(2,3) by auto
  have "deliver (project H) ((e1, x1) # zip es xs @ [(e3, x3)]) db
      = deliver (project H) [(e3, x3)] ?db2"
    using 1(1) by (simp add: deliver_append)
  then show ?thesis using 3 by simp
qed

text \<open>Without a chunk the completing event lacks the length and the number of chunks, and is refused
  in every state.\<close>

lemma empty_message_refused:
  assumes "d_content_bytes data = Missing"
  shows "\<exists>e. project_completed H pe data x db = Inl e"
  using assms
  by (auto simp: project_completed_def validate_completion_def split: sum.split option.split fld.split)

end
