(* ===== verification/MessageDelivery.thy ===== *)
theory MessageDelivery
  imports AgentFaults AgentStream ConversationStream RuntimeProperties
begin

text \<open>
  From the agent to the user: the message an agent streams with the SDK passes the Runtime API and
  is composed by the Conversation Service as it was written.
\<close>

section \<open>The events of one frame\<close>

definition row_event :: "runtime_event outbox_row \<Rightarrow> envelope" where
  "row_event r = envelope.truncate (o_payload r)"

definition address_of :: "runtime_capability \<Rightarrow> run_address" where
  "address_of cap = (rk_user_id cap, rk_conversation_id cap, rk_run_id cap, rk_thread_id cap)"

lemma published_bound:
  assumes a: "agrees cap c" and st: "take 16 (uuid_hex (snd st)) \<noteq> replicate 16 (CHR ''0'')"
    and ev: "event_of p = Some (subject, kind)" and d: "frame_data cap p = Inr data"
    and b: "xr_event_bytes (rx_env R n) \<le> max_event_bytes"
  shows "\<exists>r. published_rows R cap (numbered_frame F c st p) n = [r]
    \<and> bound_event (address_of cap) (row_event r) (kind, data)
    \<and> projected_id (row_event r) = xr_event_id (rx_env R n)"
proof -
  let ?f = "numbered_frame F c st p" and ?x = "rx_env R n"
  let ?e = "event_envelope (hf_key_id (rx_funs R)) cap (fr_identity ?f) kind (xr_event_id ?x)
    (xr_now ?x) (xr_event_bytes ?x) data"
  have m: "make_event (hf_key_id (rx_funs R)) cap ?f (xr_event_id ?x) (xr_now ?x) (xr_event_bytes ?x)
      = Inr (subject, ?e)"
    using ev d by (simp add: make_event_def)
  have v: "validate_identity (fr_identity ?f) cap = Inr ()"
    using sdk_identity_valid [OF a st, of None] by simp
  have t: "trace_id_ok (rk_trace_id cap)" using a by (simp add: agrees_def)
  have "validate_event_envelope (envelope.truncate ?e)" using event_valid [OF t v m b] by simp
  then have "bound_event (address_of cap) (envelope.truncate ?e) (kind, data)"
    by (simp add: bound_event_def address_of_def addressed_def event_envelope_def envelope.truncate_def)
  then show ?thesis using m
    by (simp add: published_rows_def Let_def row_event_def outbox_entry_def projected_id_def
        event_envelope_def envelope.truncate_def)
qed

lemma agrees_advanced [simp]: "agrees cap (advanced c) = agrees cap c"
  by (simp add: agrees_def advanced_def)

definition spans_ok :: "stamp list \<Rightarrow> bool" where
  "spans_ok sts \<longleftrightarrow> list_all (\<lambda>st. take 16 (uuid_hex (snd st)) \<noteq> replicate 16 (CHR ''0'')) sts"

definition events_fit :: "runtime_side \<Rightarrow> bool" where
  "events_fit R \<longleftrightarrow> (\<forall>n. xr_event_bytes (rx_env R n) \<le> max_event_bytes)"

lemma deliverable_data:
  assumes "deliverable F R cap p" and "event_of p = Some sk"
  obtains data where "frame_data cap p = Inr data"
  using assms by (cases "frame_data cap p") (auto simp: deliverable_def)

lemma deltas_published:
  assumes "agrees cap c" and "spans_ok (map (ss_frame \<circ> fst) ds)" and "events_fit R"
    and "list_all (\<lambda>q. deliverable F R cap (snd q)) (delta_payloads mid n ds)"
  shows "delta_stream (address_of cap) mid n
      (map row_event (pushed_rows F R cap (delta_payloads mid n ds) c k)) (map snd ds)
    \<and> map (projected_id \<circ> row_event) (pushed_rows F R cap (delta_payloads mid n ds) c k)
      = map (\<lambda>i. xr_event_id (rx_env R i)) [k..<k + length ds]"
  using assms
proof (induction ds arbitrary: c n k)
  case (Cons d ds)
  obtain x content where d: "d = (x, content)" by (cases d)
  let ?p = "F_message_delta (Good mid) (Suc n) content"
  have del: "deliverable F R cap ?p" using Cons.prems(4) d by simp
  have fd: "frame_data cap ?p = Inr (snd (delta_data mid (Suc n) content))"
    using del by (auto simp: deliverable_def number_field_def delta_data_def split: if_splits)
  have span: "take 16 (uuid_hex (snd (ss_frame x))) \<noteq> replicate 16 (CHR ''0'')"
    using Cons.prems(2) d by (simp add: spans_ok_def)
  have fits: "xr_event_bytes (rx_env R k) \<le> max_event_bytes" using Cons.prems(3) by (simp add: events_fit_def)
  have ev: "event_of ?p = Some (''porfirium.message.delta.accepted'', fst (delta_data mid (Suc n) content))"
    by (simp add: delta_data_def)
  obtain r where r: "published_rows R cap (numbered_frame F c (ss_frame x) ?p) k = [r]"
    "bound_event (address_of cap) (row_event r) (delta_data mid (Suc n) content)"
    "projected_id (row_event r) = xr_event_id (rx_env R k)"
    using published_bound [OF Cons.prems(1) span ev fd fits, of F] by auto
  have "delta_stream (address_of cap) mid (Suc n)
      (map row_event (pushed_rows F R cap (delta_payloads mid (Suc n) ds) (advanced c) (Suc k))) (map snd ds)
    \<and> map (projected_id \<circ> row_event) (pushed_rows F R cap (delta_payloads mid (Suc n) ds) (advanced c) (Suc k))
      = map (\<lambda>i. xr_event_id (rx_env R i)) [Suc k..<Suc k + length ds]"
    using Cons.prems d by (intro Cons.IH) (auto simp: spans_ok_def)
  moreover have "[k..<k + length (d # ds)] = k # [Suc k..<Suc k + length ds]"
    by (simp add: upt_conv_Cons del: upt_Suc)
  ultimately show ?case using r d by (simp add: comp_def del: upt_Suc)
qed simp

text \<open>The completing event of a message with at least one chunk.\<close>

lemma completed_data:
  assumes "deliverable F R cap (completed_frame F mid cs reason)" and "cs \<noteq> []" and "list_all chunk_ok cs"
    and "sf_sha256 F = dg_sha256 H" and "\<And>s. s \<noteq> [] \<Longrightarrow> dg_sha256 H s \<noteq> []"
  obtains data where "frame_data cap (completed_frame F mid cs reason) = Inr data" "announces H mid cs data"
proof -
  let ?c = "concat cs"
  have ne: "?c \<noteq> []" using assms(2,3) by (cases cs) (auto simp: chunk_ok_def)
  have "event_of (completed_frame F mid cs reason) = Some (''porfirium.conversation.event.message_completed'',
      ''porfirium.message.completed.v1'')" by (simp add: completed_frame_def)
  then obtain data where d: "frame_data cap (completed_frame F mid cs reason) = Inr data"
    by (rule deliverable_data [OF assms(1)])
  then have "data = empty_data\<lparr>d_message_id := Good mid, d_content := Some ?c,
      d_chunk_count := number_field (length cs), d_content_bytes := number_field (length ?c),
      d_content_sha256 := text_field (sf_sha256 F ?c), d_finish_reason := text_field reason,
      d_usage := json_field None\<rparr>"
    by (simp add: completed_frame_def split: if_split_asm)
  moreover have "number_field (length ?c) = Good (int (length ?c))"
    using ne by (metis length_0_conv number_field_def)
  moreover have "number_field (length cs) = Good (int (length cs))"
    using assms(2) by (simp add: number_field_def)
  moreover have "text_field (sf_sha256 F ?c) = Some (dg_sha256 H ?c)"
    using assms(4) assms(5) [OF ne] by (simp add: text_field_def)
  ultimately have "announces H mid cs data" by (simp add: announces_def)
  then show thesis using d that by blast
qed

section \<open>The whole way\<close>

text \<open>The events of a message, as the outbox of the Runtime API holds them after it.\<close>

definition new_events :: "link \<Rightarrow> link \<Rightarrow> envelope list" where
  "new_events l l' = map row_event (drop (length (rt_outbox (lk_db l))) (rt_outbox (lk_db l')))"

lemma message_events:
  assumes r: "reliable R cap c l" and sp: "spans_ok (map fst (message_payloads F xs ds mid ct))"
    and fit: "events_fit R" and ok: "list_all (\<lambda>d. chunk_ok (snd d)) ds" "ds \<noteq> []"
    and del: "list_all (\<lambda>q. deliverable F R cap (snd q)) (message_payloads F xs ds mid ct)"
    and sha: "sf_sha256 F = dg_sha256 H" "\<And>s. s \<noteq> [] \<Longrightarrow> dg_sha256 H s \<noteq> []"
    and push: "push_all F R cap (message_payloads F xs ds mid ct) c l = (c', l')"
  shows "\<exists>e1 es e3 data. new_events l l' = e1 # es @ [e3] \<and> length es = length ds
    \<and> bound_event (address_of cap) e1 (started_data mid)
    \<and> delta_stream (address_of cap) mid 0 es (map snd ds)
    \<and> bound_event (address_of cap) e3 (''porfirium.message.completed.v1'', data)
    \<and> announces H mid (map snd ds) data
    \<and> map projected_id (e1 # es @ [e3])
      = map (\<lambda>i. xr_event_id (rx_env R i)) [lk_clock l..<lk_clock l + length ds + 2]"
proof -
  let ?a = "address_of cap" and ?k = "lk_clock l" and ?id = "\<lambda>i. xr_event_id (rx_env R i)"
  let ?s = "F_message_started (Good mid) ct" and ?e = "completed_frame F mid (map snd ds) ''stop''"
  have ag: "agrees cap c" using r by (simp add: reliable_def in_step_def)
  have fits: "xr_event_bytes (rx_env R n) \<le> max_event_bytes" for n using fit by (simp add: events_fit_def)
  have sp': "take 16 (uuid_hex (snd (ss_frame (fst xs)))) \<noteq> replicate 16 (CHR ''0'')"
    "take 16 (uuid_hex (snd (ss_frame (snd xs)))) \<noteq> replicate 16 (CHR ''0'')"
    "spans_ok (map (ss_frame \<circ> fst) ds)"
    using sp by (simp_all add: spans_ok_def message_payloads_def delta_payloads_stamps)
  have del': "deliverable F R cap ?e" "list_all (\<lambda>q. deliverable F R cap (snd q)) (delta_payloads mid 0 ds)"
    using del by (simp_all add: message_payloads_def)
  let ?c2 = "fst (push_all F R cap (delta_payloads mid 0 ds) (advanced c)
      (pushed F R cap c (ss_frame (fst xs)) ?s l))"
  have rows: "pushed_rows F R cap (ps @ qs) c0 n0 = pushed_rows F R cap ps c0 n0
      @ pushed_rows F R cap qs (fst (push_all F R cap ps c0 l0)) (n0 + length ps)" for ps qs c0 n0 l0
    by (induction F R cap ps c0 l0 arbitrary: n0 rule: push_all.induct) simp_all
  have ag2: "agrees cap (fst (push_all F R cap ps c0 l0)) = agrees cap c0" for ps c0 l0
    by (induction F R cap ps c0 l0 rule: push_all.induct) simp_all
  obtain r1 where r1: "published_rows R cap (numbered_frame F c (ss_frame (fst xs)) ?s) ?k = [r1]"
    "bound_event ?a (row_event r1) (started_data mid)" "projected_id (row_event r1) = ?id ?k"
    using published_bound [OF ag sp'(1) _ _ fits, of ?s _ "''porfirium.message.started.v1''"
        "snd (started_data mid)" F]
    by (auto simp: started_data_def)
  obtain data where data: "frame_data cap ?e = Inr data" "announces H mid (map snd ds) data"
    using completed_data [OF del'(1) _ _ sha] ok by (auto simp: list_all_iff)
  have ag3: "agrees cap ?c2" using ag ag2 by simp
  have ev3: "event_of ?e = Some (''porfirium.conversation.event.message_completed'',
      ''porfirium.message.completed.v1'')" by (simp add: completed_frame_def)
  obtain r3 where r3: "published_rows R cap (numbered_frame F ?c2 (ss_frame (snd xs)) ?e) (Suc ?k + length ds) = [r3]"
    "bound_event ?a (row_event r3) (''porfirium.message.completed.v1'', data)"
    "projected_id (row_event r3) = ?id (Suc ?k + length ds)"
    using published_bound [OF ag3 sp'(2) ev3 data(1) fits, of F] by auto
  let ?ds = "pushed_rows F R cap (delta_payloads mid 0 ds) (advanced c) (Suc ?k)"
  have d: "delta_stream ?a mid 0 (map row_event ?ds) (map snd ds)"
    "map (projected_id \<circ> row_event) ?ds = map ?id [Suc ?k..<Suc ?k + length ds]"
    using deltas_published [OF _ sp'(3) fit del'(2), of "advanced c" "Suc ?k"] ag by auto
  have "rt_outbox (lk_db l') = rt_outbox (lk_db l) @ pushed_rows F R cap (message_payloads F xs ds mid ct) c ?k"
    using push_all_outbox [of F R cap "message_payloads F xs ds mid ct" c l] push by simp
  moreover have "pushed_rows F R cap (message_payloads F xs ds mid ct) c ?k = r1 # ?ds @ [r3]"
    using r1(1) r3(1) rows [of "delta_payloads mid 0 ds" _ "advanced c" "Suc ?k"
        "pushed F R cap c (ss_frame (fst xs)) ?s l"]
    by (simp add: message_payloads_def)
  ultimately have n: "new_events l l' = row_event r1 # map row_event ?ds @ [row_event r3]"
    by (simp add: new_events_def)
  have len: "length (map row_event ?ds) = length ds"
    using arg_cong [OF d(2), of length] by (simp del: upt_Suc)
  have ids: "map projected_id (row_event r1 # map row_event ?ds @ [row_event r3])
      = map ?id [?k..<?k + length ds + 2]"
  proof -
    have "[?k..<?k + length ds + 2] = ?k # [Suc ?k..<Suc ?k + length ds] @ [Suc ?k + length ds]"
    proof -
      have "[?k..<Suc ?k + length ds] = ?k # [Suc ?k..<Suc ?k + length ds]"
        by (simp add: upt_conv_Cons del: upt_Suc)
      moreover have "[?k..<Suc (Suc ?k + length ds)] = [?k..<Suc ?k + length ds] @ [Suc ?k + length ds]"
        by (rule upt_Suc_append) simp
      moreover have "?k + length ds + 2 = Suc (Suc ?k + length ds)" by simp
      ultimately show ?thesis by simp
    qed
    then show ?thesis using r1(3) r3(3) d(2) by (simp add: comp_def del: upt_Suc)
  qed
  show ?thesis using n len r1(2) d(1) r3(2) data(2) ids by blast
qed

text \<open>C32. A message an agent streams with the SDK over a reliable connection (at least one chunk, each
  of 1 to 4096 bytes, frames within the limits) reaches the user as it was written: the call returns,
  and after the Conversation Service has consumed the events the Runtime API published, the message
  is stored as completed, in the conversation and run of the capability, with the chunks joined.\<close>

theorem streamed_message_delivered:
  assumes "reliable R cap c l" and "events_fit R"
    and "ds \<noteq> []" and "list_all (\<lambda>d. chunk_ok (snd d)) ds" and "length ds \<le> 65536"
    and "length (concat (map snd ds)) \<le> max_message_bytes"
    and "list_all (\<lambda>q. deliverable F R cap (snd q)) (message_payloads F xs ds mid ct)"
    and "fresh_stamps (map fst (message_payloads F xs ds mid ct)) (lk_db l)"
    and "sf_sha256 F = dg_sha256 H" and "\<And>s. s \<noteq> [] \<Longrightarrow> dg_sha256 H s \<noteq> []"
    and "conv_reach H db" and "at_home (address_of cap) db"
    and "row_by m_message_id mid (messages db) = None" and "chunks_of mid db = []"
    and "\<And>i. lk_clock l \<le> i \<Longrightarrow> \<not> projected db (xr_event_id (rx_env R i))"
  shows "\<exists>m c' l'. stream_message F (runtime_link R) xs ds mid ct c l = Some (Inr (), m, c', l')
    \<and> sc_last_ack c' = sc_last_ack c + length ds + 2
    \<and> (\<forall>ys. length ys = length ds + 2 \<longrightarrow>
         composed mid (address_of cap) (concat (map snd ds))
           (deliver (project H) (zip (new_events l l') ys) db))"
proof -
  obtain m c' l' where s: "stream_message F (runtime_link R) xs ds mid ct c l = Some (Inr (), m, c', l')"
    "push_all F R cap (message_payloads F xs ds mid ct) c l = (c', l')"
    using stream_message_pushed [OF assms(1,4) _ assms(7,8)] assms(6)
    by (auto simp: max_message_bytes_def)
  have sp: "spans_ok (map fst (message_payloads F xs ds mid ct))"
    using assms(8) by (simp add: fresh_stamps_def spans_ok_def fresh_stamp_def list_all_iff)
  obtain e1 es e3 data where e: "new_events l l' = e1 # es @ [e3]" "length es = length ds"
    "bound_event (address_of cap) e1 (started_data mid)"
    "delta_stream (address_of cap) mid 0 es (map snd ds)"
    "bound_event (address_of cap) e3 (''porfirium.message.completed.v1'', data)"
    "announces H mid (map snd ds) data"
    "map projected_id (e1 # es @ [e3])
      = map (\<lambda>i. xr_event_id (rx_env R i)) [lk_clock l..<lk_clock l + length ds + 2]"
    using message_events [OF assms(1) sp assms(2,4,3,7,9,10) s(2)] by blast
  have ids: "distinct (map projected_id (e1 # es @ [e3]))"
    using assms(1) unfolding e(7)
    by (auto simp: reliable_def fresh_events_def distinct_map intro: inj_on_subset simp del: upt_Suc)
  have "set (map projected_id (e1 # es @ [e3])) \<inter> fst ` set (inbox_events db) = {}"
  proof (rule equals0I)
    fix i
    assume "i \<in> set (map projected_id (e1 # es @ [e3])) \<inter> fst ` set (inbox_events db)"
    then have i: "i \<in> set (map (\<lambda>i. xr_event_id (rx_env R i)) [lk_clock l..<lk_clock l + length ds + 2])"
      "projected db i" unfolding e(7) projected_iff by (rule IntD1, rule IntD2)
    then obtain j where "i = xr_event_id (rx_env R j)" "lk_clock l \<le> j" by (auto simp del: upt_Suc)
    then show False using assms(15) i(2) by simp
  qed
  note composed = stream_composed [OF conv_inv_reach [OF assms(11)] assms(12-14) e(3-6) ids this]
  have chunks: "list_all chunk_fits (map snd ds)"
    using assms(4) by (simp add: list_all_iff chunk_ok_def chunk_fits_def max_delta_bytes_def)
  have "composed mid (address_of cap) (concat (map snd ds))
      (deliver (project H) (zip (new_events l l') ys) db)" if n: "length ys = length ds + 2" for ys
  proof -
    obtain y1 zs where y: "ys = y1 # zs" "length zs = length ds + 1"
      using n by (cases ys) auto
    then obtain y2 y3 where z: "zs = y2 @ [y3]" "length y2 = length ds"
      by (cases zs rule: rev_cases) auto
    show ?thesis using composed [OF chunks, of y2 y1 y3] assms(5,6) e(1,2) y z by simp
  qed
  moreover have "sc_last_ack c' = sc_last_ack c + length ds + 2"
    using push_all_ack [of F R cap "message_payloads F xs ds mid ct" c l] s(2)
    by (simp add: message_payloads_def)
  ultimately show ?thesis using s(1) by blast
qed

text \<open>A sample: a connected client, one chunk, the sample conversation of the same run.\<close>

definition sample_side :: runtime_side where
  "sample_side = \<lparr>rx_funs = sample_funs\<lparr>hf_sha256 := rev\<rparr>,
     rx_gateways = \<lparr>gw_decode = (\<lambda>t. Inr (sample_rcap 1)), gw_model = None, gw_tool = None\<rparr>,
     rx_env = sample_renv\<rparr>"

definition sample_sdk :: sdk_funs where
  "sample_sdk = \<lparr>sf_size = (\<lambda>fi p. 100), sf_input_octets = (\<lambda>i c. 0), sf_struct = Some,
     sf_result_octets = length, sf_sha256 = rev\<rparr>"

definition sample_client :: sdk_client where
  "sample_client = (new_client 1 20 1 ''token'' sample_trace)\<lparr>sc_connected := True\<rparr>"

definition sample_link :: "fault list \<Rightarrow> link" where
  "sample_link fs = \<lparr>lk_db = empty_runtime_db\<lparr>rt_streams := [fresh_stream (sample_rcap 1)]\<rparr>,
     lk_stream = Connected (sample_rcap 1), lk_inbox = [], lk_broken = False, lk_faults = fs,
     lk_clock = 0\<rparr>"

definition sample_stamps :: "nat \<Rightarrow> send_stamps" where
  "sample_stamps n = \<lparr>ss_hello = (sample_id n, sample_id n), ss_frame = (sample_id n, sample_id n),
     ss_retry = (\<lambda>i. (sample_id n, sample_id n))\<rparr>"

lemma sample_span: "n < 16 \<Longrightarrow> take 16 (uuid_hex (sample_id n)) \<noteq> replicate 16 (CHR ''0'')"
  using span_nonzero_sample [of n] by (simp add: span_nonzero_def)

lemma sample_in_step: "in_step (sample_rcap 1) sample_client (sample_link fs)"
  using sample_trace_ok
  by (simp add: in_step_def agrees_def sample_client_def new_client_def sample_rcap_def link_ready_def
      sample_link_def stands_at_def fresh_stream_def empty_runtime_db_def)

lemma sample_events_fresh: "fresh_events sample_side 0 (lk_db (sample_link fs))"
  by (simp add: fresh_events_def sample_link_def empty_runtime_db_def inj_def sample_side_def
      sample_renv_def sample_id_def)

lemma sample_reliable: "reliable sample_side (sample_rcap 1) sample_client (sample_link [])"
  using sample_in_step [of "[]"] sample_events_fresh [of "[]"]
  by (simp add: reliable_def) (simp add: sample_link_def)

abbreviation sample_payloads :: "(stamp \<times> payload) list" where
  "sample_payloads \<equiv> message_payloads sample_sdk (sample_stamps 1, sample_stamps 3)
     [(sample_stamps 2, ''ok'')] 70 ''text/plain''"

lemma sample_deliverable:
  "list_all (\<lambda>q. deliverable sample_sdk sample_side (sample_rcap 1) (snd q)) sample_payloads"
  by (simp add: message_payloads_def completed_frame_def deliverable_def sample_side_def sample_sdk_def
      sample_funs_def max_frame_bytes_def runtime_message_bytes_def byte_in_def)

lemma sample_stamps_fresh: "fresh_stamps (map fst sample_payloads) (lk_db (sample_link fs))"
proof -
  have h: "uuid_hex u = hex_of 31 (u div 16) @ [hex_digit u]" for u
    using hex_of.simps(2) [of 31 u] by (simp add: uuid_hex_def)
  have "length (uuid_hex u) = 32" for u by (simp add: uuid_hex_def)
  then have "last (uuid_str u) = last (uuid_hex u)" for u
    by (simp add: uuid_str_def Let_def last_append)
  then have "last (uuid_str u) = hex_digit u" for u by (simp add: h)
  then have "map (last \<circ> uuid_str) [sample_id 1, sample_id 2, sample_id 3] = ''123''"
    by (simp add: sample_id_def hex_digit_def hex_digits_def)
  then have "distinct (map (last \<circ> uuid_str) [sample_id 1, sample_id 2, sample_id 3])"
    by (simp only: distinct.simps) simp
  then have "distinct (map uuid_str [sample_id 1, sample_id 2, sample_id 3])" by auto
  moreover have "fresh_stamp (sample_id n, sample_id n) (lk_db (sample_link fs))" if "n < 16" for n
    using sample_span [OF that] by (simp add: fresh_stamp_def sample_link_def empty_runtime_db_def)
  ultimately show ?thesis by (simp add: fresh_stamps_def message_payloads_def sample_stamps_def)
qed

lemma streamed_message_delivered_witness:
  "\<exists>m c' l'. stream_message sample_sdk (runtime_link sample_side) (sample_stamps 1, sample_stamps 3)
       [(sample_stamps 2, ''ok'')] 70 ''text/plain'' sample_client (sample_link []) = Some (Inr (), m, c', l')
     \<and> composed 70 (2, 3, 1, 4) ''ok'' (deliver (project sample_digests)
         (zip (new_events (sample_link []) l') [ConversationProperties.sample_env 1 91, ConversationProperties.sample_env 2 92, ConversationProperties.sample_env 3 93])
         sample_conversation)"
proof -
  have home: "at_home (address_of (sample_rcap 1)) sample_conversation"
    by (simp add: at_home_def address_of_def sample_rcap_def owned_def sample_conversation_eq
        empty_conversation_db_def)
  have new: "row_by m_message_id 70 (messages sample_conversation) = None"
    "chunks_of 70 sample_conversation = []" "\<not> projected sample_conversation i" for i
    by (simp_all add: sample_conversation_eq empty_conversation_db_def chunks_of_def projected_def)
  have sha: "sf_sha256 sample_sdk = dg_sha256 sample_digests"
    "s \<noteq> [] \<Longrightarrow> dg_sha256 sample_digests s \<noteq> []" for s
    by (simp_all add: sample_sdk_def sample_digests_def)
  have fit: "events_fit sample_side"
    by (simp add: events_fit_def sample_side_def sample_renv_def max_event_bytes_def)
  have ok: "[(sample_stamps 2, ''ok'')] \<noteq> []" "list_all (\<lambda>d. chunk_ok (snd d)) [(sample_stamps 2, ''ok'')]"
    "length [(sample_stamps 2, ''ok'')] \<le> 65536"
    "length (concat (map snd [(sample_stamps 2, ''ok'')])) \<le> max_message_bytes"
    by (simp_all add: chunk_ok_def max_message_bytes_def)
  have a: "address_of (sample_rcap 1) = (2, 3, 1, 4)" by (simp add: address_of_def sample_rcap_def)
  obtain m c' l' where s: "stream_message sample_sdk (runtime_link sample_side)
      (sample_stamps 1, sample_stamps 3) [(sample_stamps 2, ''ok'')] 70 ''text/plain'' sample_client
      (sample_link []) = Some (Inr (), m, c', l')"
    "\<forall>ys. length ys = length [(sample_stamps 2, ''ok'')] + 2 \<longrightarrow>
      composed 70 (address_of (sample_rcap 1)) (concat (map snd [(sample_stamps 2, ''ok'')]))
        (deliver (project sample_digests) (zip (new_events (sample_link []) l') ys) sample_conversation)"
    using streamed_message_delivered [OF sample_reliable fit ok sample_deliverable sample_stamps_fresh sha
        sample_conversation_reach home new] by blast
  have "composed 70 (2, 3, 1, 4) ''ok'' (deliver (project sample_digests)
      (zip (new_events (sample_link []) l') [ConversationProperties.sample_env 1 91, ConversationProperties.sample_env 2 92, ConversationProperties.sample_env 3 93])
      sample_conversation)"
    using s(2) [rule_format, of "[ConversationProperties.sample_env 1 91, ConversationProperties.sample_env 2 92, ConversationProperties.sample_env 3 93]"] unfolding a by simp
  then show ?thesis using s(1) by blast
qed

end
