(* ===== verification/AgentProperties.thy ===== *)
theory AgentProperties
  imports MessageDelivery
begin

text \<open>
  What an agent can rely on when it uses the SDK over a connection that fails, and what it cannot:
  frames sent again, a lost acknowledgement, a refused frame, a suspension that is retried and the
  versions of the LangGraph checkpointer.
\<close>

section \<open>Frames and faults\<close>

lemma published_rows_length:
  assumes "deliverable F R cap (fr_payload f)"
  shows "length (published_rows R cap f i) = (if event_of (fr_payload f) = None then 0 else 1)"
proof (cases "event_of (fr_payload f)")
  case (Some s)
  obtain subject kind where s: "s = (subject, kind)" by (cases s)
  obtain data where "frame_data cap (fr_payload f) = Inr data"
    using deliverable_data [OF assms Some] .
  then show ?thesis using Some s by (simp add: published_rows_def make_event_def Let_def)
qed (simp add: published_rows_def make_event_def Let_def)

text \<open>C33. A frame survives the faults of the connection: when the connection breaks before a frame
  arrives, and again before or after the hello of a new stream, the client connects and writes it
  again; if one of the four attempts gets through, the call returns the acknowledgement, the Runtime
  API has accepted the frame exactly once, under the next number, with one event if it announces
  one, and the client and the stream are in step again.\<close>

theorem lost_frame_resent:
  assumes "in_step cap c l" and "deliverable F R cap p" and "reconnectable F R cap c"
    and "fresh_stamp (ss_frame x) (lk_db l)" and "fresh_events R (lk_clock l) (lk_db l)"
    and "\<And>i. take 16 (uuid_hex (snd (ss_retry x i))) \<noteq> replicate 16 (CHR ''0'')"
    and "recovers 4 (Delivered # lk_faults l)"
  shows "\<exists>i c' l'. AgentSdk.send F (runtime_link R) x p c l
        = Some (Inr (Suc (sc_last_ack c), published_id R p i), c', l')
    \<and> in_step cap c' l' \<and> sc_last_ack c' = Suc (sc_last_ack c)
    \<and> (\<exists>row. rt_frames (lk_db l') = rt_frames (lk_db l) @ [row]
        \<and> af_sequence row = Suc (sc_last_ack c) \<and> af_key row = uuid_str (fst (ss_frame x)))
    \<and> length (rt_outbox (lk_db l'))
        = length (rt_outbox (lk_db l)) + (if event_of p = None then 0 else 1)"
proof -
  obtain c' l' i kind where r: "AgentSdk.send F (runtime_link R) x p c l
      = Some (Inr (Suc (sc_last_ack c), published_id R p i), c', l')"
    "lk_db l' = delivered_db R cap (call_frame F x p c) kind i (lk_db l)" "in_step cap c' l'"
    "sc_last_ack c' = Suc (sc_last_ack c)"
    using send_under_faults [OF assms] by (auto simp: frame_accepted_def)
  have "length (published_rows R cap (call_frame F x p c) i) = (if event_of p = None then 0 else 1)"
    using published_rows_length [of F R cap "call_frame F x p c" i] assms(2) by simp
  then show ?thesis using r by (auto simp: delivered_db_def accepted_frame_def)
qed

text \<open>Two frames are lost, then the frame after a successful hello; the fourth attempt succeeds.\<close>

abbreviation sample_delta :: payload where
  "sample_delta \<equiv> F_message_delta (Good 70) 1 ''ok''"

lemma sample_delta_deliverable: "deliverable sample_sdk sample_side (sample_rcap 1) sample_delta"
  using sample_deliverable by (simp add: message_payloads_def)

lemma sample_reconnectable: "reconnectable sample_sdk sample_side (sample_rcap 1) sample_client"
  by (simp add: reconnectable_def sample_sdk_def sample_side_def sample_client_def new_client_def
      sample_rcap_def decode_run_input_def max_frame_bytes_def)

lemma sample_fresh:
  "n < 16 \<Longrightarrow> fresh_stamp (ss_frame (sample_stamps n)) (lk_db (sample_link fs))"
  using sample_span [of n]
  by (simp add: fresh_stamp_def sample_stamps_def sample_link_def empty_runtime_db_def)

lemma sample_clock [simp]: "lk_clock (sample_link fs) = 0" "lk_faults (sample_link fs) = fs"
  by (simp_all add: sample_link_def)

lemma sample_retry: "n < 16 \<Longrightarrow>
    take 16 (uuid_hex (snd (ss_retry (sample_stamps n) i))) \<noteq> replicate 16 (CHR ''0'')"
  using sample_span [of n] by (simp add: sample_stamps_def)

lemma lost_frame_resent_witness:
  "\<exists>i c' l'. AgentSdk.send sample_sdk (runtime_link sample_side) (sample_stamps 2) sample_delta sample_client
      (sample_link [Lost_frame, Lost_frame, Delivered, Lost_frame])
    = Some (Inr (1, published_id sample_side sample_delta i), c', l')
    \<and> in_step (sample_rcap 1) c' l' \<and> length (rt_outbox (lk_db l')) = 1"
proof -
  let ?fs = "[Lost_frame, Lost_frame, Delivered, Lost_frame]"
  have "recovers 4 (Delivered # ?fs)" by (simp add: eval_nat_numeral)
  moreover have "sc_last_ack sample_client = 0" "rt_outbox (lk_db (sample_link ?fs)) = []"
    by (simp_all add: sample_client_def new_client_def sample_link_def empty_runtime_db_def)
  ultimately show ?thesis
    using lost_frame_resent [OF sample_in_step [of ?fs] sample_delta_deliverable sample_reconnectable
        sample_fresh [of 2] _ sample_retry [of 2]] sample_events_fresh [of ?fs]
    by fastforce
qed

text \<open>C35. A lost acknowledgement blocks the agent: when the connection breaks after the Runtime API has
  accepted a frame and before its acknowledgement arrives, the client learns at the next hello that
  the frame is not missing, writes nothing and waits for ever for an answer: the call does not
  return, although the frame is stored.\<close>

theorem lost_acknowledgement_blocks:
  assumes "in_step cap c l" and "deliverable F R cap p" and "reconnectable F R cap c"
    and "fresh_stamp (ss_frame x) (lk_db l)" and "fresh_events R (lk_clock l) (lk_db l)"
    and "\<And>i. take 16 (uuid_hex (snd (ss_retry x i))) \<noteq> replicate 16 (CHR ''0'')"
    and "lk_faults l = [Lost_reply]"
  shows "AgentSdk.send F (runtime_link R) x p c l = None
    \<and> length (rt_frames (lk_db (snd (link_write R (call_frame F x p c) l))))
      = Suc (length (rt_frames (lk_db l)))"
proof -
  obtain kind where "kind_of p = Some kind" using assms(2) by (rule deliverable_kind)
  note b = lost_reply_blocks [OF assms(1,2) this assms(3-7)]
  show ?thesis using b by (simp add: delivered_db_def)
qed

lemma lost_acknowledgement_blocks_witness:
  "AgentSdk.send sample_sdk (runtime_link sample_side) (sample_stamps 2) sample_delta sample_client
    (sample_link [Lost_reply]) = None"
  using lost_acknowledgement_blocks [OF sample_in_step [of "[Lost_reply]"] sample_delta_deliverable
      sample_reconnectable sample_fresh [of 2] _ sample_retry [of 2]] sample_events_fresh [of "[Lost_reply]"]
  by simp



section \<open>The client of the Checkpoint API\<close>

lemma read_payload_encoded [simp]: "read_payload (b64_std_encode payload) = Good payload"
  by (simp add: read_payload_def b64decode_std_encode)

text \<open>A write of the client, as the database sees it.\<close>

abbreviation sdk_request ::
  "(pystr \<Rightarrow> pystr) \<Rightarrow> checkpoint_client \<Rightarrow> pystr \<Rightarrow> nat \<Rightarrow> pystr \<Rightarrow> uuid \<Rightarrow> put_request" where
  "sdk_request sha cc payload expected serialization checkpoint \<equiv>
     body_request checkpoint (sdk_put_body sha cc payload expected serialization) payload"

definition may_write :: "checkpoint_client \<Rightarrow> Checkpoint.run_capability \<Rightarrow> bool" where
  "may_write cc cap \<longleftrightarrow> cap_thread_id cap = cc_thread cc \<and> ''checkpoint:write'' \<in> set (cap_operations cap)
     \<and> (cc_run cc, cc_attempt cc, cc_epoch cc)
       = (cap_run_id cap, cap_attempt_id cap, cap_lease_epoch cap)"

lemma client_put_served:
  assumes "bearer (cc_capability cc) = Inr cap" and "may_write cc cap" and "length payload \<le> max_payload_bytes"
  shows "client_put sha (checkpoint_api sha bearer env) cc payload expected serialization checkpoint key k =
    (case put_checkpoint cap (sdk_request sha cc payload expected serialization checkpoint) key
            (env (snd k)) (fst k) of
       Inl e \<Rightarrow> (raise_reply (problem_reply e), fst k, Suc (snd k))
     | Inr (row, db) \<Rightarrow> (Inr (AgentLink.metadata_of row), db, Suc (snd k)))"
  using assms
  by (simp add: client_put_def checkpoint_api_def api_put_def checkpoint_put_def authorize_def
      may_write_def sdk_put_body_def split: sum.split prod.split)

lemma client_put_stored:
  assumes "client_put sha (checkpoint_api sha bearer env) cc payload expected serialization checkpoint key k
      = (Inr item, k1)" and "bearer (cc_capability cc) = Inr cap"
  obtains row where "may_write cc cap" "length payload \<le> max_payload_bytes"
    "put_checkpoint cap (sdk_request sha cc payload expected serialization checkpoint) key
       (env (snd k)) (fst k) = Inr (row, fst k1)" "item = AgentLink.metadata_of row"
proof -
  let ?b = "sdk_put_body sha cc payload expected serialization"
  obtain row db where r: "checkpoint_put sha (cc_thread cc) checkpoint ?b cap key (env (snd k)) (fst k)
      = Inr (row, db)" "item = AgentLink.metadata_of row" "k1 = (db, Suc (snd k))"
  proof (cases "checkpoint_put sha (cc_thread cc) checkpoint ?b cap key (env (snd k)) (fst k)")
    case (Inl e)
    then show thesis using assms
      by (cases e) (auto simp: client_put_def checkpoint_api_def api_put_def)
  next
    case (Inr rs)
    then show thesis using assms that
      by (cases rs) (auto simp: client_put_def checkpoint_api_def api_put_def)
  qed
  from r(1) obtain p where "cap_thread_id cap = cc_thread cc" "b_payload ?b = Good p"
    "length p \<le> max_payload_bytes" "(b_run_id ?b, b_attempt_id ?b, b_lease_epoch ?b)
       = (cap_run_id cap, cap_attempt_id cap, cap_lease_epoch cap)"
    "put_checkpoint cap (body_request checkpoint ?b p) key (env (snd k)) (fst k) = Inr (row, db)"
    by (rule checkpoint_put_cases)
  moreover have "''checkpoint:write'' \<in> set (cap_operations cap)"
    using r(1) by (auto simp: checkpoint_put_def authorize_def split: if_splits)
  ultimately show thesis using that r(2,3) by (auto simp: may_write_def sdk_put_body_def)
qed

section \<open>Suspension\<close>

abbreviation suspension_payloads ::
  "(pystr \<Rightarrow> uuid) \<Rightarrow> send_stamps \<times> send_stamps \<Rightarrow> uuid \<Rightarrow> pystr \<Rightarrow> pystr \<Rightarrow> (stamp \<times> payload) list" where
  "suspension_payloads name_id xs s prompt schema \<equiv>
     [(ss_frame (fst xs), F_input_request_proposed (Good s) (Good (suspension_checkpoint name_id s))
         prompt (Some schema)),
      (ss_frame (snd xs), F_suspension_committed (Good s) (Good (suspension_checkpoint name_id s))
         (Good (suspension_request name_id s)))]"

lemma announced:
  assumes "reliable R cap c l"
    and "list_all (\<lambda>q. deliverable F R cap (snd q)) (suspension_payloads name_id xs s prompt schema)"
    and "fresh_stamps (map fst (suspension_payloads name_id xs s prompt schema)) (lk_db l)"
  shows "\<exists>c' l'. announce_suspension F (runtime_link R) name_id xs s prompt schema c l
      = Some (Inr (s, suspension_request name_id s), c', l')
    \<and> push_all F R cap (suspension_payloads name_id xs s prompt schema) c l = (c', l')"
proof -
  let ?p1 = "F_input_request_proposed (Good s) (Good (suspension_checkpoint name_id s)) prompt (Some schema)"
    and ?p2 = "F_suspension_committed (Good s) (Good (suspension_checkpoint name_id s))
      (Good (suspension_request name_id s))"
  have d: "deliverable F R cap ?p1" "deliverable F R cap ?p2" using assms(2) by simp_all
  let ?l = "pushed F R cap c (ss_frame (fst xs)) ?p1 l"
  have f: "fresh_stamp (ss_frame (fst xs)) (lk_db l)" "fresh_stamp (ss_frame (snd xs)) (lk_db ?l)"
    using assms(3) fresh_stamps_pushed [of "ss_frame (fst xs)" "[ss_frame (snd xs)]" l F R cap c ?p1]
    by (simp_all add: fresh_stamps_def)
  obtain a1 where "AgentSdk.send F (runtime_link R) (fst xs) ?p1 c l = Some (Inr a1, advanced c, ?l)"
    using send_pushes [OF assms(1) d(1) f(1)] by blast
  moreover obtain a2 where "AgentSdk.send F (runtime_link R) (snd xs) ?p2 (advanced c) ?l
      = Some (Inr a2, advanced (advanced c), pushed F R cap (advanced c) (ss_frame (snd xs)) ?p2 ?l)"
    using send_pushes [OF reliable_pushed [OF assms(1)] d(2) f(2)] by blast
  ultimately show ?thesis by (simp add: announce_suspension_def Let_def)
qed

text \<open>A suspension is retried safely: once its checkpoint has been written, a later call with the
  same suspension, after any other writes, and as long as the attempt holds the lease, finds the
  checkpoint it wrote, changes nothing in the Checkpoint API, announces the suspension to the
  Runtime API with its two frames and ends the activation with the same input request.\<close>

theorem suspension_retried:
  assumes "bearer (cc_capability cc) = Inr cap"
    and "fst k = serve_puts (sf_sha256 F) calls empty_checkpoint_db"
    and "client_put (sf_sha256 F) (checkpoint_api (sf_sha256 F) bearer env) cc payload expected ''json-v1''
        (suspension_checkpoint name_id s) (suspension_key s) k = (Inr item, k1)"
    and "fst k2 = serve_puts (sf_sha256 F) calls' (fst k1)" and "holds_lease cap (fst k2)"
    and "prompt_ok prompt" and "sf_struct F schema = Some received" and "reliable R rcap c l"
    and "list_all (\<lambda>q. deliverable F R rcap (snd q)) (suspension_payloads name_id xs s prompt received)"
    and "fresh_stamps (map fst (suspension_payloads name_id xs s prompt received)) (lk_db l)"
  shows "\<exists>c' l' n. request_input F (runtime_link R) name_id (checkpoint_api (sf_sha256 F) bearer env) cc xs
        payload expected prompt schema s c l k2
      = (Some (Inr (s, suspension_request name_id s), c', l'), fst k2, n)
    \<and> length (rt_frames (lk_db l')) = length (rt_frames (lk_db l)) + 2"
proof -
  let ?sha = "sf_sha256 F" and ?i = "suspension_checkpoint name_id s"
  let ?q = "sdk_request ?sha cc payload expected ''json-v1'' ?i"
  obtain row where row: "may_write cc cap" "length payload \<le> max_payload_bytes"
    "put_checkpoint cap ?q (suspension_key s) (env (snd k)) (fst k) = Inr (row, fst k1)"
    using client_put_stored [OF assms(3,1)] by metis
  have inv: "checkpoint_inv (fst k)" using assms(2) reached_inv by simp
  have "put_step\<^sup>*\<^sup>* (fst k1) (fst k2)"
    using serve_puts_keep(3) [OF checkpoint_inv_put [OF inv row(3)]] assms(4) by simp
  then obtain r where "put_checkpoint cap ?q (suspension_key s) (env (snd k2)) (fst k2) = Inr (r, fst k2)"
    using put_service.retry_later [of "fst k" "(cap, suspension_key s)" ?q "env (snd k)" row "fst k1"
        "fst k2" "env (snd k2)"] inv row(3) assms(5) by auto
  then have "client_put ?sha (checkpoint_api ?sha bearer env) cc payload expected ''json-v1'' ?i
      (suspension_key s) k2 = (Inr (AgentLink.metadata_of r), fst k2, Suc (snd k2))"
    by (subst client_put_served [where bearer = bearer, OF assms(1) row(1,2)]) simp
  moreover obtain c' l' where "announce_suspension F (runtime_link R) name_id xs s prompt received c l
      = Some (Inr (s, suspension_request name_id s), c', l')"
    "push_all F R rcap (suspension_payloads name_id xs s prompt received) c l = (c', l')"
    using announced [OF assms(8-10)] by blast
  moreover have "length (rt_frames (lk_db l')) = length (rt_frames (lk_db l)) + 2"
    using push_all_frames [of F R rcap "suspension_payloads name_id xs s prompt received" c l]
      calculation(3) by simp
  ultimately show ?thesis using assms(6,7) by (simp add: request_input_def)
qed

text \<open>The checkpoint client of the first attempt of the sample run.\<close>

definition sample_checkpoint_client :: checkpoint_client where
  "sample_checkpoint_client = \<lparr>cc_thread = 3, cc_run = 4, cc_attempt = 6, cc_epoch = 1, cc_capability = ''token''\<rparr>"

lemma sample_may_write: "may_write sample_checkpoint_client (Checkpoint.sample_cap 1)"
  by (simp add: may_write_def sample_checkpoint_client_def Checkpoint.sample_cap_def)

lemma suspension_retried_witness:
  "\<exists>item db. client_put rev (checkpoint_api rev (\<lambda>t. Inr (Checkpoint.sample_cap 1)) (\<lambda>n. (11 + n, 0)))
      sample_checkpoint_client ''state'' 0 ''json-v1'' 9 (suspension_key 70) (empty_checkpoint_db, 0)
      = (Inr item, db, 1)
    \<and> (\<exists>c' l' n. request_input sample_sdk (runtime_link sample_side) (\<lambda>t. 9)
        (checkpoint_api rev (\<lambda>t. Inr (Checkpoint.sample_cap 1)) (\<lambda>n. (11 + n, 0)))
        sample_checkpoint_client (sample_stamps 1, sample_stamps 2) ''state'' 0 ''Which city?'' ''{}'' 70
        sample_client (sample_link []) (db, 1)
      = (Some (Inr (70, 9), c', l'), db, n))"
proof -
  let ?bearer = "\<lambda>t :: pystr. Inr (Checkpoint.sample_cap 1) :: exc + Checkpoint.run_capability"
    and ?env = "\<lambda>n :: nat. (11 + n, 0 :: int)"
  let ?q = "sdk_request rev sample_checkpoint_client ''state'' 0 ''json-v1'' 9"
  let ?p = "put_checkpoint (Checkpoint.sample_cap 1) ?q (suspension_key 70) (11, 0) empty_checkpoint_db"
  have "\<not> isl ?p \<and> holds_lease (Checkpoint.sample_cap 1) (snd (projr ?p))"
    by (simp add: put_eval sample_checkpoint_client_def sdk_put_body_def)
  then obtain row db where p: "?p = Inr (row, db)" "holds_lease (Checkpoint.sample_cap 1) db"
    by (auto elim: committed_obtains)
  have put: "client_put rev (checkpoint_api rev ?bearer ?env) sample_checkpoint_client ''state'' 0
      ''json-v1'' 9 (suspension_key 70) (empty_checkpoint_db, 0) = (Inr (AgentLink.metadata_of row), db, 1)"
    by (subst client_put_served [where bearer = ?bearer, OF refl sample_may_write])
      (simp_all add: p max_payload_bytes_def)
  have f: "sf_sha256 sample_sdk = rev" "sf_struct sample_sdk ''{}'' = Some ''{}''"
    by (simp_all add: sample_sdk_def)
  have ok: "prompt_ok ''Which city?''"
    by (simp add: prompt_ok_def unsafe_char_def char_count_def continuation_byte_def)
  let ?ps = "suspension_payloads (\<lambda>t. 9) (sample_stamps 1, sample_stamps 2) 70 ''Which city?'' ''{}''"
  have d: "list_all (\<lambda>q. deliverable sample_sdk sample_side (sample_rcap 1) (snd q)) ?ps"
    by (simp add: deliverable_def sample_side_def sample_sdk_def sample_funs_def max_frame_bytes_def
        suspension_checkpoint_def suspension_request_def byte_in_def)
  have st: "fresh_stamps (map fst ?ps) (lk_db (sample_link []))"
    using sample_stamps_fresh [of "[]"] by (auto simp: fresh_stamps_def message_payloads_def)
  have s: "suspension_checkpoint (\<lambda>t. 9) 70 = 9" "suspension_request (\<lambda>t. 9) 70 = 9"
    by (simp_all add: suspension_checkpoint_def suspension_request_def)
  have "\<exists>c' l' n. request_input sample_sdk (runtime_link sample_side) (\<lambda>t. 9)
        (checkpoint_api (sf_sha256 sample_sdk) ?bearer ?env) sample_checkpoint_client
        (sample_stamps 1, sample_stamps 2) ''state'' 0 ''Which city?'' ''{}'' 70 sample_client
        (sample_link []) (db, 1)
      = (Some (Inr (70, suspension_request (\<lambda>t. 9) 70), c', l'), fst (db, 1 :: nat), n)
    \<and> length (rt_frames (lk_db l')) = length (rt_frames (lk_db (sample_link []))) + 2"
    using put p(2)
    by (intro suspension_retried [where bearer = ?bearer and k = "(empty_checkpoint_db, 0)" and calls = "[]"
          and ?k1.0 = "(db, 1)" and calls' = "[]" and env = ?env
          and item = "AgentLink.metadata_of row", OF refl _ _ _ _ ok f(2) sample_reliable d st])
      (simp_all add: f s)
  then show ?thesis using put by (auto simp: f s)
qed

section \<open>The LangGraph checkpointer\<close>

lemma problem_is_raised [simp]: "raise_reply (problem_reply e) \<noteq> Inr a"
  by (cases e) simp_all

lemma client_get_found:
  assumes "client_get_json loads (checkpoint_api sha bearer env) cc i k = Inr v"
    and "bearer (cc_capability cc) = Inr cap"
  obtains row where "row \<in> set (checkpoints (fst k))" "k_thread_id row = cc_thread cc"
  using assms
  by (auto simp: client_get_json_def client_get_def checkpoint_api_def api_get_def checkpoint_get_def
      get_checkpoint_def find_Some_iff split: sum.splits option.splits prod.splits intro!: nth_mem)

text \<open>C36. A graph cannot go on from a stored state: the configuration that the checkpointer returns
  with a loaded state has no version, so the first write after it expects version 0 and is answered
  with a version conflict, although the writer holds the lease and nobody else wrote.\<close>

theorem graph_resume_conflicts:
  assumes "bearer (cc_capability cc) = Inr cap" and "may_write cc cap"
    and "fst k = serve_puts sha calls empty_checkpoint_db" and "holds_lease cap (fst k)"
    and "gc_checkpoint_version config = None"
    and "graph_get loads (checkpoint_api sha bearer env) cc config k = Inr (Some (config', v))"
    and "length (dumps v') \<le> max_payload_bytes"
    and "find_replay (cap_run_id cap) (uuid_str (snd fresh)) (checkpoint_idempotency (fst k)) = None"
  shows "graph_put dumps sha (checkpoint_api sha bearer env) cc fresh config' v' k
    = (Inl (platform_error ''checkpoint_version_conflict''), fst k, Suc (snd k))"
proof -
  have c: "config' = config"
    using assms(6) by (auto simp: graph_get_def split: option.splits sum.splits list.splits)
  obtain i where "client_get_json loads (checkpoint_api sha bearer env) cc i k = Inr v"
    using assms(6) by (auto simp: graph_get_def split: option.splits sum.splits list.splits)
  then obtain row where "row \<in> set (checkpoints (fst k))" "k_thread_id row = cc_thread cc"
    using client_get_found assms(1) by metis
  moreover have "checkpoint_inv (fst k)" using assms(3) reached_inv by simp
  ultimately have "current_version (cap_thread_id cap) (checkpoints (fst k)) \<noteq> 0"
    using assms(2) by (auto simp: current_version_length versions_of_def may_write_def filter_empty_conv)
  then have "put_checkpoint cap (sdk_request sha cc (dumps v') 0 ''json-v1'' (fst fresh))
      (uuid_str (snd fresh)) (env (snd k)) (fst k) = Inl (Problem 409 ''checkpoint_version_conflict'')"
    using assms(8) take_lease_holder [OF assms(4)]
    by (simp add: put_checkpoint_def body_request_def sdk_put_body_def)
  then show ?thesis
    by (simp add: graph_put_def client_put_json_def c assms(5)
        client_put_served [where bearer = bearer, OF assms(1,2,7)])
qed

text \<open>A graph whose thread has one checkpoint, loaded by its thread.\<close>

lemma graph_resume_conflicts_witness:
  "graph_get Some (checkpoint_api (\<lambda>_. ''5f'') (\<lambda>t. Inr (Checkpoint.sample_cap 1)) (\<lambda>n. (11 + n, 0)))
      sample_checkpoint_client \<lparr>gc_thread_id = Some 3, gc_checkpoint_id = None, gc_checkpoint_version = None\<rparr>
      (serve_puts (\<lambda>_. ''5f'') [((3, 9, sample_body 1 0, Checkpoint.sample_cap 1, ''k''), (11, 0))]
        empty_checkpoint_db, 1)
    = Inr (Some (\<lparr>gc_thread_id = Some 3, gc_checkpoint_id = None, gc_checkpoint_version = None\<rparr>, ''state''))
   \<and> fst (graph_put id (\<lambda>_. ''5f'') (checkpoint_api (\<lambda>_. ''5f'') (\<lambda>t. Inr (Checkpoint.sample_cap 1))
        (\<lambda>n. (11 + n, 0))) sample_checkpoint_client (21, 22)
      \<lparr>gc_thread_id = Some 3, gc_checkpoint_id = None, gc_checkpoint_version = None\<rparr> ''next''
      (serve_puts (\<lambda>_. ''5f'') [((3, 9, sample_body 1 0, Checkpoint.sample_cap 1, ''k''), (11, 0))]
        empty_checkpoint_db, 1))
    = Inl (platform_error ''checkpoint_version_conflict'')"
proof -
  let ?calls = "[((3, 9, sample_body 1 0, Checkpoint.sample_cap 1, ''k''), (11, 0 :: int))]"
  let ?db = "serve_puts (\<lambda>_. ''5f'') ?calls empty_checkpoint_db"
    and ?c = "\<lparr>gc_thread_id = Some 3, gc_checkpoint_id = None, gc_checkpoint_version = None\<rparr>"
    and ?bearer = "\<lambda>t :: pystr. Inr (Checkpoint.sample_cap 1) :: exc + Checkpoint.run_capability"
    and ?env = "\<lambda>n :: nat. (11 + n, 0 :: int)"
  let ?S = "checkpoint_api (\<lambda>_. ''5f'') ?bearer ?env"
  have g: "graph_get Some ?S sample_checkpoint_client ?c (?db, 1) = Inr (Some (?c, ''state''))"
    by (simp add: graph_get_def client_list_def client_get_json_def client_get_def checkpoint_api_def
        api_list_def api_get_def checkpoint_list_def checkpoint_get_def list_checkpoints_def
        get_checkpoint_def metadata_of_def b64decode_std_encode sample_checkpoint_client_def put_eval)
  have k: "''k'' \<noteq> uuid_str 22"
  proof
    assume "''k'' = uuid_str 22"
    from arg_cong [OF this, of length] show False by (simp add: length_uuid_str)
  qed
  have l: "holds_lease (Checkpoint.sample_cap 1) ?db" by (simp add: put_eval)
  have n: "find_replay (cap_run_id (Checkpoint.sample_cap 1)) (uuid_str 22) (checkpoint_idempotency ?db) = None"
    using k by (simp add: put_eval)
  have "graph_put id (\<lambda>_. ''5f'') ?S sample_checkpoint_client (21, 22) ?c ''next'' (?db, 1)
      = (Inl (platform_error ''checkpoint_version_conflict''), fst (?db, 1 :: nat), Suc (snd (?db, 1 :: nat)))"
    by (rule graph_resume_conflicts [where bearer = ?bearer and calls = ?calls, OF refl sample_may_write _ _ _ g])
      (simp_all add: l n max_payload_bytes_def)
  then show ?thesis using g by simp
qed

end
