(* ===== verification/Configuration.thy ===== *)
theory Configuration
  imports Json Contracts
begin

text \<open>
  The Configuration Service: bounded configuration documents, the merge of their layers
  (\<open>configuration_service/domain.py\<close>), immutable revisions with idempotent creation (\<open>store.py\<close>)
  and the resolution of the effective configuration of a run (\<open>main.py\<close>).
\<close>

section \<open>Bounds\<close>

definition max_configuration_bytes :: nat where
  "max_configuration_bytes = 64 * 1024"

definition max_depth :: nat where
  "max_depth = 16"

fun first_some :: "'a option list \<Rightarrow> 'a option" where
  "first_some [] = None"
| "first_some (None # xs) = first_some xs"
| "first_some (Some x # xs) = Some x"

text \<open>The recursion of \<open>validate_bounded\<close>: the exception it raises, if any.\<close>

fun validate_depth :: "nat \<Rightarrow> json \<Rightarrow> exc option" where
  "validate_depth d (J_obj ms) =
     (if max_depth < d then Some (Problem 422 ''configuration_too_deep'')
      else first_some (map (\<lambda>(k, v).
             if 128 < char_count k then Some (Problem 422 ''configuration_invalid'')
             else validate_depth (Suc d) v) ms))"
| "validate_depth d (J_arr vs) =
     (if max_depth < d then Some (Problem 422 ''configuration_too_deep'')
      else first_some (map (validate_depth (Suc d)) vs))"
| "validate_depth d v =
     (if max_depth < d then Some (Problem 422 ''configuration_too_deep'') else None)"

definition validate_bounded :: "json \<Rightarrow> exc option" where
  "validate_bounded v =
     (if max_configuration_bytes < length (canonical_json v)
      then Some (Problem 413 ''configuration_too_large'')
      else validate_depth 0 v)"

section \<open>Layers\<close>

text \<open>An assignment to a key of a dictionary: the place of a key that is there is kept.\<close>

fun set_member :: "pystr \<Rightarrow> json \<Rightarrow> (pystr \<times> json) list \<Rightarrow> (pystr \<times> json) list" where
  "set_member k v [] = [(k, v)]"
| "set_member k v ((l, w) # ms) = (if l = k then (k, v) # ms else (l, w) # set_member k v ms)"

text \<open>One layer is merged into the result, member by member. The recursive call of the source first
  copies the dictionary it has (\<open>merge_copy\<close> below) and then merges the value into the copy.\<close>

fun merge_into :: "(pystr \<times> json) list \<Rightarrow> (pystr \<times> json) list \<Rightarrow> (pystr \<times> json) list" where
  "merge_into result [] = result"
| "merge_into result ((k, J_obj b) # ms) =
     merge_into
       (set_member k (case member k result of
            Some (J_obj a) \<Rightarrow> J_obj (merge_into a b)
          | _ \<Rightarrow> J_obj b) result) ms"
| "merge_into result ((k, v) # ms) = merge_into (set_member k v result) ms"

text \<open>\<open>merge_layers\<close>: a layer that is no dictionary has no \<open>items\<close>.\<close>

fun merge_from :: "(pystr \<times> json) list \<Rightarrow> json list \<Rightarrow> exc + (pystr \<times> json) list" where
  "merge_from result [] = Inr result"
| "merge_from result (J_obj ms # ls) = merge_from (merge_into result ms) ls"
| "merge_from result (_ # ls) = Inl Attribute_error"

definition merge_layers :: "json list \<Rightarrow> exc + (pystr \<times> json) list" where
  "merge_layers ls = merge_from [] ls"

section \<open>Revisions\<close>

record revision_row =
  cr_revision :: uuid
  cr_owner :: uuid
  cr_release :: uuid
  cr_scope :: pystr
  cr_conversation :: "uuid option"
  cr_schema_digest :: pystr
  cr_values :: json
  cr_secrets :: json
  cr_created :: instant

record revision_key_row =
  ck_owner :: uuid
  ck_key :: pystr
  ck_request :: pystr
  ck_revision :: uuid

record configuration_db =
  revision_rows :: "revision_row list"
  revision_keys :: "revision_key_row list"

definition empty_configuration_db :: configuration_db where
  "empty_configuration_db = \<lparr>revision_rows = [], revision_keys = []\<rparr>"

text \<open>What the service takes from libraries: SHA-256 in hexadecimal; the value the database driver
  returns for a \<open>jsonb\<close> column; whether PostgreSQL stores a document; whether \<open>check_schema\<close>
  accepts a schema; the number of errors of \<open>iter_errors\<close> (\<open>None\<close> when it raises); \<open>uuid5\<close> in
  \<open>EFFECTIVE_NAMESPACE\<close>.\<close>

record configuration_funs =
  kf_sha256 :: "pystr \<Rightarrow> pystr"
  kf_column :: "json \<Rightarrow> json"
  kf_storable :: "json \<Rightarrow> bool"
  kf_schema_ok :: "json \<Rightarrow> bool"
  kf_errors :: "json \<Rightarrow> json \<Rightarrow> nat option"
  kf_effective_id :: "pystr \<Rightarrow> uuid"

definition content_digest :: "configuration_funs \<Rightarrow> json \<Rightarrow> pystr" where
  "content_digest H v = kf_sha256 H (canonical_json v)"

text \<open>\<open>CreateRevision\<close>, its fields converted.\<close>

record revision_request =
  cb_release :: uuid
  cb_scope :: pystr
  cb_conversation :: "uuid option"
  cb_schema_digest :: pystr
  cb_values :: "(pystr \<times> json) list"
  cb_secrets :: "(pystr \<times> json) list"

definition digest_text :: "pystr \<Rightarrow> bool" where
  "digest_text s \<longleftrightarrow> length s = 64 \<and> list_all is_hex s"

definition revision_key_ok :: "pystr \<Rightarrow> bool" where
  "revision_key_ok key \<longleftrightarrow> 8 \<le> char_count key \<and> char_count key \<le> 128"

definition revision_request_ok :: "revision_request \<Rightarrow> bool" where
  "revision_request_ok q \<longleftrightarrow> cb_scope q \<in> {''user'', ''conversation''} \<and> digest_text (cb_schema_digest q)
     \<and> (cb_scope q = ''conversation'') = (cb_conversation q \<noteq> None)"

text \<open>The document whose digest identifies a request; \<open>str(None)\<close> is a text like any other.\<close>

definition revision_document :: "uuid \<Rightarrow> revision_request \<Rightarrow> json" where
  "revision_document owner q =
     J_arr [J_str (uuid_str owner), J_str (uuid_str (cb_release q)), J_str (cb_scope q),
       J_str (case cb_conversation q of None \<Rightarrow> ''None'' | Some c \<Rightarrow> uuid_str c),
       J_str (cb_schema_digest q), J_obj (cb_values q), J_obj (cb_secrets q)]"

definition get_revision :: "uuid \<Rightarrow> uuid \<Rightarrow> configuration_db \<Rightarrow> exc + revision_row" where
  "get_revision owner revision db =
     (case find (\<lambda>r. cr_revision r = revision \<and> cr_owner r = owner) (revision_rows db) of
        None \<Rightarrow> Inl (Problem 404 ''revision_not_found'')
      | Some r \<Rightarrow> Inr r)"

definition revision_of :: "uuid \<times> instant \<Rightarrow> uuid \<Rightarrow> revision_request \<Rightarrow> revision_row" where
  "revision_of x owner q =
     \<lparr>cr_revision = fst x, cr_owner = owner, cr_release = cb_release q, cr_scope = cb_scope q,
      cr_conversation = cb_conversation q, cr_schema_digest = cb_schema_digest q,
      cr_values = J_obj (cb_values q), cr_secrets = J_obj (cb_secrets q), cr_created = snd x\<rparr>"

text \<open>\<open>create_revision\<close>; \<open>x\<close> is the fresh identity and the time of the database.\<close>

definition create_revision ::
  "configuration_funs \<Rightarrow> uuid \<times> pystr \<Rightarrow> revision_request \<Rightarrow> uuid \<times> instant \<Rightarrow> configuration_db
     \<Rightarrow> (revision_row, configuration_db) tx" where
  "create_revision H k q x db =
     (let digest = content_digest H (revision_document (fst k) q) in
      case row_by (\<lambda>r. (ck_owner r, ck_key r)) k (revision_keys db) of
        Some previous \<Rightarrow>
          if ck_request previous \<noteq> digest then Inl (Problem 409 ''idempotency_conflict'')
          else
            (case get_revision (fst k) (ck_revision previous) db of
               Inl e \<Rightarrow> Inl e
             | Inr r \<Rightarrow> Inr (r, db))
      | None \<Rightarrow>
          if \<not> revision_request_ok q then Inl Check_violation
          else if \<not> kf_storable H (J_obj (cb_values q)) \<or> \<not> kf_storable H (J_obj (cb_secrets q))
          then Inl Backend_failure
          else if has_row cr_revision (fst x) (revision_rows db) then Inl Unique_violation
          else Inr (revision_of x (fst k) q,
                 db\<lparr>revision_rows := revision_rows db @ [revision_of x (fst k) q],
                    revision_keys := revision_keys db
                      @ [\<lparr>ck_owner = fst k, ck_key = snd k, ck_request = digest,
                          ck_revision = fst x\<rparr>]\<rparr>))"

section \<open>Handlers\<close>

text \<open>\<open>revision_response\<close>: the model requires dictionaries; a validation error of pydantic is a
  \<open>ValueError\<close>.\<close>

definition revision_response ::
  "configuration_funs \<Rightarrow> revision_row \<Rightarrow> exc + revision_row" where
  "revision_response H r =
     (case (kf_column H (cr_values r), kf_column H (cr_secrets r)) of
        (J_obj vs, J_obj ss) \<Rightarrow> Inr (r\<lparr>cr_values := J_obj vs, cr_secrets := J_obj ss\<rparr>)
      | _ \<Rightarrow> Inl Value_error)"

text \<open>\<open>POST /v1/revisions\<close>. The answer is built after the transaction has committed.\<close>

definition revision_create ::
  "configuration_funs \<Rightarrow> uuid \<times> pystr \<Rightarrow> revision_request \<Rightarrow> uuid \<times> instant \<Rightarrow> configuration_db
     \<Rightarrow> (exc + revision_row) \<times> configuration_db" where
  "revision_create H k q x db =
     (if \<not> revision_request_ok q \<or> \<not> revision_key_ok (snd k)
      then (Inl (Problem 422 ''request_invalid''), db)
      else
        (case validate_bounded (J_obj (cb_values q)) of
           Some e \<Rightarrow> (Inl e, db)
         | None \<Rightarrow>
             (case validate_bounded (J_obj (cb_secrets q)) of
                Some e \<Rightarrow> (Inl e, db)
              | None \<Rightarrow>
                  (case create_revision H k q x db of
                     Inl e \<Rightarrow> (Inl e, db)
                   | Inr (r, db') \<Rightarrow> (revision_response H r, db')))))"

definition revision_get ::
  "configuration_funs \<Rightarrow> uuid \<Rightarrow> uuid \<Rightarrow> configuration_db \<Rightarrow> exc + revision_row" where
  "revision_get H owner revision db =
     (case get_revision owner revision db of
        Inl e \<Rightarrow> Inl e
      | Inr r \<Rightarrow> revision_response H r)"

record resolve_request =
  cq_release :: uuid
  cq_schema :: "(pystr \<times> json) list"
  cq_schema_digest :: pystr
  cq_defaults :: "(pystr \<times> json) list"
  cq_user_revision :: "uuid option"
  cq_conversation_revision :: "uuid option"

record effective_configuration =
  ef_revision :: uuid
  ef_schema_digest :: pystr
  ef_values :: "(pystr \<times> json) list"
  ef_secrets :: "(pystr \<times> json) list"
  ef_sha256 :: pystr

definition verify_schema_digest :: "configuration_funs \<Rightarrow> json \<Rightarrow> pystr \<Rightarrow> exc option" where
  "verify_schema_digest H schema expected =
     (if content_digest H schema \<noteq> expected then Some (Problem 422 ''schema_digest_mismatch'')
      else if \<not> kf_schema_ok H schema then Some (Problem 422 ''schema_invalid'')
      else None)"

definition validate_effective ::
  "configuration_funs \<Rightarrow> json \<Rightarrow> json \<Rightarrow> exc option" where
  "validate_effective H schema values =
     (case kf_errors H schema values of
        None \<Rightarrow> Some Backend_failure
      | Some n \<Rightarrow> if n \<noteq> 0 then Some (Problem 422 ''configuration_schema_violation'') else None)"

text \<open>One of the two revisions of a request: its row, checked.\<close>

definition usable_revision ::
  "uuid \<Rightarrow> resolve_request \<Rightarrow> pystr \<Rightarrow> uuid \<Rightarrow> configuration_db \<Rightarrow> exc + revision_row" where
  "usable_revision owner q scope revision db =
     (case get_revision owner revision db of
        Inl e \<Rightarrow> Inl e
      | Inr r \<Rightarrow>
          if cr_release r \<noteq> cq_release q \<or> cr_scope r \<noteq> scope
          then Inl (Problem 409 ''revision_incompatible'')
          else if cr_schema_digest r \<noteq> cq_schema_digest q
          then Inl (Problem 409 ''revision_schema_changed'')
          else Inr r)"

text \<open>The loop over the revisions that are given.\<close>

fun collect_revisions ::
  "uuid \<Rightarrow> resolve_request \<Rightarrow> (uuid option \<times> pystr) list \<Rightarrow> configuration_db
     \<Rightarrow> exc + revision_row list" where
  "collect_revisions owner q [] db = Inr []"
| "collect_revisions owner q ((None, scope) # rs) db = collect_revisions owner q rs db"
| "collect_revisions owner q ((Some revision, scope) # rs) db =
     (case usable_revision owner q scope revision db of
        Inl e \<Rightarrow> Inl e
      | Inr r \<Rightarrow>
          (case collect_revisions owner q rs db of
             Inl e \<Rightarrow> Inl e
           | Inr items \<Rightarrow> Inr (r # items)))"

definition effective_document ::
  "pystr \<Rightarrow> (pystr \<times> json) list \<Rightarrow> (pystr \<times> json) list \<Rightarrow> uuid list \<Rightarrow> json" where
  "effective_document digest values secrets revisions =
     J_obj [(''schema_digest'', J_str digest), (''values'', J_obj values),
       (''secret_references'', J_obj secrets),
       (''source_revisions'', J_arr (map (\<lambda>r. J_str (uuid_str r)) revisions))]"

text \<open>\<open>POST /v1/effective-configurations:resolve\<close>.\<close>

definition resolve_configuration ::
  "configuration_funs \<Rightarrow> uuid \<times> pystr \<Rightarrow> resolve_request \<Rightarrow> configuration_db
     \<Rightarrow> exc + effective_configuration" where
  "resolve_configuration H k q db =
     (if \<not> digest_text (cq_schema_digest q) \<or> \<not> revision_key_ok (snd k)
      then Inl (Problem 422 ''request_invalid'')
      else
        (case verify_schema_digest H (J_obj (cq_schema q)) (cq_schema_digest q) of
           Some e \<Rightarrow> Inl e
         | None \<Rightarrow>
        (case validate_bounded (J_obj (cq_defaults q)) of
           Some e \<Rightarrow> Inl e
         | None \<Rightarrow>
        (case collect_revisions (fst k) q
                [(cq_user_revision q, ''user''), (cq_conversation_revision q, ''conversation'')] db of
           Inl e \<Rightarrow> Inl e
         | Inr items \<Rightarrow>
        (case merge_layers (J_obj (cq_defaults q) # map (\<lambda>r. kf_column H (cr_values r)) items) of
           Inl e \<Rightarrow> Inl e
         | Inr values \<Rightarrow>
        (case merge_layers (J_obj [] # map (\<lambda>r. kf_column H (cr_secrets r)) items) of
           Inl e \<Rightarrow> Inl e
         | Inr secrets \<Rightarrow>
        (case validate_effective H (J_obj (cq_schema q)) (J_obj values) of
           Some e \<Rightarrow> Inl e
         | None \<Rightarrow>
             (let digest = content_digest H
                    (effective_document (cq_schema_digest q) values secrets (map cr_revision items)) in
              Inr \<lparr>ef_revision = kf_effective_id H digest, ef_schema_digest = cq_schema_digest q,
                   ef_values = values, ef_secrets = secrets, ef_sha256 = digest\<rparr>))))))))"

end
