(* ===== verification/ConfigurationProperties.thy ===== *)
theory ConfigurationProperties
  imports Configuration
begin

text \<open>
  What the Configuration Service promises: the precedence of the layers, the immutability of
  revisions and idempotent creation, what the resolution returns, and what the service does when the
  database driver hands \<open>jsonb\<close> columns over as text.
\<close>

section \<open>The merge of layers\<close>

lemma member_set_member [simp]:
  "member k (set_member l v ms) = (if k = l then Some v else member k ms)"
  by (induction l v ms rule: set_member.induct) auto

definition merged_value :: "json option \<Rightarrow> json \<Rightarrow> json" where
  "merged_value old w =
     (case (w, old) of (J_obj b, Some (J_obj a)) \<Rightarrow> J_obj (merge_into a b) | _ \<Rightarrow> w)"

lemma merged_value_simps [simp]:
  "merged_value (Some (J_obj a)) (J_obj b) = J_obj (merge_into a b)"
  "merged_value None w = w"
  by (simp_all add: merged_value_def split: json.split)

lemma merge_into_Cons:
  "merge_into result ((k, w) # ms) = merge_into (set_member k (merged_value (member k result) w) result) ms"
  by (cases w) (auto simp: merged_value_def split: option.split json.split)

lemma member_merge_into:
  assumes "distinct (map fst b)"
  shows "member k (merge_into a b) =
    (case member k b of None \<Rightarrow> member k a | Some w \<Rightarrow> Some (merged_value (member k a) w))"
  using assms
proof (induction b arbitrary: a)
  case (Cons m ms)
  obtain l w where m: "m = (l, w)" by (cases m)
  have "member l ms = None" using Cons.prems m by (auto simp: member_map_of map_of_eq_None_iff)
  then show ?case using Cons m by (cases "k = l") (auto simp: merge_into_Cons split: option.split)
qed simp

text \<open>The copy at the start of a recursive call changes nothing.\<close>

lemma set_member_new: "k \<notin> fst ` set ms \<Longrightarrow> set_member k v ms = ms @ [(k, v)]"
  by (induction k v ms rule: set_member.induct) auto

lemma merge_into_disjoint:
  assumes "distinct (map fst (a @ b))"
  shows "merge_into a b = a @ b"
  using assms
proof (induction b arbitrary: a)
  case (Cons m ms)
  obtain l w where m: "m = (l, w)" by (cases m)
  have l: "l \<notin> fst ` set a" using Cons.prems m by auto
  then have "member l a = None" by (auto simp: member_map_of map_of_eq_None_iff)
  then show ?case using Cons.IH [of "a @ [m]"] Cons.prems m l
    by (simp add: merge_into_Cons set_member_new)
qed simp

lemma merge_copy: "distinct (map fst ms) \<Longrightarrow> merge_into [] ms = ms"
  using merge_into_disjoint [of "[]" ms] by simp

text \<open>What a document says about a path: nothing, a value that is no section, a section, or a value
  at a shorter path.\<close>

datatype stance = Leaves_open | Sets json | Groups | Blocks

fun stance_at :: "json \<Rightarrow> pystr list \<Rightarrow> stance" where
  "stance_at (J_obj ms) [] = Groups"
| "stance_at (J_obj ms) (k # p) = (case member k ms of None \<Rightarrow> Leaves_open | Some w \<Rightarrow> stance_at w p)"
| "stance_at v [] = Sets v"
| "stance_at v (k # p) = Blocks"

definition leaf_at :: "json \<Rightarrow> pystr list \<Rightarrow> json option" where
  "leaf_at v p = (case stance_at v p of Sets w \<Rightarrow> Some w | _ \<Rightarrow> None)"

text \<open>The specification: the first document that says something decides.\<close>

fun first_leaf :: "json list \<Rightarrow> pystr list \<Rightarrow> json option" where
  "first_leaf [] p = None"
| "first_leaf (v # vs) p =
     (case stance_at v p of Leaves_open \<Rightarrow> first_leaf vs p | Sets w \<Rightarrow> Some w | _ \<Rightarrow> None)"

lemma leaf_merge:
  assumes "well_formed (J_obj b)"
  shows "leaf_at (J_obj (merge_into a b)) p =
    (case stance_at (J_obj b) p of Leaves_open \<Rightarrow> leaf_at (J_obj a) p | Sets w \<Rightarrow> Some w | _ \<Rightarrow> None)"
  using assms
proof (induction p arbitrary: a b)
  case (Cons k p)
  have m: "member k (merge_into a b) =
      (case member k b of None \<Rightarrow> member k a | Some w \<Rightarrow> Some (merged_value (member k a) w))"
    using Cons.prems by (simp add: member_merge_into)
  show ?case
  proof (cases "member k b")
    case None
    then show ?thesis using m by (simp add: leaf_at_def)
  next
    case (Some w)
    have wf: "well_formed w" using Cons.prems Some by (auto simp: member_map_of dest!: map_of_SomeD)
    consider (both) x y where "w = J_obj y" "member k a = Some (J_obj x)"
      | (one) y where "w = J_obj y" "\<forall>x. member k a \<noteq> Some (J_obj x)"
      | (leaf) "\<forall>y. w \<noteq> J_obj y"
      by (cases w) auto
    then show ?thesis
    proof cases
      case both
      then have "leaf_at (J_obj a) (k # p) = leaf_at (J_obj x) p"
        and "leaf_at (J_obj (merge_into a b)) (k # p) = leaf_at (J_obj (merge_into x y)) p"
        and "stance_at (J_obj b) (k # p) = stance_at (J_obj y) p"
        using m Some by (simp_all add: leaf_at_def)
      then show ?thesis using Cons.IH [of y x] wf both(1) by (simp only:)
    next
      case one
      then have "merged_value (member k a) w = w" by (simp add: merged_value_def split: option.split json.split)
      moreover have "leaf_at (J_obj a) (k # p) = None" if "stance_at w p = Leaves_open"
      proof (cases "member k a")
        case (Some v)
        have "p \<noteq> []" using that one(1) by auto
        then obtain q r where "p = q # r" by (cases p) auto
        then show ?thesis using Some one(2) by (cases v) (auto simp: leaf_at_def)
      qed (simp add: leaf_at_def)
      ultimately show ?thesis using m Some by (auto simp: leaf_at_def split: stance.split)
    next
      case leaf
      then have "merged_value (member k a) w = w" by (cases w) (auto simp: merged_value_def)
      moreover have "stance_at w p \<noteq> Leaves_open" using leaf by (cases w; cases p) auto
      ultimately show ?thesis using m Some by (auto simp: leaf_at_def split: stance.split)
    qed
  qed
qed (simp add: leaf_at_def)

lemma merge_from_leaf:
  assumes "merge_from result ls = Inr r" and "\<forall>v \<in> set ls. well_formed v"
  shows "leaf_at (J_obj r) p = first_leaf (rev ls @ [J_obj result]) p"
  using assms
proof (induction result ls rule: merge_from.induct)
  case (1 result)
  then show ?case by (simp add: leaf_at_def split: stance.split)
next
  case (2 result ms ls)
  have s: "first_leaf (us @ [J_obj (merge_into result ms)]) p = first_leaf (us @ [J_obj ms, J_obj result]) p" for us
  proof (induction us)
    case Nil
    show ?case using leaf_merge [of ms result p] 2(3) by (auto simp: leaf_at_def split: stance.splits)
  qed (simp split: stance.split)
  then show ?case using 2 by simp
qed auto

lemma first_leaf_empty:
  assumes "p \<noteq> []"
  shows "first_leaf (us @ [J_obj []]) p = first_leaf us p"
proof -
  obtain k q where "p = k # q" using assms by (cases p) auto
  then show ?thesis by (induction us) (auto split: stance.split)
qed

lemma merge_layers_leaf:
  assumes "merge_layers ls = Inr r" and "\<forall>v \<in> set ls. well_formed v" and "p \<noteq> []"
  shows "leaf_at (J_obj r) p = first_leaf (rev ls) p"
  using merge_from_leaf [of "[]" ls r p] assms first_leaf_empty [OF assms(3)]
  by (simp add: merge_layers_def)

section \<open>Revisions\<close>

definition configuration_inv :: "configuration_db \<Rightarrow> bool" where
  "configuration_inv db \<longleftrightarrow> distinct (map cr_revision (revision_rows db))
     \<and> (\<forall>i \<in> set (revision_keys db). \<exists>r \<in> set (revision_rows db).
          cr_revision r = ck_revision i \<and> cr_owner r = ck_owner i)"

definition stored_revision :: "uuid \<Rightarrow> configuration_db \<Rightarrow> pystr \<Rightarrow> (pystr \<times> uuid) option" where
  "stored_revision owner db key =
     map_option (\<lambda>i. (ck_request i, ck_revision i))
       (row_by (\<lambda>r. (ck_owner r, ck_key r)) (owner, key) (revision_keys db))"

definition revision_step :: "configuration_funs \<Rightarrow> configuration_db \<Rightarrow> configuration_db \<Rightarrow> bool" where
  "revision_step H db db' \<longleftrightarrow> (\<exists>k q x r. create_revision H k q x db = Inr (r, db'))"

lemma create_revision_cases:
  assumes "create_revision H k q x db = Inr (r, db')"
  obtains (Replay) i where "row_by (\<lambda>r. (ck_owner r, ck_key r)) k (revision_keys db) = Some i"
      "ck_request i = content_digest H (revision_document (fst k) q)"
      "get_revision (fst k) (ck_revision i) db = Inr r" "db' = db"
    | (Fresh) "row_by (\<lambda>r. (ck_owner r, ck_key r)) k (revision_keys db) = None"
      "r = revision_of x (fst k) q" "\<not> has_row cr_revision (fst x) (revision_rows db)"
      "db' = db\<lparr>revision_rows := revision_rows db @ [r],
         revision_keys := revision_keys db @ [\<lparr>ck_owner = fst k, ck_key = snd k,
           ck_request = content_digest H (revision_document (fst k) q), ck_revision = fst x\<rparr>]\<rparr>"
proof (cases "row_by (\<lambda>r. (ck_owner r, ck_key r)) k (revision_keys db)")
  case None
  then show thesis using assms Fresh by (auto simp: create_revision_def Let_def split: if_split_asm)
next
  case (Some i)
  have d: "ck_request i = content_digest H (revision_document (fst k) q)"
    by (rule ccontr) (use assms Some in \<open>simp add: create_revision_def\<close>)
  have "get_revision (fst k) (ck_revision i) db = Inr r \<and> db' = db"
    using assms Some d by (cases "get_revision (fst k) (ck_revision i) db") (auto simp: create_revision_def)
  then show thesis using Replay [OF Some d] by blast
qed

lemma get_revision_found:
  assumes "distinct (map cr_revision (revision_rows db))" and "r \<in> set (revision_rows db)"
  shows "get_revision (cr_owner r) (cr_revision r) db = Inr r"
proof -
  have "find (\<lambda>s. cr_revision s = cr_revision r \<and> cr_owner s = cr_owner r) t = Some r"
    if "distinct (map cr_revision t)" "r \<in> set t" for t
    using that by (induction t) (auto simp: image_iff)
  then show ?thesis using assms by (simp add: get_revision_def)
qed

lemma get_revision_SomeD:
  assumes "get_revision owner revision db = Inr r"
  shows "r \<in> set (revision_rows db)" "cr_revision r = revision" "cr_owner r = owner"
  using assms by (auto simp: get_revision_def split: option.splits dest: find_SomeD)

lemma configuration_inv_create:
  assumes "configuration_inv db" and "create_revision H k q x db = Inr (r, db')"
  shows "configuration_inv db'"
  using assms(2)
proof (cases rule: create_revision_cases)
  case Fresh
  then show ?thesis using assms(1)
    by (auto simp: configuration_inv_def revision_of_def has_row_iff)
qed (use assms in simp)

lemma stored_revision_kept:
  assumes "create_revision H k q x db = Inr (r, db')" and "stored_revision owner db key = Some v"
  shows "stored_revision owner db' key = Some v"
  using assms(1)
proof (cases rule: create_revision_cases)
  case Fresh
  then show ?thesis using assms(2) by (auto simp: stored_revision_def row_by_snoc)
qed (use assms in simp)

text \<open>The commands of one owner.\<close>

interpretation revisions: idempotent_service "\<lambda>key q x db. create_revision H (owner, key) q x db"
  "stored_revision owner" "\<lambda>q. content_digest H (revision_document owner q)" cr_revision "\<lambda>db key q. True"
  "Problem 409 ''idempotency_conflict''" configuration_inv "revision_step H" for H owner
proof (unfold_locales, goal_cases)
  case (1 db key q i x)
  then obtain row where row: "row_by (\<lambda>r. (ck_owner r, ck_key r)) (owner, key) (revision_keys db) = Some row"
    "ck_request row = content_digest H (revision_document owner q)" "ck_revision row = i"
    by (auto simp: stored_revision_def)
  then have "row \<in> set (revision_keys db)" "ck_owner row = owner" by (auto dest: row_by_SomeD)
  then obtain r where "r \<in> set (revision_rows db)" "cr_revision r = i" "cr_owner r = owner"
    using 1(1) row(3) by (auto simp: configuration_inv_def)
  then have "get_revision owner i db = Inr r"
    using get_revision_found [of db r] 1(1) by (auto simp: configuration_inv_def)
  then show ?case using row \<open>cr_revision r = i\<close> by (simp add: create_revision_def)
next
  case (3 db key q x r db')
  from 3(2) show ?case
  proof (cases rule: create_revision_cases)
    case (Replay i)
    then show ?thesis by (auto simp: stored_revision_def dest: get_revision_SomeD)
  qed (simp add: stored_revision_def row_by_snoc revision_of_def)
next
  case (5 db key q x r db')
  then show ?case by (blast intro: configuration_inv_create)
next
  case (7 db db')
  then show ?case by (auto simp: revision_step_def intro: configuration_inv_create)
next
  case (2 db key q d i x)
  then show ?case by (auto simp: create_revision_def stored_revision_def Let_def)
next
  case (4 db key q x r db' k0 v)
  then show ?case by (blast intro: stored_revision_kept)
next
  case (6 db db' k0 v)
  then show ?case by (auto simp: revision_step_def intro: stored_revision_kept)
qed

text \<open>Everything the service has stored: requests are JSON documents, so their members are distinct.\<close>

inductive configuration_reach :: "configuration_funs \<Rightarrow> configuration_db \<Rightarrow> bool" for H where
  empty: "configuration_reach H empty_configuration_db"
| create: "configuration_reach H db \<Longrightarrow> well_formed (J_obj (cb_values q))
    \<Longrightarrow> well_formed (J_obj (cb_secrets q)) \<Longrightarrow> create_revision H k q x db = Inr (r, db')
    \<Longrightarrow> configuration_reach H db'"

lemma configuration_reach_inv:
  assumes "configuration_reach H db"
  shows "configuration_inv db \<and> (\<forall>r \<in> set (revision_rows db). well_formed (cr_values r) \<and> well_formed (cr_secrets r))"
  using assms
proof induction
  case (create db q k x r db')
  from create(4) show ?case
  proof (cases rule: create_revision_cases)
    case Fresh
    then show ?thesis using create configuration_inv_create [OF _ create(4)]
      by (auto simp: revision_of_def)
  qed (use create in auto)
qed (simp add: configuration_inv_def empty_configuration_db_def)

lemma created_row:
  assumes "create_revision H k q x db = Inr (r, db')"
  shows "r \<in> set (revision_rows db') \<and> cr_owner r = fst k"
  using assms
proof (cases rule: create_revision_cases)
  case (Replay i)
  then show ?thesis using get_revision_SomeD [of "fst k" "ck_revision i" db r] by simp
qed (simp add: revision_of_def)

lemma revision_rows_kept:
  assumes "(revision_step H)\<^sup>*\<^sup>* db db'"
  shows "\<exists>new. revision_rows db' = revision_rows db @ new"
  using assms
proof induction
  case (step db1 db2)
  then obtain k q x r where "create_revision H k q x db1 = Inr (r, db2)" by (auto simp: revision_step_def)
  then show ?case using step.IH by (cases rule: create_revision_cases) auto
qed simp

section \<open>The resolution\<close>

definition requested_scopes :: "resolve_request \<Rightarrow> (uuid option \<times> pystr) list" where
  "requested_scopes q = [(cq_user_revision q, ''user''), (cq_conversation_revision q, ''conversation'')]"

definition usable :: "uuid \<Rightarrow> resolve_request \<Rightarrow> configuration_db \<Rightarrow> revision_row \<Rightarrow> bool" where
  "usable owner q db r \<longleftrightarrow> r \<in> set (revision_rows db) \<and> cr_owner r = owner
     \<and> cr_release r = cq_release q \<and> cr_schema_digest r = cq_schema_digest q"

lemma usable_revisionD:
  assumes "usable_revision owner q scope revision db = Inr r"
  shows "usable owner q db r" "cr_revision r = revision" "cr_scope r = scope"
  using assms
  by (auto simp: usable_revision_def usable_def split: sum.splits if_split_asm dest: get_revision_SomeD)

lemma collect_revisionsD:
  assumes "collect_revisions owner q rs db = Inr items"
  shows "list_all (usable owner q db) items
    \<and> map (\<lambda>r. (Some (cr_revision r), cr_scope r)) items = filter (\<lambda>r. fst r \<noteq> None) rs"
  using assms
proof (induction owner q rs db arbitrary: items rule: collect_revisions.induct)
  case (3 owner q revision scope rs db)
  obtain r where r: "usable_revision owner q scope revision db = Inr r"
    using 3(2) by (auto split: sum.splits)
  obtain rest where "collect_revisions owner q rs db = Inr rest" "items = r # rest"
    using 3(2) r by (auto split: sum.splits)
  then show ?case using 3(1) [OF r] usable_revisionD [OF r] by simp
qed auto

lemma resolve_configurationD:
  assumes "resolve_configuration H k q db = Inr e"
  obtains items vs ss where
    "content_digest H (J_obj (cq_schema q)) = cq_schema_digest q"
    "collect_revisions (fst k) q (requested_scopes q) db = Inr items"
    "merge_layers (J_obj (cq_defaults q) # map (\<lambda>r. kf_column H (cr_values r)) items) = Inr vs"
    "merge_layers (J_obj [] # map (\<lambda>r. kf_column H (cr_secrets r)) items) = Inr ss"
    "kf_errors H (J_obj (cq_schema q)) (J_obj vs) = Some 0"
    "ef_values e = vs" "ef_secrets e = ss" "ef_schema_digest e = cq_schema_digest q"
    "ef_sha256 e = content_digest H
       (effective_document (cq_schema_digest q) vs ss (map cr_revision items))"
    "ef_revision e = kf_effective_id H (ef_sha256 e)"
proof -
  have v: "verify_schema_digest H (J_obj (cq_schema q)) (cq_schema_digest q) = None"
    using assms by (auto simp: resolve_configuration_def split: if_split_asm option.splits)
  obtain items where i: "collect_revisions (fst k) q (requested_scopes q) db = Inr items"
    using assms v unfolding resolve_configuration_def requested_scopes_def
    by (auto split: if_split_asm option.splits sum.splits)
  obtain vs where vs: "merge_layers (J_obj (cq_defaults q) # map (\<lambda>r. kf_column H (cr_values r)) items) = Inr vs"
    using assms v i unfolding resolve_configuration_def requested_scopes_def
    by (auto split: if_split_asm option.splits sum.splits)
  obtain ss where ss: "merge_layers (J_obj [] # map (\<lambda>r. kf_column H (cr_secrets r)) items) = Inr ss"
    using assms v i vs unfolding resolve_configuration_def requested_scopes_def
    by (auto split: if_split_asm option.splits sum.splits)
  have ok: "validate_effective H (J_obj (cq_schema q)) (J_obj vs) = None"
    using assms v i vs ss unfolding resolve_configuration_def requested_scopes_def
    by (auto split: if_split_asm option.splits sum.splits)
  have e: "e = \<lparr>ef_revision = kf_effective_id H (content_digest H
        (effective_document (cq_schema_digest q) vs ss (map cr_revision items))),
      ef_schema_digest = cq_schema_digest q, ef_values = vs, ef_secrets = ss,
      ef_sha256 = content_digest H
        (effective_document (cq_schema_digest q) vs ss (map cr_revision items))\<rparr>"
    using assms v i vs ss ok unfolding resolve_configuration_def requested_scopes_def
    by (auto simp: Let_def split: if_split_asm option.splits)
  have "content_digest H (J_obj (cq_schema q)) = cq_schema_digest q"
    using v by (simp add: verify_schema_digest_def split: if_split_asm)
  moreover have "kf_errors H (J_obj (cq_schema q)) (J_obj vs) = Some 0"
    using ok by (auto simp: validate_effective_def split: option.splits if_split_asm)
  ultimately show thesis using that i vs ss e by simp
qed

text \<open>Texts are no layers, and a named revision is a layer.\<close>

lemma text_layers_refused:
  assumes "\<forall>v. \<exists>t. kf_column H v = J_str t"
    and "merge_layers (v # map (\<lambda>r. kf_column H (cr_values r)) items) = Inr vs"
  shows "items = []"
proof (cases items)
  case (Cons r rs)
  obtain t where "kf_column H (cr_values r) = J_str t" using assms(1) by blast
  then show ?thesis using assms(2) Cons by (cases v) (auto simp: merge_layers_def)
qed

lemma no_items_no_revisions:
  assumes "collect_revisions owner q (requested_scopes q) db = Inr []"
  shows "cq_user_revision q = None \<and> cq_conversation_revision q = None"
  using collect_revisionsD [OF assms]
  by (cases "cq_user_revision q"; cases "cq_conversation_revision q") (auto simp: requested_scopes_def)

text \<open>C39. The effective configuration, whatever the database driver makes of a \<open>jsonb\<close> column: a
  resolution that succeeds uses revisions of this owner, release and schema, the one of the user
  before the one of the conversation; each value comes from the last of the defaults, the user's and
  the conversation's revision, as the driver returned them, that says something about its path; the
  result satisfies the schema whose digest was given, and its digest is that of its content. With a
  driver that returns the columns as text, which is what asyncpg does unless told otherwise, it
  succeeds only when it names no revision, and then the values are those of the defaults.\<close>

theorem configuration_resolved:
  assumes "configuration_reach H db" and "resolve_configuration H (owner, key) q db = Inr e"
    and "\<forall>v. well_formed v \<longrightarrow> well_formed (kf_column H v)" and "well_formed (J_obj (cq_defaults q))"
  shows "\<exists>items. list_all (usable owner q db) items
    \<and> map (\<lambda>r. (Some (cr_revision r), cr_scope r)) items
        = filter (\<lambda>r. fst r \<noteq> None) [(cq_user_revision q, ''user''), (cq_conversation_revision q, ''conversation'')]
    \<and> (\<forall>p. p \<noteq> [] \<longrightarrow> leaf_at (J_obj (ef_values e)) p
        = first_leaf (rev (J_obj (cq_defaults q) # map (\<lambda>r. kf_column H (cr_values r)) items)) p)
    \<and> (\<forall>p. p \<noteq> [] \<longrightarrow> leaf_at (J_obj (ef_secrets e)) p
        = first_leaf (rev (map (\<lambda>r. kf_column H (cr_secrets r)) items)) p)
    \<and> kf_errors H (J_obj (cq_schema q)) (J_obj (ef_values e)) = Some 0
    \<and> content_digest H (J_obj (cq_schema q)) = cq_schema_digest q
    \<and> ef_sha256 e = content_digest H (effective_document (cq_schema_digest q) (ef_values e)
        (ef_secrets e) (map cr_revision items))
    \<and> ((\<forall>v. \<exists>t. kf_column H v = J_str t) \<longrightarrow>
        items = [] \<and> cq_user_revision q = None \<and> cq_conversation_revision q = None)"
proof -
  obtain items vs ss where r:
    "content_digest H (J_obj (cq_schema q)) = cq_schema_digest q"
    "collect_revisions owner q (requested_scopes q) db = Inr items"
    "merge_layers (J_obj (cq_defaults q) # map (\<lambda>r. kf_column H (cr_values r)) items) = Inr vs"
    "merge_layers (J_obj [] # map (\<lambda>r. kf_column H (cr_secrets r)) items) = Inr ss"
    "kf_errors H (J_obj (cq_schema q)) (J_obj vs) = Some 0"
    "ef_values e = vs" "ef_secrets e = ss"
    "ef_sha256 e = content_digest H
       (effective_document (cq_schema_digest q) vs ss (map cr_revision items))"
    using resolve_configurationD [OF assms(2)] unfolding fst_conv by metis
  note items = collect_revisionsD [OF r(2)]
  have wf: "well_formed (kf_column H (cr_values r)) \<and> well_formed (kf_column H (cr_secrets r))"
    if "r \<in> set items" for r
    using configuration_reach_inv [OF assms(1)] items that assms(3) by (auto simp: list_all_iff usable_def)
  have v: "leaf_at (J_obj vs) p
      = first_leaf (rev (J_obj (cq_defaults q) # map (\<lambda>r. kf_column H (cr_values r)) items)) p"
    if "p \<noteq> []" for p
    using r(3) assms(4) wf that by (intro merge_layers_leaf) auto
  have s: "leaf_at (J_obj ss) p = first_leaf (rev (map (\<lambda>r. kf_column H (cr_secrets r)) items)) p"
    if p: "p \<noteq> []" for p
  proof -
    have "leaf_at (J_obj ss) p = first_leaf (rev (J_obj [] # map (\<lambda>r. kf_column H (cr_secrets r)) items)) p"
      using r(4) wf p by (intro merge_layers_leaf) auto
    also have "\<dots> = first_leaf (rev (map (\<lambda>r. kf_column H (cr_secrets r)) items)) p"
      using p by (simp add: first_leaf_empty)
    finally show ?thesis .
  qed
  have "items = []" if "\<forall>v. \<exists>t. kf_column H v = J_str t"
    by (rule text_layers_refused [OF that r(3)])
  moreover have "cq_user_revision q = None \<and> cq_conversation_revision q = None" if "items = []"
    using no_items_no_revisions r(2) that by simp
  ultimately show ?thesis using items r v s unfolding requested_scopes_def by blast
qed

text \<open>A user revision over the defaults, with a schema that accepts everything.\<close>

definition sample_configuration :: configuration_funs where
  "sample_configuration = \<lparr>kf_sha256 = (\<lambda>s. replicate 64 (CHR ''a'')), kf_column = (\<lambda>v. v),
     kf_storable = (\<lambda>v. True), kf_schema_ok = (\<lambda>v. True), kf_errors = (\<lambda>s v. Some 0),
     kf_effective_id = (\<lambda>d. 9)\<rparr>"

definition sample_revision :: revision_request where
  "sample_revision = \<lparr>cb_release = 2, cb_scope = ''user'', cb_conversation = None,
     cb_schema_digest = replicate 64 (CHR ''a''),
     cb_values = [(''model'', J_obj [(''temperature'', J_int 4)])], cb_secrets = []\<rparr>"

definition sample_stored :: configuration_db where
  "sample_stored = \<lparr>revision_rows = [revision_of (7, 0) 1 sample_revision],
     revision_keys = [\<lparr>ck_owner = 1, ck_key = ''key-00001'',
       ck_request = replicate 64 (CHR ''a''), ck_revision = 7\<rparr>]\<rparr>"

definition sample_resolve :: resolve_request where
  "sample_resolve = \<lparr>cq_release = 2, cq_schema = [], cq_schema_digest = replicate 64 (CHR ''a''),
     cq_defaults = [(''model'', J_obj [(''name'', J_str ''small''), (''temperature'', J_int 2)]),
       (''limit'', J_int 10)],
     cq_user_revision = Some 7, cq_conversation_revision = None\<rparr>"

lemma sample_digest: "digest_text (replicate 64 (CHR ''a''))"
  by (simp add: digest_text_def list_all_iff is_hex_def hex_digits_def)

lemma sample_created:
  "create_revision sample_configuration (1, ''key-00001'') sample_revision (7, 0) empty_configuration_db
    = Inr (revision_of (7, 0) 1 sample_revision, sample_stored)"
  using sample_digest
  by (simp add: create_revision_def empty_configuration_db_def revision_request_ok_def
      sample_configuration_def sample_stored_def content_digest_def sample_revision_def Let_def)

lemma sample_stored_reach: "configuration_reach sample_configuration sample_stored"
  by (rule configuration_reach.create [OF configuration_reach.empty _ _ sample_created])
    (simp_all add: sample_revision_def)

text \<open>The defaults alone, with a driver that returns the columns as text.\<close>

definition text_configuration :: configuration_funs where
  "text_configuration = sample_configuration\<lparr>kf_column := \<lambda>v. J_str (canonical_json v)\<rparr>"

lemma sample_bounded: "validate_bounded (J_obj (cq_defaults sample_resolve)) = None"
  by (simp add: validate_bounded_def sample_resolve_def max_configuration_bytes_def max_depth_def
      char_count_def continuation_byte_def sort_members_def quote_text_def escape_char_def int_text_def
      digits_of.simps)

lemma sample_defaults_resolved:
  "\<exists>e. resolve_configuration text_configuration (1, ''key-00002'') (sample_resolve\<lparr>cq_user_revision := None\<rparr>)
     empty_configuration_db = Inr e"
proof -
  have g: "digest_text (cq_schema_digest sample_resolve)" "revision_key_ok ''key-00002''"
    "verify_schema_digest text_configuration (J_obj (cq_schema sample_resolve))
      (cq_schema_digest sample_resolve) = None"
    "validate_effective text_configuration sch vs = None" for sch vs
    using sample_digest
    by (simp_all add: sample_resolve_def revision_key_ok_def char_count_def continuation_byte_def
        verify_schema_digest_def validate_effective_def text_configuration_def sample_configuration_def
        content_digest_def)
  show ?thesis
    using g sample_bounded
    by (simp add: resolve_configuration_def sample_resolve_def merge_layers_def Let_def)
qed

lemma configuration_resolved_witness:
  "\<exists>e. resolve_configuration sample_configuration (1, ''key-00002'') sample_resolve sample_stored = Inr e
    \<and> leaf_at (J_obj (ef_values e)) [''model'', ''temperature''] = Some (J_int 4)
    \<and> leaf_at (J_obj (ef_values e)) [''model'', ''name''] = Some (J_str ''small'')
    \<and> (\<exists>e0. resolve_configuration text_configuration (1, ''key-00002'') (sample_resolve\<lparr>cq_user_revision := None\<rparr>)
          empty_configuration_db = Inr e0
        \<and> leaf_at (J_obj (ef_values e0)) [''model'', ''temperature''] = Some (J_int 2))"
proof -
  have d: "content_digest sample_configuration v = replicate 64 (CHR ''a'')" for v
    by (simp add: content_digest_def sample_configuration_def)
  note b = sample_bounded
  have c: "collect_revisions 1 sample_resolve (requested_scopes sample_resolve) sample_stored
      = Inr [revision_of (7, 0) 1 sample_revision]"
    by (simp add: requested_scopes_def sample_resolve_def usable_revision_def get_revision_def
        sample_stored_def revision_of_def sample_revision_def)
  have m: "\<exists>vs. merge_layers (J_obj (cq_defaults sample_resolve)
        # map (\<lambda>r. kf_column sample_configuration (cr_values r)) [revision_of (7, 0) 1 sample_revision]) = Inr vs"
    "\<exists>ss. merge_layers (J_obj [] # map (\<lambda>r. kf_column sample_configuration (cr_secrets r))
        [revision_of (7, 0) 1 sample_revision]) = Inr ss"
    by (simp_all add: merge_layers_def sample_resolve_def sample_configuration_def revision_of_def
        sample_revision_def)
  have g: "digest_text (cq_schema_digest sample_resolve)" "revision_key_ok ''key-00002''"
    "verify_schema_digest sample_configuration (J_obj (cq_schema sample_resolve))
      (cq_schema_digest sample_resolve) = None"
    "validate_effective sample_configuration sch vs = None" for sch vs
    using sample_digest d
    by (simp_all add: sample_resolve_def revision_key_ok_def char_count_def continuation_byte_def
        verify_schema_digest_def validate_effective_def sample_configuration_def)
  have c': "collect_revisions 1 sample_resolve [(cq_user_revision sample_resolve, ''user''),
      (cq_conversation_revision sample_resolve, ''conversation'')] sample_stored
      = Inr [revision_of (7, 0) 1 sample_revision]"
    using c unfolding requested_scopes_def .
  obtain vs ss where "merge_layers (J_obj (cq_defaults sample_resolve)
        # map (\<lambda>r. kf_column sample_configuration (cr_values r)) [revision_of (7, 0) 1 sample_revision]) = Inr vs"
    "merge_layers (J_obj [] # map (\<lambda>r. kf_column sample_configuration (cr_secrets r))
        [revision_of (7, 0) 1 sample_revision]) = Inr ss"
    using m by blast
  then have "\<exists>e. resolve_configuration sample_configuration (1, ''key-00002'') sample_resolve
      sample_stored = Inr e"
    unfolding resolve_configuration_def fst_conv snd_conv c' b g
    by (simp add: Let_def g(1,2) del: list.map)
  then obtain e where e: "resolve_configuration sample_configuration (1, ''key-00002'') sample_resolve
      sample_stored = Inr e" by blast
  have k: "kf_column sample_configuration v = v" for v by (simp add: sample_configuration_def)
  have f: "filter (\<lambda>r. fst r \<noteq> None) [(cq_user_revision sample_resolve, ''user''),
      (cq_conversation_revision sample_resolve, ''conversation'')] = [(Some 7, ''user'')]"
    by (simp add: sample_resolve_def)
  have wf: "well_formed (J_obj (cq_defaults sample_resolve))" by (simp add: sample_resolve_def)
  have wfk: "\<forall>v. well_formed v \<longrightarrow> well_formed (kf_column sample_configuration v)" by (simp add: k)
  obtain items where i: "map (\<lambda>r. (Some (cr_revision r), cr_scope r)) items = [(Some 7, ''user'')]"
    "list_all (usable 1 sample_resolve sample_stored) items"
    "\<forall>p. p \<noteq> [] \<longrightarrow> leaf_at (J_obj (ef_values e)) p
        = first_leaf (rev (J_obj (cq_defaults sample_resolve) # map cr_values items)) p"
    using configuration_resolved [OF sample_stored_reach e wfk wf] unfolding f k
    by (elim exE conjE) (rule that)
  have "items = [revision_of (7, 0) 1 sample_revision]"
  proof -
    obtain z where "items = [z]" using i(1) by (cases items; cases "tl items") simp_all
    then show ?thesis using i(2) by (simp add: usable_def sample_stored_def)
  qed
  then have "leaf_at (J_obj (ef_values e)) [''model'', ''temperature''] = Some (J_int 4)"
    "leaf_at (J_obj (ef_values e)) [''model'', ''name''] = Some (J_str ''small'')"
    using i(3) by (simp_all add: sample_resolve_def revision_of_def sample_revision_def)
  moreover obtain e0 where e0: "resolve_configuration text_configuration (1, ''key-00002'')
      (sample_resolve\<lparr>cq_user_revision := None\<rparr>) empty_configuration_db = Inr e0"
    using sample_defaults_resolved by blast
  moreover have "leaf_at (J_obj (ef_values e0)) [''model'', ''temperature''] = Some (J_int 2)"
  proof -
    have t: "\<forall>v. \<exists>s. kf_column text_configuration v = J_str s"
      "\<forall>v. well_formed v \<longrightarrow> well_formed (kf_column text_configuration v)"
      by (simp_all add: text_configuration_def)
    have w: "well_formed (J_obj (cq_defaults (sample_resolve\<lparr>cq_user_revision := None\<rparr>)))"
      by (simp add: sample_resolve_def)
    obtain items :: "revision_row list" where i: "\<forall>p. p \<noteq> [] \<longrightarrow> leaf_at (J_obj (ef_values e0)) p = first_leaf
        (rev (J_obj (cq_defaults (sample_resolve\<lparr>cq_user_revision := None\<rparr>))
          # map (\<lambda>r. kf_column text_configuration (cr_values r)) items)) p"
      and j: "(\<forall>v. \<exists>s. kf_column text_configuration v = J_str s) \<longrightarrow> items = []
        \<and> cq_user_revision (sample_resolve\<lparr>cq_user_revision := None\<rparr>) = None
        \<and> cq_conversation_revision (sample_resolve\<lparr>cq_user_revision := None\<rparr>) = None"
      using configuration_resolved [OF configuration_reach.empty e0 t(2) w]
      by (elim exE conjE) (rule that)
    have "items = []" using mp [OF j t(1)] by (rule conjunct1)
    then have "leaf_at (J_obj (ef_values e0)) [''model'', ''temperature'']
        = first_leaf [J_obj (cq_defaults sample_resolve)] [''model'', ''temperature'']"
      using i by simp
    then show ?thesis by (simp add: sample_resolve_def)
  qed
  ultimately show ?thesis using e by blast
qed

section \<open>Revisions stay as they are\<close>

text \<open>Revisions are immutable and created once: after any further commands the revision is read back
  exactly as it was created, the same command returns it and changes nothing, and the key with
  another document is refused.\<close>

theorem revision_immutable:
  assumes "configuration_reach H db" and "create_revision H (owner, key) q x db = Inr (r, db1)"
    and "(revision_step H)\<^sup>*\<^sup>* db1 db2"
  shows "get_revision owner (cr_revision r) db2 = Inr r
    \<and> create_revision H (owner, key) q y db2 = Inr (r, db2)
    \<and> (content_digest H (revision_document owner q') \<noteq> content_digest H (revision_document owner q)
        \<longrightarrow> create_revision H (owner, key) q' y db2 = Inl (Problem 409 ''idempotency_conflict''))"
proof -
  note inv = configuration_reach_inv [OF assms(1), THEN conjunct1]
  have i1: "configuration_inv db1" using inv assms(2) by (rule configuration_inv_create)
  have i2: "configuration_inv db2"
    using assms(3) i1 by induction (auto simp: revision_step_def intro: configuration_inv_create)
  have r: "r \<in> set (revision_rows db1) \<and> cr_owner r = owner"
    using created_row [OF assms(2)] by simp
  then have g: "get_revision owner (cr_revision r) db2 = Inr r"
    using get_revision_found [of db2 r] i2 revision_rows_kept [OF assms(3)]
    by (auto simp: configuration_inv_def)
  obtain r' where r': "create_revision H (owner, key) q y db2 = Inr (r', db2)" "cr_revision r' = cr_revision r"
    using revisions.retry_later [OF inv assms(2,3), of y] by auto
  have "r' \<in> set (revision_rows db2) \<and> cr_owner r' = owner" using created_row [OF r'(1)] by simp
  then have "get_revision owner (cr_revision r) db2 = Inr r'"
    using get_revision_found [of db2 r'] i2 r'(2) by (auto simp: configuration_inv_def)
  then have "r' = r" using g by simp
  then show ?thesis using g r'(1) revisions.reuse_later [OF inv assms(2,3)] by simp
qed

lemma revision_immutable_witness:
  "get_revision 1 7 sample_stored = Inr (revision_of (7, 0) 1 sample_revision)
   \<and> create_revision sample_configuration (1, ''key-00001'') sample_revision (8, 5) sample_stored
     = Inr (revision_of (7, 0) 1 sample_revision, sample_stored)"
  using revision_immutable [OF configuration_reach.empty sample_created rtranclp.rtrancl_refl, of "(8, 5)"]
  by (simp add: revision_of_def)

section \<open>Columns handed over as text\<close>

text \<open>C40. With a driver that hands \<open>jsonb\<close> columns over as text, as asyncpg does without a codec, no
  revision is ever returned: creation stores the revision and then fails, reading fails, and a
  resolution that names a revision fails.\<close>

theorem text_columns_unreadable:
  assumes "\<And>v. \<exists>t. kf_column H v = J_str t"
  shows "(\<exists>e. fst (revision_create H k q x db) = Inl e)
    \<and> (\<exists>e. revision_get H owner revision db = Inl e)
    \<and> (cq_user_revision q' \<noteq> None \<or> cq_conversation_revision q' \<noteq> None
        \<longrightarrow> (\<exists>e. resolve_configuration H k q' db = Inl e))"
proof -
  have response: "revision_response H r = Inl Value_error" for r
  proof -
    obtain t where "kf_column H (cr_values r) = J_str t" using assms by blast
    then show ?thesis by (simp add: revision_response_def)
  qed
  have "\<exists>e. resolve_configuration H k q' db = Inl e"
    if n: "cq_user_revision q' \<noteq> None \<or> cq_conversation_revision q' \<noteq> None"
  proof (cases "resolve_configuration H k q' db")
    case (Inr e)
    obtain items vs where "collect_revisions (fst k) q' (requested_scopes q') db = Inr items"
      "merge_layers (J_obj (cq_defaults q') # map (\<lambda>r. kf_column H (cr_values r)) items) = Inr vs"
      by (rule resolve_configurationD [OF Inr])
    moreover from this(1) have "items \<noteq> []"
      using no_items_no_revisions [of "fst k" q' db] n by (cases items) auto
    ultimately show ?thesis using text_layers_refused [of H] assms by blast
  qed blast
  moreover have "\<exists>e. fst (revision_create H k q x db) = Inl e"
    by (auto simp: revision_create_def response split: option.split sum.split)
  moreover have "\<exists>e. revision_get H owner revision db = Inl e"
    by (auto simp: revision_get_def response split: sum.split)
  ultimately show ?thesis by blast
qed

text \<open>The sample with the text of the column: the revision is stored all the same.\<close>

lemma text_columns_unreadable_witness:
  "(\<exists>e. fst (revision_create (sample_configuration\<lparr>kf_column := \<lambda>v. J_str (canonical_json v)\<rparr>)
        (1, ''key-00001'') sample_revision (7, 0) empty_configuration_db) = Inl e)
   \<and> snd (revision_create (sample_configuration\<lparr>kf_column := \<lambda>v. J_str (canonical_json v)\<rparr>)
        (1, ''key-00001'') sample_revision (7, 0) empty_configuration_db) = sample_stored
   \<and> (\<exists>e. resolve_configuration (sample_configuration\<lparr>kf_column := \<lambda>v. J_str (canonical_json v)\<rparr>)
        (1, ''key-00002'') sample_resolve sample_stored = Inl e)"
proof -
  let ?H = "sample_configuration\<lparr>kf_column := \<lambda>v. J_str (canonical_json v)\<rparr>"
  have h: "content_digest ?H v = content_digest sample_configuration v" for v
    by (simp add: content_digest_def)
  have st: "kf_storable ?H v = kf_storable sample_configuration v" for v by simp
  have "create_revision ?H k q x db = create_revision sample_configuration k q x db" for k q x db
    unfolding create_revision_def h st by (rule refl)
  then have "create_revision ?H (1, ''key-00001'') sample_revision (7, 0) empty_configuration_db
      = Inr (revision_of (7, 0) 1 sample_revision, sample_stored)"
    by (simp only: sample_created)
  moreover have "validate_bounded (J_obj (cb_values sample_revision)) = None"
    "validate_bounded (J_obj (cb_secrets sample_revision)) = None"
    by (simp_all add: validate_bounded_def sample_revision_def max_configuration_bytes_def max_depth_def
        char_count_def continuation_byte_def sort_members_def quote_text_def escape_char_def int_text_def
        digits_of.simps)
  moreover have "revision_request_ok sample_revision" "revision_key_ok ''key-00001''"
    using sample_digest
    by (simp_all add: revision_request_ok_def sample_revision_def revision_key_ok_def char_count_def
        continuation_byte_def)
  ultimately have "snd (revision_create ?H (1, ''key-00001'') sample_revision (7, 0) empty_configuration_db)
      = sample_stored"
    by (simp add: revision_create_def)
  then show ?thesis
    using text_columns_unreadable [of ?H "(1, ''key-00001'')" sample_revision "(7, 0)" empty_configuration_db
        1 7 sample_resolve]
      text_columns_unreadable [of ?H "(1, ''key-00002'')" sample_revision "(7, 0)" sample_stored
        1 7 sample_resolve]
    by (simp add: sample_resolve_def)
qed

end
