(* ===== verification/PortalBff.thy ===== *)
theory PortalBff
  imports Conversation Identity RegistryApi RunnerLifecycle
begin

text \<open>
  The Portal BFF (\<open>portal_bff/main.py\<close> and \<open>auth.py\<close>): the identity of the user from the
  introspected token, and the handlers, each a sequence of calls of the services behind it.

  A call is an operation on the state of the world, which answers with a result or a problem, or is
  not answered (\<open>httpx.HTTPError\<close>); what a handler reads of an answer is a value of the service's
  model. The services are the fields of \<open>portal_services\<close>; \<open>name_id\<close> is \<open>uuid5\<close> in the namespace of
  URLs and \<open>show\<close> is \<open>str\<close> of a JSON value.
\<close>

section \<open>Identity\<close>

record portal_identity =
  pi_subject :: uuid
  pi_username :: pystr
  pi_display_name :: pystr
  pi_roles :: "pystr list"
  pi_token :: pystr

text \<open>\<open>UUID(claims["sub"])\<close>: \<open>None\<close> is a \<open>TypeError\<close>, a text that is no UUID a \<open>ValueError\<close>; any other
  value has no method \<open>replace\<close>.\<close>

definition subject_of :: "(pystr \<Rightarrow> uuid option) \<Rightarrow> members \<Rightarrow> exc + uuid" where
  "subject_of parse claims =
     (case member ''sub'' claims of
        None \<Rightarrow> Inl Key_error
      | Some J_null \<Rightarrow> Inl Type_error
      | Some (J_str s) \<Rightarrow> (case parse s of None \<Rightarrow> Inl Value_error | Some u \<Rightarrow> Inr u)
      | Some _ \<Rightarrow> Inl Attribute_error)"

definition portal_invalid_token :: exc where
  "portal_invalid_token = Problem 401 ''Invalid or expired access token''"

text \<open>The exceptions the handler turns into 401.\<close>

definition refused_token :: "exc + 'a \<Rightarrow> exc + 'a" where
  "refused_token r =
     (case r of
        Inl e \<Rightarrow> Inl (if e \<in> {Key_error, Type_error, Value_error} then portal_invalid_token else e)
      | Inr a \<Rightarrow> Inr a)"

definition checked_subject ::
  "(pystr \<Rightarrow> uuid option) \<Rightarrow> pystr \<Rightarrow> members \<Rightarrow> exc + uuid" where
  "checked_subject parse audience claims =
     (if member ''active'' claims \<noteq> Some (J_bool True) then Inl Value_error
      else
        (case audience_in audience (item_or claims ''aud'' (J_arr [])) of
           Inl e \<Rightarrow> Inl e
         | Inr found \<Rightarrow> if \<not> found then Inl Value_error else subject_of parse claims))"

text \<open>\<open>claims.get("realm_access", {}).get("roles", [])\<close>, of a list the texts.\<close>

definition portal_roles :: "members \<Rightarrow> exc + pystr list" where
  "portal_roles claims =
     (case item_or claims ''realm_access'' (J_obj []) of
        J_obj realm \<Rightarrow> Inr (list_texts (item_or realm ''roles'' (J_arr [])))
      | _ \<Rightarrow> Inl Attribute_error)"

text \<open>\<open>scheme.lower()\<close> for ASCII letters.\<close>

definition lower_char :: "char \<Rightarrow> char" where
  "lower_char c = (if upper c then char_of ((of_char c :: nat) + 32) else c)"

text \<open>\<open>get_identity\<close>. The introspection yields the JSON it was answered with, nothing when it failed.\<close>

definition get_identity ::
  "(pystr \<Rightarrow> json option) \<Rightarrow> pystr \<Rightarrow> (pystr \<Rightarrow> uuid option) \<Rightarrow> (json \<Rightarrow> pystr)
     \<Rightarrow> (pystr \<times> pystr) option \<Rightarrow> exc + portal_identity" where
  "get_identity introspect audience parse show credentials =
     (case credentials of
        None \<Rightarrow> Inl (Problem 401 ''Authentication required'')
      | Some (scheme, token) \<Rightarrow>
          if map lower_char scheme \<noteq> ''bearer'' then Inl (Problem 401 ''Authentication required'')
          else if \<not> ascii token \<or> 8192 < length token then Inl (Problem 401 ''Invalid access token'')
          else
            (case introspect token of
               None \<Rightarrow> Inl portal_invalid_token
             | Some (J_obj claims) \<Rightarrow>
                 (case refused_token (checked_subject parse audience claims) of
                    Inl e \<Rightarrow> Inl e
                  | Inr subject \<Rightarrow>
                      (case portal_roles claims of
                         Inl e \<Rightarrow> Inl e
                       | Inr roles \<Rightarrow>
                           Inr \<lparr>pi_subject = subject,
                             pi_username = show (item_or claims ''preferred_username'' (J_str (uuid_str subject))),
                             pi_display_name = show (item_or claims ''name''
                               (item_or claims ''preferred_username'' (J_str ''User''))),
                             pi_roles = roles, pi_token = token\<rparr>))
             | Some _ \<Rightarrow> Inl Attribute_error))"

section \<open>The services\<close>

datatype 'a answer = Unreachable | Answered "exc + 'a"

text \<open>\<open>_request\<close> and \<open>_forward\<close>: a problem is forwarded as it is.\<close>

fun forward :: "'a answer \<Rightarrow> exc + 'a" where
  "forward Unreachable = Inl (Problem 503 ''Target service unavailable'')"
| "forward (Answered r) = r"

record release_document =
  rd_manifest :: members
  rd_image :: pystr
  rd_provenance :: members

type_synonym conversation_view = "conversation_row \<times> message_row list \<times> input_row list"

text \<open>The first argument is the user or the authorization header, then follow the path, the
  idempotency key and the body. \<open>px_exchange\<close> answers with the JSON of the token endpoint.\<close>

record 'w portal_services =
  px_exchange :: "pystr \<Rightarrow> 'w \<Rightarrow> json option \<times> 'w"
  px_agents :: "pystr \<Rightarrow> 'w \<Rightarrow> agent_summary list answer \<times> 'w"
  px_release :: "pystr \<Rightarrow> uuid \<Rightarrow> 'w \<Rightarrow> published_release answer \<times> 'w"
  px_publish :: "pystr \<Rightarrow> pystr \<Rightarrow> release_document \<Rightarrow> 'w \<Rightarrow> published_release answer \<times> 'w"
  px_default :: "pystr \<Rightarrow> pystr \<Rightarrow> pystr \<Rightarrow> uuid \<Rightarrow> 'w \<Rightarrow> agent_summary answer \<times> 'w"
  px_deprecate :: "pystr \<Rightarrow> uuid \<Rightarrow> pystr \<Rightarrow> 'w \<Rightarrow> published_release answer \<times> 'w"
  px_conversations :: "uuid \<Rightarrow> 'w \<Rightarrow> conversation_row list answer \<times> 'w"
  px_create :: "uuid \<Rightarrow> pystr \<Rightarrow> conversation_payload \<Rightarrow> 'w \<Rightarrow> conversation_row answer \<times> 'w"
  px_conversation :: "uuid \<Rightarrow> uuid \<Rightarrow> 'w \<Rightarrow> conversation_view answer \<times> 'w"
  px_message :: "uuid \<Rightarrow> uuid \<Rightarrow> pystr \<Rightarrow> message_payload \<Rightarrow> 'w \<Rightarrow> (message_row \<times> nat) answer \<times> 'w"
  px_answer :: "uuid \<Rightarrow> uuid \<Rightarrow> pystr \<Rightarrow> uuid \<times> pystr \<Rightarrow> 'w \<Rightarrow> (uuid \<times> nat) answer \<times> 'w"
  px_grant :: "uuid \<Rightarrow> pystr \<Rightarrow> create_grant_body \<Rightarrow> 'w \<Rightarrow> grant_row answer \<times> 'w"
  px_run :: "uuid \<Rightarrow> 'w \<Rightarrow> run_row answer \<times> 'w"
  px_cancel :: "uuid \<Rightarrow> pystr \<Rightarrow> 'w \<Rightarrow> run_row answer \<times> 'w"
  px_events :: "uuid \<Rightarrow> uuid \<Rightarrow> nat \<Rightarrow> 'w \<Rightarrow> presentation_row list answer \<times> 'w"

type_synonym ('a, 'w) portal = "'w \<Rightarrow> (exc + 'a) \<times> 'w"

text \<open>The validation of body and header is done by the framework before the handler.\<close>

definition portal_invalid :: exc where
  "portal_invalid = Problem 422 ''request_validation''"

definition portal_checked :: "bool \<Rightarrow> ('a, 'w) portal \<Rightarrow> ('a, 'w) portal" where
  "portal_checked valid handler w = (if valid then handler w else (Inl portal_invalid, w))"

text \<open>\<open>_registry_authorization\<close>.\<close>

definition delegation_unavailable :: exc where
  "delegation_unavailable = Problem 503 ''Identity delegation unavailable''"

definition registry_authorization ::
  "'w portal_services \<Rightarrow> portal_identity \<Rightarrow> (pystr, 'w) portal" where
  "registry_authorization S identity w =
     (case px_exchange S (pi_token identity) w of
        (Some (J_obj ms), w1) \<Rightarrow>
          (case member ''access_token'' ms of
             Some (J_str token) \<Rightarrow>
               if token = [] then (Inl delegation_unavailable, w1) else (Inr (''Bearer '' @ token), w1)
           | _ \<Rightarrow> (Inl delegation_unavailable, w1))
      | (_, w1) \<Rightarrow> (Inl delegation_unavailable, w1))"

definition registry_call ::
  "'w portal_services \<Rightarrow> portal_identity \<Rightarrow> (pystr \<Rightarrow> 'w \<Rightarrow> 'a answer \<times> 'w) \<Rightarrow> ('a, 'w) portal" where
  "registry_call S identity call w =
     (case registry_authorization S identity w of
        (Inl e, w1) \<Rightarrow> (Inl e, w1)
      | (Inr authorization, w1) \<Rightarrow> (case call authorization w1 of (a, w2) \<Rightarrow> (forward a, w2)))"

definition forwarded :: "('w \<Rightarrow> 'a answer \<times> 'w) \<Rightarrow> ('a, 'w) portal" where
  "forwarded call w = (case call w of (a, w1) \<Rightarrow> (forward a, w1))"

section \<open>Handlers without decisions of their own\<close>

record portal_me =
  me_id :: uuid
  me_username :: pystr
  me_display_name :: pystr
  me_roles :: "pystr list"
  me_authoring :: bool
  me_publication :: bool

definition portal_me_of :: "portal_identity \<Rightarrow> portal_me" where
  "portal_me_of identity =
     \<lparr>me_id = pi_subject identity, me_username = pi_username identity,
      me_display_name = pi_display_name identity, me_roles = pi_roles identity,
      me_authoring = (set (pi_roles identity) \<inter> {''genai-agent-author'', ''genai-agent-publisher''} \<noteq> {}),
      me_publication = (''genai-agent-publisher'' \<in> set (pi_roles identity))\<rparr>"

definition portal_agents ::
  "'w portal_services \<Rightarrow> portal_identity \<Rightarrow> (agent_summary list, 'w) portal" where
  "portal_agents S identity = registry_call S identity (px_agents S)"

definition with_role ::
  "portal_identity \<Rightarrow> pystr \<Rightarrow> ('a, 'w) portal \<Rightarrow> ('a, 'w) portal" where
  "with_role identity role handler w =
     (if role \<notin> set (pi_roles identity) then (Inl (Problem 403 ''Operation is not permitted''), w)
      else handler w)"

definition portal_publish ::
  "'w portal_services \<Rightarrow> portal_identity \<Rightarrow> pystr \<Rightarrow> release_document \<Rightarrow> (published_release, 'w) portal" where
  "portal_publish S identity key body =
     portal_checked (1 \<le> char_count (rd_image body) \<and> char_count (rd_image body) \<le> 512 \<and> key_ok key)
       (with_role identity publisher_role
         (registry_call S identity (\<lambda>a. px_publish S a key body)))"

definition portal_default_release ::
  "'w portal_services \<Rightarrow> portal_identity \<Rightarrow> pystr \<Rightarrow> pystr \<Rightarrow> uuid \<Rightarrow> (agent_summary, 'w) portal" where
  "portal_default_release S identity key agent release =
     portal_checked (key_ok key)
       (with_role identity admin_role
         (registry_call S identity (\<lambda>a. px_default S a key agent release)))"

definition portal_deprecate ::
  "'w portal_services \<Rightarrow> portal_identity \<Rightarrow> pystr \<Rightarrow> uuid \<Rightarrow> (published_release, 'w) portal" where
  "portal_deprecate S identity key release =
     portal_checked (key_ok key)
       (with_role identity admin_role
         (registry_call S identity (\<lambda>a. px_deprecate S a release key)))"

definition portal_conversations ::
  "'w portal_services \<Rightarrow> portal_identity \<Rightarrow> (conversation_row list, 'w) portal" where
  "portal_conversations S identity = forwarded (px_conversations S (pi_subject identity))"

definition conversation_thread :: "(pystr \<Rightarrow> uuid) \<Rightarrow> uuid \<Rightarrow> pystr \<Rightarrow> uuid" where
  "conversation_thread name_id user key =
     name_id (''porfirium:'' @ uuid_str user @ '':conversation:'' @ key)"

definition portal_create_conversation ::
  "'w portal_services \<Rightarrow> (pystr \<Rightarrow> uuid) \<Rightarrow> portal_identity \<Rightarrow> pystr \<Rightarrow> pystr \<Rightarrow> uuid
     \<Rightarrow> (conversation_row, 'w) portal" where
  "portal_create_conversation S name_id identity key title release =
     portal_checked (1 \<le> char_count title \<and> char_count title \<le> 200 \<and> key_ok key)
       (forwarded (px_create S (pi_subject identity) key
         \<lparr>cp_title = title, cp_release_id = release,
          cp_thread_id = conversation_thread name_id (pi_subject identity) key,
          cp_configuration_revision_id = None\<rparr>))"

definition portal_respond ::
  "'w portal_services \<Rightarrow> (pystr \<Rightarrow> uuid) \<Rightarrow> portal_identity \<Rightarrow> uuid \<Rightarrow> pystr \<Rightarrow> pystr
     \<Rightarrow> (uuid \<times> nat, 'w) portal" where
  "portal_respond S name_id identity input key response =
     portal_checked (key_ok key)
       (forwarded (px_answer S (pi_subject identity) input key
         (name_id (''porfirium:'' @ uuid_str input @ '':run:'' @ key), response)))"

definition portal_events ::
  "'w portal_services \<Rightarrow> portal_identity \<Rightarrow> uuid \<Rightarrow> nat \<Rightarrow> (presentation_row list, 'w) portal" where
  "portal_events S identity conversation after =
     forwarded (px_events S (pi_subject identity) conversation after)"

section \<open>A conversation with its active run\<close>

datatype active_run = Requested_run uuid | Known_run run_row

definition run_is_active :: "run_state \<Rightarrow> bool" where
  "run_is_active s \<longleftrightarrow> s \<in> {run_state.Accepted, run_state.Scheduled, run_state.Starting, run_state.Running,
     run_state.Suspending, run_state.Waiting_for_input, run_state.Completion_reconciling,
     run_state.Cancelling}"

definition run_ended :: "uuid \<Rightarrow> message_row list \<Rightarrow> bool" where
  "run_ended run ms = list_ex (\<lambda>m. m_run_id m = run \<and> m_role m = Assistant_role
     \<and> m_status m \<in> {message_status.Completed, message_status.Failed, message_status.Interrupted}) ms"

definition portal_conversation ::
  "'w portal_services \<Rightarrow> portal_identity \<Rightarrow> uuid \<Rightarrow> (conversation_view \<times> active_run option, 'w) portal" where
  "portal_conversation S identity conversation w =
     (case px_conversation S (pi_subject identity) conversation w of
        (a, w1) \<Rightarrow>
          (case forward a of
             Inl e \<Rightarrow> (Inl e, w1)
           | Inr (c, ms, is) \<Rightarrow>
               if ms = [] \<or> run_ended (m_run_id (last ms)) ms then (Inr ((c, ms, is), None), w1)
               else
                 (let run = m_run_id (last ms) in
                  case px_run S run w1 of
                    (Unreachable, w2) \<Rightarrow> (Inl (Problem 503 ''Target service unavailable''), w2)
                  | (Answered (Inl _), w2) \<Rightarrow> (Inr ((c, ms, is), Some (Requested_run run)), w2)
                  | (Answered (Inr row), w2) \<Rightarrow>
                      (Inr ((c, ms, is), if run_is_active (r_state row) then Some (Known_run row) else None),
                       w2))))"

section \<open>A message\<close>

text \<open>\<open>release.json().get("manifest", {}).get("spec", {}).get("tools", [])\<close> and the check.\<close>

definition tool_text_ok :: "json \<Rightarrow> bool" where
  "tool_text_ok v = (case v of J_str s \<Rightarrow> s \<noteq> [] \<and> char_count s \<le> 128 | _ \<Rightarrow> False)"

definition release_tools :: "members \<Rightarrow> exc + pystr list" where
  "release_tools manifest =
     (case item_or manifest ''spec'' (J_obj []) of
        J_obj spec \<Rightarrow>
          (case item_or spec ''tools'' (J_arr []) of
             J_arr vs \<Rightarrow>
               if 64 < length vs \<or> \<not> list_all tool_text_ok vs
               then Inl (Problem 502 ''Registry release tools are invalid'') else Inr (texts_of vs)
           | _ \<Rightarrow> Inl (Problem 502 ''Registry release tools are invalid''))
      | _ \<Rightarrow> Inl Attribute_error)"

definition portal_name :: "(pystr \<Rightarrow> uuid) \<Rightarrow> uuid \<Rightarrow> pystr \<Rightarrow> pystr \<Rightarrow> uuid" where
  "portal_name name_id conversation kind key =
     name_id (''porfirium:'' @ uuid_str conversation @ '':'' @ kind @ '':'' @ key)"

definition portal_grant_body :: "uuid \<Rightarrow> uuid \<Rightarrow> pystr list \<Rightarrow> create_grant_body" where
  "portal_grant_body conversation release tools =
     \<lparr>cg_conversation_id = conversation, cg_release_id = release,
      cg_maximum_scopes = map (\<lambda>t. ''tool:'' @ t) tools\<rparr>"

definition portal_message ::
  "(pystr \<Rightarrow> uuid) \<Rightarrow> uuid \<Rightarrow> pystr \<Rightarrow> pystr \<Rightarrow> uuid \<Rightarrow> message_payload" where
  "portal_message name_id conversation key content grant =
     \<lparr>mp_message_id = portal_name name_id conversation ''message'' key,
      mp_run_id = portal_name name_id conversation ''run'' key, mp_content = content,
      mp_delegation_grant_id = grant\<rparr>"

definition portal_send_message ::
  "'w portal_services \<Rightarrow> (pystr \<Rightarrow> uuid) \<Rightarrow> portal_identity \<Rightarrow> uuid \<Rightarrow> pystr \<Rightarrow> pystr
     \<Rightarrow> (message_row \<times> nat, 'w) portal" where
  "portal_send_message S name_id identity conversation key content w =
     (case px_conversation S (pi_subject identity) conversation w of
        (a, w1) \<Rightarrow>
     (case forward a of
        Inl e \<Rightarrow> (Inl e, w1)
      | Inr (c, ms, is) \<Rightarrow>
     (case registry_call S identity (\<lambda>auth. px_release S auth (v_release_id c)) w1 of
        (Inl e, w2) \<Rightarrow> (Inl e, w2)
      | (Inr release, w2) \<Rightarrow>
     (case release_tools (pr_manifest release) of
        Inl e \<Rightarrow> (Inl e, w2)
      | Inr tools \<Rightarrow>
     (case px_grant S (pi_subject identity) (uuid_str (portal_name name_id conversation ''grant'' key))
             (portal_grant_body conversation (v_release_id c) tools) w2 of
        (g, w3) \<Rightarrow>
     (case forward g of
        Inl e \<Rightarrow> (Inl e, w3)
      | Inr grant \<Rightarrow>
          forwarded (px_message S (pi_subject identity) conversation key
            (portal_message name_id conversation key content (g_grant_id grant))) w3))))))"

definition portal_create_message ::
  "'w portal_services \<Rightarrow> (pystr \<Rightarrow> uuid) \<Rightarrow> portal_identity \<Rightarrow> uuid \<Rightarrow> pystr \<Rightarrow> pystr
     \<Rightarrow> (message_row \<times> nat, 'w) portal" where
  "portal_create_message S name_id identity conversation key content =
     portal_checked (1 \<le> char_count content \<and> char_count content \<le> 20000 \<and> key_ok key)
       (portal_send_message S name_id identity conversation key content)"

section \<open>Cancellation\<close>

definition portal_cancel_run ::
  "'w portal_services \<Rightarrow> portal_identity \<Rightarrow> uuid \<Rightarrow> uuid \<Rightarrow> pystr \<Rightarrow> (run_row, 'w) portal" where
  "portal_cancel_run S identity conversation run key =
     portal_checked (key_ok key)
       (\<lambda>w. case px_conversation S (pi_subject identity) conversation w of
              (a, w1) \<Rightarrow>
           (case forward a of
              Inl e \<Rightarrow> (Inl e, w1)
            | Inr (c, ms, is) \<Rightarrow>
                if run \<notin> set (map m_run_id ms) \<union> set (map q_run_id is)
                then (Inl (Problem 404 ''Run was not found''), w1)
                else forwarded (px_cancel S run key) w1))"

end
