(* ===== verification/PortalProperties.thy ===== *)
theory PortalProperties
  imports PortalBff ConversationProperties RegistryExample
begin

text \<open>
  The Portal BFF in front of the services: the calls of the handlers are served by the models of the
  Conversation Service, the Registry, Identity Delegation and the Runner.
\<close>

section \<open>The platform\<close>

record platform =
  pw_conversation :: conversation_db
  pw_delegation :: delegation_db
  pw_registry :: registry_db
  pw_runner :: runner_db
  pw_clock :: nat

record platform_side =
  po_digests :: digests
  po_conv_env :: "nat \<Rightarrow> conv_env"
  po_grant_digest :: grant_digest
  po_grant_env :: "nat \<Rightarrow> uuid \<times> instant"
  po_registry :: registry_service
  po_order :: "pystr \<Rightarrow> pystr \<Rightarrow> bool"
  po_release_env :: "nat \<Rightarrow> uuid \<times> instant"
  po_cause :: "pystr \<Rightarrow> uuid"
  po_removed :: "nat \<Rightarrow> bool"
  po_runner_env :: "nat \<Rightarrow> runner_env"
  po_exchange :: "pystr \<Rightarrow> json option"

definition tick :: "platform \<Rightarrow> platform" where
  "tick w = w\<lparr>pw_clock := Suc (pw_clock w)\<rparr>"

text \<open>A command is one transaction; when it raises, its database is as it was.\<close>

definition conversation_tx ::
  "platform_side \<Rightarrow> (conv_env \<Rightarrow> conversation_db \<Rightarrow> ('a, conversation_db) tx) \<Rightarrow> platform
     \<Rightarrow> 'a answer \<times> platform" where
  "conversation_tx P f w =
     (case f (po_conv_env P (pw_clock w)) (pw_conversation w) of
        Inl e \<Rightarrow> (Answered (Inl e), tick w)
      | Inr (a, db) \<Rightarrow> (Answered (Inr a), (tick w)\<lparr>pw_conversation := db\<rparr>))"

definition delegation_tx ::
  "platform_side \<Rightarrow> (uuid \<times> instant \<Rightarrow> delegation_db \<Rightarrow> ('a, delegation_db) tx) \<Rightarrow> platform
     \<Rightarrow> 'a answer \<times> platform" where
  "delegation_tx P f w =
     (case f (po_grant_env P (pw_clock w)) (pw_delegation w) of
        Inl e \<Rightarrow> (Answered (Inl e), tick w)
      | Inr (a, db) \<Rightarrow> (Answered (Inr a), (tick w)\<lparr>pw_delegation := db\<rparr>))"

definition registry_tx ::
  "platform_side \<Rightarrow> (uuid \<times> instant \<Rightarrow> registry_db \<Rightarrow> ('a, registry_db) tx) \<Rightarrow> platform
     \<Rightarrow> 'a answer \<times> platform" where
  "registry_tx P f w =
     (case f (po_release_env P (pw_clock w)) (pw_registry w) of
        Inl e \<Rightarrow> (Answered (Inl e), tick w)
      | Inr (a, db) \<Rightarrow> (Answered (Inr a), (tick w)\<lparr>pw_registry := db\<rparr>))"

definition reading :: "(platform \<Rightarrow> exc + 'a) \<Rightarrow> platform \<Rightarrow> 'a answer \<times> platform" where
  "reading f w = (Answered (f w), tick w)"

definition platform_services :: "platform_side \<Rightarrow> platform portal_services" where
  "platform_services P = \<lparr>
     px_exchange = (\<lambda>token w. (po_exchange P token, tick w)),
     px_agents = (\<lambda>auth. reading (\<lambda>w.
       list_agents_endpoint (po_registry P) (po_order P) (Some auth) (pw_registry w))),
     px_release = (\<lambda>auth release. reading (\<lambda>w.
       get_release_by_id_endpoint (po_registry P) release (Some auth) (pw_registry w))),
     px_publish = (\<lambda>auth key d. registry_tx P (\<lambda>x.
       publish_release_endpoint (po_registry P) (rd_manifest d, rd_image d, rd_provenance d) (Some auth)
         key (fst x))),
     px_default = (\<lambda>auth key agent release. registry_tx P (\<lambda>x.
       set_default_release_endpoint (po_registry P) agent release (Some auth) key)),
     px_deprecate = (\<lambda>auth release key. registry_tx P (\<lambda>x.
       deprecate_release_endpoint (po_registry P) release (Some auth) key (snd x))),
     px_conversations = (\<lambda>user. reading (\<lambda>w. Inr (list_conversations user (pw_conversation w)))),
     px_create = (\<lambda>user key q. conversation_tx P (\<lambda>x. create_conversation (po_digests P) user key q x)),
     px_conversation = (\<lambda>user c. reading (\<lambda>w. projection user c (pw_conversation w))),
     px_message = (\<lambda>user c key q. conversation_tx P (\<lambda>x. create_message (po_digests P) user c key q x)),
     px_answer = (\<lambda>user i key q. conversation_tx P (\<lambda>x.
       answer_input (po_digests P) user i key (fst q) (snd q) x)),
     px_grant = (\<lambda>user key q. delegation_tx P (\<lambda>x. grant_create (po_grant_digest P) user key q x)),
     px_run = (\<lambda>run. reading (\<lambda>w. get_run (pw_runner w) run)),
     px_cancel = (\<lambda>run key w.
       case cancel (po_cause P) (po_removed P (pw_clock w)) run key (po_runner_env P (pw_clock w)) (pw_runner w) of
         (r, calls, db) \<Rightarrow> (Answered r, (tick w)\<lparr>pw_runner := db\<rparr>)),
     px_events = (\<lambda>user c after. reading (\<lambda>w. replay user c after replay_limit (pw_conversation w)))\<rparr>"

lemma platform_services_simps [simp]:
  "px_exchange (platform_services P) token w = (po_exchange P token, tick w)"
  "px_release (platform_services P) auth release w
    = (Answered (get_release_by_id_endpoint (po_registry P) release (Some auth) (pw_registry w)), tick w)"
  "px_conversation (platform_services P) user c w
    = (Answered (projection user c (pw_conversation w)), tick w)"
  "px_grant (platform_services P) user key q
    = delegation_tx P (\<lambda>x. grant_create (po_grant_digest P) user key q x)"
  "px_message (platform_services P) user c key m
    = conversation_tx P (\<lambda>x. create_message (po_digests P) user c key m x)"
  by (simp_all add: platform_services_def reading_def)

lemma tick_simps [simp]:
  "pw_conversation (tick w) = pw_conversation w" "pw_delegation (tick w) = pw_delegation w"
  "pw_registry (tick w) = pw_registry w" "pw_runner (tick w) = pw_runner w"
  "pw_clock (tick w) = Suc (pw_clock w)"
  by (simp_all add: tick_def)

section \<open>Sending a message\<close>

text \<open>The steps up to the grant: what they read, and the state in which the grant is asked for.\<close>

definition message_ready ::
  "platform_side \<Rightarrow> portal_identity \<Rightarrow> uuid \<Rightarrow> platform \<Rightarrow> conversation_row \<Rightarrow> pystr list \<Rightarrow> bool" where
  "message_ready P identity conversation w c tools \<longleftrightarrow>
     owned (pi_subject identity) conversation (pw_conversation w) = Inr c
     \<and> (\<exists>token release. po_exchange P (pi_token identity) = Some (J_obj token)
          \<and> (\<exists>t. member ''access_token'' token = Some (J_str t) \<and> t \<noteq> []
              \<and> get_release_by_id_endpoint (po_registry P) (v_release_id c) (Some (''Bearer '' @ t)) (pw_registry w)
                = Inr release)
          \<and> release_tools (pr_manifest release) = Inr tools)"

lemma projection_owned:
  "projection user conversation db = Inr (c, ms, qs) \<Longrightarrow> owned user conversation db = Inr c"
  "owned user conversation db = Inr c \<Longrightarrow> \<exists>ms qs. projection user conversation db = Inr (c, ms, qs)"
  by (auto simp: projection_def split: sum.splits)

definition grant_step ::
  "platform_side \<Rightarrow> (pystr \<Rightarrow> uuid) \<Rightarrow> portal_identity \<Rightarrow> uuid \<Rightarrow> pystr \<Rightarrow> conversation_row \<Rightarrow> pystr list
     \<Rightarrow> platform \<Rightarrow> grant_row answer \<times> platform" where
  "grant_step P name_id identity conversation key c tools w =
     delegation_tx P (\<lambda>x. grant_create (po_grant_digest P) (pi_subject identity)
       (uuid_str (portal_name name_id conversation ''grant'' key))
       (portal_grant_body conversation (v_release_id c) tools) x) (tick (tick (tick w)))"

lemma send_message_ready:
  assumes "message_ready P identity conversation w c tools"
  shows "portal_send_message (platform_services P) name_id identity conversation key content w =
    (case grant_step P name_id identity conversation key c tools w of
       (g, w3) \<Rightarrow>
         (case forward g of
            Inl e \<Rightarrow> (Inl e, w3)
          | Inr grant \<Rightarrow>
              forwarded (conversation_tx P (\<lambda>x. create_message (po_digests P) (pi_subject identity)
                conversation key (portal_message name_id conversation key content (g_grant_id grant)) x)) w3))"
proof -
  obtain token t release where r: "owned (pi_subject identity) conversation (pw_conversation w) = Inr c"
    "po_exchange P (pi_token identity) = Some (J_obj token)"
    "member ''access_token'' token = Some (J_str t)" "t \<noteq> []"
    "get_release_by_id_endpoint (po_registry P) (v_release_id c) (Some (''Bearer '' @ t)) (pw_registry w) = Inr release"
    "release_tools (pr_manifest release) = Inr tools"
    using assms by (auto simp: message_ready_def)
  obtain ms qs where p: "projection (pi_subject identity) conversation (pw_conversation w) = Inr (c, ms, qs)"
    using projection_owned(2) [OF r(1)] by blast
  have reg: "registry_call (platform_services P) identity
      (\<lambda>auth. px_release (platform_services P) auth (v_release_id c)) (tick w)
    = (Inr release, tick (tick (tick w)))"
    using r by (simp add: registry_call_def registry_authorization_def)
  show ?thesis
    unfolding portal_send_message_def grant_step_def using p r reg
    by (simp split: prod.split sum.split)
qed

lemma send_message_success:
  assumes "portal_send_message (platform_services P) name_id identity conversation key content w
      = (Inr ms, w')"
  obtains c tools where "message_ready P identity conversation w c tools"
proof -
  obtain c mm qs where p: "projection (pi_subject identity) conversation (pw_conversation w) = Inr (c, mm, qs)"
    using assms by (cases "projection (pi_subject identity) conversation (pw_conversation w)")
      (auto simp: portal_send_message_def)
  let ?r = "registry_call (platform_services P) identity
      (\<lambda>auth. px_release (platform_services P) auth (v_release_id c)) (tick w)"
  obtain release w2 where r: "?r = (Inr release, w2)"
    using assms p by (cases ?r; cases "fst ?r") (auto simp: portal_send_message_def)
  obtain tools where t: "release_tools (pr_manifest release) = Inr tools"
    using assms p r by (cases "release_tools (pr_manifest release)") (auto simp: portal_send_message_def)
  have "\<exists>token s. po_exchange P (pi_token identity) = Some (J_obj token)
      \<and> member ''access_token'' token = Some (J_str s) \<and> s \<noteq> []
      \<and> get_release_by_id_endpoint (po_registry P) (v_release_id c) (Some (''Bearer '' @ s)) (pw_registry w)
          = Inr release"
    using r by (auto simp: registry_call_def registry_authorization_def split: option.splits json.splits if_splits)
  then show thesis using that projection_owned(1) [OF p] t by (fastforce simp: message_ready_def)
qed

lemma grant_created:
  assumes "grant_step P name_id identity conversation key c tools w = (Answered (Inr g), w3)"
  shows "grant_create (po_grant_digest P) (pi_subject identity)
       (uuid_str (portal_name name_id conversation ''grant'' key))
       (portal_grant_body conversation (v_release_id c) tools) (po_grant_env P (pw_clock w + 3)) (pw_delegation w)
      = Inr (g, pw_delegation w3)"
    and "pw_conversation w3 = pw_conversation w" "pw_registry w3 = pw_registry w" "pw_clock w3 = pw_clock w + 4"
  using assms
  by (auto simp: grant_step_def delegation_tx_def eval_nat_numeral split: sum.splits prod.splits)

lemma grant_create_new:
  assumes "grant_create D user key body x db = Inr (g, db')"
    and "row_by (\<lambda>r. (gi_actor r, gi_key r)) (user, key) (grant_idempotency db) = None"
  shows "g = new_grant (fst x) user body (snd x + hours 8) (snd x)" "grants db' = grants db @ [g]"
    "\<not> has_row g_grant_id (fst x) (grants db)"
    "grant_idempotency db' = grant_idempotency db @ [\<lparr>gi_actor = user, gi_key = key,
      gi_sha256 = D (user, cg_conversation_id body, cg_release_id body,
        sorted_texts (cg_maximum_scopes body), snd x + hours 8), gi_grant_id = fst x\<rparr>]"
  using assms by (auto simp: grant_create_def create_grant_def Let_def split: if_splits)

lemma message_sent:
  assumes "portal_create_message (platform_services P) name_id identity conversation key content w
      = (Inr (m, s), w')"
  obtains c tools g w3 where "message_ready P identity conversation w c tools"
    "grant_step P name_id identity conversation key c tools w = (Answered (Inr g), w3)"
    "create_message (po_digests P) (pi_subject identity) conversation key
       (portal_message name_id conversation key content (g_grant_id g)) (po_conv_env P (pw_clock w + 4))
       (pw_conversation w) = Inr ((m, s), pw_conversation w')"
    "pw_delegation w' = pw_delegation w3" "pw_registry w' = pw_registry w" "pw_clock w' = pw_clock w + 5"
    "key_ok key" "1 \<le> char_count content" "char_count content \<le> 20000"
proof -
  have k: "key_ok key" "1 \<le> char_count content" "char_count content \<le> 20000"
    using assms by (auto simp: portal_create_message_def portal_checked_def split: if_splits)
  have send: "portal_send_message (platform_services P) name_id identity conversation key content w
      = (Inr (m, s), w')"
    using assms k by (simp add: portal_create_message_def portal_checked_def)
  obtain c tools where ready: "message_ready P identity conversation w c tools"
    by (rule send_message_success [OF send])
  obtain a w3 where st: "grant_step P name_id identity conversation key c tools w = (a, w3)"
    by (cases "grant_step P name_id identity conversation key c tools w") auto
  obtain g where a: "a = Answered (Inr g)"
    using send st by (cases a; cases "forward a") (auto simp: send_message_ready [OF ready])
  have w3: "pw_clock w3 = pw_clock w + 4" "pw_conversation w3 = pw_conversation w" "pw_registry w3 = pw_registry w"
    using grant_created [OF st [unfolded a]] by simp_all
  have f: "forwarded (conversation_tx P (\<lambda>x. create_message (po_digests P) (pi_subject identity)
      conversation key (portal_message name_id conversation key content (g_grant_id g)) x)) w3 = (Inr (m, s), w')"
    using send st a by (simp add: send_message_ready [OF ready])
  obtain db where c: "create_message (po_digests P) (pi_subject identity) conversation key
       (portal_message name_id conversation key content (g_grant_id g)) (po_conv_env P (pw_clock w + 4))
       (pw_conversation w) = Inr ((m, s), db)" "w' = (tick w3)\<lparr>pw_conversation := db\<rparr>"
    using f w3 by (auto simp: forwarded_def conversation_tx_def split: sum.splits prod.splits)
  show thesis using that [OF ready st [unfolded a]] c w3 k by simp
qed

lemma owned_after_message:
  assumes "create_message H owner cid key q x db = Inr (r, db')" and "owned owner cid db = Inr c"
  shows "\<exists>c'. owned owner cid db' = Inr c' \<and> v_release_id c' = v_release_id c"
  using assms(1)
proof (cases rule: create_message_cases)
  case (Fresh c1 s db2 db3)
  have row: "row_by v_conversation_id cid (conversations db) = Some c" "v_owner_id c = owner"
    using assms(2) by (auto simp: owned_def split: option.splits if_splits)
  let ?u = "\<lambda>r. r\<lparr>v_delegation_grant_id := Some (mp_delegation_grant_id q)\<rparr>"
    and ?v = "\<lambda>r. r\<lparr>v_last_sequence := v_last_sequence r + 1, v_updated_at := xe_now x\<rparr>"
  have "conversations db2 = update_where (\<lambda>r. v_conversation_id r = cid) ?v
      (update_where (\<lambda>r. v_conversation_id r = cid) ?u (conversations db))"
    by (rule present_cases [OF Fresh(4)]) simp
  then have d: "conversations db' = update_where (\<lambda>r. v_conversation_id r = cid) ?v
      (update_where (\<lambda>r. v_conversation_id r = cid) ?u (conversations db))"
    using put_outbox_cases(2) [OF Fresh(5)] Fresh(7) by (simp add: remember_request_def)
  have "row_by v_conversation_id cid (conversations db') = Some (?v (?u c))"
    unfolding d using row row_by_SomeD [OF row(1)] by (simp add: row_by_update_where)
  then show ?thesis using row(2) by (simp add: owned_def)
qed (use assms(2) in simp)

text \<open>C37. A message sent through the portal starts a run with exactly the authority it needs: the
  conversation belongs to the user of the token, and the command that starts the run carries a grant
  of this user, conversation and release, active for eight hours, whose scopes are the tools of
  the release and nothing else.\<close>

theorem portal_message_delegated:
  assumes "portal_create_message (platform_services P) name_id identity conversation key content w
      = (Inr (m, s), w')"
    and "find_request (pi_subject identity) (message_operation conversation) key (pw_conversation w) = None"
    and "row_by (\<lambda>r. (gi_actor r, gi_key r))
        (pi_subject identity, uuid_str (portal_name name_id conversation ''grant'' key))
        (grant_idempotency (pw_delegation w)) = None"
  shows "\<exists>c tools g. owned (pi_subject identity) conversation (pw_conversation w) = Inr c
    \<and> message_ready P identity conversation w c tools
    \<and> get_grant (g_grant_id g) (pw_delegation w') = Inr g
    \<and> g_user_id g = pi_subject identity \<and> g_conversation_id g = conversation
    \<and> g_release_id g = v_release_id c \<and> set (g_maximum_scopes g) = tool_scope ` set tools
    \<and> g_revoked_at g = None \<and> g_expires_at g = g_created_at g + hours 8
    \<and> conversation_outbox (pw_conversation w') = conversation_outbox (pw_conversation w)
        @ [outbox_entry (xe_fresh (po_conv_env P (pw_clock w + 4))) run_command_subject
            (Run_requested (message_command (pi_subject identity) c
              (portal_message name_id conversation key content (g_grant_id g)) (xe_fresh (po_conv_env P (pw_clock w + 4))))) (xe_now (po_conv_env P (pw_clock w + 4)))]
    \<and> m_run_id m = portal_name name_id conversation ''run'' key"
proof -
  obtain c tools g w3 where sent: "message_ready P identity conversation w c tools"
    "grant_step P name_id identity conversation key c tools w = (Answered (Inr g), w3)"
    "create_message (po_digests P) (pi_subject identity) conversation key
       (portal_message name_id conversation key content (g_grant_id g)) (po_conv_env P (pw_clock w + 4))
       (pw_conversation w) = Inr ((m, s), pw_conversation w')"
    "pw_delegation w' = pw_delegation w3"
    using message_sent [OF assms(1)] by metis
  have o: "owned (pi_subject identity) conversation (pw_conversation w) = Inr c"
    using sent(1) by (simp add: message_ready_def)
  let ?x = "po_conv_env P (pw_clock w + 4)" and ?e = "po_grant_env P (pw_clock w + 3)"
  note g = grant_created(1) [OF sent(2)]
  note new = grant_create_new [OF g assms(3)]
  have "get_grant (g_grant_id g) (pw_delegation w') = Inr g"
    using new(1-3) sent(4) by (simp add: get_grant_def row_by_append has_row_def new_grant_def)
  moreover have "set (g_maximum_scopes g) = tool_scope ` set tools"
    by (auto simp: new(1) new_grant_def portal_grant_body_def tool_scope_def)
  moreover have "conversation_outbox (pw_conversation w') = conversation_outbox (pw_conversation w)
        @ [outbox_entry (xe_fresh ?x) run_command_subject
            (Run_requested (message_command (pi_subject identity) c
              (portal_message name_id conversation key content (g_grant_id g)) (xe_fresh ?x))) (xe_now ?x)]
    \<and> m_run_id m = portal_name name_id conversation ''run'' key"
    using sent(3)
  proof (cases rule: create_message_cases)
    case (Fresh c' s' db2 db3)
    then show ?thesis using o present_frame(6) [OF Fresh(4)] put_outbox_cases(2) [OF Fresh(5)]
      by (simp add: remember_request_def user_message_def portal_message_def)
  qed (use assms(2) in simp)
  moreover have "g_user_id g = pi_subject identity" "g_conversation_id g = conversation"
    "g_release_id g = v_release_id c" "g_revoked_at g = None" "g_expires_at g = g_created_at g + hours 8"
    by (simp_all add: new(1) new_grant_def portal_grant_body_def)
  ultimately show ?thesis using o sent(1)
    by blast
qed

section \<open>Sending it again\<close>

text \<open>A key that was used for a grant with another digest is refused.\<close>

lemma reused_grant_key:
  assumes "grant_create D actor key body x db = Inr (grant, db1)"
    and "row_by (\<lambda>r. (gi_actor r, gi_key r)) (actor, key) (grant_idempotency db') = Some row"
    and "gi_sha256 row \<noteq> D (actor, cg_conversation_id body, cg_release_id body,
        sorted_texts (cg_maximum_scopes body), snd y + hours 8)"
  shows "grant_create D actor key body y db' = Inl (Problem 409 ''idempotency_conflict'')"
  using assms by (auto simp: grant_create_def create_grant_def split: if_splits)

text \<open>C38. A message cannot be sent again: when the same user repeats the request with the same key, even
  directly after it succeeded, Identity Delegation computes another expiry, takes the key for reused
  and refuses the grant, so the portal answers 409 and the message is not repeated. (The digest of a
  grant request tells expiries apart and the clock of Identity Delegation advances.)\<close>

theorem portal_retry_refused:
  assumes "portal_create_message (platform_services P) name_id identity conversation key content w
      = (Inr (m, s), w')"
    and "row_by (\<lambda>r. (gi_actor r, gi_key r))
        (pi_subject identity, uuid_str (portal_name name_id conversation ''grant'' key))
        (grant_idempotency (pw_delegation w)) = None"
    and "\<And>u c r ss t t'. po_grant_digest P (u, c, r, ss, t) = po_grant_digest P (u, c, r, ss, t') \<Longrightarrow> t = t'"
    and "\<And>i j. i < j \<Longrightarrow> snd (po_grant_env P i) < snd (po_grant_env P j)"
  shows "fst (portal_create_message (platform_services P) name_id identity conversation key content w')
      = Inl (Problem 409 ''idempotency_conflict'')
    \<and> pw_conversation (snd (portal_create_message (platform_services P) name_id identity conversation key
        content w')) = pw_conversation w'"
proof -
  let ?key = "uuid_str (portal_name name_id conversation ''grant'' key)"
  obtain c tools g w3 where sent: "message_ready P identity conversation w c tools"
    "grant_step P name_id identity conversation key c tools w = (Answered (Inr g), w3)"
    "create_message (po_digests P) (pi_subject identity) conversation key
       (portal_message name_id conversation key content (g_grant_id g)) (po_conv_env P (pw_clock w + 4))
       (pw_conversation w) = Inr ((m, s), pw_conversation w')"
    "pw_delegation w' = pw_delegation w3" "pw_registry w' = pw_registry w" "pw_clock w' = pw_clock w + 5"
    "key_ok key" "1 \<le> char_count content" "char_count content \<le> 20000"
    by (rule message_sent [OF assms(1)])
  let ?body = "portal_grant_body conversation (v_release_id c) tools"
  note g = grant_created(1) [OF sent(2)] and new = grant_create_new [OF grant_created(1) [OF sent(2)] assms(2)]
  obtain c' where c': "owned (pi_subject identity) conversation (pw_conversation w') = Inr c'"
    "v_release_id c' = v_release_id c"
    using owned_after_message [OF sent(3)] sent(1) by (auto simp: message_ready_def)
  then have ready: "message_ready P identity conversation w' c' tools"
    using sent(1,5) by (simp add: message_ready_def)
  have t: "snd (po_grant_env P (pw_clock w + 3)) \<noteq> snd (po_grant_env P (pw_clock w' + 3))"
    using assms(4) [of "pw_clock w + 3" "pw_clock w' + 3"] sent(6) by simp
  have row: "row_by (\<lambda>r. (gi_actor r, gi_key r)) (pi_subject identity, ?key) (grant_idempotency (pw_delegation w'))
      = Some \<lparr>gi_actor = pi_subject identity, gi_key = ?key, gi_sha256 = po_grant_digest P (pi_subject identity,
          cg_conversation_id ?body, cg_release_id ?body, sorted_texts (cg_maximum_scopes ?body),
          snd (po_grant_env P (pw_clock w + 3)) + hours 8), gi_grant_id = fst (po_grant_env P (pw_clock w + 3))\<rparr>"
    using new(4) sent(4) assms(2) by (simp add: row_by_append)
  have differs: "po_grant_digest P (pi_subject identity, cg_conversation_id ?body, cg_release_id ?body,
        sorted_texts (cg_maximum_scopes ?body), snd (po_grant_env P (pw_clock w + 3)) + hours 8)
      \<noteq> po_grant_digest P (pi_subject identity, cg_conversation_id ?body, cg_release_id ?body,
        sorted_texts (cg_maximum_scopes ?body), snd (po_grant_env P (pw_clock w' + 3)) + hours 8)"
    using t assms(3) by fastforce
  have "grant_create (po_grant_digest P) (pi_subject identity) ?key ?body
      (po_grant_env P (pw_clock w' + 3)) (pw_delegation w') = Inl (Problem 409 ''idempotency_conflict'')"
    by (rule reused_grant_key [OF g row]) (use differs in simp)
  then have "grant_step P name_id identity conversation key c' tools w'
      = (Answered (Inl (Problem 409 ''idempotency_conflict'')), tick (tick (tick (tick w'))))"
    using c'(2) by (simp add: grant_step_def delegation_tx_def eval_nat_numeral)
  then show ?thesis using sent(7-9)
    by (simp add: portal_create_message_def portal_checked_def send_message_ready [OF ready])
qed

section \<open>Cancelling a run\<close>

text \<open>The check of the portal before it cancels: the run is in the projection of the conversation.\<close>

lemma portal_cancel_steps:
  assumes "key_ok key"
  shows "portal_cancel_run (platform_services P) identity conversation run key w =
    (case projection (pi_subject identity) conversation (pw_conversation w) of
       Inl e \<Rightarrow> (Inl e, tick w)
     | Inr (c, ms, qs) \<Rightarrow>
         if run \<notin> set (map m_run_id ms) \<union> set (map q_run_id qs)
         then (Inl (Problem 404 ''Run was not found''), tick w)
         else forwarded (px_cancel (platform_services P) run key) (tick w))"
  using assms by (simp add: portal_cancel_run_def portal_checked_def split: sum.split)

lemma projected_runs:
  assumes "owned user conversation db = Inr c"
  obtains ms qs where "projection user conversation db = Inr (c, ms, qs)"
    "run \<in> set (map m_run_id ms) \<union> set (map q_run_id qs) \<longleftrightarrow>
        (\<exists>m \<in> set (messages db). m_conversation_id m = conversation \<and> m_run_id m = run)
        \<or> (\<exists>i \<in> set (input_requests db). q_conversation_id i = conversation \<and> q_run_id i = run)"
proof -
  obtain ms qs where p: "projection user conversation db = Inr (c, ms, qs)"
    "set ms = {m \<in> set (messages db). m_conversation_id m = conversation}"
    "set qs = {i \<in> set (input_requests db). q_conversation_id i = conversation}"
    using assms by (auto simp: projection_def)
  show thesis by (rule that [OF p(1)]) (use p(2,3) in auto)
qed

lemma forwarded_cancel:
  obtains r calls db where "cancel (po_cause P) (po_removed P (Suc (pw_clock w))) run key
      (po_runner_env P (Suc (pw_clock w))) (pw_runner w) = (r, calls, db)"
    "forwarded (px_cancel (platform_services P) run key) (tick w) = (r, (tick (tick w))\<lparr>pw_runner := db\<rparr>)"
proof -
  obtain r calls db where k: "cancel (po_cause P) (po_removed P (Suc (pw_clock w))) run key
      (po_runner_env P (Suc (pw_clock w))) (pw_runner w) = (r, calls, db)"
    by (cases "cancel (po_cause P) (po_removed P (Suc (pw_clock w))) run key
      (po_runner_env P (Suc (pw_clock w))) (pw_runner w)") auto
  show thesis by (rule that [OF k]) (use k in \<open>simp add: forwarded_def platform_services_def\<close>)
qed

text \<open>The portal cancels exactly the runs of the user's own conversations that have a message or an
  input request there: for every other run and for the conversations of other users it answers 404
  and nothing changes. In particular a run that was started by the answer to an input request cannot
  be cancelled before its first message.\<close>

theorem portal_cancel_owned:
  assumes "portal_cancel_run (platform_services P) identity conversation run key w = (r, w')"
    and "key_ok key"
  shows "(if (\<exists>c. owned (pi_subject identity) conversation (pw_conversation w) = Inr c)
          \<and> ((\<exists>m \<in> set (messages (pw_conversation w)). m_conversation_id m = conversation \<and> m_run_id m = run)
             \<or> (\<exists>i \<in> set (input_requests (pw_conversation w)). q_conversation_id i = conversation \<and> q_run_id i = run))
      then (\<exists>calls. cancel (po_cause P) (po_removed P (pw_clock w + 1)) run key (po_runner_env P (pw_clock w + 1))
             (pw_runner w) = (r, calls, pw_runner w'))
      else (\<exists>code. r = Inl (Problem 404 code)) \<and> pw_runner w' = pw_runner w)
    \<and> pw_conversation w' = pw_conversation w \<and> pw_delegation w' = pw_delegation w"
proof (cases "owned (pi_subject identity) conversation (pw_conversation w)")
  case (Inl e)
  then have "e = conversation_not_found" by (auto simp: owned_def split: option.splits if_splits)
  moreover have "projection (pi_subject identity) conversation (pw_conversation w) = Inl e"
    using Inl by (simp add: projection_def)
  ultimately show ?thesis
    using assms(1) portal_cancel_steps [OF assms(2)] Inl by (auto simp: conversation_not_found_def)
next
  case (Inr c)
  obtain ms qs where p: "projection (pi_subject identity) conversation (pw_conversation w) = Inr (c, ms, qs)"
    and l: "run \<in> set (map m_run_id ms) \<union> set (map q_run_id qs) \<longleftrightarrow>
        (\<exists>m \<in> set (messages (pw_conversation w)). m_conversation_id m = conversation \<and> m_run_id m = run)
        \<or> (\<exists>i \<in> set (input_requests (pw_conversation w)). q_conversation_id i = conversation \<and> q_run_id i = run)"
    by (rule projected_runs [OF Inr])
  show ?thesis
  proof (cases "run \<in> set (map m_run_id ms) \<union> set (map q_run_id qs)")
    case True
    obtain r1 calls db where k: "cancel (po_cause P) (po_removed P (Suc (pw_clock w))) run key
        (po_runner_env P (Suc (pw_clock w))) (pw_runner w) = (r1, calls, db)"
      and f: "forwarded (px_cancel (platform_services P) run key) (tick w)
          = (r1, (tick (tick w))\<lparr>pw_runner := db\<rparr>)"
      by (rule forwarded_cancel)
    have "r = r1" "w' = (tick (tick w))\<lparr>pw_runner := db\<rparr>"
      using assms(1) portal_cancel_steps [OF assms(2)] p True f by auto
    then show ?thesis using k l True Inr by auto
  next
    case False
    then have "r = Inl (Problem 404 ''Run was not found'')" "w' = tick w"
      using assms(1) portal_cancel_steps [OF assms(2)] p by auto
    moreover have "\<not> ((\<exists>m \<in> set (messages (pw_conversation w)). m_conversation_id m = conversation \<and> m_run_id m = run)
        \<or> (\<exists>i \<in> set (input_requests (pw_conversation w)). q_conversation_id i = conversation \<and> q_run_id i = run))"
      using l False by blast
    ultimately show ?thesis by auto
  qed
qed

section \<open>Instances\<close>

text \<open>A user with one conversation of the published release; Identity Delegation has no grants yet.\<close>

definition sample_expiry_digest :: grant_digest where
  "sample_expiry_digest q = (case q of (u, c, r, ss, t) \<Rightarrow>
     if 0 \<le> t then ''+'' @ replicate (nat t) (CHR ''x'') else ''-'' @ replicate (nat (- t)) (CHR ''x''))"

lemma sample_expiry_digest_inj:
  "sample_expiry_digest (u, c, r, ss, t) = sample_expiry_digest (u, c, r, ss, t') \<Longrightarrow> t = t'"
  by (auto simp: sample_expiry_digest_def split: if_splits)

definition sample_portal_registry :: registry_service where
  "sample_portal_registry = ex_service\<lparr>rv_introspect := Some (\<lambda>token. Some (J_obj
     [(''active'', J_bool True), (''aud'', J_str ''agent-registry''), (''sub'', J_str ex_user),
      (''client_id'', J_str ''portal''), (''roles'', J_arr [])]))\<rparr>"

definition sample_platform_side :: platform_side where
  "sample_platform_side = \<lparr>po_digests = sample_digests,
     po_conv_env = (\<lambda>n. ConversationProperties.sample_env (int n) (300 + n)),
     po_grant_digest = sample_expiry_digest, po_grant_env = (\<lambda>n. (200 + n, int n)),
     po_registry = sample_portal_registry, po_order = text_le, po_release_env = (\<lambda>n. (400 + n, int n)),
     po_cause = (\<lambda>s. 0), po_removed = (\<lambda>n. True),
     po_runner_env = (\<lambda>n. \<lparr>re_now = int n, re_first_event = 500, re_second_event = 501, re_bytes = 300\<rparr>),
     po_exchange = (\<lambda>token. Some (J_obj [(''access_token'', J_str ''u'')]))\<rparr>"

definition sample_portal_row :: conversation_row where
  "sample_portal_row = \<lparr>v_conversation_id = 3, v_owner_id = 7, v_thread_id = 4, v_release_id = 11,
     v_configuration_revision_id = None, v_title = ''t'', v_last_sequence = 0, v_created_at = 0,
     v_updated_at = 0, v_delegation_grant_id = None\<rparr>"

definition sample_platform :: platform where
  "sample_platform = \<lparr>pw_conversation = empty_conversation_db\<lparr>conversations := [sample_portal_row]\<rparr>,
     pw_delegation = empty_delegation_db, pw_registry = ex_db2, pw_runner = empty_runner_db, pw_clock = 0\<rparr>"

definition sample_portal_user :: portal_identity where
  "sample_portal_user = \<lparr>pi_subject = 7, pi_username = ''u'', pi_display_name = ''u'', pi_roles = [],
     pi_token = ''t''\<rparr>"

lemma sample_portal_ready:
  "message_ready sample_platform_side sample_portal_user 3 sample_platform sample_portal_row []"
proof -
  have "authenticated_identity sample_portal_registry (Some ''Bearer u'')
      = Inr \<lparr>si_subject = ex_user, si_client_id = ''portal'', si_roles = [], si_groups = [],
          si_delegated_user = None\<rparr>"
    by code_simp
  then have "get_release_by_id_endpoint sample_portal_registry 11 (Some ''Bearer u'') ex_db2
      = Inr (release_of ex_row)"
    by (simp add: get_release_by_id_endpoint_def chain_def with_problem_def get_visible_release_by_id_def
        granted_def visible_permissions_def names_subject_def new_access_def ex_terms_def)
  moreover have "release_tools (pr_manifest (release_of ex_row)) = Inr []"
    by (simp add: release_tools_def release_of_def ex_manifest_def ex_spec_def item_or_def)
  ultimately show ?thesis
    by (simp add: message_ready_def sample_portal_user_def sample_platform_def sample_portal_row_def
        owned_def sample_platform_side_def)
qed

lemma sample_portal_sent:
  "\<exists>m s w'. portal_create_message (platform_services sample_platform_side) (\<lambda>t. 60) sample_portal_user 3
      ''key-0001'' ''hi'' sample_platform = (Inr (m, s), w')"
proof -
  have k: "key_ok (uuid_str 60)" "key_ok ''key-0001''" by code_simp+
  have "\<exists>g w3. grant_step sample_platform_side (\<lambda>t. 60) sample_portal_user 3 ''key-0001'' sample_portal_row []
      sample_platform = (Answered (Inr g), w3) \<and> pw_conversation w3 = pw_conversation sample_platform"
    using k by (simp add: grant_step_def delegation_tx_def grant_create_def create_grant_def portal_name_def
        portal_grant_body_def sample_platform_def empty_delegation_db_def Let_def)
  then obtain g w3 where g: "grant_step sample_platform_side (\<lambda>t. 60) sample_portal_user 3 ''key-0001''
      sample_portal_row [] sample_platform = (Answered (Inr g), w3)"
    "pw_conversation w3 = pw_conversation sample_platform" by blast
  have c: "\<exists>m s db. create_message sample_digests 7 3 ''key-0001'' (portal_message (\<lambda>t. 60) 3 ''key-0001'' ''hi'' i)
      (ConversationProperties.sample_env now e) (pw_conversation sample_platform) = Inr ((m, s), db)" for i now e
    by (simp add: create_message_def owned_def find_request_def sample_platform_def empty_conversation_db_def
        sample_portal_row_def present_def put_outbox_def portal_message_def portal_name_def Let_def)
  have x: "po_conv_env sample_platform_side n = ConversationProperties.sample_env (int n) (300 + n)" for n
    by (simp add: sample_platform_side_def)
  have "\<exists>m s db. create_message sample_digests 7 3 ''key-0001''
      (portal_message (\<lambda>t. 60) 3 ''key-0001'' ''hi'' (g_grant_id g))
      (po_conv_env sample_platform_side (pw_clock w3)) (pw_conversation w3) = Inr ((m, s), db)"
    unfolding g(2) x by (rule c)
  then obtain m s db where "create_message sample_digests 7 3 ''key-0001''
      (portal_message (\<lambda>t. 60) 3 ''key-0001'' ''hi'' (g_grant_id g))
      (po_conv_env sample_platform_side (pw_clock w3)) (pw_conversation w3) = Inr ((m, s), db)"
    by blast
  then have "portal_send_message (platform_services sample_platform_side) (\<lambda>t. 60) sample_portal_user 3
      ''key-0001'' ''hi'' sample_platform = (Inr (m, s), (tick w3)\<lparr>pw_conversation := db\<rparr>)"
    using g(1) unfolding send_message_ready [OF sample_portal_ready]
    by (simp add: forwarded_def conversation_tx_def sample_platform_side_def sample_portal_user_def)
  then show ?thesis using k(2)
    by (auto simp: portal_create_message_def portal_checked_def char_count_def continuation_byte_def)
qed

lemma sample_portal_fresh:
  "find_request (pi_subject sample_portal_user) (message_operation 3) ''key-0001''
     (pw_conversation sample_platform) = None"
  "row_by (\<lambda>r. (gi_actor r, gi_key r))
     (pi_subject sample_portal_user, uuid_str (portal_name (\<lambda>t. 60) 3 ''grant'' ''key-0001''))
     (grant_idempotency (pw_delegation sample_platform)) = None"
  by (simp_all add: find_request_def sample_platform_def empty_conversation_db_def empty_delegation_db_def)

lemma portal_message_delegated_witness:
  "\<exists>m s w' g. portal_create_message (platform_services sample_platform_side) (\<lambda>t. 60) sample_portal_user 3
      ''key-0001'' ''hi'' sample_platform = (Inr (m, s), w')
    \<and> get_grant (g_grant_id g) (pw_delegation w') = Inr g \<and> g_user_id g = 7 \<and> m_run_id m = 60"
proof -
  obtain m s w' where sent: "portal_create_message (platform_services sample_platform_side) (\<lambda>t. 60)
      sample_portal_user 3 ''key-0001'' ''hi'' sample_platform = (Inr (m, s), w')"
    using sample_portal_sent by blast
  obtain g where "get_grant (g_grant_id g) (pw_delegation w') = Inr g" "g_user_id g = pi_subject sample_portal_user"
    "m_run_id m = portal_name (\<lambda>t. 60) 3 ''run'' ''key-0001''"
    using portal_message_delegated [OF sent sample_portal_fresh] by blast
  then show ?thesis using sent by (auto simp: sample_portal_user_def portal_name_def)
qed

lemma portal_retry_refused_witness:
  "\<exists>m s w'. portal_create_message (platform_services sample_platform_side) (\<lambda>t. 60) sample_portal_user 3
      ''key-0001'' ''hi'' sample_platform = (Inr (m, s), w')
    \<and> fst (portal_create_message (platform_services sample_platform_side) (\<lambda>t. 60) sample_portal_user 3
        ''key-0001'' ''hi'' w') = Inl (Problem 409 ''idempotency_conflict'')"
proof -
  obtain m s w' where sent: "portal_create_message (platform_services sample_platform_side) (\<lambda>t. 60)
      sample_portal_user 3 ''key-0001'' ''hi'' sample_platform = (Inr (m, s), w')"
    using sample_portal_sent by blast
  have d: "po_grant_digest sample_platform_side (u, c, r, ss, t)
      = po_grant_digest sample_platform_side (u, c, r, ss, t') \<Longrightarrow> t = t'" for u c r ss t t'
    using sample_expiry_digest_inj [of u c r ss t t'] by (simp add: sample_platform_side_def)
  have e: "i < j \<Longrightarrow> snd (po_grant_env sample_platform_side i) < snd (po_grant_env sample_platform_side j)" for i j
    by (simp add: sample_platform_side_def)
  have "fst (portal_create_message (platform_services sample_platform_side) (\<lambda>t. 60) sample_portal_user 3
        ''key-0001'' ''hi'' w') = Inl (Problem 409 ''idempotency_conflict'')"
    by (rule portal_retry_refused [OF sent sample_portal_fresh(2), THEN conjunct1]; (erule d | erule e))
  then show ?thesis using sent by blast
qed

text \<open>The run of a message of somebody else's conversation stays as it is.\<close>

lemma portal_cancel_owned_witness:
  "\<exists>code w'. portal_cancel_run (platform_services sample_platform_side) (sample_portal_user\<lparr>pi_subject := 8\<rparr>) 3 60
      ''key-0001'' sample_platform = (Inl (Problem 404 code), w')
    \<and> pw_runner w' = pw_runner sample_platform"
proof -
  have k: "key_ok ''key-0001''" by code_simp
  obtain r w' where c: "portal_cancel_run (platform_services sample_platform_side)
      (sample_portal_user\<lparr>pi_subject := 8\<rparr>) 3 60 ''key-0001'' sample_platform = (r, w')"
    by (cases "portal_cancel_run (platform_services sample_platform_side)
      (sample_portal_user\<lparr>pi_subject := 8\<rparr>) 3 60 ''key-0001'' sample_platform") auto
  have "messages (pw_conversation sample_platform) = []" "input_requests (pw_conversation sample_platform) = []"
    by (simp_all add: sample_platform_def empty_conversation_db_def)
  then show ?thesis using portal_cancel_owned [OF c k] c by auto
qed

end
